(* ===== verification/Prelude.thy ===== *)
theory Prelude
  imports Main
begin

text \<open>
  Shared vocabulary of the development.

  \<^item> \<open>result\<close>: a TypeScript function that returns or throws is a function into
    \<open>'e + 'a\<close>; \<open>Inl\<close> is the thrown error. \<open>andThen\<close> sequences two such calls,
    \<open>bindS\<close> sequences two database statements of one transaction and \<open>run_tx\<close> is the
    unit of work: a body that throws leaves the database as it was.
  \<^item> \<open>json\<close>: parsed JSON values, for the code that checks an \<^verbatim>\<open>unknown\<close>.
  \<^item> \<open>js_number\<close>: the JavaScript numbers the code tests with \<^verbatim>\<open>Number.isSafeInteger\<close>.
  \<^item> instants: a \<^verbatim>\<open>Date\<close> is its \<^verbatim>\<open>getTime()\<close>, milliseconds as an \<open>int\<close>;
    an invalid \<^verbatim>\<open>Date\<close> (time value NaN) is \<open>None\<close> where the code tests for it.
  \<^item> strings, character classes and UUIDs.
  \<^item> tables: lists of rows with a primary key, and the sums the services keep over them.
  \<^item> \<open>transition_system\<close>: initial states, steps, and an invariant every step keeps.
\<close>

section \<open>Results\<close>

named_theorems res_inv \<open>inversion of a call that returned\<close>

type_synonym instant = int
type_synonym ('e, 'a) result = "'e + 'a"
type_synonym ('s, 'e, 'a) tx = "'s \<Rightarrow> 'e + 'a \<times> 's"

definition andThen :: "'e + 'a \<Rightarrow> ('a \<Rightarrow> 'e + 'b) \<Rightarrow> 'e + 'b" where
  "andThen m f = (case m of Inl e \<Rightarrow> Inl e | Inr x \<Rightarrow> f x)"

definition bindS :: "'e + 'a \<times> 's \<Rightarrow> ('a \<Rightarrow> 's \<Rightarrow> 'e + 'b) \<Rightarrow> 'e + 'b" where
  "bindS m f = (case m of Inl e \<Rightarrow> Inl e | Inr (x, s) \<Rightarrow> f x s)"

definition run_tx :: "('s, 'e, 'a) tx \<Rightarrow> 's \<Rightarrow> ('e + 'a) \<times> 's" where
  "run_tx body s = (case body s of Inl e \<Rightarrow> (Inl e, s) | Inr (a, s') \<Rightarrow> (Inr a, s'))"

lemma andThen_simps [simp]:
  "andThen (Inl e) f = Inl e"
  "andThen (Inr x) f = f x"
  by (simp_all add: andThen_def)

lemma bindS_simps [simp]:
  "bindS (Inl e) f = Inl e"
  "bindS (Inr (x, s)) f = f x s"
  by (simp_all add: bindS_def)

lemma andThen_Inr [simp, res_inv]:
  "andThen m f = Inr y \<longleftrightarrow> (\<exists>x. m = Inr x \<and> f x = Inr y)"
  by (cases m) auto

lemma andThen_Inl [res_inv]:
  "andThen m f = Inl e \<longleftrightarrow> m = Inl e \<or> (\<exists>x. m = Inr x \<and> f x = Inl e)"
  by (cases m) auto

lemma bindS_Inr [simp, res_inv]:
  "bindS m f = Inr y \<longleftrightarrow> (\<exists>x s. m = Inr (x, s) \<and> f x s = Inr y)"
  by (cases m) auto

lemma bindS_Inl [res_inv]:
  "bindS m f = Inl e \<longleftrightarrow> m = Inl e \<or> (\<exists>x s. m = Inr (x, s) \<and> f x s = Inl e)"
  by (cases m) auto

lemma run_tx_simps [simp]:
  "body s = Inl e \<Longrightarrow> run_tx body s = (Inl e, s)"
  "body s = Inr (a, s') \<Longrightarrow> run_tx body s = (Inr a, s')"
  by (simp_all add: run_tx_def)

text \<open>An invariant kept by every completed body is kept by the unit of work.\<close>

lemma run_tx_invariant:
  assumes "I s" and "\<And>a s'. body s = Inr (a, s') \<Longrightarrow> I s'"
  shows "I (snd (run_tx body s))"
  using assms by (cases "body s") (auto simp: run_tx_def)

lemma run_tx_Inl: "fst (run_tx body s) = Inl e \<Longrightarrow> snd (run_tx body s) = s"
  by (auto simp: run_tx_def split: sum.splits prod.splits)

section \<open>JavaScript numbers\<close>

text \<open>
  \<open>JsInt\<close> is an integral number; \<open>JsOther\<close> any number that is not integral (a fraction,
  NaN or an infinity). The code that receives one always tests
  \<^verbatim>\<open>Number.isSafeInteger\<close> first, which refuses every \<open>JsOther\<close>.
\<close>

datatype js_number = JsInt int | JsOther

definition MAX_SAFE_INTEGER :: int where
  "MAX_SAFE_INTEGER = 2 ^ 53 - 1"

fun isSafeInteger :: "js_number \<Rightarrow> bool" where
  "isSafeInteger (JsInt n) = (\<bar>n\<bar> \<le> MAX_SAFE_INTEGER)"
| "isSafeInteger JsOther = False"

section \<open>JSON values\<close>

text \<open>A parsed JSON value; the keys of an object are distinct and in their order of appearance.\<close>

datatype json =
    JNull
  | JBool bool
  | JNumber js_number
  | JString string
  | JArray "json list"
  | JObject "(string \<times> json) list"

section \<open>Strings, character classes, UUIDs\<close>

definition in_range :: "char \<Rightarrow> char \<Rightarrow> char \<Rightarrow> bool" where
  "in_range lo hi c \<longleftrightarrow> (of_char lo :: nat) \<le> of_char c \<and> (of_char c :: nat) \<le> of_char hi"

definition is_digit :: "char \<Rightarrow> bool" where
  "is_digit c = in_range CHR ''0'' CHR ''9'' c"

definition is_upper :: "char \<Rightarrow> bool" where
  "is_upper c = in_range CHR ''A'' CHR ''Z'' c"

definition is_lower :: "char \<Rightarrow> bool" where
  "is_lower c = in_range CHR ''a'' CHR ''z'' c"

definition to_lower :: "char \<Rightarrow> char" where
  "to_lower c = (if is_upper c then char_of ((of_char c :: nat) + 32) else c)"

definition to_upper :: "char \<Rightarrow> char" where
  "to_upper c = (if is_lower c then char_of ((of_char c :: nat) - 32) else c)"

definition toLowerCase :: "string \<Rightarrow> string" where
  "toLowerCase s = map to_lower s"

definition toUpperCase :: "string \<Rightarrow> string" where
  "toUpperCase s = map to_upper s"

lemma to_lower_idem [simp]: "to_lower (to_lower c) = to_lower c"
proof (cases "is_upper c")
  case True
  then have "65 \<le> (of_char c :: nat)" "(of_char c :: nat) \<le> 90"
    by (auto simp: is_upper_def in_range_def)
  then have "\<not> is_upper (char_of ((of_char c :: nat) + 32))"
    by (simp add: is_upper_def in_range_def)
  with True show ?thesis by (simp add: to_lower_def)
qed (simp add: to_lower_def)

lemma to_upper_idem [simp]: "to_upper (to_upper c) = to_upper c"
proof (cases "is_lower c")
  case True
  then have "97 \<le> (of_char c :: nat)" "(of_char c :: nat) \<le> 122"
    by (auto simp: is_lower_def in_range_def)
  then have "\<not> is_lower (char_of ((of_char c :: nat) - 32))"
    by (simp add: is_lower_def in_range_def)
  with True show ?thesis by (simp add: to_upper_def)
qed (simp add: to_upper_def)

lemma toLowerCase_idem [simp]: "toLowerCase (toLowerCase s) = toLowerCase s"
  by (simp add: toLowerCase_def)

lemma toUpperCase_idem [simp]: "toUpperCase (toUpperCase s) = toUpperCase s"
  by (simp add: toUpperCase_def)

definition is_hex :: "char \<Rightarrow> bool" where
  "is_hex c \<longleftrightarrow> is_digit c \<or> in_range CHR ''a'' CHR ''f'' (to_lower c)"

text \<open>
  The pattern of the services' \<^verbatim>\<open>UUID\<close> constant, one class per position. It is
  case-insensitive (the \<^verbatim>\<open>i\<close> flag).
\<close>

definition uuid_pattern :: "(char \<Rightarrow> bool) list" where
  "uuid_pattern =
     replicate 8 is_hex @ [\<lambda>c. c = CHR ''-''] @ replicate 4 is_hex @ [\<lambda>c. c = CHR ''-''] @
     [in_range CHR ''1'' CHR ''8''] @ replicate 3 is_hex @ [\<lambda>c. c = CHR ''-''] @
     [\<lambda>c. to_lower c \<in> set ''89ab''] @ replicate 3 is_hex @ [\<lambda>c. c = CHR ''-''] @
     replicate 12 is_hex"

definition isUuid :: "string \<Rightarrow> bool" where
  "isUuid s \<longleftrightarrow> list_all2 (\<lambda>p c. p c) uuid_pattern s"

lemma isUuid_length: "isUuid s \<Longrightarrow> length s = 36"
  by (auto simp: isUuid_def uuid_pattern_def dest: list_all2_lengthD)

lemma is_digit_to_lower [simp]: "is_digit (to_lower c) = is_digit c"
  by (cases "is_upper c") (auto simp: to_lower_def is_upper_def is_digit_def in_range_def)

lemma is_hex_to_lower [simp]: "is_hex (to_lower c) = is_hex c"
  by (simp add: is_hex_def)

lemma to_lower_fixed:
  assumes "\<not> is_upper d" and "\<not> is_lower d"
  shows "to_lower c = d \<longleftrightarrow> c = d"
proof (cases "is_upper c")
  case True
  then have "is_lower (to_lower c)"
    by (auto simp: to_lower_def is_upper_def is_lower_def in_range_def)
  with True assms show ?thesis by auto
qed (simp add: to_lower_def)

lemma to_lower_range [simp]:
  "in_range CHR ''1'' CHR ''8'' (to_lower c) = in_range CHR ''1'' CHR ''8'' c"
  "to_lower c = CHR ''-'' \<longleftrightarrow> c = CHR ''-''"
proof -
  show "in_range CHR ''1'' CHR ''8'' (to_lower c) = in_range CHR ''1'' CHR ''8'' c"
    by (cases "is_upper c") (auto simp: to_lower_def is_upper_def in_range_def)
  show "to_lower c = CHR ''-'' \<longleftrightarrow> c = CHR ''-''"
    by (rule to_lower_fixed) (auto simp: is_upper_def is_lower_def in_range_def)
qed

lemma isUuid_toLowerCase [simp]: "isUuid (toLowerCase s) = isUuid s"
  by (simp add: isUuid_def uuid_pattern_def toLowerCase_def list_all2_map2 list_all2_append1
      list_all2_Cons1 numeral_eq_Suc)

text \<open>UUIDs of one repeated digit, for the examples.\<close>

definition ex_uuid :: "char \<Rightarrow> string" where
  "ex_uuid c = replicate 8 c @ ''-'' @ replicate 4 c @ ''-'' @ ''4'' @ replicate 3 c @ ''-'' @ ''a'' @
               replicate 3 c @ ''-'' @ replicate 12 c"

lemma isUuid_ex_uuid: "is_hex c \<Longrightarrow> isUuid (ex_uuid c)"
  by (simp add: isUuid_def uuid_pattern_def ex_uuid_def numeral_eq_Suc in_range_def to_lower_def is_upper_def)

lemma toLowerCase_ex_uuid [simp]: "toLowerCase (ex_uuid c) = ex_uuid (to_lower c)"
  by (simp add: toLowerCase_def ex_uuid_def) (simp add: in_range_def to_lower_def is_upper_def)

lemma ex_uuid_eq [simp]: "ex_uuid c = ex_uuid d \<longleftrightarrow> c = d"
  by (simp add: ex_uuid_def numeral_eq_Suc)

definition ex_key :: "char \<Rightarrow> string" where
  "ex_key c = replicate 16 c"

lemma ex_key_eq [simp]: "ex_key c = ex_key d \<longleftrightarrow> c = d"
  by (simp add: ex_key_def)

lemma ex_char [simp]:
  "c \<in> set ''0123456789abcdef'' \<Longrightarrow> isUuid (ex_uuid c)"
  "c \<in> set ''0123456789abcdef'' \<Longrightarrow> to_lower c = c"
  by (auto intro!: isUuid_ex_uuid simp: is_hex_def is_digit_def in_range_def to_lower_def is_upper_def)

section \<open>Tables\<close>

text \<open>
  A database table is the list of its rows. \<open>find_row\<close> is a \<^verbatim>\<open>SELECT\<close> by primary key,
  \<open>update_rows\<close> an \<^verbatim>\<open>UPDATE ... WHERE\<close>, \<open>sum_rows\<close> the sum of a column over the rows
  that satisfy a condition.
\<close>

definition find_row :: "('r \<Rightarrow> 'k) \<Rightarrow> 'k \<Rightarrow> 'r list \<Rightarrow> 'r option" where
  "find_row key k rows = find (\<lambda>r. key r = k) rows"

definition update_rows :: "('r \<Rightarrow> bool) \<Rightarrow> ('r \<Rightarrow> 'r) \<Rightarrow> 'r list \<Rightarrow> 'r list" where
  "update_rows hit f rows = map (\<lambda>r. if hit r then f r else r) rows"

definition sum_rows :: "('r \<Rightarrow> int) \<Rightarrow> ('r \<Rightarrow> bool) \<Rightarrow> 'r list \<Rightarrow> int" where
  "sum_rows amount P rows = sum_list (map amount (filter P rows))"

lemma find_Some_mem: "find P xs = Some x \<Longrightarrow> x \<in> set xs \<and> P x"
  by (auto simp: find_Some_iff)

lemma find_filter_keeps: "find P xs = Some x \<Longrightarrow> Q x \<Longrightarrow> find P (filter Q xs) = Some x"
  by (induction xs) (auto split: if_splits)

lemma find_update_rows:
  "(\<And>r. P (f r) = P r) \<Longrightarrow>
   find P (update_rows hit f rows) = map_option (\<lambda>r. if hit r then f r else r) (find P rows)"
  by (induction rows) (auto simp: update_rows_def)

lemma find_row_Some:
  "find_row key k rows = Some r \<Longrightarrow> r \<in> set rows \<and> key r = k"
  by (auto simp: find_row_def find_Some_iff)

lemma find_row_None:
  "find_row key k rows = None \<longleftrightarrow> k \<notin> key ` set rows"
  by (auto simp: find_row_def find_None_iff)

lemma find_row_distinct:
  "distinct (map key rows) \<Longrightarrow> r \<in> set rows \<Longrightarrow> find_row key (key r) rows = Some r"
  by (induction rows) (auto simp: find_row_def image_iff)

lemma distinct_key_eq:
  "distinct (map key rows) \<Longrightarrow> r \<in> set rows \<Longrightarrow> r' \<in> set rows \<Longrightarrow> key r = key r' \<Longrightarrow> r = r'"
  by (meson distinct_map inj_on_def)

lemma filter_the_one: "distinct xs \<Longrightarrow> x \<in> set xs \<Longrightarrow> filter (\<lambda>y. x = y) xs = [x]"
  by (induction xs) (auto simp: filter_empty_conv)

lemma map_key_update_rows [simp]:
  "(\<And>r. key (f r) = key r) \<Longrightarrow> map key (update_rows hit f rows) = map key rows"
  by (auto simp: update_rows_def)

lemma set_update_rows:
  "set (update_rows hit f rows) = {if hit r then f r else r |r. r \<in> set rows}"
  by (auto simp: update_rows_def)

lemma sum_rows_Nil [simp]: "sum_rows amount P [] = 0"
  by (simp add: sum_rows_def)

lemma sum_rows_Cons [simp]:
  "sum_rows amount P (r # rows) = (if P r then amount r else 0) + sum_rows amount P rows"
  by (simp add: sum_rows_def)

lemma sum_rows_append [simp]:
  "sum_rows amount P (rows @ rows') = sum_rows amount P rows + sum_rows amount P rows'"
  by (simp add: sum_rows_def)

lemma sum_rows_nonneg: "(\<And>r. r \<in> set rows \<Longrightarrow> 0 \<le> amount r) \<Longrightarrow> 0 \<le> sum_rows amount P rows"
  by (induction rows) auto

lemma sum_rows_cong:
  "(\<And>r. r \<in> set rows \<Longrightarrow> P r = Q r) \<Longrightarrow> sum_rows amount P rows = sum_rows amount Q rows"
  by (induction rows) auto

lemma sum_rows_mono:
  assumes "\<And>r. r \<in> set rows \<Longrightarrow> 0 \<le> amount r" and "\<And>r. r \<in> set rows \<Longrightarrow> P r \<Longrightarrow> Q r"
  shows "sum_rows amount P rows \<le> sum_rows amount Q rows"
  using assms by (induction rows) fastforce+

lemma sum_rows_member_le:
  assumes "r \<in> set rows" and "P r" and "\<And>r. r \<in> set rows \<Longrightarrow> 0 \<le> amount r"
  shows "amount r \<le> sum_rows amount P rows"
  using assms
proof (induction rows)
  case (Cons x rows)
  then have tl: "0 \<le> sum_rows amount P rows" by (auto intro!: sum_rows_nonneg)
  have hd: "0 \<le> amount x" using Cons.prems(3) by simp
  show ?case
  proof (cases "r = x")
    case True
    with Cons.prems tl show ?thesis by simp
  next
    case False
    with Cons.prems have "amount r \<le> sum_rows amount P rows" by (intro Cons.IH) auto
    with hd show ?thesis by simp
  qed
qed simp

text \<open>Replacing one row of a table with distinct keys changes a sum_rows by that row only.\<close>

lemma sum_rows_update_key:
  assumes "distinct (map key rows)" and "r \<in> set rows"
  shows "sum_rows amount P (update_rows (\<lambda>x. key x = key r) f rows) =
         sum_rows amount P rows - (if P r then amount r else 0) + (if P (f r) then amount (f r) else 0)"
  using assms
proof (induction rows)
  case (Cons x rows)
  show ?case
  proof (cases "x = r")
    case True
    with Cons.prems have "\<forall>y \<in> set rows. key y \<noteq> key r" by (auto simp: image_iff)
    then have "update_rows (\<lambda>x. key x = key r) f rows = rows"
      by (simp add: update_rows_def map_idI)
    with True show ?thesis by (simp add: update_rows_def)
  next
    case False
    with Cons.prems have "key x \<noteq> key r" "r \<in> set rows" "distinct (map key rows)" by auto
    with Cons.IH show ?thesis by (simp add: update_rows_def)
  qed
qed simp

text \<open>Rows an update takes out of the condition no longer count; rows it leaves in still do.\<close>

lemma sum_rows_update_out:
  "(\<And>r. hit r \<Longrightarrow> \<not> P (f r)) \<Longrightarrow>
   sum_rows amount P (update_rows hit f rows) = sum_rows amount (\<lambda>r. P r \<and> \<not> hit r) rows"
  by (induction rows) (auto simp: update_rows_def)

lemma sum_rows_filter_split:
  "sum_rows amount P rows = sum_rows amount (\<lambda>r. P r \<and> Q r) rows + sum_rows amount (\<lambda>r. P r \<and> \<not> Q r) rows"
  by (induction rows) auto

section \<open>Transition systems\<close>

text \<open>
  A system that starts in one of its initial states and moves by its steps; what every step
  keeps holds of every state it reaches.
\<close>

locale transition_system =
  fixes init :: "'s \<Rightarrow> bool" and step :: "'s \<Rightarrow> 's \<Rightarrow> bool" and inv :: "'s \<Rightarrow> bool"
  assumes init_inv: "init s \<Longrightarrow> inv s" and step_inv: "inv s \<Longrightarrow> step s s' \<Longrightarrow> inv s'"
begin

lemma run_inv: "step\<^sup>*\<^sup>* s s' \<Longrightarrow> inv s \<Longrightarrow> inv s'"
  by (induction rule: rtranclp_induct) (auto intro: step_inv)

lemma reachable_inv: "init s \<Longrightarrow> step\<^sup>*\<^sup>* s s' \<Longrightarrow> inv s'"
  by (blast intro: run_inv init_inv)

end

end
