(* ===== verification/Sched_Window.thy ===== *)
theory Sched_Window
  imports Prelude
begin

text \<open>
  Scheduling, the capacity window: \<^verbatim>\<open>services/scheduling/src/domain/errors.ts\<close> and
  \<^verbatim>\<open>capacity-window.ts\<close>. A window has \<open>capacity\<close> units, of which \<open>held\<close> belong to
  ACTIVE holds and \<open>reserved\<close> to committed ones. Every operation returns the next window or
  the error it throws; the lemmas show that each one keeps the window well formed (no unit
  is sold twice) and what it does to the free units.
\<close>

section \<open>Errors\<close>

datatype sched_code =
    INVALID_INPUT | WINDOW_NOT_FOUND | WINDOW_EXISTS | WINDOW_OVERLAPS | WINDOW_CLOSED
  | WINDOW_STARTED | CAPACITY_EXHAUSTED | CAPACITY_BELOW_COMMITTED | HOLD_NOT_FOUND
  | HOLD_EXPIRED | HOLD_NOT_ACTIVE | IDEMPOTENCY_KEY_REUSED | IDEMPOTENCY_KEY_REQUIRED
  | IDEMPOTENCY_IN_PROGRESS | VERSION_CONFLICT | SLOT_UNAVAILABLE | OUTSIDE_HORIZON
  | HOLD_LIMIT_REACHED | BOOKING_ALREADY_COMMITTED | COMMITMENT_NOT_FOUND | FORBIDDEN

text \<open>
  What a scheduling command can throw: a \<^verbatim>\<open>SchedulingError\<close> with its code (the message is
  diagnostic text and is not modelled), a plain \<^verbatim>\<open>Error\<close> with its message (a defect, never
  an answer), the store's \<^verbatim>\<open>ConcurrencyViolation\<close>, or a constraint error of the database.
\<close>

datatype sched_error =
    SchedulingError sched_code
  | PlainError string
  | ConcurrencyViolation string
  | UniqueViolation

definition invalid :: sched_error where
  "invalid = SchedulingError INVALID_INPUT"

section \<open>The window and its operations\<close>

datatype window_status = OPEN | CLOSED

record capacity_window =
  w_id :: string
  w_zoneId :: string
  w_startsAt :: instant
  w_endsAt :: instant
  w_capacity :: int
  w_held :: int
  w_reserved :: int
  w_status :: window_status
  w_version :: int

definition minDurationMs :: int where "minDurationMs = 15 * 60000"
definition maxDurationMs :: int where "maxDurationMs = 12 * 60 * 60000"
definition maxCapacity :: int where "maxCapacity = 500"
definition maxHorizonMs :: int where "maxHorizonMs = 120 * 24 * 60 * 60000"

lemmas window_limits = minDurationMs_def maxDurationMs_def maxCapacity_def maxHorizonMs_def

text \<open>\<^verbatim>\<open>assertCapacityValue\<close> returns nothing; here it returns the integer it accepted.\<close>

fun assertCapacityValue :: "js_number \<Rightarrow> sched_error + int" where
  "assertCapacityValue (JsInt c) =
     (if \<not> isSafeInteger (JsInt c) \<or> c < 0 \<or> maxCapacity < c then Inl invalid else Inr c)"
| "assertCapacityValue JsOther = Inl invalid"

text \<open>
  \<^verbatim>\<open>assertWindowDefinition\<close>: \<open>None\<close> is an invalid \<^verbatim>\<open>Date\<close>. It returns the instants
  and the capacity it accepted.
\<close>

fun assertWindowDefinition ::
  "instant option \<Rightarrow> instant option \<Rightarrow> js_number \<Rightarrow> instant \<Rightarrow>
   sched_error + instant \<times> instant \<times> int" where
  "assertWindowDefinition (Some startsAt) (Some endsAt) capacity now =
     (let duration = endsAt - startsAt in
      if duration < minDurationMs \<or> maxDurationMs < duration then Inl invalid
      else if startsAt \<le> now then Inl invalid
      else if maxHorizonMs < startsAt - now then Inl invalid
      else andThen (assertCapacityValue capacity) (\<lambda>c. Inr (startsAt, endsAt, c)))"
| "assertWindowDefinition _ _ capacity now = Inl invalid"

definition freeUnits :: "capacity_window \<Rightarrow> int" where
  "freeUnits w = w_capacity w - w_held w - w_reserved w"

definition holdUnits ::
  "capacity_window \<Rightarrow> int \<Rightarrow> instant \<Rightarrow> instant \<Rightarrow> sched_error + capacity_window" where
  "holdUnits w units now slotStartsAt =
     (if w_status w \<noteq> OPEN then Inl (SchedulingError WINDOW_CLOSED)
      else if slotStartsAt \<le> now then Inl (SchedulingError WINDOW_STARTED)
      else if freeUnits w < units then Inl (SchedulingError CAPACITY_EXHAUSTED)
      else Inr (w\<lparr>w_held := w_held w + units, w_version := w_version w + 1\<rparr>))"

definition releaseHeldUnits :: "capacity_window \<Rightarrow> int \<Rightarrow> sched_error + capacity_window" where
  "releaseHeldUnits w units =
     (if w_held w < units then Inl (PlainError ''HELD_UNDERFLOW'')
      else Inr (w\<lparr>w_held := w_held w - units, w_version := w_version w + 1\<rparr>))"

definition convertHeldToReserved :: "capacity_window \<Rightarrow> int \<Rightarrow> sched_error + capacity_window" where
  "convertHeldToReserved w units =
     (if w_held w < units then Inl (PlainError ''HELD_UNDERFLOW'')
      else Inr (w\<lparr>w_held := w_held w - units, w_reserved := w_reserved w + units,
                  w_version := w_version w + 1\<rparr>))"

definition releaseReservedUnits :: "capacity_window \<Rightarrow> int \<Rightarrow> sched_error + capacity_window" where
  "releaseReservedUnits w units =
     (if w_reserved w < units then Inl (PlainError ''RESERVED_UNDERFLOW'')
      else Inr (w\<lparr>w_reserved := w_reserved w - units, w_version := w_version w + 1\<rparr>))"

definition changeCapacity :: "capacity_window \<Rightarrow> js_number \<Rightarrow> sched_error + capacity_window" where
  "changeCapacity w capacity =
     andThen (assertCapacityValue capacity) (\<lambda>c.
       if c < w_held w + w_reserved w then Inl (SchedulingError CAPACITY_BELOW_COMMITTED)
       else Inr (w\<lparr>w_capacity := c, w_version := w_version w + 1\<rparr>))"

definition closeWindow :: "capacity_window \<Rightarrow> capacity_window" where
  "closeWindow w =
     (if w_status w = CLOSED then w else w\<lparr>w_status := CLOSED, w_version := w_version w + 1\<rparr>)"

lemmas window_ops =
  holdUnits_def releaseHeldUnits_def convertHeldToReserved_def releaseReservedUnits_def
  changeCapacity_def closeWindow_def

section \<open>Well-formed windows\<close>

text \<open>The CHECK constraints of the \<^verbatim>\<open>capacity_window\<close> table.\<close>

definition wf_window :: "capacity_window \<Rightarrow> bool" where
  "wf_window w \<longleftrightarrow>
     0 \<le> w_held w \<and> 0 \<le> w_reserved w \<and> w_held w + w_reserved w \<le> w_capacity w \<and>
     w_capacity w \<le> maxCapacity \<and> w_startsAt w < w_endsAt w \<and> 1 \<le> w_version w"

text \<open>What identifies a window and its time never changes.\<close>

definition same_window :: "capacity_window \<Rightarrow> capacity_window \<Rightarrow> bool" where
  "same_window w w' \<longleftrightarrow>
     w_id w' = w_id w \<and> w_zoneId w' = w_zoneId w \<and>
     w_startsAt w' = w_startsAt w \<and> w_endsAt w' = w_endsAt w"

lemma same_window_refl [simp, intro]: "same_window w w"
  by (simp add: same_window_def)

lemma same_window_trans: "same_window w w' \<Longrightarrow> same_window w' w'' \<Longrightarrow> same_window w w''"
  by (simp add: same_window_def)

lemma assertCapacityValue_Inr [simp]:
  "assertCapacityValue n = Inr c \<longleftrightarrow> n = JsInt c \<and> 0 \<le> c \<and> c \<le> maxCapacity"
  by (cases n) (auto simp: maxCapacity_def MAX_SAFE_INTEGER_def)

declare assertCapacityValue.simps [simp del]

lemma assertWindowDefinition_Inr:
  "assertWindowDefinition s e cap now = Inr (s', e', c) \<longleftrightarrow>
     s = Some s' \<and> e = Some e' \<and> cap = JsInt c \<and> 0 \<le> c \<and> c \<le> maxCapacity \<and>
     minDurationMs \<le> e' - s' \<and> e' - s' \<le> maxDurationMs \<and> now < s' \<and> s' - now \<le> maxHorizonMs"
  by (cases "(s, e, cap, now)" rule: assertWindowDefinition.cases)
    (auto simp: Let_def split: if_splits)

lemma holdUnits_Inr:
  "holdUnits w u now at = Inr w' \<longleftrightarrow>
     w_status w = OPEN \<and> now < at \<and> u \<le> freeUnits w \<and>
     w' = w\<lparr>w_held := w_held w + u, w_version := w_version w + 1\<rparr>"
  by (auto simp: holdUnits_def)

lemma releaseHeldUnits_Inr:
  "releaseHeldUnits w u = Inr w' \<longleftrightarrow>
     u \<le> w_held w \<and> w' = w\<lparr>w_held := w_held w - u, w_version := w_version w + 1\<rparr>"
  by (auto simp: releaseHeldUnits_def)

lemma convertHeldToReserved_Inr:
  "convertHeldToReserved w u = Inr w' \<longleftrightarrow>
     u \<le> w_held w \<and>
     w' = w\<lparr>w_held := w_held w - u, w_reserved := w_reserved w + u, w_version := w_version w + 1\<rparr>"
  by (auto simp: convertHeldToReserved_def)

lemma releaseReservedUnits_Inr:
  "releaseReservedUnits w u = Inr w' \<longleftrightarrow>
     u \<le> w_reserved w \<and> w' = w\<lparr>w_reserved := w_reserved w - u, w_version := w_version w + 1\<rparr>"
  by (auto simp: releaseReservedUnits_def)

lemma changeCapacity_Inr:
  "changeCapacity w n = Inr w' \<longleftrightarrow>
     (\<exists>c. n = JsInt c \<and> 0 \<le> c \<and> c \<le> maxCapacity \<and> w_held w + w_reserved w \<le> c \<and>
          w' = w\<lparr>w_capacity := c, w_version := w_version w + 1\<rparr>)"
proof (cases "assertCapacityValue n")
  case (Inl e)
  then have "\<nexists>c. n = JsInt c \<and> 0 \<le> c \<and> c \<le> maxCapacity"
    by (metis assertCapacityValue_Inr sum.distinct(1))
  with Inl show ?thesis by (auto simp: changeCapacity_def)
qed (auto simp: changeCapacity_def)

lemmas window_ops_Inr =
  holdUnits_Inr releaseHeldUnits_Inr convertHeldToReserved_Inr releaseReservedUnits_Inr
  changeCapacity_Inr

section \<open>The contract of a counter operation\<close>

text \<open>
  Every window operation the commands use follows one contract: on units \<open>0 \<le> u\<close> it keeps
  the window well formed and the same window, and moves its two counters by fixed amounts. A
  client that only knows the contract can conclude that the free units change by exactly what
  the counters do.
\<close>

locale counter_op =
  fixes step :: "int \<Rightarrow> capacity_window \<Rightarrow> sched_error + capacity_window"
    and dheld :: "int \<Rightarrow> int" and dreserved :: "int \<Rightarrow> int"
  assumes step_wf: "0 \<le> u \<Longrightarrow> wf_window w \<Longrightarrow> step u w = Inr w' \<Longrightarrow> wf_window w'"
    and step_same: "step u w = Inr w' \<Longrightarrow> same_window w w'"
    and step_held: "step u w = Inr w' \<Longrightarrow> w_held w' = w_held w + dheld u"
    and step_reserved: "step u w = Inr w' \<Longrightarrow> w_reserved w' = w_reserved w + dreserved u"
    and step_capacity: "step u w = Inr w' \<Longrightarrow> w_capacity w' = w_capacity w"
    and step_version: "step u w = Inr w' \<Longrightarrow> w_version w < w_version w'"
begin

lemma step_free:
  "step u w = Inr w' \<Longrightarrow> freeUnits w' = freeUnits w - dheld u - dreserved u"
  by (simp add: freeUnits_def step_held step_reserved step_capacity)

lemma step_no_oversell:
  "0 \<le> u \<Longrightarrow> wf_window w \<Longrightarrow> step u w = Inr w' \<Longrightarrow> 0 \<le> freeUnits w'"
  by (drule (2) step_wf) (simp add: freeUnits_def wf_window_def)

end

interpretation hold_op: counter_op "\<lambda>u w. holdUnits w u now at" "\<lambda>u. u" "\<lambda>u. 0" for now at
  by unfold_locales
    (auto simp: holdUnits_Inr wf_window_def same_window_def freeUnits_def)

interpretation release_op: counter_op "\<lambda>u w. releaseHeldUnits w u" "\<lambda>u. - u" "\<lambda>u. 0"
  by unfold_locales (auto simp: releaseHeldUnits_Inr wf_window_def same_window_def)

interpretation convert_op: counter_op "\<lambda>u w. convertHeldToReserved w u" "\<lambda>u. - u" "\<lambda>u. u"
  by unfold_locales (auto simp: convertHeldToReserved_Inr wf_window_def same_window_def)

interpretation unreserve_op: counter_op "\<lambda>u w. releaseReservedUnits w u" "\<lambda>u. 0" "\<lambda>u. - u"
  by unfold_locales (auto simp: releaseReservedUnits_Inr wf_window_def same_window_def)

lemma changeCapacity_wf: "wf_window w \<Longrightarrow> changeCapacity w n = Inr w' \<Longrightarrow> wf_window w'"
  by (auto simp: changeCapacity_Inr wf_window_def)

lemma changeCapacity_same: "changeCapacity w n = Inr w' \<Longrightarrow> same_window w w'"
  by (auto simp: changeCapacity_Inr same_window_def)

lemma closeWindow_wf: "wf_window w \<Longrightarrow> wf_window (closeWindow w)"
  by (auto simp: closeWindow_def wf_window_def)

lemma closeWindow_same: "same_window w (closeWindow w)"
  by (auto simp: closeWindow_def same_window_def)

text \<open>A unit that can be held can be given back, and the counters return to what they were.\<close>

lemma hold_then_release:
  "holdUnits w u now at = Inr w' \<Longrightarrow> 0 \<le> w_held w \<Longrightarrow>
   \<exists>w''. releaseHeldUnits w' u = Inr w'' \<and> w_held w'' = w_held w \<and> freeUnits w'' = freeUnits w"
  by (auto simp: holdUnits_Inr releaseHeldUnits_Inr freeUnits_def)

end
