(* ===== verification/Sched_Hold.thy ===== *)
theory Sched_Hold
  imports Sched_Window
begin

text \<open>
  Scheduling, the capacity hold: \<^verbatim>\<open>services/scheduling/src/domain/hold.ts\<close> and
  \<^verbatim>\<open>events.ts\<close>. The hold is a state machine (ACTIVE, then CONFIRMED, RELEASED or EXPIRED;
  a CONFIRMED one may become CANCELLED); each operation returns the next hold or its error.
  Instants that the code serialises with \<^verbatim>\<open>toISOString\<close> stay instants here.
\<close>

section \<open>State\<close>

datatype hold_status = ACTIVE | CONFIRMED | RELEASED | EXPIRED | CANCELLED
datatype hold_state_v1 = HELD_v1 | COMMITTED_v1 | RELEASED_v1 | EXPIRED_v1
datatype principal_kind = account | guest
datatype release_reason =
  CUSTOMER_CHANGED | BOOKING_FAILED | EXPIRED_BY_CLIENT | OPERATIONS_OVERRIDE
| BOOKING_CANCELLED | RESCHEDULED

definition PRINCIPAL_RELEASE_REASONS :: "release_reason list" where
  "PRINCIPAL_RELEASE_REASONS = [CUSTOMER_CHANGED, BOOKING_FAILED, EXPIRED_BY_CLIENT]"

record hold =
  h_id :: string
  h_windowId :: string
  h_zoneId :: string
  h_beneficiaryKind :: principal_kind
  h_beneficiarySubject :: string
  h_quoteId :: string
  h_quoteRevision :: int
  h_slotStartsAt :: instant
  h_slotEndsAt :: instant
  h_units :: int
  h_status :: hold_status
  h_expiresAt :: instant
  h_bookingId :: "string option"
  h_releaseReason :: "release_reason option"
  h_createdAt :: instant
  h_updatedAt :: instant
  h_version :: int

definition ttlSeconds :: int where "ttlSeconds = 10 * 60"
definition minDurationMinutes :: int where "minDurationMinutes = 5"
definition maxDurationMinutes :: int where "maxDurationMinutes = 480"
definition maxActivePerBeneficiary :: int where "maxActivePerBeneficiary = 3"
definition horizonDays :: int where "horizonDays = 30"

text \<open>\<^verbatim>\<open>assertDurationMinutes\<close>, returning the integer it accepted.\<close>

fun assertDurationMinutes :: "js_number \<Rightarrow> sched_error + int" where
  "assertDurationMinutes (JsInt n) =
     (if \<not> isSafeInteger (JsInt n) \<or> n < minDurationMinutes \<or> maxDurationMinutes < n
      then Inl invalid else Inr n)"
| "assertDurationMinutes JsOther = Inl invalid"

lemma assertDurationMinutes_Inr [simp]:
  "assertDurationMinutes n = Inr m \<longleftrightarrow> n = JsInt m \<and> 5 \<le> m \<and> m \<le> 480"
  by (cases n) (auto simp: minDurationMinutes_def maxDurationMinutes_def MAX_SAFE_INTEGER_def)

declare assertDurationMinutes.simps [simp del]

fun v1State :: "hold_status \<Rightarrow> hold_state_v1" where
  "v1State ACTIVE = HELD_v1"
| "v1State CONFIRMED = COMMITTED_v1"
| "v1State EXPIRED = EXPIRED_v1"
| "v1State RELEASED = RELEASED_v1"
| "v1State CANCELLED = RELEASED_v1"

section \<open>Operations\<close>

definition isDue :: "hold \<Rightarrow> instant \<Rightarrow> bool" where
  "isDue h now \<longleftrightarrow> h_status h = ACTIVE \<and> h_expiresAt h \<le> now"

definition expire :: "hold \<Rightarrow> instant \<Rightarrow> sched_error + hold" where
  "expire h now =
     (if \<not> isDue h now then Inl (PlainError ''HOLD_NOT_DUE'')
      else Inr (h\<lparr>h_status := EXPIRED, h_updatedAt := now, h_version := h_version h + 1\<rparr>))"

definition assertLive :: "hold \<Rightarrow> instant \<Rightarrow> sched_error + unit" where
  "assertLive h now =
     (if h_status h = EXPIRED \<or> isDue h now then Inl (SchedulingError HOLD_EXPIRED)
      else if h_status h \<noteq> ACTIVE then Inl (SchedulingError HOLD_NOT_ACTIVE)
      else Inr ())"

definition assertRevision :: "hold \<Rightarrow> int \<Rightarrow> sched_error + unit" where
  "assertRevision h expectedRevision =
     (if h_version h \<noteq> expectedRevision then Inl (SchedulingError VERSION_CONFLICT) else Inr ())"

text \<open>\<^verbatim>\<open>commit\<close>: the hold and whether the call is a replay.\<close>

definition commit ::
  "hold \<Rightarrow> string \<Rightarrow> int \<Rightarrow> instant \<Rightarrow> sched_error + hold \<times> bool" where
  "commit h bookingId expectedRevision now =
     (if h_status h = CONFIRMED then
        (if h_bookingId h = Some bookingId then Inr (h, True)
         else Inl (SchedulingError HOLD_NOT_ACTIVE))
      else
        andThen (assertLive h now) (\<lambda>_.
        andThen (assertRevision h expectedRevision) (\<lambda>_.
        Inr (h\<lparr>h_status := CONFIRMED, h_bookingId := Some bookingId, h_updatedAt := now,
               h_version := h_version h + 1\<rparr>, False))))"

datatype freed = FREED_HELD | FREED_RESERVED

definition releaseByBeneficiary ::
  "hold \<Rightarrow> release_reason \<Rightarrow> int \<Rightarrow> instant \<Rightarrow> sched_error + hold \<times> freed" where
  "releaseByBeneficiary h reason expectedRevision now =
     (if reason \<notin> set PRINCIPAL_RELEASE_REASONS then Inl invalid
      else
        andThen (assertLive h now) (\<lambda>_.
        andThen (assertRevision h expectedRevision) (\<lambda>_.
        Inr (h\<lparr>h_status := RELEASED, h_releaseReason := Some reason, h_updatedAt := now,
               h_version := h_version h + 1\<rparr>, FREED_HELD))))"

text \<open>\<^verbatim>\<open>releaseByOperations\<close>: \<open>None\<close> is the \<^verbatim>\<open>null\<close> of a terminal hold.\<close>

definition releaseByOperations ::
  "hold \<Rightarrow> instant \<Rightarrow> sched_error + (hold \<times> freed) option" where
  "releaseByOperations h now =
     (if h_status h = ACTIVE then
        (if isDue h now then Inl (PlainError ''HOLD_DUE_MUST_EXPIRE_FIRST'')
         else Inr (Some (h\<lparr>h_status := RELEASED, h_releaseReason := Some OPERATIONS_OVERRIDE,
                           h_updatedAt := now, h_version := h_version h + 1\<rparr>, FREED_HELD)))
      else if h_status h = CONFIRMED then
        Inr (Some (h\<lparr>h_status := CANCELLED, h_releaseReason := Some OPERATIONS_OVERRIDE,
                     h_updatedAt := now, h_version := h_version h + 1\<rparr>, FREED_RESERVED))
      else Inr None)"

text \<open>\<^verbatim>\<open>releaseCommitment\<close> of \<^verbatim>\<open>hold.ts\<close>; the handler of the same name is in
  \<open>Sched_Service\<close>.\<close>

definition releaseCommitment_hold ::
  "hold \<Rightarrow> string \<Rightarrow> instant \<Rightarrow> sched_error + hold \<times> bool" where
  "releaseCommitment_hold h bookingId now =
     (if h_bookingId h \<noteq> Some bookingId then Inl (SchedulingError COMMITMENT_NOT_FOUND)
      else if h_status h = CANCELLED \<and> h_releaseReason h \<noteq> Some RESCHEDULED then Inr (h, True)
      else if h_status h \<noteq> CONFIRMED then Inl (SchedulingError COMMITMENT_NOT_FOUND)
      else Inr (h\<lparr>h_status := CANCELLED, h_releaseReason := Some BOOKING_CANCELLED,
                  h_updatedAt := now, h_version := h_version h + 1\<rparr>, False))"

definition replaceCommitment_hold ::
  "hold \<Rightarrow> hold \<Rightarrow> string \<Rightarrow> int \<Rightarrow> instant \<Rightarrow> sched_error + hold \<times> hold \<times> bool" where
  "replaceCommitment_hold from to bookingId expectedRevision now =
     (if h_id from = h_id to then Inl invalid
      else if h_status from = CANCELLED \<and> h_releaseReason from = Some RESCHEDULED \<and>
              h_bookingId from = Some bookingId \<and> h_status to = CONFIRMED \<and>
              h_bookingId to = Some bookingId
      then Inr (from, to, True)
      else if h_status from \<noteq> CONFIRMED \<or> h_bookingId from \<noteq> Some bookingId
      then Inl (SchedulingError COMMITMENT_NOT_FOUND)
      else if h_beneficiaryKind to \<noteq> h_beneficiaryKind from \<or>
              h_beneficiarySubject to \<noteq> h_beneficiarySubject from
      then Inl (SchedulingError HOLD_NOT_FOUND)
      else
        andThen (assertLive to now) (\<lambda>_.
        andThen (assertRevision to expectedRevision) (\<lambda>_.
        Inr (from\<lparr>h_status := CANCELLED, h_releaseReason := Some RESCHEDULED,
                  h_updatedAt := now, h_version := h_version from + 1\<rparr>,
             to\<lparr>h_status := CONFIRMED, h_bookingId := Some bookingId,
                h_updatedAt := now, h_version := h_version to + 1\<rparr>, False))))"

lemmas hold_ops =
  expire_def commit_def releaseByBeneficiary_def releaseByOperations_def
  releaseCommitment_hold_def replaceCommitment_hold_def

section \<open>The published event\<close>

datatype event_actor =
  PrincipalEventActor principal_kind string | ServiceEventActor string | SystemEventActor

record hold_changed_event =
  ev_eventId :: string
  ev_correlationId :: string
  ev_occurredAt :: instant
  ev_aggregateId :: string
  ev_aggregateVersion :: int
  ev_actor :: event_actor
  ev_state :: hold_state_v1
  ev_zoneId :: string
  ev_startsAt :: instant
  ev_endsAt :: instant
  ev_bookingId :: "string option"

definition uuid :: "string \<Rightarrow> sched_error + string" where
  "uuid v = (if isUuid v then Inr v else Inl (PlainError ''INVALID_EVENT_UUID''))"

lemma uuid_Inr [simp]: "uuid v = Inr x \<longleftrightarrow> isUuid v \<and> x = v"
  by (auto simp: uuid_def)

text \<open>
  \<^verbatim>\<open>holdChangedEvent\<close>. The constant envelope fields (type, envelope version, producer, null
  causation and trace parent) are not repeated in the record.
\<close>

definition holdChangedEvent ::
  "string \<Rightarrow> string \<Rightarrow> hold \<Rightarrow> string \<Rightarrow> event_actor \<Rightarrow> sched_error + hold_changed_event" where
  "holdChangedEvent eventId correlationId h zoneId actor =
     (let state = v1State (h_status h) in
      andThen (uuid eventId) (\<lambda>eid.
      andThen (uuid correlationId) (\<lambda>cid.
      andThen (uuid (h_id h)) (\<lambda>aid.
      andThen (uuid zoneId) (\<lambda>zid.
      Inr \<lparr>ev_eventId = eid, ev_correlationId = cid, ev_occurredAt = h_updatedAt h,
           ev_aggregateId = aid, ev_aggregateVersion = h_version h, ev_actor = actor,
           ev_state = state, ev_zoneId = zid,
           ev_startsAt = h_slotStartsAt h, ev_endsAt = h_slotEndsAt h,
           ev_bookingId = (if state = COMMITTED_v1 then h_bookingId h else None)\<rparr>)))))"

section \<open>Inversion\<close>

lemma assertLive_Inr [simp]: "assertLive h now = Inr u \<longleftrightarrow> h_status h = ACTIVE \<and> now < h_expiresAt h"
  by (cases "h_status h") (auto simp: assertLive_def isDue_def)

lemma assertRevision_Inr [simp]: "assertRevision h r = Inr u \<longleftrightarrow> h_version h = r"
  by (auto simp: assertRevision_def)

lemma expire_Inr:
  "expire h now = Inr h' \<longleftrightarrow>
     isDue h now \<and> h' = h\<lparr>h_status := EXPIRED, h_updatedAt := now, h_version := h_version h + 1\<rparr>"
  by (auto simp: expire_def)

lemma commit_Inr:
  "commit h b r now = Inr (h', replay) \<longleftrightarrow>
     (replay \<and> h' = h \<and> h_status h = CONFIRMED \<and> h_bookingId h = Some b) \<or>
     (\<not> replay \<and> h_status h = ACTIVE \<and> now < h_expiresAt h \<and> h_version h = r \<and>
      h' = h\<lparr>h_status := CONFIRMED, h_bookingId := Some b, h_updatedAt := now,
             h_version := h_version h + 1\<rparr>)"
  by (auto simp: commit_def)

lemma releaseByBeneficiary_Inr:
  "releaseByBeneficiary h reason r now = Inr (h', f) \<longleftrightarrow>
     f = FREED_HELD \<and> reason \<in> set PRINCIPAL_RELEASE_REASONS \<and>
     h_status h = ACTIVE \<and> now < h_expiresAt h \<and> h_version h = r \<and>
     h' = h\<lparr>h_status := RELEASED, h_releaseReason := Some reason, h_updatedAt := now,
            h_version := h_version h + 1\<rparr>"
  by (auto simp: releaseByBeneficiary_def)

lemma releaseCommitment_hold_Inr:
  "releaseCommitment_hold h b now = Inr (h', replay) \<longleftrightarrow>
     h_bookingId h = Some b \<and>
     ((replay \<and> h' = h \<and> h_status h = CANCELLED \<and> h_releaseReason h \<noteq> Some RESCHEDULED) \<or>
      (\<not> replay \<and> h_status h = CONFIRMED \<and>
       h' = h\<lparr>h_status := CANCELLED, h_releaseReason := Some BOOKING_CANCELLED,
              h_updatedAt := now, h_version := h_version h + 1\<rparr>))"
  by (auto simp: releaseCommitment_hold_def)

lemma replaceCommitment_hold_Inr:
  "replaceCommitment_hold from to b r now = Inr (from', to', replay) \<longleftrightarrow>
     h_id from \<noteq> h_id to \<and> h_bookingId from = Some b \<and>
     ((replay \<and> from' = from \<and> to' = to \<and> h_status from = CANCELLED \<and>
       h_releaseReason from = Some RESCHEDULED \<and> h_status to = CONFIRMED \<and>
       h_bookingId to = Some b) \<or>
      (\<not> replay \<and> h_status from = CONFIRMED \<and> h_beneficiaryKind to = h_beneficiaryKind from \<and>
       h_beneficiarySubject to = h_beneficiarySubject from \<and>
       h_status to = ACTIVE \<and> now < h_expiresAt to \<and> h_version to = r \<and>
       from' = from\<lparr>h_status := CANCELLED, h_releaseReason := Some RESCHEDULED,
                     h_updatedAt := now, h_version := h_version from + 1\<rparr> \<and>
       to' = to\<lparr>h_status := CONFIRMED, h_bookingId := Some b, h_updatedAt := now,
                h_version := h_version to + 1\<rparr>))"
  by (auto simp: replaceCommitment_hold_def)

lemmas hold_ops_Inr =
  expire_Inr commit_Inr releaseByBeneficiary_Inr releaseCommitment_hold_Inr
  replaceCommitment_hold_Inr

section \<open>Well-formed holds\<close>

text \<open>
  The shape the \<^verbatim>\<open>capacity_hold\<close> constraints ask of a scheduling.v1 row: one unit, a
  booking exactly when it is or was committed, a reason exactly when it was given back.
\<close>

definition wf_hold :: "hold \<Rightarrow> bool" where
  "wf_hold h \<longleftrightarrow>
     h_units h = 1 \<and> 1 \<le> h_version h \<and>
     (h_status h \<in> {CONFIRMED, CANCELLED} \<longleftrightarrow> h_bookingId h \<noteq> None) \<and>
     (h_status h \<in> {RELEASED, CANCELLED} \<longleftrightarrow> h_releaseReason h \<noteq> None)"

definition same_hold :: "hold \<Rightarrow> hold \<Rightarrow> bool" where
  "same_hold h h' \<longleftrightarrow>
     h_id h' = h_id h \<and> h_windowId h' = h_windowId h \<and> h_zoneId h' = h_zoneId h \<and>
     h_beneficiaryKind h' = h_beneficiaryKind h \<and>
     h_beneficiarySubject h' = h_beneficiarySubject h \<and>
     h_quoteId h' = h_quoteId h \<and> h_quoteRevision h' = h_quoteRevision h \<and>
     h_slotStartsAt h' = h_slotStartsAt h \<and> h_slotEndsAt h' = h_slotEndsAt h \<and>
     h_units h' = h_units h \<and> h_expiresAt h' = h_expiresAt h \<and> h_createdAt h' = h_createdAt h"

lemma same_hold_refl [simp, intro]: "same_hold h h"
  by (simp add: same_hold_def)

text \<open>The arrows of the hold's life cycle.\<close>

fun hold_arrow :: "hold_status \<Rightarrow> hold_status \<Rightarrow> bool" where
  "hold_arrow ACTIVE s = (s \<in> {CONFIRMED, RELEASED, EXPIRED})"
| "hold_arrow CONFIRMED s = (s = CANCELLED)"
| "hold_arrow _ s = False"

definition hold_next :: "hold \<Rightarrow> hold \<Rightarrow> bool" where
  "hold_next h h' \<longleftrightarrow>
     same_hold h h' \<and> hold_arrow (h_status h) (h_status h') \<and> h_version h' = h_version h + 1"

text \<open>
  Every operation follows one contract: the hold it returns is the same hold, one arrow
  further, and well formed if the hold it was given was. A replay returns the hold itself.
\<close>

lemma expire_next: "expire h now = Inr h' \<Longrightarrow> hold_next h h' \<and> (wf_hold h \<longrightarrow> wf_hold h')"
  by (auto simp: expire_Inr isDue_def hold_next_def same_hold_def wf_hold_def)

lemma commit_next:
  "commit h b r now = Inr (h', False) \<Longrightarrow> hold_next h h' \<and> (wf_hold h \<longrightarrow> wf_hold h')"
  by (auto simp: commit_Inr hold_next_def same_hold_def wf_hold_def)

lemma commit_replay: "commit h b r now = Inr (h', True) \<Longrightarrow> h' = h"
  by (simp add: commit_Inr)

lemma releaseByBeneficiary_next:
  "releaseByBeneficiary h reason r now = Inr (h', f) \<Longrightarrow>
   hold_next h h' \<and> (wf_hold h \<longrightarrow> wf_hold h')"
  by (auto simp: releaseByBeneficiary_Inr hold_next_def same_hold_def wf_hold_def)

lemma releaseByOperations_next:
  "releaseByOperations h now = Inr (Some (h', f)) \<Longrightarrow>
   hold_next h h' \<and> (wf_hold h \<longrightarrow> wf_hold h') \<and>
   (f = FREED_HELD \<longleftrightarrow> h_status h = ACTIVE) \<and> (f = FREED_RESERVED \<longleftrightarrow> h_status h = CONFIRMED)"
  by (auto simp: releaseByOperations_def hold_next_def same_hold_def wf_hold_def isDue_def
      split: if_splits)

lemma releaseCommitment_next:
  "releaseCommitment_hold h b now = Inr (h', False) \<Longrightarrow>
   hold_next h h' \<and> (wf_hold h \<longrightarrow> wf_hold h')"
  by (auto simp: releaseCommitment_hold_Inr hold_next_def same_hold_def wf_hold_def)

lemma replaceCommitment_next:
  "replaceCommitment_hold from to b r now = Inr (from', to', False) \<Longrightarrow>
   hold_next from from' \<and> hold_next to to' \<and>
   (wf_hold from \<longrightarrow> wf_hold from') \<and> (wf_hold to \<longrightarrow> wf_hold to')"
  by (auto simp: replaceCommitment_hold_Inr hold_next_def same_hold_def wf_hold_def)

end
