(* ===== verification/Sched_Store.thy ===== *)
theory Sched_Store
  imports Sched_Hold "HOL-Library.List_Lexorder" "HOL-Library.Char_ord"
begin

text \<open>
  Scheduling, the database: the statements of
  \<^verbatim>\<open>services/scheduling/src/infrastructure/persistence/prisma-scheduling.store.ts\<close> that the
  commands issue inside one transaction, over the service's tables.

  The table \<^verbatim>\<open>capacity_hold\<close> is kept in two parts: the scheduling.v1 rows
  (\<^verbatim>\<open>beneficiary_kind IS NOT NULL\<close>) and the rows of the earlier API, which no v1 statement
  reads. Of the constraints, the ones the code answers for are modelled (the primary keys, the
  window's unique start and exclusion constraint, the unique index on the booking of CONFIRMED
  holds); the CHECK constraints are not: that no statement violates them is proved.
  \<^verbatim>\<open>FOR UPDATE\<close> serialises the commands of one window, so a command is one step.
\<close>

section \<open>Tables\<close>

datatype sched_scope = scheduling_hold_commit | scheduling_commitment_change

datatype actor =
    USER principal_kind string "string list"
  | SERVICE string "sched_scope list"
  | SYSTEM string

record legacy_hold =
  l_id :: string
  l_windowId :: string
  l_units :: int
  l_status :: hold_status
  l_expiresAt :: instant
  l_updatedAt :: instant
  l_version :: int

record hold_view =
  v_holdId :: string
  v_revision :: int
  v_state :: hold_state_v1
  v_beneficiaryKind :: principal_kind
  v_beneficiarySubject :: string
  v_zoneId :: string
  v_startsAt :: instant
  v_endsAt :: instant
  v_expiresAt :: instant
  v_bookingId :: "string option"
  v_createdAt :: instant
  v_updatedAt :: instant

datatype response_body =
    HoldBody hold_view
  | ReplacementBody string hold_view hold_view

record stored_response =
  r_status :: int
  r_body :: response_body

record idempotency_row =
  i_scope :: string
  i_key :: string
  i_fingerprint :: string
  i_response :: "stored_response option"
  i_completedAt :: "instant option"

datatype audit_detail = DString string | DNumber int

record audit_entry =
  a_action :: string
  a_actor :: actor
  a_targetType :: string
  a_targetId :: string
  a_correlationId :: string
  a_details :: "(string \<times> audit_detail) list"

record sched_db =
  db_windows :: "capacity_window list"
  db_holds :: "hold list"
  db_legacy :: "legacy_hold list"
  db_idem :: "idempotency_row list"
  db_outbox :: "hold_changed_event list"
  db_audit :: "audit_entry list"

definition empty_db :: sched_db where
  "empty_db = \<lparr>db_windows = [], db_holds = [], db_legacy = [], db_idem = [], db_outbox = [],
               db_audit = []\<rparr>"

section \<open>Statements\<close>

datatype idempotency_claim =
  NEW | REPLAY stored_response | CONFLICT | IN_PROGRESS

definition idem_hit :: "string \<Rightarrow> string \<Rightarrow> idempotency_row \<Rightarrow> bool" where
  "idem_hit scope key r \<longleftrightarrow> i_scope r = scope \<and> i_key r = key"

definition claimIdempotency ::
  "string \<Rightarrow> string \<Rightarrow> string \<Rightarrow> sched_db \<Rightarrow> idempotency_claim \<times> sched_db" where
  "claimIdempotency scope key fingerprint db =
     (case find (idem_hit scope key) (db_idem db) of
        None \<Rightarrow> (NEW, db\<lparr>db_idem := \<lparr>i_scope = scope, i_key = key, i_fingerprint = fingerprint,
                        i_response = None, i_completedAt = None\<rparr> # db_idem db\<rparr>)
      | Some r \<Rightarrow>
          (if i_fingerprint r \<noteq> fingerprint then CONFLICT
           else case i_response r of None \<Rightarrow> IN_PROGRESS | Some resp \<Rightarrow> REPLAY resp, db))"

definition completeIdempotency ::
  "string \<Rightarrow> string \<Rightarrow> stored_response \<Rightarrow> instant \<Rightarrow> sched_db \<Rightarrow> sched_error + sched_db" where
  "completeIdempotency scope key response dbNow db =
     (let hit = (\<lambda>r. idem_hit scope key r \<and> i_completedAt r = None) in
      if length (filter hit (db_idem db)) \<noteq> 1 then Inl (ConcurrencyViolation ''IDEMPOTENCY'')
      else Inr (db\<lparr>db_idem := update_rows hit
                   (\<lambda>r. r\<lparr>i_response := Some response, i_completedAt := Some dbNow\<rparr>)
                   (db_idem db)\<rparr>))"

definition abandonIdempotency :: "string \<Rightarrow> string \<Rightarrow> sched_db \<Rightarrow> sched_db" where
  "abandonIdempotency scope key db =
     db\<lparr>db_idem := filter (\<lambda>r. \<not> (idem_hit scope key r \<and> i_completedAt r = None)) (db_idem db)\<rparr>"

definition countActiveHolds :: "principal_kind \<Rightarrow> string \<Rightarrow> instant \<Rightarrow> sched_db \<Rightarrow> int" where
  "countActiveHolds kind subject now db =
     int (length (filter (\<lambda>h. h_beneficiaryKind h = kind \<and> h_beneficiarySubject h = subject \<and>
                              h_status h = ACTIVE \<and> now < h_expiresAt h) (db_holds db)))"

text \<open>
  \<^verbatim>\<open>lockWindow\<close>. Without options it is \<^verbatim>\<open>FOR UPDATE\<close>: it waits for the row, so the window
  is found whenever it exists. With \<^verbatim>\<open>skipLocked\<close> it is \<^verbatim>\<open>FOR UPDATE SKIP LOCKED\<close>: \<open>Some busy\<close>
  says which rows another transaction has locked at that moment, and such a row is not returned.
\<close>

definition lockWindow ::
  "(string \<Rightarrow> bool) option \<Rightarrow> string \<Rightarrow> sched_db \<Rightarrow> capacity_window option" where
  "lockWindow skipLocked i db =
     (case skipLocked of
        None \<Rightarrow> find_row w_id i (db_windows db)
      | Some busy \<Rightarrow> if busy i then None else find_row w_id i (db_windows db))"

definition lockCoveringWindow ::
  "string \<Rightarrow> instant \<Rightarrow> instant \<Rightarrow> sched_db \<Rightarrow> capacity_window option" where
  "lockCoveringWindow zoneId startsAt endsAt db =
     find (\<lambda>w. w_zoneId w = zoneId \<and> w_startsAt w \<le> startsAt \<and> endsAt \<le> w_endsAt w)
       (db_windows db)"

datatype insert_window_result = CREATED | DUPLICATE_START | OVERLAPS

definition overlaps :: "capacity_window \<Rightarrow> capacity_window \<Rightarrow> bool" where
  "overlaps w w' \<longleftrightarrow>
     w_zoneId w = w_zoneId w' \<and> w_startsAt w < w_endsAt w' \<and> w_startsAt w' < w_endsAt w"

definition insertWindow ::
  "capacity_window \<Rightarrow> sched_db \<Rightarrow> sched_error + insert_window_result \<times> sched_db" where
  "insertWindow w db =
     (if \<exists>r \<in> set (db_windows db). w_zoneId r = w_zoneId w \<and> w_startsAt r = w_startsAt w
      then Inr (DUPLICATE_START, db)
      else if w_id w \<in> w_id ` set (db_windows db) then Inl UniqueViolation
      else if \<exists>r \<in> set (db_windows db). overlaps w r then Inr (OVERLAPS, db)
      else Inr (CREATED, db\<lparr>db_windows := w # db_windows db\<rparr>))"

text \<open>\<^verbatim>\<open>updateWindow\<close> sets the counters, the status and the version of the row it names.\<close>

definition window_columns :: "capacity_window \<Rightarrow> int \<Rightarrow> capacity_window \<Rightarrow> capacity_window" where
  "window_columns w v r =
     r\<lparr>w_capacity := w_capacity w, w_held := w_held w, w_reserved := w_reserved w,
       w_status := w_status w, w_version := max (w_version w) (v + 1)\<rparr>"

definition updateWindow :: "capacity_window \<Rightarrow> int \<Rightarrow> sched_db \<Rightarrow> sched_error + sched_db" where
  "updateWindow w v db =
     (let hit = (\<lambda>r. w_id r = w_id w \<and> w_version r = v) in
      if length (filter hit (db_windows db)) \<noteq> 1 then Inl (ConcurrencyViolation ''WINDOW'')
      else Inr (db\<lparr>db_windows := update_rows hit (window_columns w v) (db_windows db)\<rparr>))"

definition lockHold :: "string \<Rightarrow> sched_db \<Rightarrow> hold option" where
  "lockHold i db = find_row h_id i (db_holds db)"

definition lockDueHolds :: "string \<Rightarrow> instant \<Rightarrow> sched_db \<Rightarrow> hold list" where
  "lockDueHolds windowId now db =
     sort_key h_id (filter (\<lambda>h. h_windowId h = windowId \<and> h_status h = ACTIVE \<and>
                                h_expiresAt h \<le> now) (db_holds db))"

definition legacy_due :: "string \<Rightarrow> instant \<Rightarrow> legacy_hold \<Rightarrow> bool" where
  "legacy_due windowId now l \<longleftrightarrow>
     l_windowId l = windowId \<and> l_status l = ACTIVE \<and> l_expiresAt l \<le> now"

definition expireLegacyDueHolds :: "string \<Rightarrow> instant \<Rightarrow> sched_db \<Rightarrow> int \<times> sched_db" where
  "expireLegacyDueHolds windowId now db =
     (sum_rows l_units (legacy_due windowId now) (db_legacy db),
      db\<lparr>db_legacy := update_rows (legacy_due windowId now)
           (\<lambda>l. l\<lparr>l_status := EXPIRED, l_version := l_version l + 1, l_updatedAt := now\<rparr>)
           (db_legacy db)\<rparr>)"

definition insertHold :: "hold \<Rightarrow> sched_db \<Rightarrow> sched_error + sched_db" where
  "insertHold h db =
     (if h_id h \<in> h_id ` set (db_holds db) \<or> h_id h \<in> l_id ` set (db_legacy db)
      then Inl UniqueViolation
      else Inr (db\<lparr>db_holds := h # db_holds db\<rparr>))"

definition hold_columns :: "hold \<Rightarrow> hold \<Rightarrow> hold" where
  "hold_columns h r =
     r\<lparr>h_status := h_status h, h_releaseReason := h_releaseReason h, h_version := h_version h,
       h_updatedAt := h_updatedAt h, h_bookingId := h_bookingId h\<rparr>"

text \<open>The partial unique index \<^verbatim>\<open>capacity_hold_booking_confirmed_key\<close>.\<close>

definition committed_bookings :: "hold list \<Rightarrow> string option list" where
  "committed_bookings rows =
     map h_bookingId (filter (\<lambda>h. h_status h = CONFIRMED \<and> h_bookingId h \<noteq> None) rows)"

definition updateHold :: "hold \<Rightarrow> int \<Rightarrow> sched_db \<Rightarrow> sched_error + sched_db" where
  "updateHold h v db =
     (let hit = (\<lambda>r. h_id r = h_id h \<and> h_version r = v);
          rows = update_rows hit (hold_columns h) (db_holds db) in
      if \<not> distinct (committed_bookings rows)
      then Inl (SchedulingError BOOKING_ALREADY_COMMITTED)
      else if length (filter hit (db_holds db)) \<noteq> 1 then Inl (ConcurrencyViolation ''HOLD'')
      else Inr (db\<lparr>db_holds := rows\<rparr>))"

definition appendEvent :: "hold_changed_event \<Rightarrow> sched_db \<Rightarrow> sched_db" where
  "appendEvent e db = db\<lparr>db_outbox := db_outbox db @ [e]\<rparr>"

definition appendAudit :: "audit_entry \<Rightarrow> sched_db \<Rightarrow> sched_db" where
  "appendAudit e db = db\<lparr>db_audit := db_audit db @ [e]\<rparr>"

text \<open>\<^verbatim>\<open>purgeIdempotency\<close>: completed records older than the retention, at most \<open>limit\<close>.\<close>

fun purge_rows :: "int \<Rightarrow> nat \<Rightarrow> instant \<Rightarrow> idempotency_row list \<Rightarrow> idempotency_row list \<times> int" where
  "purge_rows retentionMs limit dbNow [] = ([], 0)"
| "purge_rows retentionMs limit dbNow (r # rows) =
     (if (case i_completedAt r of None \<Rightarrow> False | Some t \<Rightarrow> t < dbNow - retentionMs) \<and> 0 < limit
      then (let (kept, n) = purge_rows retentionMs (limit - 1) dbNow rows in (kept, n + 1))
      else (let (kept, n) = purge_rows retentionMs limit dbNow rows in (r # kept, n)))"

definition purgeIdempotency :: "int \<Rightarrow> nat \<Rightarrow> instant \<Rightarrow> sched_db \<Rightarrow> int \<times> sched_db" where
  "purgeIdempotency retentionMs limit dbNow db =
     (let (kept, n) = purge_rows retentionMs limit dbNow (db_idem db) in (n, db\<lparr>db_idem := kept\<rparr>))"

end
