(* ===== verification/Sched_Service.thy ===== *)
theory Sched_Service
  imports Sched_Store
begin

text \<open>
  Scheduling, the commands: \<^verbatim>\<open>application/authorization.ts\<close>, \<^verbatim>\<open>expiry.ts\<close>,
  \<^verbatim>\<open>holds-v1.service.ts\<close> (create, commit and release a hold), \<^verbatim>\<open>commitments.service.ts\<close>
  (release and replace a commitment) and \<^verbatim>\<open>capacity.service.ts\<close> (windows, the staff override
  and the expiry sweep). A command takes the database and returns its answer and the next
  database; the part of it that runs in a unit of work is the function \<open>..._tx\<close>.

  What a command gets from outside is a record \<open>request\<close>: the authenticated actor, the
  correlation id, the service's clock, the database's clock, and the ids the generator hands
  out during the command (\<open>rq_ids n\<close> is the n-th). The SHA-256 digest of the canonical request
  body is a parameter, \<open>digest\<close>.
\<close>

section \<open>Authorization and idempotency keys\<close>

definition OPERATIONS_PERMISSION :: string where
  "OPERATIONS_PERMISSION = ''operations.dispatch''"

fun isOperations :: "actor \<Rightarrow> bool" where
  "isOperations (USER k s ps) = (OPERATIONS_PERMISSION \<in> set ps)"
| "isOperations _ = False"

definition requireOperations :: "actor \<Rightarrow> sched_error + unit" where
  "requireOperations a = (if isOperations a then Inr () else Inl (SchedulingError FORBIDDEN))"

text \<open>\<^verbatim>\<open>requirePrincipal\<close> returns the user actor; here its kind and subject.\<close>

fun requirePrincipal :: "actor \<Rightarrow> sched_error + principal_kind \<times> string" where
  "requirePrincipal (USER k s ps) = Inr (k, s)"
| "requirePrincipal _ = Inl (SchedulingError FORBIDDEN)"

fun requireScope :: "actor \<Rightarrow> sched_scope \<Rightarrow> sched_error + actor" where
  "requireScope (SERVICE c scopes) scope =
     (if scope \<in> set scopes then Inr (SERVICE c scopes) else Inl (SchedulingError FORBIDDEN))"
| "requireScope _ scope = Inl (SchedulingError FORBIDDEN)"

fun kind_string :: "principal_kind \<Rightarrow> string" where
  "kind_string account = ''account''"
| "kind_string guest = ''guest''"

fun actorKey :: "actor \<Rightarrow> string" where
  "actorKey (USER k s ps) = kind_string k @ '':'' @ s"
| "actorKey (SERVICE c scopes) = ''service:'' @ c"
| "actorKey (SYSTEM c) = ''system:'' @ c"

fun eventActor :: "actor \<Rightarrow> event_actor" where
  "eventActor (USER k s ps) = PrincipalEventActor k s"
| "eventActor (SERVICE c scopes) = ServiceEventActor c"
| "eventActor (SYSTEM c) = SystemEventActor"

definition SYSTEM_ACTOR :: actor where
  "SYSTEM_ACTOR = SYSTEM ''hold-expiry''"

definition key_char :: "char \<Rightarrow> bool" where
  "key_char c \<longleftrightarrow> is_digit c \<or> is_upper c \<or> is_lower c \<or> c = CHR ''_'' \<or> c = CHR ''-''"

fun requireKey :: "string option \<Rightarrow> sched_error + string" where
  "requireKey None = Inl (SchedulingError IDEMPOTENCY_KEY_REQUIRED)"
| "requireKey (Some key) =
     (if key = '''' then Inl (SchedulingError IDEMPOTENCY_KEY_REQUIRED)
      else if \<not> (list_all key_char key \<and> 16 \<le> length key \<and> length key \<le> 128) then Inl invalid
      else Inr key)"

fun settle :: "idempotency_claim \<Rightarrow> sched_error + stored_response option" where
  "settle NEW = Inr None"
| "settle (REPLAY response) = Inr (Some response)"
| "settle CONFLICT = Inl (SchedulingError IDEMPOTENCY_KEY_REUSED)"
| "settle IN_PROGRESS = Inl (SchedulingError IDEMPOTENCY_IN_PROGRESS)"

definition assertUuid :: "string \<Rightarrow> sched_error + unit" where
  "assertUuid v = (if isUuid v then Inr () else Inl invalid)"

lemma assertUuid_Inr [simp]: "assertUuid v = Inr u \<longleftrightarrow> isUuid v"
  by (simp add: assertUuid_def)

text \<open>The material of a fingerprint: operation, actor, target and the request body.\<close>

datatype print_body =
    CreateHoldBody principal_kind string string instant int string int
  | CommitHoldBody int string
  | ReleaseHoldBody int release_reason
  | ReleaseCommitmentBody string
  | ReplaceCommitmentBody string string int

record print_material =
  p_operation :: string
  p_actor :: string
  p_target :: "string option"
  p_body :: print_body

type_synonym digest = "print_material \<Rightarrow> string"

definition fingerprint ::
  "digest \<Rightarrow> string \<Rightarrow> string \<Rightarrow> string option \<Rightarrow> print_body \<Rightarrow> string" where
  "fingerprint digest operation actor target body =
     digest \<lparr>p_operation = operation, p_actor = actor, p_target = target, p_body = body\<rparr>"

definition scope_of :: "string \<Rightarrow> string \<Rightarrow> string" where
  "scope_of operation actor = ''scheduling.v1:'' @ operation @ '':'' @ actor"

definition holdView :: "hold \<Rightarrow> hold_view" where
  "holdView h =
     (let state = v1State (h_status h) in
      \<lparr>v_holdId = h_id h, v_revision = h_version h, v_state = state,
       v_beneficiaryKind = h_beneficiaryKind h, v_beneficiarySubject = h_beneficiarySubject h,
       v_zoneId = h_zoneId h, v_startsAt = h_slotStartsAt h, v_endsAt = h_slotEndsAt h,
       v_expiresAt = h_expiresAt h,
       v_bookingId = (if state = COMMITTED_v1 then h_bookingId h else None),
       v_createdAt = h_createdAt h, v_updatedAt = h_updatedAt h\<rparr>)"

record request =
  rq_actor :: actor
  rq_correlationId :: string
  rq_now :: instant
  rq_dbNow :: instant
  rq_ids :: "nat \<Rightarrow> string"

section \<open>Expiry\<close>

text \<open>\<^verbatim>\<open>emit\<close> of the event a hold change publishes.\<close>

definition emit ::
  "string \<Rightarrow> string \<Rightarrow> hold \<Rightarrow> string \<Rightarrow> event_actor \<Rightarrow> sched_db \<Rightarrow> sched_error + sched_db" where
  "emit eventId correlationId h zoneId a db =
     andThen (holdChangedEvent eventId correlationId h zoneId a) (\<lambda>e. Inr (appendEvent e db))"

text \<open>
  \<^verbatim>\<open>applyExpiry\<close>: the loop over the due holds of a locked window. \<open>k\<close> counts the ids taken
  from the generator.
\<close>

fun applyExpiry ::
  "request \<Rightarrow> capacity_window \<Rightarrow> instant \<Rightarrow> hold list \<Rightarrow> nat \<Rightarrow> capacity_window \<Rightarrow> sched_db \<Rightarrow>
   sched_error + (capacity_window \<times> nat) \<times> sched_db" where
  "applyExpiry rq window now [] k current db = Inr ((current, k), db)"
| "applyExpiry rq window now (h # due) k current db =
     andThen (expire h now) (\<lambda>expired.
     andThen (updateHold expired (h_version h) db) (\<lambda>db1.
     andThen (releaseHeldUnits current (h_units h)) (\<lambda>next.
     andThen (emit (rq_ids rq k) (rq_correlationId rq) expired (w_zoneId window)
                SystemEventActor db1) (\<lambda>db2.
     applyExpiry rq window now due (Suc k) next
       (appendAudit \<lparr>a_action = ''hold.expired'', a_actor = SYSTEM_ACTOR,
          a_targetType = ''CAPACITY_HOLD'', a_targetId = h_id h,
          a_correlationId = rq_correlationId rq,
          a_details = [(''windowId'', DString (w_id window)), (''units'', DNumber (h_units h))]\<rparr>
        db2)))))"

definition expireDueHoldsOf ::
  "request \<Rightarrow> instant \<Rightarrow> capacity_window \<Rightarrow> sched_db \<Rightarrow>
   sched_error + (capacity_window \<times> nat) \<times> sched_db" where
  "expireDueHoldsOf rq now window db =
     bindS (applyExpiry rq window now (lockDueHolds (w_id window) now db) 0 window db)
       (\<lambda>(current, k) db1.
     (let (legacyUnits, db2) = expireLegacyDueHolds (w_id window) now db1 in
      if 0 < legacyUnits
      then andThen (releaseHeldUnits current legacyUnits) (\<lambda>next. Inr ((next, k), db2))
      else Inr ((current, k), db2)))"

section \<open>Holds\<close>

definition MINUTE :: int where "MINUTE = 60000"
definition DAY :: int where "DAY = 86400000"

definition lockedWindow :: "string \<Rightarrow> sched_db \<Rightarrow> sched_error + capacity_window" where
  "lockedWindow i db =
     (case lockWindow None i db of None \<Rightarrow> Inl (SchedulingError WINDOW_NOT_FOUND) | Some w \<Rightarrow> Inr w)"

definition lockedHold :: "string \<Rightarrow> sched_db \<Rightarrow> sched_error + hold" where
  "lockedHold i db =
     (case lockHold i db of None \<Rightarrow> Inl (SchedulingError HOLD_NOT_FOUND) | Some h \<Rightarrow> Inr h)"

text \<open>The read model's \<^verbatim>\<open>findHold\<close>, with the handlers' HOLD_NOT_FOUND.\<close>

definition knownHold :: "string \<Rightarrow> sched_db \<Rightarrow> sched_error + hold" where
  "knownHold i db =
     (case find_row h_id i (db_holds db) of
        None \<Rightarrow> Inl (SchedulingError HOLD_NOT_FOUND) | Some h \<Rightarrow> Inr h)"

definition changed :: "request \<Rightarrow> nat \<Rightarrow> hold \<Rightarrow> sched_db \<Rightarrow> sched_error + sched_db" where
  "changed rq k h db =
     emit (rq_ids rq k) (rq_correlationId rq) h (h_zoneId h) (eventActor (rq_actor rq)) db"

definition audit_hold ::
  "request \<Rightarrow> string \<Rightarrow> string \<Rightarrow> (string \<times> audit_detail) list \<Rightarrow> sched_db \<Rightarrow> sched_db" where
  "audit_hold rq action target details db =
     appendAudit \<lparr>a_action = action, a_actor = rq_actor rq, a_targetType = ''CAPACITY_HOLD'',
       a_targetId = target, a_correlationId = rq_correlationId rq, a_details = details\<rparr> db"

record hold_request =
  q_beneficiaryKind :: principal_kind
  q_beneficiarySubject :: string
  q_zoneId :: string
  q_startsAt :: "instant option"
  q_durationMinutes :: js_number
  q_quoteId :: string
  q_quoteRevision :: int

fun asSlotUnavailable :: "sched_error \<Rightarrow> sched_error" where
  "asSlotUnavailable (SchedulingError code) =
     SchedulingError (if code \<in> {WINDOW_CLOSED, WINDOW_STARTED, CAPACITY_EXHAUSTED}
                      then SLOT_UNAVAILABLE else code)"
| "asSlotUnavailable e = e"

definition new_hold ::
  "request \<Rightarrow> string \<Rightarrow> principal_kind \<Rightarrow> string \<Rightarrow> capacity_window \<Rightarrow> string \<Rightarrow> int \<Rightarrow>
   instant \<Rightarrow> instant \<Rightarrow> hold" where
  "new_hold rq holdId kind subject window quoteId quoteRevision startsAt endsAt =
     \<lparr>h_id = holdId, h_windowId = w_id window, h_zoneId = w_zoneId window,
      h_beneficiaryKind = kind, h_beneficiarySubject = subject,
      h_quoteId = toLowerCase quoteId, h_quoteRevision = quoteRevision,
      h_slotStartsAt = startsAt, h_slotEndsAt = endsAt, h_units = 1, h_status = ACTIVE,
      h_expiresAt = rq_now rq + ttlSeconds * 1000, h_bookingId = None, h_releaseReason = None,
      h_createdAt = rq_now rq, h_updatedAt = rq_now rq, h_version = 1\<rparr>"

text \<open>The body of \<^verbatim>\<open>createHold\<close>'s unit of work, after the claim was found to be new.\<close>

definition createHold_new ::
  "request \<Rightarrow> string \<Rightarrow> string \<Rightarrow> principal_kind \<Rightarrow> string \<Rightarrow> string \<Rightarrow> string \<Rightarrow> int \<Rightarrow>
   instant \<Rightarrow> instant \<Rightarrow> (sched_db, sched_error, stored_response) tx" where
  "createHold_new rq scope key kind subject zoneId quoteId quoteRevision startsAt endsAt db =
     (if maxActivePerBeneficiary \<le> countActiveHolds kind subject (rq_now rq) db
      then Inl (SchedulingError HOLD_LIMIT_REACHED)
      else case lockCoveringWindow zoneId startsAt endsAt db of
        None \<Rightarrow> Inl (SchedulingError SLOT_UNAVAILABLE)
      | Some locked \<Rightarrow>
        bindS (expireDueHoldsOf rq (rq_now rq) locked db) (\<lambda>(current, k) db1.
        andThen (holdUnits current 1 (rq_now rq) startsAt) (\<lambda>next.
        (let h = new_hold rq (rq_ids rq k) kind subject locked quoteId quoteRevision
                   startsAt endsAt in
        andThen (insertHold h db1) (\<lambda>db2.
        andThen (updateWindow next (w_version locked) db2) (\<lambda>db3.
        andThen (changed rq (Suc k) h db3) (\<lambda>db4.
        (let db5 = audit_hold rq ''hold.created'' (h_id h)
                     [(''windowId'', DString (w_id locked)), (''quoteId'', DString (h_quoteId h))]
                     db4;
             response = \<lparr>r_status = 201, r_body = HoldBody (holdView h)\<rparr> in
        andThen (completeIdempotency scope key response (rq_dbNow rq) db5) (\<lambda>db6.
        Inr (response, db6)))))))))) "

text \<open>
  Every mutating command starts its unit of work with the idempotency claim: a replay answers
  with the stored response, a new key runs the body.
\<close>

definition with_claim ::
  "string \<Rightarrow> string \<Rightarrow> string \<Rightarrow> (sched_db, sched_error, stored_response option) tx \<Rightarrow>
   (sched_db, sched_error, stored_response option) tx" where
  "with_claim scope key print body db =
     (let (claim, db1) = claimIdempotency scope key print db in
      andThen (settle claim) (\<lambda>replay.
      case replay of Some response \<Rightarrow> Inr (Some response, db1) | None \<Rightarrow> body db1))"

text \<open>
  The result of a unit of work that may end in \<^verbatim>\<open>EXPIRED\<close>: \<open>None\<close> is that symbol, which
  \<^verbatim>\<open>settleExpiry\<close> turns into HOLD_EXPIRED after the commit.
\<close>

fun settleExpiry :: "stored_response option \<Rightarrow> sched_error + stored_response" where
  "settleExpiry None = Inl (SchedulingError HOLD_EXPIRED)"
| "settleExpiry (Some response) = Inr response"

definition finish_run ::
  "(sched_error + stored_response option) \<times> sched_db \<Rightarrow>
   (sched_error + stored_response) \<times> sched_db" where
  "finish_run r = (andThen (fst r) settleExpiry, snd r)"

definition createHold ::
  "digest \<Rightarrow> request \<Rightarrow> hold_request \<Rightarrow> string option \<Rightarrow> sched_db \<Rightarrow>
   (sched_error + stored_response) \<times> sched_db" where
  "createHold digest rq q rawKey db =
     (case
        andThen (requirePrincipal (rq_actor rq)) (\<lambda>(kind, subject).
        andThen (requireKey rawKey) (\<lambda>key.
        if q_beneficiaryKind q \<noteq> kind \<or> toLowerCase (q_beneficiarySubject q) \<noteq> subject
        then Inl (SchedulingError FORBIDDEN)
        else
        andThen (assertUuid (q_zoneId q)) (\<lambda>_.
        andThen (assertUuid (q_quoteId q)) (\<lambda>_.
        andThen (assertDurationMinutes (q_durationMinutes q)) (\<lambda>minutes.
        case q_startsAt q of None \<Rightarrow> Inl invalid | Some startsAt \<Rightarrow>
        (let endsAt = startsAt + minutes * MINUTE; now = rq_now rq in
        if horizonDays * DAY < startsAt - now then Inl (SchedulingError OUTSIDE_HORIZON)
        else if startsAt \<le> now then Inl (SchedulingError SLOT_UNAVAILABLE)
        else Inr (kind, subject, key, minutes, startsAt, endsAt)))))))
      of Inl e \<Rightarrow> (Inl e, db)
       | Inr (kind, subject, key, minutes, startsAt, endsAt) \<Rightarrow>
        (let zoneId = toLowerCase (q_zoneId q);
             actor = actorKey (rq_actor rq);
             scope = scope_of ''createHold'' actor;
             print = fingerprint digest ''createHold'' actor None
                       (CreateHoldBody (q_beneficiaryKind q) subject zoneId startsAt minutes
                          (toLowerCase (q_quoteId q)) (q_quoteRevision q));
             (result, db') = finish_run (run_tx (with_claim scope key print (\<lambda>db1.
               bindS (createHold_new rq scope key kind subject zoneId (q_quoteId q)
                        (q_quoteRevision q) startsAt endsAt db1)
                 (\<lambda>response db2. Inr (Some response, db2)))) db)
         in (case result of Inl e \<Rightarrow> Inl (asSlotUnavailable e) | Inr r \<Rightarrow> Inr r, db')))"

definition assertBeneficiary :: "principal_kind \<Rightarrow> string \<Rightarrow> hold \<Rightarrow> sched_error + unit" where
  "assertBeneficiary kind subject h =
     (if h_beneficiaryKind h \<noteq> kind \<or> h_beneficiarySubject h \<noteq> subject
      then Inl (SchedulingError HOLD_NOT_FOUND) else Inr ())"

definition getHold :: "request \<Rightarrow> string \<Rightarrow> sched_db \<Rightarrow> sched_error + hold_view" where
  "getHold rq holdId db =
     andThen (assertUuid holdId) (\<lambda>_.
     andThen (knownHold (toLowerCase holdId) db) (\<lambda>h.
     if isOperations (rq_actor rq) then Inr (holdView h)
     else andThen (requirePrincipal (rq_actor rq)) (\<lambda>(kind, subject).
          andThen (assertBeneficiary kind subject h) (\<lambda>_. Inr (holdView h)))))"

definition expireAndAbandon ::
  "request \<Rightarrow> capacity_window \<Rightarrow> string \<Rightarrow> string \<Rightarrow>
   (sched_db, sched_error, stored_response option) tx" where
  "expireAndAbandon rq locked scope key db =
     bindS (expireDueHoldsOf rq (rq_now rq) locked db) (\<lambda>(current, k) db1.
     andThen (updateWindow current (w_version locked) db1) (\<lambda>db2.
     Inr (None, abandonIdempotency scope key db2)))"

definition commitHold_tx ::
  "request \<Rightarrow> string \<Rightarrow> string \<Rightarrow> string \<Rightarrow> string \<Rightarrow> string \<Rightarrow> int \<Rightarrow>
   (sched_db, sched_error, stored_response option) tx" where
  "commitHold_tx rq scope key windowId holdId bookingId expectedRevision db =
     andThen (lockedWindow windowId db) (\<lambda>locked.
     andThen (lockedHold holdId db) (\<lambda>h.
     if isDue h (rq_now rq) then expireAndAbandon rq locked scope key db
     else
     andThen (commit h bookingId expectedRevision (rq_now rq)) (\<lambda>(h', replay).
     andThen
       (if replay then Inr db
        else
          andThen (updateHold h' (h_version h) db) (\<lambda>db1.
          andThen (convertHeldToReserved locked (h_units h)) (\<lambda>w'.
          andThen (updateWindow w' (w_version locked) db1) (\<lambda>db2.
          andThen (changed rq 0 h' db2) (\<lambda>db3.
          Inr (audit_hold rq ''hold.committed'' (h_id h)
                 [(''windowId'', DString (w_id locked)), (''bookingId'', DString bookingId)]
                 db3))))))
       (\<lambda>db4.
     (let response = \<lparr>r_status = 200, r_body = HoldBody (holdView h')\<rparr> in
     andThen (completeIdempotency scope key response (rq_dbNow rq) db4) (\<lambda>db5.
     Inr (Some response, db5)))))))"

definition commitHold ::
  "digest \<Rightarrow> request \<Rightarrow> string \<Rightarrow> int \<Rightarrow> string \<Rightarrow> string option \<Rightarrow> sched_db \<Rightarrow>
   (sched_error + stored_response) \<times> sched_db" where
  "commitHold digest rq holdId expectedRevision bookingId rawKey db =
     (case
        andThen (requireScope (rq_actor rq) scheduling_hold_commit) (\<lambda>service.
        andThen (requireKey rawKey) (\<lambda>key.
        andThen (assertUuid holdId) (\<lambda>_.
        andThen (assertUuid bookingId) (\<lambda>_.
        andThen (knownHold (toLowerCase holdId) db) (\<lambda>known. Inr (service, key, known))))))
      of Inl e \<Rightarrow> (Inl e, db)
       | Inr (service, key, known) \<Rightarrow>
        (let i = toLowerCase holdId; booking = toLowerCase bookingId;
             actor = actorKey service;
             scope = scope_of ''commitHold'' actor;
             print = fingerprint digest ''commitHold'' actor (Some i)
                       (CommitHoldBody expectedRevision booking) in
         finish_run (run_tx (with_claim scope key print
           (commitHold_tx rq scope key (h_windowId known) i booking expectedRevision)) db)))"

fun reason_string :: "release_reason \<Rightarrow> string" where
  "reason_string CUSTOMER_CHANGED = ''CUSTOMER_CHANGED''"
| "reason_string BOOKING_FAILED = ''BOOKING_FAILED''"
| "reason_string EXPIRED_BY_CLIENT = ''EXPIRED_BY_CLIENT''"
| "reason_string OPERATIONS_OVERRIDE = ''OPERATIONS_OVERRIDE''"
| "reason_string BOOKING_CANCELLED = ''BOOKING_CANCELLED''"
| "reason_string RESCHEDULED = ''RESCHEDULED''"

definition releaseHold_tx ::
  "request \<Rightarrow> string \<Rightarrow> string \<Rightarrow> string \<Rightarrow> string \<Rightarrow> int \<Rightarrow> release_reason \<Rightarrow>
   (sched_db, sched_error, stored_response option) tx" where
  "releaseHold_tx rq scope key windowId holdId expectedRevision reason db =
     andThen (lockedWindow windowId db) (\<lambda>locked.
     andThen (lockedHold holdId db) (\<lambda>h.
     if isDue h (rq_now rq) then expireAndAbandon rq locked scope key db
     else
     andThen (releaseByBeneficiary h reason expectedRevision (rq_now rq)) (\<lambda>(h', freed).
     andThen (updateHold h' (h_version h) db) (\<lambda>db1.
     andThen (releaseHeldUnits locked (h_units h)) (\<lambda>w'.
     andThen (updateWindow w' (w_version locked) db1) (\<lambda>db2.
     andThen (changed rq 0 h' db2) (\<lambda>db3.
     (let db4 = audit_hold rq ''hold.released'' (h_id h)
                  [(''windowId'', DString (w_id locked)), (''reason'', DString (reason_string reason))]
                  db3;
          response = \<lparr>r_status = 200, r_body = HoldBody (holdView h')\<rparr> in
     andThen (completeIdempotency scope key response (rq_dbNow rq) db4) (\<lambda>db5.
     Inr (Some response, db5))))))))))"

definition releaseHold ::
  "digest \<Rightarrow> request \<Rightarrow> string \<Rightarrow> int \<Rightarrow> release_reason \<Rightarrow> string option \<Rightarrow> sched_db \<Rightarrow>
   (sched_error + stored_response) \<times> sched_db" where
  "releaseHold digest rq holdId expectedRevision reason rawKey db =
     (case
        andThen (requirePrincipal (rq_actor rq)) (\<lambda>(kind, subject).
        andThen (requireKey rawKey) (\<lambda>key.
        andThen (assertUuid holdId) (\<lambda>_.
        andThen (knownHold (toLowerCase holdId) db) (\<lambda>known.
        andThen (assertBeneficiary kind subject known) (\<lambda>_. Inr (key, known))))))
      of Inl e \<Rightarrow> (Inl e, db)
       | Inr (key, known) \<Rightarrow>
        (let i = toLowerCase holdId;
             actor = actorKey (rq_actor rq);
             scope = scope_of ''releaseHold'' actor;
             print = fingerprint digest ''releaseHold'' actor (Some i)
                       (ReleaseHoldBody expectedRevision reason) in
         finish_run (run_tx (with_claim scope key print
           (releaseHold_tx rq scope key (h_windowId known) i expectedRevision reason)) db)))"

end
