(* ===== verification/Sched_Commitments.thy ===== *)
theory Sched_Commitments
  imports Sched_Service
begin

text \<open>
  Scheduling, the Booking-only changes of a commitment (\<^verbatim>\<open>commitments.service.ts\<close>) and the
  staff surface with the expiry sweep (\<^verbatim>\<open>capacity.service.ts\<close>), in the style of
  \<open>Sched_Service\<close>.
\<close>

section \<open>Commitments\<close>

definition releaseCommitment_tx ::
  "request \<Rightarrow> string \<Rightarrow> string \<Rightarrow> string \<Rightarrow> string \<Rightarrow> string \<Rightarrow>
   (sched_db, sched_error, stored_response option) tx" where
  "releaseCommitment_tx rq scope key windowId holdId booking db =
     andThen (lockedWindow windowId db) (\<lambda>window.
     andThen (lockedHold holdId db) (\<lambda>h.
     andThen (releaseCommitment_hold h booking (rq_now rq)) (\<lambda>(h', replay).
     andThen
       (if replay then Inr db
        else
          andThen (updateHold h' (h_version h) db) (\<lambda>db1.
          andThen (releaseReservedUnits window (h_units h)) (\<lambda>w'.
          andThen (updateWindow w' (w_version window) db1) (\<lambda>db2.
          andThen (changed rq 0 h' db2) (\<lambda>db3.
          Inr (audit_hold rq ''reservation.cancelled'' (h_id h)
                 [(''windowId'', DString (w_id window)), (''bookingId'', DString booking),
                  (''units'', DNumber (h_units h)), (''reason'', DString ''BOOKING_CANCELLED'')]
                 db3))))))
       (\<lambda>db4.
     (let response = \<lparr>r_status = 200, r_body = HoldBody (holdView h')\<rparr> in
     andThen (completeIdempotency scope key response (rq_dbNow rq) db4) (\<lambda>db5.
     Inr (Some response, db5)))))))"

definition releaseCommitment ::
  "digest \<Rightarrow> request \<Rightarrow> string \<Rightarrow> string \<Rightarrow> string option \<Rightarrow> sched_db \<Rightarrow>
   (sched_error + stored_response) \<times> sched_db" where
  "releaseCommitment digest rq bookingId holdId rawKey db =
     (case
        andThen (requireScope (rq_actor rq) scheduling_commitment_change) (\<lambda>service.
        andThen (requireKey rawKey) (\<lambda>key.
        andThen (assertUuid bookingId) (\<lambda>_.
        andThen (assertUuid holdId) (\<lambda>_.
        andThen (knownHold (toLowerCase holdId) db) (\<lambda>known. Inr (service, key, known))))))
      of Inl e \<Rightarrow> (Inl e, db)
       | Inr (service, key, known) \<Rightarrow>
        (let booking = toLowerCase bookingId; i = toLowerCase holdId;
             actor = actorKey service;
             scope = scope_of ''releaseCommitment'' actor;
             print = fingerprint digest ''releaseCommitment'' actor (Some booking)
                       (ReleaseCommitmentBody i) in
         finish_run (run_tx (with_claim scope key print
           (releaseCommitment_tx rq scope key (h_windowId known) i booking)) db)))"

text \<open>
  \<^verbatim>\<open>moveUnits\<close>: the new hold's unit goes from held to reserved, the old hold's reserved unit
  is freed; each window is written once. \<open>old\<close> and \<open>before\<close> are the locked windows of the
  old and of the new hold.
\<close>

definition moveUnits ::
  "capacity_window \<Rightarrow> capacity_window \<Rightarrow> hold \<Rightarrow> hold \<Rightarrow> sched_db \<Rightarrow> sched_error + sched_db" where
  "moveUnits old before from to db =
     (if h_windowId from = h_windowId to then
        andThen (convertHeldToReserved before (h_units to)) (\<lambda>w1.
        andThen (releaseReservedUnits w1 (h_units from)) (\<lambda>next.
        updateWindow (next\<lparr>w_version := w_version before + 1\<rparr>) (w_version before) db))
      else
        andThen (convertHeldToReserved before (h_units to)) (\<lambda>w1.
        andThen (updateWindow w1 (w_version before) db) (\<lambda>db1.
        andThen (releaseReservedUnits old (h_units from)) (\<lambda>w2.
        updateWindow w2 (w_version old) db1))))"

text \<open>
  \<^verbatim>\<open>replaceCommitment\<close>'s unit of work. \<^verbatim>\<open>lockWindows\<close> locks the distinct windows in
  ascending id and the holds are locked in ascending id; a missing row refuses the command
  whichever is met first.
\<close>

definition replaceCommitment_tx ::
  "request \<Rightarrow> string \<Rightarrow> string \<Rightarrow> string \<Rightarrow> string \<Rightarrow> string \<Rightarrow> string \<Rightarrow> string \<Rightarrow> int \<Rightarrow>
   (sched_db, sched_error, stored_response option) tx" where
  "replaceCommitment_tx rq scope key fromWindowId toWindowId fromId toId booking
     expectedRevision db =
     andThen (lockedWindow (min fromWindowId toWindowId) db) (\<lambda>_.
     andThen (lockedWindow (max fromWindowId toWindowId) db) (\<lambda>_.
     andThen (lockedHold (min fromId toId) db) (\<lambda>_.
     andThen (lockedHold (max fromId toId) db) (\<lambda>_.
     andThen (lockedHold fromId db) (\<lambda>from.
     andThen (lockedHold toId db) (\<lambda>to.
     andThen (lockedWindow toWindowId db) (\<lambda>toWindow.
     andThen (lockedWindow fromWindowId db) (\<lambda>fromWindow.
     if isDue to (rq_now rq) then expireAndAbandon rq toWindow scope key db
     else
     andThen (replaceCommitment_hold from to booking expectedRevision (rq_now rq))
       (\<lambda>(from', to', replay).
     andThen
       (if replay then Inr db
        else
          andThen (updateHold from' (h_version from) db) (\<lambda>db1.
          andThen (updateHold to' (h_version to) db1) (\<lambda>db2.
          andThen (moveUnits fromWindow toWindow from to db2) (\<lambda>db3.
          andThen (changed rq 0 from' db3) (\<lambda>db4.
          andThen (changed rq 1 to' db4) (\<lambda>db5.
          Inr (audit_hold rq ''reservation.rescheduled'' (h_id to)
                 [(''bookingId'', DString booking), (''fromHoldId'', DString (h_id from)),
                  (''fromWindowId'', DString (h_windowId from)),
                  (''toWindowId'', DString (h_windowId to))]
                 db5)))))))
       (\<lambda>db6.
     (let response = \<lparr>r_status = 200,
                      r_body = ReplacementBody booking (holdView from') (holdView to')\<rparr> in
     andThen (completeIdempotency scope key response (rq_dbNow rq) db6) (\<lambda>db7.
     Inr (Some response, db7)))))))))))))"

definition replaceCommitment ::
  "digest \<Rightarrow> request \<Rightarrow> string \<Rightarrow> string \<Rightarrow> string \<Rightarrow> int \<Rightarrow> string option \<Rightarrow> sched_db \<Rightarrow>
   (sched_error + stored_response) \<times> sched_db" where
  "replaceCommitment digest rq bookingId fromHoldId toHoldId toExpectedRevision rawKey db =
     (case
        andThen (requireScope (rq_actor rq) scheduling_commitment_change) (\<lambda>service.
        andThen (requireKey rawKey) (\<lambda>key.
        andThen (assertUuid bookingId) (\<lambda>_.
        andThen (assertUuid fromHoldId) (\<lambda>_.
        andThen (assertUuid toHoldId) (\<lambda>_.
        andThen (knownHold (toLowerCase fromHoldId) db) (\<lambda>fromKnown.
        andThen (knownHold (toLowerCase toHoldId) db) (\<lambda>toKnown.
        Inr (service, key, fromKnown, toKnown))))))))
      of Inl e \<Rightarrow> (Inl e, db)
       | Inr (service, key, fromKnown, toKnown) \<Rightarrow>
        (let booking = toLowerCase bookingId; fromId = toLowerCase fromHoldId;
             toId = toLowerCase toHoldId;
             actor = actorKey service;
             scope = scope_of ''replaceCommitment'' actor;
             print = fingerprint digest ''replaceCommitment'' actor (Some booking)
                       (ReplaceCommitmentBody fromId toId toExpectedRevision) in
         finish_run (run_tx (with_claim scope key print
           (replaceCommitment_tx rq scope key (h_windowId fromKnown) (h_windowId toKnown)
              fromId toId booking toExpectedRevision)) db)))"

section \<open>Windows\<close>

text \<open>\<^verbatim>\<open>::uuid\<close> of a statement's parameter: PostgreSQL compares UUIDs without regard to case.\<close>

definition uuid_cast :: "string \<Rightarrow> string" where
  "uuid_cast s = toLowerCase s"

definition audit_window ::
  "request \<Rightarrow> string \<Rightarrow> string \<Rightarrow> (string \<times> audit_detail) list \<Rightarrow> sched_db \<Rightarrow> sched_db" where
  "audit_window rq action target details db =
     appendAudit \<lparr>a_action = action, a_actor = rq_actor rq, a_targetType = ''CAPACITY_WINDOW'',
       a_targetId = target, a_correlationId = rq_correlationId rq, a_details = details\<rparr> db"

definition defineWindow_tx ::
  "request \<Rightarrow> capacity_window \<Rightarrow> (sched_db, sched_error, insert_window_result) tx" where
  "defineWindow_tx rq window db =
     bindS (insertWindow window db) (\<lambda>inserted db1.
     Inr (inserted,
          if inserted = CREATED
          then audit_window rq ''window.defined'' (w_id window)
                 [(''capacity'', DNumber (w_capacity window))] db1
          else db1))"

definition defineWindow ::
  "request \<Rightarrow> string \<Rightarrow> instant option \<Rightarrow> instant option \<Rightarrow> js_number \<Rightarrow> sched_db \<Rightarrow>
   (sched_error + capacity_window \<times> bool) \<times> sched_db" where
  "defineWindow rq zoneId startsAt endsAt capacity db =
     (case
        andThen (requireOperations (rq_actor rq)) (\<lambda>_.
        andThen (assertUuid zoneId) (\<lambda>_.
        assertWindowDefinition startsAt endsAt capacity (rq_now rq)))
      of Inl e \<Rightarrow> (Inl e, db)
       | Inr (s, e, c) \<Rightarrow>
        (let window = \<lparr>w_id = rq_ids rq 0, w_zoneId = toLowerCase zoneId, w_startsAt = s,
                       w_endsAt = e, w_capacity = c, w_held = 0, w_reserved = 0,
                       w_status = OPEN, w_version = 1\<rparr> in
         case run_tx (defineWindow_tx rq window) db of
           (Inl err, db1) \<Rightarrow> (Inl err, db1)
         | (Inr CREATED, db1) \<Rightarrow> (Inr (window, False), db1)
         | (Inr OVERLAPS, db1) \<Rightarrow> (Inl (SchedulingError WINDOW_OVERLAPS), db1)
         | (Inr DUPLICATE_START, db1) \<Rightarrow>
             (case find (\<lambda>w. w_zoneId w = w_zoneId window \<and> w_startsAt w = s) (db_windows db1) of
                Some existing \<Rightarrow>
                  (if w_endsAt existing = e \<and> w_capacity existing = c
                   then (Inr (existing, True), db1)
                   else (Inl (SchedulingError WINDOW_EXISTS), db1))
              | None \<Rightarrow> (Inl (SchedulingError WINDOW_EXISTS), db1))))"

definition changeCapacity_tx ::
  "request \<Rightarrow> string \<Rightarrow> js_number \<Rightarrow> int \<Rightarrow> (sched_db, sched_error, capacity_window) tx" where
  "changeCapacity_tx rq windowId capacity expectedVersion db =
     andThen (lockedWindow (uuid_cast windowId) db) (\<lambda>locked.
     if w_version locked \<noteq> expectedVersion then Inl (SchedulingError VERSION_CONFLICT)
     else
     bindS (expireDueHoldsOf rq (rq_now rq) locked db) (\<lambda>(current, k) db1.
     andThen (changeCapacity current capacity) (\<lambda>next.
     andThen (updateWindow next (w_version locked) db1) (\<lambda>db2.
     Inr (next, audit_window rq ''window.capacity-changed'' windowId
                  [(''from'', DNumber (w_capacity locked)), (''to'', DNumber (w_capacity next))]
                  db2)))))"

definition changeWindowCapacity ::
  "request \<Rightarrow> string \<Rightarrow> js_number \<Rightarrow> int \<Rightarrow> sched_db \<Rightarrow>
   (sched_error + capacity_window) \<times> sched_db" where
  "changeWindowCapacity rq windowId capacity expectedVersion db =
     (case andThen (requireOperations (rq_actor rq)) (\<lambda>_. assertUuid windowId)
      of Inl e \<Rightarrow> (Inl e, db)
       | Inr _ \<Rightarrow> run_tx (changeCapacity_tx rq windowId capacity expectedVersion) db)"

definition closeWindow_tx ::
  "request \<Rightarrow> string \<Rightarrow> int \<Rightarrow> (sched_db, sched_error, capacity_window) tx" where
  "closeWindow_tx rq windowId expectedVersion db =
     andThen (lockedWindow (uuid_cast windowId) db) (\<lambda>locked.
     if w_status locked = CLOSED then Inr (locked, db)
     else if w_version locked \<noteq> expectedVersion then Inl (SchedulingError VERSION_CONFLICT)
     else
     (let next = closeWindow locked in
     andThen (updateWindow next (w_version locked) db) (\<lambda>db1.
     Inr (next, audit_window rq ''window.closed'' windowId [] db1))))"

definition closeWindow_command ::
  "request \<Rightarrow> string \<Rightarrow> int \<Rightarrow> sched_db \<Rightarrow> (sched_error + capacity_window) \<times> sched_db" where
  "closeWindow_command rq windowId expectedVersion db =
     (case andThen (requireOperations (rq_actor rq)) (\<lambda>_. assertUuid windowId)
      of Inl e \<Rightarrow> (Inl e, db)
       | Inr _ \<Rightarrow> run_tx (closeWindow_tx rq windowId expectedVersion) db)"

section \<open>Override and sweep\<close>

definition overrideRelease_tx ::
  "request \<Rightarrow> string \<Rightarrow> string \<Rightarrow> (sched_db, sched_error, hold) tx" where
  "overrideRelease_tx rq windowId holdId db =
     andThen (lockedWindow windowId db) (\<lambda>locked.
     andThen (lockedHold (uuid_cast holdId) db) (\<lambda>h.
     if isDue h (rq_now rq) then
       bindS (expireDueHoldsOf rq (rq_now rq) locked db) (\<lambda>(current, k) db1.
       andThen (updateWindow current (w_version locked) db1) (\<lambda>db2.
       Inr (h\<lparr>h_status := EXPIRED\<rparr>, db2)))
     else
     andThen (releaseByOperations h (rq_now rq)) (\<lambda>outcome.
     case outcome of None \<Rightarrow> Inr (h, db)
     | Some (h', freed) \<Rightarrow>
       andThen (if freed = FREED_HELD then releaseHeldUnits locked (h_units h)
                else releaseReservedUnits locked (h_units h)) (\<lambda>next.
       andThen (updateHold h' (h_version h) db) (\<lambda>db1.
       andThen (updateWindow next (w_version locked) db1) (\<lambda>db2.
       andThen (emit (rq_ids rq 0) (rq_correlationId rq) h' (w_zoneId locked)
                  (eventActor (rq_actor rq)) db2) (\<lambda>db3.
       Inr (h', audit_hold rq
                  (if freed = FREED_HELD then ''hold.released'' else ''reservation.cancelled'')
                  (h_id h)
                  [(''windowId'', DString (w_id locked)), (''units'', DNumber (h_units h)),
                   (''reason'', DString ''OPERATIONS_OVERRIDE'')]
                  db3))))))))"

definition overrideRelease ::
  "request \<Rightarrow> string \<Rightarrow> sched_db \<Rightarrow> (sched_error + hold) \<times> sched_db" where
  "overrideRelease rq holdId db =
     (case
        andThen (requireOperations (rq_actor rq)) (\<lambda>_.
        andThen (assertUuid holdId) (\<lambda>_. knownHold (uuid_cast holdId) db))
      of Inl e \<Rightarrow> (Inl e, db)
       | Inr known \<Rightarrow> run_tx (overrideRelease_tx rq (h_windowId known) holdId) db)"

text \<open>
  \<^verbatim>\<open>expireDue\<close>: one unit of work per window; \<open>expireDue_tx\<close> returns the units it freed. The
  window is taken with \<^verbatim>\<open>skipLocked\<close>: one that another transaction has locked is left alone.
\<close>

definition expireDue_tx ::
  "request \<Rightarrow> (string \<Rightarrow> bool) \<Rightarrow> string \<Rightarrow> (sched_db, sched_error, int) tx" where
  "expireDue_tx rq busy windowId db =
     (case lockWindow (Some busy) windowId db of
        None \<Rightarrow> Inr (0, db)
      | Some locked \<Rightarrow>
        bindS (expireDueHoldsOf rq (rq_now rq) locked db) (\<lambda>(current, k) db1.
        (let released = w_held locked - w_held current in
         if released = 0 then Inr (0, db1)
         else andThen (updateWindow current (w_version locked) db1) (\<lambda>db2.
              Inr (released, db2)))))"

text \<open>
  The loop over the windows. It is not one transaction: other commands run between its units of
  work. What the n-th unit of work finds is its environment \<open>envs n\<close>: the ids it is given, what
  other transactions committed since the unit of work before it (\<open>sw_meanwhile\<close>), and the windows
  they have locked (\<open>sw_busy\<close>). A unit of work that throws ends the sweep with its error.
\<close>

record sweep_env =
  sw_request :: request
  sw_meanwhile :: "sched_db \<Rightarrow> sched_db"
  sw_busy :: "string \<Rightarrow> bool"

fun expireDue_loop ::
  "(nat \<Rightarrow> sweep_env) \<Rightarrow> instant \<Rightarrow> nat \<Rightarrow> string list \<Rightarrow> int \<Rightarrow> int \<Rightarrow> sched_db \<Rightarrow>
   (sched_error + int \<times> int) \<times> sched_db" where
  "expireDue_loop envs now n [] windows units db = (Inr (windows, units), db)"
| "expireDue_loop envs now n (i # is) windows units db =
     (case run_tx (expireDue_tx ((sw_request (envs n))\<lparr>rq_now := now\<rparr>) (sw_busy (envs n)) i)
             (sw_meanwhile (envs n) db) of
        (Inl e, db1) \<Rightarrow> (Inl e, db1)
      | (Inr freed, db1) \<Rightarrow>
          (if 0 < freed then expireDue_loop envs now (Suc n) is (windows + 1) (units + freed) db1
           else expireDue_loop envs now (Suc n) is windows units db1))"

definition windowsWithDueHolds :: "instant \<Rightarrow> nat \<Rightarrow> sched_db \<Rightarrow> string list" where
  "windowsWithDueHolds now limit db =
     take limit (remdups
       (map h_windowId (filter (\<lambda>h. h_status h = ACTIVE \<and> h_expiresAt h \<le> now) (db_holds db)) @
        map l_windowId (filter (\<lambda>l. l_status l = ACTIVE \<and> l_expiresAt l \<le> now) (db_legacy db))))"

definition expireDue ::
  "(nat \<Rightarrow> sweep_env) \<Rightarrow> instant \<Rightarrow> nat \<Rightarrow> sched_db \<Rightarrow> (sched_error + int \<times> int) \<times> sched_db" where
  "expireDue envs now limit db =
     expireDue_loop envs now 0 (windowsWithDueHolds now limit db) 0 0 db"

end
