(* ===== verification/Sched_Invariant.thy ===== *)
theory Sched_Invariant
  imports Sched_Commitments
begin

text \<open>
  Scheduling, the database invariant: the counters of every window are the units of its
  ACTIVE and of its CONFIRMED holds, no window is oversold, a booking has at most one CONFIRMED
  hold. The commands change a hold and its window in two statements; between them the
  invariant holds of the database with the window's row replaced by the window in hand
  (\<open>with_window\<close>), and the lemmas of this theory move it from one statement to the next.
\<close>

section \<open>The invariant\<close>

definition active_units :: "sched_db \<Rightarrow> string \<Rightarrow> int" where
  "active_units db i =
     sum_rows h_units (\<lambda>h. h_windowId h = i \<and> h_status h = ACTIVE) (db_holds db) +
     sum_rows l_units (\<lambda>l. l_windowId l = i \<and> l_status l = ACTIVE) (db_legacy db)"

definition reserved_units :: "sched_db \<Rightarrow> string \<Rightarrow> int" where
  "reserved_units db i =
     sum_rows h_units (\<lambda>h. h_windowId h = i \<and> h_status h = CONFIRMED) (db_holds db) +
     sum_rows l_units (\<lambda>l. l_windowId l = i \<and> l_status l = CONFIRMED) (db_legacy db)"

text \<open>A hold lies inside its window.\<close>

definition hold_fits :: "capacity_window \<Rightarrow> hold \<Rightarrow> bool" where
  "hold_fits w h \<longleftrightarrow>
     h_windowId h = w_id w \<and> h_zoneId h = w_zoneId w \<and> w_startsAt w \<le> h_slotStartsAt h \<and>
     h_slotStartsAt h < h_slotEndsAt h \<and> h_slotEndsAt h \<le> w_endsAt w"

definition windows_ok :: "sched_db \<Rightarrow> bool" where
  "windows_ok db \<longleftrightarrow>
     distinct (map w_id (db_windows db)) \<and>
     (\<forall>w \<in> set (db_windows db). wf_window w \<and> isUuid (w_zoneId w) \<and> w_held w = active_units db (w_id w) \<and>
        w_reserved w = reserved_units db (w_id w)) \<and>
     (\<forall>w \<in> set (db_windows db). \<forall>w' \<in> set (db_windows db). overlaps w w' \<longrightarrow> w = w')"

definition holds_ok :: "sched_db \<Rightarrow> bool" where
  "holds_ok db \<longleftrightarrow>
     distinct (map h_id (db_holds db)) \<and>
     (\<forall>h \<in> set (db_holds db). wf_hold h \<and> isUuid (h_id h) \<and>
        (\<exists>w \<in> set (db_windows db). hold_fits w h)) \<and>
     distinct (committed_bookings (db_holds db)) \<and>
     (\<forall>l \<in> set (db_legacy db). 1 \<le> l_units l \<and> l_windowId l \<in> w_id ` set (db_windows db))"

definition sched_inv :: "sched_db \<Rightarrow> bool" where
  "sched_inv db \<longleftrightarrow> windows_ok db \<and> holds_ok db"

lemmas sched_inv_defs = sched_inv_def windows_ok_def holds_ok_def

lemma sched_inv_empty: "sched_inv empty_db"
  by (simp add: sched_inv_defs empty_db_def committed_bookings_def)

lemma sched_inv_no_oversell:
  assumes "sched_inv db" and "w \<in> set (db_windows db)"
  shows "active_units db (w_id w) + reserved_units db (w_id w) \<le> w_capacity w"
  using assms unfolding sched_inv_def windows_ok_def wf_window_def by fastforce

section \<open>Statements that touch neither windows nor holds\<close>

lemma units_frame [simp]:
  "active_units (db\<lparr>db_idem := x\<rparr>) i = active_units db i"
  "active_units (db\<lparr>db_outbox := y\<rparr>) i = active_units db i"
  "active_units (db\<lparr>db_audit := z\<rparr>) i = active_units db i"
  "active_units (db\<lparr>db_windows := ws\<rparr>) i = active_units db i"
  "reserved_units (db\<lparr>db_idem := x\<rparr>) i = reserved_units db i"
  "reserved_units (db\<lparr>db_outbox := y\<rparr>) i = reserved_units db i"
  "reserved_units (db\<lparr>db_audit := z\<rparr>) i = reserved_units db i"
  "reserved_units (db\<lparr>db_windows := ws\<rparr>) i = reserved_units db i"
  by (simp_all add: active_units_def reserved_units_def)

lemma sched_inv_frame [simp]:
  "sched_inv (db\<lparr>db_idem := x\<rparr>) = sched_inv db"
  "sched_inv (db\<lparr>db_outbox := y\<rparr>) = sched_inv db"
  "sched_inv (db\<lparr>db_audit := z\<rparr>) = sched_inv db"
  by (simp_all add: sched_inv_defs)

section \<open>The window in hand\<close>

definition with_window :: "capacity_window \<Rightarrow> sched_db \<Rightarrow> sched_db" where
  "with_window w db =
     db\<lparr>db_windows := update_rows (\<lambda>r. w_id r = w_id w) (\<lambda>_. w) (db_windows db)\<rparr>"

lemma with_window_frame [simp]:
  "with_window w (db\<lparr>db_idem := x\<rparr>) = (with_window w db)\<lparr>db_idem := x\<rparr>"
  "with_window w (db\<lparr>db_outbox := y\<rparr>) = (with_window w db)\<lparr>db_outbox := y\<rparr>"
  "with_window w (db\<lparr>db_audit := z\<rparr>) = (with_window w db)\<lparr>db_audit := z\<rparr>"
  "with_window w (db\<lparr>db_holds := hs\<rparr>) = (with_window w db)\<lparr>db_holds := hs\<rparr>"
  "with_window w (db\<lparr>db_legacy := ls\<rparr>) = (with_window w db)\<lparr>db_legacy := ls\<rparr>"
  "db_holds (with_window w db) = db_holds db"
  "db_legacy (with_window w db) = db_legacy db"
  by (simp_all add: with_window_def)

lemma with_window_same_key [simp]:
  "w_id w = w_id w' \<Longrightarrow> with_window w' (with_window w db) = with_window w' db"
  by (simp add: with_window_def update_rows_def comp_def if_distrib cong: if_cong)

lemma with_window_id:
  assumes "distinct (map w_id (db_windows db))" and "w \<in> set (db_windows db)"
  shows "with_window w db = db"
proof -
  have "update_rows (\<lambda>r. w_id r = w_id w) (\<lambda>_. w) (db_windows db) = db_windows db"
    unfolding update_rows_def
    by (rule map_idI) (use assms in \<open>auto dest: distinct_key_eq\<close>)
  then show ?thesis by (simp add: with_window_def)
qed

lemma length_filter_1: "length (filter P xs) = 1 \<Longrightarrow> \<exists>x \<in> set xs. P x"
  by (metis filter_False length_0_conv zero_neq_one)

lemma set_with_window:
  assumes "r \<in> set (db_windows (with_window w db))"
  shows "r = w \<or> r \<in> set (db_windows db) \<and> w_id r \<noteq> w_id w"
  using assms by (auto simp: with_window_def set_update_rows split: if_splits)

lemma map_ids_with_window [simp]:
  "map w_id (db_windows (with_window w db)) = map w_id (db_windows db)"
  by (auto simp: with_window_def update_rows_def)

lemma ids_with_window [simp]: "w_id ` set (db_windows (with_window w db)) = w_id ` set (db_windows db)"
  by (metis list.set_map map_ids_with_window)

lemma with_window_member:
  "r \<in> set (db_windows db) \<Longrightarrow> w_id r = w_id w \<Longrightarrow> w \<in> set (db_windows (with_window w db))"
  by (auto simp: with_window_def set_update_rows)

lemma with_window_units [simp]:
  "active_units (with_window w db) i = active_units db i"
  "reserved_units (with_window w db) i = reserved_units db i"
  by (simp_all add: with_window_def)

text \<open>The part of the windows that the holds refer to is not changed.\<close>

lemma same_window_fits: "same_window w w' \<Longrightarrow> hold_fits w' h = hold_fits w h"
  by (auto simp: hold_fits_def same_window_def)

lemma fits_with_window:
  assumes "distinct (map w_id (db_windows db))" and "r \<in> set (db_windows db)" and "same_window r w"
  shows "(\<exists>x \<in> set (db_windows (with_window w db)). hold_fits x h) =
         (\<exists>x \<in> set (db_windows db). hold_fits x h)"
proof -
  have "hold_fits (if w_id x = w_id w then w else x) h = hold_fits x h" if "x \<in> set (db_windows db)" for x
  proof (cases "w_id x = w_id w")
    case True
    with assms(3) have "w_id x = w_id r" by (simp add: same_window_def)
    with assms(1,2) that have "x = r" by (auto dest: distinct_key_eq)
    with True same_window_fits [OF assms(3)] show ?thesis by simp
  qed simp
  then have "(\<exists>x \<in> (\<lambda>x. if w_id x = w_id w then w else x) ` set (db_windows db). hold_fits x h) =
             (\<exists>x \<in> set (db_windows db). hold_fits x h)"
    unfolding bex_simps by (rule bex_cong [OF refl])
  moreover have "db_windows (with_window w db) =
                 map (\<lambda>x. if w_id x = w_id w then w else x) (db_windows db)"
    by (simp add: with_window_def update_rows_def)
  ultimately show ?thesis by (simp only: list.set_map)
qed

lemma holds_ok_with_window:
  assumes "distinct (map w_id (db_windows db))" and "r \<in> set (db_windows db)" and "same_window r w"
  shows "holds_ok (with_window w db) = holds_ok db"
  by (simp add: holds_ok_def fits_with_window [OF assms])

text \<open>
  \<open>in_hand w db\<close>: a command holds the row of window \<open>w\<close> locked and has not written it yet;
  writing \<open>w\<close> would establish the invariant.
\<close>

definition in_hand :: "capacity_window \<Rightarrow> sched_db \<Rightarrow> bool" where
  "in_hand w db \<longleftrightarrow> sched_inv (with_window w db) \<and> (\<exists>r \<in> set (db_windows db). same_window r w)"

lemma in_hand_row:
  assumes "in_hand w db"
  obtains r where "r \<in> set (db_windows db)" "same_window r w" "distinct (map w_id (db_windows db))"
  using assms by (auto simp: in_hand_def sched_inv_defs)

lemma in_hand_holds: "in_hand w db \<Longrightarrow> holds_ok db"
  by (auto simp: in_hand_def sched_inv_def windows_ok_def holds_ok_with_window)

lemma in_hand_start: "sched_inv db \<Longrightarrow> w \<in> set (db_windows db) \<Longrightarrow> in_hand w db"
  by (auto simp: in_hand_def with_window_id sched_inv_defs)

lemma in_hand_frame [simp]:
  "in_hand w (db\<lparr>db_idem := x\<rparr>) = in_hand w db"
  "in_hand w (db\<lparr>db_outbox := y\<rparr>) = in_hand w db"
  "in_hand w (db\<lparr>db_audit := z\<rparr>) = in_hand w db"
  by (simp_all add: in_hand_def)

lemma in_hand_window:
  assumes "in_hand w db"
  shows "wf_window w" and "isUuid (w_zoneId w)" and "w_held w = active_units db (w_id w)"
    and "w_reserved w = reserved_units db (w_id w)"
proof -
  from assms obtain r where "r \<in> set (db_windows db)" "same_window r w" by (rule in_hand_row)
  then have w: "w \<in> set (db_windows (with_window w db))"
    by (intro with_window_member [of r]) (auto simp: same_window_def)
  have ok: "windows_ok (with_window w db)" using assms by (simp add: in_hand_def sched_inv_def)
  show "wf_window w" and "isUuid (w_zoneId w)" and "w_held w = active_units db (w_id w)"
    and "w_reserved w = reserved_units db (w_id w)"
    using ok w unfolding windows_ok_def with_window_units by blast+
qed

lemmas in_hand_wf = in_hand_window(1)

text \<open>
  The one lemma every statement rests on: rows change so that the totals of the window in hand
  move as its counters do, and no other window's totals move.
\<close>

lemma sched_inv_move:
  assumes inv: "sched_inv db" and w: "w \<in> set (db_windows db)"
    and same: "same_window w w'" and wf: "wf_window w'"
    and ws: "db_windows db' = db_windows db" and hs: "holds_ok db'"
    and act: "\<And>i. active_units db' i =
                active_units db i + (if i = w_id w then w_held w' - w_held w else 0)"
    and res: "\<And>i. reserved_units db' i =
                reserved_units db i + (if i = w_id w then w_reserved w' - w_reserved w else 0)"
  shows "sched_inv (with_window w' db')"
proof -
  let ?ws = "set (db_windows (with_window w' db'))"
  have id: "w_id w' = w_id w" using same by (simp add: same_window_def)
  have rows: "r = w' \<or> r \<in> set (db_windows db) \<and> w_id r \<noteq> w_id w" if "r \<in> ?ws" for r
    using set_with_window [OF that] by (simp add: ws id)
  have "wf_window r \<and> w_held r = active_units db' (w_id r) \<and>
        w_reserved r = reserved_units db' (w_id r)" if "r \<in> ?ws" for r
    using rows [OF that] inv w by (auto simp: act res id wf sched_inv_defs)
  moreover have "isUuid (w_zoneId r)" if "r \<in> ?ws" for r
    using rows [OF that] inv w same by (auto simp: same_window_def sched_inv_defs)
  moreover have "r = s" if "r \<in> ?ws" "s \<in> ?ws" "overlaps r s" for r s
  proof -
    have "overlaps w' x = overlaps w x" "overlaps x w' = overlaps x w" for x
      using same by (auto simp: same_window_def overlaps_def)
    moreover have "overlaps a b \<Longrightarrow> a = b" if "a \<in> set (db_windows db)" "b \<in> set (db_windows db)" for a b
      using inv that by (auto simp: sched_inv_defs)
    ultimately show ?thesis using rows [OF that(1)] rows [OF that(2)] that(3) w by auto
  qed
  moreover have d: "distinct (map w_id (db_windows db))" using inv by (simp add: sched_inv_defs)
  moreover have "holds_ok (with_window w' db')"
    using hs holds_ok_with_window [of db' w w'] d w same ws by simp
  ultimately show ?thesis by (simp add: sched_inv_def windows_ok_def ws)
qed

lemma in_hand_move:
  assumes hand: "in_hand w db" and same: "same_window w w'" and wf: "wf_window w'"
    and ws: "db_windows db' = db_windows db" and hs: "holds_ok db'"
    and act: "\<And>i. active_units db' i =
                active_units db i + (if i = w_id w then w_held w' - w_held w else 0)"
    and res: "\<And>i. reserved_units db' i =
                reserved_units db i + (if i = w_id w then w_reserved w' - w_reserved w else 0)"
  shows "in_hand w' db'"
proof -
  from hand obtain r where r: "r \<in> set (db_windows db)" "same_window r w"
    and d: "distinct (map w_id (db_windows db))" by (rule in_hand_row)
  have inv: "sched_inv (with_window w db)" using hand by (simp add: in_hand_def)
  from r have id: "w_id r = w_id w" by (simp add: same_window_def)
  have "sched_inv (with_window w' (with_window w db'))"
    using inv with_window_member [OF r(1) id] same wf
  proof (rule sched_inv_move)
    show "db_windows (with_window w db') = db_windows (with_window w db)"
      by (simp add: with_window_def ws)
    show "holds_ok (with_window w db')" using hs holds_ok_with_window [of db' r w] d r ws by simp
  qed (simp_all add: act res)
  moreover have "w_id w = w_id w'" using same by (simp add: same_window_def)
  ultimately have "sched_inv (with_window w' db')" by simp
  with r same ws show ?thesis by (auto simp: in_hand_def intro: same_window_trans)
qed

text \<open>A change of the window that leaves its counters alone.\<close>

lemma in_hand_same_counters:
  assumes "in_hand w db" and "same_window w w'" and "wf_window w'"
    and "w_held w' = w_held w" and "w_reserved w' = w_reserved w"
  shows "in_hand w' db"
  using assms in_hand_holds [OF assms(1)] by (intro in_hand_move [OF assms(1-3)]) auto

lemma in_hand_version:
  assumes "in_hand w db" and "1 \<le> v"
  shows "in_hand (w\<lparr>w_version := v\<rparr>) db"
  using assms in_hand_wf [OF assms(1)]
  by (intro in_hand_same_counters [OF assms(1)]) (auto simp: same_window_def wf_window_def)

text \<open>Writing the window in hand establishes the invariant.\<close>

lemma window_columns_same:
  "same_window r w \<Longrightarrow> window_columns w v r = w\<lparr>w_version := max (w_version w) (v + 1)\<rparr>"
  by (cases r; cases w) (simp add: same_window_def window_columns_def)

lemma updateWindow_row:
  assumes "updateWindow w v db = Inr db'" and "distinct (map w_id (db_windows db))"
    and "r \<in> set (db_windows db)" and "same_window r w"
  shows "w_version r = v" and "db' = with_window (w\<lparr>w_version := max (w_version w) (v + 1)\<rparr>) db"
proof -
  let ?hit = "\<lambda>r. w_id r = w_id w \<and> w_version r = v"
  from assms(1) have len: "length (filter ?hit (db_windows db)) = 1"
    and db': "db' = db\<lparr>db_windows := update_rows ?hit (window_columns w v) (db_windows db)\<rparr>"
    by (auto simp: updateWindow_def Let_def split: if_splits)
  have id: "w_id w = w_id r" using assms(4) by (simp add: same_window_def)
  from length_filter_1 [OF len] obtain x where "x \<in> set (db_windows db)" "?hit x" by auto
  with assms(2,3) id have "x = r" by (auto dest: distinct_key_eq)
  with \<open>?hit x\<close> show v: "w_version r = v" by simp
  have "update_rows ?hit (window_columns w v) (db_windows db) =
        update_rows (\<lambda>x. w_id x = w_id w) (\<lambda>_. w\<lparr>w_version := max (w_version w) (v + 1)\<rparr>) (db_windows db)"
    unfolding update_rows_def
  proof (rule map_cong [OF refl])
    fix x assume "x \<in> set (db_windows db)"
    with assms(2,3) id have "w_id x = w_id w \<Longrightarrow> x = r" by (auto dest: distinct_key_eq)
    then show "(if ?hit x then window_columns w v x else x) =
               (if w_id x = w_id w then w\<lparr>w_version := max (w_version w) (v + 1)\<rparr> else x)"
      using v window_columns_same [OF assms(4)] by auto
  qed
  with db' show "db' = with_window (w\<lparr>w_version := max (w_version w) (v + 1)\<rparr>) db"
    by (simp add: with_window_def)
qed

lemma in_hand_write:
  assumes "in_hand w db" and "updateWindow w v db = Inr db'"
  shows "sched_inv db'"
proof -
  let ?w = "w\<lparr>w_version := max (w_version w) (v + 1)\<rparr>"
  from assms(1) obtain r where r: "r \<in> set (db_windows db)" "same_window r w"
    and d: "distinct (map w_id (db_windows db))" by (rule in_hand_row)
  have "in_hand ?w db"
    using in_hand_wf [OF assms(1)] by (intro in_hand_version [OF assms(1)]) (auto simp: wf_window_def)
  with updateWindow_row(2) [OF assms(2) d r] show ?thesis by (simp add: in_hand_def)
qed

section \<open>Changing one hold\<close>

lemma hold_columns_same: "same_hold h h' \<Longrightarrow> hold_columns h' h = h'"
  by (cases h; cases h') (simp add: same_hold_def hold_columns_def)

lemma updateHold_row:
  assumes "updateHold h' v db = Inr db'" and "distinct (map h_id (db_holds db))"
    and "h \<in> set (db_holds db)" and "h_id h' = h_id h"
  shows "h_version h = v"
    and "db' = db\<lparr>db_holds := update_rows (\<lambda>r. h_id r = h_id h) (hold_columns h') (db_holds db)\<rparr>"
    and "distinct (committed_bookings (db_holds db'))"
proof -
  let ?hit = "\<lambda>r. h_id r = h_id h' \<and> h_version r = v"
  from assms(1) have len: "length (filter ?hit (db_holds db)) = 1"
    and db': "db' = db\<lparr>db_holds := update_rows ?hit (hold_columns h') (db_holds db)\<rparr>"
    and dist: "distinct (committed_bookings (update_rows ?hit (hold_columns h') (db_holds db)))"
    by (auto simp: updateHold_def Let_def split: if_splits)
  from length_filter_1 [OF len] obtain r where "r \<in> set (db_holds db)" "?hit r" by auto
  with assms(2-4) have "r = h" by (auto dest: distinct_key_eq)
  with \<open>?hit r\<close> show v: "h_version h = v" by simp
  have "update_rows ?hit (hold_columns h') (db_holds db) =
        update_rows (\<lambda>r. h_id r = h_id h) (hold_columns h') (db_holds db)"
    unfolding update_rows_def
    by (rule map_cong) (use assms(2-4) v in \<open>auto dest: distinct_key_eq\<close>)
  with db' show "db' = db\<lparr>db_holds := update_rows (\<lambda>r. h_id r = h_id h) (hold_columns h') (db_holds db)\<rparr>"
    by simp
  from db' dist show "distinct (committed_bookings (db_holds db'))" by simp
qed

text \<open>What a change of status does to the two totals.\<close>

definition d_active :: "hold \<Rightarrow> hold \<Rightarrow> int" where
  "d_active h h' = (if h_status h' = ACTIVE then h_units h' else 0) -
                   (if h_status h = ACTIVE then h_units h else 0)"

definition d_reserved :: "hold \<Rightarrow> hold \<Rightarrow> int" where
  "d_reserved h h' = (if h_status h' = CONFIRMED then h_units h' else 0) -
                     (if h_status h = CONFIRMED then h_units h else 0)"

lemma updateHold_units:
  assumes "updateHold h' v db = Inr db'" and "distinct (map h_id (db_holds db))"
    and "h \<in> set (db_holds db)" and "same_hold h h'"
  shows "active_units db' i = active_units db i + (if i = h_windowId h then d_active h h' else 0)"
    and "reserved_units db' i =
           reserved_units db i + (if i = h_windowId h then d_reserved h h' else 0)"
proof -
  have "h_id h' = h_id h" "h_windowId h' = h_windowId h"
    using assms(4) by (auto simp: same_hold_def)
  moreover note updateHold_row(2) [OF assms(1-3)] hold_columns_same [OF assms(4)]
    sum_rows_update_key [OF assms(2,3), of h_units _ "hold_columns h'"]
  ultimately show "active_units db' i = active_units db i + (if i = h_windowId h then d_active h h' else 0)"
    and "reserved_units db' i =
           reserved_units db i + (if i = h_windowId h then d_reserved h h' else 0)"
    by (auto simp: active_units_def reserved_units_def d_active_def d_reserved_def)
qed

lemma in_hand_updateHold:
  assumes hand: "in_hand w db" and h: "h \<in> set (db_holds db)" and win: "h_windowId h = w_id w"
    and nxt: "hold_next h h'" and wf: "wf_hold h \<longrightarrow> wf_hold h'" and up: "updateHold h' v db = Inr db'"
    and same: "same_window w w'" and wfw: "wf_window w'"
    and held: "w_held w' = w_held w + d_active h h'"
    and res: "w_reserved w' = w_reserved w + d_reserved h h'"
  shows "in_hand w' db'"
proof -
  have ok: "holds_ok db" using hand by (rule in_hand_holds)
  then have d: "distinct (map h_id (db_holds db))" by (simp add: holds_ok_def)
  have sh: "same_hold h h'" using nxt by (simp add: hold_next_def)
  then have id: "h_id h' = h_id h" "h_windowId h' = h_windowId h" by (auto simp: same_hold_def)
  note row = updateHold_row [OF up d h id(1)]
  note col = hold_columns_same [OF sh]
  have "holds_ok db'"
    unfolding holds_ok_def
  proof (intro conjI)
    show "distinct (map h_id (db_holds db'))"
      using d row(2) by (simp add: hold_columns_def)
    show "\<forall>r \<in> set (db_holds db'). wf_hold r \<and> isUuid (h_id r) \<and>
            (\<exists>w \<in> set (db_windows db'). hold_fits w r)"
    proof
      fix r assume "r \<in> set (db_holds db')"
      then consider "r = h'" | "r \<in> set (db_holds db)"
        using row(2) col d h by (auto simp: set_update_rows split: if_splits dest: distinct_key_eq)
      then show "wf_hold r \<and> isUuid (h_id r) \<and> (\<exists>w \<in> set (db_windows db'). hold_fits w r)"
      proof cases
        case 1
        have "hold_fits x h' = hold_fits x h" for x using sh by (auto simp: hold_fits_def same_hold_def)
        with 1 ok wf h id row(2) show ?thesis by (simp add: holds_ok_def)
      qed (use ok row(2) in \<open>auto simp: holds_ok_def\<close>)
    qed
  qed (use ok row in \<open>simp_all add: holds_ok_def\<close>)
  then show ?thesis
    using updateHold_units [OF up d h sh] row(2) held res win
    by (intro in_hand_move [OF hand same wfw]) simp_all
qed

text \<open>A new ACTIVE hold, with its unit taken from the window in hand.\<close>

lemma in_hand_insertHold:
  assumes hand: "in_hand w db" and ins: "insertHold h db = Inr db'" and wf: "wf_hold h"
    and st: "h_status h = ACTIVE" and fits: "hold_fits w h" and id: "isUuid (h_id h)"
    and hold: "holdUnits w (h_units h) now at = Inr w'"
  shows "in_hand w' db'"
proof -
  have ok: "holds_ok db" using hand by (rule in_hand_holds)
  have win: "h_windowId h = w_id w" using fits by (simp add: hold_fits_def)
  from hand have mem: "\<exists>r \<in> set (db_windows db). hold_fits r h"
    using fits same_window_fits by (auto elim!: in_hand_row)
  from ins have db': "db' = db\<lparr>db_holds := h # db_holds db\<rparr>" and new: "h_id h \<notin> h_id ` set (db_holds db)"
    by (auto simp: insertHold_def split: if_splits)
  have "wf_window w'" using hold_op.step_wf [OF _ in_hand_wf [OF hand] hold] wf by (simp add: wf_hold_def)
  moreover have "holds_ok db'"
    using ok new mem wf id st by (auto simp: db' holds_ok_def committed_bookings_def)
  ultimately show ?thesis
    using hold_op.step_held [OF hold] hold_op.step_reserved [OF hold] st win
    by (intro in_hand_move [OF hand hold_op.step_same [OF hold]])
      (auto simp: db' active_units_def reserved_units_def)
qed

text \<open>A booking has one commitment.\<close>

lemma commitment_unique:
  assumes ok: "holds_ok db" and "h \<in> set (db_holds db)" and "h' \<in> set (db_holds db)"
    and "h_status h = CONFIRMED" and "h_status h' = CONFIRMED" and "h_bookingId h = h_bookingId h'"
  shows "h = h'"
proof -
  let ?P = "\<lambda>h. h_status h = CONFIRMED \<and> h_bookingId h \<noteq> None"
  have "inj_on h_bookingId (set (filter ?P (db_holds db)))"
    using ok by (auto simp: holds_ok_def committed_bookings_def distinct_map)
  moreover have "?P h" "?P h'" using assms by (auto simp: holds_ok_def wf_hold_def)
  ultimately show ?thesis using assms by (auto simp: inj_on_def)
qed

end
