(* ===== verification/Sched_Expiry.thy ===== *)
theory Sched_Expiry
  imports Sched_Invariant
begin

text \<open>
  Scheduling, what \<^verbatim>\<open>expireDueHolds\<close> (\<^verbatim>\<open>application/expiry.ts\<close>) does to the database:
  it never fails on a database that satisfies the invariant, it turns exactly the due holds of
  the window to EXPIRED, and it leaves the window it returns in hand.
\<close>

section \<open>Statements without effect on windows and holds\<close>

lemma emit_Inr:
  "emit e c h z a db = Inr db' \<Longrightarrow> \<exists>ev. db' = db\<lparr>db_outbox := db_outbox db @ [ev]\<rparr>"
  by (auto simp: emit_def appendEvent_def)

lemma emit_total:
  "isUuid e \<Longrightarrow> isUuid c \<Longrightarrow> isUuid (h_id h) \<Longrightarrow> isUuid z \<Longrightarrow>
   \<exists>ev. emit e c h z a db = Inr (db\<lparr>db_outbox := db_outbox db @ [ev]\<rparr>)"
  by (auto simp: emit_def appendEvent_def holdChangedEvent_def uuid_def Let_def)

lemma completeIdempotency_Inr:
  "completeIdempotency s k r t db = Inr db' \<Longrightarrow> \<exists>x. db' = db\<lparr>db_idem := x\<rparr>"
  by (auto simp: completeIdempotency_def Let_def split: if_splits)

section \<open>Expiring one hold\<close>

definition expired_at :: "instant \<Rightarrow> hold \<Rightarrow> hold" where
  "expired_at now h = h\<lparr>h_status := EXPIRED, h_updatedAt := now, h_version := h_version h + 1\<rparr>"

lemma expired_at_simps [simp]:
  "h_id (expired_at now h) = h_id h" "h_status (expired_at now h) = EXPIRED"
  "h_windowId (expired_at now h) = h_windowId h" "h_units (expired_at now h) = h_units h"
  "same_hold h (expired_at now h)"
  by (simp_all add: expired_at_def same_hold_def)

lemma expire_is_expired_at: "expire h now = Inr h' \<longleftrightarrow> isDue h now \<and> h' = expired_at now h"
  by (simp add: expire_Inr expired_at_def)

text \<open>A hold in hand is written by its own row, and nothing else changes.\<close>

lemma updateHold_map:
  assumes "updateHold h' v db = Inr db'" and "distinct (map h_id (db_holds db))"
    and "h \<in> set (db_holds db)" and "same_hold h h'"
  shows "db' = db\<lparr>db_holds := map (\<lambda>r. if r = h then h' else r) (db_holds db)\<rparr>"
proof -
  have id: "h_id h' = h_id h" using assms(4) by (simp add: same_hold_def)
  have "update_rows (\<lambda>r. h_id r = h_id h) (hold_columns h') (db_holds db) =
        map (\<lambda>r. if r = h then h' else r) (db_holds db)"
    unfolding update_rows_def
  proof (rule map_cong [OF refl])
    fix r assume "r \<in> set (db_holds db)"
    with assms(2,3) have "h_id r = h_id h \<longleftrightarrow> r = h" by (auto dest: distinct_key_eq)
    then show "(if h_id r = h_id h then hold_columns h' r else r) = (if r = h then h' else r)"
      using hold_columns_same [OF assms(4)] by auto
  qed
  with updateHold_row(2) [OF assms(1-3) id] show ?thesis by simp
qed

lemma filter_map_unchanged:
  "(\<And>r. r \<in> set rows \<Longrightarrow> P (f r) = P r) \<Longrightarrow> (\<And>r. r \<in> set rows \<Longrightarrow> P r \<Longrightarrow> g (f r) = g r) \<Longrightarrow>
   map g (filter P (map f rows)) = map g (filter P rows)"
  by (induction rows) auto

lemma updateHold_total:
  assumes d: "distinct (map h_id (db_holds db))" and h: "h \<in> set (db_holds db)"
    and same: "same_hold h h'"
    and b: "distinct (committed_bookings (map (\<lambda>r. if r = h then h' else r) (db_holds db)))"
  shows "\<exists>db'. updateHold h' (h_version h) db = Inr db'"
proof -
  let ?hit = "\<lambda>r. h_id r = h_id h' \<and> h_version r = h_version h"
  have id: "h_id h' = h_id h" using same by (simp add: same_hold_def)
  have hit: "?hit r \<longleftrightarrow> r = h" if "r \<in> set (db_holds db)" for r
    using that d h id by (auto dest: distinct_key_eq)
  then have "update_rows ?hit (hold_columns h') (db_holds db) =
             map (\<lambda>r. if r = h then h' else r) (db_holds db)"
    unfolding update_rows_def using hold_columns_same [OF same] by (intro map_cong) auto
  moreover have "filter ?hit (db_holds db) = filter (\<lambda>r. h = r) (db_holds db)"
    using hit by (intro filter_cong) auto
  moreover have "filter (\<lambda>r. h = r) (db_holds db) = [h]"
    using d h by (simp add: filter_the_one distinct_map)
  ultimately show ?thesis using b by (simp add: updateHold_def Let_def)
qed

lemma committed_bookings_map:
  assumes "h_status h \<noteq> CONFIRMED" and "h_status h' \<noteq> CONFIRMED"
  shows "committed_bookings (map (\<lambda>r. if r = h then h' else r) rows) = committed_bookings rows"
  unfolding committed_bookings_def using assms by (intro filter_map_unchanged) auto

section \<open>The loop\<close>

text \<open>The holds the loop is given: due, of the window in hand, each once.\<close>

definition due_list :: "capacity_window \<Rightarrow> instant \<Rightarrow> hold list \<Rightarrow> sched_db \<Rightarrow> bool" where
  "due_list w now due db \<longleftrightarrow>
     set due \<subseteq> set (db_holds db) \<and> distinct (map h_id due) \<and>
     (\<forall>h \<in> set due. h_windowId h = w_id w \<and> isDue h now)"

text \<open>
  One pass of the loop: it succeeds when the event's ids are UUIDs, and whatever it returns is
  the next state of the loop.
\<close>

lemma expiry_pass:
  assumes hand: "in_hand w db" and h: "h \<in> set (db_holds db)" and win: "h_windowId h = w_id w"
    and due: "isDue h now"
  obtains db1 w1 where
    "updateHold (expired_at now h) (h_version h) db = Inr db1"
    "db1 = db\<lparr>db_holds := map (\<lambda>r. if r = h then expired_at now h else r) (db_holds db)\<rparr>"
    "releaseHeldUnits w (h_units h) = Inr w1" "in_hand w1 db1" "same_window w w1"
    "w_held w1 = w_held w - h_units h"
proof -
  have ok: "holds_ok db" by (rule in_hand_holds [OF hand])
  then have d: "distinct (map h_id (db_holds db))" by (simp add: holds_ok_def)
  have act: "h_status h = ACTIVE" using due by (simp add: isDue_def)
  obtain db1 where up: "updateHold (expired_at now h) (h_version h) db = Inr db1"
    using updateHold_total [OF d h, of "expired_at now h"] ok act
    by (auto simp: committed_bookings_map holds_ok_def)
  note in_hand_window(3) [OF hand]
  moreover have "h_units h \<le> active_units db (w_id w)"
    unfolding active_units_def using ok h act win
    by (intro add_increasing2 sum_rows_nonneg sum_rows_member_le) (auto simp: holds_ok_def wf_hold_def)
  ultimately have "h_units h \<le> w_held w" by simp
  then obtain w1 where w1: "releaseHeldUnits w (h_units h) = Inr w1"
    by (simp add: releaseHeldUnits_def)
  have nxt: "hold_next h (expired_at now h) \<and> (wf_hold h \<longrightarrow> wf_hold (expired_at now h))"
    using expire_next [of h now] due by (simp add: expire_is_expired_at)
  have "in_hand w1 db1"
    using in_hand_updateHold [OF hand h win _ _ up release_op.step_same [OF w1]] nxt
      release_op.step_wf [OF _ in_hand_wf [OF hand] w1] release_op.step_held [OF w1]
      release_op.step_reserved [OF w1] ok h act
    by (auto simp: d_active_def d_reserved_def holds_ok_def wf_hold_def)
  then show thesis
    using that up updateHold_map [OF up d h] w1 release_op.step_same [OF w1]
      release_op.step_held [OF w1] by simp
qed

text \<open>What a pass leaves, in the terms the loop is described by.\<close>

definition loop_done :: "instant \<Rightarrow> hold list \<Rightarrow> capacity_window \<Rightarrow> sched_db \<Rightarrow>
  capacity_window \<Rightarrow> sched_db \<Rightarrow> bool" where
  "loop_done now due w db w' db' \<longleftrightarrow>
     in_hand w' db' \<and> same_window w w' \<and>
     w_held w' = w_held w - sum_list (map h_units due) \<and>
     w_capacity w' = w_capacity w \<and> w_status w' = w_status w \<and> w_reserved w' = w_reserved w \<and>
     db_windows db' = db_windows db \<and> db_legacy db' = db_legacy db \<and> db_idem db' = db_idem db \<and>
     db_holds db' = map (\<lambda>r. if r \<in> set due then expired_at now r else r) (db_holds db)"

lemma due_list_Cons:
  assumes "due_list w now (h # due) db"
  shows "h \<in> set (db_holds db)" "h_windowId h = w_id w" "isDue h now"
    "h \<notin> set due" "expired_at now h \<notin> set due"
  using assms by (auto simp: due_list_def image_iff)

text \<open>
  The body of the loop: when it returns, the loop goes on with a window in hand; it returns
  when the event's ids are UUIDs.
\<close>

lemma applyExpiry_step:
  assumes hand: "in_hand w db" and due: "due_list w now (h # due) db"
    and zone: "w_zoneId w = w_zoneId window"
  obtains (throws) e where "applyExpiry rq window now (h # due) k w db = Inl e"
      "\<not> (isUuid (rq_ids rq k) \<and> isUuid (rq_correlationId rq))"
    | (step) w1 db2 where
      "applyExpiry rq window now (h # due) k w db = applyExpiry rq window now due (Suc k) w1 db2"
      "in_hand w1 db2" "due_list w1 now due db2" "w_zoneId w1 = w_zoneId window"
      "\<And>w' db'. loop_done now due w1 db2 w' db' \<Longrightarrow> loop_done now (h # due) w db w' db'"
proof -
  note h = due_list_Cons [OF due]
  obtain db1 w1 where p:
    "updateHold (expired_at now h) (h_version h) db = Inr db1"
    "db1 = db\<lparr>db_holds := map (\<lambda>r. if r = h then expired_at now h else r) (db_holds db)\<rparr>"
    "releaseHeldUnits w (h_units h) = Inr w1" "in_hand w1 db1" "same_window w w1"
    "w_held w1 = w_held w - h_units h" by (rule expiry_pass [OF hand h(1-3)])
  let ?emit = "emit (rq_ids rq k) (rq_correlationId rq) (expired_at now h) (w_zoneId window)
      SystemEventActor db1"
  have u: "isUuid (h_id h)" "isUuid (w_zoneId window)"
    using in_hand_holds [OF hand] in_hand_window(2) [OF hand] h(1) zone by (auto simp: holds_ok_def)
  have ex: "expire h now = Inr (expired_at now h)" using h(3) by (simp add: expire_is_expired_at)
  show thesis
  proof (cases ?emit)
    case (Inl e)
    then have "\<not> (isUuid (rq_ids rq k) \<and> isUuid (rq_correlationId rq))"
      using emit_total [of "rq_ids rq k" "rq_correlationId rq" "expired_at now h" "w_zoneId window"
          SystemEventActor db1] u by auto
    moreover have "applyExpiry rq window now (h # due) k w db = Inl e"
      using p(1,3) ex Inl by simp
    ultimately show thesis by (rule throws [rotated])
  next
    case (Inr db2)
    then obtain ev where ev: "db2 = db1\<lparr>db_outbox := db_outbox db1 @ [ev]\<rparr>" using emit_Inr by blast
    let ?db3 = "appendAudit \<lparr>a_action = ''hold.expired'', a_actor = SYSTEM_ACTOR,
          a_targetType = ''CAPACITY_HOLD'', a_targetId = h_id h,
          a_correlationId = rq_correlationId rq,
          a_details = [(''windowId'', DString (w_id window)), (''units'', DNumber (h_units h))]\<rparr> db2"
    have w1: "w_capacity w1 = w_capacity w" "w_status w1 = w_status w" "w_reserved w1 = w_reserved w"
      using p(3) by (auto simp: releaseHeldUnits_Inr)
    show thesis
    proof (rule step)
      show "applyExpiry rq window now (h # due) k w db = applyExpiry rq window now due (Suc k) w1 ?db3"
        using p(1,3) ex Inr by simp
      show "in_hand w1 ?db3" using p(4) ev by (simp add: appendAudit_def)
      show "due_list w1 now due ?db3"
        using due p(2,5) h(4) ev
        by (auto simp: due_list_def appendAudit_def same_window_def image_iff)
      show "w_zoneId w1 = w_zoneId window" using zone p(5) by (simp add: same_window_def)
      show "loop_done now (h # due) w db w' db'" if "loop_done now due w1 ?db3 w' db'" for w' db'
        using that p(2,5,6) w1 ev h(4,5)
        by (auto simp: loop_done_def appendAudit_def intro: same_window_trans)
    qed
  qed
qed

lemma applyExpiry_Inr:
  "in_hand w db \<Longrightarrow> due_list w now due db \<Longrightarrow> w_zoneId w = w_zoneId window \<Longrightarrow>
   applyExpiry rq window now due k w db = Inr ((w', k'), db') \<Longrightarrow> loop_done now due w db w' db'"
proof (induction due arbitrary: k w db)
  case Nil
  then show ?case by (simp add: loop_done_def)
next
  case (Cons h due)
  show ?case
    by (rule applyExpiry_step [OF Cons.prems(1-3), where rq = rq and k = k])
      (use Cons in \<open>auto\<close>)
qed

lemma applyExpiry_total:
  "in_hand w db \<Longrightarrow> due_list w now due db \<Longrightarrow> w_zoneId w = w_zoneId window \<Longrightarrow>
   \<forall>n. isUuid (rq_ids rq n) \<Longrightarrow> isUuid (rq_correlationId rq) \<Longrightarrow>
   \<exists>r. applyExpiry rq window now due k w db = Inr r"
proof (induction due arbitrary: k w db)
  case (Cons h due)
  show ?case
    by (rule applyExpiry_step [OF Cons.prems(1-3), where rq = rq and k = k])
      (use Cons in \<open>auto\<close>)
qed simp

section \<open>Expiring what is due in a window\<close>

lemma lockDueHolds_due:
  assumes "distinct (map h_id (db_holds db))"
  shows "due_list w now (lockDueHolds (w_id w) now db) db"
    and "set (lockDueHolds (w_id w) now db) =
           {h \<in> set (db_holds db). h_windowId h = w_id w \<and> isDue h now}"
proof -
  let ?P = "\<lambda>h. h_windowId h = w_id w \<and> h_status h = ACTIVE \<and> h_expiresAt h \<le> now"
  have "distinct (filter ?P (db_holds db))" "inj_on h_id (set (filter ?P (db_holds db)))"
    using assms by (auto simp: distinct_map inj_on_def)
  then have "distinct (map h_id (lockDueHolds (w_id w) now db))"
    by (simp add: lockDueHolds_def distinct_map)
  then show "due_list w now (lockDueHolds (w_id w) now db) db"
    by (auto simp: due_list_def lockDueHolds_def isDue_def)
  show "set (lockDueHolds (w_id w) now db) =
          {h \<in> set (db_holds db). h_windowId h = w_id w \<and> isDue h now}"
    by (auto simp: lockDueHolds_def isDue_def)
qed

lemma legacy_units:
  assumes "expireLegacyDueHolds i now db = (n, db')" and "\<forall>l \<in> set (db_legacy db). 1 \<le> l_units l"
  shows "active_units db' j = active_units db j - (if j = i then n else 0)"
    and "reserved_units db' j = reserved_units db j" and "0 \<le> n"
    and "\<forall>h \<in> set (db_holds db). 0 \<le> h_units h \<Longrightarrow> n \<le> active_units db i"
proof -
  let ?A = "\<lambda>l. l_windowId l = j \<and> l_status l = ACTIVE"
  let ?f = "\<lambda>l. l\<lparr>l_status := EXPIRED, l_version := l_version l + 1, l_updatedAt := now\<rparr>"
  have n: "n = sum_rows l_units (legacy_due i now) (db_legacy db)"
    and db': "db' = db\<lparr>db_legacy := update_rows (legacy_due i now) ?f (db_legacy db)\<rparr>"
    using assms(1) by (auto simp: expireLegacyDueHolds_def)
  have "sum_rows l_units ?A (update_rows (legacy_due i now) ?f (db_legacy db)) =
        sum_rows l_units (\<lambda>l. ?A l \<and> \<not> legacy_due i now l) (db_legacy db)"
    by (rule sum_rows_update_out) simp
  moreover have "sum_rows l_units ?A (db_legacy db) =
      sum_rows l_units (\<lambda>l. ?A l \<and> legacy_due i now l) (db_legacy db) +
      sum_rows l_units (\<lambda>l. ?A l \<and> \<not> legacy_due i now l) (db_legacy db)"
    by (rule sum_rows_filter_split)
  moreover have "sum_rows l_units (\<lambda>l. ?A l \<and> legacy_due i now l) (db_legacy db) = (if j = i then n else 0)"
  proof (cases "j = i")
    case True
    then show ?thesis unfolding n by (auto simp: legacy_due_def intro: sum_rows_cong)
  qed (auto simp: legacy_due_def sum_rows_def filter_empty_conv)
  ultimately show "active_units db' j = active_units db j - (if j = i then n else 0)"
    by (simp add: active_units_def db')
  show "reserved_units db' j = reserved_units db j"
    by (auto simp: reserved_units_def db' legacy_due_def sum_rows_update_out intro!: sum_rows_cong)
  show "0 \<le> n" unfolding n using assms(2) by (intro sum_rows_nonneg) auto
  show "n \<le> active_units db i" if "\<forall>h \<in> set (db_holds db). 0 \<le> h_units h"
    unfolding n active_units_def using that assms(2)
    by (intro add_increasing sum_rows_nonneg sum_rows_mono) (auto simp: legacy_due_def)
qed

lemma in_hand_legacy:
  assumes hand: "in_hand w db" and leg: "expireLegacyDueHolds (w_id w) now db = (n, db')"
    and w': "if 0 < n then releaseHeldUnits w n = Inr w' else w' = w"
  shows "in_hand w' db'"
proof -
  have ok: "holds_ok db" by (rule in_hand_holds [OF hand])
  then have l: "\<forall>l \<in> set (db_legacy db). 1 \<le> l_units l" by (simp add: holds_ok_def)
  note units = legacy_units [OF leg l]
  from leg have fr: "db_windows db' = db_windows db" "db_holds db' = db_holds db"
    and "\<forall>l \<in> set (db_legacy db'). 1 \<le> l_units l \<and> l_windowId l \<in> w_id ` set (db_windows db')"
    using ok by (auto simp: expireLegacyDueHolds_def set_update_rows holds_ok_def)
  then have "holds_ok db'" using ok by (simp add: holds_ok_def)
  moreover have "same_window w w' \<and> wf_window w' \<and> w_held w' = w_held w - n \<and> w_reserved w' = w_reserved w"
    using w' in_hand_wf [OF hand] units(3) release_op.step_same release_op.step_wf
    by (auto simp: releaseHeldUnits_Inr wf_window_def same_window_def split: if_splits)
  ultimately show ?thesis using fr units(1,2) by (intro in_hand_move [OF hand]) auto
qed

definition expiry_done :: "instant \<Rightarrow> capacity_window \<Rightarrow> sched_db \<Rightarrow> capacity_window \<Rightarrow>
  sched_db \<Rightarrow> bool" where
  "expiry_done now w db w' db' \<longleftrightarrow>
     in_hand w' db' \<and> same_window w w' \<and> w_held w' \<le> w_held w \<and>
     w_capacity w' = w_capacity w \<and> w_status w' = w_status w \<and> w_reserved w' = w_reserved w \<and>
     db_windows db' = db_windows db \<and> db_idem db' = db_idem db \<and>
     db_holds db' = map (\<lambda>r. if h_windowId r = w_id w \<and> isDue r now then expired_at now r else r)
                      (db_holds db) \<and>
     db_legacy db' = db_legacy (snd (expireLegacyDueHolds (w_id w) now db))"

lemma units_nonneg: "holds_ok db \<Longrightarrow> \<forall>h \<in> set (db_holds db). 0 \<le> h_units h"
  by (simp add: holds_ok_def wf_hold_def)

lemma expireDueHoldsOf_Inr:
  assumes inv: "sched_inv db" and w: "w \<in> set (db_windows db)"
    and run: "expireDueHoldsOf rq now w db = Inr ((w', k), db')"
  shows "expiry_done now w db w' db'"
proof -
  let ?due = "lockDueHolds (w_id w) now db"
  have d: "distinct (map h_id (db_holds db))" using inv by (simp add: sched_inv_defs)
  note due = lockDueHolds_due [OF d, of w now]
  from run obtain w1 db1 where r1: "applyExpiry rq w now ?due 0 w db = Inr ((w1, k), db1)"
    and r2: "if 0 < fst (expireLegacyDueHolds (w_id w) now db1)
             then releaseHeldUnits w1 (fst (expireLegacyDueHolds (w_id w) now db1)) = Inr w'
             else w' = w1"
    and db': "db' = snd (expireLegacyDueHolds (w_id w) now db1)"
    by (auto simp: expireDueHoldsOf_def Let_def case_prod_beta split: if_splits)
  have l: "loop_done now ?due w db w1 db1"
    using applyExpiry_Inr [OF in_hand_start [OF inv w] due(1) refl r1] .
  then have hand: "in_hand w1 db1" and id: "w_id w1 = w_id w" by (auto simp: loop_done_def same_window_def)
  obtain n where n: "expireLegacyDueHolds (w_id w) now db1 = (n, db')" using db' by (cases "expireLegacyDueHolds (w_id w) now db1") auto
  have "in_hand w' db'" using in_hand_legacy [OF hand, of now n db' w'] n r2 id by (auto split: if_splits)
  moreover have "same_window w1 w' \<and> w_held w' \<le> w_held w1 \<and> w_capacity w' = w_capacity w1 \<and>
      w_status w' = w_status w1 \<and> w_reserved w' = w_reserved w1"
    using r2 n by (auto simp: releaseHeldUnits_Inr same_window_def split: if_splits)
  moreover have "w_held w1 \<le> w_held w"
  proof -
    have "0 \<le> sum_list (map h_units ?due)"
      using units_nonneg inv due(2) by (intro sum_list_nonneg) (auto simp: sched_inv_def)
    with l show ?thesis by (simp add: loop_done_def)
  qed
  moreover have "db_holds db' = db_holds db1" "db_windows db' = db_windows db1" "db_idem db' = db_idem db1"
    "db_legacy db' = db_legacy (snd (expireLegacyDueHolds (w_id w) now db))"
    using n l by (auto simp: expireLegacyDueHolds_def loop_done_def)
  ultimately show ?thesis
    using l due(2) by (auto simp: expiry_done_def loop_done_def intro: same_window_trans)
qed

lemma expireDueHoldsOf_total:
  assumes inv: "sched_inv db" and w: "w \<in> set (db_windows db)"
    and ids: "\<forall>n. isUuid (rq_ids rq n)" and cid: "isUuid (rq_correlationId rq)"
  obtains w' k db' where "expireDueHoldsOf rq now w db = Inr ((w', k), db')" "expiry_done now w db w' db'"
proof -
  let ?due = "lockDueHolds (w_id w) now db"
  have d: "distinct (map h_id (db_holds db))" using inv by (simp add: sched_inv_defs)
  note due = lockDueHolds_due [OF d, of w now]
  note hand0 = in_hand_start [OF inv w]
  obtain w1 k db1 where r1: "applyExpiry rq w now ?due 0 w db = Inr ((w1, k), db1)"
    using applyExpiry_total [OF hand0 due(1) refl ids cid, of 0] by auto
  then have l: "loop_done now ?due w db w1 db1" using applyExpiry_Inr [OF hand0 due(1) refl] by blast
  then have hand: "in_hand w1 db1" and id: "w_id w1 = w_id w" by (auto simp: loop_done_def same_window_def)
  obtain n db2 where n: "expireLegacyDueHolds (w_id w) now db1 = (n, db2)" by force
  have "holds_ok db1" by (rule in_hand_holds [OF hand])
  then have "n \<le> active_units db1 (w_id w)"
    using legacy_units(4) [OF n] units_nonneg by (auto simp: holds_ok_def)
  then have "n \<le> w_held w1" using in_hand_window(3) [OF hand] id by simp
  then obtain w' where "expireDueHoldsOf rq now w db = Inr ((w', k), db2)"
    using r1 n by (cases "0 < n") (auto simp: expireDueHoldsOf_def releaseHeldUnits_def)
  with that expireDueHoldsOf_Inr [OF inv w] show thesis by blast
qed

text \<open>Nothing is due in the window afterwards.\<close>

lemma expiry_done_none_due:
  assumes "expiry_done now w db w' db'" and "h \<in> set (db_holds db')" and "h_windowId h = w_id w"
  shows "\<not> isDue h now"
  using assms by (auto simp: expiry_done_def isDue_def split: if_splits)

text \<open>What an expiry publishes and records: one event and one audit entry per due hold, in order.\<close>

definition expiry_records :: "hold list \<Rightarrow> sched_db \<Rightarrow> sched_db \<Rightarrow> bool" where
  "expiry_records due db db' \<longleftrightarrow>
     (\<exists>es as. db_outbox db' = db_outbox db @ es \<and> db_audit db' = db_audit db @ as \<and>
        map (\<lambda>e. (ev_aggregateId e, ev_aggregateVersion e, ev_state e)) es =
          map (\<lambda>h. (h_id h, h_version h + 1, EXPIRED_v1)) due \<and>
        map (\<lambda>a. (a_action a, a_targetId a)) as = map (\<lambda>h. (''hold.expired'', h_id h)) due)"

lemma emit_event:
  assumes "emit e c h z a db = Inr db'"
  obtains ev where "db' = db\<lparr>db_outbox := db_outbox db @ [ev]\<rparr>" "ev_aggregateId ev = h_id h"
    "ev_aggregateVersion ev = h_version h" "ev_state ev = v1State (h_status h)"
  using assms by (auto simp: emit_def appendEvent_def holdChangedEvent_def Let_def)

lemma applyExpiry_records:
  "applyExpiry rq window now due k w db = Inr ((w', k'), db') \<Longrightarrow> expiry_records due db db'"
proof (induction due arbitrary: k w db)
  case (Cons h due)
  from Cons.prems obtain e db1 w1 db2 where ex: "expire h now = Inr e"
    and up: "updateHold e (h_version h) db = Inr db1"
    and em: "emit (rq_ids rq k) (rq_correlationId rq) e (w_zoneId window) SystemEventActor db1 = Inr db2"
    and rest: "applyExpiry rq window now due (Suc k) w1 (appendAudit \<lparr>a_action = ''hold.expired'',
          a_actor = SYSTEM_ACTOR, a_targetType = ''CAPACITY_HOLD'', a_targetId = h_id h,
          a_correlationId = rq_correlationId rq,
          a_details = [(''windowId'', DString (w_id window)), (''units'', DNumber (h_units h))]\<rparr>
        db2) = Inr ((w', k'), db')"
    by auto
  obtain ev where ev: "db2 = db1\<lparr>db_outbox := db_outbox db1 @ [ev]\<rparr>" "ev_aggregateId ev = h_id e"
    "ev_aggregateVersion ev = h_version e" "ev_state ev = v1State (h_status e)"
    by (rule emit_event [OF em])
  have fr: "db_outbox db1 = db_outbox db" "db_audit db1 = db_audit db"
    using up by (auto simp: updateHold_def Let_def split: if_splits)
  show ?case
    using Cons.IH [OF rest] ex ev fr
    by (auto simp: expiry_records_def appendAudit_def expire_Inr)
qed (simp add: expiry_records_def)

lemma expireDueHoldsOf_records:
  "expireDueHoldsOf rq now w db = Inr ((w', k), db') \<Longrightarrow>
   expiry_records (lockDueHolds (w_id w) now db) db db'"
  by (auto simp: expireDueHoldsOf_def Let_def case_prod_beta expireLegacyDueHolds_def expiry_records_def
      split: if_splits dest!: applyExpiry_records)

end
