(* ===== verification/Sched_Safety.thy ===== *)
theory Sched_Safety
  imports Sched_Expiry
begin

text \<open>
  Scheduling, the commands keep the invariant: for every unit of work of \<open>Sched_Service\<close> and
  \<open>Sched_Commitments\<close>, a database that satisfies \<open>sched_inv\<close> before satisfies it after; then
  every state a sequence of commands can reach.
\<close>

section \<open>What the statements return\<close>

lemma lockedWindow_Inr: "lockedWindow i db = Inr w \<Longrightarrow> w \<in> set (db_windows db) \<and> w_id w = i"
  by (auto simp: lockedWindow_def lockWindow_def split: option.splits dest: find_row_Some)

lemma lockedHold_Inr: "lockedHold i db = Inr h \<Longrightarrow> h \<in> set (db_holds db) \<and> h_id h = i"
  by (auto simp: lockedHold_def lockHold_def split: option.splits dest: find_row_Some)

lemma knownHold_Inr: "knownHold i db = Inr h \<longleftrightarrow> lockedHold i db = Inr h"
  by (auto simp: knownHold_def lockedHold_def lockHold_def split: option.splits)

lemma locked_frame [simp]:
  "lockedHold i (db\<lparr>db_idem := x\<rparr>) = lockedHold i db"
  "lockedWindow i (db\<lparr>db_idem := x\<rparr>) = lockedWindow i db"
  by (simp_all add: lockedHold_def lockHold_def lockedWindow_def lockWindow_def)

lemma sched_inv_emit: "emit e c h z a db = Inr db' \<Longrightarrow> sched_inv db \<Longrightarrow> sched_inv db'"
  by (auto dest!: emit_Inr)

lemma sched_inv_changed: "changed rq k h db = Inr db' \<Longrightarrow> sched_inv db \<Longrightarrow> sched_inv db'"
  by (auto simp: changed_def sched_inv_emit)

lemma sched_inv_complete:
  "completeIdempotency s k r t db = Inr db' \<Longrightarrow> sched_inv db \<Longrightarrow> sched_inv db'"
  by (auto dest!: completeIdempotency_Inr)

lemma sched_inv_silent [simp]:
  "sched_inv (audit_hold rq a t d db) = sched_inv db"
  "sched_inv (audit_window rq a t d db) = sched_inv db"
  "sched_inv (abandonIdempotency s k db) = sched_inv db"
  by (simp_all add: audit_hold_def audit_window_def appendAudit_def abandonIdempotency_def)

lemmas silent = sched_inv_changed sched_inv_complete sched_inv_emit

section \<open>One hold and its window\<close>

lemma write_hold_and_window:
  assumes inv: "sched_inv db" and w: "w \<in> set (db_windows db)" and h: "h \<in> set (db_holds db)"
    and win: "h_windowId h = w_id w"
    and nxt: "hold_next h h'" "wf_hold h \<longrightarrow> wf_hold h'" and up: "updateHold h' v db = Inr db1"
    and w': "same_window w w'" "wf_window w'" "w_held w' = w_held w + d_active h h'"
      "w_reserved w' = w_reserved w + d_reserved h h'"
    and wr: "updateWindow w' v' db1 = Inr db2"
  shows "sched_inv db2"
  using in_hand_write [OF in_hand_updateHold [OF in_hand_start [OF inv w] h win nxt up w'] wr] .

lemma sched_inv_window: "sched_inv db \<Longrightarrow> w \<in> set (db_windows db) \<Longrightarrow> wf_window w"
  by (simp add: sched_inv_defs)

lemma sched_inv_hold: "sched_inv db \<Longrightarrow> h \<in> set (db_holds db) \<Longrightarrow> wf_hold h"
  by (simp add: sched_inv_defs)

lemma hold_units_1: "wf_hold h \<Longrightarrow> h_units h = 1"
  by (simp add: wf_hold_def)

lemma expireAndAbandon_inv:
  assumes "sched_inv db" and "w \<in> set (db_windows db)"
    and "expireAndAbandon rq w scope key db = Inr (x, db')"
  shows "sched_inv db'"
proof -
  from assms(3) obtain w' k db1 db2 where
    "expireDueHoldsOf rq (rq_now rq) w db = Inr ((w', k), db1)"
    "updateWindow w' (w_version w) db1 = Inr db2" "db' = abandonIdempotency scope key db2"
    by (auto simp: expireAndAbandon_def)
  moreover from this(1) have "in_hand w' db1"
    using expireDueHoldsOf_Inr [OF assms(1,2)] by (auto simp: expiry_done_def)
  ultimately show ?thesis by (simp add: in_hand_write)
qed

text \<open>
  The pair of writes of a command, for every counter operation that moves the window's counters
  as the hold's change of status moves the totals.
\<close>

context counter_op
begin

lemma writes:
  assumes inv: "sched_inv db" and w: "lockedWindow (h_windowId h) db = Inr w"
    and h: "lockedHold i db = Inr h" and op: "hold_next h h' \<and> (wf_hold h \<longrightarrow> wf_hold h')"
    and moves: "dheld 1 = d_active h h'" "dreserved 1 = d_reserved h h'"
    and up: "updateHold h' v db = Inr db1" "step (h_units h) w = Inr w'" "updateWindow w' v' db1 = Inr db2"
  shows "sched_inv db2"
proof -
  have hm: "h \<in> set (db_holds db)" and wm: "w \<in> set (db_windows db)" "h_windowId h = w_id w"
    using lockedHold_Inr [OF h] lockedWindow_Inr [OF w] by auto
  have u: "h_units h = 1" using sched_inv_hold [OF inv hm] by (simp add: wf_hold_def)
  show ?thesis
    using op up moves u step_same [OF up(2)] step_held [OF up(2)] step_reserved [OF up(2)]
      step_wf [OF _ sched_inv_window [OF inv wm(1)] up(2)]
    by (intro write_hold_and_window [OF inv wm(1) hm wm(2) _ _ up(1) _ _ _ _ up(3)]) simp_all
qed

end

lemma status_moves:
  assumes "hold_next h h'" and "wf_hold h"
  shows "d_active h h' = (if h_status h = ACTIVE then - 1 else 0)"
    and "d_reserved h h' = (if h_status h' = CONFIRMED then 1 else if h_status h = CONFIRMED then - 1 else 0)"
  using assms by (cases "h_status h"; auto simp: d_active_def d_reserved_def hold_next_def same_hold_def wf_hold_def)+

section \<open>Holds\<close>

lemma commitHold_tx_cases:
  assumes run: "commitHold_tx rq scope key windowId holdId booking r db = Inr (x, db')"
  obtains
    (expired) w h where "lockedWindow windowId db = Inr w" "lockedHold holdId db = Inr h"
      "isDue h (rq_now rq)" "expireAndAbandon rq w scope key db = Inr (x, db')"
  | (replayed) w h where "lockedWindow windowId db = Inr w" "lockedHold holdId db = Inr h"
      "commit h booking r (rq_now rq) = Inr (h, True)"
      "x = Some \<lparr>r_status = 200, r_body = HoldBody (holdView h)\<rparr>"
      "completeIdempotency scope key (the x) (rq_dbNow rq) db = Inr db'"
  | (committed) w h h' db1 w' db2 db3 details where
      "lockedWindow windowId db = Inr w" "lockedHold holdId db = Inr h"
      "commit h booking r (rq_now rq) = Inr (h', False)" "updateHold h' (h_version h) db = Inr db1"
      "convertHeldToReserved w (h_units h) = Inr w'" "updateWindow w' (w_version w) db1 = Inr db2"
      "changed rq 0 h' db2 = Inr db3"
      "x = Some \<lparr>r_status = 200, r_body = HoldBody (holdView h')\<rparr>"
      "completeIdempotency scope key (the x) (rq_dbNow rq)
         (audit_hold rq ''hold.committed'' (h_id h) details db3) = Inr db'"
proof -
  from run obtain w h where wh: "lockedWindow windowId db = Inr w" "lockedHold holdId db = Inr h"
    by (auto simp: commitHold_tx_def)
  show thesis
  proof (cases "isDue h (rq_now rq)")
    case True
    with run wh expired show thesis by (auto simp: commitHold_tx_def)
  next
    case False
    with run wh obtain h' rep where c: "commit h booking r (rq_now rq) = Inr (h', rep)"
      by (auto simp: commitHold_tx_def)
    show thesis
    proof (cases rep)
      case True
      with run wh False c show thesis
        by (intro replayed [OF wh]) (auto simp: commitHold_tx_def Let_def commit_Inr)
    next
      case False
      with run wh \<open>\<not> isDue h (rq_now rq)\<close> c show thesis
        by (auto simp: commitHold_tx_def Let_def intro: committed [OF wh])
    qed
  qed
qed

lemma commitHold_tx_inv:
  assumes inv: "sched_inv db" and win: "\<And>h. lockedHold holdId db = Inr h \<Longrightarrow> h_windowId h = windowId"
    and run: "commitHold_tx rq scope key windowId holdId booking r db = Inr (x, db')"
  shows "sched_inv db'"
  using run
proof (cases rule: commitHold_tx_cases)
  case (committed w h h' db1 w' db2 db3 details)
  have "sched_inv db2"
  proof (rule convert_op.writes [OF inv _ committed(2) commit_next [OF committed(3)] _ _ committed(4-6)])
    show "lockedWindow (h_windowId h) db = Inr w" using committed(1,2) win by simp
    show "- 1 = d_active h h'" "1 = d_reserved h h'"
      using status_moves commit_next [OF committed(3)] committed(3) lockedHold_Inr [OF committed(2)]
        sched_inv_hold [OF inv] by (auto simp: commit_Inr)
  qed
  then show ?thesis
    using sched_inv_changed [OF committed(7)] sched_inv_complete [OF committed(9)] by simp
qed (use inv in \<open>auto dest: lockedWindow_Inr intro: expireAndAbandon_inv sched_inv_complete\<close>)

lemma releaseHold_tx_cases:
  assumes run: "releaseHold_tx rq scope key windowId holdId r reason db = Inr (x, db')"
  obtains
    (expired) w h where "lockedWindow windowId db = Inr w" "lockedHold holdId db = Inr h"
      "isDue h (rq_now rq)" "expireAndAbandon rq w scope key db = Inr (x, db')"
  | (released) w h h' f db1 w' db2 db3 details where
      "lockedWindow windowId db = Inr w" "lockedHold holdId db = Inr h"
      "releaseByBeneficiary h reason r (rq_now rq) = Inr (h', f)" "updateHold h' (h_version h) db = Inr db1"
      "releaseHeldUnits w (h_units h) = Inr w'" "updateWindow w' (w_version w) db1 = Inr db2"
      "changed rq 0 h' db2 = Inr db3"
      "x = Some \<lparr>r_status = 200, r_body = HoldBody (holdView h')\<rparr>"
      "completeIdempotency scope key (the x) (rq_dbNow rq)
         (audit_hold rq ''hold.released'' (h_id h) details db3) = Inr db'"
proof -
  from run obtain w h where wh: "lockedWindow windowId db = Inr w" "lockedHold holdId db = Inr h"
    by (auto simp: releaseHold_tx_def)
  show thesis
    by (cases "isDue h (rq_now rq)")
      (use run wh in \<open>auto simp: releaseHold_tx_def Let_def intro: expired [OF wh] released [OF wh]\<close>)
qed

lemma releaseHold_tx_inv:
  assumes inv: "sched_inv db" and win: "\<And>h. lockedHold holdId db = Inr h \<Longrightarrow> h_windowId h = windowId"
    and run: "releaseHold_tx rq scope key windowId holdId r reason db = Inr (x, db')"
  shows "sched_inv db'"
  using run
proof (cases rule: releaseHold_tx_cases)
  case (released w h h' f db1 w' db2 db3 details)
  note nxt = releaseByBeneficiary_next [OF released(3)]
  have "sched_inv db2"
  proof (rule release_op.writes [OF inv _ released(2) nxt _ _ released(4-6)])
    show "lockedWindow (h_windowId h) db = Inr w" using released(1,2) win by simp
    show "- 1 = d_active h h'" "0 = d_reserved h h'"
      using status_moves nxt released(3) lockedHold_Inr [OF released(2)] sched_inv_hold [OF inv]
      by (auto simp: releaseByBeneficiary_Inr)
  qed
  then show ?thesis
    using sched_inv_changed [OF released(7)] sched_inv_complete [OF released(9)] by simp
qed (use inv in \<open>auto dest: lockedWindow_Inr intro: expireAndAbandon_inv\<close>)

text \<open>A new hold.\<close>

lemma lockCoveringWindow_Some:
  "lockCoveringWindow z s e db = Some w \<Longrightarrow>
   w \<in> set (db_windows db) \<and> w_zoneId w = z \<and> w_startsAt w \<le> s \<and> e \<le> w_endsAt w"
  by (auto simp: lockCoveringWindow_def find_Some_iff)

lemma createHold_new_cases:
  assumes run: "createHold_new rq scope key kind subject zoneId quoteId quoteRevision s e db = Inr (x, db')"
  obtains w w1 k w2 h db1 db2 db3 db4 details where
    "countActiveHolds kind subject (rq_now rq) db < maxActivePerBeneficiary"
    "lockCoveringWindow zoneId s e db = Some w"
    "expireDueHoldsOf rq (rq_now rq) w db = Inr ((w1, k), db1)"
    "holdUnits w1 1 (rq_now rq) s = Inr w2"
    "h = new_hold rq (rq_ids rq k) kind subject w quoteId quoteRevision s e"
    "insertHold h db1 = Inr db2" "updateWindow w2 (w_version w) db2 = Inr db3"
    "changed rq (Suc k) h db3 = Inr db4" "x = \<lparr>r_status = 201, r_body = HoldBody (holdView h)\<rparr>"
    "completeIdempotency scope key x (rq_dbNow rq)
       (audit_hold rq ''hold.created'' (h_id h) details db4) = Inr db'"
  using run
  by (auto simp: createHold_new_def Let_def split: if_splits option.splits)

lemma changed_uuid: "changed rq k h db = Inr db' \<Longrightarrow> isUuid (h_id h)"
  by (auto simp: changed_def emit_def holdChangedEvent_def Let_def)

lemma createHold_new_inv:
  assumes inv: "sched_inv db" and se: "s < e"
    and run: "createHold_new rq scope key kind subject zoneId quoteId quoteRevision s e db = Inr (x, db')"
  shows "sched_inv db'"
  using run
proof (cases rule: createHold_new_cases)
  case (1 w w1 k w2 h db1 db2 db3 db4 details)
  note cov = lockCoveringWindow_Some [OF 1(2)]
  have ex: "in_hand w1 db1" "same_window w w1"
    using expireDueHoldsOf_Inr [OF inv _ 1(3)] cov by (auto simp: expiry_done_def)
  have "in_hand w2 db2"
  proof (rule in_hand_insertHold [OF ex(1) 1(6)])
    show "wf_hold h" "h_status h = ACTIVE" "holdUnits w1 (h_units h) (rq_now rq) s = Inr w2"
      using 1(4) by (auto simp: 1(5) new_hold_def wf_hold_def)
    show "isUuid (h_id h)" by (rule changed_uuid [OF 1(8)])
    show "hold_fits w1 h" using cov ex(2) se by (auto simp: 1(5) new_hold_def hold_fits_def same_window_def)
  qed
  from in_hand_write [OF this 1(7)] show ?thesis
    using sched_inv_changed [OF 1(8)] sched_inv_complete [OF 1(10)] by simp
qed

section \<open>Commitments\<close>

lemma releaseCommitment_tx_cases:
  assumes run: "releaseCommitment_tx rq scope key windowId holdId booking db = Inr (x, db')"
  obtains
    (replayed) w h where "lockedWindow windowId db = Inr w" "lockedHold holdId db = Inr h"
      "releaseCommitment_hold h booking (rq_now rq) = Inr (h, True)"
      "x = Some \<lparr>r_status = 200, r_body = HoldBody (holdView h)\<rparr>"
      "completeIdempotency scope key (the x) (rq_dbNow rq) db = Inr db'"
  | (released) w h h' db1 w' db2 db3 details where
      "lockedWindow windowId db = Inr w" "lockedHold holdId db = Inr h"
      "releaseCommitment_hold h booking (rq_now rq) = Inr (h', False)"
      "updateHold h' (h_version h) db = Inr db1"
      "releaseReservedUnits w (h_units h) = Inr w'" "updateWindow w' (w_version w) db1 = Inr db2"
      "changed rq 0 h' db2 = Inr db3"
      "x = Some \<lparr>r_status = 200, r_body = HoldBody (holdView h')\<rparr>"
      "completeIdempotency scope key (the x) (rq_dbNow rq)
         (audit_hold rq ''reservation.cancelled'' (h_id h) details db3) = Inr db'"
proof -
  from run obtain w h h' rep where wh: "lockedWindow windowId db = Inr w" "lockedHold holdId db = Inr h"
    "releaseCommitment_hold h booking (rq_now rq) = Inr (h', rep)"
    by (auto simp: releaseCommitment_tx_def)
  show thesis
  proof (cases rep)
    case True
    with run wh show thesis
      by (intro replayed [OF wh(1,2)])
        (auto simp: releaseCommitment_tx_def Let_def releaseCommitment_hold_Inr)
  next
    case False
    with run wh show thesis
      by (auto simp: releaseCommitment_tx_def Let_def intro: released [OF wh(1,2)])
  qed
qed

lemma releaseCommitment_tx_inv:
  assumes inv: "sched_inv db" and win: "\<And>h. lockedHold holdId db = Inr h \<Longrightarrow> h_windowId h = windowId"
    and run: "releaseCommitment_tx rq scope key windowId holdId booking db = Inr (x, db')"
  shows "sched_inv db'"
  using run
proof (cases rule: releaseCommitment_tx_cases)
  case (released w h h' db1 w' db2 db3 details)
  note nxt = releaseCommitment_next [OF released(3)]
  have "sched_inv db2"
  proof (rule unreserve_op.writes [OF inv _ released(2) nxt _ _ released(4-6)])
    show "lockedWindow (h_windowId h) db = Inr w" using released(1,2) win by simp
    show "0 = d_active h h'" "- 1 = d_reserved h h'"
      using status_moves nxt released(3) lockedHold_Inr [OF released(2)] sched_inv_hold [OF inv]
      by (auto simp: releaseCommitment_hold_Inr)
  qed
  then show ?thesis
    using sched_inv_changed [OF released(7)] sched_inv_complete [OF released(9)] by simp
qed (use inv in \<open>auto intro: sched_inv_complete\<close>)

text \<open>A reschedule moves two holds, and one or two windows.\<close>

lemma with_window_commute:
  "w_id a \<noteq> w_id b \<Longrightarrow> with_window a (with_window b db) = with_window b (with_window a db)"
  by (auto simp: with_window_def update_rows_def)

lemma updateHold_with_window:
  "updateHold h v db = Inr db' \<Longrightarrow> updateHold h v (with_window w db) = Inr (with_window w db')"
  by (auto simp: updateHold_def Let_def split: if_splits)

lemma moveUnits_other_window:
  assumes inv: "sched_inv db" and old: "old \<in> set (db_windows db)" and before: "before \<in> set (db_windows db)"
    and hf: "from \<in> set (db_holds db)" "h_windowId from = w_id old"
    and ht: "to \<in> set (db_holds db)" "h_windowId to = w_id before"
    and ne: "h_windowId from \<noteq> h_windowId to"
    and op: "replaceCommitment_hold from to b r now = Inr (from', to', False)"
    and u: "updateHold from' v db = Inr db1" "updateHold to' v' db1 = Inr db2"
    and mv: "moveUnits old before from to db2 = Inr db3"
  shows "sched_inv db3"
proof -
  note nxt = replaceCommitment_next [OF op]
  have st: "h_status from = CONFIRMED" "h_status to = ACTIVE" "h_status to' = CONFIRMED"
    "h_status from' = CANCELLED" "h_id from \<noteq> h_id to"
    using op by (auto simp: replaceCommitment_hold_Inr)
  have un: "h_units from = 1" "h_units to = 1" "wf_hold from" "wf_hold to"
    using sched_inv_hold [OF inv] hf ht by (auto simp: wf_hold_def)
  from mv ne obtain w1 db2' w2 where m: "convertHeldToReserved before 1 = Inr w1"
    "updateWindow w1 (w_version before) db2 = Inr db2'" "releaseReservedUnits old 1 = Inr w2"
    "updateWindow w2 (w_version old) db2' = Inr db3"
    by (auto simp: moveUnits_def un)
  note s1 = convert_op.step_same [OF m(1)] and s2 = unreserve_op.step_same [OF m(3)]
  have ids: "w_id w1 = w_id before" "w_id w2 = w_id old" "w_id before \<noteq> w_id old"
    using s1 s2 ne hf(2) ht(2) by (auto simp: same_window_def)
  have hand2: "in_hand w2 db1"
    using nxt status_moves [of "from" from'] un st s2 unreserve_op.step_held [OF m(3)]
      unreserve_op.step_reserved [OF m(3)] unreserve_op.step_wf [OF _ sched_inv_window [OF inv old] m(3)]
    by (intro in_hand_updateHold [OF in_hand_start [OF inv old] hf _ _ u(1)]) auto
  let ?w1 = "w1\<lparr>w_version := max (w_version w1) (w_version before + 1)\<rparr>"
  let ?db = "with_window w2 db1"
  have inv1: "sched_inv ?db" using hand2 by (simp add: in_hand_def)
  have db1: "db1 = db\<lparr>db_holds := map (\<lambda>x. if x = from then from' else x) (db_holds db)\<rparr>"
    using updateHold_map [OF u(1) _ hf(1)] inv nxt by (simp add: sched_inv_defs hold_next_def)
  have db2: "db_windows db2 = db_windows db1"
    using u(2) by (auto simp: updateHold_def Let_def split: if_splits)
  have "before \<in> set (db_windows ?db)"
    using before ids by (force simp: with_window_def set_update_rows db1)
  moreover have "to \<in> set (db_holds ?db)" using ht(1) st(5) by (auto simp: db1 image_iff)
  ultimately have hand1: "in_hand w1 (with_window w2 db2)"
    using nxt status_moves [of to to'] un st s1 convert_op.step_held [OF m(1)] ht(2)
      convert_op.step_reserved [OF m(1)] convert_op.step_wf [OF _ sched_inv_window [OF inv before] m(1)]
    by (intro in_hand_updateHold [OF in_hand_start [OF inv1] _ _ _ _ updateHold_with_window [OF u(2)]]) auto
  have "in_hand ?w1 (with_window w2 db2)"
    using in_hand_wf [OF hand1] by (intro in_hand_version [OF hand1]) (auto simp: wf_window_def)
  then have "sched_inv (with_window w2 (with_window ?w1 db2))"
    using ids by (simp add: in_hand_def with_window_commute)
  moreover have "db2' = with_window ?w1 db2"
    using inv before db2 by (intro updateWindow_row(2) [OF m(2) _ _ s1]) (auto simp: sched_inv_defs db1)
  moreover have "old \<in> set (db_windows (with_window ?w1 db2))"
    using old ids by (force simp: with_window_def set_update_rows db1 db2)
  ultimately have "in_hand w2 db2'" using s2 by (auto simp: in_hand_def)
  then show ?thesis by (rule in_hand_write [OF _ m(4)])
qed
lemma moveUnits_same_window:
  assumes inv: "sched_inv db" and w: "w \<in> set (db_windows db)"
    and hf: "from \<in> set (db_holds db)" "h_windowId from = w_id w"
    and ht: "to \<in> set (db_holds db)" "h_windowId to = w_id w"
    and op: "replaceCommitment_hold from to b r now = Inr (from', to', False)"
    and u: "updateHold from' v db = Inr db1" "updateHold to' v' db1 = Inr db2"
    and mv: "moveUnits w w from to db2 = Inr db3"
  shows "sched_inv db3"
proof -
  note nxt = replaceCommitment_next [OF op]
  have st: "h_status from = CONFIRMED" "h_status to = ACTIVE" "h_status to' = CONFIRMED"
    "h_status from' = CANCELLED" "h_id from \<noteq> h_id to"
    using op by (auto simp: replaceCommitment_hold_Inr)
  have un: "h_units from = 1" "h_units to = 1" "wf_hold from" "wf_hold to"
    using sched_inv_hold [OF inv] hf ht by (auto simp: wf_hold_def)
  note hand0 = in_hand_start [OF inv w]
  have ok: "holds_ok db" using inv by (simp add: sched_inv_def)
  have "h_units from \<le> reserved_units db (w_id w)"
    unfolding reserved_units_def using ok hf st
    by (intro add_increasing2 sum_rows_nonneg sum_rows_member_le) (auto simp: holds_ok_def wf_hold_def)
  with in_hand_window(4) [OF hand0] un have res: "1 \<le> w_reserved w" by simp
  define w1 where "w1 = w\<lparr>w_reserved := w_reserved w - 1\<rparr>"
  have hand1: "in_hand w1 db1"
    using nxt status_moves [of "from" from'] un st res sched_inv_window [OF inv w]
    by (intro in_hand_updateHold [OF hand0 hf _ _ u(1)]) (auto simp: w1_def same_window_def wf_window_def)
  have db1: "db1 = db\<lparr>db_holds := map (\<lambda>x. if x = from then from' else x) (db_holds db)\<rparr>"
    using updateHold_map [OF u(1) _ hf(1)] ok nxt by (simp add: holds_ok_def hold_next_def)
  have to1: "to \<in> set (db_holds db1)" using ht(1) st(5) by (auto simp: db1 image_iff)
  from mv hf(2) ht(2) obtain n where held: "1 \<le> w_held w" and w2: "updateWindow n (w_version w) db2 = Inr db3"
    and n: "n = w\<lparr>w_held := w_held w - 1, w_version := w_version w + 1\<rparr>"
    by (auto simp: moveUnits_def un convertHeldToReserved_Inr releaseReservedUnits_Inr)
  have "in_hand n db2"
    using nxt status_moves [of to to'] un st held ht(2) sched_inv_window [OF inv w]
    by (intro in_hand_updateHold [OF hand1 to1 _ _ _ u(2)]) (auto simp: w1_def n same_window_def wf_window_def)
  then show ?thesis by (rule in_hand_write [OF _ w2])
qed

lemma replaceCommitment_tx_cases:
  assumes run: "replaceCommitment_tx rq scope key fw tw fromId toId booking r db = Inr (x, db')"
  obtains
    (expired) w h where "lockedWindow tw db = Inr w" "lockedHold toId db = Inr h"
      "isDue h (rq_now rq)" "expireAndAbandon rq w scope key db = Inr (x, db')"
  | (replayed) f t where "lockedHold fromId db = Inr f" "lockedHold toId db = Inr t"
      "replaceCommitment_hold f t booking r (rq_now rq) = Inr (f, t, True)"
      "x = Some \<lparr>r_status = 200, r_body = ReplacementBody booking (holdView f) (holdView t)\<rparr>"
      "completeIdempotency scope key (the x) (rq_dbNow rq) db = Inr db'"
  | (replaced) fwin twin f t f' t' db1 db2 db3 db4 db5 details where
      "lockedWindow fw db = Inr fwin" "lockedWindow tw db = Inr twin"
      "lockedHold fromId db = Inr f" "lockedHold toId db = Inr t"
      "replaceCommitment_hold f t booking r (rq_now rq) = Inr (f', t', False)"
      "updateHold f' (h_version f) db = Inr db1" "updateHold t' (h_version t) db1 = Inr db2"
      "moveUnits fwin twin f t db2 = Inr db3" "changed rq 0 f' db3 = Inr db4"
      "changed rq 1 t' db4 = Inr db5"
      "x = Some \<lparr>r_status = 200, r_body = ReplacementBody booking (holdView f') (holdView t')\<rparr>"
      "completeIdempotency scope key (the x) (rq_dbNow rq)
         (audit_hold rq ''reservation.rescheduled'' (h_id t) details db5) = Inr db'"
proof -
  from run obtain fwin twin f t where l: "lockedWindow fw db = Inr fwin" "lockedWindow tw db = Inr twin"
      "lockedHold fromId db = Inr f" "lockedHold toId db = Inr t"
    by (auto simp: replaceCommitment_tx_def)
  show thesis
  proof (cases "isDue t (rq_now rq)")
    case True
    with run l show thesis by (intro expired [OF l(2,4)]) (auto simp: replaceCommitment_tx_def)
  next
    case False
    with run l obtain f' t' rep where c: "replaceCommitment_hold f t booking r (rq_now rq) = Inr (f', t', rep)"
      by (auto simp: replaceCommitment_tx_def)
    show thesis
    proof (cases rep)
      case True
      with run l \<open>\<not> isDue t (rq_now rq)\<close> c show thesis
        by (intro replayed [OF l(3,4)])
          (auto simp: replaceCommitment_tx_def Let_def replaceCommitment_hold_Inr)
    next
      case False
      with run l \<open>\<not> isDue t (rq_now rq)\<close> c show thesis
        by (auto simp: replaceCommitment_tx_def Let_def intro: replaced [OF l])
    qed
  qed
qed

lemma replaceCommitment_tx_inv:
  assumes inv: "sched_inv db" and fwin: "\<And>h. lockedHold fromId db = Inr h \<Longrightarrow> h_windowId h = fw"
    and twin: "\<And>h. lockedHold toId db = Inr h \<Longrightarrow> h_windowId h = tw"
    and run: "replaceCommitment_tx rq scope key fw tw fromId toId booking r db = Inr (x, db')"
  shows "sched_inv db'"
  using run
proof (cases rule: replaceCommitment_tx_cases)
  case (replaced wf wt f t f' t' db1 db2 db3 db4 db5 details)
  note m = lockedWindow_Inr [OF replaced(1)] lockedWindow_Inr [OF replaced(2)]
    lockedHold_Inr [OF replaced(3)] lockedHold_Inr [OF replaced(4)]
  have ww: "h_windowId f = w_id wf" "h_windowId t = w_id wt"
    using fwin [OF replaced(3)] twin [OF replaced(4)] m by auto
  have "sched_inv db3"
  proof (cases "h_windowId f = h_windowId t")
    case True
    then have "wf = wt" using ww m replaced(1,2) by simp
    with m ww replaced(8) show ?thesis
      by (intro moveUnits_same_window [OF inv, of wt f t booking r "rq_now rq" f' t' _ db1 _ db2])
        (auto intro: replaced)
  next
    case False
    with m ww show ?thesis
      by (intro moveUnits_other_window [OF inv, of wf wt f t booking r "rq_now rq" f' t' _ db1 _ db2])
        (auto intro: replaced)
  qed
  then show ?thesis
    using sched_inv_changed [OF replaced(9)] sched_inv_changed [OF replaced(10)]
      sched_inv_complete [OF replaced(12)] by simp
qed (use inv in \<open>auto dest: lockedWindow_Inr intro: expireAndAbandon_inv sched_inv_complete\<close>)

section \<open>Windows, the override and the sweep\<close>

lemma defineWindow_tx_inv:
  assumes inv: "sched_inv db" and wf: "wf_window w" "isUuid (w_zoneId w)" "w_held w = 0" "w_reserved w = 0"
    and run: "defineWindow_tx rq w db = Inr (x, db')"
  shows "sched_inv db'"
proof -
  from run obtain db1 where ins: "insertWindow w db = Inr (x, db1)"
    and db': "sched_inv db' = sched_inv db1" by (auto simp: defineWindow_tx_def)
  show ?thesis
  proof (cases "x = CREATED")
    case True
    with ins have new: "w_id w \<notin> w_id ` set (db_windows db)" "\<forall>r \<in> set (db_windows db). \<not> overlaps w r"
      and db1: "db1 = db\<lparr>db_windows := w # db_windows db\<rparr>"
      by (auto simp: insertWindow_def split: if_splits)
    have none: "h_windowId h \<noteq> w_id w" if "h \<in> set (db_holds db)" for h
      using inv new(1) that unfolding sched_inv_defs hold_fits_def by (metis image_eqI)
    have none': "l_windowId l \<noteq> w_id w" if "l \<in> set (db_legacy db)" for l
      using inv new(1) that unfolding sched_inv_defs by metis
    have "active_units db (w_id w) = 0" "reserved_units db (w_id w) = 0"
      using none none' by (auto simp: active_units_def reserved_units_def sum_rows_def filter_empty_conv)
    moreover have "\<forall>r \<in> set (db_windows db). \<not> overlaps r w" using new(2) by (auto simp: overlaps_def)
    ultimately have "windows_ok db1" using inv wf new by (auto simp: db1 sched_inv_def windows_ok_def)
    moreover have "holds_ok db1" using inv by (auto simp: db1 sched_inv_def holds_ok_def)
    ultimately show ?thesis using db' by (simp add: sched_inv_def)
  next
    case False
    with ins have "db1 = db" by (auto simp: insertWindow_def split: if_splits)
    with db' inv show ?thesis by simp
  qed
qed

lemma changeCapacity_tx_inv:
  assumes inv: "sched_inv db" and run: "changeCapacity_tx rq i n v db = Inr (x, db')"
  shows "sched_inv db'"
proof -
  from run obtain w w1 k db1 db2 where w: "lockedWindow (uuid_cast i) db = Inr w"
    and ex: "expireDueHoldsOf rq (rq_now rq) w db = Inr ((w1, k), db1)"
    and ch: "changeCapacity w1 n = Inr x" and up: "updateWindow x (w_version w) db1 = Inr db2"
    and db': "sched_inv db' = sched_inv db2"
    by (auto simp: changeCapacity_tx_def split: if_splits)
  have hand: "in_hand w1 db1"
    using expireDueHoldsOf_Inr [OF inv _ ex] lockedWindow_Inr [OF w] by (auto simp: expiry_done_def)
  have "in_hand x db1"
    using changeCapacity_same [OF ch] changeCapacity_wf [OF in_hand_wf [OF hand] ch] ch
    by (intro in_hand_same_counters [OF hand]) (auto simp: changeCapacity_Inr)
  with in_hand_write [OF _ up] db' show ?thesis by simp
qed

lemma closeWindow_tx_inv:
  assumes inv: "sched_inv db" and run: "closeWindow_tx rq i v db = Inr (x, db')"
  shows "sched_inv db'"
proof -
  from run obtain w where w: "lockedWindow (uuid_cast i) db = Inr w"
    and rest: "db' = db \<or> (\<exists>db1. updateWindow (closeWindow w) (w_version w) db = Inr db1 \<and>
                 sched_inv db' = sched_inv db1)"
    by (auto simp: closeWindow_tx_def Let_def split: if_splits)
  have hand: "in_hand w db" using in_hand_start [OF inv] lockedWindow_Inr [OF w] by simp
  have "in_hand (closeWindow w) db"
    using closeWindow_same closeWindow_wf [OF in_hand_wf [OF hand]]
    by (intro in_hand_same_counters [OF hand]) (auto simp: closeWindow_def)
  with rest inv show ?thesis by (auto dest: in_hand_write)
qed

lemma overrideRelease_tx_cases:
  assumes run: "overrideRelease_tx rq windowId i db = Inr (x, db')"
  obtains
    (expired) w h w1 k db1 where "lockedWindow windowId db = Inr w" "lockedHold (uuid_cast i) db = Inr h"
      "isDue h (rq_now rq)" "expireDueHoldsOf rq (rq_now rq) w db = Inr ((w1, k), db1)"
      "updateWindow w1 (w_version w) db1 = Inr db'" "x = h\<lparr>h_status := EXPIRED\<rparr>"
  | (terminal) h where "lockedHold (uuid_cast i) db = Inr h"
      "releaseByOperations h (rq_now rq) = Inr None" "x = h" "db' = db"
  | (released) w h f w' db1 db2 db3 action details where
      "lockedWindow windowId db = Inr w" "lockedHold (uuid_cast i) db = Inr h"
      "releaseByOperations h (rq_now rq) = Inr (Some (x, f))"
      "(if f = FREED_HELD then releaseHeldUnits w (h_units h)
        else releaseReservedUnits w (h_units h)) = Inr w'"
      "updateHold x (h_version h) db = Inr db1" "updateWindow w' (w_version w) db1 = Inr db2"
      "emit (rq_ids rq 0) (rq_correlationId rq) x (w_zoneId w) (eventActor (rq_actor rq)) db2 = Inr db3"
      "db' = audit_hold rq action (h_id h) details db3"
proof -
  from run obtain w h where wh: "lockedWindow windowId db = Inr w" "lockedHold (uuid_cast i) db = Inr h"
    by (auto simp: overrideRelease_tx_def)
  show thesis
  proof (cases "isDue h (rq_now rq)")
    case True
    with run wh show thesis by (auto simp: overrideRelease_tx_def intro: expired [OF wh])
  next
    case False
    with run wh obtain out where out: "releaseByOperations h (rq_now rq) = Inr out"
      by (auto simp: overrideRelease_tx_def)
    show thesis
    proof (cases out)
      case None
      with run wh False out show thesis by (auto simp: overrideRelease_tx_def intro: terminal)
    next
      case (Some p)
      obtain h' f where "p = (h', f)" by (cases p)
      with run wh False out Some show thesis
        by (auto simp: overrideRelease_tx_def intro: released [OF wh])
    qed
  qed
qed

lemma overrideRelease_tx_inv:
  assumes inv: "sched_inv db" and win: "\<And>h. lockedHold (uuid_cast i) db = Inr h \<Longrightarrow> h_windowId h = windowId"
    and run: "overrideRelease_tx rq windowId i db = Inr (x, db')"
  shows "sched_inv db'"
  using run
proof (cases rule: overrideRelease_tx_cases)
  case (expired w h w1 k db1)
  have "in_hand w1 db1"
    using expireDueHoldsOf_Inr [OF inv _ expired(4)] lockedWindow_Inr [OF expired(1)]
    by (auto simp: expiry_done_def)
  with expired(5) show ?thesis by (simp add: in_hand_write)
next
  case (released w h f w' db1 db2 db3 action details)
  note nxt = releaseByOperations_next [OF released(3)]
  have lw: "lockedWindow (h_windowId h) db = Inr w" using released(1,2) win by simp
  have st: "wf_hold h" "h_status x \<noteq> CONFIRMED"
    using sched_inv_hold [OF inv] lockedHold_Inr [OF released(2)] released(3)
    by (auto simp: releaseByOperations_def split: if_splits)
  have "sched_inv db2"
  proof (cases "f = FREED_HELD")
    case True
    with nxt st status_moves [of h x] released(4) show ?thesis
      by (intro release_op.writes [OF inv lw released(2) _ _ _ released(5) _ released(6)]) auto
  next
    case False
    with nxt st status_moves [of h x] released(4) show ?thesis
      by (intro unreserve_op.writes [OF inv lw released(2) _ _ _ released(5) _ released(6)]) (cases f; auto)+
  qed
  with released(8) sched_inv_emit [OF released(7)] show ?thesis by simp
qed (use inv in simp)

lemma lockWindow_Some: "lockWindow skip i db = Some w \<Longrightarrow> w \<in> set (db_windows db) \<and> w_id w = i"
  by (auto simp: lockWindow_def split: option.splits if_splits dest: find_row_Some)

lemma expireDue_tx_inv:
  assumes inv: "sched_inv db" and run: "expireDue_tx rq busy i db = Inr (n, db')"
  shows "sched_inv db'"
proof (cases "lockWindow (Some busy) i db")
  case None
  with run inv show ?thesis by (simp add: expireDue_tx_def)
next
  case (Some w)
  then have w: "w \<in> set (db_windows db)" by (auto dest: lockWindow_Some)
  from run Some obtain w1 k db1 where ex: "expireDueHoldsOf rq (rq_now rq) w db = Inr ((w1, k), db1)"
    and rest: "if w_held w = w_held w1 then db' = db1 else updateWindow w1 (w_version w) db1 = Inr db'"
    by (auto simp: expireDue_tx_def Let_def split: if_splits)
  have d: "expiry_done (rq_now rq) w db w1 db1" by (rule expireDueHoldsOf_Inr [OF inv w ex])
  then have hand: "in_hand w1 db1" by (simp add: expiry_done_def)
  show ?thesis
  proof (cases "w_held w = w_held w1")
    case True
    have "in_hand w db1"
      using d True sched_inv_window [OF inv w]
      by (intro in_hand_same_counters [OF hand]) (auto simp: expiry_done_def same_window_def)
    moreover have "with_window w db1 = db1"
      using d inv w by (intro with_window_id) (auto simp: expiry_done_def sched_inv_defs)
    ultimately show ?thesis using True rest by (simp add: in_hand_def)
  next
    case False
    with rest hand show ?thesis by (simp add: in_hand_write)
  qed
qed

section \<open>Commands\<close>

lemma snd_finish_run [simp]: "snd (finish_run r) = snd r"
  by (simp add: finish_run_def)

lemma claimIdempotency_frame:
  "claimIdempotency s k p db = (c, db') \<Longrightarrow> db' = db\<lparr>db_idem := db_idem db'\<rparr>"
  by (auto simp: claimIdempotency_def split: option.splits)

lemma with_claim_inv:
  assumes inv: "sched_inv db"
    and body: "\<And>y x db'. body (db\<lparr>db_idem := y\<rparr>) = Inr (x, db') \<Longrightarrow> sched_inv db'"
  shows "sched_inv (snd (run_tx (with_claim scope key print body) db))"
  using inv
proof (rule run_tx_invariant)
  fix a db' assume run: "with_claim scope key print body db = Inr (a, db')"
  obtain y c where c: "claimIdempotency scope key print db = (c, db\<lparr>db_idem := y\<rparr>)"
    by (cases "claimIdempotency scope key print db") (metis claimIdempotency_frame)
  with run body inv show "sched_inv db'"
    by (auto simp: with_claim_def split: option.splits)
qed

lemma createHold_inv:
  assumes "sched_inv db"
  shows "sched_inv (snd (createHold digest rq q rawKey db))"
proof -
  have "sched_inv (snd (run_tx (with_claim scope key print (\<lambda>db1.
           bindS (createHold_new rq scope key kind subject z qi qr s e db1)
             (\<lambda>response db2. Inr (Some response, db2)))) db))"
    if "s < e" for scope key print kind subject z qi qr s e
    using assms by (rule with_claim_inv) (use assms that in \<open>auto dest: createHold_new_inv [rotated 2]\<close>)
  then show ?thesis
    using assms
    by (auto simp: createHold_def Let_def MINUTE_def case_prod_beta
        split: sum.splits option.splits if_splits)
qed

lemma commitHold_inv:
  assumes inv: "sched_inv db"
  shows "sched_inv (snd (commitHold digest rq i r b rawKey db))"
proof -
  have "sched_inv (snd (run_tx (with_claim scope key print
          (commitHold_tx rq scope key (h_windowId known) j bk r)) db))"
    if "lockedHold j db = Inr known" for scope key print known j bk
    using inv that by (intro with_claim_inv [OF inv]) (auto elim: commitHold_tx_inv [rotated 2])
  then show ?thesis
    using inv by (auto simp: commitHold_def Let_def knownHold_Inr split: sum.splits)
qed

lemma releaseHold_inv:
  assumes inv: "sched_inv db"
  shows "sched_inv (snd (releaseHold digest rq i r reason rawKey db))"
proof -
  have "sched_inv (snd (run_tx (with_claim scope key print
          (releaseHold_tx rq scope key (h_windowId known) j r reason)) db))"
    if "lockedHold j db = Inr known" for scope key print known j
    using inv that by (intro with_claim_inv [OF inv]) (auto elim: releaseHold_tx_inv [rotated 2])
  then show ?thesis
    using inv by (auto simp: releaseHold_def Let_def knownHold_Inr case_prod_beta split: sum.splits)
qed

lemma releaseCommitment_inv:
  assumes inv: "sched_inv db"
  shows "sched_inv (snd (releaseCommitment digest rq b i rawKey db))"
proof -
  have "sched_inv (snd (run_tx (with_claim scope key print
          (releaseCommitment_tx rq scope key (h_windowId known) j bk)) db))"
    if "lockedHold j db = Inr known" for scope key print known j bk
    using inv that by (intro with_claim_inv [OF inv]) (auto elim: releaseCommitment_tx_inv [rotated 2])
  then show ?thesis
    using inv by (auto simp: releaseCommitment_def Let_def knownHold_Inr split: sum.splits)
qed

lemma replaceCommitment_inv:
  assumes inv: "sched_inv db"
  shows "sched_inv (snd (replaceCommitment digest rq b i j r rawKey db))"
proof -
  have "sched_inv (snd (run_tx (with_claim scope key print
          (replaceCommitment_tx rq scope key (h_windowId f) (h_windowId t) i' j' bk r)) db))"
    if "lockedHold i' db = Inr f" "lockedHold j' db = Inr t" for scope key print f t i' j' bk
    using inv that by (intro with_claim_inv [OF inv]) (auto elim: replaceCommitment_tx_inv [rotated 3])
  then show ?thesis
    using inv by (auto simp: replaceCommitment_def Let_def knownHold_Inr split: sum.splits)
qed

lemma defineWindow_snd:
  assumes "andThen (requireOperations (rq_actor rq)) (\<lambda>_. andThen (assertUuid z) (\<lambda>_.
             assertWindowDefinition s e c (rq_now rq))) = Inr (s', e', c')"
  shows "snd (defineWindow rq z s e c db) =
         snd (run_tx (defineWindow_tx rq
           \<lparr>w_id = rq_ids rq 0, w_zoneId = toLowerCase z, w_startsAt = s', w_endsAt = e',
            w_capacity = c', w_held = 0, w_reserved = 0, w_status = OPEN, w_version = 1\<rparr>) db)"
  unfolding defineWindow_def assms
  by (simp add: Let_def split: prod.splits sum.splits insert_window_result.splits option.splits)

lemma defineWindow_inv:
  assumes inv: "sched_inv db"
  shows "sched_inv (snd (defineWindow rq z s e c db))"
proof (cases "andThen (requireOperations (rq_actor rq)) (\<lambda>_. andThen (assertUuid z) (\<lambda>_.
             assertWindowDefinition s e c (rq_now rq)))")
  case (Inl err)
  with inv show ?thesis unfolding defineWindow_def by simp
next
  case (Inr p)
  obtain s' e' c' where p: "p = (s', e', c')" by (cases p)
  have v: "isUuid z" "0 \<le> c'" "c' \<le> maxCapacity" "s' < e'"
    using Inr p by (auto simp: assertWindowDefinition_Inr minDurationMs_def)
  show ?thesis
    unfolding defineWindow_snd [OF Inr [unfolded p]]
    using inv by (rule run_tx_invariant)
      (erule defineWindow_tx_inv [OF inv, rotated 4]; use v in \<open>simp add: wf_window_def\<close>)
qed

lemma changeWindowCapacity_inv:
  "sched_inv db \<Longrightarrow> sched_inv (snd (changeWindowCapacity rq i n v db))"
  by (auto simp: changeWindowCapacity_def split: sum.splits
      intro: run_tx_invariant changeCapacity_tx_inv)

lemma closeWindow_command_inv:
  "sched_inv db \<Longrightarrow> sched_inv (snd (closeWindow_command rq i v db))"
  by (auto simp: closeWindow_command_def split: sum.splits
      intro: run_tx_invariant closeWindow_tx_inv)

lemma overrideRelease_inv:
  assumes inv: "sched_inv db"
  shows "sched_inv (snd (overrideRelease rq i db))"
proof -
  have "sched_inv (snd (run_tx (overrideRelease_tx rq (h_windowId known) i) db))"
    if "lockedHold (uuid_cast i) db = Inr known" for known
    using inv by (rule run_tx_invariant)
      (erule overrideRelease_tx_inv [OF inv, rotated], use that in simp)
  then show ?thesis using inv by (auto simp: overrideRelease_def knownHold_Inr split: sum.splits)
qed

lemma expireDue_inv: "sched_inv db \<Longrightarrow> sched_inv (snd (run_tx (expireDue_tx rq busy i) db))"
  by (auto intro: run_tx_invariant expireDue_tx_inv)

lemmas command_inv =
  createHold_inv commitHold_inv releaseHold_inv releaseCommitment_inv replaceCommitment_inv
  defineWindow_inv changeWindowCapacity_inv closeWindow_command_inv overrideRelease_inv expireDue_inv

section \<open>Reachable databases\<close>

text \<open>
  One command, with whatever request. The sweep contributes one step per unit of work: what other
  transactions commit between two windows of a sweep are steps of their own.
\<close>

inductive sched_command :: "digest \<Rightarrow> sched_db \<Rightarrow> sched_db \<Rightarrow> bool" for digest where
  create: "sched_command digest db (snd (createHold digest rq q key db))"
| commit: "sched_command digest db (snd (commitHold digest rq i r b key db))"
| release: "sched_command digest db (snd (releaseHold digest rq i r reason key db))"
| cancel: "sched_command digest db (snd (releaseCommitment digest rq b i key db))"
| replace: "sched_command digest db (snd (replaceCommitment digest rq b i j r key db))"
| define_window: "sched_command digest db (snd (defineWindow rq z s e c db))"
| resize: "sched_command digest db (snd (changeWindowCapacity rq i n v db))"
| close_window: "sched_command digest db (snd (closeWindow_command rq i v db))"
| override: "sched_command digest db (snd (overrideRelease rq i db))"
| sweep: "sched_command digest db (snd (run_tx (expireDue_tx rq busy i) db))"

text \<open>A command, or the retention job that deletes completed idempotency records.\<close>

inductive sched_step :: "digest \<Rightarrow> sched_db \<Rightarrow> sched_db \<Rightarrow> bool" for digest where
  command: "sched_command digest db db' \<Longrightarrow> sched_step digest db db'"
| purge: "sched_step digest db (snd (purgeIdempotency retention m t db))"

inductive_cases sched_commandE: "sched_command digest db db'"
inductive_cases sched_stepE: "sched_step digest db db'"

text \<open>
  The database scheduling.v1 starts from: windows and rows of the earlier API that agree with
  each other, and nothing of v1 yet.
\<close>

definition sched_init :: "sched_db \<Rightarrow> bool" where
  "sched_init db \<longleftrightarrow> sched_inv db \<and> db_holds db = [] \<and> db_idem db = [] \<and> db_outbox db = []"

lemma purge_inv: "sched_inv db \<Longrightarrow> sched_inv (snd (purgeIdempotency retention m t db))"
  by (auto simp: purgeIdempotency_def Let_def split: prod.splits)

interpretation sched: transition_system sched_init "sched_step digest" sched_inv for digest
proof unfold_locales
  show "sched_inv db'" if "sched_inv db" "sched_step digest db db'" for db db'
    using that(2,1) by (auto elim!: sched_stepE sched_commandE intro: command_inv purge_inv)
qed (simp add: sched_init_def)

end
