(* ===== verification/Sched_Idempotency.thy ===== *)
theory Sched_Idempotency
  imports Sched_Safety
begin

text \<open>
  Scheduling, idempotency keys: a command that was answered is answered the same way when it is
  sent again with the same key, and the second time changes nothing. The interface
  \<open>idempotent_body\<close> is what the unit of work of a command owes \<^verbatim>\<open>claimIdempotency\<close>: it
  completes the claim with its own answer, once, as its last write.
\<close>

text \<open>A record has a response exactly when it is completed.\<close>

definition idem_ok :: "sched_db \<Rightarrow> bool" where
  "idem_ok db \<longleftrightarrow> (\<forall>r \<in> set (db_idem db). i_response r = None \<longleftrightarrow> i_completedAt r = None)"

text \<open>
  \<open>answered\<close>: the key was used for this request and its answer is stored; \<open>answered_at\<close>
  says also when it was completed.
\<close>

definition answered_at ::
  "instant \<Rightarrow> string \<Rightarrow> string \<Rightarrow> string \<Rightarrow> stored_response \<Rightarrow> sched_db \<Rightarrow> bool" where
  "answered_at t scope key print resp db \<longleftrightarrow>
     (\<exists>r. find (idem_hit scope key) (db_idem db) = Some r \<and> i_fingerprint r = print \<and>
          i_response r = Some resp \<and> i_completedAt r = Some t)"

definition answered :: "string \<Rightarrow> string \<Rightarrow> string \<Rightarrow> stored_response \<Rightarrow> sched_db \<Rightarrow> bool" where
  "answered scope key print resp db \<longleftrightarrow>
     (\<exists>r. find (idem_hit scope key) (db_idem db) = Some r \<and> i_fingerprint r = print \<and>
          i_response r = Some resp \<and> i_completedAt r \<noteq> None)"

lemma answered_when: "answered scope key print resp db \<longleftrightarrow> (\<exists>t. answered_at t scope key print resp db)"
  by (auto simp: answered_def answered_at_def)

text \<open>When the record of a key was completed.\<close>

definition completion_time :: "string \<Rightarrow> string \<Rightarrow> sched_db \<Rightarrow> instant option" where
  "completion_time scope key db =
     (case find (idem_hit scope key) (db_idem db) of None \<Rightarrow> None | Some r \<Rightarrow> i_completedAt r)"

lemma answered_completion_time:
  "answered_at t scope key print resp db \<Longrightarrow> completion_time scope key db = Some t"
  by (auto simp: answered_at_def completion_time_def)

lemma answered_replay:
  assumes "answered scope key print resp db"
  shows "run_tx (with_claim scope key print body) db = (Inr (Some resp), db)"
  using assms by (auto simp: answered_def with_claim_def claimIdempotency_def)

lemma answered_conflict:
  assumes "answered scope key print resp db" and "print' \<noteq> print"
  shows "run_tx (with_claim scope key print' body) db =
         (Inl (SchedulingError IDEMPOTENCY_KEY_REUSED), db)"
  using assms by (auto simp: answered_def with_claim_def claimIdempotency_def)

lemma complete_answers:
  assumes cmp: "completeIdempotency scope key resp t db = Inr db'"
    and row: "find (idem_hit scope key) (db_idem db) = Some r" "i_fingerprint r = print"
      "i_completedAt r = None"
  shows "answered scope key print resp db'"
proof -
  let ?hit = "\<lambda>r. idem_hit scope key r \<and> i_completedAt r = None"
  let ?f = "\<lambda>r. r\<lparr>i_response := Some resp, i_completedAt := Some t\<rparr>"
  have upd: "find (idem_hit scope key) (update_rows ?hit ?f rows) =
        map_option (\<lambda>r. if ?hit r then ?f r else r) (find (idem_hit scope key) rows)" for rows
    by (rule find_update_rows) (simp add: idem_hit_def)
  have "idem_hit scope key r" using row(1) by (auto simp: find_Some_iff)
  with upd [of "db_idem db"] cmp row show ?thesis
    by (auto simp: completeIdempotency_def answered_def Let_def split: if_splits)
qed

locale idempotent_body =
  fixes body :: "string \<Rightarrow> string \<Rightarrow> (sched_db, sched_error, stored_response option) tx"
  assumes completes: "body scope key db = Inr (Some resp, db') \<Longrightarrow>
    \<exists>db4 t. db_idem db4 = db_idem db \<and> completeIdempotency scope key resp t db4 = Inr db'"
begin

lemma first_answer:
  assumes rows: "idem_ok db"
    and run: "run_tx (with_claim scope key print (body scope key)) db = (Inr (Some resp), db')"
  shows "answered scope key print resp db'"
proof (cases "find (idem_hit scope key) (db_idem db)")
  case None
  let ?row = "\<lparr>i_scope = scope, i_key = key, i_fingerprint = print, i_response = None,
               i_completedAt = None\<rparr>"
  from run None have "body scope key (db\<lparr>db_idem := ?row # db_idem db\<rparr>) = Inr (Some resp, db')"
    by (auto simp: run_tx_def with_claim_def claimIdempotency_def split: sum.splits)
  from completes [OF this] obtain db4 t where "db_idem db4 = ?row # db_idem db"
    "completeIdempotency scope key resp t db4 = Inr db'" by auto
  then show ?thesis by (auto intro!: complete_answers [of scope key resp t db4] simp: idem_hit_def)
next
  case (Some r)
  have "i_completedAt r \<noteq> None" if "i_response r = Some resp"
    using that rows find_Some_mem [OF Some] by (auto simp: idem_ok_def)
  with Some run show ?thesis
    by (cases "i_response r")
      (auto simp: run_tx_def with_claim_def claimIdempotency_def answered_def split: if_splits)
qed

text \<open>The same request again, with whatever unit of work: the same answer, no change.\<close>

lemma again:
  assumes "idem_ok db"
    and "run_tx (with_claim scope key print (body scope key)) db = (Inr (Some resp), db')"
  shows "run_tx (with_claim scope key print body') db' = (Inr (Some resp), db')"
  using answered_replay [OF first_answer [OF assms]] .

end

section \<open>The units of work of the commands\<close>

lemma idem_frame:
  "updateHold h v db = Inr db' \<Longrightarrow> db_idem db' = db_idem db"
  "updateWindow w v db = Inr db' \<Longrightarrow> db_idem db' = db_idem db"
  "insertHold h db = Inr db' \<Longrightarrow> db_idem db' = db_idem db"
  "changed rq k h db = Inr db' \<Longrightarrow> db_idem db' = db_idem db"
  by (auto simp: updateHold_def updateWindow_def insertHold_def changed_def emit_def appendEvent_def
      Let_def split: if_splits)

lemma idem_audit [simp]: "db_idem (audit_hold rq a t d db) = db_idem db"
  by (simp add: audit_hold_def appendAudit_def)

lemma idem_moveUnits: "moveUnits a b f t db = Inr db' \<Longrightarrow> db_idem db' = db_idem db"
  by (auto simp: moveUnits_def split: if_splits dest!: idem_frame)

lemma expireAndAbandon_None: "expireAndAbandon rq w scope key db = Inr (x, db') \<Longrightarrow> x = None"
  by (auto simp: expireAndAbandon_def)

text \<open>The last write of a body, as the interface asks for it.\<close>

lemma completesI:
  "completeIdempotency scope key (the x) t db4 = Inr db' \<Longrightarrow> x = Some resp \<Longrightarrow>
   db_idem db4 = db_idem db \<Longrightarrow>
   \<exists>db4 t. db_idem db4 = db_idem db \<and> completeIdempotency scope key resp t db4 = Inr db'"
  by auto

interpretation commit_body: idempotent_body "\<lambda>scope key. commitHold_tx rq scope key wi i b r"
  for rq wi i b r
proof
  fix scope key db resp db'
  assume "commitHold_tx rq scope key wi i b r db = Inr (Some resp, db')"
  then show "\<exists>db4 t. db_idem db4 = db_idem db \<and> completeIdempotency scope key resp t db4 = Inr db'"
  proof (cases rule: commitHold_tx_cases)
    case (committed w h h' db1 w' db2 db3 details)
    then show ?thesis
      using idem_frame(1) [OF committed(4)] idem_frame(2) [OF committed(6)] idem_frame(4) [OF committed(7)]
      by (intro completesI [OF committed(9)]) simp_all
  qed (auto dest: expireAndAbandon_None)
qed

interpretation release_body: idempotent_body "\<lambda>scope key. releaseHold_tx rq scope key wi i r reason"
  for rq wi i r reason
proof
  fix scope key db resp db'
  assume "releaseHold_tx rq scope key wi i r reason db = Inr (Some resp, db')"
  then show "\<exists>db4 t. db_idem db4 = db_idem db \<and> completeIdempotency scope key resp t db4 = Inr db'"
  proof (cases rule: releaseHold_tx_cases)
    case (released w h h' f db1 w' db2 db3 details)
    then show ?thesis
      using idem_frame(1) [OF released(4)] idem_frame(2) [OF released(6)] idem_frame(4) [OF released(7)]
      by (intro completesI [OF released(9)]) simp_all
  qed (auto dest: expireAndAbandon_None)
qed

interpretation cancel_body: idempotent_body "\<lambda>scope key. releaseCommitment_tx rq scope key wi i b"
  for rq wi i b
proof
  fix scope key db resp db'
  assume "releaseCommitment_tx rq scope key wi i b db = Inr (Some resp, db')"
  then show "\<exists>db4 t. db_idem db4 = db_idem db \<and> completeIdempotency scope key resp t db4 = Inr db'"
  proof (cases rule: releaseCommitment_tx_cases)
    case (released w h h' db1 w' db2 db3 details)
    then show ?thesis
      using idem_frame(1) [OF released(4)] idem_frame(2) [OF released(6)] idem_frame(4) [OF released(7)]
      by (intro completesI [OF released(9)]) simp_all
  qed auto
qed

interpretation replace_body:
  idempotent_body "\<lambda>scope key. replaceCommitment_tx rq scope key fw tw f t b r" for rq fw tw f t b r
proof
  fix scope key db resp db'
  assume "replaceCommitment_tx rq scope key fw tw f t b r db = Inr (Some resp, db')"
  then show "\<exists>db4 t. db_idem db4 = db_idem db \<and> completeIdempotency scope key resp t db4 = Inr db'"
  proof (cases rule: replaceCommitment_tx_cases)
    case (replaced wf wt hf ht f' t' db1 db2 db3 db4 db5 details)
    then show ?thesis
      using idem_frame(1) [OF replaced(6)] idem_frame(1) [OF replaced(7)] idem_moveUnits [OF replaced(8)]
        idem_frame(4) [OF replaced(9)] idem_frame(4) [OF replaced(10)]
      by (intro completesI [OF replaced(12)]) simp_all
  qed (auto dest: expireAndAbandon_None)
qed

section \<open>Answers stay\<close>

text \<open>
  \<open>came_from db db'\<close>: no hold disappeared, and what is ACTIVE now was already there, as it is, or
  is a hold of a new id. \<open>keeps db db'\<close>: moreover every stored answer is still there with its time
  of completion, and the records are as before. Every statement the commands send keeps (an update
  of a hold ends it), and so does every command.
\<close>

definition came_from :: "sched_db \<Rightarrow> sched_db \<Rightarrow> bool" where
  "came_from db db' \<longleftrightarrow>
     h_id ` set (db_holds db) \<subseteq> h_id ` set (db_holds db') \<and>
     (\<forall>h \<in> set (db_holds db'). h_status h = ACTIVE \<longrightarrow>
        h \<in> set (db_holds db) \<or> h_id h \<notin> h_id ` set (db_holds db)) \<and>
     (\<forall>l \<in> set (db_legacy db'). l_status l = ACTIVE \<longrightarrow> l \<in> set (db_legacy db))"

definition keeps :: "sched_db \<Rightarrow> sched_db \<Rightarrow> bool" where
  "keeps db db' \<longleftrightarrow>
     (\<forall>t s k p resp. answered_at t s k p resp db \<longrightarrow> answered_at t s k p resp db') \<and>
     (idem_ok db \<longrightarrow> idem_ok db') \<and> came_from db db'"

lemma came_from_refl [simp, intro]: "came_from db db"
  by (simp add: came_from_def)

lemma came_from_trans: "came_from db db' \<Longrightarrow> came_from db' db'' \<Longrightarrow> came_from db db''"
  unfolding came_from_def by (meson subset_iff subset_trans)

lemma keeps_refl [simp, intro]: "keeps db db"
  by (simp add: keeps_def)

lemma keeps_trans [trans]: "keeps db db' \<Longrightarrow> keeps db' db'' \<Longrightarrow> keeps db db''"
  unfolding keeps_def by (blast intro: came_from_trans)

lemma keeps_same:
  assumes "db_idem db' = db_idem db" and "db_holds db' = db_holds db" and "db_legacy db' = db_legacy db"
  shows "keeps db db'"
  using assms by (simp add: keeps_def came_from_def answered_at_def idem_ok_def)

lemma keeps_idem_only:
  assumes "\<And>t s k p resp. answered_at t s k p resp db \<Longrightarrow> answered_at t s k p resp db'"
    and "idem_ok db \<Longrightarrow> idem_ok db'" and "db_holds db' = db_holds db" and "db_legacy db' = db_legacy db"
  shows "keeps db db'"
  using assms by (simp add: keeps_def came_from_def)

lemma keeps_updateHold:
  assumes "updateHold h v db = Inr db'" and "h_status h \<noteq> ACTIVE"
  shows "keeps db db'"
proof -
  let ?hit = "\<lambda>r. h_id r = h_id h \<and> h_version r = v"
  have db': "db' = db\<lparr>db_holds := update_rows ?hit (hold_columns h) (db_holds db)\<rparr>"
    using assms(1) by (auto simp: updateHold_def Let_def split: if_splits)
  have "map h_id (db_holds db') = map h_id (db_holds db)"
    by (auto simp: db' hold_columns_def update_rows_def)
  then have "h_id ` set (db_holds db') = h_id ` set (db_holds db)" by (metis list.set_map)
  moreover have "\<forall>x \<in> set (db_holds db'). h_status x = ACTIVE \<longrightarrow> x \<in> set (db_holds db)"
    using assms(2) by (auto simp: db' set_update_rows hold_columns_def split: if_splits)
  ultimately show ?thesis
    by (simp add: keeps_def came_from_def answered_at_def idem_ok_def db')
qed

lemma keeps_updateWindow: "updateWindow w v db = Inr db' \<Longrightarrow> keeps db db'"
  by (rule keeps_same) (auto simp: updateWindow_def Let_def split: if_splits)

lemma keeps_insertHold: "insertHold h db = Inr db' \<Longrightarrow> keeps db db'"
  by (auto simp: insertHold_def keeps_def came_from_def answered_at_def idem_ok_def split: if_splits)

lemma keeps_insertWindow: "insertWindow w db = Inr (x, db') \<Longrightarrow> keeps db db'"
  by (rule keeps_same) (auto simp: insertWindow_def split: if_splits)

lemma keeps_emit: "emit e c h z a db = Inr db' \<Longrightarrow> keeps db db'"
  by (rule keeps_same) (auto simp: emit_def appendEvent_def)

lemma keeps_changed: "changed rq k h db = Inr db' \<Longrightarrow> keeps db db'"
  by (auto simp: changed_def keeps_emit)

lemma keeps_audit [simp]:
  "keeps db (audit_hold rq a t d db)" "keeps db (audit_window rq a t d db)"
  "keeps db (appendAudit e db)"
  by (auto simp: audit_hold_def audit_window_def appendAudit_def intro: keeps_same)

lemma keeps_legacy: "keeps db (snd (expireLegacyDueHolds i now db))"
  by (auto simp: expireLegacyDueHolds_def keeps_def came_from_def answered_at_def idem_ok_def
      set_update_rows split: if_splits)

lemma keeps_complete:
  assumes "completeIdempotency s k r t db = Inr db'"
  shows "keeps db db'"
proof -
  let ?hit = "\<lambda>r. idem_hit s k r \<and> i_completedAt r = None"
  let ?f = "\<lambda>x. x\<lparr>i_response := Some r, i_completedAt := Some t\<rparr>"
  have db': "db' = db\<lparr>db_idem := update_rows ?hit ?f (db_idem db)\<rparr>"
    using assms by (auto simp: completeIdempotency_def Let_def split: if_splits)
  have "find (idem_hit s' k') (update_rows ?hit ?f (db_idem db)) = Some x"
    if "find (idem_hit s' k') (db_idem db) = Some x" "i_completedAt x \<noteq> None" for s' k' x
    using that by (subst find_update_rows) (auto simp: idem_hit_def)
  then have "answered_at t' s' k' p resp db \<Longrightarrow> answered_at t' s' k' p resp db'" for t' s' k' p resp
    by (auto simp: answered_at_def db')
  then show ?thesis by (rule keeps_idem_only) (auto simp: idem_ok_def db' set_update_rows)
qed

lemma keeps_abandon: "keeps db (abandonIdempotency s k db)"
proof -
  let ?Q = "\<lambda>r. \<not> (idem_hit s k r \<and> i_completedAt r = None)"
  have "find P (filter ?Q (db_idem db)) = Some r" if "find P (db_idem db) = Some r" "i_completedAt r \<noteq> None" for P r
    using that by (intro find_filter_keeps) auto
  then show ?thesis
    by (intro keeps_idem_only) (auto 0 3 simp: answered_at_def idem_ok_def abandonIdempotency_def)
qed

lemma keeps_claim: "claimIdempotency s k p db = (c, db') \<Longrightarrow> keeps db db'"
  by (auto simp: claimIdempotency_def keeps_def came_from_def answered_at_def idem_ok_def idem_hit_def
      split: option.splits)

lemmas keeps_statements =
  keeps_updateWindow keeps_insertHold keeps_insertWindow keeps_emit keeps_changed
  keeps_legacy keeps_complete keeps_claim

lemma keeps_moveUnits: "moveUnits a b f t db = Inr db' \<Longrightarrow> keeps db db'"
  by (auto simp: moveUnits_def split: if_splits intro: keeps_trans keeps_updateWindow)

lemma keeps_applyExpiry:
  "applyExpiry rq window now due k w db = Inr (x, db') \<Longrightarrow> keeps db db'"
proof (induction due arbitrary: k w db)
  case (Cons h due)
  from Cons.prems obtain e db1 w1 db2 where "expire h now = Inr e"
    and up: "updateHold e (h_version h) db = Inr db1"
    "emit (rq_ids rq k) (rq_correlationId rq) e (w_zoneId window) SystemEventActor db1 = Inr db2"
    and rest: "keeps db2 db'"
    by (auto dest!: Cons.IH intro: keeps_trans [OF keeps_audit(3)])
  moreover from this(1) have "h_status e \<noteq> ACTIVE" by (simp add: expire_Inr)
  ultimately show ?case by (blast intro: keeps_trans keeps_updateHold keeps_emit)
qed auto

lemma keeps_expireDueHoldsOf: "expireDueHoldsOf rq now w db = Inr (x, db') \<Longrightarrow> keeps db db'"
  by (auto simp: expireDueHoldsOf_def Let_def case_prod_beta split: if_splits
      intro: keeps_trans [OF keeps_applyExpiry keeps_legacy])

lemma keeps_expireAndAbandon: "expireAndAbandon rq w s k db = Inr (x, db') \<Longrightarrow> keeps db db'"
  by (auto simp: expireAndAbandon_def
      intro: keeps_trans [OF keeps_expireDueHoldsOf keeps_trans [OF keeps_updateWindow keeps_abandon]])

lemma keeps_commit:
  assumes "commitHold_tx rq scope key wi i b r db = Inr (x, db')"
  shows "keeps db db'"
  using assms
proof (cases rule: commitHold_tx_cases)
  case (committed w h h' db1 w' db2 db3 details)
  have "keeps db db1" using committed(4) by (rule keeps_updateHold) (use committed(3) in \<open>simp add: commit_Inr\<close>)
  moreover have "keeps db1 db2" "keeps db2 db3"
    using committed by (blast intro: keeps_statements)+
  moreover have "keeps db3 db'" by (rule keeps_trans [OF keeps_audit(1) keeps_complete [OF committed(9)]])
  ultimately show ?thesis by (blast intro: keeps_trans)
qed (auto intro: keeps_expireAndAbandon keeps_complete)

lemma keeps_release:
  assumes "releaseHold_tx rq scope key wi i r reason db = Inr (x, db')"
  shows "keeps db db'"
  using assms
proof (cases rule: releaseHold_tx_cases)
  case (released w h h' f db1 w' db2 db3 details)
  have "keeps db db1" using released(4) by (rule keeps_updateHold) (use released(3) in \<open>simp add: releaseByBeneficiary_Inr\<close>)
  moreover have "keeps db1 db2" "keeps db2 db3"
    using released by (blast intro: keeps_statements)+
  moreover have "keeps db3 db'" by (rule keeps_trans [OF keeps_audit(1) keeps_complete [OF released(9)]])
  ultimately show ?thesis by (blast intro: keeps_trans)
qed (auto intro: keeps_expireAndAbandon)

lemma keeps_cancel:
  assumes "releaseCommitment_tx rq scope key wi i b db = Inr (x, db')"
  shows "keeps db db'"
  using assms
proof (cases rule: releaseCommitment_tx_cases)
  case (released w h h' db1 w' db2 db3 details)
  have "keeps db db1" using released(4) by (rule keeps_updateHold) (use released(3) in \<open>simp add: releaseCommitment_hold_Inr\<close>)
  moreover have "keeps db1 db2" "keeps db2 db3"
    using released by (blast intro: keeps_statements)+
  moreover have "keeps db3 db'" by (rule keeps_trans [OF keeps_audit(1) keeps_complete [OF released(9)]])
  ultimately show ?thesis by (blast intro: keeps_trans)
qed (auto intro: keeps_complete)

lemma keeps_replace:
  assumes "replaceCommitment_tx rq scope key fw tw f t b r db = Inr (x, db')"
  shows "keeps db db'"
  using assms
proof (cases rule: replaceCommitment_tx_cases)
  case (replaced wf wt hf ht f' t' db1 db2 db3 db4 db5 details)
  have "keeps db db1" using replaced(6) by (rule keeps_updateHold) (use replaced(5) in \<open>simp add: replaceCommitment_hold_Inr\<close>)
  moreover have "keeps db1 db2"
    using replaced(7) by (rule keeps_updateHold) (use replaced(5) in \<open>simp add: replaceCommitment_hold_Inr\<close>)
  moreover have "keeps db2 db3" "keeps db3 db4" "keeps db4 db5"
    using replaced by (blast intro: keeps_statements keeps_moveUnits)+
  moreover have "keeps db5 db'" by (rule keeps_trans [OF keeps_audit(1) keeps_complete [OF replaced(12)]])
  ultimately show ?thesis by (blast intro: keeps_trans)
qed (auto intro: keeps_expireAndAbandon keeps_complete)

lemma keeps_create:
  assumes "createHold_new rq scope key kind subject z qi qr s e db = Inr (x, db')"
  shows "keeps db db'"
  using assms
proof (cases rule: createHold_new_cases)
  case (1 w w1 k w2 h db1 db2 db3 db4 details)
  have "keeps db db1" "keeps db1 db2" "keeps db2 db3" "keeps db3 db4"
    using 1 by (blast intro: keeps_statements keeps_expireDueHoldsOf)+
  moreover have "keeps db4 db'" by (rule keeps_trans [OF keeps_audit(1) keeps_complete [OF 1(10)]])
  ultimately show ?thesis by (blast intro: keeps_trans)
qed

lemma keeps_run_tx: "(\<And>x db'. body db = Inr (x, db') \<Longrightarrow> keeps db db') \<Longrightarrow> keeps db (snd (run_tx body db))"
  by (rule run_tx_invariant) auto

lemma keeps_with_claim:
  assumes "\<And>db x db'. body db = Inr (x, db') \<Longrightarrow> keeps db db'"
  shows "keeps db (snd (run_tx (with_claim scope key print body) db))"
proof (rule keeps_run_tx)
  fix x db' assume run: "with_claim scope key print body db = Inr (x, db')"
  obtain c db1 where c: "claimIdempotency scope key print db = (c, db1)" by force
  with run have "db' = db1 \<or> body db1 = Inr (x, db')"
    by (auto simp: with_claim_def split: option.splits)
  with keeps_claim [OF c] assms show "keeps db db'" by (blast intro: keeps_trans)
qed

lemma keeps_expireDue_tx:
  assumes "expireDue_tx rq busy i db = Inr (n, db')"
  shows "keeps db db'"
  using assms
  by (auto simp: expireDue_tx_def Let_def split: option.splits if_splits
      intro: keeps_expireDueHoldsOf keeps_trans [OF keeps_expireDueHoldsOf keeps_updateWindow])

lemma keeps_override:
  assumes "overrideRelease_tx rq wi i db = Inr (x, db')"
  shows "keeps db db'"
  using assms
proof (cases rule: overrideRelease_tx_cases)
  case (released w h f w' db1 db2 db3 action details)
  have "keeps db db1"
    using released(5) by (rule keeps_updateHold)
      (use released(3) in \<open>auto simp: releaseByOperations_def split: if_splits\<close>)
  moreover have "keeps db1 db2" "keeps db2 db3" "keeps db3 db'"
    using released by (auto intro: keeps_statements)
  ultimately show ?thesis by (blast intro: keeps_trans)
qed (auto intro: keeps_trans [OF keeps_expireDueHoldsOf keeps_updateWindow])

lemma keeps_windows:
  "defineWindow_tx rq w db = Inr (i, db') \<Longrightarrow> keeps db db'"
  "changeCapacity_tx rq j n v db = Inr (x, db') \<Longrightarrow> keeps db db'"
  "closeWindow_tx rq j v db = Inr (x, db') \<Longrightarrow> keeps db db'"
  by (auto simp: defineWindow_tx_def changeCapacity_tx_def closeWindow_tx_def Let_def split: if_splits
      intro: keeps_insertWindow keeps_trans [OF keeps_insertWindow keeps_audit(2)]
        keeps_trans [OF keeps_expireDueHoldsOf keeps_trans [OF keeps_updateWindow keeps_audit(2)]]
        keeps_trans [OF keeps_updateWindow keeps_audit(2)])

lemma keeps_defineWindow: "keeps db (snd (defineWindow rq z s e c db))"
proof (cases "andThen (requireOperations (rq_actor rq)) (\<lambda>_. andThen (assertUuid z) (\<lambda>_.
             assertWindowDefinition s e c (rq_now rq)))")
  case (Inl err)
  then show ?thesis unfolding defineWindow_def by simp
next
  case (Inr p)
  obtain s' e' c' where "p = (s', e', c')" by (cases p)
  with Inr show ?thesis by (auto simp: defineWindow_snd intro: keeps_run_tx keeps_windows)
qed

lemma keeps_createHold: "keeps db (snd (createHold digest rq q rawKey db))"
proof -
  have "keeps db (snd (run_tx (with_claim scope key print (\<lambda>db1.
           bindS (createHold_new rq scope key kind subject z qi qr s e db1)
             (\<lambda>response db2. Inr (Some response, db2)))) db))"
    for scope key print kind subject z qi qr s e
    by (rule keeps_with_claim) (auto intro: keeps_create)
  then show ?thesis
    by (auto simp: createHold_def Let_def case_prod_beta split: sum.splits option.splits if_splits)
qed

lemma keeps_command: "sched_command digest db db' \<Longrightarrow> keeps db db'"
proof (induction rule: sched_command.induct)
  case (commit db rq i r b key)
  show ?case by (auto simp: commitHold_def Let_def split: sum.splits intro: keeps_with_claim keeps_commit)
next
  case (release db rq i r reason key)
  show ?case
    by (auto simp: releaseHold_def Let_def case_prod_beta split: sum.splits
        intro: keeps_with_claim keeps_release)
next
  case (cancel db rq b i key)
  show ?case
    by (auto simp: releaseCommitment_def Let_def split: sum.splits intro: keeps_with_claim keeps_cancel)
next
  case (replace db rq b i j r key)
  show ?case
    by (auto simp: replaceCommitment_def Let_def split: sum.splits intro: keeps_with_claim keeps_replace)
next
  case (resize db rq i n v)
  show ?case
    by (auto simp: changeWindowCapacity_def split: sum.splits intro: keeps_run_tx keeps_windows)
next
  case (close_window db rq i v)
  show ?case
    by (auto simp: closeWindow_command_def split: sum.splits intro: keeps_run_tx keeps_windows)
next
  case (override db rq i)
  show ?case by (auto simp: overrideRelease_def split: sum.splits intro: keeps_run_tx keeps_override)
qed (auto intro: keeps_createHold keeps_defineWindow keeps_run_tx keeps_expireDue_tx)

lemma keeps_commands: "(sched_command digest)\<^sup>*\<^sup>* db db' \<Longrightarrow> keeps db db'"
  by (induction rule: rtranclp_induct) (auto intro: keeps_trans keeps_command)

text \<open>Every record of a reachable database is completed exactly when it has a response.\<close>

lemma purge_rows_subset: "set (fst (purge_rows retention m t rows)) \<subseteq> set rows"
  by (induction retention m t rows rule: purge_rows.induct) (auto simp: Let_def case_prod_beta)

interpretation idem: transition_system sched_init "sched_step digest" idem_ok for digest
proof unfold_locales
  show "idem_ok db'" if "idem_ok db" "sched_step digest db db'" for db db'
    using that(2,1)
  proof cases
    case command
    with that(1) show ?thesis by (auto simp: keeps_def dest: keeps_command)
  next
    case (purge retention m t)
    with that(1) purge_rows_subset [of retention m t "db_idem db"] show ?thesis
      by (auto simp: idem_ok_def purgeIdempotency_def Let_def case_prod_beta)
  qed
qed (simp add: sched_init_def idem_ok_def)

section \<open>Answering again\<close>

lemma finish_run_Inr: "finish_run r = (Inr resp, db) \<longleftrightarrow> r = (Inr (Some resp), db)"
proof -
  have "settleExpiry x = Inr resp \<longleftrightarrow> x = Some resp" for x by (cases x) auto
  then show ?thesis by (cases r) (auto simp: finish_run_def)
qed

lemma came_from_known:
  assumes "knownHold i db = Inr h" and "came_from db db'"
  obtains h' where "knownHold i db' = Inr h'"
proof -
  have "i \<in> h_id ` set (db_holds db')"
    using assms lockedHold_Inr [of i db h] by (auto simp: knownHold_Inr came_from_def)
  then show thesis
    using that by (cases "find_row h_id i (db_holds db')") (auto simp: knownHold_def find_row_None)
qed

lemma keeps_known:
  assumes "knownHold i db = Inr h" and "keeps db db'"
  obtains h' where "knownHold i db' = Inr h'"
  using assms(2) by (auto simp: keeps_def intro: came_from_known [OF assms(1)] that)

section \<open>The retention job\<close>

text \<open>
  The retention job deletes completed records. A record completed at \<open>t\<close> outlives every run of it
  at a database time \<open>dbNow\<close> with \<open>dbNow - retention \<le> t\<close>. \<open>retained_step\<close> is a step of the
  system in which no such run has come yet.
\<close>

inductive retained_step :: "digest \<Rightarrow> instant \<Rightarrow> sched_db \<Rightarrow> sched_db \<Rightarrow> bool" for digest t where
  command: "sched_command digest db db' \<Longrightarrow> retained_step digest t db db'"
| purge: "dbNow - retention \<le> t \<Longrightarrow>
    retained_step digest t db (snd (purgeIdempotency retention m dbNow db))"

lemma purge_rows_find:
  "find P rows = Some r \<Longrightarrow> i_completedAt r = Some t \<Longrightarrow> dbNow - retention \<le> t \<Longrightarrow>
   find P (fst (purge_rows retention m dbNow rows)) = Some r"
  by (induction retention m dbNow rows rule: purge_rows.induct)
    (auto simp: Let_def case_prod_beta split: if_splits)

lemma purge_answered:
  "answered_at t scope key print resp db \<Longrightarrow> dbNow - retention \<le> t \<Longrightarrow>
   answered_at t scope key print resp (snd (purgeIdempotency retention m dbNow db))"
  by (auto simp: answered_at_def purgeIdempotency_def Let_def case_prod_beta dest: purge_rows_find)

lemma came_from_purge: "came_from db (snd (purgeIdempotency retention m dbNow db))"
  by (auto simp: purgeIdempotency_def came_from_def Let_def case_prod_beta)

lemma came_from_step: "sched_step digest db db' \<Longrightarrow> came_from db db'"
  by (auto elim!: sched_stepE dest: keeps_command intro: came_from_purge simp: keeps_def)

lemma came_from_steps: "(sched_step digest)\<^sup>*\<^sup>* db db' \<Longrightarrow> came_from db db'"
  by (induction rule: rtranclp_induct) (auto intro: came_from_trans came_from_step)

lemma retained_answer:
  assumes "(retained_step digest t)\<^sup>*\<^sup>* db db'" and "answered_at t scope key print resp db"
  shows "answered_at t scope key print resp db' \<and> came_from db db'"
  using assms
proof (induction rule: rtranclp_induct)
  case (step db1 db2)
  from step.hyps(2) have "answered_at t scope key print resp db1 \<longrightarrow> answered_at t scope key print resp db2"
    "came_from db1 db2"
    by (auto elim!: retained_step.cases dest: keeps_command intro: purge_answered came_from_purge
        simp: keeps_def)
  with step show ?case by (blast intro: came_from_trans)
qed simp

section \<open>The sweep and the other commands\<close>

text \<open>A sweep is a sequence of steps of the system, whatever runs between its units of work.\<close>

lemma expireDue_loop_steps:
  assumes "\<forall>n db. (sched_step digest)\<^sup>*\<^sup>* db (sw_meanwhile (envs n) db)"
  shows "(sched_step digest)\<^sup>*\<^sup>* db (snd (expireDue_loop envs now n is windows units db))"
proof (induction "is" arbitrary: n windows units db)
  case (Cons i "is")
  let ?db = "sw_meanwhile (envs n) db"
  let ?run = "run_tx (expireDue_tx ((sw_request (envs n))\<lparr>rq_now := now\<rparr>) (sw_busy (envs n)) i) ?db"
  have "sched_step digest ?db (snd ?run)" by (intro sched_step.command sched_command.sweep)
  with assms have run: "(sched_step digest)\<^sup>*\<^sup>* db (snd ?run)" by (meson rtranclp.rtrancl_into_rtrancl)
  show ?case
  proof (cases "fst ?run")
    case (Inl e)
    with run show ?thesis by (cases ?run) simp
  next
    case (Inr freed)
    with rtranclp_trans [OF run Cons.IH] show ?thesis by (cases ?run) simp
  qed
qed simp

lemma expireDue_steps:
  assumes "\<forall>n db. (sched_step digest)\<^sup>*\<^sup>* db (sw_meanwhile (envs n) db)"
  shows "(sched_step digest)\<^sup>*\<^sup>* db (snd (expireDue envs now limit db))"
  unfolding expireDue_def by (rule expireDue_loop_steps [OF assms])

end
