(* ===== verification/Sched_Liveness.thy ===== *)
theory Sched_Liveness
  imports Sched_Idempotency
begin

text \<open>
  Scheduling, the commands answer: on a database that satisfies the invariant, with a fresh key
  and UUIDs from the generator, the writes of a command that its guards admit all succeed.
\<close>

section \<open>The claim\<close>

definition fresh_key :: "string \<Rightarrow> string \<Rightarrow> sched_db \<Rightarrow> bool" where
  "fresh_key scope key db \<longleftrightarrow> find (idem_hit scope key) (db_idem db) = None"

definition claim_row :: "string \<Rightarrow> string \<Rightarrow> string \<Rightarrow> idempotency_row" where
  "claim_row scope key print = \<lparr>i_scope = scope, i_key = key, i_fingerprint = print,
     i_response = None, i_completedAt = None\<rparr>"

definition claim_db :: "string \<Rightarrow> string \<Rightarrow> string \<Rightarrow> sched_db \<Rightarrow> sched_db" where
  "claim_db scope key print db = db\<lparr>db_idem := claim_row scope key print # db_idem db\<rparr>"

lemma with_claim_fresh:
  "fresh_key scope key db \<Longrightarrow>
   with_claim scope key print body db = body (claim_db scope key print db)"
  by (simp add: fresh_key_def with_claim_def claimIdempotency_def claim_db_def claim_row_def)

lemma fresh_no_hit: "fresh_key scope key db \<Longrightarrow> r \<in> set (db_idem db) \<Longrightarrow> \<not> idem_hit scope key r"
  by (auto simp: fresh_key_def find_None_iff)

lemma complete_total:
  assumes "fresh_key scope key db" and "db_idem db4 = db_idem (claim_db scope key print db)"
  shows "completeIdempotency scope key resp t db4 =
    Inr (db4\<lparr>db_idem := (claim_row scope key print)\<lparr>i_response := Some resp, i_completedAt := Some t\<rparr>
              # db_idem db\<rparr>)"
proof -
  let ?hit = "\<lambda>r. idem_hit scope key r \<and> i_completedAt r = None"
  have hit: "?hit (claim_row scope key print)" by (simp add: claim_row_def idem_hit_def)
  have no: "filter ?hit (db_idem db) = []"
    using fresh_no_hit [OF assms(1)] by (auto simp: filter_empty_conv)
  have "update_rows ?hit f (db_idem db) = db_idem db" for f
    unfolding update_rows_def using fresh_no_hit [OF assms(1)] by (intro map_idI) auto
  then show ?thesis
    using hit no assms(2)
    by (simp add: completeIdempotency_def claim_db_def Let_def update_rows_def)
qed

lemma abandon_claim:
  assumes "fresh_key scope key db" and "db_idem db4 = db_idem (claim_db scope key print db)"
  shows "db_idem (abandonIdempotency scope key db4) = db_idem db"
proof -
  have "filter (\<lambda>r. \<not> (idem_hit scope key r \<and> i_completedAt r = None)) (db_idem db) = db_idem db"
    using fresh_no_hit [OF assms(1)] by (auto simp: filter_id_conv)
  then show ?thesis
    using assms(2) by (simp add: abandonIdempotency_def claim_db_def claim_row_def idem_hit_def)
qed

section \<open>The writes\<close>

lemma updateWindow_total:
  assumes d: "distinct (map w_id (db_windows db))" and r: "r \<in> set (db_windows db)"
    and same: "same_window r w"
  shows "updateWindow w (w_version r) db =
         Inr (with_window (w\<lparr>w_version := max (w_version w) (w_version r + 1)\<rparr>) db)"
proof -
  have id: "w_id w = w_id r" using same by (simp add: same_window_def)
  have "filter (\<lambda>x. w_id x = w_id w \<and> w_version x = w_version r) (db_windows db) =
        filter (\<lambda>x. r = x) (db_windows db)"
    using d r id by (intro filter_cong) (auto dest: distinct_key_eq)
  then have "length (filter (\<lambda>x. w_id x = w_id w \<and> w_version x = w_version r) (db_windows db)) = 1"
    using d r by (simp add: filter_the_one distinct_map)
  then obtain db' where up: "updateWindow w (w_version r) db = Inr db'"
    by (simp add: updateWindow_def Let_def)
  with updateWindow_row(2) [OF up d r same] show ?thesis by simp
qed

lemma changed_total:
  assumes "\<forall>n. isUuid (rq_ids rq n)" and "isUuid (rq_correlationId rq)"
    and "isUuid (h_id h)" and "isUuid (h_zoneId h)"
  obtains ev where "changed rq k h db = Inr (db\<lparr>db_outbox := db_outbox db @ [ev]\<rparr>)"
    "ev_aggregateId ev = h_id h" "ev_aggregateVersion ev = h_version h"
    "ev_state ev = v1State (h_status h)"
    "ev_bookingId ev = (if h_status h = CONFIRMED then h_bookingId h else None)"
proof -
  have "v1State (h_status h) = COMMITTED_v1 \<longleftrightarrow> h_status h = CONFIRMED" by (cases "h_status h") auto
  with assms that show thesis
    by (auto simp: changed_def emit_def holdChangedEvent_def uuid_def appendEvent_def Let_def)
qed

text \<open>The ids and the correlation id the service generates are UUIDs.\<close>

definition ids_ok :: "request \<Rightarrow> bool" where
  "ids_ok rq \<longleftrightarrow> (\<forall>n. isUuid (rq_ids rq n)) \<and> isUuid (rq_correlationId rq)"

lemma expireAndAbandon_total:
  assumes inv: "sched_inv db" and w: "w \<in> set (db_windows db)" and ids: "ids_ok rq"
    and key: "fresh_key scope key db"
  obtains db' where "expireAndAbandon rq w scope key (claim_db scope key print db) = Inr (None, db')"
    "db_idem db' = db_idem db" "sched_inv db'"
    "db_holds db' = map (\<lambda>r. if h_windowId r = w_id w \<and> isDue r (rq_now rq)
                              then expired_at (rq_now rq) r else r) (db_holds db)"
    "db_legacy db' = db_legacy (snd (expireLegacyDueHolds (w_id w) (rq_now rq) db))"
proof -
  let ?db = "claim_db scope key print db"
  have inv': "sched_inv ?db" and w': "w \<in> set (db_windows ?db)" using inv w by (simp_all add: claim_db_def)
  obtain w1 k db1 where ex: "expireDueHoldsOf rq (rq_now rq) w ?db = Inr ((w1, k), db1)"
    and d: "expiry_done (rq_now rq) w ?db w1 db1"
    using expireDueHoldsOf_total [OF inv' w', of rq "rq_now rq"] ids by (auto simp: ids_ok_def)
  have up: "updateWindow w1 (w_version w) db1 =
        Inr (with_window (w1\<lparr>w_version := max (w_version w1) (w_version w + 1)\<rparr>) db1)"
    using d w' inv' by (intro updateWindow_total) (auto simp: expiry_done_def sched_inv_defs)
  then have run: "expireAndAbandon rq w scope key ?db = Inr (None, abandonIdempotency scope key
      (with_window (w1\<lparr>w_version := max (w_version w1) (w_version w + 1)\<rparr>) db1))"
    using ex by (simp add: expireAndAbandon_def)
  show thesis
  proof (rule that [OF run])
    show "sched_inv (abandonIdempotency scope key
            (with_window (w1\<lparr>w_version := max (w_version w1) (w_version w + 1)\<rparr>) db1))"
      using expireAndAbandon_inv [OF inv' w' run] .
    show "db_idem (abandonIdempotency scope key
            (with_window (w1\<lparr>w_version := max (w_version w1) (w_version w + 1)\<rparr>) db1)) = db_idem db"
      by (rule abandon_claim [OF key]) (use d in \<open>simp add: expiry_done_def with_window_def\<close>)
  qed (use d in \<open>simp_all add: expiry_done_def abandonIdempotency_def claim_db_def
        expireLegacyDueHolds_def\<close>)
qed

text \<open>An expired hold no longer counts.\<close>

lemma expiry_frees:
  assumes ok: "holds_ok db" and h: "h \<in> set (db_holds db)" "isDue h now"
    and holds: "db_holds db' = map (\<lambda>r. if h_windowId r = h_windowId h \<and> isDue r now
                                        then expired_at now r else r) (db_holds db)"
    and leg: "db_legacy db' = db_legacy (snd (expireLegacyDueHolds (h_windowId h) now db))"
  shows "active_units db' (h_windowId h) < active_units db (h_windowId h)"
proof -
  let ?P = "\<lambda>r. h_windowId r = h_windowId h \<and> h_status r = ACTIVE" and ?D = "\<lambda>r. isDue r now"
  let ?L = "\<lambda>l. l_windowId l = h_windowId h \<and> l_status l = ACTIVE"
  let ?f = "\<lambda>r. if h_windowId r = h_windowId h \<and> isDue r now then expired_at now r else r"
  have u: "\<forall>r \<in> set (db_holds db). h_units r = 1" using ok by (simp add: holds_ok_def wf_hold_def)
  have "sum_rows h_units ?P (map ?f rows) = sum_rows h_units (\<lambda>r. ?P r \<and> \<not> ?D r) rows" for rows
    by (induction rows) auto
  moreover have "1 \<le> sum_rows h_units (\<lambda>r. ?P r \<and> ?D r) (db_holds db)"
    using sum_rows_member_le [of h "db_holds db" "\<lambda>r. ?P r \<and> ?D r" h_units] h u by (auto simp: isDue_def)
  moreover have "sum_rows l_units ?L (db_legacy db') \<le> sum_rows l_units ?L (db_legacy db)"
    using ok unfolding leg
    by (auto simp: expireLegacyDueHolds_def sum_rows_update_out holds_ok_def intro!: sum_rows_mono)
  ultimately show ?thesis
    using sum_rows_filter_split [of h_units ?P "db_holds db" ?D]
    by (simp add: active_units_def holds)
qed

text \<open>
  A live hold whose booking has no other commitment commits, with its writes spelled out.
\<close>

definition committed_as :: "string \<Rightarrow> instant \<Rightarrow> hold \<Rightarrow> hold" where
  "committed_as b now h = h\<lparr>h_status := CONFIRMED, h_bookingId := Some b, h_updatedAt := now,
                           h_version := h_version h + 1\<rparr>"

lemma committed_bookings_Cons:
  "committed_bookings (x # rows) =
     (if h_status x = CONFIRMED \<and> h_bookingId x \<noteq> None then h_bookingId x # committed_bookings rows
      else committed_bookings rows)"
  by (simp add: committed_bookings_def)

lemma committed_bookings_replace:
  assumes "distinct (map h_id rows)" and "distinct (committed_bookings rows)" and "h \<in> set rows"
    and "h_status h \<noteq> CONFIRMED" and "h_bookingId h' = Some b"
    and "\<forall>x \<in> set rows. h_status x = CONFIRMED \<longrightarrow> h_bookingId x \<noteq> Some b"
  shows "distinct (committed_bookings (map (\<lambda>r. if r = h then h' else r) rows))"
  using assms
proof (induction rows)
  case (Cons x rows)
  have sub: "set (committed_bookings (map (\<lambda>r. if r = h then h' else r) ys)) \<subseteq>
             insert (Some b) (set (committed_bookings ys))" for ys
    using Cons.prems(5) by (auto simp: committed_bookings_def)
  have no: "Some b \<notin> set (committed_bookings rows)"
    using Cons.prems(6) by (auto simp: committed_bookings_def)
  show ?case
  proof (cases "x = h")
    case True
    then have "map (\<lambda>r. if r = h then h' else r) rows = rows"
      using Cons.prems(1) by (intro map_idI) auto
    with True Cons.prems no show ?thesis by (auto simp: committed_bookings_def)
  next
    case False
    with Cons have "distinct (committed_bookings (map (\<lambda>r. if r = h then h' else r) rows))"
      by (auto simp: committed_bookings_Cons split: if_splits)
    with False Cons.prems sub [of rows] show ?thesis
      by (auto simp: committed_bookings_Cons split: if_splits)
  qed
qed simp

text \<open>A hold, its window, and the counter that has its unit.\<close>

lemma hold_rows:
  assumes inv: "sched_inv db" and h: "h \<in> set (db_holds db)"
  obtains w where "w \<in> set (db_windows db)" "hold_fits w h"
    "lockedWindow (h_windowId h) db = Inr w" "lockedHold (h_id h) db = Inr h"
    "isUuid (h_id h)" "isUuid (h_zoneId h)" "h_units h = 1"
    "h_status h = ACTIVE \<longrightarrow> 1 \<le> w_held w" "h_status h = CONFIRMED \<longrightarrow> 1 \<le> w_reserved w"
proof -
  have ok: "holds_ok db" "distinct (map h_id (db_holds db))" "distinct (map w_id (db_windows db))"
    using inv by (auto simp: sched_inv_defs)
  obtain w where w: "w \<in> set (db_windows db)" "hold_fits w h" using ok h by (auto simp: holds_ok_def)
  have u: "h_units h = 1" "isUuid (h_id h)" using ok h by (auto simp: holds_ok_def wf_hold_def)
  have wid: "h_windowId h = w_id w" "h_zoneId h = w_zoneId w" using w(2) by (auto simp: hold_fits_def)
  note counters = in_hand_window(3,4) [OF in_hand_start [OF inv w(1)]]
  have "h_units h \<le> active_units db (w_id w)" if "h_status h = ACTIVE"
    unfolding active_units_def using ok h that wid
    by (intro add_increasing2 sum_rows_nonneg sum_rows_member_le) (auto simp: holds_ok_def wf_hold_def)
  moreover have "h_units h \<le> reserved_units db (w_id w)" if "h_status h = CONFIRMED"
    unfolding reserved_units_def using ok h that wid
    by (intro add_increasing2 sum_rows_nonneg sum_rows_member_le) (auto simp: holds_ok_def wf_hold_def)
  moreover have "lockedWindow (h_windowId h) db = Inr w" "lockedHold (h_id h) db = Inr h"
    using find_row_distinct [OF ok(3) w(1)] find_row_distinct [OF ok(2) h] wid(1)
    by (simp_all add: lockedWindow_def lockWindow_def lockedHold_def lockHold_def)
  moreover have "isUuid (h_zoneId h)" using inv w wid by (auto simp: sched_inv_defs)
  ultimately show thesis using that w u counters by simp
qed

lemma claim_db_simps [simp]:
  "db_holds (claim_db s k p db) = db_holds db" "db_windows (claim_db s k p db) = db_windows db"
  "db_outbox (claim_db s k p db) = db_outbox db" "db_legacy (claim_db s k p db) = db_legacy db"
  "sched_inv (claim_db s k p db) = sched_inv db"
  "lockedWindow i (claim_db s k p db) = lockedWindow i db"
  "lockedHold i (claim_db s k p db) = lockedHold i db"
  by (simp_all add: claim_db_def)

lemma commitHold_tx_total:
  assumes inv: "sched_inv db" and h: "h \<in> set (db_holds db)" and ids: "ids_ok rq"
    and key: "fresh_key scope key db"
    and live: "h_status h = ACTIVE" "rq_now rq < h_expiresAt h"
    and free: "\<forall>x \<in> set (db_holds db). h_status x = CONFIRMED \<longrightarrow> h_bookingId x \<noteq> Some b"
  obtains w ev db' where "w \<in> set (db_windows db)" "w_id w = h_windowId h"
    "commitHold_tx rq scope key (h_windowId h) (h_id h) b (h_version h) (claim_db scope key print db) =
       Inr (Some \<lparr>r_status = 200, r_body = HoldBody (holdView (committed_as b (rq_now rq) h))\<rparr>, db')"
    "db_holds db' = map (\<lambda>r. if r = h then committed_as b (rq_now rq) h else r) (db_holds db)"
    "db_windows db' = db_windows (with_window
       (w\<lparr>w_held := w_held w - 1, w_reserved := w_reserved w + 1, w_version := w_version w + 1\<rparr>) db)"
    "db_outbox db' = db_outbox db @ [ev]" "ev_aggregateId ev = h_id h"
    "ev_state ev = COMMITTED_v1" "ev_bookingId ev = Some b"
proof -
  let ?db = "claim_db scope key print db" and ?h = "committed_as b (rq_now rq) h"
  have ok: "holds_ok db" "distinct (map h_id (db_holds db))" "distinct (map w_id (db_windows db))"
    using inv by (auto simp: sched_inv_defs)
  obtain w where w: "w \<in> set (db_windows db)" "hold_fits w h" and
    lw: "lockedWindow (h_windowId h) db = Inr w" "lockedHold (h_id h) db = Inr h" and
    u: "isUuid (h_id h)" "isUuid (h_zoneId h)" "h_units h = 1" and held: "h_status h = ACTIVE \<longrightarrow> 1 \<le> w_held w"
    by (rule hold_rows [OF inv h])
  have same: "same_hold h ?h" by (simp add: same_hold_def committed_as_def)
  have "\<exists>db1. updateHold ?h (h_version h) ?db = Inr db1"
    using committed_bookings_replace [OF ok(2) _ h _ _ free, of ?h] ok(1) live same
    by (intro updateHold_total) (auto simp: claim_db_def ok h holds_ok_def committed_as_def)
  then obtain db1 where up: "updateHold ?h (h_version h) ?db = Inr db1" ..
  have db1: "db1 = ?db\<lparr>db_holds := map (\<lambda>r. if r = h then ?h else r) (db_holds db)\<rparr>"
    using updateHold_map [OF up _ _ same] ok h by simp
  define w' where "w' = w\<lparr>w_held := w_held w - 1, w_reserved := w_reserved w + 1, w_version := w_version w + 1\<rparr>"
  have cv: "convertHeldToReserved w (h_units h) = Inr w'" using held live u by (simp add: convertHeldToReserved_def w'_def)
  have uw: "updateWindow w' (w_version w) db1 = Inr (with_window w' db1)"
    using updateWindow_total [of db1 w w'] ok w by (simp add: db1 claim_db_def w'_def same_window_def)
  obtain ev where ev: "changed rq 0 ?h (with_window w' db1) =
        Inr ((with_window w' db1)\<lparr>db_outbox := db_outbox (with_window w' db1) @ [ev]\<rparr>)"
    "ev_aggregateId ev = h_id ?h" "ev_state ev = v1State (h_status ?h)"
    "ev_bookingId ev = (if h_status ?h = CONFIRMED then h_bookingId ?h else None)"
    using changed_total [of rq ?h 0 "with_window w' db1"] ids u
    by (auto simp: ids_ok_def committed_as_def)
  have c: "commit h b (h_version h) (rq_now rq) = Inr (?h, False)"
    using live by (simp add: commit_Inr committed_as_def)
  have nd: "\<not> isDue h (rq_now rq)" using live by (simp add: isDue_def)
  let ?resp = "\<lparr>r_status = 200, r_body = HoldBody (holdView ?h)\<rparr>"
  let ?db4 = "audit_hold rq ''hold.committed'' (h_id h)
      [(''windowId'', DString (w_id w)), (''bookingId'', DString b)]
      ((with_window w' db1)\<lparr>db_outbox := db_outbox (with_window w' db1) @ [ev]\<rparr>)"
  have "db_idem ?db4 = db_idem ?db" by (simp add: with_window_def db1)
  note fin = complete_total [OF key this, of ?resp "rq_dbNow rq"]
  have run: "commitHold_tx rq scope key (h_windowId h) (h_id h) b (h_version h) ?db =
      Inr (Some ?resp, ?db4\<lparr>db_idem := (claim_row scope key print)\<lparr>i_response := Some ?resp,
                                i_completedAt := Some (rq_dbNow rq)\<rparr> # db_idem db\<rparr>)"
    using lw nd c up cv uw ev(1) fin by (simp add: commitHold_tx_def Let_def)
  show thesis
    by (rule that [OF w(1) _ run])
      (use w(2) ev in \<open>simp_all add: db1 w'_def with_window_def hold_fits_def
        audit_hold_def appendAudit_def committed_as_def\<close>)
qed

section \<open>A new hold\<close>

text \<open>The units of a window that are taken at an instant: live holds and commitments.\<close>

definition taken_units :: "sched_db \<Rightarrow> string \<Rightarrow> instant \<Rightarrow> int" where
  "taken_units db i now =
     sum_rows h_units (\<lambda>h. h_windowId h = i \<and> h_status h = ACTIVE \<and> now < h_expiresAt h) (db_holds db) +
     sum_rows l_units (\<lambda>l. l_windowId l = i \<and> l_status l = ACTIVE \<and> now < l_expiresAt l) (db_legacy db) +
     reserved_units db i"

lemma expiry_done_ids:
  assumes "expiry_done now w db w' db'"
  shows "h_id ` set (db_holds db') = h_id ` set (db_holds db)"
    and "l_id ` set (db_legacy db') = l_id ` set (db_legacy db)"
proof -
  have "map h_id (db_holds db') = map h_id (db_holds db)" "map l_id (db_legacy db') = map l_id (db_legacy db)"
    using assms by (auto simp: expiry_done_def expireLegacyDueHolds_def)
  then show "h_id ` set (db_holds db') = h_id ` set (db_holds db)"
    "l_id ` set (db_legacy db') = l_id ` set (db_legacy db)" by (metis list.set_map)+
qed

lemma expiry_done_held:
  assumes d: "expiry_done now w db w' db'" and inv: "sched_inv db" and w: "w \<in> set (db_windows db)"
  shows "w_held w' + w_reserved w' = taken_units db (w_id w) now"
proof -
  let ?f = "\<lambda>r. if h_windowId r = w_id w \<and> isDue r now then expired_at now r else r"
  have h: "db_holds db' = map ?f (db_holds db)" and l: "db_legacy db' = db_legacy (snd (expireLegacyDueHolds (w_id w) now db))"
    and hand: "in_hand w' db'" and id: "w_id w' = w_id w" and res: "w_reserved w' = w_reserved w"
    using d by (auto simp: expiry_done_def same_window_def)
  have "sum_rows h_units (\<lambda>h. h_windowId h = w_id w \<and> h_status h = ACTIVE) (map ?f rows) =
        sum_rows h_units (\<lambda>h. h_windowId h = w_id w \<and> h_status h = ACTIVE \<and> now < h_expiresAt h) rows" for rows
    by (induction rows) (auto simp: isDue_def)
  moreover have "sum_rows l_units (\<lambda>l. l_windowId l = w_id w \<and> l_status l = ACTIVE) (db_legacy db') =
        sum_rows l_units (\<lambda>l. l_windowId l = w_id w \<and> l_status l = ACTIVE \<and> now < l_expiresAt l) (db_legacy db)"
    by (auto simp: l expireLegacyDueHolds_def sum_rows_update_out legacy_due_def intro!: sum_rows_cong)
  ultimately show ?thesis
    using in_hand_window(3) [OF hand] id res in_hand_window(4) [OF in_hand_start [OF inv w]]
    by (simp add: taken_units_def active_units_def h)
qed

lemma createHold_new_total:
  assumes inv: "sched_inv db" and cov: "lockCoveringWindow z s e db = Some w"
    and slot: "w_status w = OPEN" "rq_now rq < s" "taken_units db (w_id w) (rq_now rq) < w_capacity w"
    and limit: "countActiveHolds kind subject (rq_now rq) db < maxActivePerBeneficiary"
    and ids: "ids_ok rq" "\<forall>n. rq_ids rq n \<notin> h_id ` set (db_holds db) \<union> l_id ` set (db_legacy db)"
    and key: "fresh_key scope key db"
  obtains k w' ev as db' where
    "createHold_new rq scope key kind subject z qi qr s e (claim_db scope key print db) =
       Inr (\<lparr>r_status = 201, r_body = HoldBody (holdView (new_hold rq (rq_ids rq k) kind subject w qi qr s e))\<rparr>, db')"
    "db_holds db' = new_hold rq (rq_ids rq k) kind subject w qi qr s e #
       map (\<lambda>r. if h_windowId r = w_id w \<and> isDue r (rq_now rq) then expired_at (rq_now rq) r else r) (db_holds db)"
    "db_windows db' = db_windows (with_window w' db)"
    "w' = w\<lparr>w_held := taken_units db (w_id w) (rq_now rq) - w_reserved w + 1, w_version := w_version w'\<rparr>"
    "w_version w < w_version w'"
    "db_legacy db' = db_legacy (snd (expireLegacyDueHolds (w_id w) (rq_now rq) db))"
    "expiry_records (lockDueHolds (w_id w) (rq_now rq) db) db
       (db'\<lparr>db_outbox := butlast (db_outbox db'), db_audit := butlast (db_audit db')\<rparr>)"
    "db_outbox db' = butlast (db_outbox db') @ [ev]" "ev_aggregateId ev = rq_ids rq k"
    "ev_aggregateVersion ev = 1" "ev_state ev = HELD_v1" "ev_bookingId ev = None"
    "db_audit db' = butlast (db_audit db') @ [as]" "a_action as = ''hold.created''"
    "a_targetId as = rq_ids rq k" "a_actor as = rq_actor rq"
    "db_idem db' = (claim_row scope key print)\<lparr>
       i_response := Some \<lparr>r_status = 201, r_body = HoldBody (holdView (new_hold rq (rq_ids rq k) kind subject w qi qr s e))\<rparr>,
       i_completedAt := Some (rq_dbNow rq)\<rparr> # db_idem db"
proof -
  let ?db = "claim_db scope key print db"
  note c = lockCoveringWindow_Some [OF cov]
  have inv': "sched_inv ?db" and w: "w \<in> set (db_windows ?db)" using inv c by simp_all
  obtain w1 k db1 where ex: "expireDueHoldsOf rq (rq_now rq) w ?db = Inr ((w1, k), db1)"
    and d: "expiry_done (rq_now rq) w ?db w1 db1"
    using expireDueHoldsOf_total [OF inv' w, of rq "rq_now rq"] ids by (auto simp: ids_ok_def)
  have taken: "taken_units ?db (w_id w) (rq_now rq) = taken_units db (w_id w) (rq_now rq)"
    by (simp add: taken_units_def claim_db_def)
  with expiry_done_held [OF d inv' w] slot(3) d have free: "1 \<le> freeUnits w1"
    by (simp add: freeUnits_def expiry_done_def)
  define w2 where "w2 = w1\<lparr>w_held := w_held w1 + 1, w_version := w_version w1 + 1\<rparr>"
  have hold: "holdUnits w1 1 (rq_now rq) s = Inr w2"
    using free slot d by (simp add: holdUnits_Inr w2_def expiry_done_def)
  define h where "h = new_hold rq (rq_ids rq k) kind subject w qi qr s e"
  have "h_id h = rq_ids rq k" "h_zoneId h = w_zoneId w" by (simp_all add: h_def new_hold_def)
  with expiry_done_ids [OF d] have ins: "insertHold h db1 = Inr (db1\<lparr>db_holds := h # db_holds db1\<rparr>)"
    and u: "isUuid (h_id h)" "isUuid (h_zoneId h)"
    using ids inv c by (auto simp: insertHold_def ids_ok_def sched_inv_defs)
  let ?db2 = "db1\<lparr>db_holds := h # db_holds db1\<rparr>"
  define w3 where "w3 = w2\<lparr>w_version := max (w_version w2) (w_version w + 1)\<rparr>"
  have up: "updateWindow w2 (w_version w) ?db2 = Inr (with_window w3 ?db2)"
    unfolding w3_def using d w inv'
    by (intro updateWindow_total) (auto simp: expiry_done_def sched_inv_defs w2_def same_window_def)
  let ?db3 = "with_window w3 ?db2"
  obtain ev where ev: "changed rq (Suc k) h ?db3 = Inr (?db3\<lparr>db_outbox := db_outbox ?db3 @ [ev]\<rparr>)"
    "ev_aggregateId ev = h_id h" "ev_aggregateVersion ev = h_version h" "ev_state ev = v1State (h_status h)"
    "ev_bookingId ev = (if h_status h = CONFIRMED then h_bookingId h else None)"
    using changed_total [of rq h "Suc k" ?db3] ids(1) u by (auto simp: ids_ok_def)
  let ?resp = "\<lparr>r_status = 201, r_body = HoldBody (holdView h)\<rparr>"
  let ?details = "[(''windowId'', DString (w_id w)), (''quoteId'', DString (h_quoteId h))]"
  let ?db4 = "audit_hold rq ''hold.created'' (h_id h) ?details (?db3\<lparr>db_outbox := db_outbox ?db3 @ [ev]\<rparr>)"
  have "db_idem ?db4 = db_idem ?db" using d by (simp add: expiry_done_def with_window_def)
  note fin = complete_total [OF key this, of ?resp "rq_dbNow rq"]
  let ?db' = "?db4\<lparr>db_idem := (claim_row scope key print)\<lparr>i_response := Some ?resp,
             i_completedAt := Some (rq_dbNow rq)\<rparr> # db_idem db\<rparr>"
  have run: "createHold_new rq scope key kind subject z qi qr s e ?db = Inr (?resp, ?db')"
    using limit cov ex hold ins up ev(1) fin
    by (simp add: createHold_new_def countActiveHolds_def lockCoveringWindow_def Let_def flip: h_def)
  have "w_held w1 = taken_units db (w_id w) (rq_now rq) - w_reserved w"
    using expiry_done_held [OF d inv' w] taken d by (simp add: expiry_done_def)
  then have w3: "w3 = w\<lparr>w_held := taken_units db (w_id w) (rq_now rq) - w_reserved w + 1, w_version := w_version w3\<rparr>"
    using d by (cases w; cases w1) (simp add: w3_def w2_def expiry_done_def same_window_def)
  have recs: "expiry_records (lockDueHolds (w_id w) (rq_now rq) db) db
       (?db'\<lparr>db_outbox := butlast (db_outbox ?db'), db_audit := butlast (db_audit ?db')\<rparr>)"
    using expireDueHoldsOf_records [OF ex]
    by (simp add: expiry_records_def lockDueHolds_def claim_db_def audit_hold_def appendAudit_def with_window_def)
  have st: "h_status h = ACTIVE" "h_version h = 1" "h_id h = rq_ids rq k" by (simp_all add: h_def new_hold_def)
  have id: "w_id w3 = w_id w" using d by (simp add: w3_def w2_def expiry_done_def same_window_def)
  show thesis
    by (rule that [OF run [unfolded h_def] _ _ w3 _ _ recs [unfolded h_def],
          where ev = ev and as = "\<lparr>a_action = ''hold.created'', a_actor = rq_actor rq,
            a_targetType = ''CAPACITY_HOLD'', a_targetId = h_id h,
            a_correlationId = rq_correlationId rq, a_details = ?details\<rparr>"])
      (use d ev st in \<open>simp_all add: h_def [symmetric] audit_hold_def appendAudit_def expiry_done_def
        with_window_def expireLegacyDueHolds_def w3_def\<close>)
qed

section \<open>The sweep\<close>

text \<open>The windows with something due.\<close>

definition due_windows :: "instant \<Rightarrow> sched_db \<Rightarrow> string set" where
  "due_windows now db =
     {h_windowId h |h. h \<in> set (db_holds db) \<and> isDue h now} \<union>
     {l_windowId l |l. l \<in> set (db_legacy db) \<and> legacy_due (l_windowId l) now l}"

lemma expiry_done_due_windows:
  assumes "expiry_done now w db w' db'"
  shows "due_windows now db' \<subseteq> due_windows now db - {w_id w}"
proof -
  have "h \<in> set (db_holds db) \<and> h_windowId h \<noteq> w_id w" if "h \<in> set (db_holds db')" "isDue h now" for h
    using assms that by (auto simp: expiry_done_def isDue_def split: if_splits)
  moreover have "l \<in> set (db_legacy db) \<and> l_windowId l \<noteq> w_id w"
    if l: "l \<in> set (db_legacy db')" "legacy_due (l_windowId l) now l" for l
  proof -
    from assms l(1) obtain r where r: "r \<in> set (db_legacy db)"
      "l = (if legacy_due (w_id w) now r
            then r\<lparr>l_status := EXPIRED, l_version := l_version r + 1, l_updatedAt := now\<rparr> else r)"
      by (auto simp: expiry_done_def expireLegacyDueHolds_def set_update_rows)
    with l(2) show ?thesis by (cases "legacy_due (w_id w) now r") (auto simp: legacy_due_def)
  qed
  ultimately show ?thesis by (auto simp: due_windows_def)
qed

lemma due_windows_exist: "sched_inv db \<Longrightarrow> due_windows now db \<subseteq> w_id ` set (db_windows db)"
  by (auto simp: due_windows_def sched_inv_defs hold_fits_def image_iff)

lemma due_windows_frame [simp]: "due_windows now (with_window w db) = due_windows now db"
  by (simp add: due_windows_def)

text \<open>A unit of work of the sweep: a window that is not busy has nothing due afterwards.\<close>

lemma expireDue_tx_total:
  assumes inv: "sched_inv db" and ids: "ids_ok rq"
  obtains n db' where "expireDue_tx rq busy i db = Inr (n, db')" "sched_inv db'"
    "due_windows (rq_now rq) db' \<subseteq> due_windows (rq_now rq) db - {j. j = i \<and> \<not> busy i}"
proof (cases "lockWindow (Some busy) i db")
  case None
  then have "busy i \<or> i \<notin> due_windows (rq_now rq) db"
    using due_windows_exist [OF inv, of "rq_now rq"]
    by (auto simp: lockWindow_def find_row_None split: if_splits)
  with None inv that [of 0 db] show thesis by (auto simp: expireDue_tx_def)
next
  case (Some w)
  then have w: "w \<in> set (db_windows db)" "w_id w = i" by (auto dest: lockWindow_Some)
  obtain w1 k db1 where ex: "expireDueHoldsOf rq (rq_now rq) w db = Inr ((w1, k), db1)"
    and d: "expiry_done (rq_now rq) w db w1 db1"
    using expireDueHoldsOf_total [OF inv w(1), of rq "rq_now rq"] ids by (auto simp: ids_ok_def)
  have up: "updateWindow w1 (w_version w) db1 =
        Inr (with_window (w1\<lparr>w_version := max (w_version w1) (w_version w + 1)\<rparr>) db1)"
    using d w inv by (intro updateWindow_total) (auto simp: expiry_done_def sched_inv_defs)
  let ?db' = "if w_held w = w_held w1 then db1
              else with_window (w1\<lparr>w_version := max (w_version w1) (w_version w + 1)\<rparr>) db1"
  have run: "expireDue_tx rq busy i db = Inr (w_held w - w_held w1, ?db')"
    using Some ex up by (simp add: expireDue_tx_def Let_def)
  show thesis
    by (rule that [OF run expireDue_tx_inv [OF inv run]])
      (use d w(2) expiry_done_due_windows [OF d] in \<open>auto simp: expiry_done_def\<close>)
qed

text \<open>
  What other transactions commit while a sweep runs: steps of the system, and the holds they create
  expire after the sweep's instant.
\<close>

definition sweep_rely :: "digest \<Rightarrow> instant \<Rightarrow> (nat \<Rightarrow> sweep_env) \<Rightarrow> bool" where
  "sweep_rely digest now envs \<longleftrightarrow>
     (\<forall>n. ids_ok (sw_request (envs n)) \<and>
        (\<forall>db. (sched_step digest)\<^sup>*\<^sup>* db (sw_meanwhile (envs n) db) \<and>
           (\<forall>h \<in> set (db_holds (sw_meanwhile (envs n) db)).
              h_id h \<notin> h_id ` set (db_holds db) \<longrightarrow> now < h_expiresAt h)))"

lemma meanwhile_due:
  assumes "sweep_rely digest now envs"
  shows "due_windows now (sw_meanwhile (envs n) db) \<subseteq> due_windows now db"
proof -
  let ?db = "sw_meanwhile (envs n) db"
  have "(sched_step digest)\<^sup>*\<^sup>* db ?db" using assms by (simp add: sweep_rely_def)
  then have c: "came_from db ?db" by (rule came_from_steps)
  have "h \<in> set (db_holds db)" if "h \<in> set (db_holds ?db)" "isDue h now" for h
    using that c assms by (force simp: sweep_rely_def came_from_def isDue_def)
  moreover have "l \<in> set (db_legacy db)"
    if "l \<in> set (db_legacy ?db)" "legacy_due (l_windowId l) now l" for l
    using that c by (auto simp: came_from_def legacy_due_def)
  ultimately show ?thesis by (auto simp: due_windows_def)
qed

lemma meanwhile_inv:
  assumes "sweep_rely digest now envs" and "sched_inv db"
  shows "sched_inv (sw_meanwhile (envs n) db)"
proof -
  have "(sched_step digest)\<^sup>*\<^sup>* db (sw_meanwhile (envs n) db)" using assms(1) by (simp add: sweep_rely_def)
  then show ?thesis by (rule sched.run_inv) (rule assms(2))
qed

text \<open>The windows of the list that were not busy when their turn came.\<close>

lemma expireDue_loop_total:
  assumes "sweep_rely digest now envs" and "sched_inv db"
  shows "\<exists>a b db'. expireDue_loop envs now n is windows units db = (Inr (a, b), db') \<and> sched_inv db' \<and>
           due_windows now db' \<subseteq> due_windows now db -
             {is ! k |k. k < length is \<and> \<not> sw_busy (envs (n + k)) (is ! k)}"
  using assms(2)
proof (induction "is" arbitrary: n windows units db)
  case (Cons i "is")
  let ?rq = "(sw_request (envs n))\<lparr>rq_now := now\<rparr>" and ?db = "sw_meanwhile (envs n) db"
  let ?free = "\<lambda>n is. {is ! k |k. k < length is \<and> \<not> sw_busy (envs (n + k)) (is ! k)}"
  have ids: "ids_ok ?rq" using assms(1) by (simp add: sweep_rely_def ids_ok_def)
  obtain m db1 where r: "expireDue_tx ?rq (sw_busy (envs n)) i ?db = Inr (m, db1)" "sched_inv db1"
    "due_windows (rq_now ?rq) db1 \<subseteq> due_windows (rq_now ?rq) ?db - {j. j = i \<and> \<not> sw_busy (envs n) i}"
    by (rule expireDue_tx_total [OF meanwhile_inv [OF assms(1) Cons.prems] ids])
  define c where "c = (if 0 < m then (windows + 1, units + m) else (windows, units))"
  obtain a b db' where l: "expireDue_loop envs now (Suc n) is (fst c) (snd c) db1 = (Inr (a, b), db')"
    "sched_inv db'" "due_windows now db' \<subseteq> due_windows now db1 - ?free (Suc n) is"
    using Cons.IH [OF r(2)] by blast
  have "expireDue_loop envs now n (i # is) windows units db = (Inr (a, b), db')"
    using r(1) l(1) by (auto simp: c_def)
  moreover have "?free n (i # is) \<subseteq> {j. j = i \<and> \<not> sw_busy (envs n) i} \<union> ?free (Suc n) is"
  proof
    fix x assume "x \<in> ?free n (i # is)"
    then obtain k where "k < length (i # is)" "\<not> sw_busy (envs (n + k)) ((i # is) ! k)" "x = (i # is) ! k" by blast
    then show "x \<in> {j. j = i \<and> \<not> sw_busy (envs n) i} \<union> ?free (Suc n) is" by (cases k) auto
  qed
  moreover have "due_windows now ?db \<subseteq> due_windows now db" by (rule meanwhile_due [OF assms(1)])
  ultimately show ?case using l(2,3) r(3) by fastforce
qed simp

lemma windowsWithDueHolds_all:
  assumes "card (due_windows now db) \<le> limit"
  shows "set (windowsWithDueHolds now limit db) = due_windows now db"
proof -
  let ?ids = "map h_windowId (filter (\<lambda>h. h_status h = ACTIVE \<and> h_expiresAt h \<le> now) (db_holds db)) @
        map l_windowId (filter (\<lambda>l. l_status l = ACTIVE \<and> l_expiresAt l \<le> now) (db_legacy db))"
  have "set ?ids = due_windows now db" by (auto simp: due_windows_def isDue_def legacy_due_def)
  moreover from this assms have "length (remdups ?ids) \<le> limit" by (simp add: length_remdups_card_conv)
  ultimately show ?thesis by (simp add: windowsWithDueHolds_def)
qed

end
