(* ===== verification/Sched_Properties.thy ===== *)
theory Sched_Properties
  imports Sched_Liveness
begin

text \<open>
  Scheduling, what the service promises: the properties of its commands, stated over reachable
  databases, with a small database on which each is exercised.
\<close>

section \<open>An example\<close>

definition ex_digest :: digest where
  "ex_digest m = (case p_body m of CommitHoldBody r b \<Rightarrow> b | _ \<Rightarrow> ''other'')"

definition ex_ops :: request where
  "ex_ops = \<lparr>rq_actor = USER account ''ops'' [''operations.dispatch''],
             rq_correlationId = ex_uuid CHR ''c'', rq_now = 0, rq_dbNow = 0,
             rq_ids = (\<lambda>n. ex_uuid (if n = 0 then CHR ''0'' else CHR ''1''))\<rparr>"

definition ex_customer :: request where
  "ex_customer = \<lparr>rq_actor = USER account ''amal'' [], rq_correlationId = ex_uuid CHR ''c'',
                  rq_now = 1000, rq_dbNow = 1000,
                  rq_ids = (\<lambda>n. ex_uuid (if n = 0 then CHR ''2'' else CHR ''3''))\<rparr>"

definition ex_booking :: request where
  "ex_booking = \<lparr>rq_actor = SERVICE ''booking'' [scheduling_hold_commit, scheduling_commitment_change],
                 rq_correlationId = ex_uuid CHR ''c'', rq_now = 2000, rq_dbNow = 2000,
                 rq_ids = (\<lambda>n. ex_uuid (if n = 0 then CHR ''4'' else CHR ''5''))\<rparr>"

definition ex_query :: hold_request where
  "ex_query = \<lparr>q_beneficiaryKind = account, q_beneficiarySubject = ''amal'',
               q_zoneId = ex_uuid CHR ''9'', q_startsAt = Some 3600000, q_durationMinutes = JsInt 30,
               q_quoteId = ex_uuid CHR ''8'', q_quoteRevision = 1\<rparr>"


text \<open>A window of one unit; a hold in it; the hold committed.\<close>

definition ex_window :: capacity_window where
  "ex_window = \<lparr>w_id = ex_uuid CHR ''0'', w_zoneId = ex_uuid CHR ''9'', w_startsAt = 3600000,
                w_endsAt = 7200000, w_capacity = 1, w_held = 0, w_reserved = 0, w_status = OPEN,
                w_version = 1\<rparr>"

definition ex_hold :: hold where
  "ex_hold = \<lparr>h_id = ex_uuid CHR ''2'', h_windowId = ex_uuid CHR ''0'', h_zoneId = ex_uuid CHR ''9'',
      h_beneficiaryKind = account, h_beneficiarySubject = ''amal'',
      h_quoteId = ex_uuid CHR ''8'', h_quoteRevision = 1,
      h_slotStartsAt = 3600000, h_slotEndsAt = 5400000, h_units = 1, h_status = ACTIVE,
      h_expiresAt = 601000, h_bookingId = None, h_releaseReason = None,
      h_createdAt = 1000, h_updatedAt = 1000, h_version = 1\<rparr>"

definition ex_db1 :: sched_db where
  "ex_db1 = snd (defineWindow ex_ops (ex_uuid CHR ''9'') (Some 3600000) (Some 7200000) (JsInt 1) empty_db)"

definition ex_db2 :: sched_db where
  "ex_db2 = snd (createHold ex_digest ex_customer ex_query (Some (ex_key CHR ''a'')) ex_db1)"

definition ex_db3 :: sched_db where
  "ex_db3 = snd (commitHold ex_digest ex_booking (ex_uuid CHR ''2'') 1 (ex_uuid CHR ''b'')
                   (Some (ex_key CHR ''b'')) ex_db2)"

lemma ex_init: "sched_init empty_db"
  by (simp add: sched_init_def sched_inv_empty) (simp add: empty_db_def)

lemma ex_steps: "(sched_step ex_digest)\<^sup>*\<^sup>* empty_db ex_db3"
proof -
  have "sched_step ex_digest empty_db ex_db1" "sched_step ex_digest ex_db1 ex_db2"
    "sched_step ex_digest ex_db2 ex_db3"
    unfolding ex_db1_def ex_db2_def ex_db3_def
    by (rule sched_step.command sched_command.intros)+
  then show ?thesis by (meson converse_rtranclp_into_rtranclp rtranclp.rtrancl_refl)
qed

text \<open>The definitions a run of the commands on the example unfolds.\<close>

lemma requireKey_ex_key: "key_char c \<Longrightarrow> requireKey (Some (ex_key c)) = Inr (ex_key c)"
  by (auto simp: ex_key_def list_all_iff)

lemma ex_requireKey [simp]:
  "requireKey (Some (ex_key CHR ''a'')) = Inr (ex_key CHR ''a'')"
  "requireKey (Some (ex_key CHR ''b'')) = Inr (ex_key CHR ''b'')"
  "requireKey (Some (ex_key CHR ''c'')) = Inr (ex_key CHR ''c'')"
  by (simp_all add: requireKey_ex_key key_char_def is_lower_def in_range_def del: requireKey.simps)

lemma ex_lower [simp]: "toLowerCase ''amal'' = ''amal''"
  by code_simp

declare requireKey.simps(2) [simp del]

lemmas sched_eval =
  ex_ops_def ex_customer_def ex_booking_def ex_query_def ex_window_def ex_hold_def
  defineWindow_def requireOperations_def OPERATIONS_PERMISSION_def assertUuid_def window_limits
  assertCapacityValue.simps MAX_SAFE_INTEGER_def Let_def run_tx_def defineWindow_tx_def
  insertWindow_def empty_db_def audit_window_def appendAudit_def createHold_def
  assertDurationMinutes.simps minDurationMinutes_def maxDurationMinutes_def MINUTE_def DAY_def
  horizonDays_def finish_run_def with_claim_def claimIdempotency_def createHold_new_def
  countActiveHolds_def maxActivePerBeneficiary_def lockCoveringWindow_def expireDueHoldsOf_def
  lockDueHolds_def expireLegacyDueHolds_def holdUnits_def freeUnits_def new_hold_def insertHold_def
  updateWindow_def window_columns_def update_rows_def changed_def emit_def holdChangedEvent_def
  uuid_def appendEvent_def audit_hold_def completeIdempotency_def idem_hit_def ttlSeconds_def
  commitHold_def knownHold_def find_row_def commitHold_tx_def lockedWindow_def lockWindow_def
  lockedHold_def lockHold_def isDue_def commit_def assertLive_def assertRevision_def updateHold_def
  hold_columns_def committed_bookings_def convertHeldToReserved_def fingerprint_def ex_digest_def
  scope_of_def

lemma ex_steps2: "(sched_step ex_digest)\<^sup>*\<^sup>* empty_db ex_db2"
proof -
  have "sched_step ex_digest empty_db ex_db1" "sched_step ex_digest ex_db1 ex_db2"
    unfolding ex_db1_def ex_db2_def by (rule sched_step.command sched_command.intros)+
  then show ?thesis by (meson converse_rtranclp_into_rtranclp rtranclp.rtrancl_refl)
qed

lemma ex_window_defined:
  "db_windows ex_db1 = [ex_window]" "db_holds ex_db1 = []" "db_legacy ex_db1 = []" "db_idem ex_db1 = []"
  by (simp_all add: ex_db1_def sched_eval)

lemma ex_hold_created:
  "createHold ex_digest ex_customer ex_query (Some (ex_key CHR ''a'')) ex_db1 =
     (Inr \<lparr>r_status = 201, r_body = HoldBody (holdView ex_hold)\<rparr>, ex_db2)"
  "db_windows ex_db2 = [ex_window\<lparr>w_held := 1, w_version := 2\<rparr>]" "db_holds ex_db2 = [ex_hold]"
  "db_legacy ex_db2 = []"
  "db_idem ex_db2 = [\<lparr>i_scope = ''scheduling.v1:createHold:account:amal'', i_key = ex_key CHR ''a'',
     i_fingerprint = ''other'',
     i_response = Some \<lparr>r_status = 201, r_body = HoldBody (holdView ex_hold)\<rparr>,
     i_completedAt = Some 1000\<rparr>]"
  by (simp_all add: ex_window_defined ex_db2_def sched_eval)

definition ex_committed :: hold where
  "ex_committed = ex_hold\<lparr>h_status := CONFIRMED, h_bookingId := Some (ex_uuid CHR ''b''),
                          h_updatedAt := 2000, h_version := 2\<rparr>"

lemma ex_hold_committed:
  "commitHold ex_digest ex_booking (ex_uuid CHR ''2'') 1 (ex_uuid CHR ''b'')
     (Some (ex_key CHR ''b'')) ex_db2 =
     (Inr \<lparr>r_status = 200, r_body = HoldBody (holdView ex_committed)\<rparr>, ex_db3)"
  "db_windows ex_db3 = [ex_window\<lparr>w_reserved := 1, w_version := 3\<rparr>]" "db_holds ex_db3 = [ex_committed]"
  by (simp_all add: ex_hold_created ex_db3_def ex_committed_def sched_eval)

section \<open>No unit is sold twice\<close>

text \<open>
  C1. In every database the commands can reach, in whatever order and with whatever requests,
  the counters of a window are exactly the units of its ACTIVE holds and of its CONFIRMED holds,
  and together they never exceed its capacity: no unit of capacity is sold twice.
\<close>

theorem no_oversell:
  assumes "sched_init db0" and "(sched_step digest)\<^sup>*\<^sup>* db0 db" and "w \<in> set (db_windows db)"
  shows "w_held w = active_units db (w_id w) \<and> w_reserved w = reserved_units db (w_id w) \<and>
         active_units db (w_id w) + reserved_units db (w_id w) \<le> w_capacity w"
proof -
  have inv: "sched_inv db" by (rule sched.reachable_inv [OF assms(1,2)])
  with sched_inv_no_oversell [OF inv assms(3)] assms(3) show ?thesis by (simp add: sched_inv_defs)
qed

theorem no_oversell_witness:
  "active_units ex_db3 (ex_uuid CHR ''0'') + reserved_units ex_db3 (ex_uuid CHR ''0'') \<le> 1"
proof -
  have "ex_window\<lparr>w_reserved := 1, w_version := 3\<rparr> \<in> set (db_windows ex_db3)"
    by (simp add: ex_hold_committed)
  from no_oversell [OF ex_init ex_steps this] show ?thesis by (simp add: ex_window_def)
qed

text \<open>
  C2. In every reachable database every hold, whatever its status, lies in a window of its zone
  that contains its slot; and a booking has at most one CONFIRMED hold: no other hold of a
  CONFIRMED hold's booking is CONFIRMED.
\<close>

theorem one_commitment_per_booking:
  assumes "sched_init db0" and "(sched_step digest)\<^sup>*\<^sup>* db0 db" and "h \<in> set (db_holds db)"
  shows "(\<exists>w \<in> set (db_windows db). hold_fits w h) \<and>
    (h_status h = CONFIRMED \<longrightarrow>
      (\<forall>h' \<in> set (db_holds db). h_status h' = CONFIRMED \<and> h_bookingId h' = h_bookingId h \<longrightarrow> h' = h))"
proof -
  have ok: "holds_ok db" using sched.reachable_inv [OF assms(1,2)] by (simp add: sched_inv_def)
  have "h' = h" if "h_status h = CONFIRMED" "h' \<in> set (db_holds db)" "h_status h' = CONFIRMED"
    "h_bookingId h' = h_bookingId h" for h'
    by (rule commitment_unique [OF ok that(2) assms(3) that(3,1,4)])
  with ok assms(3) show ?thesis by (auto simp: holds_ok_def)
qed

theorem one_commitment_per_booking_witness:
  "\<exists>w \<in> set (db_windows ex_db2). hold_fits w ex_hold"
  using one_commitment_per_booking [OF ex_init ex_steps2, of ex_hold] by (simp add: ex_hold_created)

section \<open>Idempotency\<close>

lemma requireScope_Inr:
  "requireScope a s = Inr a' \<longleftrightarrow> a' = a \<and> (\<exists>c scopes. a = SERVICE c scopes \<and> s \<in> set scopes)"
  by (cases a) auto

lemma keeps_run:
  assumes "run_tx (with_claim scope key print body) db = (x, db')"
    and "\<And>db x db'. body db = Inr (x, db') \<Longrightarrow> keeps db db'"
  shows "keeps db db'"
  using keeps_with_claim [of body db scope key print] assms by simp

text \<open>What an answered commit leaves behind, in every later database.\<close>

lemma commitHold_answered:
  assumes ok: "idem_ok db" and first: "commitHold digest rq i r b key db = (Inr resp, db1)"
    and later: "(sched_command digest)\<^sup>*\<^sup>* db1 db2"
  obtains k h where "requireScope (rq_actor rq) scheduling_hold_commit = Inr (rq_actor rq)"
    "requireKey key = Inr k" "isUuid i" "isUuid b" "knownHold (toLowerCase i) db2 = Inr h"
    "answered (scope_of ''commitHold'' (actorKey (rq_actor rq))) k
       (fingerprint digest ''commitHold'' (actorKey (rq_actor rq)) (Some (toLowerCase i))
          (CommitHoldBody r (toLowerCase b))) resp db2"
proof -
  let ?scope = "scope_of ''commitHold'' (actorKey (rq_actor rq))"
  let ?print = "fingerprint digest ''commitHold'' (actorKey (rq_actor rq)) (Some (toLowerCase i))
                  (CommitHoldBody r (toLowerCase b))"
  from first obtain k known where
    pre: "requireScope (rq_actor rq) scheduling_hold_commit = Inr (rq_actor rq)"
      "requireKey key = Inr k" "isUuid i" "isUuid b" "knownHold (toLowerCase i) db = Inr known"
    and run: "run_tx (with_claim ?scope k ?print
        (commitHold_tx rq ?scope k (h_windowId known) (toLowerCase i) (toLowerCase b) r)) db =
        (Inr (Some resp), db1)"
    by (auto simp: commitHold_def Let_def finish_run_Inr requireScope_Inr split: sum.splits)
  have kept: "keeps db1 db2" by (rule keeps_commands [OF later])
  with keeps_run [OF run] keeps_commit have "keeps db db2" by (blast intro: keeps_trans)
  with pre(5) obtain h where "knownHold (toLowerCase i) db2 = Inr h" by (rule keeps_known)
  moreover have "answered ?scope k ?print resp db2"
    using commit_body.first_answer [OF ok run] kept unfolding keeps_def answered_when by blast
  ultimately show thesis using that pre by blast
qed

text \<open>The scope of a commit's idempotency key.\<close>

definition commit_scope :: "request \<Rightarrow> string" where
  "commit_scope rq = scope_of ''commitHold'' (actorKey (rq_actor rq))"

text \<open>
  C3. A commit that was answered can be sent again with the same key: its record says when the
  answer was stored, and as long as the retention job has not run at a time that lies the
  retention beyond that, after whatever other commands and earlier runs of the job, the same
  request of the same actor gets the same answer and changes nothing.
\<close>

theorem commitHold_at_least_once:
  assumes "sched_init db0" and "(sched_step digest)\<^sup>*\<^sup>* db0 db"
    and "commitHold digest rq i r b key db = (Inr resp, db1)"
  shows "\<exists>k t. requireKey key = Inr k \<and> completion_time (commit_scope rq) k db1 = Some t \<and>
    (\<forall>rq' db2. rq_actor rq' = rq_actor rq \<and> (retained_step digest t)\<^sup>*\<^sup>* db1 db2 \<longrightarrow>
       commitHold digest rq' i r b key db2 = (Inr resp, db2))"
proof (rule commitHold_answered [OF idem.reachable_inv [OF assms(1,2)] assms(3) rtranclp.rtrancl_refl])
  let ?print = "fingerprint digest ''commitHold'' (actorKey (rq_actor rq)) (Some (toLowerCase i))
                  (CommitHoldBody r (toLowerCase b))"
  fix k h
  assume pre: "requireScope (rq_actor rq) scheduling_hold_commit = Inr (rq_actor rq)"
    "requireKey key = Inr k" "isUuid i" "isUuid b" and known: "knownHold (toLowerCase i) db1 = Inr h"
    and "answered (scope_of ''commitHold'' (actorKey (rq_actor rq))) k ?print resp db1"
  then obtain t where t: "answered_at t (commit_scope rq) k ?print resp db1"
    by (auto simp: answered_when commit_scope_def)
  have "commitHold digest rq' i r b key db2 = (Inr resp, db2)"
    if rq': "rq_actor rq' = rq_actor rq" and later: "(retained_step digest t)\<^sup>*\<^sup>* db1 db2" for rq' db2
  proof -
    have kept: "answered_at t (commit_scope rq) k ?print resp db2" "came_from db1 db2"
      using retained_answer [OF later t] by simp_all
    obtain h' where "knownHold (toLowerCase i) db2 = Inr h'" by (rule came_from_known [OF known kept(2)])
    moreover have "answered (commit_scope rq) k ?print resp db2" using kept(1) by (auto simp: answered_when)
    ultimately show ?thesis
      using pre rq' answered_replay
      by (auto simp: commitHold_def Let_def finish_run_Inr assertUuid_def commit_scope_def)
  qed
  with pre(2) answered_completion_time [OF t] show ?thesis by blast
qed

theorem commitHold_at_least_once_witness:
  "let db = snd (purgeIdempotency 604800000 500 604802000 ex_db3) in
   commitHold ex_digest (ex_booking\<lparr>rq_now := 604802000\<rparr>) (ex_uuid CHR ''2'') 1 (ex_uuid CHR ''b'')
     (Some (ex_key CHR ''b'')) db =
     (Inr \<lparr>r_status = 200, r_body = HoldBody (holdView ex_committed)\<rparr>, db)"
proof -
  have "completion_time (commit_scope ex_booking) (ex_key CHR ''b'') ex_db3 = Some 2000"
    by (simp add: completion_time_def ex_hold_created ex_db3_def commit_scope_def sched_eval)
  moreover from this have "(retained_step ex_digest 2000)\<^sup>*\<^sup>* ex_db3 (snd (purgeIdempotency 604800000 500 604802000 ex_db3))"
    by (intro r_into_rtranclp retained_step.purge) simp
  ultimately show ?thesis
    using commitHold_at_least_once [OF ex_init ex_steps2 ex_hold_committed(1)]
    by (auto simp: Let_def)
qed

text \<open>The digest does not take two requests to the same fingerprint.\<close>

definition no_collision :: "digest \<Rightarrow> print_material \<Rightarrow> print_material \<Rightarrow> bool" where
  "no_collision digest m m' \<longleftrightarrow> (digest m = digest m' \<longrightarrow> m = m')"

definition commit_material :: "actor \<Rightarrow> string \<Rightarrow> int \<Rightarrow> string \<Rightarrow> print_material" where
  "commit_material a i r b =
     \<lparr>p_operation = ''commitHold'', p_actor = actorKey a, p_target = Some (toLowerCase i),
      p_body = CommitHoldBody r (toLowerCase b)\<rparr>"

text \<open>
  C4. The key of an answered commit cannot be used for another commit: unless the digest
  collides, a request with that key and another hold, revision or booking is refused with
  IDEMPOTENCY_KEY_REUSED and changes nothing.
\<close>

theorem commitHold_key_reused:
  assumes "sched_init db0" and "(sched_step digest)\<^sup>*\<^sup>* db0 db"
    and "commitHold digest rq i r b key db = (Inr resp, db1)"
    and "(sched_command digest)\<^sup>*\<^sup>* db1 db2" and "rq_actor rq' = rq_actor rq"
    and "(toLowerCase i', r', toLowerCase b') \<noteq> (toLowerCase i, r, toLowerCase b)"
    and "no_collision digest (commit_material (rq_actor rq) i' r' b') (commit_material (rq_actor rq) i r b)"
    and "isUuid i'" and "isUuid b'" and "knownHold (toLowerCase i') db2 = Inr h'"
  shows "commitHold digest rq' i' r' b' key db2 = (Inl (SchedulingError IDEMPOTENCY_KEY_REUSED), db2)"
proof (rule commitHold_answered [OF idem.reachable_inv [OF assms(1,2)] assms(3,4)])
  let ?print = "\<lambda>i r b. fingerprint digest ''commitHold'' (actorKey (rq_actor rq)) (Some (toLowerCase i))
                  (CommitHoldBody r (toLowerCase b))"
  fix k h
  assume a: "requireScope (rq_actor rq) scheduling_hold_commit = Inr (rq_actor rq)" "requireKey key = Inr k"
    "answered (scope_of ''commitHold'' (actorKey (rq_actor rq))) k (?print i r b) resp db2"
  have "?print i' r' b' \<noteq> ?print i r b"
    using assms(6,7) by (auto simp: fingerprint_def no_collision_def commit_material_def)
  from answered_conflict [OF a(3) this] show ?thesis
    using a assms(5,8-10) by (simp add: commitHold_def Let_def finish_run_def assertUuid_def)
qed

theorem commitHold_key_reused_witness:
  "commitHold ex_digest ex_booking (ex_uuid CHR ''2'') 1 (ex_uuid CHR ''d'')
     (Some (ex_key CHR ''b'')) ex_db3 = (Inl (SchedulingError IDEMPOTENCY_KEY_REUSED), ex_db3)"
proof (rule commitHold_key_reused [OF ex_init ex_steps2 ex_hold_committed(1) _ refl])
  show "knownHold (toLowerCase (ex_uuid CHR ''2'')) ex_db3 = Inr ex_committed"
    by (simp add: knownHold_def find_row_def ex_hold_committed ex_committed_def ex_hold_def)
qed (simp_all add: no_collision_def commit_material_def ex_digest_def)

section \<open>Commits\<close>

text \<open>
  A commit request that Booking may send: the scope is granted, the key is a valid fresh key,
  hold and booking are UUIDs, and the generator of the service hands out UUIDs.
\<close>

definition good_commit :: "request \<Rightarrow> string \<Rightarrow> string \<Rightarrow> string option \<Rightarrow> sched_db \<Rightarrow> bool" where
  "good_commit rq i b key db \<longleftrightarrow>
     requireScope (rq_actor rq) scheduling_hold_commit = Inr (rq_actor rq) \<and>
     (\<exists>k. requireKey key = Inr k \<and> fresh_key (commit_scope rq) k db) \<and>
     isUuid i \<and> isUuid b \<and> ids_ok rq"

lemma commitHold_run:
  assumes "good_commit rq i b key db" and "sched_inv db" and "h \<in> set (db_holds db)"
    and "h_id h = toLowerCase i"
  obtains k print where "fresh_key (commit_scope rq) k db"
    "commitHold digest rq i r b key db =
       finish_run (run_tx (\<lambda>db. commitHold_tx rq (commit_scope rq) k (h_windowId h) (h_id h)
         (toLowerCase b) r (claim_db (commit_scope rq) k print db)) db)"
proof -
  from assms(1) obtain k where k: "requireKey key = Inr k" "fresh_key (commit_scope rq) k db"
    by (auto simp: good_commit_def)
  have "knownHold (toLowerCase i) db = Inr h"
    using find_row_distinct [of h_id "db_holds db" h] assms(2-4)
    by (simp add: knownHold_def sched_inv_defs)
  with assms(1,4) k show thesis
    by (intro that [OF k(2)])
      (simp add: commitHold_def good_commit_def assertUuid_def Let_def run_tx_def with_claim_fresh
        commit_scope_def)
qed

text \<open>
  C5. A commit that arrives at or after the hold's deadline is refused with HOLD_EXPIRED; the
  refusal is recorded: the hold is EXPIRED and its unit is back, the window's counters still
  agree with its holds, and the idempotency key is free again.
\<close>

theorem commit_after_deadline:
  assumes "sched_inv db" and "h \<in> set (db_holds db)" and "h_id h = toLowerCase i"
    and "isDue h (rq_now rq)" and "good_commit rq i b key db"
  shows "\<exists>db'. commitHold digest rq i r b key db = (Inl (SchedulingError HOLD_EXPIRED), db') \<and>
           sched_inv db' \<and> db_idem db' = db_idem db \<and> expired_at (rq_now rq) h \<in> set (db_holds db') \<and>
           active_units db' (h_windowId h) < active_units db (h_windowId h)"
proof -
  obtain k print where key: "fresh_key (commit_scope rq) k db"
    and run: "commitHold digest rq i r b key db =
       finish_run (run_tx (\<lambda>db. commitHold_tx rq (commit_scope rq) k (h_windowId h) (h_id h)
         (toLowerCase b) r (claim_db (commit_scope rq) k print db)) db)"
    by (rule commitHold_run [OF assms(5,1-3)])
  obtain w where w: "w \<in> set (db_windows db)" "hold_fits w h"
    "lockedWindow (h_windowId h) db = Inr w" "lockedHold (h_id h) db = Inr h"
    by (rule hold_rows [OF assms(1,2)])
  have ids: "ids_ok rq" using assms(5) by (simp add: good_commit_def)
  obtain db' where e: "expireAndAbandon rq w (commit_scope rq) k (claim_db (commit_scope rq) k print db) =
        Inr (None, db')" "db_idem db' = db_idem db" "sched_inv db'"
    and holds: "db_holds db' = map (\<lambda>r. if h_windowId r = w_id w \<and> isDue r (rq_now rq)
                              then expired_at (rq_now rq) r else r) (db_holds db)"
      "db_legacy db' = db_legacy (snd (expireLegacyDueHolds (w_id w) (rq_now rq) db))"
    by (rule expireAndAbandon_total [OF assms(1) w(1) ids key])
  have "commitHold digest rq i r b key db = (Inl (SchedulingError HOLD_EXPIRED), db')"
    using run w e(1) assms(4) by (simp add: commitHold_tx_def run_tx_def finish_run_def)
  moreover have "expired_at (rq_now rq) h \<in> set (db_holds db')"
    using holds(1) assms(2,4) w(2) by (auto simp: hold_fits_def image_iff intro!: bexI [of _ h])
  moreover have "active_units db' (h_windowId h) < active_units db (h_windowId h)"
    using expiry_frees [OF _ assms(2,4), of db'] holds assms(1) w(2)
    by (simp add: hold_fits_def sched_inv_def)
  ultimately show ?thesis using e by blast
qed

lemma ex_good_commit:
  "good_commit (ex_booking\<lparr>rq_now := t\<rparr>) (ex_uuid CHR ''2'') (ex_uuid CHR ''b'')
     (Some (ex_key CHR ''b'')) ex_db2"
  by (simp add: good_commit_def ex_booking_def ids_ok_def fresh_key_def ex_hold_created idem_hit_def
      commit_scope_def scope_of_def)

lemma ex_inv: "sched_inv ex_db2"
  by (rule sched.reachable_inv [OF ex_init ex_steps2])

theorem commit_after_deadline_witness:
  "fst (commitHold ex_digest (ex_booking\<lparr>rq_now := 601000\<rparr>) (ex_uuid CHR ''2'') 1 (ex_uuid CHR ''b'')
     (Some (ex_key CHR ''b'')) ex_db2) = Inl (SchedulingError HOLD_EXPIRED)"
  using commit_after_deadline [OF ex_inv, of ex_hold "ex_uuid CHR ''2''"
      "ex_booking\<lparr>rq_now := 601000\<rparr>" "ex_uuid CHR ''b''" "Some (ex_key CHR ''b'')" ex_digest 1]
    ex_good_commit
  by (auto simp: ex_hold_created ex_hold_def isDue_def)

text \<open>
  C6. A live hold at the revision Booking names commits, whenever the booking has no other
  commitment: the answer is the committed hold, the hold's row and nothing else of the holds
  changes, the window's unit moves from held to reserved, and one event says so.
\<close>

theorem commit_live_hold:
  assumes "sched_inv db" and "h \<in> set (db_holds db)" and "h_id h = toLowerCase i"
    and "good_commit rq i b key db" and "h_status h = ACTIVE" and "rq_now rq < h_expiresAt h"
    and "\<forall>x \<in> set (db_holds db). h_status x = CONFIRMED \<longrightarrow> h_bookingId x \<noteq> Some (toLowerCase b)"
  shows "\<exists>w ev db'. w \<in> set (db_windows db) \<and> w_id w = h_windowId h \<and>
    commitHold digest rq i (h_version h) b key db =
      (Inr \<lparr>r_status = 200, r_body = HoldBody (holdView (committed_as (toLowerCase b) (rq_now rq) h))\<rparr>, db') \<and>
    db_holds db' = map (\<lambda>r. if r = h then committed_as (toLowerCase b) (rq_now rq) h else r) (db_holds db) \<and>
    db_windows db' = db_windows (with_window
      (w\<lparr>w_held := w_held w - 1, w_reserved := w_reserved w + 1, w_version := w_version w + 1\<rparr>) db) \<and>
    db_outbox db' = db_outbox db @ [ev] \<and> ev_aggregateId ev = h_id h \<and>
    ev_state ev = COMMITTED_v1 \<and> ev_bookingId ev = Some (toLowerCase b)"
proof -
  obtain k print where key: "fresh_key (commit_scope rq) k db"
    and run: "commitHold digest rq i (h_version h) b key db =
       finish_run (run_tx (\<lambda>db. commitHold_tx rq (commit_scope rq) k (h_windowId h) (h_id h)
         (toLowerCase b) (h_version h) (claim_db (commit_scope rq) k print db)) db)"
    by (rule commitHold_run [OF assms(4,1-3)])
  have ids: "ids_ok rq" using assms(4) by (simp add: good_commit_def)
  show ?thesis
    by (rule commitHold_tx_total [OF assms(1,2) ids key assms(5,6,7), of print])
      (unfold run, simp add: finish_run_def, blast)
qed

theorem commit_live_hold_witness:
  "fst (commitHold ex_digest (ex_booking\<lparr>rq_now := 600999\<rparr>) (ex_uuid CHR ''2'') 1 (ex_uuid CHR ''b'')
     (Some (ex_key CHR ''b'')) ex_db2) =
   Inr \<lparr>r_status = 200, r_body = HoldBody (holdView (committed_as (ex_uuid CHR ''b'') 600999 ex_hold))\<rparr>"
proof -
  have "h_version ex_hold = 1" by (simp add: ex_hold_def)
  with commit_live_hold [OF ex_inv, of ex_hold "ex_uuid CHR ''2''"
      "ex_booking\<lparr>rq_now := 600999\<rparr>" "ex_uuid CHR ''b''" "Some (ex_key CHR ''b'')" ex_digest]
    ex_good_commit
  show ?thesis by (auto simp: ex_hold_created) (auto simp: ex_hold_def)
qed

section \<open>New holds\<close>

text \<open>
  A hold request its beneficiary may send: for itself, with a valid fresh key, UUIDs, a slot of
  5 to 480 minutes that starts in the future and within the horizon, and less than three live
  holds of its own. The generator hands out UUIDs that no hold has yet.
\<close>

definition create_scope :: "request \<Rightarrow> string" where
  "create_scope rq = scope_of ''createHold'' (actorKey (rq_actor rq))"

definition good_create :: "request \<Rightarrow> hold_request \<Rightarrow> instant \<Rightarrow> int \<Rightarrow> string option \<Rightarrow> sched_db \<Rightarrow> bool" where
  "good_create rq q s minutes key db \<longleftrightarrow>
     requirePrincipal (rq_actor rq) = Inr (q_beneficiaryKind q, toLowerCase (q_beneficiarySubject q)) \<and>
     (\<exists>k. requireKey key = Inr k \<and> fresh_key (create_scope rq) k db) \<and>
     isUuid (q_zoneId q) \<and> isUuid (q_quoteId q) \<and> q_startsAt q = Some s \<and>
     q_durationMinutes q = JsInt minutes \<and> 5 \<le> minutes \<and> minutes \<le> 480 \<and>
     rq_now rq < s \<and> s - rq_now rq \<le> horizonDays * DAY \<and>
     countActiveHolds (q_beneficiaryKind q) (toLowerCase (q_beneficiarySubject q)) (rq_now rq) db
       < maxActivePerBeneficiary \<and>
     ids_ok rq \<and> (\<forall>n. rq_ids rq n \<notin> h_id ` set (db_holds db) \<union> l_id ` set (db_legacy db))"

text \<open>
  C7. A hold is granted whenever an open window of the zone covers the slot and has a unit that
  no live hold and no commitment takes: holds past their deadline never block a new one, even
  before any sweep has run. The writes are exactly these: the new hold, with the beneficiary, the
  quote, the zone, the slot and the deadline of the request; the holds and the earlier API's holds
  of that window that are due, turned EXPIRED; the window's held units, which become the live
  holds and the new one; an event and an audit entry per expired hold and then those of the new
  hold; and the stored answer under the request's key.
\<close>

theorem createHold_granted:
  assumes "sched_inv db" and "good_create rq q s minutes key db"
    and "lockCoveringWindow (toLowerCase (q_zoneId q)) s (s + minutes * MINUTE) db = Some w"
    and "w_status w = OPEN" and "taken_units db (w_id w) (rq_now rq) < w_capacity w"
  shows "\<exists>h w' ev as r k db'.
     createHold digest rq q key db = (Inr \<lparr>r_status = 201, r_body = HoldBody (holdView h)\<rparr>, db') \<and>
     h = \<lparr>h_id = h_id h, h_windowId = w_id w, h_zoneId = toLowerCase (q_zoneId q),
          h_beneficiaryKind = q_beneficiaryKind q,
          h_beneficiarySubject = toLowerCase (q_beneficiarySubject q),
          h_quoteId = toLowerCase (q_quoteId q), h_quoteRevision = q_quoteRevision q,
          h_slotStartsAt = s, h_slotEndsAt = s + minutes * MINUTE, h_units = 1, h_status = ACTIVE,
          h_expiresAt = rq_now rq + ttlSeconds * 1000, h_bookingId = None, h_releaseReason = None,
          h_createdAt = rq_now rq, h_updatedAt = rq_now rq, h_version = 1\<rparr> \<and>
     h_id h \<in> range (rq_ids rq) \<and>
     db_holds db' = h # map (\<lambda>x. if h_windowId x = w_id w \<and> isDue x (rq_now rq)
                                 then expired_at (rq_now rq) x else x) (db_holds db) \<and>
     db_legacy db' = map (\<lambda>l. if legacy_due (w_id w) (rq_now rq) l
                              then l\<lparr>l_status := EXPIRED, l_version := l_version l + 1, l_updatedAt := rq_now rq\<rparr>
                              else l) (db_legacy db) \<and>
     db_windows db' = map (\<lambda>x. if w_id x = w_id w then w' else x) (db_windows db) \<and>
     w' = w\<lparr>w_held := taken_units db (w_id w) (rq_now rq) - w_reserved w + 1, w_version := w_version w'\<rparr> \<and>
     w_version w < w_version w' \<and>
     expiry_records (lockDueHolds (w_id w) (rq_now rq) db) db
       (db'\<lparr>db_outbox := butlast (db_outbox db'), db_audit := butlast (db_audit db')\<rparr>) \<and>
     db_outbox db' = butlast (db_outbox db') @ [ev] \<and> ev_aggregateId ev = h_id h \<and>
     ev_aggregateVersion ev = 1 \<and> ev_state ev = HELD_v1 \<and> ev_bookingId ev = None \<and>
     db_audit db' = butlast (db_audit db') @ [as] \<and> a_action as = ''hold.created'' \<and>
     a_targetId as = h_id h \<and> a_actor as = rq_actor rq \<and>
     db_idem db' = r # db_idem db \<and> requireKey key = Inr k \<and> i_scope r = create_scope rq \<and> i_key r = k \<and>
     i_response r = Some \<lparr>r_status = 201, r_body = HoldBody (holdView h)\<rparr> \<and>
     i_completedAt r = Some (rq_dbNow rq) \<and> sched_inv db'"
proof -
  let ?k = "q_beneficiaryKind q" and ?s = "toLowerCase (q_beneficiarySubject q)"
  let ?z = "toLowerCase (q_zoneId q)" and ?e = "s + minutes * MINUTE"
  obtain k where k: "requireKey key = Inr k" "fresh_key (create_scope rq) k db"
    using assms(2) by (auto simp: good_create_def)
  let ?print = "fingerprint digest ''createHold'' (actorKey (rq_actor rq)) None
     (CreateHoldBody ?k ?s ?z s minutes (toLowerCase (q_quoteId q)) (q_quoteRevision q))"
  have g: "rq_now rq < s" "countActiveHolds ?k ?s (rq_now rq) db < maxActivePerBeneficiary" "ids_ok rq"
    "\<forall>n. rq_ids rq n \<notin> h_id ` set (db_holds db) \<union> l_id ` set (db_legacy db)"
    using assms(2) by (simp_all add: good_create_def)
  have z: "w_zoneId w = ?z" using lockCoveringWindow_Some [OF assms(3)] by simp
  show ?thesis
  proof (rule createHold_new_total [OF assms(1,3,4) g(1) assms(5) g(2-4) k(2),
      where qi = "q_quoteId q" and qr = "q_quoteRevision q" and print = ?print])
    fix n w' ev as db'
    let ?h = "new_hold rq (rq_ids rq n) ?k ?s w (q_quoteId q) (q_quoteRevision q) s ?e"
    assume run: "createHold_new rq (create_scope rq) k ?k ?s ?z (q_quoteId q) (q_quoteRevision q) s ?e
        (claim_db (create_scope rq) k ?print db) =
        Inr (\<lparr>r_status = 201, r_body = HoldBody (holdView ?h)\<rparr>, db')"
      and rest: "db_holds db' = ?h # map (\<lambda>r. if h_windowId r = w_id w \<and> isDue r (rq_now rq)
          then expired_at (rq_now rq) r else r) (db_holds db)"
        "db_windows db' = db_windows (with_window w' db)"
        "w' = w\<lparr>w_held := taken_units db (w_id w) (rq_now rq) - w_reserved w + 1, w_version := w_version w'\<rparr>"
        "w_version w < w_version w'"
        "db_legacy db' = db_legacy (snd (expireLegacyDueHolds (w_id w) (rq_now rq) db))"
        "expiry_records (lockDueHolds (w_id w) (rq_now rq) db) db
           (db'\<lparr>db_outbox := butlast (db_outbox db'), db_audit := butlast (db_audit db')\<rparr>)"
        "db_outbox db' = butlast (db_outbox db') @ [ev]" "ev_aggregateId ev = rq_ids rq n"
        "ev_aggregateVersion ev = 1" "ev_state ev = HELD_v1" "ev_bookingId ev = None"
        "db_audit db' = butlast (db_audit db') @ [as]" "a_action as = ''hold.created''"
        "a_targetId as = rq_ids rq n" "a_actor as = rq_actor rq"
        "db_idem db' = (claim_row (create_scope rq) k ?print)\<lparr>
           i_response := Some \<lparr>r_status = 201, r_body = HoldBody (holdView ?h)\<rparr>,
           i_completedAt := Some (rq_dbNow rq)\<rparr> # db_idem db"
    have c: "createHold digest rq q key db =
        (Inr \<lparr>r_status = 201, r_body = HoldBody (holdView ?h)\<rparr>, db')"
      using assms(2) k run
      by (simp add: createHold_def good_create_def assertUuid_def Let_def run_tx_def with_claim_fresh
          finish_run_def create_scope_def assertDurationMinutes.simps minDurationMinutes_def
          maxDurationMinutes_def MAX_SAFE_INTEGER_def)
    from createHold_inv [OF assms(1), of digest rq q key] c have inv: "sched_inv db'" by simp
    have id: "w_id w' = w_id w" "h_id ?h = rq_ids rq n" by (subst rest(3)) (simp_all add: new_hold_def)
    show ?thesis
      by (intro exI [of _ ?h] exI [of _ w'] exI [of _ ev] exI [of _ as] exI [of _ "hd (db_idem db')"]
          exI [of _ k] exI [of _ db'] conjI c inv k rest(3,4,6,7,12))
        (use rest id z in \<open>simp_all add: new_hold_def with_window_def update_rows_def
          expireLegacyDueHolds_def claim_row_def\<close>)
  qed
qed

theorem createHold_granted_witness:
  "\<exists>h. fst (createHold ex_digest (ex_customer\<lparr>rq_now := 700000, rq_ids := (\<lambda>n. ex_uuid CHR ''7'')\<rparr>)
          ex_query (Some (ex_key CHR ''c'')) ex_db2) =
       Inr \<lparr>r_status = 201, r_body = HoldBody (holdView h)\<rparr> \<and> h_beneficiarySubject h = ''amal''"
proof -
  let ?rq = "ex_customer\<lparr>rq_now := 700000, rq_ids := (\<lambda>n. ex_uuid CHR ''7'')\<rparr>"
  have g: "good_create ?rq ex_query 3600000 30 (Some (ex_key CHR ''c'')) ex_db2"
    by (simp add: good_create_def ex_hold_created ids_ok_def fresh_key_def create_scope_def idem_hit_def
        sched_eval)
  have l: "lockCoveringWindow (toLowerCase (q_zoneId ex_query)) 3600000 (3600000 + 30 * MINUTE) ex_db2 =
      Some (ex_window\<lparr>w_held := 1, w_version := 2\<rparr>)"
    by (simp add: ex_hold_created sched_eval)
  have op: "w_status (ex_window\<lparr>w_held := 1, w_version := 2\<rparr>) = OPEN" by (simp add: ex_window_def)
  have u: "taken_units ex_db2 (w_id (ex_window\<lparr>w_held := 1, w_version := 2\<rparr>)) (rq_now ?rq) <
      w_capacity (ex_window\<lparr>w_held := 1, w_version := 2\<rparr>)"
    by (simp add: taken_units_def reserved_units_def ex_hold_created ex_window_def ex_hold_def)
  from createHold_granted [OF ex_inv g l op u, of ex_digest] obtain h db' where c: "createHold ex_digest ?rq ex_query (Some (ex_key CHR ''c'')) ex_db2 =
      (Inr \<lparr>r_status = 201, r_body = HoldBody (holdView h)\<rparr>, db')"
    and h: "h = \<lparr>h_id = h_id h, h_windowId = w_id (ex_window\<lparr>w_held := 1, w_version := 2\<rparr>),
        h_zoneId = toLowerCase (q_zoneId ex_query), h_beneficiaryKind = q_beneficiaryKind ex_query,
        h_beneficiarySubject = toLowerCase (q_beneficiarySubject ex_query),
        h_quoteId = toLowerCase (q_quoteId ex_query), h_quoteRevision = q_quoteRevision ex_query,
        h_slotStartsAt = 3600000, h_slotEndsAt = 3600000 + 30 * MINUTE, h_units = 1, h_status = ACTIVE,
        h_expiresAt = rq_now ?rq + ttlSeconds * 1000, h_bookingId = None, h_releaseReason = None,
        h_createdAt = rq_now ?rq, h_updatedAt = rq_now ?rq, h_version = 1\<rparr>"
    by (elim exE conjE) (rule that)
  have "h_beneficiarySubject h = ''amal''" by (subst h) (simp add: ex_query_def)
  with c show ?thesis by (intro exI [of _ h]) simp
qed

section \<open>The sweep\<close>





section \<open>Rescheduling\<close>

definition replace_scope :: "request \<Rightarrow> string" where
  "replace_scope rq = scope_of ''replaceCommitment'' (actorKey (rq_actor rq))"

text \<open>The number of commitments, over all windows.\<close>

definition commitments :: "sched_db \<Rightarrow> int" where
  "commitments db = sum_rows (\<lambda>_. 1) (\<lambda>h. h_status h = CONFIRMED) (db_holds db)"

lemma commitments_silent:
  "changed rq k h db = Inr db' \<Longrightarrow> commitments db' = commitments db \<and> db_holds db' = db_holds db"
  "completeIdempotency s key r at db = Inr db' \<Longrightarrow> commitments db' = commitments db \<and> db_holds db' = db_holds db"
  "moveUnits w w' f t db = Inr db' \<Longrightarrow> commitments db' = commitments db \<and> db_holds db' = db_holds db"
  by (auto simp: changed_def commitments_def moveUnits_def updateWindow_def Let_def split: if_splits
      dest!: emit_Inr completeIdempotency_Inr)

lemma replaced_holds:
  assumes ok: "holds_ok db" and f: "f \<in> set (db_holds db)" and t: "t \<in> set (db_holds db)"
    and op: "replaceCommitment_hold f t b r now = Inr (f', t', False)"
    and up: "updateHold f' v db = Inr db1" "updateHold t' v' db1 = Inr db2"
  shows "f' \<in> set (db_holds db2)" and "t' \<in> set (db_holds db2)" and "commitments db2 = commitments db"
proof -
  note nxt = replaceCommitment_next [OF op]
  have sf: "same_hold f f'" and st: "same_hold t t'" and ne: "h_id f \<noteq> h_id t"
    using nxt op by (auto simp: hold_next_def replaceCommitment_hold_Inr)
  have d: "distinct (map h_id (db_holds db))" using ok by (simp add: holds_ok_def)
  note m1 = updateHold_map [OF up(1) d f sf]
  have d1: "distinct (map h_id (db_holds db1))"
    using updateHold_row(2) [OF up(1) d f] sf d by (simp add: same_hold_def hold_columns_def)
  have t1: "t \<in> set (db_holds db1)" and f1: "f' \<in> set (db_holds db1)" using m1 f t ne by (auto simp: image_iff)
  note m2 = updateHold_map [OF up(2) d1 t1 st]
  have "f' \<noteq> t" using sf ne by (auto simp: same_hold_def)
  then show "f' \<in> set (db_holds db2)" "t' \<in> set (db_holds db2)" using m2 f1 t1 by (auto simp: image_iff)
  have "commitments db1 = commitments db - 1" "commitments db2 = commitments db1 + 1"
    using updateHold_row(2) [OF up(1) d f] updateHold_row(2) [OF up(2) d1 t1] sf st op
      sum_rows_update_key [OF d f, of "\<lambda>_. 1" "\<lambda>h. h_status h = CONFIRMED" "hold_columns f'"]
      sum_rows_update_key [OF d1 t1, of "\<lambda>_. 1" "\<lambda>h. h_status h = CONFIRMED" "hold_columns t'"]
    by (auto simp: commitments_def hold_columns_same replaceCommitment_hold_Inr same_hold_def)
  then show "commitments db2 = commitments db" by simp
qed

text \<open>
  C9. A reschedule that is answered moved the booking's one commitment: the old hold is
  cancelled as RESCHEDULED, the new hold is the booking's only commitment, and the number of
  commitments over all windows is what it was.
\<close>

theorem reschedule_moves_commitment:
  assumes inv: "sched_inv db" and key: "requireKey key = Inr k" "fresh_key (replace_scope rq) k db"
    and run: "replaceCommitment digest rq b i j r key db = (Inr resp, db')"
  shows "commitments db' = commitments db \<and>
    (\<exists>f \<in> set (db_holds db'). h_id f = toLowerCase i \<and> h_status f = CANCELLED \<and>
        h_releaseReason f = Some RESCHEDULED) \<and>
    (\<exists>t \<in> set (db_holds db'). h_id t = toLowerCase j \<and> h_status t = CONFIRMED \<and>
        h_bookingId t = Some (toLowerCase b) \<and>
        (\<forall>x \<in> set (db_holds db'). h_status x = CONFIRMED \<and> h_bookingId x = Some (toLowerCase b) \<longrightarrow> x = t))"
proof -
  let ?b = "toLowerCase b" and ?i = "toLowerCase i" and ?j = "toLowerCase j" and ?sc = "replace_scope rq"
  from run key obtain fw tw print where
    tx: "replaceCommitment_tx rq ?sc k fw tw ?i ?j ?b r (claim_db ?sc k print db) = Inr (Some resp, db')"
    by (auto simp: replaceCommitment_def Let_def finish_run_Inr requireScope_Inr run_tx_def with_claim_fresh
        replace_scope_def split: sum.splits)
  have ok': "holds_ok db'"
    using replaceCommitment_inv [OF inv, of digest rq b i j r key] run by (simp add: sched_inv_def)
  have "commitments db' = commitments db \<and> (\<exists>f \<in> set (db_holds db'). \<exists>t \<in> set (db_holds db').
      h_id f = ?i \<and> h_status f = CANCELLED \<and> h_releaseReason f = Some RESCHEDULED \<and>
      h_id t = ?j \<and> h_status t = CONFIRMED \<and> h_bookingId t = Some ?b)"
    using tx
  proof (cases rule: replaceCommitment_tx_cases)
    case (expired w h)
    then show ?thesis by (auto dest: expireAndAbandon_None)
  next
    case (replayed f t)
    with commitments_silent(2) [OF replayed(5)] lockedHold_Inr [OF replayed(1)] lockedHold_Inr [OF replayed(2)]
    show ?thesis by (auto simp: replaceCommitment_hold_Inr commitments_def)
  next
    case (replaced fwin twin f t f' t' db1 db2 db3 db4 db5 details)
    have m: "f \<in> set (db_holds db)" "t \<in> set (db_holds db)" "h_id f = ?i" "h_id t = ?j"
      using lockedHold_Inr [OF replaced(3)] lockedHold_Inr [OF replaced(4)] by auto
    have "holds_ok (claim_db ?sc k print db)" using inv by (simp add: sched_inv_def holds_ok_def)
    note h2 = replaced_holds [OF this _ _ replaced(5-7)]
    have "commitments db' = commitments db2" "db_holds db' = db_holds db2"
      using commitments_silent(3) [OF replaced(8)] commitments_silent(1) [OF replaced(9)]
        commitments_silent(1) [OF replaced(10)] commitments_silent(2) [OF replaced(12)]
      by (auto simp: commitments_def audit_hold_def appendAudit_def)
    moreover have "h_id f' = ?i \<and> h_status f' = CANCELLED \<and> h_releaseReason f' = Some RESCHEDULED"
      "h_id t' = ?j \<and> h_status t' = CONFIRMED \<and> h_bookingId t' = Some ?b"
      using m replaced(5) by (auto simp: replaceCommitment_hold_Inr)
    ultimately show ?thesis
      using h2 m by (intro conjI bexI [of _ f'] bexI [of _ t']) (auto simp: commitments_def)
  qed
  then obtain f t where c: "commitments db' = commitments db"
    and ft: "f \<in> set (db_holds db')" "t \<in> set (db_holds db')" "h_id f = ?i" "h_status f = CANCELLED"
      "h_releaseReason f = Some RESCHEDULED" "h_id t = ?j" "h_status t = CONFIRMED" "h_bookingId t = Some ?b"
    by blast
  have "x = t" if "x \<in> set (db_holds db')" "h_status x = CONFIRMED" "h_bookingId x = Some ?b" for x
    by (rule commitment_unique [OF ok' that(1) ft(2) that(2) ft(7)]) (simp add: that ft)
  with c ft show ?thesis by blast
qed

text \<open>The committed hold of the example, and a live hold in another window.\<close>

definition ex_hold2 :: hold where
  "ex_hold2 = ex_hold\<lparr>h_id := ex_uuid CHR ''7'', h_windowId := ex_uuid CHR ''e'',
                      h_slotStartsAt := 9000000, h_slotEndsAt := 9900000\<rparr>"

definition ex_db4 :: sched_db where
  "ex_db4 = empty_db\<lparr>
     db_windows := [ex_window\<lparr>w_reserved := 1\<rparr>,
       ex_window\<lparr>w_id := ex_uuid CHR ''e'', w_startsAt := 9000000, w_endsAt := 9990000, w_held := 1\<rparr>],
     db_holds := [ex_committed, ex_hold2]\<rparr>"

lemma ex_inv4: "sched_inv ex_db4"
  by (simp add: sched_inv_defs ex_db4_def empty_db_def ex_window_def ex_committed_def ex_hold2_def ex_hold_def
      active_units_def reserved_units_def wf_window_def wf_hold_def hold_fits_def overlaps_def
      committed_bookings_def maxCapacity_def)

definition ex_moved :: "hold list" where
  "ex_moved =
     [ex_committed\<lparr>h_status := CANCELLED, h_releaseReason := Some RESCHEDULED, h_version := 3\<rparr>,
      ex_hold2\<lparr>h_status := CONFIRMED, h_bookingId := Some (ex_uuid CHR ''b''), h_updatedAt := 2000,
               h_version := 2\<rparr>]"

lemma ex_rescheduled:
  "map_prod id db_holds (replaceCommitment ex_digest ex_booking (ex_uuid CHR ''b'') (ex_uuid CHR ''2'')
     (ex_uuid CHR ''7'') 1 (Some (ex_key CHR ''c'')) ex_db4) =
   (Inr \<lparr>r_status = 200, r_body = ReplacementBody (ex_uuid CHR ''b'')
          (holdView (ex_moved ! 0)) (holdView (ex_moved ! 1))\<rparr>, ex_moved)"
  by (simp add: ex_db4_def ex_committed_def ex_hold2_def ex_moved_def replaceCommitment_def
      replaceCommitment_tx_def replaceCommitment_hold_def moveUnits_def releaseReservedUnits_def min_def max_def
      sched_eval)

theorem reschedule_moves_commitment_witness:
  "\<exists>db'. fst (replaceCommitment ex_digest ex_booking (ex_uuid CHR ''b'') (ex_uuid CHR ''2'')
      (ex_uuid CHR ''7'') 1 (Some (ex_key CHR ''c'')) ex_db4) = Inr db' \<and>
     commitments (snd (replaceCommitment ex_digest ex_booking (ex_uuid CHR ''b'') (ex_uuid CHR ''2'')
      (ex_uuid CHR ''7'') 1 (Some (ex_key CHR ''c'')) ex_db4)) = 1"
proof -
  have "fresh_key (replace_scope ex_booking) (ex_key CHR ''c'') ex_db4"
    by (simp add: fresh_key_def ex_db4_def empty_db_def)
  moreover have "commitments ex_db4 = 1"
    by (simp add: commitments_def ex_db4_def ex_committed_def ex_hold2_def ex_hold_def)
  ultimately show ?thesis
    using reschedule_moves_commitment [OF ex_inv4, of "Some (ex_key CHR ''c'')" "ex_key CHR ''c''" ex_booking
        ex_digest "ex_uuid CHR ''b''" "ex_uuid CHR ''2''" "ex_uuid CHR ''7''" 1] ex_rescheduled
    by (cases "replaceCommitment ex_digest ex_booking (ex_uuid CHR ''b'') (ex_uuid CHR ''2'')
      (ex_uuid CHR ''7'') 1 (Some (ex_key CHR ''c'')) ex_db4") auto
qed

section \<open>Who may touch a hold\<close>

text \<open>
  C10. A hold of someone else does not exist for a beneficiary: reading it or releasing it is
  refused exactly as an unknown id is, and nothing changes.
\<close>

theorem foreign_hold_is_unknown:
  assumes "sched_inv db" and "h \<in> set (db_holds db)" and "h_id h = toLowerCase i" and "isUuid i"
    and "rq_actor rq = USER kind subject perms" and "OPERATIONS_PERMISSION \<notin> set perms"
    and "(h_beneficiaryKind h, h_beneficiarySubject h) \<noteq> (kind, subject)"
    and "requireKey key = Inr k" and "isUuid u" and "toLowerCase u \<notin> h_id ` set (db_holds db)"
  shows "getHold rq i db = Inl (SchedulingError HOLD_NOT_FOUND) \<and> getHold rq i db = getHold rq u db \<and>
         releaseHold digest rq i r reason key db = (Inl (SchedulingError HOLD_NOT_FOUND), db) \<and>
         releaseHold digest rq i r reason key db = releaseHold digest rq u r reason key db"
proof -
  have "knownHold (toLowerCase i) db = Inr h"
    using find_row_distinct [of h_id "db_holds db" h] assms(1-3) by (simp add: knownHold_def sched_inv_defs)
  moreover have "knownHold (toLowerCase u) db = Inl (SchedulingError HOLD_NOT_FOUND)"
    using assms(10) by (simp add: knownHold_def find_row_None [THEN iffD2])
  ultimately show ?thesis
    using assms by (auto simp: getHold_def releaseHold_def assertUuid_def assertBeneficiary_def)
qed

theorem foreign_hold_is_unknown_witness:
  "getHold (ex_customer\<lparr>rq_actor := USER guest ''amal'' []\<rparr>) (ex_uuid CHR ''2'') ex_db2 =
     Inl (SchedulingError HOLD_NOT_FOUND) \<and>
   releaseHold ex_digest (ex_customer\<lparr>rq_actor := USER guest ''amal'' []\<rparr>) (ex_uuid CHR ''2'') 1
     CUSTOMER_CHANGED (Some (ex_key CHR ''a'')) ex_db2 = (Inl (SchedulingError HOLD_NOT_FOUND), ex_db2)"
  using foreign_hold_is_unknown [OF ex_inv, of ex_hold "ex_uuid CHR ''2''"
      "ex_customer\<lparr>rq_actor := USER guest ''amal'' []\<rparr>" guest "''amal''" "[]"
      "Some (ex_key CHR ''a'')" "ex_key CHR ''a''" "ex_uuid CHR ''f''" ex_digest 1 CUSTOMER_CHANGED]
  by (simp add: ex_hold_created) (simp add: ex_hold_def)

end
