(* ===== verification/Fenced_Leases.thy ===== *)
theory Fenced_Leases
  imports Prelude
begin

text \<open>
  Fenced leases over a table. A worker that takes a row bumps its fence and owns the row until
  another worker takes it; every write is conditional on the owner and the fence the writer got.
  The locale states what taking and writing a row do, and shows once what the two process
  managers rely on: however the workers interleave, stall or die, at most one of them can still
  write a row, and that one's copy of the row is the row. A worker is seen as the key of its row,
  its lease, and its copy of the row once it has read it.
\<close>

record lease =
  le_owner :: string
  le_fence :: int

type_synonym ('k, 'x) view = "'k \<times> lease \<times> 'x option"

definition view_ticket :: "('k, 'x) view \<Rightarrow> 'k \<times> int" where
  "view_ticket v = (fst v, le_fence (fst (snd v)))"

lemma view_ticket_simp [simp]: "view_ticket (k, l, c) = (k, le_fence l)"
  by (simp add: view_ticket_def)

locale fenced_table =
  fixes key :: "'r \<Rightarrow> 'k" and fence :: "'r \<Rightarrow> int" and owner :: "'r \<Rightarrow> string option"
    and image :: "'r \<Rightarrow> 'c" and mirror :: "'x \<Rightarrow> 'c" and xkey :: "'x \<Rightarrow> 'k"
    and follows :: "'x \<Rightarrow> 'x \<Rightarrow> bool"
    and take_row :: "string \<Rightarrow> instant \<Rightarrow> 'r \<Rightarrow> 'r"
    and write_row :: "'x \<Rightarrow> bool \<Rightarrow> int \<Rightarrow> 'r \<Rightarrow> 'r"
  assumes take_key: "key (take_row who t r) = key r"
    and take_fence: "fence (take_row who t r) = fence r + 1"
    and take_image: "image (take_row who t r) = image r"
    and write_key: "key r = xkey x \<Longrightarrow> key (write_row x rel ms r) = key r"
    and write_fence: "fence (write_row x rel ms r) = fence r"
    and write_image: "image r = mirror x0 \<Longrightarrow> follows x0 x \<Longrightarrow> image (write_row x rel ms r) = mirror x"
begin

definition holds :: "lease \<Rightarrow> 'r \<Rightarrow> bool" where
  "holds l r \<longleftrightarrow> fence r = le_fence l \<and> owner r = Some (le_owner l)"

definition fenced :: "'x \<Rightarrow> lease \<Rightarrow> 'r \<Rightarrow> bool" where
  "fenced x l r \<longleftrightarrow> key r = xkey x \<and> holds l r"

definition in_step :: "('k, 'x) view \<Rightarrow> 'r list \<Rightarrow> bool" where
  "in_step v rows \<longleftrightarrow> (case v of (k, l, c) \<Rightarrow>
     k \<in> key ` set rows \<and>
     (\<forall>r \<in> set rows. key r = k \<longrightarrow> le_fence l \<le> fence r \<and>
        (\<forall>x. c = Some x \<longrightarrow> xkey x = k \<and> (holds l r \<longrightarrow> image r = mirror x))))"

definition fenced_inv :: "'r list \<Rightarrow> ('k, 'x) view list \<Rightarrow> bool" where
  "fenced_inv rows vs \<longleftrightarrow>
     distinct (map key rows) \<and> distinct (map view_ticket vs) \<and> (\<forall>v \<in> set vs. in_step v rows)"

lemma fenced_inv_empty: "distinct (map key rows) \<Longrightarrow> fenced_inv rows []"
  by (simp add: fenced_inv_def)

lemma fenced_inv_distinct: "fenced_inv rows vs \<Longrightarrow> distinct (map key rows)"
  by (simp add: fenced_inv_def)

lemma view_key: "fenced_inv rows vs \<Longrightarrow> v \<in> set vs \<Longrightarrow> fst v \<in> key ` set rows"
  by (cases v) (force simp: fenced_inv_def in_step_def)

text \<open>The one that can still write has the row.\<close>

lemma holder_has_row:
  assumes "fenced_inv rows vs" and "(k, l, Some x) \<in> set vs" and "r \<in> set rows" and "key r = k" and "holds l r"
  shows "image r = mirror x" and "xkey x = k"
  using assms by (force simp: fenced_inv_def in_step_def)+

lemma holder_unique:
  assumes "fenced_inv rows vs" and "i < length vs" and "j < length vs"
    and "vs ! i = (k, l, c)" and "vs ! j = (k, l', c')" and "r \<in> set rows" and "key r = k"
    and "holds l r" and "holds l' r"
  shows "i = j"
proof -
  have "map view_ticket vs ! i = map view_ticket vs ! j"
    using assms by (simp add: holds_def)
  with assms show ?thesis
    by (metis fenced_inv_def length_map nth_eq_iff_index_eq)
qed

text \<open>Workers may come and go.\<close>

lemma fenced_inv_drop: "fenced_inv rows (us @ v # vs) \<Longrightarrow> fenced_inv rows (us @ vs)"
  by (auto simp: fenced_inv_def)

lemma fenced_inv_read:
  assumes inv: "fenced_inv rows (us @ (k, l, None) # vs)" and r: "r \<in> set rows" "key r = k"
    and x: "mirror x = image r" "xkey x = k"
  shows "fenced_inv rows (us @ (k, l, Some x) # vs)"
proof -
  have "in_step (k, l, Some x) rows"
  proof -
    have "in_step (k, l, None) rows" using inv by (simp add: fenced_inv_def)
    moreover have "r' = r" if "r' \<in> set rows" "key r' = k" for r'
      using inv that r distinct_key_eq by (metis fenced_inv_def)
    ultimately show ?thesis using x by (auto simp: in_step_def)
  qed
  then show ?thesis using inv by (auto simp: fenced_inv_def)
qed

text \<open>Taking rows: each new lease outranks every lease of its row given before.\<close>

lemma fenced_inv_take:
  assumes inv: "fenced_inv rows vs"
    and ids: "distinct (map fst leased)"
    and leased: "\<And>k l. (k, l) \<in> set leased \<Longrightarrow> \<exists>r \<in> set rows. key r = k \<and> le_fence l = fence r + 1"
  shows "fenced_inv (update_rows (\<lambda>r. key r \<in> fst ` set leased) (take_row who t) rows)
           (map (\<lambda>(k, l). (k, l, None)) leased @ vs)"
proof -
  let ?rows = "update_rows (\<lambda>r. key r \<in> fst ` set leased) (take_row who t) rows"
  have dist: "distinct (map key ?rows)" using inv by (simp add: fenced_inv_def take_key)
  have "map key ?rows = map key rows" by (simp add: take_key)
  then have keys: "key ` set ?rows = key ` set rows" by (metis set_map)
  have bound: "le_fence l \<le> fence r" if "(k, l, c) \<in> set vs" "r \<in> set rows" "key r = k" for k l c r
    using inv that by (force simp: fenced_inv_def in_step_def)
  have old: "in_step v ?rows" if v: "v \<in> set vs" for v
  proof -
    obtain k l c where [simp]: "v = (k, l, c)" by (cases v) auto
    have s: "in_step (k, l, c) rows" using inv v by (simp add: fenced_inv_def)
    have "le_fence l \<le> fence r \<and> (\<forall>x. c = Some x \<longrightarrow> xkey x = k \<and> (holds l r \<longrightarrow> image r = mirror x))"
      if r: "r \<in> set ?rows" "key r = k" for r
    proof -
      obtain r0 where r0: "r0 \<in> set rows" "r = (if key r0 \<in> fst ` set leased then take_row who t r0 else r0)"
        using r(1) by (auto simp: set_update_rows)
      then have k0: "key r0 = k" using r(2) by (simp add: take_key split: if_splits)
      with s r0(1) have b: "le_fence l \<le> fence r0"
        and c: "\<And>x. c = Some x \<Longrightarrow> xkey x = k \<and> (holds l r0 \<longrightarrow> image r0 = mirror x)"
        by (auto simp: in_step_def)
      show ?thesis using b c r0(2) by (auto simp: take_fence holds_def)
    qed
    then show ?thesis using s keys by (simp add: in_step_def)
  qed
  have new: "in_step (k, l, None) ?rows" if kl: "(k, l) \<in> set leased" for k l
  proof -
    from leased [OF kl] obtain r1 where r1: "r1 \<in> set rows" "key r1 = k" "le_fence l = fence r1 + 1" by auto
    have "le_fence l \<le> fence r" if r: "r \<in> set ?rows" "key r = k" for r
    proof -
      obtain r0 where r0: "r0 \<in> set rows" "r = (if key r0 \<in> fst ` set leased then take_row who t r0 else r0)"
        using r(1) by (auto simp: set_update_rows)
      then have "key r0 = k" using r(2) by (simp add: take_key split: if_splits)
      moreover from this have "r0 = r1" using inv r0(1) r1 distinct_key_eq by (metis fenced_inv_def)
      ultimately show ?thesis using r0(2) r1 kl by (force simp: take_fence)
    qed
    moreover have "k \<in> key ` set ?rows" using keys r1 by auto
    ultimately show ?thesis by (simp add: in_step_def)
  qed
  have "distinct (map view_ticket (map (\<lambda>(k, l). (k, l, None)) leased @ vs))"
  proof -
    have t: "map view_ticket (map (\<lambda>(k, l). (k, l, None)) leased) = map (\<lambda>(k, l). (k, le_fence l)) leased"
      by (auto simp: view_ticket_def)
    have "distinct (map (\<lambda>(k, l). (k, le_fence l)) leased)"
      using ids by (fastforce simp: distinct_map inj_on_def)
    moreover have "(k, le_fence l) \<noteq> (k', le_fence l')" if "(k, l) \<in> set leased" "(k', l', c) \<in> set vs" for k l k' l' c
    proof -
      from leased [OF that(1)] obtain r where "r \<in> set rows" "key r = k" "le_fence l = fence r + 1" by auto
      with bound [OF that(2), of r] show ?thesis by auto
    qed
    then have "set (map (\<lambda>(k, l). (k, le_fence l)) leased) \<inter> set (map view_ticket vs) = {}"
      by (force simp: view_ticket_def)
    moreover have "distinct (map view_ticket vs)" using inv by (simp add: fenced_inv_def)
    ultimately show ?thesis unfolding map_append distinct_append t by blast
  qed
  with dist old new show ?thesis by (auto simp: fenced_inv_def)
qed

text \<open>A write: by the holder it succeeds and leaves the other workers behind; by anyone else it does nothing.\<close>

lemma write_lost:
  assumes "\<not> (\<exists>r \<in> set rows. fenced x l r)"
  shows "update_rows (fenced x l) (write_row x rel ms) rows = rows"
    and "filter (fenced x l) rows = []"
  using assms by (auto simp: update_rows_def map_idI filter_empty_conv)

lemma write_one:
  assumes "fenced_inv rows vs" and "r \<in> set rows" and "fenced x l r"
  shows "filter (fenced x l) rows = [r]"
proof -
  have d: "distinct (map key rows)" using assms by (simp add: fenced_inv_def)
  have "fenced x l r' \<longleftrightarrow> r = r'" if "r' \<in> set rows" for r'
    using assms(2,3) that distinct_key_eq [OF d] by (auto simp: fenced_def)
  then have "filter (fenced x l) rows = filter (\<lambda>r'. r = r') rows" by (simp cong: filter_cong)
  also have "\<dots> = [r]" using assms(2) d by (simp add: filter_the_one distinct_map)
  finally show ?thesis .
qed

lemma write_succeeds_iff:
  assumes "fenced_inv rows vs"
  shows "length (filter (fenced x l) rows) = 1 \<longleftrightarrow> (\<exists>r \<in> set rows. fenced x l r)"
  using write_one [OF assms] by (metis One_nat_def filter_empty_conv length_Cons list.size(3) zero_neq_one)

lemma update_keys:
  "map key (update_rows (fenced x l) (write_row x rel ms) rows) = map key rows"
  by (auto simp: update_rows_def fenced_def write_key)

lemma fenced_inv_write:
  assumes inv: "fenced_inv rows (us @ (k, l, Some x0) # vs)" and f: "follows x0 x" and k: "xkey x = k"
  shows "fenced_inv (update_rows (fenced x l) (write_row x rel ms) rows) (us @ (k, l, Some x) # vs)"
proof -
  let ?rows = "update_rows (fenced x l) (write_row x rel ms) rows"
  have keys: "key ` set ?rows = key ` set rows" using update_keys by (metis set_map)
  have d: "distinct (map key rows)" using inv by (simp add: fenced_inv_def)
  have me: "in_step (k, l, Some x0) rows" using inv by (simp add: fenced_inv_def)
  have mine: "in_step (k, l, Some x) ?rows"
  proof -
    have "le_fence l \<le> fence r \<and> (holds l r \<longrightarrow> image r = mirror x)" if r: "r \<in> set ?rows" "key r = k" for r
    proof -
      obtain r0 where r0: "r0 \<in> set rows" "r = (if fenced x l r0 then write_row x rel ms r0 else r0)"
        using r(1) by (auto simp: set_update_rows)
      then have k0: "key r0 = k" using r(2) by (auto simp: fenced_def write_key split: if_splits)
      with me r0(1) have b: "le_fence l \<le> fence r0" "holds l r0 \<longrightarrow> image r0 = mirror x0"
        by (auto simp: in_step_def)
      show ?thesis
      proof (cases "holds l r0")
        case True
        with k0 k r0(2) b f show ?thesis by (simp add: fenced_def write_fence write_image)
      next
        case False
        with k0 k r0(2) b show ?thesis by (simp add: fenced_def)
      qed
    qed
    with k me keys show ?thesis by (simp add: in_step_def)
  qed
  have others: "in_step v ?rows" if v: "v \<in> set us \<union> set vs" for v
  proof -
    obtain k' l' c where [simp]: "v = (k', l', c)" by (cases v) auto
    have s: "in_step (k', l', c) rows" using inv v by (auto simp: fenced_inv_def)
    have t: "(k', le_fence l') \<noteq> (k, le_fence l)"
    proof -
      have "view_ticket (k', l', c) \<noteq> view_ticket (k, l, Some x0)"
        using inv v by (auto simp: fenced_inv_def image_iff)
      then show ?thesis by simp
    qed
    have "le_fence l' \<le> fence r \<and> (\<forall>y. c = Some y \<longrightarrow> xkey y = k' \<and> (holds l' r \<longrightarrow> image r = mirror y))"
      if r: "r \<in> set ?rows" "key r = k'" for r
    proof -
      obtain r0 where r0: "r0 \<in> set rows" "r = (if fenced x l r0 then write_row x rel ms r0 else r0)"
        using r(1) by (auto simp: set_update_rows)
      then have k0: "key r0 = k'" using r(2) by (auto simp: fenced_def write_key split: if_splits)
      with s r0(1) have b: "le_fence l' \<le> fence r0"
        "\<And>y. c = Some y \<Longrightarrow> xkey y = k' \<and> (holds l' r0 \<longrightarrow> image r0 = mirror y)"
        by (auto simp: in_step_def)
      show ?thesis
      proof (cases "fenced x l r0")
        case True
        with k0 k t have "fence r0 \<noteq> le_fence l'" by (auto simp: fenced_def holds_def)
        with True r0(2) b show ?thesis by (auto simp: holds_def write_fence)
      next
        case False
        with r0(2) b show ?thesis by simp
      qed
    qed
    with s keys show ?thesis by (simp add: in_step_def)
  qed
  show ?thesis using inv d mine others update_keys by (auto simp: fenced_inv_def)
qed

text \<open>A new row, and changes of what no worker mirrors, disturb nobody.\<close>

lemma fenced_inv_insert:
  assumes "fenced_inv rows vs" and "key r \<notin> key ` set rows"
  shows "fenced_inv (rows @ [r]) vs"
  using assms by (fastforce simp: fenced_inv_def in_step_def)

end

end
