(* ===== verification/Decimal.thy ===== *)
theory Decimal
  imports Prelude
begin

text \<open>
  Integers as decimal strings: \<open>show_int\<close> is \<^verbatim>\<open>BigInt.prototype.toString\<close>, \<open>parse_int\<close> is
  \<^verbatim>\<open>BigInt(text)\<close> on a text of digits with an optional sign. Each undoes the other on the
  integer strings without leading zeros, which are the only ones the services accept.
\<close>

definition digit_char :: "nat \<Rightarrow> char" where
  "digit_char d = char_of (48 + d)"

definition digit_val :: "char \<Rightarrow> nat" where
  "digit_val c = of_char c - 48"

fun show_nat :: "nat \<Rightarrow> string" where
  "show_nat n = (if n < 10 then [digit_char n] else show_nat (n div 10) @ [digit_char (n mod 10)])"

declare show_nat.simps [simp del]

definition show_int :: "int \<Rightarrow> string" where
  "show_int z = (if z < 0 then CHR ''-'' # show_nat (nat (- z)) else show_nat (nat z))"

definition parse_nat :: "string \<Rightarrow> nat" where
  "parse_nat s = foldl (\<lambda>a c. 10 * a + digit_val c) 0 s"

fun parse_int :: "string \<Rightarrow> int" where
  "parse_int [] = 0"
| "parse_int (c # s) = (if c = CHR ''-'' then - int (parse_nat s) else int (parse_nat (c # s)))"

text \<open>The numbers without leading zeros, of at most \<open>k\<close> digits: \<^verbatim>\<open>[1-9][0-9]{0,k-1}\<close>.\<close>

definition positive_digits :: "nat \<Rightarrow> string \<Rightarrow> bool" where
  "positive_digits k s \<longleftrightarrow>
     s \<noteq> [] \<and> hd s \<noteq> CHR ''0'' \<and> list_all is_digit s \<and> length s \<le> k"

section \<open>Digits\<close>

lemma digit_char_simps [simp]:
  "d < 10 \<Longrightarrow> is_digit (digit_char d)"
  "d < 10 \<Longrightarrow> digit_val (digit_char d) = d"
  "d < 10 \<Longrightarrow> digit_char d = CHR ''0'' \<longleftrightarrow> d = 0"
  "d < 10 \<Longrightarrow> digit_char d \<noteq> CHR ''-''"
proof -
  assume d: "d < 10"
  then have c: "of_char (digit_char d) = 48 + d" by (simp add: digit_char_def)
  then show "is_digit (digit_char d)" "digit_val (digit_char d) = d"
    using d by (simp_all add: is_digit_def in_range_def digit_val_def)
  have o: "(of_char (CHR ''0'') :: nat) = 48" "(of_char (CHR ''-'') :: nat) = 45" by simp_all
  show "digit_char d \<noteq> CHR ''-''" using c o(2) by auto
  have "digit_char d = CHR ''0'' \<longleftrightarrow> (of_char (digit_char d) :: nat) = of_char (CHR ''0'')"
    by (simp only: of_char_eq_iff)
  then show "digit_char d = CHR ''0'' \<longleftrightarrow> d = 0" unfolding c o(1) by simp
qed

lemma is_digit_val: "is_digit c \<Longrightarrow> digit_val c < 10 \<and> digit_char (digit_val c) = c"
  by (auto simp: is_digit_def in_range_def digit_val_def digit_char_def)

lemma parse_nat_snoc: "parse_nat (s @ [c]) = 10 * parse_nat s + digit_val c"
  by (simp add: parse_nat_def)

lemma parse_nat_show_nat [simp]: "parse_nat (show_nat n) = n"
proof (induction n rule: show_nat.induct)
  case (1 n)
  show ?case
  proof (cases "n < 10")
    case True
    then show ?thesis by (simp add: show_nat.simps [of n] parse_nat_def)
  next
    case False
    with 1 show ?thesis by (simp add: show_nat.simps [of n] parse_nat_snoc)
  qed
qed

lemma show_nat_ne [simp]: "show_nat n \<noteq> []"
  by (simp add: show_nat.simps [of n])

lemma show_nat_digits: "list_all is_digit (show_nat n)"
  by (induction n rule: show_nat.induct) (simp add: show_nat.simps)

lemma hd_show_nat: "hd (show_nat n) = CHR ''0'' \<longleftrightarrow> n = 0"
proof (induction n rule: show_nat.induct)
  case (1 n)
  then show ?case by (cases "n < 10") (auto simp: show_nat.simps [of n])
qed

lemma hd_show_nat_sign: "hd (show_nat n) \<noteq> CHR ''-''"
proof (induction n rule: show_nat.induct)
  case (1 n)
  then show ?case by (cases "n < 10") (auto simp: show_nat.simps [of n])
qed

lemma length_show_nat: "0 < k \<Longrightarrow> length (show_nat n) \<le> k \<longleftrightarrow> n < 10 ^ k"
proof (induction n arbitrary: k rule: show_nat.induct)
  case (1 n)
  show ?case
  proof (cases "n < 10")
    case True
    have "(10 :: nat) \<le> 10 ^ k" using "1.prems" by (cases k) auto
    with True show ?thesis using "1.prems" by (simp add: show_nat.simps [of n])
  next
    case False
    show ?thesis
    proof (cases k)
      case (Suc k')
      have "length (show_nat n) \<le> k \<longleftrightarrow> length (show_nat (n div 10)) \<le> k'"
        using False Suc by (simp add: show_nat.simps [of n])
      also have "\<dots> \<longleftrightarrow> n < 10 ^ k"
      proof (cases "k' = 0")
        case True
        with False Suc show ?thesis by simp
      next
        case k': False
        with "1.IH" False have "length (show_nat (n div 10)) \<le> k' \<longleftrightarrow> n div 10 < 10 ^ k'" by simp
        also have "\<dots> \<longleftrightarrow> n < 10 ^ k" using Suc by (simp add: div_less_iff_less_mult mult.commute)
        finally show ?thesis .
      qed
      finally show ?thesis .
    qed (use "1.prems" in simp)
  qed
qed

text \<open>What is printed is accepted, and parses to what was printed.\<close>

theorem parse_int_show_int [simp]: "parse_int (show_int z) = z"
proof (cases "z < 0")
  case True
  then show ?thesis by (simp add: show_int_def)
next
  case False
  obtain c s where cs: "show_nat (nat z) = c # s" by (cases "show_nat (nat z)") auto
  with hd_show_nat_sign [of "nat z"] have "c \<noteq> CHR ''-''" by simp
  with False cs parse_nat_show_nat [of "nat z"] show ?thesis by (simp add: show_int_def)
qed

lemma positive_digits_show_nat: "0 < n \<Longrightarrow> 0 < k \<Longrightarrow> positive_digits k (show_nat n) \<longleftrightarrow> n < 10 ^ k"
  by (simp add: positive_digits_def show_nat_digits hd_show_nat length_show_nat)

text \<open>And an accepted text is the print of what it parses to.\<close>

lemma show_nat_parse_nat: "positive_digits k s \<Longrightarrow> 0 < parse_nat s \<and> show_nat (parse_nat s) = s"
proof (induction s rule: rev_induct)
  case (snoc c s)
  then have c: "digit_val c < 10" "digit_char (digit_val c) = c"
    using is_digit_val by (auto simp: positive_digits_def)
  show ?case
  proof (cases "s = []")
    case True
    with snoc.prems have "c \<noteq> CHR ''0''" by (simp add: positive_digits_def)
    with c have "0 < digit_val c" by (metis digit_char_simps(3) gr0I)
    with True c show ?thesis by (simp add: parse_nat_def show_nat.simps)
  next
    case False
    with snoc have ih: "0 < parse_nat s" "show_nat (parse_nat s) = s" by (auto simp: positive_digits_def)
    with c show ?thesis
      by (simp add: parse_nat_snoc show_nat.simps [of "10 * parse_nat s + digit_val c"])
  qed
qed (simp add: positive_digits_def)

end
