(* ===== verification/Booking_Core.thy ===== *)
theory Booking_Core
  imports Decimal
begin

text \<open>
  Booking, the aggregate: \<^verbatim>\<open>services/booking/src/domain\<close>, files \<^verbatim>\<open>errors.ts\<close>,
  \<^verbatim>\<open>lifecycle.ts\<close>, \<^verbatim>\<open>money.ts\<close>, the data of \<^verbatim>\<open>snapshots.ts\<close> and
  \<^verbatim>\<open>booking.ts\<close>. A booking is created PENDING_CONFIRMATION, is confirmed with the slot that
  Scheduling committed or rejected, and a confirmed one may be cancelled or moved to another
  slot. Money is an integer of minor units.
\<close>

section \<open>Errors\<close>

datatype booking_code =
    INVALID_INPUT | FORBIDDEN | BOOKING_NOT_FOUND | IDEMPOTENCY_KEY_REQUIRED
  | IDEMPOTENCY_CONFLICT | IDEMPOTENCY_IN_PROGRESS | HOLD_ALREADY_BOOKED | QUOTE_ALREADY_BOOKED
  | QUOTE_NOT_USABLE | QUOTE_MISMATCH | VEHICLE_NOT_USABLE | ADDRESS_NOT_USABLE
  | DEPENDENCY_UNAVAILABLE | ASSIGNMENT_UNVERIFIED | INVALID_TRANSITION | VERSION_CONFLICT
  | REVISION_CONFLICT | BOOKING_NOT_CONFIRMED | BOOKING_CANCELLED | CHANGE_IN_PROGRESS
  | CHANGE_NOT_FOUND | HOLD_NOT_USABLE

text \<open>A \<^verbatim>\<open>BookingError\<close> with its code and reason, or a plain \<^verbatim>\<open>Error\<close> (a defect).\<close>

datatype booking_error =
    BookingError booking_code "string option"
  | BookingDefect string

definition invalid_booking :: booking_error where
  "invalid_booking = BookingError INVALID_INPUT None"

section \<open>Life cycle\<close>

datatype booking_state =
    PENDING_CONFIRMATION | CONFIRMED | ASSIGNED | EN_ROUTE | ARRIVED | IN_PROGRESS | COMPLETED
  | CANCELLED | EXPIRED | REJECTED

record lifecycle_snapshot =
  ls_id :: string
  ls_state :: booking_state
  ls_version :: js_number

fun next_states :: "booking_state \<Rightarrow> booking_state list" where
  "next_states PENDING_CONFIRMATION = [CONFIRMED, REJECTED, CANCELLED, EXPIRED]"
| "next_states CONFIRMED = [ASSIGNED, CANCELLED]"
| "next_states ASSIGNED = [EN_ROUTE, CANCELLED]"
| "next_states EN_ROUTE = [ARRIVED, CANCELLED]"
| "next_states ARRIVED = [IN_PROGRESS, CANCELLED]"
| "next_states IN_PROGRESS = [COMPLETED]"
| "next_states COMPLETED = []"
| "next_states CANCELLED = []"
| "next_states EXPIRED = []"
| "next_states REJECTED = []"

definition transitionBooking ::
  "lifecycle_snapshot \<Rightarrow> booking_state \<Rightarrow> js_number \<Rightarrow> booking_error + lifecycle_snapshot" where
  "transitionBooking booking target expectedVersion =
     (case ls_version booking of
        JsOther \<Rightarrow> Inl (BookingDefect ''INVALID_VERSION'')
      | JsInt v \<Rightarrow>
        if \<not> isSafeInteger (JsInt v) \<or> v < 1 \<or> v = MAX_SAFE_INTEGER
        then Inl (BookingDefect ''INVALID_VERSION'')
        else if \<not> isSafeInteger expectedVersion \<or> expectedVersion \<noteq> JsInt v
        then Inl (BookingDefect ''VERSION_CONFLICT'')
        else if target \<notin> set (next_states (ls_state booking))
        then Inl (BookingDefect ''INVALID_TRANSITION'')
        else Inr (booking\<lparr>ls_state := target, ls_version := JsInt (v + 1)\<rparr>))"

record window_ms =
  wm_start :: js_number
  wm_end :: js_number

fun window_bounds :: "window_ms \<Rightarrow> booking_error + int \<times> int" where
  "window_bounds w =
     (case (wm_start w, wm_end w) of
        (JsInt s, JsInt e) \<Rightarrow>
          (if \<not> isSafeInteger (JsInt s) \<or> \<not> isSafeInteger (JsInt e) \<or> e \<le> s
           then Inl (BookingDefect ''INVALID_WINDOW'') else Inr (s, e))
      | _ \<Rightarrow> Inl (BookingDefect ''INVALID_WINDOW''))"

definition windowsOverlap :: "window_ms \<Rightarrow> window_ms \<Rightarrow> booking_error + bool" where
  "windowsOverlap a b =
     andThen (window_bounds a) (\<lambda>(s, e).
     andThen (window_bounds b) (\<lambda>(s', e').
     Inr (s < e' \<and> s' < e)))"

section \<open>Money\<close>

datatype currency = SYP | USD

fun CURRENCY_SCALE :: "currency \<Rightarrow> int" where
  "CURRENCY_SCALE SYP = 2"
| "CURRENCY_SCALE USD = 2"

fun currency_code :: "currency \<Rightarrow> string" where
  "currency_code SYP = ''SYP''"
| "currency_code USD = ''USD''"

record money =
  m_currency :: currency
  m_amountMinor :: int
  m_scale :: int

definition LIMIT :: int where
  "LIMIT = 10 ^ 18"

text \<open>\<^verbatim>\<open>isCurrency\<close>, returning the currency it recognised.\<close>

fun isCurrency :: "json \<Rightarrow> currency option" where
  "isCurrency (JString s) = (if s = ''SYP'' then Some SYP else if s = ''USD'' then Some USD else None)"
| "isCurrency _ = None"

definition mk_money :: "currency \<Rightarrow> int \<Rightarrow> booking_error + money" where
  "mk_money c amountMinor =
     (if LIMIT \<le> amountMinor \<or> amountMinor \<le> - LIMIT then Inl invalid_booking
      else Inr \<lparr>m_currency = c, m_amountMinor = amountMinor, m_scale = CURRENCY_SCALE c\<rparr>)"

text \<open>\<^verbatim>\<open>MINOR\<close>: \<^verbatim>\<open>/^(0|-?[1-9][0-9]{0,17})$/\<close>.\<close>

definition MINOR :: "string \<Rightarrow> bool" where
  "MINOR s \<longleftrightarrow>
     s = ''0'' \<or> positive_digits 18 s \<or> (s \<noteq> [] \<and> hd s = CHR ''-'' \<and> positive_digits 18 (tl s))"

definition wire_keys :: "string list" where
  "wire_keys = [''currency'', ''amountMinor'', ''scale'']"

definition moneyFromWire :: "json \<Rightarrow> booking_error + money" where
  "moneyFromWire v =
     (case v of
        JObject kvs \<Rightarrow>
          if length kvs \<noteq> 3 \<or> \<not> (\<forall>k \<in> set wire_keys. k \<in> fst ` set kvs) then Inl invalid_booking
          else (case map_of kvs ''currency'' of None \<Rightarrow> Inl invalid_booking | Some c \<Rightarrow>
            (case isCurrency c of None \<Rightarrow> Inl invalid_booking | Some cur \<Rightarrow>
            (case map_of kvs ''amountMinor'' of
               Some (JString s) \<Rightarrow>
                 if \<not> MINOR s then Inl invalid_booking
                 else if map_of kvs ''scale'' \<noteq> Some (JNumber (JsInt (CURRENCY_SCALE cur)))
                 then Inl invalid_booking
                 else mk_money cur (parse_int s)
             | _ \<Rightarrow> Inl invalid_booking)))
      | _ \<Rightarrow> Inl invalid_booking)"

definition moneyToWire :: "money \<Rightarrow> json" where
  "moneyToWire m =
     JObject [(''currency'', JString (currency_code (m_currency m))),
              (''amountMinor'', JString (show_int (m_amountMinor m))),
              (''scale'', JNumber (JsInt (m_scale m)))]"

definition sameMoney :: "money \<Rightarrow> money \<Rightarrow> bool" where
  "sameMoney a b \<longleftrightarrow>
     m_currency a = m_currency b \<and> m_scale a = m_scale b \<and> m_amountMinor a = m_amountMinor b"

fun sum_values :: "currency \<Rightarrow> money list \<Rightarrow> int \<Rightarrow> booking_error + int" where
  "sum_values c [] acc = Inr acc"
| "sum_values c (v # vs) acc =
     (if m_currency v \<noteq> c \<or> m_scale v \<noteq> CURRENCY_SCALE c then Inl invalid_booking
      else sum_values c vs (acc + m_amountMinor v))"

definition sumMoney :: "currency \<Rightarrow> money list \<Rightarrow> booking_error + money" where
  "sumMoney c values = andThen (sum_values c values 0) (mk_money c)"

section \<open>Snapshots\<close>

datatype booking_principal_kind = account | guest

record principal_ref =
  pr_kind :: booking_principal_kind
  pr_subjectId :: string

datatype vehicle_type = sedan | suv | large | pickup
datatype payment_method = CASH_ON_COMPLETION | SHAM_CASH | SYRIATEL_CASH

record contact_snapshot =
  ct_name :: string
  ct_phone :: string
  ct_notes :: "string option"

record plate_snapshot =
  pl_text :: string
  pl_region :: "string option"

datatype vehicle_source = saved | inline

record vehicle_snapshot =
  vs_source :: vehicle_source
  vs_vehicleId :: "string option"
  vs_vehicleRevision :: "int option"
  vs_type :: vehicle_type
  vs_make :: "string option"
  vs_model :: "string option"
  vs_color :: "string option"
  vs_plate :: "plate_snapshot option"
  vs_capturedAt :: string

datatype address_location =
    manual string
  | coordinates string string "string option"

record address_snapshot =
  as_addressId :: string
  as_addressRevision :: int
  as_location :: address_location
  as_details :: "string option"
  as_capturedAt :: string

datatype quote_line_kind = PACKAGE | EXTRA | VEHICLE_SURCHARGE | DISCOUNT | FEE | TAX

record quote_line_snapshot =
  ql_lineId :: string
  ql_kind :: quote_line_kind
  ql_definitionId :: "string option"
  ql_quantity :: int
  ql_unitPrice :: money
  ql_amount :: money

record quote_snapshot =
  qs_quoteId :: string
  qs_revision :: int
  qs_beneficiary :: principal_ref
  qs_vehicleType :: vehicle_type
  qs_zoneId :: "string option"
  qs_currency :: currency
  qs_lines :: "quote_line_snapshot list"
  qs_total :: money
  qs_catalogRevision :: int
  qs_priceBookRevision :: int
  qs_issuedAt :: string
  qs_expiresAt :: string

record slot_snapshot =
  sl_holdId :: string
  sl_zoneId :: string
  sl_startsAt :: instant
  sl_endsAt :: instant

definition samePrincipal :: "principal_ref \<Rightarrow> principal_ref \<Rightarrow> bool" where
  "samePrincipal a b \<longleftrightarrow>
     pr_kind a = pr_kind b \<and> toLowerCase (pr_subjectId a) = toLowerCase (pr_subjectId b)"

section \<open>The booking\<close>

datatype rejection_reason =
    QUOTE_EXPIRED | QUOTE_REVOKED | QUOTE_INVALID | OBLIGATION_REJECTED | HOLD_EXPIRED
  | HOLD_UNAVAILABLE | DEADLINE_EXCEEDED

datatype cancellation_reason =
  CUSTOMER_REQUEST | OPERATIONS_REQUEST | CUSTOMER_REQUEST_BY_PHONE | SERVICE_UNAVAILABLE

record requested_slot =
  rs_holdId :: string
  rs_holdRevision :: int
  rs_zoneId :: string
  rs_startsAt :: instant
  rs_endsAt :: instant

record booking =
  b_id :: string
  b_beneficiary :: principal_ref
  b_status :: booking_state
  b_rejectionReason :: "rejection_reason option"
  b_paymentMethod :: payment_method
  b_contact :: contact_snapshot
  b_vehicle :: vehicle_snapshot
  b_address :: address_snapshot
  b_quote :: quote_snapshot
  b_requestedSlot :: requested_slot
  b_slot :: "slot_snapshot option"
  b_rescheduledSlot :: "slot_snapshot option"
  b_scheduleRevision :: int
  b_cancellation :: "(cancellation_reason \<times> instant) option"
  b_total :: money
  b_version :: int
  b_createdAt :: instant
  b_updatedAt :: instant
  b_confirmedAt :: "instant option"

record new_booking =
  nb_id :: string
  nb_beneficiary :: principal_ref
  nb_paymentMethod :: payment_method
  nb_contact :: contact_snapshot
  nb_vehicle :: vehicle_snapshot
  nb_address :: address_snapshot
  nb_quote :: quote_snapshot
  nb_requestedSlot :: requested_slot
  nb_now :: instant

definition createBooking :: "new_booking \<Rightarrow> booking_error + booking" where
  "createBooking input =
     (let quote = nb_quote input; vehicle = nb_vehicle input; slot = nb_requestedSlot input in
      if \<not> samePrincipal (qs_beneficiary quote) (nb_beneficiary input)
      then Inl (BookingError QUOTE_MISMATCH None)
      else if qs_vehicleType quote \<noteq> vs_type vehicle
      then Inl (BookingError QUOTE_MISMATCH (Some ''VEHICLE_TYPE_MISMATCH''))
      else if qs_zoneId quote \<noteq> None \<and> qs_zoneId quote \<noteq> Some (rs_zoneId slot)
      then Inl (BookingError QUOTE_MISMATCH (Some ''ZONE_MISMATCH''))
      else if rs_endsAt slot \<le> rs_startsAt slot then Inl (BookingError INVALID_INPUT None)
      else if rs_startsAt slot \<le> nb_now input
      then Inl (BookingError INVALID_INPUT (Some ''SLOT_STARTED''))
      else Inr \<lparr>b_id = nb_id input, b_beneficiary = nb_beneficiary input,
                b_status = PENDING_CONFIRMATION, b_rejectionReason = None,
                b_paymentMethod = nb_paymentMethod input, b_contact = nb_contact input,
                b_vehicle = vehicle, b_address = nb_address input, b_quote = quote,
                b_requestedSlot = slot, b_slot = None, b_rescheduledSlot = None,
                b_scheduleRevision = 1, b_cancellation = None, b_total = qs_total quote,
                b_version = 1, b_createdAt = nb_now input, b_updatedAt = nb_now input,
                b_confirmedAt = None\<rparr>)"

definition matchesRequestedSlot :: "booking \<Rightarrow> slot_snapshot \<Rightarrow> bool" where
  "matchesRequestedSlot b slot \<longleftrightarrow>
     sl_holdId slot = rs_holdId (b_requestedSlot b) \<and>
     sl_zoneId slot = rs_zoneId (b_requestedSlot b) \<and>
     sl_startsAt slot = rs_startsAt (b_requestedSlot b) \<and>
     sl_endsAt slot = rs_endsAt (b_requestedSlot b)"

text \<open>The call of \<^verbatim>\<open>transitionBooking\<close> every operation makes with the booking's own version.\<close>

definition transition_to :: "booking_state \<Rightarrow> booking \<Rightarrow> booking_error + lifecycle_snapshot" where
  "transition_to target b =
     transitionBooking \<lparr>ls_id = b_id b, ls_state = b_status b, ls_version = JsInt (b_version b)\<rparr>
       target (JsInt (b_version b))"

definition version_of :: "lifecycle_snapshot \<Rightarrow> int" where
  "version_of l = (case ls_version l of JsInt v \<Rightarrow> v | JsOther \<Rightarrow> 0)"

definition confirmBooking :: "booking \<Rightarrow> slot_snapshot \<Rightarrow> instant \<Rightarrow> booking_error + booking" where
  "confirmBooking b slot now =
     (if \<not> matchesRequestedSlot b slot then Inl (BookingError INVALID_TRANSITION None)
      else andThen (transition_to CONFIRMED b) (\<lambda>next.
        Inr (b\<lparr>b_status := ls_state next, b_version := version_of next, b_slot := Some slot,
               b_updatedAt := now, b_confirmedAt := Some now\<rparr>)))"

definition rejectBooking :: "booking \<Rightarrow> rejection_reason \<Rightarrow> instant \<Rightarrow> booking_error + booking" where
  "rejectBooking b reason now =
     andThen (transition_to REJECTED b) (\<lambda>next.
     Inr (b\<lparr>b_status := ls_state next, b_version := version_of next,
            b_rejectionReason := Some reason, b_updatedAt := now\<rparr>))"

definition totalMatches :: "booking \<Rightarrow> money \<Rightarrow> bool" where
  "totalMatches b validatedTotal = sameMoney (b_total b) validatedTotal"

definition currentSlot :: "booking \<Rightarrow> slot_snapshot option" where
  "currentSlot b = (case b_rescheduledSlot b of None \<Rightarrow> b_slot b | Some s \<Rightarrow> Some s)"

definition assertChangeable :: "booking \<Rightarrow> int \<Rightarrow> bool \<Rightarrow> booking_error + slot_snapshot" where
  "assertChangeable b expectedRevision changeOpen =
     (if b_status b = CANCELLED then Inl (BookingError BOOKING_CANCELLED None)
      else case currentSlot b of
        None \<Rightarrow> Inl (BookingError BOOKING_NOT_CONFIRMED None)
      | Some slot \<Rightarrow>
        if b_status b \<noteq> CONFIRMED then Inl (BookingError BOOKING_NOT_CONFIRMED None)
        else if changeOpen then Inl (BookingError CHANGE_IN_PROGRESS None)
        else if b_version b \<noteq> expectedRevision then Inl (BookingError REVISION_CONFLICT None)
        else Inr slot)"

definition cancelBooking :: "booking \<Rightarrow> cancellation_reason \<Rightarrow> instant \<Rightarrow> booking_error + booking" where
  "cancelBooking b reason now =
     andThen (transition_to CANCELLED b) (\<lambda>next.
     Inr (b\<lparr>b_status := ls_state next, b_version := version_of next,
            b_cancellation := Some (reason, now), b_updatedAt := now\<rparr>))"

definition rescheduleBooking :: "booking \<Rightarrow> slot_snapshot \<Rightarrow> instant \<Rightarrow> booking_error + booking" where
  "rescheduleBooking b slot now =
     (if b_status b \<noteq> CONFIRMED then Inl (BookingError INVALID_TRANSITION None)
      else Inr (b\<lparr>b_rescheduledSlot := Some slot, b_scheduleRevision := b_scheduleRevision b + 1,
                  b_version := b_version b + 1, b_updatedAt := now\<rparr>))"


section \<open>What the operations do\<close>

text \<open>The transition an operation makes from the booking's own version, and when it is refused.\<close>

definition can_move :: "booking \<Rightarrow> booking_state \<Rightarrow> bool" where
  "can_move b target \<longleftrightarrow>
     1 \<le> b_version b \<and> b_version b < MAX_SAFE_INTEGER \<and> target \<in> set (next_states (b_status b))"

lemma transition_ok:
  "can_move b target \<Longrightarrow> transition_to target b =
     Inr \<lparr>ls_id = b_id b, ls_state = target, ls_version = JsInt (b_version b + 1)\<rparr>"
  by (simp add: transition_to_def transitionBooking_def can_move_def)

lemma transition_refused: "\<not> can_move b target \<Longrightarrow> \<exists>e. transition_to target b = Inl e"
  by (auto simp: transition_to_def transitionBooking_def can_move_def abs_le_iff)

lemma version_of_simp [simp]: "version_of \<lparr>ls_id = i, ls_state = s, ls_version = JsInt v\<rparr> = v"
  by (simp add: version_of_def)

lemma move_Inr:
  "andThen (transition_to target b) (\<lambda>l. Inr (f (ls_state l) (version_of l))) = Inr b' \<longleftrightarrow>
   can_move b target \<and> b' = f target (b_version b + 1)"
  using transition_ok [of b target] transition_refused [of b target]
  by (cases "can_move b target") auto

lemma can_move_simps [simp]:
  "can_move b CONFIRMED \<longleftrightarrow>
     b_status b = PENDING_CONFIRMATION \<and> 1 \<le> b_version b \<and> b_version b < MAX_SAFE_INTEGER"
  "can_move b REJECTED \<longleftrightarrow>
     b_status b = PENDING_CONFIRMATION \<and> 1 \<le> b_version b \<and> b_version b < MAX_SAFE_INTEGER"
  "can_move b CANCELLED \<longleftrightarrow>
     b_status b \<in> {PENDING_CONFIRMATION, CONFIRMED, ASSIGNED, EN_ROUTE, ARRIVED} \<and>
     1 \<le> b_version b \<and> b_version b < MAX_SAFE_INTEGER"
  by (cases "b_status b"; simp add: can_move_def)+

lemma confirmBooking_Inr:
  "confirmBooking b slot now = Inr b' \<longleftrightarrow>
     matchesRequestedSlot b slot \<and> can_move b CONFIRMED \<and>
     b' = b\<lparr>b_status := CONFIRMED, b_version := b_version b + 1, b_slot := Some slot,
            b_updatedAt := now, b_confirmedAt := Some now\<rparr>"
  using move_Inr [of CONFIRMED b "\<lambda>st v. b\<lparr>b_status := st, b_version := v, b_slot := Some slot,
      b_updatedAt := now, b_confirmedAt := Some now\<rparr>" b']
  by (simp only: confirmBooking_def if_distrib) (cases "matchesRequestedSlot b slot"; simp)

lemma rejectBooking_Inr:
  "rejectBooking b reason now = Inr b' \<longleftrightarrow>
     can_move b REJECTED \<and>
     b' = b\<lparr>b_status := REJECTED, b_version := b_version b + 1,
            b_rejectionReason := Some reason, b_updatedAt := now\<rparr>"
  unfolding rejectBooking_def by (rule move_Inr)

lemma cancelBooking_Inr:
  "cancelBooking b reason now = Inr b' \<longleftrightarrow>
     can_move b CANCELLED \<and>
     b' = b\<lparr>b_status := CANCELLED, b_version := b_version b + 1,
            b_cancellation := Some (reason, now), b_updatedAt := now\<rparr>"
  unfolding cancelBooking_def by (rule move_Inr)

lemma rescheduleBooking_Inr:
  "rescheduleBooking b slot now = Inr b' \<longleftrightarrow>
     b_status b = CONFIRMED \<and>
     b' = b\<lparr>b_rescheduledSlot := Some slot, b_scheduleRevision := b_scheduleRevision b + 1,
            b_version := b_version b + 1, b_updatedAt := now\<rparr>"
  by (simp add: rescheduleBooking_def eq_commute [of b'])

lemma assertChangeable_Inr:
  "assertChangeable b revision open_change = Inr slot \<longleftrightarrow>
     b_status b = CONFIRMED \<and> currentSlot b = Some slot \<and> \<not> open_change \<and> b_version b = revision"
  by (auto simp: assertChangeable_def split: option.splits)

lemma createBooking_Inr:
  "createBooking input = Inr b \<Longrightarrow>
     b_status b = PENDING_CONFIRMATION \<and> b_version b = 1 \<and> b_slot b = None \<and>
     b_rescheduledSlot b = None \<and> b_scheduleRevision b = 1 \<and> b_cancellation b = None \<and>
     b_rejectionReason b = None \<and> b_confirmedAt b = None \<and> b_id b = nb_id input \<and>
     b_requestedSlot b = nb_requestedSlot input \<and> b_quote b = nb_quote input \<and>
     b_total b = qs_total (nb_quote input) \<and> b_beneficiary b = nb_beneficiary input \<and>
     b_createdAt b = nb_now input \<and>
     rs_startsAt (nb_requestedSlot input) < rs_endsAt (nb_requestedSlot input) \<and>
     nb_now input < rs_startsAt (nb_requestedSlot input) \<and>
     samePrincipal (qs_beneficiary (nb_quote input)) (nb_beneficiary input) \<and>
     qs_vehicleType (nb_quote input) = vs_type (nb_vehicle input)"
  by (auto simp: createBooking_def Let_def split: if_splits)

section \<open>Money\<close>

text \<open>The money values the code can build: the scale of the currency and 18 digits.\<close>

definition money_ok :: "money \<Rightarrow> bool" where
  "money_ok m \<longleftrightarrow> m_scale m = CURRENCY_SCALE (m_currency m) \<and> \<bar>m_amountMinor m\<bar> < LIMIT"

lemma mk_money_Inr [simp, res_inv]:
  "mk_money c a = Inr m \<longleftrightarrow>
     \<bar>a\<bar> < LIMIT \<and> m = \<lparr>m_currency = c, m_amountMinor = a, m_scale = CURRENCY_SCALE c\<rparr>"
  by (auto simp: mk_money_def)

lemma mk_money_ok: "mk_money c a = Inr m \<Longrightarrow> money_ok m"
  by (auto simp: money_ok_def)

lemma isCurrency_code [simp]: "isCurrency (JString (currency_code c)) = Some c"
  by (cases c) auto

lemma isCurrency_Some: "isCurrency v = Some c \<longleftrightarrow> v = JString (currency_code c)"
  by (cases v; cases c) auto

lemma show_int_nonneg: "0 \<le> n \<Longrightarrow> show_int n = show_nat (nat n)"
  by (simp add: show_int_def)

lemma show_nat_0 [simp]: "show_nat 0 = ''0''"
  using digit_char_simps(3) [of 0] by (simp add: show_nat.simps)

lemma MINOR_show_int: "\<bar>n\<bar> < LIMIT \<Longrightarrow> MINOR (show_int n)"
proof -
  assume n: "\<bar>n\<bar> < LIMIT"
  consider "n = 0" | "0 < n" | "n < 0" by linarith
  then show ?thesis
  proof cases
    case 1
    then show ?thesis by (simp add: MINOR_def show_int_def)
  next
    case 2
    then have "nat n < 10 ^ 18" using n by (simp add: LIMIT_def nat_less_iff)
    with 2 show ?thesis by (simp add: MINOR_def show_int_def positive_digits_show_nat)
  next
    case 3
    then have "nat (- n) < 10 ^ 18" using n by (simp add: LIMIT_def nat_less_iff)
    with 3 show ?thesis by (simp add: MINOR_def show_int_def positive_digits_show_nat)
  qed
qed

lemma show_int_parse_int:
  assumes "MINOR s"
  shows "show_int (parse_int s) = s" and "\<bar>parse_int s\<bar> < LIMIT"
proof -
  consider "s = ''0''" | "positive_digits 18 s" | t where "s = CHR ''-'' # t" "positive_digits 18 t"
    using assms by (cases s) (auto simp: MINOR_def)
  then have "show_int (parse_int s) = s \<and> \<bar>parse_int s\<bar> < LIMIT"
  proof cases
    case 1
    then show ?thesis by (simp add: show_int_def parse_nat_def digit_val_def LIMIT_def)
  next
    case 2
    then have p: "0 < parse_nat s" "show_nat (parse_nat s) = s" using show_nat_parse_nat by blast+
    moreover have "parse_nat s < 10 ^ 18" using 2 p positive_digits_show_nat [of "parse_nat s" 18] by simp
    moreover have "parse_int s = int (parse_nat s)"
      using 2 by (cases s) (auto simp: positive_digits_def is_digit_def in_range_def)
    ultimately show ?thesis by (simp add: show_int_def LIMIT_def)
  next
    case 3
    then have p: "0 < parse_nat t" "show_nat (parse_nat t) = t" using show_nat_parse_nat by blast+
    moreover have "parse_nat t < 10 ^ 18" using 3 p positive_digits_show_nat [of "parse_nat t" 18] by simp
    ultimately show ?thesis using 3 by (simp add: show_int_def LIMIT_def)
  qed
  then show "show_int (parse_int s) = s" and "\<bar>parse_int s\<bar> < LIMIT" by blast+
qed

lemma moneyFromWire_moneyToWire: "money_ok m \<Longrightarrow> moneyFromWire (moneyToWire m) = Inr m"
  by (cases m; cases "m_currency m") (simp_all add: money_ok_def moneyFromWire_def moneyToWire_def
      wire_keys_def MINOR_show_int parse_int_show_int)

text \<open>An accepted wire value is the wire form of the money read from it, up to the order of its keys.\<close>

lemma moneyFromWire_Inr:
  assumes "moneyFromWire (JObject kvs) = Inr m"
  shows "money_ok m" and "length kvs = 3" and
    "\<forall>k \<in> set wire_keys. map_of kvs k =
       map_of [(''currency'', JString (currency_code (m_currency m))),
               (''amountMinor'', JString (show_int (m_amountMinor m))),
               (''scale'', JNumber (JsInt (m_scale m)))] k"
  using assms
  by (auto simp: moneyFromWire_def wire_keys_def isCurrency_Some show_int_parse_int money_ok_def
      split: if_splits option.splits json.splits)

text \<open>A sum is exact, of values of one currency, and refused only when it leaves the range.\<close>

lemma sum_values_Inr:
  "sum_values c vals acc = Inr n \<longleftrightarrow>
     (\<forall>v \<in> set vals. m_currency v = c \<and> m_scale v = CURRENCY_SCALE c) \<and>
     n = acc + sum_list (map m_amountMinor vals)"
  by (induction c vals acc rule: sum_values.induct) auto

lemma sumMoney_Inr:
  "sumMoney c vals = Inr m \<longleftrightarrow>
     (\<forall>v \<in> set vals. m_currency v = c \<and> m_scale v = CURRENCY_SCALE c) \<and>
     \<bar>sum_list (map m_amountMinor vals)\<bar> < LIMIT \<and>
     m = \<lparr>m_currency = c, m_amountMinor = sum_list (map m_amountMinor vals), m_scale = CURRENCY_SCALE c\<rparr>"
  by (auto simp: sumMoney_def sum_values_Inr)

end
