(* ===== verification/Booking_Saga.thy ===== *)
theory Booking_Saga
  imports Complex_Main Booking_Core
begin

text \<open>
  The creation saga of one booking: \<^verbatim>\<open>services/booking/src/domain/saga.ts\<close>. The saga validates
  the quote, creates the billing obligation, commits the hold (the pivot) and, when it has to
  give up with an obligation that may exist, voids it. The functions are pure: an answer of
  another service, the clock and a random number go in, the next saga state comes out.

  A random number is a rational in \<open>[0, 1)\<close> and its product with the ceiling is exact. A
  call out of order throws, which is \<open>Inl (BookingDefect ...)\<close>.
\<close>

section \<open>State\<close>

datatype saga_step =
    VALIDATE_QUOTE | CREATE_OBLIGATION | COMMIT_HOLD | VOID_OBLIGATION | DONE | NEEDS_RECONCILIATION

datatype saga_outcome = CONFIRMED | REJECTED

record saga =
  sg_bookingId :: string
  sg_step :: saga_step
  sg_outcome :: "saga_outcome option"
  sg_pendingRejection :: "rejection_reason option"
  sg_obligationId :: "string option"
  sg_pivotAttempted :: bool
  sg_attempts :: int
  sg_nextAttemptAt :: instant
  sg_deadlineAt :: instant
  sg_lastError :: "string option"
  sg_fence :: int
  sg_version :: int
  sg_updatedAt :: instant

definition deadlineMs :: int where "deadlineMs = 10 * 60000"
definition baseDelayMs :: int where "baseDelayMs = 500"
definition maxDelayBeforePivotMs :: int where "maxDelayBeforePivotMs = 30000"
definition maxDelayAfterPivotMs :: int where "maxDelayAfterPivotMs = 5 * 60000"

definition newSaga :: "string \<Rightarrow> instant \<Rightarrow> saga" where
  "newSaga bookingId now =
     \<lparr>sg_bookingId = bookingId, sg_step = VALIDATE_QUOTE, sg_outcome = None,
      sg_pendingRejection = None, sg_obligationId = None, sg_pivotAttempted = False,
      sg_attempts = 0, sg_nextAttemptAt = now, sg_deadlineAt = now + deadlineMs,
      sg_lastError = None, sg_fence = 0, sg_version = 1, sg_updatedAt = now\<rparr>"

definition isTerminal :: "saga_step \<Rightarrow> bool" where
  "isTerminal step \<longleftrightarrow> step = DONE \<or> step = NEEDS_RECONCILIATION"

section \<open>Moves\<close>

definition backoffMs :: "int \<Rightarrow> bool \<Rightarrow> rat \<Rightarrow> int" where
  "backoffMs attempts afterPivot random =
     (let ceiling = min (if afterPivot then maxDelayAfterPivotMs else maxDelayBeforePivotMs)
                        (baseDelayMs * 2 ^ nat (min (max attempts 0) 16))
      in max 100 \<lfloor>random * of_int ceiling\<rfloor>)"

definition advance :: "saga \<Rightarrow> saga_step \<Rightarrow> instant \<Rightarrow> (saga \<Rightarrow> saga) \<Rightarrow> saga" where
  "advance s step now patch =
     (patch (s\<lparr>sg_step := step, sg_attempts := 0, sg_nextAttemptAt := now, sg_lastError := None\<rparr>))
       \<lparr>sg_version := sg_version s + 1, sg_updatedAt := now\<rparr>"

definition rejectOrCompensate :: "saga \<Rightarrow> rejection_reason \<Rightarrow> instant \<Rightarrow> saga" where
  "rejectOrCompensate s reason now =
     (if sg_step s = CREATE_OBLIGATION \<or> sg_obligationId s \<noteq> None
      then advance s VOID_OBLIGATION now (sg_pendingRejection_update (\<lambda>_. Some reason))
      else advance s DONE now
             (\<lambda>s. s\<lparr>sg_outcome := Some REJECTED, sg_pendingRejection := Some reason\<rparr>))"

definition retry :: "saga \<Rightarrow> string \<Rightarrow> instant \<Rightarrow> rat \<Rightarrow> saga" where
  "retry s error now random =
     (let attempts = sg_attempts s + 1;
          afterPivot = sg_pivotAttempted s \<or> sg_step s = VOID_OBLIGATION
      in s\<lparr>sg_attempts := attempts, sg_lastError := Some error,
           sg_nextAttemptAt := now + backoffMs attempts afterPivot random,
           sg_version := sg_version s + 1, sg_updatedAt := now\<rparr>)"

definition retryBeforePivot :: "saga \<Rightarrow> string \<Rightarrow> instant \<Rightarrow> rat \<Rightarrow> saga" where
  "retryBeforePivot s error now random =
     (if sg_deadlineAt s \<le> now then rejectOrCompensate s DEADLINE_EXCEEDED now
      else retry s error now random)"

fun step_name :: "saga_step \<Rightarrow> string" where
  "step_name VALIDATE_QUOTE = ''VALIDATE_QUOTE''"
| "step_name CREATE_OBLIGATION = ''CREATE_OBLIGATION''"
| "step_name COMMIT_HOLD = ''COMMIT_HOLD''"
| "step_name VOID_OBLIGATION = ''VOID_OBLIGATION''"
| "step_name DONE = ''DONE''"
| "step_name NEEDS_RECONCILIATION = ''NEEDS_RECONCILIATION''"

definition expectStep :: "saga \<Rightarrow> saga_step \<Rightarrow> booking_error + unit" where
  "expectStep s step =
     (if sg_step s \<noteq> step
      then Inl (BookingDefect (''SAGA_STEP_MISMATCH_'' @ step_name (sg_step s) @ ''_'' @ step_name step))
      else Inr ())"

section \<open>Answers\<close>

datatype quote_check = QuoteValid | QuoteInvalid rejection_reason | QuoteUnavailable string

definition onQuoteChecked :: "saga \<Rightarrow> quote_check \<Rightarrow> instant \<Rightarrow> rat \<Rightarrow> booking_error + saga" where
  "onQuoteChecked s result now random =
     andThen (expectStep s VALIDATE_QUOTE) (\<lambda>_. Inr
       (case result of
          QuoteValid \<Rightarrow> advance s CREATE_OBLIGATION now id
        | QuoteInvalid reason \<Rightarrow> rejectOrCompensate s reason now
        | QuoteUnavailable error \<Rightarrow> retryBeforePivot s error now random))"

datatype obligation_result = ObligationCreated string | ObligationRejected | ObligationUnavailable string

definition onObligation :: "saga \<Rightarrow> obligation_result \<Rightarrow> instant \<Rightarrow> rat \<Rightarrow> booking_error + saga" where
  "onObligation s result now random =
     andThen (expectStep s CREATE_OBLIGATION) (\<lambda>_. Inr
       (case result of
          ObligationCreated obligationId \<Rightarrow>
            advance s COMMIT_HOLD now (sg_obligationId_update (\<lambda>_. Some obligationId))
        | ObligationRejected \<Rightarrow>
            advance s DONE now (\<lambda>s. s\<lparr>sg_outcome := Some REJECTED,
                                       sg_pendingRejection := Some OBLIGATION_REJECTED\<rparr>)
        | ObligationUnavailable error \<Rightarrow> retryBeforePivot s error now random))"

definition beginCommit :: "saga \<Rightarrow> instant \<Rightarrow> booking_error + saga" where
  "beginCommit s now =
     andThen (expectStep s COMMIT_HOLD) (\<lambda>_. Inr
       (if sg_pivotAttempted s then s
        else s\<lparr>sg_pivotAttempted := True, sg_version := sg_version s + 1, sg_updatedAt := now\<rparr>))"

datatype commit_refusal = RefusedHoldExpired | RefusedHoldUnavailable

fun refusal_reason :: "commit_refusal \<Rightarrow> rejection_reason" where
  "refusal_reason RefusedHoldExpired = HOLD_EXPIRED"
| "refusal_reason RefusedHoldUnavailable = HOLD_UNAVAILABLE"

datatype commit_result = Committed bool | CommitRefused commit_refusal | CommitUnknown string

definition onCommit :: "saga \<Rightarrow> commit_result \<Rightarrow> instant \<Rightarrow> rat \<Rightarrow> booking_error + saga" where
  "onCommit s result now random =
     andThen (expectStep s COMMIT_HOLD) (\<lambda>_.
       if \<not> sg_pivotAttempted s then Inl (BookingDefect ''SAGA_PIVOT_NOT_RECORDED'')
       else Inr
       (case result of
          Committed matchesRequest \<Rightarrow>
            if \<not> matchesRequest
            then advance s NEEDS_RECONCILIATION now
                   (sg_lastError_update (\<lambda>_. Some ''COMMITTED_SLOT_MISMATCH''))
            else advance s DONE now (sg_outcome_update (\<lambda>_. Some CONFIRMED))
        | CommitRefused refusal \<Rightarrow> rejectOrCompensate s (refusal_reason refusal) now
        | CommitUnknown error \<Rightarrow> retry s error now random))"

datatype void_result = Voided | VoidUnavailable string

definition onVoid :: "saga \<Rightarrow> void_result \<Rightarrow> instant \<Rightarrow> rat \<Rightarrow> booking_error + saga" where
  "onVoid s result now random =
     andThen (expectStep s VOID_OBLIGATION) (\<lambda>_. Inr
       (case result of
          Voided \<Rightarrow> advance s DONE now (sg_outcome_update (\<lambda>_. Some REJECTED))
        | VoidUnavailable error \<Rightarrow> retry s error now random))"

section \<open>Backoff\<close>

definition random_ok :: "rat \<Rightarrow> bool" where
  "random_ok r \<longleftrightarrow> 0 \<le> r \<and> r < 1"

lemma floor_fraction:
  fixes r :: rat
  assumes "random_ok r" and "0 < c"
  shows "\<lfloor>r * of_int c\<rfloor> < c"
proof -
  have "r * of_int c < of_int c" using assms by (simp add: random_ok_def)
  then show ?thesis by (simp add: floor_less_iff)
qed

lemma backoffMs_bounds:
  assumes "random_ok r"
  shows "100 \<le> backoffMs n p r" and
    "backoffMs n p r \<le> (if p then maxDelayAfterPivotMs else maxDelayBeforePivotMs)"
proof -
  define c where "c = min (if p then maxDelayAfterPivotMs else maxDelayBeforePivotMs)
    (baseDelayMs * 2 ^ nat (min (max n 0) 16))"
  have "0 < c" by (simp add: c_def baseDelayMs_def maxDelayAfterPivotMs_def maxDelayBeforePivotMs_def)
  then have "\<lfloor>r * of_int c\<rfloor> < c" using assms by (rule floor_fraction [rotated])
  moreover have "c \<le> (if p then maxDelayAfterPivotMs else maxDelayBeforePivotMs)" by (simp add: c_def)
  moreover have "backoffMs n p r = max 100 \<lfloor>r * of_int c\<rfloor>" by (simp add: backoffMs_def c_def Let_def)
  ultimately show "100 \<le> backoffMs n p r"
    and "backoffMs n p r \<le> (if p then maxDelayAfterPivotMs else maxDelayBeforePivotMs)"
    by (auto simp: maxDelayAfterPivotMs_def maxDelayBeforePivotMs_def)
qed

section \<open>The states a saga can be in\<close>

text \<open>What each step says about the rest of the state.\<close>

fun saga_shape :: "saga_step \<Rightarrow> saga_outcome option \<Rightarrow> rejection_reason option \<Rightarrow> string option \<Rightarrow>
  bool \<Rightarrow> bool" where
  "saga_shape VALIDATE_QUOTE out rej obl piv \<longleftrightarrow> out = None \<and> rej = None \<and> obl = None \<and> \<not> piv"
| "saga_shape CREATE_OBLIGATION out rej obl piv \<longleftrightarrow> out = None \<and> rej = None \<and> obl = None \<and> \<not> piv"
| "saga_shape COMMIT_HOLD out rej obl piv \<longleftrightarrow> out = None \<and> rej = None \<and> obl \<noteq> None"
| "saga_shape VOID_OBLIGATION out rej obl piv \<longleftrightarrow>
     out = None \<and> rej \<noteq> None \<and> (obl \<noteq> None \<longleftrightarrow> piv) \<and> (piv \<longrightarrow> rej \<noteq> Some DEADLINE_EXCEEDED)"
| "saga_shape DONE out rej obl piv \<longleftrightarrow>
     out = Some CONFIRMED \<and> rej = None \<and> obl \<noteq> None \<and> piv \<or>
     out = Some REJECTED \<and> rej \<noteq> None \<and> (obl \<noteq> None \<longleftrightarrow> piv) \<and> (piv \<longrightarrow> rej \<noteq> Some DEADLINE_EXCEEDED)"
| "saga_shape NEEDS_RECONCILIATION out rej obl piv \<longleftrightarrow> out = None \<and> rej = None \<and> obl \<noteq> None \<and> piv"

definition saga_inv :: "saga \<Rightarrow> bool" where
  "saga_inv s \<longleftrightarrow>
     saga_shape (sg_step s) (sg_outcome s) (sg_pendingRejection s) (sg_obligationId s) (sg_pivotAttempted s)"

lemma saga_inv_newSaga [simp]: "saga_inv (newSaga i now)"
  by (simp add: saga_inv_def newSaga_def)

lemmas saga_defs = expectStep_def advance_def rejectOrCompensate_def retryBeforePivot_def retry_def Let_def

lemma expectStep_Inr [simp]: "expectStep s t = Inr u \<longleftrightarrow> sg_step s = t"
  by (simp add: expectStep_def)

lemma onQuoteChecked_inv: "onQuoteChecked s r now rnd = Inr s' \<Longrightarrow> saga_inv s \<Longrightarrow> saga_inv s'"
  by (cases r) (auto simp: onQuoteChecked_def saga_inv_def saga_defs split: if_splits)

lemma onObligation_inv: "onObligation s r now rnd = Inr s' \<Longrightarrow> saga_inv s \<Longrightarrow> saga_inv s'"
  by (cases r) (auto simp: onObligation_def saga_inv_def saga_defs split: if_splits)

lemma beginCommit_inv: "beginCommit s now = Inr s' \<Longrightarrow> saga_inv s \<Longrightarrow> saga_inv s'"
  by (auto simp: beginCommit_def saga_inv_def saga_defs split: if_splits)

lemma refusal_reason_simp [simp]: "refusal_reason x \<noteq> DEADLINE_EXCEEDED"
  by (cases x) auto

lemma onCommit_inv: "onCommit s r now rnd = Inr s' \<Longrightarrow> saga_inv s \<Longrightarrow> saga_inv s'"
  by (cases r) (auto simp: onCommit_def saga_inv_def saga_defs split: if_splits)

lemma onVoid_inv: "onVoid s r now rnd = Inr s' \<Longrightarrow> saga_inv s \<Longrightarrow> saga_inv s'"
  by (cases r) (auto simp: onVoid_def saga_inv_def saga_defs split: if_splits)

end
