(* ===== verification/Booking_Change.thy ===== *)
theory Booking_Change
  imports Booking_Saga
begin

text \<open>
  The change saga of a confirmed booking: \<^verbatim>\<open>services/booking/src/domain/change.ts\<close>. A
  cancellation asks Dispatch (the pivot), then frees the capacity and settles the money; a
  reschedule rebinds the job, replaces the commitment (the pivot), then confirms the binding or,
  when the replace was refused, reverts it.
\<close>

section \<open>State\<close>

datatype change_kind = CANCELLATION | RESCHEDULE

datatype change_step =
    DISPATCH_CANCEL | RELEASE_CAPACITY | SETTLE_BILLING | DISPATCH_REBIND | REPLACE_COMMITMENT
  | DISPATCH_CONFIRM | DISPATCH_REVERT | DONE

datatype change_outcome = COMPLETED | REFUSED | FAILED

definition CUSTOMER_CANCELLATION_REASONS :: "cancellation_reason list" where
  "CUSTOMER_CANCELLATION_REASONS = [CUSTOMER_REQUEST]"

definition STAFF_CANCELLATION_REASONS :: "cancellation_reason list" where
  "STAFF_CANCELLATION_REASONS = [OPERATIONS_REQUEST, CUSTOMER_REQUEST_BY_PHONE, SERVICE_UNAVAILABLE]"

datatype change_refusal =
    WORK_STARTED | WORK_COMPLETED | BOOKING_CANCELLED | HOLD_EXPIRED | HOLD_NOT_ACTIVE
  | HOLD_UNAVAILABLE | DISPATCH_NOT_READY

datatype settlement = PENDING | VOIDED | REFUND_PENDING | NOTHING_DUE

datatype requester_kind = requester_account | requester_guest | requester_staff

record requester =
  rq_kind :: requester_kind
  rq_subjectId :: string

record target_slot =
  ts_slot :: slot_snapshot
  ts_holdRevision :: int
  ts_expiresAt :: instant

record change =
  ch_changeId :: string
  ch_bookingId :: string
  ch_kind :: change_kind
  ch_step :: change_step
  ch_outcome :: "change_outcome option"
  ch_reason :: "cancellation_reason option"
  ch_refusal :: "change_refusal option"
  ch_requester :: requester
  ch_from :: slot_snapshot
  ch_to :: "target_slot option"
  ch_settlement :: "settlement option"
  ch_pivotAttempted :: bool
  ch_attempts :: int
  ch_nextAttemptAt :: instant
  ch_deadlineAt :: "instant option"
  ch_lastError :: "string option"
  ch_attention :: bool
  ch_version :: int
  ch_createdAt :: instant
  ch_updatedAt :: instant
  ch_completedAt :: "instant option"

definition attentionAfterAttempts :: int where
  "attentionAfterAttempts = 8"

definition base_change ::
  "string \<Rightarrow> string \<Rightarrow> change_kind \<Rightarrow> change_step \<Rightarrow> cancellation_reason option \<Rightarrow> requester \<Rightarrow>
   slot_snapshot \<Rightarrow> target_slot option \<Rightarrow> instant option \<Rightarrow> instant \<Rightarrow> change" where
  "base_change changeId bookingId kind step reason who from_slot to_slot deadlineAt now =
     \<lparr>ch_changeId = changeId, ch_bookingId = bookingId, ch_kind = kind, ch_step = step,
      ch_outcome = None, ch_reason = reason, ch_refusal = None, ch_requester = who,
      ch_from = from_slot, ch_to = to_slot,
      ch_settlement = (if kind = CANCELLATION then Some PENDING else None),
      ch_pivotAttempted = False, ch_attempts = 0, ch_nextAttemptAt = now,
      ch_deadlineAt = deadlineAt, ch_lastError = None, ch_attention = False, ch_version = 1,
      ch_createdAt = now, ch_updatedAt = now, ch_completedAt = None\<rparr>"

definition newCancellation ::
  "string \<Rightarrow> string \<Rightarrow> cancellation_reason \<Rightarrow> requester \<Rightarrow> slot_snapshot \<Rightarrow> instant \<Rightarrow> change" where
  "newCancellation changeId bookingId reason who from_slot now =
     base_change changeId bookingId CANCELLATION DISPATCH_CANCEL (Some reason) who from_slot None None now"

definition newReschedule ::
  "string \<Rightarrow> string \<Rightarrow> requester \<Rightarrow> slot_snapshot \<Rightarrow> target_slot \<Rightarrow> instant \<Rightarrow> change" where
  "newReschedule changeId bookingId who from_slot to_slot now =
     base_change changeId bookingId RESCHEDULE DISPATCH_REBIND None who from_slot (Some to_slot)
       (Some (ts_expiresAt to_slot)) now"

definition isChangeOpen :: "change \<Rightarrow> bool" where
  "isChangeOpen c \<longleftrightarrow> ch_step c \<noteq> DONE"

section \<open>Moves\<close>

fun change_step_name :: "change_step \<Rightarrow> string" where
  "change_step_name DISPATCH_CANCEL = ''DISPATCH_CANCEL''"
| "change_step_name RELEASE_CAPACITY = ''RELEASE_CAPACITY''"
| "change_step_name SETTLE_BILLING = ''SETTLE_BILLING''"
| "change_step_name DISPATCH_REBIND = ''DISPATCH_REBIND''"
| "change_step_name REPLACE_COMMITMENT = ''REPLACE_COMMITMENT''"
| "change_step_name DISPATCH_CONFIRM = ''DISPATCH_CONFIRM''"
| "change_step_name DISPATCH_REVERT = ''DISPATCH_REVERT''"
| "change_step_name DONE = ''DONE''"

definition expectChangeStep :: "change \<Rightarrow> change_step \<Rightarrow> booking_error + unit" where
  "expectChangeStep c step =
     (if ch_step c \<noteq> step
      then Inl (BookingDefect (''CHANGE_STEP_MISMATCH_'' @ change_step_name (ch_step c) @ ''_'' @
                               change_step_name step))
      else Inr ())"

definition advance_change :: "change \<Rightarrow> change_step \<Rightarrow> instant \<Rightarrow> (change \<Rightarrow> change) \<Rightarrow> change" where
  "advance_change c step now patch =
     (patch (c\<lparr>ch_step := step, ch_attempts := 0, ch_nextAttemptAt := now, ch_lastError := None,
              ch_attention := False\<rparr>))
       \<lparr>ch_completedAt := (if step = DONE then Some now else ch_completedAt c),
        ch_version := ch_version c + 1, ch_updatedAt := now\<rparr>"

definition retry_change :: "change \<Rightarrow> string \<Rightarrow> instant \<Rightarrow> rat \<Rightarrow> change" where
  "retry_change c error now random =
     (let attempts = ch_attempts c + 1
      in c\<lparr>ch_attempts := attempts, ch_lastError := Some error,
           ch_attention := (ch_attention c \<or> attentionAfterAttempts \<le> attempts),
           ch_nextAttemptAt := now + backoffMs attempts True random,
           ch_version := ch_version c + 1, ch_updatedAt := now\<rparr>)"

definition pastDeadline :: "change \<Rightarrow> instant \<Rightarrow> bool" where
  "pastDeadline c now \<longleftrightarrow>
     \<not> ch_pivotAttempted c \<and> (case ch_deadlineAt c of None \<Rightarrow> False | Some d \<Rightarrow> d \<le> now)"

definition beginPivot :: "change \<Rightarrow> instant \<Rightarrow> change" where
  "beginPivot c now =
     (if ch_pivotAttempted c then c
      else c\<lparr>ch_pivotAttempted := True, ch_version := ch_version c + 1, ch_updatedAt := now\<rparr>)"

section \<open>Cancellation\<close>

datatype work_refusal = RefusedWorkStarted | RefusedWorkCompleted

fun work_refusal_reason :: "work_refusal \<Rightarrow> change_refusal" where
  "work_refusal_reason RefusedWorkStarted = WORK_STARTED"
| "work_refusal_reason RefusedWorkCompleted = WORK_COMPLETED"

datatype dispatch_cancel_result =
    JobCancelled | JobNotOpened | CancelRefused work_refusal | CancelUnknown string

definition onDispatchCancel ::
  "change \<Rightarrow> dispatch_cancel_result \<Rightarrow> instant \<Rightarrow> rat \<Rightarrow> booking_error + change" where
  "onDispatchCancel c result now random =
     andThen (expectChangeStep c DISPATCH_CANCEL) (\<lambda>_. Inr
       (case result of
          JobCancelled \<Rightarrow> advance_change c RELEASE_CAPACITY now id
        | JobNotOpened \<Rightarrow> advance_change c RELEASE_CAPACITY now id
        | CancelRefused reason \<Rightarrow>
            advance_change c DONE now (\<lambda>c. c\<lparr>ch_outcome := Some REFUSED,
              ch_refusal := Some (work_refusal_reason reason), ch_settlement := None\<rparr>)
        | CancelUnknown error \<Rightarrow> retry_change c error now random))"

datatype capacity_release_result = CapacityReleased | CapacityNotCommitted | ReleaseUnknown string

definition onCapacityReleased ::
  "change \<Rightarrow> capacity_release_result \<Rightarrow> instant \<Rightarrow> rat \<Rightarrow> booking_error + change" where
  "onCapacityReleased c result now random =
     andThen (expectChangeStep c RELEASE_CAPACITY) (\<lambda>_. Inr
       (case result of
          CapacityReleased \<Rightarrow> advance_change c SETTLE_BILLING now id
        | CapacityNotCommitted \<Rightarrow>
            advance_change c SETTLE_BILLING now
              (ch_lastError_update (\<lambda>_. Some ''CAPACITY_NOT_COMMITTED''))
        | ReleaseUnknown error \<Rightarrow> retry_change c error now random))"

datatype settled_as = SettledVoided | SettledRefundPending | SettledNothingDue

fun settlement_of :: "settled_as \<Rightarrow> settlement" where
  "settlement_of SettledVoided = VOIDED"
| "settlement_of SettledRefundPending = REFUND_PENDING"
| "settlement_of SettledNothingDue = NOTHING_DUE"

datatype settlement_result = Settled settled_as | SettleUnknown string

definition onSettled ::
  "change \<Rightarrow> settlement_result \<Rightarrow> instant \<Rightarrow> rat \<Rightarrow> booking_error + change" where
  "onSettled c result now random =
     andThen (expectChangeStep c SETTLE_BILLING) (\<lambda>_. Inr
       (case result of
          Settled s \<Rightarrow>
            advance_change c DONE now (\<lambda>c. c\<lparr>ch_outcome := Some COMPLETED,
              ch_settlement := Some (settlement_of s)\<rparr>)
        | SettleUnknown error \<Rightarrow> retry_change c error now random))"

section \<open>Reschedule\<close>

datatype rebind_refusal = RebindWorkStarted | RebindWorkCompleted | RebindBookingCancelled

fun rebind_refusal_reason :: "rebind_refusal \<Rightarrow> change_refusal" where
  "rebind_refusal_reason RebindWorkStarted = WORK_STARTED"
| "rebind_refusal_reason RebindWorkCompleted = WORK_COMPLETED"
| "rebind_refusal_reason RebindBookingCancelled = BOOKING_CANCELLED"

datatype rebind_result = Rebound | RebindRefused rebind_refusal | RebindNotReady | RebindUnknown string

definition onRebind :: "change \<Rightarrow> rebind_result \<Rightarrow> instant \<Rightarrow> rat \<Rightarrow> booking_error + change" where
  "onRebind c result now random =
     andThen (expectChangeStep c DISPATCH_REBIND) (\<lambda>_. Inr
       (case result of
          Rebound \<Rightarrow> advance_change c REPLACE_COMMITMENT now id
        | RebindRefused reason \<Rightarrow>
            advance_change c DONE now (\<lambda>c. c\<lparr>ch_outcome := Some REFUSED,
              ch_refusal := Some (rebind_refusal_reason reason)\<rparr>)
        | RebindNotReady \<Rightarrow>
            if pastDeadline c now
            then advance_change c DISPATCH_REVERT now (ch_refusal_update (\<lambda>_. Some DISPATCH_NOT_READY))
            else retry_change c ''DISPATCH_NOT_READY'' now random
        | RebindUnknown error \<Rightarrow>
            if pastDeadline c now
            then advance_change c DISPATCH_REVERT now (ch_refusal_update (\<lambda>_. Some HOLD_EXPIRED))
            else retry_change c error now random))"

datatype replace_refusal = ReplaceHoldExpired | ReplaceHoldNotActive | ReplaceHoldUnavailable

fun replace_refusal_reason :: "replace_refusal \<Rightarrow> change_refusal" where
  "replace_refusal_reason ReplaceHoldExpired = HOLD_EXPIRED"
| "replace_refusal_reason ReplaceHoldNotActive = HOLD_NOT_ACTIVE"
| "replace_refusal_reason ReplaceHoldUnavailable = HOLD_UNAVAILABLE"

datatype replace_result = Replaced slot_snapshot | ReplaceRefused replace_refusal | ReplaceUnknown string

definition onReplace :: "change \<Rightarrow> replace_result \<Rightarrow> instant \<Rightarrow> rat \<Rightarrow> booking_error + change" where
  "onReplace c result now random =
     andThen (expectChangeStep c REPLACE_COMMITMENT) (\<lambda>_.
       if \<not> ch_pivotAttempted c then Inl (BookingDefect ''CHANGE_PIVOT_NOT_RECORDED'')
       else Inr
       (case result of
          Replaced slot \<Rightarrow> advance_change c DISPATCH_CONFIRM now id
        | ReplaceRefused reason \<Rightarrow>
            advance_change c DISPATCH_REVERT now
              (ch_refusal_update (\<lambda>_. Some (replace_refusal_reason reason)))
        | ReplaceUnknown error \<Rightarrow> retry_change c error now random))"

datatype confirm_result = JobConfirmed | ConfirmUnknown string

definition onConfirm :: "change \<Rightarrow> confirm_result \<Rightarrow> instant \<Rightarrow> rat \<Rightarrow> booking_error + change" where
  "onConfirm c result now random =
     andThen (expectChangeStep c DISPATCH_CONFIRM) (\<lambda>_. Inr
       (case result of
          JobConfirmed \<Rightarrow> advance_change c DONE now (ch_outcome_update (\<lambda>_. Some COMPLETED))
        | ConfirmUnknown error \<Rightarrow> retry_change c error now random))"

datatype revert_result = JobReverted | RevertUnknown string

definition onRevert :: "change \<Rightarrow> revert_result \<Rightarrow> instant \<Rightarrow> rat \<Rightarrow> booking_error + change" where
  "onRevert c result now random =
     andThen (expectChangeStep c DISPATCH_REVERT) (\<lambda>_. Inr
       (case result of
          JobReverted \<Rightarrow> advance_change c DONE now (ch_outcome_update (\<lambda>_. Some FAILED))
        | RevertUnknown error \<Rightarrow> retry_change c error now random))"

definition isPivotExit :: "change \<Rightarrow> change \<Rightarrow> bool" where
  "isPivotExit before after \<longleftrightarrow>
     (ch_step before = DISPATCH_CANCEL \<and> ch_step after = RELEASE_CAPACITY) \<or>
     (ch_step before = REPLACE_COMMITMENT \<and> ch_step after = DISPATCH_CONFIRM)"

section \<open>The states a change can be in\<close>

text \<open>
  Which outcome, refusal and settlement go with each step. They are the CHECK constraints of
  the change table: a refused or failed change has a refusal, a completed one none.
\<close>

fun change_shape :: "change_kind \<Rightarrow> change_step \<Rightarrow> change_outcome option \<Rightarrow> change_refusal option \<Rightarrow>
  settlement option \<Rightarrow> bool \<Rightarrow> bool" where
  "change_shape CANCELLATION DISPATCH_CANCEL out refused stl piv \<longleftrightarrow>
     out = None \<and> refused = None \<and> stl = Some PENDING \<and> \<not> piv"
| "change_shape CANCELLATION RELEASE_CAPACITY out refused stl piv \<longleftrightarrow>
     out = None \<and> refused = None \<and> stl = Some PENDING \<and> \<not> piv"
| "change_shape CANCELLATION SETTLE_BILLING out refused stl piv \<longleftrightarrow>
     out = None \<and> refused = None \<and> stl = Some PENDING \<and> \<not> piv"
| "change_shape CANCELLATION DONE out refused stl piv \<longleftrightarrow>
     \<not> piv \<and>
     (out = Some COMPLETED \<and> refused = None \<and> stl \<noteq> None \<and> stl \<noteq> Some PENDING \<or>
      out = Some REFUSED \<and> refused \<in> {Some WORK_STARTED, Some WORK_COMPLETED} \<and> stl = None)"
| "change_shape RESCHEDULE DISPATCH_REBIND out refused stl piv \<longleftrightarrow>
     out = None \<and> refused = None \<and> stl = None \<and> \<not> piv"
| "change_shape RESCHEDULE REPLACE_COMMITMENT out refused stl piv \<longleftrightarrow>
     out = None \<and> refused = None \<and> stl = None"
| "change_shape RESCHEDULE DISPATCH_CONFIRM out refused stl piv \<longleftrightarrow>
     out = None \<and> refused = None \<and> stl = None \<and> piv"
| "change_shape RESCHEDULE DISPATCH_REVERT out refused stl piv \<longleftrightarrow>
     out = None \<and> refused \<noteq> None \<and> stl = None \<and> (refused = Some DISPATCH_NOT_READY \<longrightarrow> \<not> piv)"
| "change_shape RESCHEDULE DONE out refused stl piv \<longleftrightarrow>
     stl = None \<and>
     (out = Some COMPLETED \<and> refused = None \<and> piv \<or>
      out = Some REFUSED \<and> refused \<noteq> None \<and> \<not> piv \<or>
      out = Some FAILED \<and> refused \<noteq> None \<and> (refused = Some DISPATCH_NOT_READY \<longrightarrow> \<not> piv))"
| "change_shape _ _ _ _ _ _ \<longleftrightarrow> False"

fun request_shape :: "change_kind \<Rightarrow> cancellation_reason option \<Rightarrow> target_slot option \<Rightarrow>
  instant option \<Rightarrow> bool" where
  "request_shape CANCELLATION reason to_slot deadline \<longleftrightarrow> reason \<noteq> None \<and> to_slot = None \<and> deadline = None"
| "request_shape RESCHEDULE reason to_slot deadline \<longleftrightarrow>
     reason = None \<and> (\<exists>t. to_slot = Some t \<and> deadline = Some (ts_expiresAt t))"

definition request_ok :: "change \<Rightarrow> bool" where
  "request_ok c \<longleftrightarrow> request_shape (ch_kind c) (ch_reason c) (ch_to c) (ch_deadlineAt c)"

definition shape_of :: "change \<Rightarrow> bool" where
  "shape_of c \<longleftrightarrow>
     change_shape (ch_kind c) (ch_step c) (ch_outcome c) (ch_refusal c) (ch_settlement c)
       (ch_pivotAttempted c)"

definition change_inv :: "change \<Rightarrow> bool" where
  "change_inv c \<longleftrightarrow>
     shape_of c \<and> (ch_completedAt c \<noteq> None \<longleftrightarrow> ch_step c = DONE) \<and> request_ok c \<and> 0 \<le> ch_attempts c"

lemma change_inv_new [simp]:
  "change_inv (newCancellation i b r q f now)"
  "change_inv (newReschedule i b q f t now)"
  by (simp_all add: change_inv_def shape_of_def request_ok_def newCancellation_def newReschedule_def base_change_def)

lemmas change_defs = expectChangeStep_def advance_change_def retry_change_def Let_def

lemma expectChangeStep_Inr [simp]: "expectChangeStep c t = Inr u \<longleftrightarrow> ch_step c = t"
  by (simp add: expectChangeStep_def)

lemma settlement_of_simp [simp]: "settlement_of s \<noteq> PENDING"
  by (cases s) auto

lemma work_refusal_simp [simp]:
  "work_refusal_reason w = WORK_STARTED \<or> work_refusal_reason w = WORK_COMPLETED"
  by (cases w) auto

lemma replace_refusal_simp [simp]: "replace_refusal_reason w \<noteq> DISPATCH_NOT_READY"
  by (cases w) auto

lemma rebind_refusal_simp [simp]: "rebind_refusal_reason w \<noteq> DISPATCH_NOT_READY"
  by (cases w) auto

lemma change_inv_shape: "change_inv c \<Longrightarrow> shape_of c"
  by (simp add: change_inv_def)

text \<open>An answer keeps the shape: the step the handler expects fixes the kind and the other fields.\<close>

lemma change_inv_step:
  assumes "change_inv c"
  shows "ch_step c \<in> {DISPATCH_CANCEL, RELEASE_CAPACITY, SETTLE_BILLING} \<Longrightarrow> ch_kind c = CANCELLATION"
    and "ch_step c \<in> {DISPATCH_REBIND, REPLACE_COMMITMENT, DISPATCH_CONFIRM, DISPATCH_REVERT} \<Longrightarrow>
         ch_kind c = RESCHEDULE"
  using change_inv_shape [OF assms] by (cases "ch_kind c"; force simp: shape_of_def)+

lemma change_inv_retry [simp]: "change_inv c \<Longrightarrow> change_inv (retry_change c e now rnd)"
  by (simp add: change_inv_def shape_of_def request_ok_def retry_change_def Let_def)

text \<open>What a patch may write, and what it must leave.\<close>

definition patches_answer :: "(change \<Rightarrow> change) \<Rightarrow> bool" where
  "patches_answer patch \<longleftrightarrow>
     (\<forall>c. ch_kind (patch c) = ch_kind c \<and> ch_reason (patch c) = ch_reason c \<and>
          ch_to (patch c) = ch_to c \<and> ch_deadlineAt (patch c) = ch_deadlineAt c \<and>
          ch_attempts (patch c) = ch_attempts c)"

lemma change_inv_advance:
  assumes "change_inv c" and "ch_step c \<noteq> DONE" and "patches_answer patch"
    and "shape_of (advance_change c step now patch)"
    and "\<And>c. ch_step (patch c) = ch_step c"
  shows "change_inv (advance_change c step now patch)"
  using assms by (simp add: change_inv_def request_ok_def patches_answer_def advance_change_def)

lemma patches_answer_simps [simp]:
  "patches_answer id"
  "patches_answer (ch_lastError_update f)"
  "patches_answer (ch_outcome_update g)"
  "patches_answer (ch_refusal_update h)"
  "patches_answer (\<lambda>c. c\<lparr>ch_outcome := out, ch_settlement := stl\<rparr>)"
  "patches_answer (\<lambda>c. c\<lparr>ch_outcome := out, ch_refusal := rf\<rparr>)"
  "patches_answer (\<lambda>c. c\<lparr>ch_outcome := out, ch_refusal := rf, ch_settlement := stl\<rparr>)"
  by (simp_all add: patches_answer_def)

lemma shape_of_advance:
  "shape_of (advance_change c step now patch) \<longleftrightarrow>
   (let c' = patch (c\<lparr>ch_step := step, ch_attempts := 0, ch_nextAttemptAt := now,
                      ch_lastError := None, ch_attention := False\<rparr>)
    in change_shape (ch_kind c') (ch_step c') (ch_outcome c') (ch_refusal c') (ch_settlement c')
         (ch_pivotAttempted c'))"
  by (simp add: advance_change_def shape_of_def Let_def)

lemma beginPivot_inv:
  assumes inv: "change_inv c" and s: "ch_step c = REPLACE_COMMITMENT"
  shows "change_inv (beginPivot c now)"
proof -
  have "ch_kind c = RESCHEDULE" using change_inv_step(2) [OF inv] s by simp
  with inv s show ?thesis by (simp add: beginPivot_def change_inv_def shape_of_def request_ok_def)
qed

lemma onDispatchCancel_inv:
  assumes r: "onDispatchCancel c ans now rnd = Inr c'" and inv: "change_inv c"
  shows "change_inv c'"
proof -
  have s: "ch_step c = DISPATCH_CANCEL" using r by (simp add: onDispatchCancel_def)
  with change_inv_step [OF inv] have "ch_kind c = CANCELLATION" by simp
  with r s inv change_inv_shape [OF inv, unfolded shape_of_def] show ?thesis
    by (cases ans) (auto simp: onDispatchCancel_def shape_of_advance intro!: change_inv_advance split: if_splits)
qed

lemma onCapacityReleased_inv:
  assumes r: "onCapacityReleased c ans now rnd = Inr c'" and inv: "change_inv c"
  shows "change_inv c'"
proof -
  have s: "ch_step c = RELEASE_CAPACITY" using r by (simp add: onCapacityReleased_def)
  with change_inv_step [OF inv] have "ch_kind c = CANCELLATION" by simp
  with r s inv change_inv_shape [OF inv, unfolded shape_of_def] show ?thesis
    by (cases ans) (auto simp: onCapacityReleased_def shape_of_advance intro!: change_inv_advance split: if_splits)
qed

lemma onSettled_inv:
  assumes r: "onSettled c ans now rnd = Inr c'" and inv: "change_inv c"
  shows "change_inv c'"
proof -
  have s: "ch_step c = SETTLE_BILLING" using r by (simp add: onSettled_def)
  with change_inv_step [OF inv] have "ch_kind c = CANCELLATION" by simp
  with r s inv change_inv_shape [OF inv, unfolded shape_of_def] show ?thesis
    by (cases ans) (auto simp: onSettled_def shape_of_advance intro!: change_inv_advance split: if_splits)
qed

lemma onRebind_inv:
  assumes r: "onRebind c ans now rnd = Inr c'" and inv: "change_inv c"
  shows "change_inv c'"
proof -
  have s: "ch_step c = DISPATCH_REBIND" using r by (simp add: onRebind_def)
  with change_inv_step [OF inv] have "ch_kind c = RESCHEDULE" by simp
  with r s inv change_inv_shape [OF inv, unfolded shape_of_def] show ?thesis
    by (cases ans) (auto simp: onRebind_def shape_of_advance intro!: change_inv_advance split: if_splits)
qed

lemma onReplace_inv:
  assumes r: "onReplace c ans now rnd = Inr c'" and inv: "change_inv c"
  shows "change_inv c'"
proof -
  have s: "ch_step c = REPLACE_COMMITMENT" using r by (simp add: onReplace_def)
  with change_inv_step [OF inv] have "ch_kind c = RESCHEDULE" by simp
  with r s inv change_inv_shape [OF inv, unfolded shape_of_def] show ?thesis
    by (cases ans) (auto simp: onReplace_def shape_of_advance intro!: change_inv_advance split: if_splits)
qed

lemma onConfirm_inv:
  assumes r: "onConfirm c ans now rnd = Inr c'" and inv: "change_inv c"
  shows "change_inv c'"
proof -
  have s: "ch_step c = DISPATCH_CONFIRM" using r by (simp add: onConfirm_def)
  with change_inv_step [OF inv] have "ch_kind c = RESCHEDULE" by simp
  with r s inv change_inv_shape [OF inv, unfolded shape_of_def] show ?thesis
    by (cases ans) (auto simp: onConfirm_def shape_of_advance intro!: change_inv_advance split: if_splits)
qed

lemma onRevert_inv:
  assumes r: "onRevert c ans now rnd = Inr c'" and inv: "change_inv c"
  shows "change_inv c'"
proof -
  have s: "ch_step c = DISPATCH_REVERT" using r by (simp add: onRevert_def)
  with change_inv_step [OF inv] have "ch_kind c = RESCHEDULE" by simp
  with r s inv change_inv_shape [OF inv, unfolded shape_of_def] show ?thesis
    by (cases ans) (auto simp: onRevert_def shape_of_advance intro!: change_inv_advance split: if_splits)
qed

end
