(* ===== verification/Booking_Events.thy ===== *)
theory Booking_Events
  imports Booking_Change
begin

text \<open>
  The events Booking puts in its outbox: \<^verbatim>\<open>services/booking/src/domain/events.ts\<close>. An ISO
  timestamp of an event is the instant it prints.
\<close>

datatype event_actor_kind = actor_account | actor_guest | actor_service | actor_system

record booking_event_actor =
  ea_kind :: event_actor_kind
  ea_id :: "string option"

record envelope =
  en_eventId :: string
  en_eventType :: string
  en_occurredAt :: instant
  en_correlationId :: string
  en_causationId :: "string option"
  en_traceparent :: "string option"
  en_aggregateId :: string
  en_aggregateVersion :: int
  en_actor :: booking_event_actor

record created_data =
  cd_beneficiary :: principal_ref
  cd_zoneId :: string
  cd_startsAt :: instant
  cd_endsAt :: instant
  cd_holdId :: string
  cd_quoteId :: string
  cd_quoteRevision :: int
  cd_total :: json
  cd_paymentMethod :: payment_method

record cancelled_data =
  xd_changeId :: string
  xd_reason :: cancellation_reason
  xd_holdId :: string
  xd_zoneId :: string
  xd_startsAt :: instant
  xd_endsAt :: instant
  xd_paymentMethod :: payment_method
  xd_total :: json

record rescheduled_data =
  rd_changeId :: string
  rd_scheduleRevision :: int
  rd_previous :: "string \<times> instant \<times> instant"
  rd_current :: slot_snapshot

datatype booking_event =
    BookingCreatedV1 envelope created_data
  | BookingCancelledV1 envelope cancelled_data
  | BookingRescheduledV1 envelope rescheduled_data

definition BOOKING_CREATED_V1 :: string where "BOOKING_CREATED_V1 = ''booking.created.v1''"
definition BOOKING_CANCELLED_V1 :: string where "BOOKING_CANCELLED_V1 = ''booking.cancelled.v1''"
definition BOOKING_RESCHEDULED_V1 :: string where "BOOKING_RESCHEDULED_V1 = ''booking.rescheduled.v1''"

text \<open>\<^verbatim>\<open>TRACEPARENT\<close>: version 00, a trace id and a parent id that are not all zeros, two flag digits.\<close>

definition lower_hex :: "char \<Rightarrow> bool" where
  "lower_hex c \<longleftrightarrow> is_digit c \<or> in_range CHR ''a'' CHR ''f'' c"

definition TRACEPARENT :: "string \<Rightarrow> bool" where
  "TRACEPARENT s \<longleftrightarrow>
     length s = 55 \<and> take 3 s = ''00-'' \<and>
     list_all lower_hex (take 32 (drop 3 s)) \<and> take 32 (drop 3 s) \<noteq> replicate 32 CHR ''0'' \<and>
     s ! 35 = CHR ''-'' \<and>
     list_all lower_hex (take 16 (drop 36 s)) \<and> take 16 (drop 36 s) \<noteq> replicate 16 CHR ''0'' \<and>
     s ! 52 = CHR ''-'' \<and> list_all lower_hex (drop 53 s)"

definition valid_traceparent :: "string option \<Rightarrow> string option" where
  "valid_traceparent t = (case t of None \<Rightarrow> None | Some s \<Rightarrow> if TRACEPARENT s then Some s else None)"

definition event_uuid :: "string \<Rightarrow> booking_error + string" where
  "event_uuid v = (if \<not> isUuid v then Inl (BookingDefect ''INVALID_EVENT_UUID'') else Inr v)"

fun optional_uuid :: "string option \<Rightarrow> booking_error + string option" where
  "optional_uuid None = Inr None"
| "optional_uuid (Some v) = andThen (event_uuid v) (\<lambda>u. Inr (Some u))"

fun principal_actor :: "booking_principal_kind \<Rightarrow> event_actor_kind" where
  "principal_actor account = actor_account"
| "principal_actor guest = actor_guest"

definition bookingCreatedEvent ::
  "string \<Rightarrow> string \<Rightarrow> string option \<Rightarrow> string option \<Rightarrow> booking \<Rightarrow> booking_error + booking_event" where
  "bookingCreatedEvent eventId correlationId causationId traceparent b =
     (case (b_slot b, b_confirmedAt b) of
        (Some slot, Some confirmedAt) \<Rightarrow>
          if b_status b \<noteq> booking_state.CONFIRMED then Inl (BookingDefect ''BOOKING_NOT_CONFIRMED'')
          else
            andThen (event_uuid eventId) (\<lambda>eid.
            andThen (event_uuid correlationId) (\<lambda>cid.
            andThen (optional_uuid causationId) (\<lambda>cause.
            andThen (event_uuid (b_id b)) (\<lambda>aid.
            andThen (event_uuid (pr_subjectId (b_beneficiary b))) (\<lambda>actor.
            andThen (event_uuid (sl_zoneId slot)) (\<lambda>zone.
            andThen (event_uuid (sl_holdId slot)) (\<lambda>holdId.
            andThen (event_uuid (qs_quoteId (b_quote b))) (\<lambda>quoteId.
            Inr (BookingCreatedV1
              \<lparr>en_eventId = eid, en_eventType = BOOKING_CREATED_V1, en_occurredAt = confirmedAt,
               en_correlationId = cid, en_causationId = cause,
               en_traceparent = valid_traceparent traceparent,
               en_aggregateId = aid, en_aggregateVersion = b_version b,
               en_actor = \<lparr>ea_kind = principal_actor (pr_kind (b_beneficiary b)), ea_id = Some actor\<rparr>\<rparr>
              \<lparr>cd_beneficiary = b_beneficiary b, cd_zoneId = zone, cd_startsAt = sl_startsAt slot,
               cd_endsAt = sl_endsAt slot, cd_holdId = holdId, cd_quoteId = quoteId,
               cd_quoteRevision = qs_revision (b_quote b), cd_total = moneyToWire (b_total b),
               cd_paymentMethod = b_paymentMethod b\<rparr>)))))))))
      | _ \<Rightarrow> Inl (BookingDefect ''BOOKING_NOT_CONFIRMED''))"

definition changeActor :: "requester \<Rightarrow> booking_error + booking_event_actor" where
  "changeActor who =
     andThen (event_uuid (rq_subjectId who)) (\<lambda>u.
     Inr \<lparr>ea_kind = (if rq_kind who = requester_guest then actor_guest else actor_account), ea_id = Some u\<rparr>)"

definition head ::
  "string \<Rightarrow> string \<Rightarrow> string \<Rightarrow> string option \<Rightarrow> booking \<Rightarrow> change \<Rightarrow> booking_error + envelope" where
  "head eventType eventId correlationId traceparent b c =
     andThen (event_uuid eventId) (\<lambda>eid.
     andThen (event_uuid correlationId) (\<lambda>cid.
     andThen (event_uuid (b_id b)) (\<lambda>aid.
     andThen (changeActor (ch_requester c)) (\<lambda>actor.
     Inr \<lparr>en_eventId = eid, en_eventType = eventType, en_occurredAt = b_updatedAt b,
          en_correlationId = cid, en_causationId = None,
          en_traceparent = valid_traceparent traceparent,
          en_aggregateId = aid, en_aggregateVersion = b_version b, en_actor = actor\<rparr>))))"

definition bookingCancelledEvent ::
  "string \<Rightarrow> string \<Rightarrow> string option \<Rightarrow> booking \<Rightarrow> change \<Rightarrow> booking_error + booking_event" where
  "bookingCancelledEvent eventId correlationId traceparent b c =
     (case b_cancellation b of
        None \<Rightarrow> Inl (BookingDefect ''BOOKING_NOT_CANCELLED'')
      | Some (reason, cancelledAt) \<Rightarrow>
        if b_status b \<noteq> booking_state.CANCELLED then Inl (BookingDefect ''BOOKING_NOT_CANCELLED'')
        else
          andThen (head BOOKING_CANCELLED_V1 eventId correlationId traceparent b c) (\<lambda>h.
          andThen (event_uuid (ch_changeId c)) (\<lambda>changeId.
          andThen (event_uuid (sl_holdId (ch_from c))) (\<lambda>holdId.
          andThen (event_uuid (sl_zoneId (ch_from c))) (\<lambda>zoneId.
          Inr (BookingCancelledV1 h
            \<lparr>xd_changeId = changeId, xd_reason = reason, xd_holdId = holdId, xd_zoneId = zoneId,
             xd_startsAt = sl_startsAt (ch_from c), xd_endsAt = sl_endsAt (ch_from c),
             xd_paymentMethod = b_paymentMethod b, xd_total = moneyToWire (b_total b)\<rparr>))))))"

definition bookingRescheduledEvent ::
  "string \<Rightarrow> string \<Rightarrow> string option \<Rightarrow> booking \<Rightarrow> change \<Rightarrow> booking_error + booking_event" where
  "bookingRescheduledEvent eventId correlationId traceparent b c =
     (case (b_rescheduledSlot b, ch_to c) of
        (Some current, Some target) \<Rightarrow>
          if sl_holdId current \<noteq> sl_holdId (ts_slot target)
          then Inl (BookingDefect ''BOOKING_NOT_RESCHEDULED'')
          else
            andThen (head BOOKING_RESCHEDULED_V1 eventId correlationId traceparent b c) (\<lambda>h.
            andThen (event_uuid (ch_changeId c)) (\<lambda>changeId.
            andThen (event_uuid (sl_holdId (ch_from c))) (\<lambda>previous.
            andThen (event_uuid (sl_holdId current)) (\<lambda>holdId.
            andThen (event_uuid (sl_zoneId current)) (\<lambda>zoneId.
            Inr (BookingRescheduledV1 h
              \<lparr>rd_changeId = changeId, rd_scheduleRevision = b_scheduleRevision b,
               rd_previous = (previous, sl_startsAt (ch_from c), sl_endsAt (ch_from c)),
               rd_current = current\<lparr>sl_holdId := holdId, sl_zoneId := zoneId\<rparr>\<rparr>))))))
      | _ \<Rightarrow> Inl (BookingDefect ''BOOKING_NOT_RESCHEDULED''))"

section \<open>What an event says\<close>

fun created_for :: "booking_event \<Rightarrow> string option" where
  "created_for (BookingCreatedV1 h d) = Some (en_aggregateId h)"
| "created_for _ = None"

fun cancelled_for :: "booking_event \<Rightarrow> string option" where
  "cancelled_for (BookingCancelledV1 h d) = Some (en_aggregateId h)"
| "cancelled_for _ = None"

fun rescheduled_for :: "booking_event \<Rightarrow> (string \<times> int) option" where
  "rescheduled_for (BookingRescheduledV1 h d) = Some (en_aggregateId h, rd_scheduleRevision d)"
| "rescheduled_for _ = None"

lemma event_uuid_Inr [simp, res_inv]: "event_uuid v = Inr u \<longleftrightarrow> isUuid v \<and> u = v"
  by (auto simp: event_uuid_def)

lemma bookingCreatedEvent_Inr:
  assumes "bookingCreatedEvent eid cid cause tp b = Inr e"
  shows "\<exists>h d slot. e = BookingCreatedV1 h d \<and> b_status b = booking_state.CONFIRMED \<and> b_slot b = Some slot \<and>
           en_aggregateId h = b_id b \<and> en_aggregateVersion h = b_version b \<and>
           cd_holdId d = sl_holdId slot \<and> cd_startsAt d = sl_startsAt slot \<and>
           cd_endsAt d = sl_endsAt slot \<and> cd_total d = moneyToWire (b_total b)"
  using assms by (auto simp: bookingCreatedEvent_def split: option.splits if_splits)

lemma created_for_created: "bookingCreatedEvent eid cid cause tp b = Inr e \<Longrightarrow> created_for e = Some (b_id b)"
  by (drule bookingCreatedEvent_Inr) auto

lemma head_aggregate: "head t eid cid tp b c = Inr h \<Longrightarrow> en_aggregateId h = b_id b"
  by (auto simp: head_def)

lemma created_for_cancelled:
  "bookingCancelledEvent eid cid tp b c = Inr e \<Longrightarrow> created_for e = None \<and> cancelled_for e = Some (b_id b)
     \<and> rescheduled_for e = None"
  by (auto simp: bookingCancelledEvent_def head_aggregate split: option.splits if_splits)

lemma created_for_rescheduled:
  "bookingRescheduledEvent eid cid tp b c = Inr e \<Longrightarrow> created_for e = None \<and> cancelled_for e = None \<and>
     rescheduled_for e = Some (b_id b, b_scheduleRevision b)"
  by (auto simp: bookingRescheduledEvent_def head_aggregate split: option.splits if_splits)

end
