(* ===== verification/Booking_Store.thy ===== *)
theory Booking_Store
  imports "HOL-Library.List_Lexorder" "HOL-Library.Char_ord" "HOL-Library.Product_Lexorder" Fenced_Leases Booking_Events
begin

text \<open>
  The booking database and the statements of its two stores:
  \<^verbatim>\<open>services/booking/src/infrastructure/persistence/prisma-booking.store.ts\<close> and
  \<^verbatim>\<open>prisma-change.store.ts\<close>. A method is one transaction; a statement that throws rolls
  its transaction back.

  A booking row is kept as the booking \<^verbatim>\<open>toBooking\<close> (\<^verbatim>\<open>snapshot-codec.ts\<close>) reads
  from it: the hold and zone of its slots are columns of the row, so an update writes the times
  only. A saga or change row also has the fence and the lease of the worker that drives it. The
  unique indexes of the migration that the code relies on are modelled; the CHECK constraints
  and triggers, which only refuse states the domain does not produce, are not.
\<close>

section \<open>Rows\<close>

datatype actor =
    UserActor booking_principal_kind string "string list"
  | SystemActor string

datatype audit_details =
    CreateDetails booking_state string string vehicle_source payment_method
  | SagaDetails booking_state "rejection_reason option" "string option" "string option"
  | RequestDetails string requester_kind "cancellation_reason option" "string option"
  | PivotDetails string int int "string option"
  | ChangeDetails string change_kind "change_outcome option" "change_refusal option"
      "settlement option" "string option"

record audit_fact =
  af_action :: string
  af_actor :: actor
  af_bookingId :: string
  af_correlationId :: string
  af_details :: audit_details

record booking_record =
  br_booking :: booking
  br_saga :: saga
  br_correlationId :: string

record saga_row =
  sr_saga :: saga
  sr_leaseOwner :: "string option"
  sr_leaseUntil :: "instant option"
  sr_correlationId :: string

record request_key =
  rk_principalKind :: booking_principal_kind
  rk_subject :: string
  rk_key :: string
  rk_fingerprint :: string

datatype request_state = CAPTURING | BOUND

record request_row =
  rr_scope :: "booking_principal_kind \<times> string \<times> string"
  rr_fingerprint :: string
  rr_bookingId :: string
  rr_state :: request_state
  rr_fence :: int
  rr_leaseUntil :: instant

record change_row =
  cr_change :: change
  cr_key :: string
  cr_fingerprint :: string
  cr_fence :: int
  cr_leaseOwner :: "string option"
  cr_leaseUntil :: "instant option"
  cr_correlationId :: string

record schedule_row =
  sd_bookingId :: string
  sd_revision :: int
  sd_changeId :: string
  sd_previousHoldId :: string
  sd_slot :: slot_snapshot
  sd_createdAt :: instant

record booking_db =
  bk_bookings :: "booking list"
  bk_sagas :: "saga_row list"
  bk_requests :: "request_row list"
  bk_changes :: "change_row list"
  bk_schedules :: "schedule_row list"
  bk_outbox :: "booking_event list"
  bk_audit :: "audit_fact list"

definition empty_booking_db :: booking_db where
  "empty_booking_db =
     \<lparr>bk_bookings = [], bk_sagas = [], bk_requests = [], bk_changes = [], bk_schedules = [],
      bk_outbox = [], bk_audit = []\<rparr>"

definition sr_bookingId :: "saga_row \<Rightarrow> string" where
  "sr_bookingId r = sg_bookingId (sr_saga r)"

definition cr_changeId :: "change_row \<Rightarrow> string" where
  "cr_changeId r = ch_changeId (cr_change r)"

definition append_audit :: "audit_fact \<Rightarrow> booking_db \<Rightarrow> booking_db" where
  "append_audit entry db = db\<lparr>bk_audit := bk_audit db @ [entry]\<rparr>"

definition append_event :: "booking_event option \<Rightarrow> booking_db \<Rightarrow> booking_db" where
  "append_event e db = (case e of None \<Rightarrow> db | Some ev \<Rightarrow> db\<lparr>bk_outbox := bk_outbox db @ [ev]\<rparr>)"

section \<open>Request claims\<close>

datatype request_claim =
    NewClaim string int | TakenOver string int | BoundClaim string | InProgress | Conflict

definition scope_of :: "request_key \<Rightarrow> booking_principal_kind \<times> string \<times> string" where
  "scope_of k = (rk_principalKind k, rk_subject k, rk_key k)"

text \<open>One round of \<^verbatim>\<open>claimRequest\<close>: \<open>None\<close> asks for another round.\<close>

definition claim_round ::
  "request_key \<Rightarrow> string \<Rightarrow> instant \<Rightarrow> int \<Rightarrow> booking_db \<Rightarrow> request_claim option \<times> booking_db" where
  "claim_round k candidate now leaseMs db =
     (if (\<forall>r \<in> set (bk_requests db). rr_scope r \<noteq> scope_of k \<and> rr_bookingId r \<noteq> candidate)
      then (Some (NewClaim candidate 1),
            db\<lparr>bk_requests := bk_requests db @
              [\<lparr>rr_scope = scope_of k, rr_fingerprint = rk_fingerprint k, rr_bookingId = candidate,
                rr_state = CAPTURING, rr_fence = 1, rr_leaseUntil = now + leaseMs\<rparr>]\<rparr>)
      else (case find_row rr_scope (scope_of k) (bk_requests db) of
              None \<Rightarrow> (None, db)
            | Some existing \<Rightarrow>
              if rr_fingerprint existing \<noteq> rk_fingerprint k then (Some Conflict, db)
              else if rr_state existing = BOUND then (Some (BoundClaim (rr_bookingId existing)), db)
              else if now < rr_leaseUntil existing then (Some InProgress, db)
              else (Some (TakenOver (rr_bookingId existing) (rr_fence existing + 1)),
                    db\<lparr>bk_requests := update_rows (\<lambda>r. rr_scope r = scope_of k)
                         (\<lambda>r. r\<lparr>rr_fence := rr_fence r + 1, rr_leaseUntil := now + leaseMs\<rparr>)
                         (bk_requests db)\<rparr>)))"

fun claim_rounds ::
  "nat \<Rightarrow> request_key \<Rightarrow> string \<Rightarrow> instant \<Rightarrow> int \<Rightarrow> booking_db \<Rightarrow> request_claim \<times> booking_db" where
  "claim_rounds 0 k candidate now leaseMs db = (InProgress, db)"
| "claim_rounds (Suc n) k candidate now leaseMs db =
     (case claim_round k candidate now leaseMs db of
        (Some claim, db') \<Rightarrow> (claim, db')
      | (None, db') \<Rightarrow> claim_rounds n k candidate now leaseMs db')"

definition claimRequest ::
  "request_key \<Rightarrow> string \<Rightarrow> instant \<Rightarrow> int \<Rightarrow> booking_db \<Rightarrow> request_claim \<times> booking_db" where
  "claimRequest k candidate now leaseMs db = claim_rounds 3 k candidate now leaseMs db"

definition abandonRequest :: "request_key \<Rightarrow> int \<Rightarrow> booking_db \<Rightarrow> booking_db" where
  "abandonRequest k fence db =
     db\<lparr>bk_requests := filter (\<lambda>r. \<not> (rr_scope r = scope_of k \<and> rr_fence r = fence \<and> rr_state r = CAPTURING))
          (bk_requests db)\<rparr>"

datatype insert_result = CREATED | HOLD_TAKEN | QUOTE_TAKEN | CLAIM_LOST

definition live :: "booking \<Rightarrow> bool" where
  "live b \<longleftrightarrow> b_status b \<noteq> booking_state.REJECTED"

definition hold_of :: "booking \<Rightarrow> string" where
  "hold_of b = rs_holdId (b_requestedSlot b)"

definition quote_of :: "booking \<Rightarrow> string" where
  "quote_of b = qs_quoteId (b_quote b)"

text \<open>The primary key and the two partial unique indexes \<^verbatim>\<open>ON CONFLICT DO NOTHING\<close> covers.\<close>

definition booking_conflict :: "booking \<Rightarrow> booking list \<Rightarrow> bool" where
  "booking_conflict b rows \<longleftrightarrow>
     (\<exists>r \<in> set rows. b_id r = b_id b \<or>
        (live b \<and> live r \<and> (hold_of r = hold_of b \<or> quote_of r = quote_of b)))"

definition insertBooking ::
  "booking \<Rightarrow> saga \<Rightarrow> request_key \<Rightarrow> int \<Rightarrow> audit_fact \<Rightarrow> booking_db \<Rightarrow> insert_result \<times> booking_db" where
  "insertBooking b s k fence audit db =
     (case find_row rr_scope (scope_of k) (bk_requests db) of
        None \<Rightarrow> (CLAIM_LOST, db)
      | Some request \<Rightarrow>
        if rr_state request \<noteq> CAPTURING \<or> rr_fence request \<noteq> fence \<or> rr_bookingId request \<noteq> b_id b
        then (CLAIM_LOST, db)
        else if booking_conflict b (bk_bookings db)
        then (if \<exists>r \<in> set (bk_bookings db). hold_of r = hold_of b \<and> live r
              then (HOLD_TAKEN, db) else (QUOTE_TAKEN, db))
        else (CREATED,
              append_audit audit
               (db\<lparr>bk_bookings := bk_bookings db @ [b],
                   bk_sagas := bk_sagas db @
                     [\<lparr>sr_saga = \<lparr>sg_bookingId = sg_bookingId s, sg_step = sg_step s, sg_outcome = None,
                        sg_pendingRejection = None, sg_obligationId = None, sg_pivotAttempted = False,
                        sg_attempts = 0, sg_nextAttemptAt = sg_nextAttemptAt s,
                        sg_deadlineAt = sg_deadlineAt s, sg_lastError = None, sg_fence = 0,
                        sg_version = sg_version s, sg_updatedAt = sg_updatedAt s\<rparr>,
                       sr_leaseOwner = None, sr_leaseUntil = None,
                       sr_correlationId = af_correlationId audit\<rparr>],
                   bk_requests := update_rows (\<lambda>r. rr_scope r = scope_of k) (rr_state_update (\<lambda>_. BOUND))
                     (bk_requests db)\<rparr>)))"

section \<open>Creation sagas\<close>

definition find_booking :: "string \<Rightarrow> booking_db \<Rightarrow> booking_record option" where
  "find_booking bookingId db =
     (case (find_row b_id bookingId (bk_bookings db), find_row sr_bookingId bookingId (bk_sagas db)) of
        (Some b, Some r) \<Rightarrow>
          Some \<lparr>br_booking = b, br_saga = sr_saga r, br_correlationId = sr_correlationId r\<rparr>
      | _ \<Rightarrow> None)"

definition saga_live :: "saga_step \<Rightarrow> bool" where
  "saga_live step \<longleftrightarrow> step \<in> {VALIDATE_QUOTE, CREATE_OBLIGATION, COMMIT_HOLD, VOID_OBLIGATION}"

definition lease_free :: "instant option \<Rightarrow> instant \<Rightarrow> bool" where
  "lease_free leaseUntil now \<longleftrightarrow> (case leaseUntil of None \<Rightarrow> True | Some t \<Rightarrow> t \<le> now)"

definition take_lease :: "string \<Rightarrow> instant \<Rightarrow> saga_row \<Rightarrow> saga_row" where
  "take_lease owner leaseUntil r =
     r\<lparr>sr_saga := (sr_saga r)\<lparr>sg_fence := sg_fence (sr_saga r) + 1\<rparr>,
       sr_leaseOwner := Some owner, sr_leaseUntil := Some leaseUntil\<rparr>"

text \<open>The \<^verbatim>\<open>UPDATE ... RETURNING fence\<close> of \<^verbatim>\<open>leaseSaga\<close>; reading the record is a second statement.\<close>

definition lease_update ::
  "string \<Rightarrow> string \<Rightarrow> instant \<Rightarrow> int \<Rightarrow> booking_db \<Rightarrow> lease option \<times> booking_db" where
  "lease_update bookingId owner now leaseMs db =
     (let hit = (\<lambda>r. sr_bookingId r = bookingId \<and> saga_live (sg_step (sr_saga r)) \<and>
                     lease_free (sr_leaseUntil r) now)
      in case find hit (bk_sagas db) of
           None \<Rightarrow> (None, db)
         | Some r \<Rightarrow>
             (Some \<lparr>le_owner = owner, le_fence = sg_fence (sr_saga r) + 1\<rparr>,
              db\<lparr>bk_sagas := update_rows hit (take_lease owner (now + leaseMs)) (bk_sagas db)\<rparr>))"

definition leaseSaga ::
  "string \<Rightarrow> string \<Rightarrow> instant \<Rightarrow> int \<Rightarrow> booking_db \<Rightarrow> (booking_record \<times> lease) option \<times> booking_db" where
  "leaseSaga bookingId owner now leaseMs db =
     (case lease_update bookingId owner now leaseMs db of
        (None, db') \<Rightarrow> (None, db')
      | (Some l, db') \<Rightarrow>
          (case find_booking bookingId db' of
             None \<Rightarrow> (None, db')
           | Some rec \<Rightarrow> (Some (rec, l), db')))"

text \<open>\<^verbatim>\<open>leaseDue\<close>: the due sagas in the order of their next attempt, at most \<open>limit\<close> of them.\<close>

definition saga_due :: "instant \<Rightarrow> saga_row \<Rightarrow> bool" where
  "saga_due now r \<longleftrightarrow>
     saga_live (sg_step (sr_saga r)) \<and> sg_nextAttemptAt (sr_saga r) \<le> now \<and> lease_free (sr_leaseUntil r) now"

definition due_sagas :: "instant \<Rightarrow> nat \<Rightarrow> booking_db \<Rightarrow> saga_row list" where
  "due_sagas now limit db =
     take limit (sort_key (\<lambda>r. (sg_nextAttemptAt (sr_saga r), sr_bookingId r)) (filter (saga_due now) (bk_sagas db)))"

text \<open>The \<^verbatim>\<open>UPDATE ... RETURNING\<close> of \<^verbatim>\<open>leaseDue\<close>: the booking and the lease of each row taken.\<close>

definition due_update ::
  "string \<Rightarrow> instant \<Rightarrow> int \<Rightarrow> nat \<Rightarrow> booking_db \<Rightarrow> (string \<times> lease) list \<times> booking_db" where
  "due_update owner now leaseMs limit db =
     (let due = due_sagas now limit db;
          ids = map sr_bookingId due
      in (map (\<lambda>r. (sr_bookingId r, \<lparr>le_owner = owner, le_fence = sg_fence (sr_saga r) + 1\<rparr>)) due,
          db\<lparr>bk_sagas := update_rows (\<lambda>r. sr_bookingId r \<in> set ids)
               (take_lease owner (now + leaseMs)) (bk_sagas db)\<rparr>))"

definition leaseDue ::
  "string \<Rightarrow> instant \<Rightarrow> int \<Rightarrow> nat \<Rightarrow> booking_db \<Rightarrow> (booking_record \<times> lease) list \<times> booking_db" where
  "leaseDue owner now leaseMs limit db =
     (let (leased, db') = due_update owner now leaseMs limit db
      in (List.map_filter (\<lambda>(i, l). map_option (\<lambda>rec. (rec, l)) (find_booking i db')) leased, db'))"

definition truncated :: "string option \<Rightarrow> string option" where
  "truncated e = map_option (take 64) e"

definition saga_fenced :: "saga \<Rightarrow> lease \<Rightarrow> saga_row \<Rightarrow> bool" where
  "saga_fenced s l r \<longleftrightarrow>
     sr_bookingId r = sg_bookingId s \<and> sg_fence (sr_saga r) = le_fence l \<and> sr_leaseOwner r = Some (le_owner l)"

definition written_saga :: "saga \<Rightarrow> bool \<Rightarrow> int \<Rightarrow> saga_row \<Rightarrow> saga_row" where
  "written_saga s release leaseMs r =
     r\<lparr>sr_saga := s\<lparr>sg_fence := sg_fence (sr_saga r), sg_lastError := truncated (sg_lastError s)\<rparr>,
       sr_leaseOwner := (if release then None else sr_leaseOwner r),
       sr_leaseUntil := (if release then None else Some (sg_updatedAt s + leaseMs))\<rparr>"

definition writeSaga :: "saga \<Rightarrow> lease \<Rightarrow> bool \<Rightarrow> int \<Rightarrow> booking_db \<Rightarrow> bool \<times> booking_db" where
  "writeSaga s l release leaseMs db =
     (length (filter (saga_fenced s l) (bk_sagas db)) = 1,
      db\<lparr>bk_sagas := update_rows (saga_fenced s l) (written_saga s release leaseMs) (bk_sagas db)\<rparr>)"

definition saveSaga :: "saga \<Rightarrow> lease \<Rightarrow> bool \<Rightarrow> int \<Rightarrow> booking_db \<Rightarrow> bool \<times> booking_db" where
  "saveSaga s l release leaseMs db = writeSaga s l release leaseMs db"

text \<open>The columns the finishing transaction writes.\<close>

definition stored_slot :: "booking \<Rightarrow> slot_snapshot \<Rightarrow> slot_snapshot" where
  "stored_slot row slot =
     slot\<lparr>sl_holdId := rs_holdId (b_requestedSlot row), sl_zoneId := rs_zoneId (b_requestedSlot row)\<rparr>"

definition finished_row :: "booking \<Rightarrow> booking \<Rightarrow> booking" where
  "finished_row b row =
     row\<lparr>b_status := b_status b, b_rejectionReason := b_rejectionReason b,
         b_slot := map_option (stored_slot row) (b_slot b), b_confirmedAt := b_confirmedAt b,
         b_version := b_version b, b_updatedAt := b_updatedAt b\<rparr>"

definition update_booking ::
  "(booking \<Rightarrow> booking \<Rightarrow> booking) \<Rightarrow> booking \<Rightarrow> int \<Rightarrow> booking_db \<Rightarrow> booking_error + booking_db" where
  "update_booking columns b expectedVersion db =
     (let hit = (\<lambda>row. b_id row = b_id b \<and> b_version row = expectedVersion)
      in if length (filter hit (bk_bookings db)) \<noteq> 1
         then Inl (BookingDefect ''BOOKING_VERSION_MISMATCH'')
         else Inr (db\<lparr>bk_bookings := update_rows hit (columns b) (bk_bookings db)\<rparr>))"

text \<open>
  \<^verbatim>\<open>finish\<close>: a lost lease is \<open>Inr False\<close> and a stale booking version throws; both roll
  the transaction back.
\<close>

definition finish ::
  "saga \<Rightarrow> lease \<Rightarrow> booking \<Rightarrow> int \<Rightarrow> booking_event option \<Rightarrow> audit_fact \<Rightarrow> int \<Rightarrow> booking_db \<Rightarrow>
   (booking_error + bool) \<times> booking_db" where
  "finish s l b expectedVersion event audit leaseMs db =
     (case writeSaga s l True leaseMs db of
        (False, _) \<Rightarrow> (Inr False, db)
      | (True, db1) \<Rightarrow>
          (case (if b_version b \<noteq> expectedVersion then update_booking finished_row b expectedVersion db1
                 else Inr db1) of
             Inl e \<Rightarrow> (Inl e, db)
           | Inr db2 \<Rightarrow> (Inr True, append_audit audit (append_event event db2))))"

section \<open>Changes\<close>

datatype insert_change_result =
    ChangeCreated | ChangeReplay string | ChangeIdempotencyConflict | ChangeInProgress
  | ChangeRevisionConflict

definition byKey :: "requester \<Rightarrow> string \<Rightarrow> booking_db \<Rightarrow> change_row option" where
  "byKey who key db = find (\<lambda>r. ch_requester (cr_change r) = who \<and> cr_key r = key) (bk_changes db)"

definition findByKey :: "requester \<Rightarrow> string \<Rightarrow> booking_db \<Rightarrow> (string \<times> string) option" where
  "findByKey who key db = map_option (\<lambda>r. (cr_changeId r, cr_fingerprint r)) (byKey who key db)"

definition findChange :: "string \<Rightarrow> booking_db \<Rightarrow> (change \<times> string) option" where
  "findChange changeId db =
     map_option (\<lambda>r. (cr_change r, cr_correlationId r)) (find_row cr_changeId changeId (bk_changes db))"

definition open_change_of :: "string \<Rightarrow> change_row \<Rightarrow> bool" where
  "open_change_of bookingId r \<longleftrightarrow> ch_bookingId (cr_change r) = bookingId \<and> ch_outcome (cr_change r) = None"

definition findOpenChange :: "string \<Rightarrow> booking_db \<Rightarrow> change option" where
  "findOpenChange bookingId db = map_option cr_change (find (open_change_of bookingId) (bk_changes db))"

text \<open>The row an insert writes: a change starts without outcome, refusal, attempts or error.\<close>

definition inserted_change :: "change \<Rightarrow> change" where
  "inserted_change c =
     c\<lparr>ch_outcome := None, ch_refusal := None, ch_pivotAttempted := False, ch_attempts := 0,
       ch_lastError := None, ch_attention := False, ch_updatedAt := ch_createdAt c,
       ch_completedAt := None,
       ch_to := map_option (ts_slot_update (sl_zoneId_update (\<lambda>_. sl_zoneId (ch_from c)))) (ch_to c)\<rparr>"

definition change_conflict :: "change \<Rightarrow> string \<Rightarrow> change_row list \<Rightarrow> bool" where
  "change_conflict c key rows \<longleftrightarrow>
     (\<exists>r \<in> set rows. cr_changeId r = ch_changeId c \<or> open_change_of (ch_bookingId c) r \<or>
        (ch_requester (cr_change r) = ch_requester c \<and> cr_key r = key))"

definition insertChange ::
  "change \<Rightarrow> string \<Rightarrow> string \<Rightarrow> int \<Rightarrow> string \<Rightarrow> audit_fact \<Rightarrow> booking_db \<Rightarrow>
   insert_change_result \<times> booking_db" where
  "insertChange c key fp expectedVersion correlationId audit db =
     (case byKey (ch_requester c) key db of
        Some replay \<Rightarrow>
          (if cr_fingerprint replay = fp then ChangeReplay (cr_changeId replay)
           else ChangeIdempotencyConflict, db)
      | None \<Rightarrow>
          (case find_row b_id (ch_bookingId c) (bk_bookings db) of
             None \<Rightarrow> (ChangeRevisionConflict, db)
           | Some b \<Rightarrow>
             if b_version b \<noteq> expectedVersion then (ChangeRevisionConflict, db)
             else if change_conflict c key (bk_changes db) then (ChangeInProgress, db)
             else (ChangeCreated,
                   append_audit audit
                    (db\<lparr>bk_changes := bk_changes db @
                      [\<lparr>cr_change = inserted_change c, cr_key = key, cr_fingerprint = fp, cr_fence = 0,
                        cr_leaseOwner = None, cr_leaseUntil = None,
                        cr_correlationId = correlationId\<rparr>]\<rparr>))))"

definition take_change_lease :: "string \<Rightarrow> instant \<Rightarrow> change_row \<Rightarrow> change_row" where
  "take_change_lease owner leaseUntil r =
     r\<lparr>cr_fence := cr_fence r + 1, cr_leaseOwner := Some owner, cr_leaseUntil := Some leaseUntil\<rparr>"

definition change_lease_update ::
  "string \<Rightarrow> string \<Rightarrow> instant \<Rightarrow> int \<Rightarrow> booking_db \<Rightarrow> lease option \<times> booking_db" where
  "change_lease_update changeId owner now leaseMs db =
     (let hit = (\<lambda>r. cr_changeId r = changeId \<and> ch_outcome (cr_change r) = None \<and>
                     lease_free (cr_leaseUntil r) now)
      in case find hit (bk_changes db) of
           None \<Rightarrow> (None, db)
         | Some r \<Rightarrow>
             (Some \<lparr>le_owner = owner, le_fence = cr_fence r + 1\<rparr>,
              db\<lparr>bk_changes := update_rows hit (take_change_lease owner (now + leaseMs)) (bk_changes db)\<rparr>))"

definition leaseChange ::
  "string \<Rightarrow> string \<Rightarrow> instant \<Rightarrow> int \<Rightarrow> booking_db \<Rightarrow> ((change \<times> string) \<times> lease) option \<times> booking_db" where
  "leaseChange changeId owner now leaseMs db =
     (case change_lease_update changeId owner now leaseMs db of
        (None, db') \<Rightarrow> (None, db')
      | (Some l, db') \<Rightarrow> (map_option (\<lambda>rec. (rec, l)) (findChange changeId db'), db'))"

definition change_due :: "instant \<Rightarrow> change_row \<Rightarrow> bool" where
  "change_due now r \<longleftrightarrow>
     ch_outcome (cr_change r) = None \<and> ch_nextAttemptAt (cr_change r) \<le> now \<and> lease_free (cr_leaseUntil r) now"

definition due_changes_update ::
  "string \<Rightarrow> instant \<Rightarrow> int \<Rightarrow> nat \<Rightarrow> booking_db \<Rightarrow> (string \<times> lease) list \<times> booking_db" where
  "due_changes_update owner now leaseMs limit db =
     (let due = take limit (sort_key (\<lambda>r. (ch_nextAttemptAt (cr_change r), cr_changeId r))
                              (filter (change_due now) (bk_changes db)));
          ids = map cr_changeId due
      in (map (\<lambda>r. (cr_changeId r, \<lparr>le_owner = owner, le_fence = cr_fence r + 1\<rparr>)) due,
          db\<lparr>bk_changes := update_rows (\<lambda>r. cr_changeId r \<in> set ids)
               (take_change_lease owner (now + leaseMs)) (bk_changes db)\<rparr>))"

definition leaseDueChanges ::
  "string \<Rightarrow> instant \<Rightarrow> int \<Rightarrow> nat \<Rightarrow> booking_db \<Rightarrow> ((change \<times> string) \<times> lease) list \<times> booking_db" where
  "leaseDueChanges owner now leaseMs limit db =
     (let (leased, db') = due_changes_update owner now leaseMs limit db
      in (List.map_filter (\<lambda>(i, l). map_option (\<lambda>rec. (rec, l)) (findChange i db')) leased, db'))"

definition change_fenced :: "change \<Rightarrow> lease \<Rightarrow> change_row \<Rightarrow> bool" where
  "change_fenced c l r \<longleftrightarrow>
     cr_changeId r = ch_changeId c \<and> cr_fence r = le_fence l \<and> cr_leaseOwner r = Some (le_owner l)"

text \<open>The columns \<^verbatim>\<open>writeChange\<close> sets; the request itself is never written again.\<close>

definition written_change :: "change \<Rightarrow> bool \<Rightarrow> int \<Rightarrow> change_row \<Rightarrow> change_row" where
  "written_change c release leaseMs r =
     r\<lparr>cr_change := (cr_change r)
         \<lparr>ch_step := ch_step c, ch_outcome := ch_outcome c, ch_refusal := ch_refusal c,
          ch_settlement := ch_settlement c, ch_pivotAttempted := ch_pivotAttempted c,
          ch_attempts := ch_attempts c, ch_nextAttemptAt := ch_nextAttemptAt c,
          ch_lastError := truncated (ch_lastError c), ch_attention := ch_attention c,
          ch_version := ch_version c, ch_updatedAt := ch_updatedAt c,
          ch_completedAt := ch_completedAt c\<rparr>,
       cr_leaseOwner := (if release then None else cr_leaseOwner r),
       cr_leaseUntil := (if release then None else Some (ch_updatedAt c + leaseMs))\<rparr>"

definition writeChange :: "change \<Rightarrow> lease \<Rightarrow> bool \<Rightarrow> int \<Rightarrow> booking_db \<Rightarrow> bool \<times> booking_db" where
  "writeChange c l release leaseMs db =
     (length (filter (change_fenced c l) (bk_changes db)) = 1,
      db\<lparr>bk_changes := update_rows (change_fenced c l) (written_change c release leaseMs) (bk_changes db)\<rparr>)"

definition saveChange :: "change \<Rightarrow> lease \<Rightarrow> bool \<Rightarrow> int \<Rightarrow> booking_db \<Rightarrow> bool \<times> booking_db" where
  "saveChange c l release leaseMs db = writeChange c l release leaseMs db"

definition changed_row :: "booking \<Rightarrow> booking \<Rightarrow> booking" where
  "changed_row b row =
     row\<lparr>b_status := b_status b, b_cancellation := b_cancellation b,
         b_scheduleRevision := b_scheduleRevision b,
         b_rescheduledSlot := map_option (sl_zoneId_update (\<lambda>_. rs_zoneId (b_requestedSlot row)))
                                (b_rescheduledSlot b),
         b_version := b_version b, b_updatedAt := b_updatedAt b\<rparr>"

text \<open>The unique indexes of the moved schedule: one live booking per hold, one schedule per revision and change.\<close>

definition schedule_hold_taken :: "booking \<Rightarrow> booking_db \<Rightarrow> bool" where
  "schedule_hold_taken b db \<longleftrightarrow>
     (case b_rescheduledSlot b of None \<Rightarrow> False | Some slot \<Rightarrow>
        (\<exists>r \<in> set (bk_bookings db). b_id r \<noteq> b_id b \<and> live r \<and>
           map_option sl_holdId (b_rescheduledSlot r) = Some (sl_holdId slot)))"

definition append_schedule :: "change \<Rightarrow> booking \<Rightarrow> booking_db \<Rightarrow> booking_error + booking_db" where
  "append_schedule c b db =
     (case b_rescheduledSlot b of
        None \<Rightarrow> Inr db
      | Some slot \<Rightarrow>
        if ch_kind c \<noteq> RESCHEDULE then Inr db
        else if \<exists>r \<in> set (bk_schedules db).
             (sd_bookingId r = b_id b \<and> sd_revision r = b_scheduleRevision b) \<or>
             sd_changeId r = ch_changeId c
        then Inl (BookingDefect ''UNIQUE_VIOLATION'')
        else Inr (db\<lparr>bk_schedules := bk_schedules db @
               [\<lparr>sd_bookingId = b_id b, sd_revision = b_scheduleRevision b,
                 sd_changeId = ch_changeId c, sd_previousHoldId = sl_holdId (ch_from c),
                 sd_slot = slot, sd_createdAt = b_updatedAt b\<rparr>]\<rparr>))"

definition applyChange ::
  "change \<Rightarrow> lease \<Rightarrow> bool \<Rightarrow> (booking \<times> int) option \<Rightarrow> booking_event option \<Rightarrow> audit_fact option \<Rightarrow> int \<Rightarrow>
   booking_db \<Rightarrow> (booking_error + bool) \<times> booking_db" where
  "applyChange c l release upd event audit leaseMs db =
     (case writeChange c l release leaseMs db of
        (False, _) \<Rightarrow> (Inr False, db)
      | (True, db1) \<Rightarrow>
          (case (case upd of
                   None \<Rightarrow> Inr db1
                 | Some (b, expectedVersion) \<Rightarrow>
                     andThen (update_booking changed_row b expectedVersion db1) (\<lambda>db2.
                     if schedule_hold_taken b db1 then Inl (BookingDefect ''UNIQUE_VIOLATION'')
                     else append_schedule c b db2)) of
             Inl e \<Rightarrow> (Inl e, db)
           | Inr db3 \<Rightarrow>
               (Inr True, (case audit of None \<Rightarrow> id | Some a \<Rightarrow> append_audit a) (append_event event db3))))"

section \<open>Both tables are fenced\<close>

definition saga_image :: "saga \<Rightarrow> saga" where
  "saga_image s = s\<lparr>sg_fence := 0, sg_lastError := truncated (sg_lastError s)\<rparr>"

lemma truncated_idem [simp]: "truncated (truncated e) = truncated e"
  by (cases e) (simp_all add: truncated_def)

interpretation sagas: fenced_table sr_bookingId "\<lambda>r. sg_fence (sr_saga r)" sr_leaseOwner
  "\<lambda>r. saga_image (sr_saga r)" saga_image sg_bookingId "\<lambda>_ _. True" take_lease written_saga
  by unfold_locales (simp_all add: sr_bookingId_def take_lease_def written_saga_def saga_image_def)

lemma saga_fenced_eq: "saga_fenced = sagas.fenced"
  by (intro ext) (auto simp: saga_fenced_def sagas.fenced_def sagas.holds_def)

text \<open>The fields of a change that its request fixed, and its copy as the row holds it.\<close>

definition same_request :: "change \<Rightarrow> change \<Rightarrow> bool" where
  "same_request c c' \<longleftrightarrow>
     ch_changeId c' = ch_changeId c \<and> ch_bookingId c' = ch_bookingId c \<and> ch_kind c' = ch_kind c \<and>
     ch_reason c' = ch_reason c \<and> ch_requester c' = ch_requester c \<and> ch_from c' = ch_from c \<and>
     ch_to c' = ch_to c \<and> ch_deadlineAt c' = ch_deadlineAt c \<and> ch_createdAt c' = ch_createdAt c"

definition change_image :: "change \<Rightarrow> change" where
  "change_image c = c\<lparr>ch_lastError := truncated (ch_lastError c)\<rparr>"

lemma change_image_fields [simp]:
  "change_image c = change_image c' \<Longrightarrow> same_request c c'"
  by (cases c; cases c') (simp add: change_image_def same_request_def)

interpretation changes: fenced_table cr_changeId cr_fence cr_leaseOwner
  "\<lambda>r. change_image (cr_change r)" change_image ch_changeId same_request take_change_lease written_change
proof unfold_locales
  fix r :: change_row and x0 x rel ms
  assume i: "change_image (cr_change r) = change_image x0" and "same_request x0 x"
  then have "same_request (cr_change r) x"
    using change_image_fields [OF i] by (simp add: same_request_def)
  then show "change_image (cr_change (written_change x rel ms r)) = change_image x"
    by (cases x; cases "cr_change r") (simp add: written_change_def change_image_def same_request_def)
qed (simp_all add: cr_changeId_def take_change_lease_def written_change_def change_image_def)

lemma change_fenced_eq: "change_fenced = changes.fenced"
  by (intro ext) (auto simp: change_fenced_def changes.fenced_def changes.holds_def)

end
