(* ===== verification/Booking_Manager.thy ===== *)
theory Booking_Manager
  imports Booking_Store
begin

text \<open>
  The process manager that executes the creation saga:
  \<^verbatim>\<open>services/booking/src/application/process-manager.ts\<close>. What the other services, the clock
  and the random source give during one iteration of the loop is a \<open>step_env\<close>; only the
  answer of the call the step makes is used. A defect the code throws is \<open>Inl\<close>, and a lost
  lease is \<open>None\<close> in place of the next saga state.
\<close>

section \<open>What an iteration sees\<close>

datatype quote_validation = ValidTotal money | InvalidQuote rejection_reason | QuoteServiceDown string
datatype hold_commit = HoldCommitted slot_snapshot | HoldRefused commit_refusal | HoldUnknown string

record step_env =
  se_loopNow :: instant
  se_random :: rat
  se_markNow :: instant
  se_quote :: quote_validation
  se_obligation :: obligation_result
  se_commit :: hold_commit
  se_void :: void_result
  se_now :: instant
  se_finishNow :: instant
  se_eventId :: string
  se_traceparent :: "string option"

datatype drive_result = DriveDone | DriveWaiting | DriveBusy | DriveLeaseLost

definition SAGA_ACTOR :: actor where
  "SAGA_ACTOR = SystemActor ''booking-saga''"

section \<open>One step\<close>

text \<open>The pivot is saved before the commit request leaves; every other call leaves at once.\<close>

definition mark_pivot ::
  "saga \<Rightarrow> lease \<Rightarrow> instant \<Rightarrow> int \<Rightarrow> booking_db \<Rightarrow> (booking_error + saga option) \<times> booking_db" where
  "mark_pivot s l now leaseMs db =
     (if sg_step s \<noteq> COMMIT_HOLD then (Inr (Some s), db)
      else case beginCommit s now of
        Inl e \<Rightarrow> (Inl e, db)
      | Inr marked \<Rightarrow>
          if sg_pivotAttempted s then (Inr (Some s), db)
          else (case saveSaga marked l False leaseMs db of
                  (False, db') \<Rightarrow> (Inr None, db')
                | (True, db') \<Rightarrow> (Inr (Some marked), db')))"

definition quote_check_of :: "booking \<Rightarrow> quote_validation \<Rightarrow> quote_check" where
  "quote_check_of b result =
     (case result of
        ValidTotal validated \<Rightarrow> if totalMatches b validated then QuoteValid else QuoteInvalid QUOTE_INVALID
      | InvalidQuote reason \<Rightarrow> QuoteInvalid reason
      | QuoteServiceDown error \<Rightarrow> QuoteUnavailable error)"

definition commit_result_of :: "booking \<Rightarrow> hold_commit \<Rightarrow> commit_result" where
  "commit_result_of b result =
     (case result of
        HoldCommitted slot \<Rightarrow> Committed (matchesRequestedSlot b slot)
      | HoldRefused reason \<Rightarrow> CommitRefused reason
      | HoldUnknown error \<Rightarrow> CommitUnknown error)"

definition committed_slot :: "hold_commit \<Rightarrow> slot_snapshot option" where
  "committed_slot result = (case result of HoldCommitted slot \<Rightarrow> Some slot | _ \<Rightarrow> None)"

text \<open>The next saga state and the slot a commit returned.\<close>

definition decide :: "booking \<Rightarrow> saga \<Rightarrow> step_env \<Rightarrow> booking_error + saga \<times> slot_snapshot option" where
  "decide b s env =
     (case sg_step s of
        VALIDATE_QUOTE \<Rightarrow>
          andThen (onQuoteChecked s (quote_check_of b (se_quote env)) (se_now env) (se_random env))
            (\<lambda>nxt. Inr (nxt, None))
      | CREATE_OBLIGATION \<Rightarrow>
          andThen (onObligation s (se_obligation env) (se_now env) (se_random env))
            (\<lambda>nxt. Inr (nxt, None))
      | COMMIT_HOLD \<Rightarrow>
          andThen (onCommit s (commit_result_of b (se_commit env)) (se_now env) (se_random env))
            (\<lambda>nxt. Inr (nxt, committed_slot (se_commit env)))
      | VOID_OBLIGATION \<Rightarrow>
          andThen (onVoid s (se_void env) (se_now env) (se_random env)) (\<lambda>nxt. Inr (nxt, None))
      | saga_step.DONE \<Rightarrow> Inr (s, None)
      | NEEDS_RECONCILIATION \<Rightarrow> Inr (s, None))"

definition final_booking ::
  "booking \<Rightarrow> saga \<Rightarrow> slot_snapshot option \<Rightarrow> instant \<Rightarrow> booking_error + booking \<times> string" where
  "final_booking b s slot now =
     (if sg_step s = NEEDS_RECONCILIATION then Inr (b, ''booking.saga.reconciliation-required'')
      else if sg_outcome s = Some saga_outcome.CONFIRMED
      then (case slot of
              None \<Rightarrow> Inl (BookingDefect ''SAGA_CONFIRMED_WITHOUT_SLOT'')
            | Some committed \<Rightarrow>
                andThen (confirmBooking b committed now) (\<lambda>b'. Inr (b', ''booking.confirmed'')))
      else (case sg_pendingRejection s of
              None \<Rightarrow> Inl (BookingDefect ''SAGA_REJECTED_WITHOUT_REASON'')
            | Some reason \<Rightarrow>
                andThen (rejectBooking b reason now) (\<lambda>b'. Inr (b', ''booking.rejected''))))"

definition created_event ::
  "booking_record \<Rightarrow> booking \<Rightarrow> booking \<Rightarrow> step_env \<Rightarrow> booking_error + booking_event option" where
  "created_event rec b final env =
     (if b_status final = booking_state.CONFIRMED \<and> b_status b \<noteq> booking_state.CONFIRMED
      then andThen (bookingCreatedEvent (se_eventId env) (br_correlationId rec) None (se_traceparent env) final)
             (\<lambda>e. Inr (Some e))
      else Inr None)"

definition finish_saga ::
  "booking_record \<Rightarrow> booking \<Rightarrow> saga \<Rightarrow> lease \<Rightarrow> slot_snapshot option \<Rightarrow> step_env \<Rightarrow> int \<Rightarrow> booking_db \<Rightarrow>
   (booking_error + bool) \<times> booking_db" where
  "finish_saga rec b s l slot env leaseMs db =
     (case andThen (final_booking b s slot (se_finishNow env)) (\<lambda>(final, action).
           andThen (created_event rec b final env) (\<lambda>event. Inr (final, action, event))) of
        Inl e \<Rightarrow> (Inl e, db)
      | Inr (final, action, event) \<Rightarrow>
          finish s l final (b_version b) event
            \<lparr>af_action = action, af_actor = SAGA_ACTOR, af_bookingId = b_id b,
             af_correlationId = br_correlationId rec,
             af_details = SagaDetails (b_status final) (b_rejectionReason final) (sg_obligationId s)
                            (sg_lastError s)\<rparr> leaseMs db)"

definition persist ::
  "booking_record \<Rightarrow> saga \<Rightarrow> lease \<Rightarrow> slot_snapshot option \<Rightarrow> step_env \<Rightarrow> int \<Rightarrow> booking_db \<Rightarrow>
   (booking_error + saga option) \<times> booking_db" where
  "persist rec nxt l slot env leaseMs db =
     (if \<not> isTerminal (sg_step nxt)
      then (case saveSaga nxt l False leaseMs db of
              (True, db') \<Rightarrow> (Inr (Some nxt), db')
            | (False, db') \<Rightarrow> (Inr None, db'))
      else (case finish_saga rec (br_booking rec) nxt l slot env leaseMs db of
              (Inl e, db') \<Rightarrow> (Inl e, db')
            | (Inr True, db') \<Rightarrow> (Inr (Some nxt), db')
            | (Inr False, db') \<Rightarrow> (Inr None, db')))"

text \<open>The answer of the call arrived: decide and persist.\<close>

definition answer ::
  "booking_record \<Rightarrow> saga \<Rightarrow> lease \<Rightarrow> step_env \<Rightarrow> int \<Rightarrow> booking_db \<Rightarrow>
   (booking_error + saga option) \<times> booking_db" where
  "answer rec s l env leaseMs db =
     (case decide (br_booking rec) s env of
        Inl e \<Rightarrow> (Inl e, db)
      | Inr (nxt, slot) \<Rightarrow> persist rec nxt l slot env leaseMs db)"

definition pm_step ::
  "booking_record \<Rightarrow> saga \<Rightarrow> lease \<Rightarrow> step_env \<Rightarrow> int \<Rightarrow> booking_db \<Rightarrow>
   (booking_error + saga option) \<times> booking_db" where
  "pm_step rec s l env leaseMs db =
     (if isTerminal (sg_step s) then (Inr (Some s), db)
      else case mark_pivot s l (se_markNow env) leaseMs db of
        (Inl e, db') \<Rightarrow> (Inl e, db')
      | (Inr None, db') \<Rightarrow> (Inr None, db')
      | (Inr (Some marked), db') \<Rightarrow> answer rec marked l env leaseMs db')"

section \<open>The loop\<close>

text \<open>One environment per iteration; the run that has used them all has not returned yet (\<open>None\<close>).\<close>

fun run_saga ::
  "step_env list \<Rightarrow> booking_record \<Rightarrow> saga \<Rightarrow> lease \<Rightarrow> instant \<Rightarrow> int \<Rightarrow> booking_db \<Rightarrow>
   ((booking_error + drive_result) \<times> booking_db) option" where
  "run_saga [] rec s l deadline leaseMs db =
     (if isTerminal (sg_step s) then Some (Inr DriveDone, db) else None)"
| "run_saga (env # envs) rec s l deadline leaseMs db =
     (if isTerminal (sg_step s) then Some (Inr DriveDone, db)
      else if se_loopNow env < sg_nextAttemptAt s \<or> deadline \<le> se_loopNow env
      then (case saveSaga s l True leaseMs db of
              (True, db') \<Rightarrow> Some (Inr DriveWaiting, db')
            | (False, db') \<Rightarrow> Some (Inr DriveLeaseLost, db'))
      else (case pm_step rec s l env leaseMs db of
              (Inl e, db') \<Rightarrow> Some (Inl e, db')
            | (Inr None, db') \<Rightarrow> Some (Inr DriveLeaseLost, db')
            | (Inr (Some nxt), db') \<Rightarrow> run_saga envs rec nxt l deadline leaseMs db'))"

definition drive ::
  "step_env list \<Rightarrow> string \<Rightarrow> string \<Rightarrow> int \<Rightarrow> instant \<Rightarrow> instant \<Rightarrow> int \<Rightarrow> booking_db \<Rightarrow>
   ((booking_error + drive_result) \<times> booking_db) option" where
  "drive envs bookingId owner budgetMs started leaseNow leaseMs db =
     (case leaseSaga bookingId owner leaseNow leaseMs db of
        (None, db') \<Rightarrow> Some (Inr DriveBusy, db')
      | (Some (rec, l), db') \<Rightarrow> run_saga envs rec (br_saga rec) l (started + budgetMs) leaseMs db')"

text \<open>\<^verbatim>\<open>runDue\<close>: each leased saga in turn; a defect stops the pass.\<close>

fun run_each ::
  "(step_env list \<times> instant) list \<Rightarrow> (booking_record \<times> lease) list \<Rightarrow> int \<Rightarrow> int \<Rightarrow> booking_db \<Rightarrow>
   ((booking_error + unit) \<times> booking_db) option" where
  "run_each passes [] budgetMs leaseMs db = Some (Inr (), db)"
| "run_each [] (_ # _) budgetMs leaseMs db = None"
| "run_each ((envs, now) # passes) ((rec, l) # rest) budgetMs leaseMs db =
     (case run_saga envs rec (br_saga rec) l (now + budgetMs) leaseMs db of
        None \<Rightarrow> None
      | Some (Inl e, db') \<Rightarrow> Some (Inl e, db')
      | Some (Inr _, db') \<Rightarrow> run_each passes rest budgetMs leaseMs db')"

definition runDue ::
  "(step_env list \<times> instant) list \<Rightarrow> string \<Rightarrow> instant \<Rightarrow> nat \<Rightarrow> int \<Rightarrow> int \<Rightarrow> booking_db \<Rightarrow>
   ((booking_error + nat) \<times> booking_db) option" where
  "runDue passes owner now limit budgetMs leaseMs db =
     (let (leased, db') = leaseDue owner now leaseMs limit db
      in case run_each passes leased budgetMs leaseMs db' of
           None \<Rightarrow> None
         | Some (Inl e, db'') \<Rightarrow> Some (Inl e, db'')
         | Some (Inr _, db'') \<Rightarrow> Some (Inr (length leased), db''))"

end
