(* ===== verification/Booking_Change_Manager.thy ===== *)
theory Booking_Change_Manager
  imports Booking_Manager
begin

text \<open>
  The process manager that executes the change saga:
  \<^verbatim>\<open>services/booking/src/application/change-manager.ts\<close>. As in \<open>Booking_Manager\<close>, what
  the other services, the clock, the id generator and the random source give during one
  iteration is one environment, of which a step uses only the answer of its own call. The pivot
  reads the booking in one transaction and writes in another, so both halves are functions of
  their own.
\<close>

section \<open>What an iteration sees\<close>

record change_env =
  ce_loopNow :: instant
  ce_random :: rat
  ce_markNow :: instant
  ce_cancel :: dispatch_cancel_result
  ce_release :: capacity_release_result
  ce_settle :: settlement_result
  ce_rebind :: rebind_result
  ce_replace :: replace_result
  ce_confirm :: confirm_result
  ce_revert :: revert_result
  ce_now :: instant
  ce_pivotNow :: instant
  ce_eventId :: string
  ce_traceparent :: "string option"

type_synonym change_drive_result = drive_result

definition CHANGE_ACTOR :: actor where
  "CHANGE_ACTOR = SystemActor ''booking-change-saga''"

definition target :: "change \<Rightarrow> booking_error + target_slot" where
  "target c =
     (case ch_to c of
        None \<Rightarrow> Inl (BookingDefect ''RESCHEDULE_WITHOUT_TARGET'')
      | Some to_slot \<Rightarrow> Inr to_slot)"

section \<open>One step\<close>

text \<open>Up to the call: the pivot of a reschedule is saved before the replace request leaves.\<close>

definition begin_call ::
  "change \<Rightarrow> lease \<Rightarrow> instant \<Rightarrow> int \<Rightarrow> booking_db \<Rightarrow> (booking_error + change option) \<times> booking_db" where
  "begin_call c l now leaseMs db =
     (case ch_step c of
        DISPATCH_REBIND \<Rightarrow> (andThen (target c) (\<lambda>_. Inr (Some c)), db)
      | REPLACE_COMMITMENT \<Rightarrow>
          if ch_pivotAttempted c then (andThen (target c) (\<lambda>_. Inr (Some c)), db)
          else (case saveChange (beginPivot c now) l False leaseMs db of
                  (False, db') \<Rightarrow> (Inr None, db')
                | (True, db') \<Rightarrow>
                    (andThen (target (beginPivot c now)) (\<lambda>_. Inr (Some (beginPivot c now))), db'))
      | _ \<Rightarrow> (Inr (Some c), db))"

definition replaced_slot :: "replace_result \<Rightarrow> slot_snapshot option" where
  "replaced_slot result = (case result of Replaced slot \<Rightarrow> Some slot | _ \<Rightarrow> None)"

text \<open>The next state on the answer, and the slot a replace returned.\<close>

definition decide_change :: "change \<Rightarrow> change_env \<Rightarrow> booking_error + change \<times> slot_snapshot option" where
  "decide_change c env =
     (let plain = (\<lambda>r. andThen r (\<lambda>nxt. Inr (nxt, None))) in
      case ch_step c of
        DISPATCH_CANCEL \<Rightarrow> plain (onDispatchCancel c (ce_cancel env) (ce_now env) (ce_random env))
      | RELEASE_CAPACITY \<Rightarrow> plain (onCapacityReleased c (ce_release env) (ce_now env) (ce_random env))
      | SETTLE_BILLING \<Rightarrow> plain (onSettled c (ce_settle env) (ce_now env) (ce_random env))
      | DISPATCH_REBIND \<Rightarrow> plain (onRebind c (ce_rebind env) (ce_now env) (ce_random env))
      | REPLACE_COMMITMENT \<Rightarrow>
          andThen (onReplace c (ce_replace env) (ce_now env) (ce_random env))
            (\<lambda>nxt. Inr (nxt, replaced_slot (ce_replace env)))
      | DISPATCH_CONFIRM \<Rightarrow> plain (onConfirm c (ce_confirm env) (ce_now env) (ce_random env))
      | DISPATCH_REVERT \<Rightarrow> plain (onRevert c (ce_revert env) (ce_now env) (ce_random env))
      | change_step.DONE \<Rightarrow> Inr (c, None))"

definition change_audit :: "change \<Rightarrow> string \<Rightarrow> audit_fact" where
  "change_audit c correlationId =
     \<lparr>af_action = (if ch_step c = change_step.DONE then ''booking.change.finished''
                   else ''booking.change.attention''),
      af_actor = CHANGE_ACTOR, af_bookingId = ch_bookingId c, af_correlationId = correlationId,
      af_details = ChangeDetails (ch_changeId c) (ch_kind c) (ch_outcome c) (ch_refusal c)
                     (ch_settlement c) (ch_lastError c)\<rparr>"

text \<open>The booking and the event a pivot writes.\<close>

definition pivot_update ::
  "change \<Rightarrow> slot_snapshot option \<Rightarrow> string \<Rightarrow> booking \<Rightarrow> change_env \<Rightarrow> booking_error + booking \<times> booking_event" where
  "pivot_update before replaced correlationId b env =
     (if ch_kind before = CANCELLATION
      then (case ch_reason before of
              None \<Rightarrow> Inl (BookingDefect ''CANCELLATION_WITHOUT_REASON'')
            | Some reason \<Rightarrow>
                andThen (cancelBooking b reason (ce_pivotNow env)) (\<lambda>updated.
                andThen (bookingCancelledEvent (ce_eventId env) correlationId (ce_traceparent env) updated before)
                  (\<lambda>event. Inr (updated, event))))
      else (case replaced of
              None \<Rightarrow> Inl (BookingDefect ''RESCHEDULE_WITHOUT_SLOT'')
            | Some slot \<Rightarrow>
                andThen (rescheduleBooking b slot (ce_pivotNow env)) (\<lambda>updated.
                andThen (bookingRescheduledEvent (ce_eventId env) correlationId (ce_traceparent env) updated before)
                  (\<lambda>event. Inr (updated, event)))))"

definition pivot_audit ::
  "change \<Rightarrow> slot_snapshot option \<Rightarrow> string \<Rightarrow> booking \<Rightarrow> audit_fact" where
  "pivot_audit before replaced correlationId updated =
     \<lparr>af_action = (if ch_kind before = CANCELLATION then ''booking.cancelled'' else ''booking.rescheduled''),
      af_actor = CHANGE_ACTOR, af_bookingId = ch_bookingId before, af_correlationId = correlationId,
      af_details = PivotDetails (ch_changeId before) (b_version updated) (b_scheduleRevision updated)
        (if ch_kind before = CANCELLATION then Some (sl_holdId (ch_from before))
         else map_option sl_holdId replaced)\<rparr>"

text \<open>The writing half of \<^verbatim>\<open>pivot\<close>, on the booking the reading half found.\<close>

definition pivot_write ::
  "change \<Rightarrow> change \<Rightarrow> string \<Rightarrow> lease \<Rightarrow> slot_snapshot option \<Rightarrow> booking \<Rightarrow> change_env \<Rightarrow> int \<Rightarrow> booking_db \<Rightarrow>
   (booking_error + bool) \<times> booking_db" where
  "pivot_write before nxt correlationId l replaced b env leaseMs db =
     (case pivot_update before replaced correlationId b env of
        Inl e \<Rightarrow> (Inl e, db)
      | Inr (updated, event) \<Rightarrow>
          applyChange nxt l False (Some (updated, b_version b)) (Some event)
            (Some (pivot_audit before replaced correlationId updated)) leaseMs db)"

definition pivot ::
  "change \<Rightarrow> change \<Rightarrow> string \<Rightarrow> lease \<Rightarrow> slot_snapshot option \<Rightarrow> change_env \<Rightarrow> int \<Rightarrow> booking_db \<Rightarrow>
   (booking_error + bool) \<times> booking_db" where
  "pivot before nxt correlationId l replaced env leaseMs db =
     (case find_booking (ch_bookingId before) db of
        None \<Rightarrow> (Inl (BookingDefect ''CHANGED_BOOKING_MISSING''), db)
      | Some rec \<Rightarrow> pivot_write before nxt correlationId l replaced (br_booking rec) env leaseMs db)"

text \<open>What follows a decision that does not change the booking.\<close>

definition conclude ::
  "change \<Rightarrow> change \<Rightarrow> string \<Rightarrow> lease \<Rightarrow> int \<Rightarrow> booking_db \<Rightarrow> (booking_error + bool) \<times> booking_db" where
  "conclude c nxt correlationId l leaseMs db =
     (let finished = (ch_step nxt = change_step.DONE) in
      if finished \<or> ch_step nxt \<noteq> ch_step c
      then applyChange nxt l finished None None
             (if finished \<or> ch_attention nxt \<noteq> ch_attention c then Some (change_audit nxt correlationId) else None)
             leaseMs db
      else (case saveChange nxt l False leaseMs db of (ok, db') \<Rightarrow> (Inr ok, db')))"

definition settle_step :: "change \<Rightarrow> (booking_error + bool) \<times> booking_db \<Rightarrow> (booking_error + change option) \<times> booking_db" where
  "settle_step nxt res =
     (case res of
        (Inl e, db') \<Rightarrow> (Inl e, db')
      | (Inr True, db') \<Rightarrow> (Inr (Some nxt), db')
      | (Inr False, db') \<Rightarrow> (Inr None, db'))"

definition change_answered ::
  "change \<Rightarrow> string \<Rightarrow> lease \<Rightarrow> change_env \<Rightarrow> int \<Rightarrow> booking_db \<Rightarrow> (booking_error + change option) \<times> booking_db" where
  "change_answered c correlationId l env leaseMs db =
     (case decide_change c env of
        Inl e \<Rightarrow> (Inl e, db)
      | Inr (nxt, replaced) \<Rightarrow>
          settle_step nxt
            (if isPivotExit c nxt then pivot c nxt correlationId l replaced env leaseMs db
             else conclude c nxt correlationId l leaseMs db))"

definition cm_step ::
  "change \<Rightarrow> string \<Rightarrow> lease \<Rightarrow> change_env \<Rightarrow> int \<Rightarrow> booking_db \<Rightarrow> (booking_error + change option) \<times> booking_db" where
  "cm_step c correlationId l env leaseMs db =
     (if ch_step c = change_step.DONE then (Inr (Some c), db)
      else case begin_call c l (ce_markNow env) leaseMs db of
        (Inl e, db') \<Rightarrow> (Inl e, db')
      | (Inr None, db') \<Rightarrow> (Inr None, db')
      | (Inr (Some c'), db') \<Rightarrow> change_answered c' correlationId l env leaseMs db')"

section \<open>The loop\<close>

fun run_change ::
  "change_env list \<Rightarrow> change \<Rightarrow> string \<Rightarrow> lease \<Rightarrow> instant \<Rightarrow> int \<Rightarrow> booking_db \<Rightarrow>
   ((booking_error + change_drive_result) \<times> booking_db) option" where
  "run_change [] c correlationId l deadline leaseMs db =
     (if ch_step c = change_step.DONE then Some (Inr DriveDone, db) else None)"
| "run_change (env # envs) c correlationId l deadline leaseMs db =
     (if ch_step c = change_step.DONE then Some (Inr DriveDone, db)
      else if ce_loopNow env < ch_nextAttemptAt c \<or> deadline \<le> ce_loopNow env
      then (case saveChange c l True leaseMs db of
              (True, db') \<Rightarrow> Some (Inr DriveWaiting, db')
            | (False, db') \<Rightarrow> Some (Inr DriveLeaseLost, db'))
      else (case cm_step c correlationId l env leaseMs db of
              (Inl e, db') \<Rightarrow> Some (Inl e, db')
            | (Inr None, db') \<Rightarrow> Some (Inr DriveLeaseLost, db')
            | (Inr (Some nxt), db') \<Rightarrow> run_change envs nxt correlationId l deadline leaseMs db'))"

definition drive_change ::
  "change_env list \<Rightarrow> string \<Rightarrow> string \<Rightarrow> int \<Rightarrow> instant \<Rightarrow> instant \<Rightarrow> int \<Rightarrow> booking_db \<Rightarrow>
   ((booking_error + change_drive_result) \<times> booking_db) option" where
  "drive_change envs changeId owner budgetMs started leaseNow leaseMs db =
     (case leaseChange changeId owner leaseNow leaseMs db of
        (None, db') \<Rightarrow> Some (Inr DriveBusy, db')
      | (Some ((c, correlationId), l), db') \<Rightarrow>
          run_change envs c correlationId l (started + budgetMs) leaseMs db')"

fun run_each_change ::
  "(change_env list \<times> instant) list \<Rightarrow> ((change \<times> string) \<times> lease) list \<Rightarrow> int \<Rightarrow> int \<Rightarrow> booking_db \<Rightarrow>
   ((booking_error + unit) \<times> booking_db) option" where
  "run_each_change passes [] budgetMs leaseMs db = Some (Inr (), db)"
| "run_each_change [] (_ # _) budgetMs leaseMs db = None"
| "run_each_change ((envs, now) # passes) (((c, correlationId), l) # rest) budgetMs leaseMs db =
     (case run_change envs c correlationId l (now + budgetMs) leaseMs db of
        None \<Rightarrow> None
      | Some (Inl e, db') \<Rightarrow> Some (Inl e, db')
      | Some (Inr _, db') \<Rightarrow> run_each_change passes rest budgetMs leaseMs db')"

definition runDueChanges ::
  "(change_env list \<times> instant) list \<Rightarrow> string \<Rightarrow> instant \<Rightarrow> nat \<Rightarrow> int \<Rightarrow> int \<Rightarrow> booking_db \<Rightarrow>
   ((booking_error + nat) \<times> booking_db) option" where
  "runDueChanges passes owner now limit budgetMs leaseMs db =
     (let (leased, db') = leaseDueChanges owner now leaseMs limit db
      in case run_each_change passes leased budgetMs leaseMs db' of
           None \<Rightarrow> None
         | Some (Inl e, db'') \<Rightarrow> Some (Inl e, db'')
         | Some (Inr _, db'') \<Rightarrow> Some (Inr (length leased), db''))"

section \<open>What a decision may do\<close>

text \<open>
  The part of a change its correctness is about, and the moves it may make on an answer: the
  abstract machine of \<open>Booking_Change\<close>, without attempts, times, errors and versions.
\<close>

type_synonym change_core =
  "change_step \<times> change_outcome option \<times> change_refusal option \<times> settlement option \<times> bool"

definition change_core :: "change \<Rightarrow> change_core" where
  "change_core c = (ch_step c, ch_outcome c, ch_refusal c, ch_settlement c, ch_pivotAttempted c)"

inductive change_spec :: "change_env \<Rightarrow> change_core \<Rightarrow> change_core \<Rightarrow> bool" for env where
  stay: "change_spec env k k"
| job_cancelled: "ce_cancel env \<in> {JobCancelled, JobNotOpened} \<Longrightarrow>
    change_spec env (DISPATCH_CANCEL, None, None, s, p) (RELEASE_CAPACITY, None, None, s, p)"
| cancel_refused: "ce_cancel env = CancelRefused why \<Longrightarrow>
    change_spec env (DISPATCH_CANCEL, None, None, s, p)
      (change_step.DONE, Some change_outcome.REFUSED, Some (work_refusal_reason why), None, p)"
| released: "ce_release env \<in> {CapacityReleased, CapacityNotCommitted} \<Longrightarrow>
    change_spec env (RELEASE_CAPACITY, None, None, s, p) (SETTLE_BILLING, None, None, s, p)"
| settled: "ce_settle env = Settled how \<Longrightarrow>
    change_spec env (SETTLE_BILLING, None, None, s, p)
      (change_step.DONE, Some change_outcome.COMPLETED, None, Some (settlement_of how), p)"
| rebound: "ce_rebind env = Rebound \<Longrightarrow>
    change_spec env (DISPATCH_REBIND, None, None, s, p) (REPLACE_COMMITMENT, None, None, s, p)"
| rebind_refused: "ce_rebind env = RebindRefused why2 \<Longrightarrow>
    change_spec env (DISPATCH_REBIND, None, None, s, p)
      (change_step.DONE, Some change_outcome.REFUSED, Some (rebind_refusal_reason why2), s, p)"
| given_up: "\<not> p \<Longrightarrow> refusal \<in> {DISPATCH_NOT_READY, change_refusal.HOLD_EXPIRED} \<Longrightarrow>
    change_spec env (DISPATCH_REBIND, None, None, s, p) (DISPATCH_REVERT, None, Some refusal, s, p)"
| replaced: "ce_replace env = Replaced slot \<Longrightarrow>
    change_spec env (REPLACE_COMMITMENT, None, None, s, True) (DISPATCH_CONFIRM, None, None, s, True)"
| replace_refused: "ce_replace env = ReplaceRefused why3 \<Longrightarrow>
    change_spec env (REPLACE_COMMITMENT, None, None, s, True)
      (DISPATCH_REVERT, None, Some (replace_refusal_reason why3), s, True)"
| confirmed: "ce_confirm env = JobConfirmed \<Longrightarrow>
    change_spec env (DISPATCH_CONFIRM, None, r, s, p) (change_step.DONE, Some change_outcome.COMPLETED, r, s, p)"
| reverted: "ce_revert env = JobReverted \<Longrightarrow>
    change_spec env (DISPATCH_REVERT, None, r, s, p) (change_step.DONE, Some change_outcome.FAILED, r, s, p)"

inductive_cases change_spec_elim: "change_spec env k k'"

text \<open>Every decision of the process manager is a move of the machine, on the request it was made for.\<close>

lemma same_request_refl [simp]: "same_request c c"
  by (simp add: same_request_def)

lemma same_request_trans: "same_request a b \<Longrightarrow> same_request b c \<Longrightarrow> same_request a c"
  by (simp add: same_request_def)

lemma same_request_moves [simp]:
  "same_request c (beginPivot c now)"
  by (simp add: same_request_def beginPivot_def)

lemma retry_change_fields [simp]:
  "ch_step (retry_change c e now rnd) = ch_step c" "ch_outcome (retry_change c e now rnd) = ch_outcome c"
  "ch_refusal (retry_change c e now rnd) = ch_refusal c" "ch_settlement (retry_change c e now rnd) = ch_settlement c"
  "ch_pivotAttempted (retry_change c e now rnd) = ch_pivotAttempted c"
  "ch_changeId (retry_change c e now rnd) = ch_changeId c" "ch_bookingId (retry_change c e now rnd) = ch_bookingId c"
  "ch_kind (retry_change c e now rnd) = ch_kind c" "ch_reason (retry_change c e now rnd) = ch_reason c"
  "ch_requester (retry_change c e now rnd) = ch_requester c" "ch_from (retry_change c e now rnd) = ch_from c"
  "ch_to (retry_change c e now rnd) = ch_to c" "ch_deadlineAt (retry_change c e now rnd) = ch_deadlineAt c"
  "ch_createdAt (retry_change c e now rnd) = ch_createdAt c"
  by (simp_all add: retry_change_def Let_def)

lemma open_fields:
  assumes "change_inv c" and "ch_step c \<noteq> change_step.DONE"
  shows "ch_outcome c = None" and "ch_step c \<noteq> DISPATCH_REVERT \<Longrightarrow> ch_refusal c = None"
  using change_inv_shape [OF assms(1)] assms(2)
  by (cases "ch_kind c"; cases "ch_step c"; auto simp: shape_of_def)+

lemmas spec_simps = change_core_def advance_change_def pastDeadline_def same_request_def

lemma onDispatchCancel_spec:
  assumes "onDispatchCancel c (ce_cancel env) now rnd = Inr nxt" and "change_inv c"
  shows "change_spec env (change_core c) (change_core nxt) \<and> same_request c nxt"
proof -
  have s: "ch_step c = DISPATCH_CANCEL" using assms by (simp add: onDispatchCancel_def)
  with open_fields [OF assms(2)] have "ch_outcome c = None" "ch_refusal c = None" by simp_all
  with assms(1) s show ?thesis
    by (cases "ce_cancel env") (auto simp: onDispatchCancel_def spec_simps intro: change_spec.intros split: if_splits)
qed

lemma onCapacityReleased_spec:
  assumes "onCapacityReleased c (ce_release env) now rnd = Inr nxt" and "change_inv c"
  shows "change_spec env (change_core c) (change_core nxt) \<and> same_request c nxt"
proof -
  have s: "ch_step c = RELEASE_CAPACITY" using assms by (simp add: onCapacityReleased_def)
  with open_fields [OF assms(2)] have "ch_outcome c = None" "ch_refusal c = None" by simp_all
  with assms(1) s show ?thesis
    by (cases "ce_release env") (auto simp: onCapacityReleased_def spec_simps intro: change_spec.intros split: if_splits)
qed

lemma onSettled_spec:
  assumes "onSettled c (ce_settle env) now rnd = Inr nxt" and "change_inv c"
  shows "change_spec env (change_core c) (change_core nxt) \<and> same_request c nxt"
proof -
  have s: "ch_step c = SETTLE_BILLING" using assms by (simp add: onSettled_def)
  with open_fields [OF assms(2)] have "ch_outcome c = None" "ch_refusal c = None" by simp_all
  with assms(1) s show ?thesis
    by (cases "ce_settle env") (auto simp: onSettled_def spec_simps intro: change_spec.intros split: if_splits)
qed

lemma onRebind_spec:
  assumes "onRebind c (ce_rebind env) now rnd = Inr nxt" and "change_inv c"
  shows "change_spec env (change_core c) (change_core nxt) \<and> same_request c nxt"
proof -
  have s: "ch_step c = DISPATCH_REBIND" using assms by (simp add: onRebind_def)
  with open_fields [OF assms(2)] have "ch_outcome c = None" "ch_refusal c = None" by simp_all
  with assms(1) s show ?thesis
    by (cases "ce_rebind env") (auto simp: onRebind_def spec_simps intro: change_spec.intros split: if_splits)
qed

lemma onReplace_spec:
  assumes "onReplace c (ce_replace env) now rnd = Inr nxt" and "change_inv c"
  shows "change_spec env (change_core c) (change_core nxt) \<and> same_request c nxt"
proof -
  have s: "ch_step c = REPLACE_COMMITMENT" using assms by (simp add: onReplace_def)
  with open_fields [OF assms(2)] have "ch_outcome c = None" "ch_refusal c = None" by simp_all
  with assms(1) s show ?thesis
    by (cases "ce_replace env") (auto simp: onReplace_def spec_simps intro: change_spec.intros split: if_splits)
qed

lemma onConfirm_spec:
  assumes "onConfirm c (ce_confirm env) now rnd = Inr nxt" and "change_inv c"
  shows "change_spec env (change_core c) (change_core nxt) \<and> same_request c nxt"
proof -
  have s: "ch_step c = DISPATCH_CONFIRM" using assms by (simp add: onConfirm_def)
  with open_fields [OF assms(2)] have "ch_outcome c = None" "ch_refusal c = None" by simp_all
  with assms(1) s show ?thesis
    by (cases "ce_confirm env") (auto simp: onConfirm_def spec_simps intro: change_spec.intros split: if_splits)
qed

lemma onRevert_spec:
  assumes "onRevert c (ce_revert env) now rnd = Inr nxt" and "change_inv c"
  shows "change_spec env (change_core c) (change_core nxt) \<and> same_request c nxt"
proof -
  have s: "ch_step c = DISPATCH_REVERT" using assms by (simp add: onRevert_def)
  with open_fields [OF assms(2)] have "ch_outcome c = None" by simp
  with assms(1) s show ?thesis
    by (cases "ce_revert env") (auto simp: onRevert_def spec_simps intro: change_spec.intros)
qed

lemma decide_change_spec:
  assumes "decide_change c env = Inr (nxt, slot)" and "change_inv c"
  shows "change_spec env (change_core c) (change_core nxt)" and "same_request c nxt" and "change_inv nxt"
proof -
  have "change_spec env (change_core c) (change_core nxt) \<and> same_request c nxt \<and> change_inv nxt"
  proof (cases "ch_step c")
    case DISPATCH_CANCEL
    with assms onDispatchCancel_spec onDispatchCancel_inv show ?thesis by (auto simp: decide_change_def)
  next
    case RELEASE_CAPACITY
    with assms onCapacityReleased_spec onCapacityReleased_inv show ?thesis by (auto simp: decide_change_def)
  next
    case SETTLE_BILLING
    with assms onSettled_spec onSettled_inv show ?thesis by (auto simp: decide_change_def)
  next
    case DISPATCH_REBIND
    with assms onRebind_spec onRebind_inv show ?thesis by (auto simp: decide_change_def)
  next
    case REPLACE_COMMITMENT
    with assms onReplace_spec onReplace_inv show ?thesis by (auto simp: decide_change_def)
  next
    case DISPATCH_CONFIRM
    with assms onConfirm_spec onConfirm_inv show ?thesis by (auto simp: decide_change_def)
  next
    case DISPATCH_REVERT
    with assms onRevert_spec onRevert_inv show ?thesis by (auto simp: decide_change_def)
  next
    case DONE
    with assms show ?thesis by (auto simp: decide_change_def intro: change_spec.stay)
  qed
  then show "change_spec env (change_core c) (change_core nxt)" and "same_request c nxt" and "change_inv nxt"
    by blast+
qed

end
