(* ===== verification/Booking_System.thy ===== *)
theory Booking_System
  imports Booking_Manager
begin

text \<open>
  Booking creation as a system: requests that claim keys and insert bookings, any number of
  workers that lease sagas, call the other services and write what they were answered, in any
  interleaving of their database transactions, and workers that stall or die between any two of
  them. The functions a worker executes are those of \<open>Booking_Manager\<close>, cut where its
  transactions and remote calls are. The remote calls, and the answers received, are kept in a
  log. Other transactions on the booking tables (the change saga) are one step that satisfies
  \<open>rely\<close>.
\<close>

section \<open>State\<close>

datatype saga_worker =
    Leased string lease
  | Running booking_record saga lease
  | Calling booking_record saga lease

datatype call_entry =
    Sent string saga_step
  | AnsweredQuote string quote_validation
  | AnsweredObligation string obligation_result
  | AnsweredCommit string hold_commit
  | AnsweredVoid string void_result

fun worker_view :: "saga_worker \<Rightarrow> (string, saga) view" where
  "worker_view (Leased i l) = (i, l, None)"
| "worker_view (Running rec s l) = (sg_bookingId s, l, Some s)"
| "worker_view (Calling rec s l) = (sg_bookingId s, l, Some s)"

definition answer_entry :: "saga \<Rightarrow> step_env \<Rightarrow> call_entry" where
  "answer_entry s env =
     (case sg_step s of
        VALIDATE_QUOTE \<Rightarrow> AnsweredQuote (sg_bookingId s) (se_quote env)
      | CREATE_OBLIGATION \<Rightarrow> AnsweredObligation (sg_bookingId s) (se_obligation env)
      | COMMIT_HOLD \<Rightarrow> AnsweredCommit (sg_bookingId s) (se_commit env)
      | _ \<Rightarrow> AnsweredVoid (sg_bookingId s) (se_void env))"

record creation_state =
  cs_db :: booking_db
  cs_workers :: "saga_worker list"
  cs_calls :: "call_entry list"

section \<open>Steps\<close>

text \<open>What another transaction may do to a booking: only after it was confirmed, and never to its slot.\<close>

definition later_change :: "booking \<Rightarrow> booking \<Rightarrow> bool" where
  "later_change b b' \<longleftrightarrow>
     b' = b \<or>
     (b_id b' = b_id b \<and> b_requestedSlot b' = b_requestedSlot b \<and> b_slot b' = b_slot b \<and>
      b_quote b' = b_quote b \<and>
      b_status b \<notin> {PENDING_CONFIRMATION, booking_state.REJECTED} \<and>
      b_status b' \<notin> {PENDING_CONFIRMATION, booking_state.REJECTED})"

definition rely :: "booking_db \<Rightarrow> booking_db \<Rightarrow> bool" where
  "rely db db' \<longleftrightarrow>
     bk_sagas db' = bk_sagas db \<and> list_all2 later_change (bk_bookings db) (bk_bookings db') \<and>
     (\<exists>es. bk_outbox db' = bk_outbox db @ es \<and> (\<forall>e \<in> set es. created_for e = None))"

inductive creation_move :: "int \<Rightarrow> creation_state \<Rightarrow> creation_state \<Rightarrow> bool" for leaseMs where
  claim: "claimRequest k candidate now claimMs db = (c, db') \<Longrightarrow>
    creation_move leaseMs \<lparr>cs_db = db, cs_workers = ws, cs_calls = cs\<rparr>
                          \<lparr>cs_db = db', cs_workers = ws, cs_calls = cs\<rparr>"
| abandon:
    "creation_move leaseMs \<lparr>cs_db = db, cs_workers = ws, cs_calls = cs\<rparr>
                           \<lparr>cs_db = abandonRequest k f db, cs_workers = ws, cs_calls = cs\<rparr>"
| insert: "createBooking input = Inr b \<Longrightarrow>
    insertBooking b (newSaga (b_id b) now) k f audit db = (res, db') \<Longrightarrow>
    creation_move leaseMs \<lparr>cs_db = db, cs_workers = ws, cs_calls = cs\<rparr>
                          \<lparr>cs_db = db', cs_workers = ws, cs_calls = cs\<rparr>"
| lease: "lease_update i who now leaseMs db = (Some l, db') \<Longrightarrow>
    creation_move leaseMs \<lparr>cs_db = db, cs_workers = ws, cs_calls = cs\<rparr>
                          \<lparr>cs_db = db', cs_workers = Leased i l # ws, cs_calls = cs\<rparr>"
| lease_due: "due_update who now leaseMs limit db = (leased, db') \<Longrightarrow>
    creation_move leaseMs \<lparr>cs_db = db, cs_workers = ws, cs_calls = cs\<rparr>
                          \<lparr>cs_db = db', cs_workers = map (\<lambda>(i, l). Leased i l) leased @ ws, cs_calls = cs\<rparr>"
| read: "find_booking i db = Some rec \<Longrightarrow>
    creation_move leaseMs \<lparr>cs_db = db, cs_workers = us @ Leased i l # vs, cs_calls = cs\<rparr>
                          \<lparr>cs_db = db, cs_workers = us @ Running rec (br_saga rec) l # vs, cs_calls = cs\<rparr>"
| die: "creation_move leaseMs \<lparr>cs_db = db, cs_workers = us @ w # vs, cs_calls = cs\<rparr>
                              \<lparr>cs_db = db, cs_workers = us @ vs, cs_calls = cs\<rparr>"
| release: "saveSaga s l True leaseMs db = (ok, db') \<Longrightarrow>
    creation_move leaseMs \<lparr>cs_db = db, cs_workers = us @ Running rec s l # vs, cs_calls = cs\<rparr>
                          \<lparr>cs_db = db', cs_workers = us @ vs, cs_calls = cs\<rparr>"
| call: "\<not> isTerminal (sg_step s) \<Longrightarrow> mark_pivot s l now leaseMs db = (Inr (Some s'), db') \<Longrightarrow>
    creation_move leaseMs \<lparr>cs_db = db, cs_workers = us @ Running rec s l # vs, cs_calls = cs\<rparr>
                          \<lparr>cs_db = db', cs_workers = us @ Calling rec s' l # vs,
                           cs_calls = cs @ [Sent (sg_bookingId s) (sg_step s)]\<rparr>"
| call_stopped: "mark_pivot s l now leaseMs db = (r, db') \<Longrightarrow> (\<forall>s'. r \<noteq> Inr (Some s')) \<Longrightarrow>
    creation_move leaseMs \<lparr>cs_db = db, cs_workers = us @ Running rec s l # vs, cs_calls = cs\<rparr>
                          \<lparr>cs_db = db', cs_workers = us @ vs, cs_calls = cs\<rparr>"
| answered: "answer rec s l env leaseMs db = (Inr (Some nxt), db') \<Longrightarrow>
    creation_move leaseMs \<lparr>cs_db = db, cs_workers = us @ Calling rec s l # vs, cs_calls = cs\<rparr>
                          \<lparr>cs_db = db', cs_workers = us @ Running rec nxt l # vs,
                           cs_calls = cs @ [answer_entry s env]\<rparr>"
| answer_lost: "answer rec s l env leaseMs db = (r, db') \<Longrightarrow> (\<forall>s'. r \<noteq> Inr (Some s')) \<Longrightarrow>
    creation_move leaseMs \<lparr>cs_db = db, cs_workers = us @ Calling rec s l # vs, cs_calls = cs\<rparr>
                          \<lparr>cs_db = db', cs_workers = us @ vs, cs_calls = cs @ [answer_entry s env]\<rparr>"

text \<open>Its own steps, and the transactions of others.\<close>

inductive creation_step :: "int \<Rightarrow> creation_state \<Rightarrow> creation_state \<Rightarrow> bool" for leaseMs where
  own: "creation_move leaseMs st st' \<Longrightarrow> creation_step leaseMs st st'"
| other: "rely db db' \<Longrightarrow>
    creation_step leaseMs \<lparr>cs_db = db, cs_workers = ws, cs_calls = cs\<rparr>
                          \<lparr>cs_db = db', cs_workers = ws, cs_calls = cs\<rparr>"

definition creation_init :: "creation_state \<Rightarrow> bool" where
  "creation_init st \<longleftrightarrow> st = \<lparr>cs_db = empty_booking_db, cs_workers = [], cs_calls = []\<rparr>"

section \<open>What holds of a booking and its saga\<close>

definition created_count :: "booking_event list \<Rightarrow> string \<Rightarrow> nat" where
  "created_count events i = length (filter (\<lambda>e. created_for e = Some i) events)"

definition confirmed_ok :: "call_entry list \<Rightarrow> booking_event list \<Rightarrow> booking \<Rightarrow> bool" where
  "confirmed_ok cs events b \<longleftrightarrow>
     b_status b \<notin> {PENDING_CONFIRMATION, booking_state.REJECTED} \<and> created_count events (b_id b) = 1 \<and>
     (\<exists>slot. b_slot b = Some slot \<and> matchesRequestedSlot b slot \<and>
             AnsweredCommit (b_id b) (HoldCommitted slot) \<in> set cs)"

definition status_ok :: "call_entry list \<Rightarrow> booking_event list \<Rightarrow> saga \<Rightarrow> booking \<Rightarrow> bool" where
  "status_ok cs events s b \<longleftrightarrow>
     (if sg_step s = saga_step.DONE then
        (if sg_outcome s = Some saga_outcome.CONFIRMED then confirmed_ok cs events b
         else b_status b = booking_state.REJECTED \<and> b_rejectionReason b = sg_pendingRejection s \<and>
              created_count events (b_id b) = 0)
      else b_status b = PENDING_CONFIRMATION \<and> b_version b = 1 \<and> created_count events (b_id b) = 0)"

text \<open>The saga is past the creation of its obligation, and did not leave one behind.\<close>

definition past_create :: "call_entry list \<Rightarrow> saga \<Rightarrow> bool" where
  "past_create cs s \<longleftrightarrow>
     sg_step s \<noteq> VALIDATE_QUOTE \<and>
     (sg_outcome s = Some saga_outcome.REJECTED \<longrightarrow>
        sg_pendingRejection s = Some OBLIGATION_REJECTED \<and> AnsweredObligation (sg_bookingId s) ObligationRejected \<in> set cs \<or>
        AnsweredVoid (sg_bookingId s) Voided \<in> set cs)"

definition log_ok :: "call_entry list \<Rightarrow> saga \<Rightarrow> bool" where
  "log_ok cs s \<longleftrightarrow>
     (Sent (sg_bookingId s) COMMIT_HOLD \<in> set cs \<longrightarrow> sg_pivotAttempted s) \<and>
     (Sent (sg_bookingId s) CREATE_OBLIGATION \<in> set cs \<longrightarrow> past_create cs s) \<and>
     (sg_step s \<in> {CREATE_OBLIGATION, COMMIT_HOLD, VOID_OBLIGATION} \<longrightarrow> past_create cs s) \<and>
     (\<forall>oid. sg_obligationId s = Some oid \<longrightarrow>
        past_create cs s \<and> AnsweredObligation (sg_bookingId s) (ObligationCreated oid) \<in> set cs)"

definition consistent :: "call_entry list \<Rightarrow> booking_event list \<Rightarrow> saga \<Rightarrow> booking \<Rightarrow> bool" where
  "consistent cs events s b \<longleftrightarrow>
     b_id b = sg_bookingId s \<and> saga_inv s \<and> status_ok cs events s b \<and> log_ok cs s"

text \<open>What a worker knows of its saga's row, whether or not it still holds it.\<close>

definition informed :: "saga \<Rightarrow> call_entry list \<Rightarrow> saga \<Rightarrow> bool" where
  "informed s cs current \<longleftrightarrow>
     saga_inv s \<and> (sg_pivotAttempted s \<longrightarrow> sg_pivotAttempted current) \<and>
     (sg_step s \<in> {CREATE_OBLIGATION, COMMIT_HOLD, VOID_OBLIGATION} \<longrightarrow> past_create cs current)"

definition read_of :: "booking \<Rightarrow> booking list \<Rightarrow> bool" where
  "read_of b rows \<longleftrightarrow>
     (\<forall>row \<in> set rows. b_id row = b_id b \<longrightarrow> b_status row = PENDING_CONFIRMATION \<longrightarrow> row = b)"

fun worker_ok :: "call_entry list \<Rightarrow> booking_db \<Rightarrow> saga_worker \<Rightarrow> bool" where
  "worker_ok cs db (Leased i l) \<longleftrightarrow> True"
| "worker_ok cs db (Running rec s l) \<longleftrightarrow>
     b_id (br_booking rec) = sg_bookingId s \<and> read_of (br_booking rec) (bk_bookings db) \<and>
     (\<forall>r \<in> set (bk_sagas db). sr_bookingId r = sg_bookingId s \<longrightarrow> informed s cs (sr_saga r))"
| "worker_ok cs db (Calling rec s l) \<longleftrightarrow>
     b_id (br_booking rec) = sg_bookingId s \<and> read_of (br_booking rec) (bk_bookings db) \<and>
     \<not> isTerminal (sg_step s) \<and> (sg_step s = COMMIT_HOLD \<longrightarrow> sg_pivotAttempted s) \<and>
     (\<forall>r \<in> set (bk_sagas db). sr_bookingId r = sg_bookingId s \<longrightarrow> informed s cs (sr_saga r))"

fun call_of :: "call_entry \<Rightarrow> string" where
  "call_of (Sent i _) = i"
| "call_of (AnsweredQuote i _) = i"
| "call_of (AnsweredObligation i _) = i"
| "call_of (AnsweredCommit i _) = i"
| "call_of (AnsweredVoid i _) = i"

definition rows_ok :: "call_entry list \<Rightarrow> saga_row list \<Rightarrow> booking list \<Rightarrow> booking_event list \<Rightarrow> bool" where
  "rows_ok cs rows bookings events \<longleftrightarrow>
     distinct (map b_id bookings) \<and>
     (\<forall>r \<in> set rows. \<exists>b \<in> set bookings. consistent cs events (sr_saga r) b) \<and>
     b_id ` set bookings = sr_bookingId ` set rows \<and>
     (\<forall>e \<in> set events. \<forall>i. created_for e = Some i \<longrightarrow> i \<in> sr_bookingId ` set rows) \<and>
     (\<forall>c \<in> set cs. call_of c \<in> sr_bookingId ` set rows)"

definition creation_inv :: "creation_state \<Rightarrow> bool" where
  "creation_inv st \<longleftrightarrow>
     sagas.fenced_inv (bk_sagas (cs_db st)) (map worker_view (cs_workers st)) \<and>
     rows_ok (cs_calls st) (bk_sagas (cs_db st)) (bk_bookings (cs_db st)) (bk_outbox (cs_db st)) \<and>
     (\<forall>w \<in> set (cs_workers st). worker_ok (cs_calls st) (cs_db st) w)"

section \<open>The saga as an abstract machine\<close>

text \<open>
  The part of a saga state its correctness is about, and the moves it may make on an answer. The
  attempts, times, errors and versions are bookkeeping the machine does not see.
\<close>

type_synonym saga_core =
  "saga_step \<times> saga_outcome option \<times> rejection_reason option \<times> string option \<times> bool"

definition core :: "saga \<Rightarrow> saga_core" where
  "core s = (sg_step s, sg_outcome s, sg_pendingRejection s, sg_obligationId s, sg_pivotAttempted s)"

inductive saga_spec :: "booking \<Rightarrow> saga_core \<Rightarrow> call_entry \<Rightarrow> saga_core \<Rightarrow> bool" for b where
  stay: "saga_spec b c a c"
| quoted: "totalMatches b t \<Longrightarrow>
    saga_spec b (VALIDATE_QUOTE, None, None, None, False) (AnsweredQuote i (ValidTotal t))
      (CREATE_OBLIGATION, None, None, None, False)"
| quote_refused:
    "saga_spec b (VALIDATE_QUOTE, None, None, None, False) (AnsweredQuote i q)
      (saga_step.DONE, Some saga_outcome.REJECTED, Some reason, None, False)"
| obliged:
    "saga_spec b (CREATE_OBLIGATION, None, None, None, False) (AnsweredObligation i (ObligationCreated oid))
      (COMMIT_HOLD, None, None, Some oid, False)"
| obligation_refused:
    "saga_spec b (CREATE_OBLIGATION, None, None, None, False) (AnsweredObligation i ObligationRejected)
      (saga_step.DONE, Some saga_outcome.REJECTED, Some OBLIGATION_REJECTED, None, False)"
| give_up:
    "saga_spec b (CREATE_OBLIGATION, None, None, None, False) (AnsweredObligation i (ObligationUnavailable e))
      (VOID_OBLIGATION, None, Some DEADLINE_EXCEEDED, None, False)"
| committed: "matchesRequestedSlot b slot \<Longrightarrow>
    saga_spec b (COMMIT_HOLD, None, None, Some oid, True) (AnsweredCommit i (HoldCommitted slot))
      (saga_step.DONE, Some saga_outcome.CONFIRMED, None, Some oid, True)"
| mismatch: "\<not> matchesRequestedSlot b slot \<Longrightarrow>
    saga_spec b (COMMIT_HOLD, None, None, Some oid, True) (AnsweredCommit i (HoldCommitted slot))
      (NEEDS_RECONCILIATION, None, None, Some oid, True)"
| commit_refused:
    "saga_spec b (COMMIT_HOLD, None, None, Some oid, True) (AnsweredCommit i (HoldRefused x))
      (VOID_OBLIGATION, None, Some (refusal_reason x), Some oid, True)"
| voided:
    "saga_spec b (VOID_OBLIGATION, None, Some reason, obl, p) (AnsweredVoid i Voided)
      (saga_step.DONE, Some saga_outcome.REJECTED, Some reason, obl, p)"

lemma core_retry [simp]: "core (retry s e now rnd) = core s"
  by (simp add: core_def retry_def Let_def)

lemma retry_id [simp]: "sg_bookingId (retry s e now rnd) = sg_bookingId s"
  by (simp add: retry_def Let_def)

lemma saga_inv_cases:
  assumes "saga_inv s"
  shows "sg_step s = VALIDATE_QUOTE \<Longrightarrow> core s = (VALIDATE_QUOTE, None, None, None, False)"
    and "sg_step s = CREATE_OBLIGATION \<Longrightarrow> core s = (CREATE_OBLIGATION, None, None, None, False)"
    and "sg_step s = COMMIT_HOLD \<Longrightarrow> \<exists>oid. core s = (COMMIT_HOLD, None, None, Some oid, sg_pivotAttempted s)"
    and "sg_step s = VOID_OBLIGATION \<Longrightarrow>
      \<exists>reason. core s = (VOID_OBLIGATION, None, Some reason, sg_obligationId s, sg_pivotAttempted s)"
  using assms by (auto simp: saga_inv_def core_def)

lemma advance_id:
  "(\<And>s. sg_bookingId (patch s) = sg_bookingId s) \<Longrightarrow> sg_bookingId (advance s step now patch) = sg_bookingId s"
  by (simp add: advance_def)

lemma onQuoteChecked_spec:
  assumes "onQuoteChecked s (quote_check_of b q) now rnd = Inr nxt" and "saga_inv s"
  shows "saga_spec b (core s) (AnsweredQuote i q) (core nxt) \<and> sg_bookingId nxt = sg_bookingId s"
proof -
  have s: "core s = (VALIDATE_QUOTE, None, None, None, False)" "sg_step s = VALIDATE_QUOTE"
    using assms saga_inv_cases by (auto simp: onQuoteChecked_def)
  have f: "sg_outcome s = None" "sg_pendingRejection s = None" "sg_obligationId s = None" "\<not> sg_pivotAttempted s"
    using s by (simp_all add: core_def)
  have rej: "core (rejectOrCompensate s reason now) =
      (saga_step.DONE, Some saga_outcome.REJECTED, Some reason, None, False)" for reason
    using s f by (simp add: core_def rejectOrCompensate_def advance_def)
  have ids: "sg_bookingId (rejectOrCompensate s reason now) = sg_bookingId s" for reason
    by (simp add: rejectOrCompensate_def advance_def)
  have adv: "core (advance s CREATE_OBLIGATION now id) = (CREATE_OBLIGATION, None, None, None, False)"
    "sg_bookingId (advance s CREATE_OBLIGATION now id) = sg_bookingId s"
    using f by (simp_all add: core_def advance_def)
  show ?thesis
    using assms(1) s(2) rej ids adv unfolding s(1)
    by (cases q) (auto simp: onQuoteChecked_def quote_check_of_def retryBeforePivot_def s(1)
        intro: saga_spec.intros split: if_splits)
qed

lemma onObligation_spec:
  assumes "onObligation s r now rnd = Inr nxt" and "saga_inv s"
  shows "saga_spec b (core s) (AnsweredObligation i r) (core nxt) \<and> sg_bookingId nxt = sg_bookingId s"
proof -
  have s: "core s = (CREATE_OBLIGATION, None, None, None, False)" "sg_step s = CREATE_OBLIGATION"
    using assms saga_inv_cases by (auto simp: onObligation_def)
  have f: "sg_outcome s = None" "sg_pendingRejection s = None" "sg_obligationId s = None" "\<not> sg_pivotAttempted s"
    using s by (simp_all add: core_def)
  have rej: "core (rejectOrCompensate s DEADLINE_EXCEEDED now) =
      (VOID_OBLIGATION, None, Some DEADLINE_EXCEEDED, None, False)"
    using s f by (simp add: core_def rejectOrCompensate_def advance_def)
  show ?thesis
  proof (cases r)
    case (ObligationCreated oid)
    with assms(1) f have "core nxt = (COMMIT_HOLD, None, None, Some oid, False)" "sg_bookingId nxt = sg_bookingId s"
      by (auto simp: onObligation_def core_def advance_def)
    with ObligationCreated s show ?thesis by (simp add: saga_spec.obliged)
  next
    case ObligationRejected
    with assms(1) f have "core nxt = (saga_step.DONE, Some saga_outcome.REJECTED, Some OBLIGATION_REJECTED, None, False)"
      "sg_bookingId nxt = sg_bookingId s" by (auto simp: onObligation_def core_def advance_def)
    with ObligationRejected s show ?thesis by (simp add: saga_spec.obligation_refused)
  next
    case (ObligationUnavailable e)
    show ?thesis
    proof (cases "sg_deadlineAt s \<le> now")
      case True
      with ObligationUnavailable assms(1) have "nxt = rejectOrCompensate s DEADLINE_EXCEEDED now"
        by (simp add: onObligation_def retryBeforePivot_def)
      with rej s ObligationUnavailable show ?thesis
        by (simp add: saga_spec.give_up rejectOrCompensate_def advance_def)
    next
      case False
      with ObligationUnavailable assms(1) have "nxt = retry s e now rnd"
        by (simp add: onObligation_def retryBeforePivot_def)
      then show ?thesis by (simp add: saga_spec.stay)
    qed
  qed
qed

lemma onCommit_spec:
  assumes "onCommit s (commit_result_of b r) now rnd = Inr nxt" and "saga_inv s"
  shows "saga_spec b (core s) (AnsweredCommit i r) (core nxt) \<and> sg_bookingId nxt = sg_bookingId s"
proof -
  have p: "sg_pivotAttempted s" "sg_step s = COMMIT_HOLD"
    using assms by (auto simp: onCommit_def split: if_splits)
  then obtain oid where s: "core s = (COMMIT_HOLD, None, None, Some oid, True)"
    using assms(2) saga_inv_cases(3) by metis
  then have f: "sg_outcome s = None" "sg_pendingRejection s = None" "sg_obligationId s = Some oid"
    by (simp_all add: core_def)
  show ?thesis
  proof (cases r)
    case (HoldCommitted slot)
    with assms(1) p f show ?thesis unfolding s HoldCommitted
      by (cases "matchesRequestedSlot b slot")
        (auto simp: onCommit_def commit_result_of_def core_def advance_def saga_spec.committed saga_spec.mismatch)
  next
    case (HoldRefused x)
    with assms(1) p f show ?thesis unfolding s HoldRefused
      by (auto simp: onCommit_def commit_result_of_def core_def advance_def rejectOrCompensate_def
          saga_spec.commit_refused)
  next
    case (HoldUnknown e)
    with assms(1) p show ?thesis by (auto simp: onCommit_def commit_result_of_def intro: saga_spec.stay)
  qed
qed

lemma onVoid_spec:
  assumes "onVoid s r now rnd = Inr nxt" and "saga_inv s"
  shows "saga_spec b (core s) (AnsweredVoid i r) (core nxt) \<and> sg_bookingId nxt = sg_bookingId s"
proof -
  have st: "sg_step s = VOID_OBLIGATION" using assms by (auto simp: onVoid_def)
  then obtain reason where
    s: "core s = (VOID_OBLIGATION, None, Some reason, sg_obligationId s, sg_pivotAttempted s)"
    using assms(2) saga_inv_cases(4) by metis
  then have f: "sg_outcome s = None" "sg_pendingRejection s = Some reason" by (simp_all add: core_def)
  show ?thesis
  proof (cases r)
    case Voided
    with assms(1) st have n: "nxt = advance s saga_step.DONE now (sg_outcome_update (\<lambda>_. Some saga_outcome.REJECTED))"
      by (simp add: onVoid_def)
    have "core nxt = (saga_step.DONE, Some saga_outcome.REJECTED, Some reason, sg_obligationId s, sg_pivotAttempted s)"
      using f by (simp add: n core_def advance_def)
    moreover have "sg_bookingId nxt = sg_bookingId s" by (simp add: n advance_def)
    ultimately show ?thesis unfolding s Voided by (simp add: saga_spec.voided)
  next
    case (VoidUnavailable e)
    with assms(1) st show ?thesis by (auto simp: onVoid_def intro: saga_spec.stay)
  qed
qed

text \<open>Every decision of the process manager is a move of the machine on the answer it got.\<close>

lemma decide_spec:
  assumes d: "decide b s env = Inr (nxt, slot)" and inv: "saga_inv s"
  shows "saga_spec b (core s) (answer_entry s env) (core nxt)" and "sg_bookingId nxt = sg_bookingId s"
proof -
  have "saga_spec b (core s) (answer_entry s env) (core nxt) \<and> sg_bookingId nxt = sg_bookingId s"
  proof (cases "sg_step s")
    case VALIDATE_QUOTE
    with d onQuoteChecked_spec [OF _ inv] show ?thesis by (auto simp: decide_def answer_entry_def)
  next
    case CREATE_OBLIGATION
    with d onObligation_spec [OF _ inv] show ?thesis by (auto simp: decide_def answer_entry_def)
  next
    case COMMIT_HOLD
    with d onCommit_spec [OF _ inv] show ?thesis by (auto simp: decide_def answer_entry_def)
  next
    case VOID_OBLIGATION
    with d onVoid_spec [OF _ inv] show ?thesis by (auto simp: decide_def answer_entry_def)
  qed (use d in \<open>auto simp: decide_def intro: saga_spec.stay\<close>)
  then show "saga_spec b (core s) (answer_entry s env) (core nxt)" and "sg_bookingId nxt = sg_bookingId s"
    by blast+
qed

end
