(* ===== verification/Booking_Safety.thy ===== *)
theory Booking_Safety
  imports Booking_System
begin

text \<open>
  The invariant of booking creation: every step of \<open>creation_step\<close> keeps
  \<open>creation_inv\<close>, whatever the workers do in whatever order. The moves of the abstract machine
  \<open>saga_spec\<close> keep a booking and its saga \<open>consistent\<close>; the locale of fenced leases
  says which worker can make one.
\<close>

section \<open>The log grows\<close>

lemma past_create_mono: "past_create cs s \<Longrightarrow> set cs \<subseteq> set cs' \<Longrightarrow> past_create cs' s"
  by (auto simp: past_create_def)

lemma past_create_snoc [simp]: "past_create cs s \<Longrightarrow> past_create (cs @ [a]) s"
  by (erule past_create_mono) auto

lemma confirmed_ok_snoc: "confirmed_ok cs ev b \<Longrightarrow> confirmed_ok (cs @ [a]) ev b"
  by (auto simp: confirmed_ok_def)

lemma status_ok_snoc: "status_ok cs ev s b \<Longrightarrow> status_ok (cs @ [a]) ev s b"
  by (auto simp: status_ok_def confirmed_ok_snoc split: if_splits)

definition entry_ok :: "call_entry \<Rightarrow> call_entry list \<Rightarrow> saga \<Rightarrow> bool" where
  "entry_ok a cs s \<longleftrightarrow>
     (a = Sent (sg_bookingId s) COMMIT_HOLD \<longrightarrow> sg_pivotAttempted s) \<and>
     (a = Sent (sg_bookingId s) CREATE_OBLIGATION \<longrightarrow> past_create cs s)"

lemma entry_ok_answer [simp]: "entry_ok (answer_entry s env) cs s'"
  by (cases "sg_step s") (simp_all add: entry_ok_def answer_entry_def)

lemma log_ok_snoc: "log_ok cs s \<Longrightarrow> entry_ok a cs s \<Longrightarrow> log_ok (cs @ [a]) s"
  by (auto simp: log_ok_def entry_ok_def)

lemma consistent_snoc: "consistent cs ev s b \<Longrightarrow> entry_ok a cs s \<Longrightarrow> consistent (cs @ [a]) ev s b"
  by (simp add: consistent_def status_ok_snoc log_ok_snoc)

lemma informed_snoc: "informed s cs current \<Longrightarrow> informed s (cs @ [a]) current"
  by (auto simp: informed_def)

section \<open>Only the core of a saga matters\<close>

lemma core_eq:
  "core s = core s' \<longleftrightarrow> sg_step s = sg_step s' \<and> sg_outcome s = sg_outcome s' \<and>
     sg_pendingRejection s = sg_pendingRejection s' \<and> sg_obligationId s = sg_obligationId s' \<and>
     sg_pivotAttempted s = sg_pivotAttempted s'"
  by (simp add: core_def)

lemma consistent_cong:
  "core s = core s' \<Longrightarrow> sg_bookingId s = sg_bookingId s' \<Longrightarrow> consistent cs ev s b \<longleftrightarrow> consistent cs ev s' b"
  by (simp add: core_eq consistent_def saga_inv_def status_ok_def log_ok_def past_create_def)

lemma informed_cong:
  "core s = core s' \<Longrightarrow> sg_bookingId s = sg_bookingId s' \<Longrightarrow> informed x cs s \<longleftrightarrow> informed x cs s'"
  by (simp add: core_eq informed_def past_create_def)

lemma saga_image_core: "saga_image s = saga_image s' \<Longrightarrow> core s = core s' \<and> sg_bookingId s = sg_bookingId s'"
  by (cases s; cases s') (simp add: saga_image_def core_def)

lemma written_core [simp]:
  "core (sr_saga (written_saga s rel ms r)) = core s"
  "sg_bookingId (sr_saga (written_saga s rel ms r)) = sg_bookingId s"
  by (simp_all add: written_saga_def core_def)

lemma taken_core [simp]:
  "core (sr_saga (take_lease who t r)) = core (sr_saga r)"
  "sg_bookingId (sr_saga (take_lease who t r)) = sg_bookingId (sr_saga r)"
  by (simp_all add: take_lease_def core_def)

section \<open>Moves keep a booking and its saga consistent\<close>

lemma consistent_informed: "consistent cs ev s b \<Longrightarrow> informed s cs s"
  by (simp add: consistent_def informed_def log_ok_def)

lemma saga_inv_core: "core s = (st, out, rej, obl, piv) \<Longrightarrow> saga_inv s \<longleftrightarrow> saga_shape st out rej obl piv"
  by (auto simp: saga_inv_def core_def)

lemma spec_shape:
  assumes "saga_spec b c a c'"
  shows "case c of (st, out, rej, obl, piv) \<Rightarrow> saga_shape st out rej obl piv \<Longrightarrow>
         case c' of (st, out, rej, obl, piv) \<Rightarrow> saga_shape st out rej obl piv"
  using assms by cases auto

lemma spec_saga_inv: "saga_spec b (core s) a (core nxt) \<Longrightarrow> saga_inv s \<Longrightarrow> saga_inv nxt"
  using spec_shape [of b "core s" a "core nxt"] by (simp add: core_def saga_inv_def)

lemma spec_pivot: "saga_spec b (core s) a (core nxt) \<Longrightarrow> sg_pivotAttempted nxt = sg_pivotAttempted s"
  by (erule saga_spec.cases) (auto simp: core_def)

text \<open>A saga past the creation of its obligation stays so: it leaves only through Billing.\<close>

lemma spec_past_create:
  assumes spec: "saga_spec b (core s) (answer_entry s env) (core nxt)" and p: "past_create cs s"
    and i: "sg_bookingId nxt = sg_bookingId s" and inv: "saga_inv s"
  shows "past_create (cs @ [answer_entry s env]) nxt"
  using spec
proof cases
  case stay
  then show ?thesis using p i by (auto simp: past_create_def core_eq)
next
  case (voided reason obl piv j)
  then have "sg_step s = VOID_OBLIGATION" by (simp add: core_def)
  with voided i show ?thesis by (auto simp: past_create_def core_def answer_entry_def)
next
  case (obligation_refused j)
  then have "sg_step s = CREATE_OBLIGATION" by (simp add: core_def)
  with obligation_refused i show ?thesis by (auto simp: past_create_def core_def answer_entry_def)
qed (use p i in \<open>auto simp: past_create_def core_def\<close>)

lemma spec_informed:
  assumes "saga_spec b (core s) (answer_entry s env) (core nxt)" and "sg_bookingId nxt = sg_bookingId s"
    and "saga_inv s" and "informed x cs s"
  shows "informed x (cs @ [answer_entry s env]) nxt"
  using assms spec_past_create spec_pivot by (auto simp: informed_def)

lemma spec_log_ok:
  assumes spec: "saga_spec b (core s) (answer_entry s env) (core nxt)" and l: "log_ok cs s"
    and i: "sg_bookingId nxt = sg_bookingId s" and inv: "saga_inv s"
  shows "log_ok (cs @ [answer_entry s env]) nxt"
proof -
  have sent: "Sent j st \<in> set (cs @ [answer_entry s env]) \<longleftrightarrow> Sent j st \<in> set cs" for j st
    by (cases "sg_step s") (auto simp: answer_entry_def)
  have past: "past_create cs s \<Longrightarrow> past_create (cs @ [answer_entry s env]) nxt"
    using spec_past_create [OF spec _ i inv] .
  have first: "sg_step nxt \<in> {CREATE_OBLIGATION, COMMIT_HOLD, VOID_OBLIGATION} \<Longrightarrow>
      past_create (cs @ [answer_entry s env]) nxt"
  proof -
    assume st: "sg_step nxt \<in> {CREATE_OBLIGATION, COMMIT_HOLD, VOID_OBLIGATION}"
    show ?thesis
    proof (cases "sg_step s = VALIDATE_QUOTE")
      case True
      from spec_saga_inv [OF spec inv] st show ?thesis
        by (auto simp: past_create_def saga_inv_def)
    next
      case False
      with inv l spec st have "sg_step s \<in> {CREATE_OBLIGATION, COMMIT_HOLD, VOID_OBLIGATION}"
        by (cases "sg_step s") (auto simp: core_def saga_inv_def elim: saga_spec.cases)
      with l past show ?thesis by (auto simp: log_ok_def)
    qed
  qed
  have "past_create (cs @ [answer_entry s env]) nxt \<and>
      AnsweredObligation (sg_bookingId nxt) (ObligationCreated oid) \<in> set (cs @ [answer_entry s env])"
    if o: "sg_obligationId nxt = Some oid" for oid
  proof (cases "sg_obligationId s = Some oid")
    case True
    with l past i show ?thesis by (auto simp: log_ok_def)
  next
    case False
    from spec False o have "core s = (CREATE_OBLIGATION, None, None, None, False)"
      and "\<exists>j. answer_entry s env = AnsweredObligation j (ObligationCreated oid)"
      by (auto simp: core_def elim!: saga_spec.cases)
    then have "sg_step s = CREATE_OBLIGATION" "answer_entry s env = AnsweredObligation (sg_bookingId s) (ObligationCreated oid)"
      by (auto simp: core_def answer_entry_def)
    with l past i show ?thesis by (simp add: log_ok_def)
  qed
  with l past first sent show ?thesis
    using spec_pivot [OF spec] i by (simp add: log_ok_def)
qed

text \<open>The saga goes on: the booking stays as it is.\<close>

lemma spec_goes_on:
  assumes spec: "saga_spec b (core s) (answer_entry s env) (core nxt)" and c: "consistent cs ev s b"
    and i: "sg_bookingId nxt = sg_bookingId s"
    and t: "\<not> isTerminal (sg_step s)" "sg_step nxt \<noteq> saga_step.DONE"
  shows "consistent (cs @ [answer_entry s env]) ev nxt b"
  using assms spec_saga_inv [OF spec] spec_log_ok [OF spec]
  by (auto simp: consistent_def status_ok_def isTerminal_def)

text \<open>The saga ends: the booking is confirmed with the slot that was committed, or rejected.\<close>

lemma stored_slot_matches [simp]: "matchesRequestedSlot b slot \<Longrightarrow> stored_slot b slot = slot"
  by (simp add: stored_slot_def matchesRequestedSlot_def)

lemma spec_confirms:
  assumes spec: "saga_spec b (core s) (answer_entry s env) (core nxt)" and t: "\<not> isTerminal (sg_step s)"
    and conf: "sg_outcome nxt = Some saga_outcome.CONFIRMED" and inv: "saga_inv s"
  shows "sg_step s = COMMIT_HOLD \<and>
    (\<exists>slot. se_commit env = HoldCommitted slot \<and> matchesRequestedSlot b slot)"
  using spec
proof cases
  case stay
  then have "sg_outcome s = Some saga_outcome.CONFIRMED" using conf by (simp add: core_eq)
  with inv t show ?thesis by (cases "sg_step s") (auto simp: saga_inv_def isTerminal_def)
next
  case (committed slot oid j)
  then have "sg_step s = COMMIT_HOLD" by (simp add: core_def)
  with committed show ?thesis by (auto simp: answer_entry_def)
qed (use conf in \<open>auto simp: core_def\<close>)

lemma created_count_append [simp]: "created_count (ev @ ev') i = created_count ev i + created_count ev' i"
  by (simp add: created_count_def)

lemma created_count_none: "\<forall>e \<in> set es. created_for e \<noteq> Some i \<Longrightarrow> created_count es i = 0"
  by (simp add: created_count_def filter_empty_conv)

lemma finished_row_fields [simp]:
  "b_id (finished_row fb b) = b_id b" "b_status (finished_row fb b) = b_status fb"
  "b_rejectionReason (finished_row fb b) = b_rejectionReason fb"
  "b_slot (finished_row fb b) = map_option (stored_slot b) (b_slot fb)"
  "b_requestedSlot (finished_row fb b) = b_requestedSlot b"
  by (simp_all add: finished_row_def)

definition event_list :: "booking_event option \<Rightarrow> booking_event list" where
  "event_list e = (case e of None \<Rightarrow> [] | Some x \<Rightarrow> [x])"

lemma spec_ends:
  assumes spec: "saga_spec b (core s) (answer_entry s env) (core nxt)" and c: "consistent cs ev s b"
    and i: "sg_bookingId nxt = sg_bookingId s" and t: "\<not> isTerminal (sg_step s)"
    and d: "sg_step nxt = saga_step.DONE"
    and slot: "sg_step s = COMMIT_HOLD \<Longrightarrow> slot = committed_slot (se_commit env)"
    and fb: "final_booking b nxt slot now = Inr (fb, action)"
    and e: "created_event rec b fb env' = Inr event"
  shows "consistent (cs @ [answer_entry s env]) (ev @ event_list event) nxt (finished_row fb b)"
    and "b_version fb \<noteq> b_version b"
proof -
  have inv: "saga_inv s" "saga_inv nxt" using c spec_saga_inv [OF spec] by (auto simp: consistent_def)
  have l: "log_ok (cs @ [answer_entry s env]) nxt" using c spec_log_ok [OF spec _ i] by (auto simp: consistent_def)
  have b: "b_status b = PENDING_CONFIRMATION" "b_id b = sg_bookingId s" "created_count ev (b_id b) = 0"
    using c t by (auto simp: consistent_def status_ok_def isTerminal_def split: if_splits)
  have "consistent (cs @ [answer_entry s env]) (ev @ event_list event) nxt (finished_row fb b) \<and>
    b_version fb \<noteq> b_version b"
  proof (cases "sg_outcome nxt = Some saga_outcome.CONFIRMED")
    case True
    obtain sl where sl: "se_commit env = HoldCommitted sl" "matchesRequestedSlot b sl" and st: "sg_step s = COMMIT_HOLD"
      using spec_confirms [OF spec t True inv(1)] by auto
    have f: "confirmBooking b sl now = Inr fb"
      using fb True d st sl slot by (auto simp: final_booking_def committed_slot_def)
    then have fb': "fb = b\<lparr>b_status := booking_state.CONFIRMED, b_version := b_version b + 1,
        b_slot := Some sl, b_updatedAt := now, b_confirmedAt := Some now\<rparr>"
      using confirmBooking_Inr by blast
    obtain ev1 where ev1: "event = Some ev1" "created_for ev1 = Some (b_id b)"
      using e b(1) created_for_created by (force simp: created_event_def fb')
    have a: "answer_entry s env = AnsweredCommit (b_id b) (HoldCommitted sl)"
      using st sl b(2) by (simp add: answer_entry_def)
    have "confirmed_ok (cs @ [answer_entry s env]) (ev @ event_list event) (finished_row fb b)"
      using sl b a ev1 by (simp add: confirmed_ok_def event_list_def created_count_def fb' matchesRequestedSlot_def)
    with True d b i inv l show ?thesis by (simp add: consistent_def status_ok_def fb')
  next
    case False
    then have r: "sg_outcome nxt = Some saga_outcome.REJECTED" using inv(2) d by (auto simp: saga_inv_def)
    then obtain reason where reason: "sg_pendingRejection nxt = Some reason" using inv(2) d by (auto simp: saga_inv_def)
    have f: "rejectBooking b reason now = Inr fb"
      using fb r d reason by (auto simp: final_booking_def)
    then have fb': "fb = b\<lparr>b_status := booking_state.REJECTED, b_version := b_version b + 1,
        b_rejectionReason := Some reason, b_updatedAt := now\<rparr>"
      using rejectBooking_Inr by blast
    have "event = None" using e by (simp add: created_event_def fb')
    with r d b i inv l reason show ?thesis
      by (simp add: consistent_def status_ok_def fb' event_list_def created_count_def)
  qed
  then show "consistent (cs @ [answer_entry s env]) (ev @ event_list event) nxt (finished_row fb b)"
    and "b_version fb \<noteq> b_version b" by blast+
qed

section \<open>Updating one row\<close>

lemma update_one:
  assumes d: "distinct (map key rows)" and r: "r \<in> set rows" "hit r"
    and h: "\<And>q. q \<in> set rows \<Longrightarrow> hit q \<Longrightarrow> key q = key r" and k: "key (f r) = key r"
  shows "set (update_rows hit f rows) = insert (f r) {q \<in> set rows. key q \<noteq> key r}"
    and "map key (update_rows hit f rows) = map key rows"
proof -
  have one: "hit q \<longleftrightarrow> q = r" if "q \<in> set rows" for q
    using that r h distinct_key_eq [OF d] by blast
  have other: "key q \<noteq> key r \<longleftrightarrow> q \<noteq> r" if "q \<in> set rows" for q
    using that r(1) distinct_key_eq [OF d] by blast
  show "set (update_rows hit f rows) = insert (f r) {q \<in> set rows. key q \<noteq> key r}"
    using one other r by (auto simp: set_update_rows)
  show "map key (update_rows hit f rows) = map key rows"
    using one k by (auto simp: update_rows_def)
qed

lemma consistent_frame:
  assumes c: "consistent cs ev s b" and n: "sg_bookingId s \<noteq> k"
    and as: "\<forall>a \<in> set as. call_of a = k" and es: "\<forall>e \<in> set es. created_for e \<in> {None, Some k}"
  shows "consistent (cs @ as) (ev @ es) s b"
proof -
  have a: "a \<notin> set as" if "call_of a = sg_bookingId s" for a using as n that by auto
  have e: "created_count es (b_id b) = 0"
    using c n es by (intro created_count_none) (auto simp: consistent_def)
  have "Sent (sg_bookingId s) st \<notin> set as" for st using a by simp
  moreover have "past_create cs s \<Longrightarrow> past_create (cs @ as) s" by (erule past_create_mono) auto
  ultimately show ?thesis using c e
    by (auto simp: consistent_def status_ok_def confirmed_ok_def log_ok_def split: if_splits)
qed

lemma rows_ok_update:
  assumes ok: "rows_ok cs rows bookings ev"
    and rows': "set rows' = insert r' {q \<in> set rows. sr_bookingId q \<noteq> k}" "sr_bookingId r' = k"
      "map sr_bookingId rows' = map sr_bookingId rows"
    and bookings': "set bookings' = insert b' {q \<in> set bookings. b_id q \<noteq> k}"
      "map b_id bookings' = map b_id bookings"
    and c: "consistent (cs @ as) (ev @ es) (sr_saga r') b'"
    and as: "\<forall>a \<in> set as. call_of a = k" and es: "\<forall>e \<in> set es. created_for e \<in> {None, Some k}"
  shows "rows_ok (cs @ as) rows' bookings' (ev @ es)"
proof -
  have keys: "sr_bookingId ` set rows' = sr_bookingId ` set rows" "b_id ` set bookings' = b_id ` set bookings"
    using rows'(3) bookings'(2) by (metis set_map)+
  have "r' \<in> set rows'" using rows'(1) by simp
  then have k: "k \<in> sr_bookingId ` set rows" using keys(1) rows'(2) by (metis image_eqI)
  have "\<exists>b \<in> set bookings'. consistent (cs @ as) (ev @ es) (sr_saga q) b" if q: "q \<in> set rows'" for q
  proof (cases "q = r'")
    case True
    then show ?thesis using c bookings'(1) by auto
  next
    case False
    then have q': "q \<in> set rows" "sr_bookingId q \<noteq> k" using q rows'(1) by auto
    then obtain b where b: "b \<in> set bookings" "consistent cs ev (sr_saga q) b" using ok by (auto simp: rows_ok_def)
    then have "b_id b \<noteq> k" using q'(2) by (simp add: consistent_def sr_bookingId_def)
    with b bookings'(1) consistent_frame [OF b(2) _ as es] q'(2) show ?thesis
      by (auto simp: sr_bookingId_def)
  qed
  moreover have "i \<in> sr_bookingId ` set rows" if "e \<in> set (ev @ es)" "created_for e = Some i" for e i
  proof (cases "e \<in> set ev")
    case True
    then show ?thesis using ok that(2) by (simp add: rows_ok_def)
  next
    case False
    with that es k show ?thesis by fastforce
  qed
  moreover have "call_of a \<in> sr_bookingId ` set rows" if "a \<in> set (cs @ as)" for a
    using that ok as k by (auto simp: rows_ok_def)
  ultimately show ?thesis using ok keys bookings'(2) by (simp add: rows_ok_def)
qed

lemma rows_ok_booking:
  assumes "rows_ok cs rows bookings ev" and "r \<in> set rows"
  obtains b where "b \<in> set bookings" "consistent cs ev (sr_saga r) b" "b_id b = sr_bookingId r"
  using assms by (auto simp: rows_ok_def consistent_def sr_bookingId_def)

section \<open>Workers\<close>

lemma worker_ok_mono:
  assumes w: "worker_ok cs db w"
    and s: "\<And>r'. r' \<in> set (bk_sagas db') \<Longrightarrow> sr_bookingId r' = fst (worker_view w) \<Longrightarrow>
      \<exists>r \<in> set (bk_sagas db). sr_bookingId r = sr_bookingId r' \<and>
        (\<forall>x. informed x cs (sr_saga r) \<longrightarrow> informed x cs' (sr_saga r'))"
    and b: "\<And>b'. b' \<in> set (bk_bookings db') \<Longrightarrow> b_id b' = fst (worker_view w) \<Longrightarrow>
      b_status b' = PENDING_CONFIRMATION \<Longrightarrow> b' \<in> set (bk_bookings db)"
  shows "worker_ok cs' db' w"
  using w s b by (cases w) (fastforce simp: read_of_def)+

lemma worker_ok_same:
  assumes "worker_ok cs db w" and "bk_sagas db' = bk_sagas db" and "bk_bookings db' = bk_bookings db"
  shows "worker_ok cs db' w"
  using assms by (cases w) auto

lemma creation_inv_same:
  assumes "creation_inv \<lparr>cs_db = db, cs_workers = ws, cs_calls = cs\<rparr>"
    and "bk_sagas db' = bk_sagas db" "bk_bookings db' = bk_bookings db" "bk_outbox db' = bk_outbox db"
  shows "creation_inv \<lparr>cs_db = db', cs_workers = ws, cs_calls = cs\<rparr>"
  using assms worker_ok_same [of cs db _ db'] by (simp add: creation_inv_def)

lemma creation_inv_drop:
  assumes "creation_inv \<lparr>cs_db = db, cs_workers = us @ w # vs, cs_calls = cs\<rparr>"
  shows "creation_inv \<lparr>cs_db = db, cs_workers = us @ vs, cs_calls = cs\<rparr>"
  using assms sagas.fenced_inv_drop [of _ "map worker_view us" "worker_view w" "map worker_view vs"]
  by (simp add: creation_inv_def)

fun worker_of :: "booking_record \<Rightarrow> saga \<Rightarrow> lease \<Rightarrow> saga_worker \<Rightarrow> bool" where
  "worker_of rec s l (Leased _ _) \<longleftrightarrow> False"
| "worker_of rec s l (Running rec' s' l') \<longleftrightarrow> rec' = rec \<and> s' = s \<and> l' = l"
| "worker_of rec s l (Calling rec' s' l') \<longleftrightarrow>
     rec' = rec \<and> s' = s \<and> l' = l \<and> \<not> isTerminal (sg_step s) \<and> (sg_step s = COMMIT_HOLD \<longrightarrow> sg_pivotAttempted s)"

lemma worker_of_view: "worker_of rec s l w \<Longrightarrow> worker_view w = (sg_bookingId s, l, Some s)"
  by (cases w) auto

lemma worker_ok_of:
  assumes "worker_of rec s l w"
  shows "worker_ok cs db w \<longleftrightarrow>
    b_id (br_booking rec) = sg_bookingId s \<and> read_of (br_booking rec) (bk_bookings db) \<and>
    (\<forall>r \<in> set (bk_sagas db). sr_bookingId r = sg_bookingId s \<longrightarrow> informed s cs (sr_saga r))"
  using assms by (cases w) auto

text \<open>
  The worker that holds the row writes it, with the booking and the events of its transaction;
  every other worker still knows nothing the row contradicts.
\<close>

lemma holder_writes:
  assumes inv: "creation_inv \<lparr>cs_db = db, cs_workers = us @ w # vs, cs_calls = cs\<rparr>"
    and w: "worker_of rec s l w" and w': "worker_of rec x l w'"
    and r: "r \<in> set (bk_sagas db)" "sagas.fenced x l r" and xid: "sg_bookingId x = sg_bookingId s"
    and rows': "bk_sagas db' = update_rows (saga_fenced x l) (written_saga x rel ms) (bk_sagas db)"
    and bs: "set (bk_bookings db') = insert b' {q \<in> set (bk_bookings db). b_id q \<noteq> sg_bookingId s}"
      "map b_id (bk_bookings db') = map b_id (bk_bookings db)"
      "b_status b' = PENDING_CONFIRMATION \<Longrightarrow> b' \<in> set (bk_bookings db)"
    and ev: "bk_outbox db' = bk_outbox db @ es" "\<forall>e \<in> set es. created_for e \<in> {None, Some (sg_bookingId s)}"
    and as: "\<forall>a \<in> set as. call_of a = sg_bookingId s"
    and c: "consistent (cs @ as) (bk_outbox db @ es) x b'"
    and k: "\<And>y. informed y cs (sr_saga r) \<Longrightarrow> informed y (cs @ as) x"
  shows "creation_inv \<lparr>cs_db = db', cs_workers = us @ w' # vs, cs_calls = cs @ as\<rparr>"
proof -
  let ?k = "sg_bookingId s" and ?r' = "written_saga x rel ms r"
  have fi: "sagas.fenced_inv (bk_sagas db) (map worker_view us @ (?k, l, Some s) # map worker_view vs)"
    using inv worker_of_view [OF w] by (simp add: creation_inv_def)
  have rk: "sr_bookingId r = ?k" using r(2) xid by (simp add: sagas.fenced_def)
  have d: "distinct (map sr_bookingId (bk_sagas db))" using fi by (rule sagas.fenced_inv_distinct)
  have rk': "sr_bookingId ?r' = ?k" using xid by (simp add: sr_bookingId_def)
  have upd: "set (bk_sagas db') = insert ?r' {q \<in> set (bk_sagas db). sr_bookingId q \<noteq> ?k}"
    "map sr_bookingId (bk_sagas db') = map sr_bookingId (bk_sagas db)"
    unfolding rows' saga_fenced_eq
    using update_one [OF d r(1), of "sagas.fenced x l" "written_saga x rel ms"] r(2) rk rk' xid
    by (auto simp: sagas.fenced_def)
  have F: "sagas.fenced_inv (bk_sagas db') (map worker_view (us @ w' # vs))"
    using sagas.fenced_inv_write [OF fi, of x rel ms] worker_of_view [OF w'] xid
    by (simp add: rows' saga_fenced_eq)
  have cx: "consistent (cs @ as) (bk_outbox db @ es) (sr_saga ?r') b'"
    using c consistent_cong [of x "sr_saga ?r'"] by simp
  have R: "rows_ok (cs @ as) (bk_sagas db') (bk_bookings db') (bk_outbox db')"
    unfolding ev(1)
  proof (rule rows_ok_update [OF _ upd(1) rk' upd(2) bs(1,2) cx as ev(2)])
    show "rows_ok cs (bk_sagas db) (bk_bookings db) (bk_outbox db)" using inv by (simp add: creation_inv_def)
  qed
  have kr: "informed y (cs @ as) (sr_saga ?r')" if "informed y cs (sr_saga r)" for y
    using k [OF that] informed_cong [of x "sr_saga ?r'"] by simp
  have mono: "informed y cs (sr_saga q) \<Longrightarrow> informed y (cs @ as) (sr_saga q)" for y q
    by (auto simp: informed_def past_create_def)
  have pend: "q \<in> set (bk_bookings db)" if "q \<in> set (bk_bookings db')" "b_status q = PENDING_CONFIRMATION" for q
    using that bs(1,3) by auto
  have W: "worker_ok (cs @ as) db' v" if v: "worker_ok cs db v" for v
  proof (rule worker_ok_mono [OF v])
    fix q' assume q': "q' \<in> set (bk_sagas db')"
    show "\<exists>q \<in> set (bk_sagas db). sr_bookingId q = sr_bookingId q' \<and>
        (\<forall>y. informed y cs (sr_saga q) \<longrightarrow> informed y (cs @ as) (sr_saga q'))"
    proof (cases "q' = ?r'")
      case True
      then show ?thesis using r(1) rk rk' kr by auto
    next
      case False
      then show ?thesis using q' upd(1) mono by auto
    qed
  qed (use pend in blast)
  have ok: "worker_ok cs db w" "\<forall>v \<in> set us \<union> set vs. worker_ok cs db v"
    using inv by (auto simp: creation_inv_def)
  have "worker_ok (cs @ as) db' w'"
  proof -
    have old: "b_id (br_booking rec) = ?k" "read_of (br_booking rec) (bk_bookings db')"
      using W [OF ok(1)] worker_ok_of [OF w] by auto
    have "informed x (cs @ as) (sr_saga q)" if q: "q \<in> set (bk_sagas db')" "sr_bookingId q = ?k" for q
    proof -
      have "q = ?r'" using q upd(1) by auto
      then show ?thesis using consistent_informed [OF c] informed_cong [of x "sr_saga ?r'"] by simp
    qed
    with old worker_ok_of [OF w'] xid show ?thesis by auto
  qed
  with F R W ok show ?thesis by (auto simp: creation_inv_def)
qed

text \<open>What the database says to the worker that holds the row.\<close>

lemma holder_row:
  assumes inv: "creation_inv \<lparr>cs_db = db, cs_workers = us @ w # vs, cs_calls = cs\<rparr>"
    and w: "worker_of rec s l w" and r: "r \<in> set (bk_sagas db)" "sagas.fenced x l r"
    and xid: "sg_bookingId x = sg_bookingId s"
  obtains b where "core (sr_saga r) = core s" "sr_bookingId r = sg_bookingId s" "b \<in> set (bk_bookings db)"
    "b_id b = sg_bookingId s" "consistent cs (bk_outbox db) s b"
    "distinct (map b_id (bk_bookings db))"
    "\<not> isTerminal (sg_step s) \<longrightarrow> b = br_booking rec"
proof -
  have fi: "sagas.fenced_inv (bk_sagas db) (map worker_view us @ (sg_bookingId s, l, Some s) # map worker_view vs)"
    using inv worker_of_view [OF w] by (simp add: creation_inv_def)
  have rk: "sr_bookingId r = sg_bookingId s" "sagas.holds l r" using r(2) xid by (simp_all add: sagas.fenced_def)
  have "saga_image (sr_saga r) = saga_image s"
    by (rule sagas.holder_has_row(1) [OF fi _ r(1) rk]) simp
  then have core: "core (sr_saga r) = core s" "sg_bookingId (sr_saga r) = sg_bookingId s"
    using saga_image_core by blast+
  have ro: "rows_ok cs (bk_sagas db) (bk_bookings db) (bk_outbox db)" using inv by (simp add: creation_inv_def)
  obtain b where b: "b \<in> set (bk_bookings db)" "consistent cs (bk_outbox db) (sr_saga r) b" "b_id b = sr_bookingId r"
    by (rule rows_ok_booking [OF ro r(1)])
  then have c: "consistent cs (bk_outbox db) s b" using consistent_cong [OF core] by simp
  have wo: "worker_ok cs db w" using inv by (simp add: creation_inv_def)
  have "b = br_booking rec" if "\<not> isTerminal (sg_step s)"
  proof -
    have "b_status b = PENDING_CONFIRMATION"
      using c that by (auto simp: consistent_def status_ok_def isTerminal_def split: if_splits)
    then show ?thesis using wo worker_ok_of [OF w] b rk by (auto simp: read_of_def)
  qed
  then show thesis using that core rk b c inv
    by (auto simp: creation_inv_def rows_ok_def)
qed

section \<open>Every step keeps the invariant\<close>

lemma writeSaga_lost:
  "writeSaga x l rel ms db = (False, db') \<Longrightarrow> sagas.fenced_inv (bk_sagas db) vs \<Longrightarrow> db' = db"
  using sagas.write_succeeds_iff [of "bk_sagas db" vs x l] sagas.write_lost(1) [of "bk_sagas db" x l rel ms]
  by (auto simp: writeSaga_def saga_fenced_eq)

lemma writeSaga_done:
  assumes "writeSaga x l rel ms db = (True, db')" and "sagas.fenced_inv (bk_sagas db) vs"
  obtains r where "r \<in> set (bk_sagas db)" "sagas.fenced x l r"
    "db' = db\<lparr>bk_sagas := update_rows (saga_fenced x l) (written_saga x rel ms) (bk_sagas db)\<rparr>"
  using assms sagas.write_succeeds_iff [of "bk_sagas db" vs x l] by (auto simp: writeSaga_def saga_fenced_eq)

lemma bookings_keep:
  assumes "distinct (map b_id rows)" and "b \<in> set rows"
  shows "set rows = insert b {q \<in> set rows. b_id q \<noteq> b_id b}"
  using assms distinct_key_eq by fastforce

text \<open>A save that changes neither the outcome nor the booking.\<close>

lemma save_keeps:
  assumes inv: "creation_inv \<lparr>cs_db = db, cs_workers = us @ w # vs, cs_calls = cs\<rparr>"
    and w: "worker_of rec s l w" and w': "worker_of rec x l w'"
    and sv: "saveSaga x l rel ms db = (True, db')" and xid: "sg_bookingId x = sg_bookingId s"
    and as: "\<forall>a \<in> set as. call_of a = sg_bookingId s"
    and c: "\<And>b. consistent cs (bk_outbox db) s b \<Longrightarrow> b_id b = sg_bookingId s \<Longrightarrow>
        \<not> isTerminal (sg_step s) \<longrightarrow> b = br_booking rec \<Longrightarrow> consistent (cs @ as) (bk_outbox db) x b"
    and k: "\<And>y. informed y cs s \<Longrightarrow> informed y (cs @ as) x"
  shows "creation_inv \<lparr>cs_db = db', cs_workers = us @ w' # vs, cs_calls = cs @ as\<rparr>"
proof -
  have fi: "sagas.fenced_inv (bk_sagas db) (map worker_view (us @ w # vs))" using inv by (simp add: creation_inv_def)
  obtain r where r: "r \<in> set (bk_sagas db)" "sagas.fenced x l r"
    and db': "db' = db\<lparr>bk_sagas := update_rows (saga_fenced x l) (written_saga x rel ms) (bk_sagas db)\<rparr>"
    by (rule writeSaga_done [OF sv [unfolded saveSaga_def] fi])
  obtain b where b: "core (sr_saga r) = core s" "sr_bookingId r = sg_bookingId s" "b \<in> set (bk_bookings db)"
    "b_id b = sg_bookingId s" "consistent cs (bk_outbox db) s b" "distinct (map b_id (bk_bookings db))"
    "\<not> isTerminal (sg_step s) \<longrightarrow> b = br_booking rec"
    by (rule holder_row [OF inv w r xid])
  show ?thesis
  proof (rule holder_writes [OF inv w w' r xid, where rel = rel and ms = ms and b' = b and es = "[]"])
    show "set (bk_bookings db') = insert b {q \<in> set (bk_bookings db). b_id q \<noteq> sg_bookingId s}"
      using bookings_keep [OF b(6,3)] b(4) by (simp add: db')
    show "consistent (cs @ as) (bk_outbox db @ []) x b" using c [OF b(5,4) b(7)] by simp
    fix y assume "informed y cs (sr_saga r)"
    then show "informed y (cs @ as) x" using k informed_cong [OF b(1)] b(2) by (simp add: sr_bookingId_def)
  qed (use b as in \<open>simp_all add: db'\<close>)
qed

lemma worker_of_Running [simp]: "worker_of rec s l (Running rec s l)" by simp

lemma release_inv:
  assumes inv: "creation_inv \<lparr>cs_db = db, cs_workers = us @ Running rec s l # vs, cs_calls = cs\<rparr>"
    and sv: "saveSaga s l True ms db = (ok, db')"
  shows "creation_inv \<lparr>cs_db = db', cs_workers = us @ vs, cs_calls = cs\<rparr>"
proof (cases ok)
  case True
  have "creation_inv \<lparr>cs_db = db', cs_workers = us @ Running rec s l # vs, cs_calls = cs @ []\<rparr>"
    by (rule save_keeps [OF inv worker_of_Running worker_of_Running]) (use sv True in simp_all)
  then show ?thesis using creation_inv_drop by simp
next
  case False
  then have "db' = db" using sv inv writeSaga_lost by (auto simp: saveSaga_def creation_inv_def)
  then show ?thesis using inv creation_inv_drop by simp
qed

text \<open>The pivot is in the database before the commit is sent.\<close>

lemma mark_pivot_lost:
  assumes inv: "creation_inv \<lparr>cs_db = db, cs_workers = us @ Running rec s l # vs, cs_calls = cs\<rparr>"
    and m: "mark_pivot s l now ms db = (r, db')" "\<forall>s'. r \<noteq> Inr (Some s')"
  shows "creation_inv \<lparr>cs_db = db', cs_workers = us @ vs, cs_calls = cs\<rparr>"
proof -
  have fi: "sagas.fenced_inv (bk_sagas db) (map worker_view (us @ Running rec s l # vs))"
    using inv by (simp add: creation_inv_def)
  have "db' = db"
    using m writeSaga_lost [OF _ fi]
    by (auto simp: mark_pivot_def saveSaga_def split: if_splits sum.splits prod.splits bool.splits)
  then show ?thesis using inv creation_inv_drop by simp
qed

lemma entry_ok_other: "call_of a \<noteq> sg_bookingId s \<Longrightarrow> entry_ok a cs s"
  by (auto simp: entry_ok_def)

lemma log_keeps:
  assumes inv: "creation_inv \<lparr>cs_db = db, cs_workers = us @ w # vs, cs_calls = cs\<rparr>"
    and w: "worker_of rec s l w" and w': "worker_of rec s l w'" and a: "call_of a = sg_bookingId s"
    and e: "\<And>r. r \<in> set (bk_sagas db) \<Longrightarrow> sr_bookingId r = sg_bookingId s \<Longrightarrow> entry_ok a cs (sr_saga r)"
  shows "creation_inv \<lparr>cs_db = db, cs_workers = us @ w' # vs, cs_calls = cs @ [a]\<rparr>"
proof -
  have ro: "rows_ok cs (bk_sagas db) (bk_bookings db) (bk_outbox db)" using inv by (simp add: creation_inv_def)
  have fi: "sagas.fenced_inv (bk_sagas db) (map worker_view us @ (sg_bookingId s, l, Some s) # map worker_view vs)"
    using inv worker_of_view [OF w] by (simp add: creation_inv_def)
  then have k: "sg_bookingId s \<in> sr_bookingId ` set (bk_sagas db)"
    by (simp add: sagas.fenced_inv_def sagas.in_step_def)
  have eo: "entry_ok a cs (sr_saga r)" if "r \<in> set (bk_sagas db)" for r
    using that e entry_ok_other [of a "sr_saga r" cs] a by (cases "sr_bookingId r = sg_bookingId s") (simp_all add: sr_bookingId_def)
  have "\<exists>b \<in> set (bk_bookings db). consistent (cs @ [a]) (bk_outbox db) (sr_saga r) b"
    if r: "r \<in> set (bk_sagas db)" for r
    by (rule rows_ok_booking [OF ro r]) (use consistent_snoc eo [OF r] in blast)
  then have "rows_ok (cs @ [a]) (bk_sagas db) (bk_bookings db) (bk_outbox db)"
    using ro k a by (simp add: rows_ok_def)
  moreover have "worker_ok (cs @ [a]) db v" if "worker_ok cs db v" for v
    by (rule worker_ok_mono [OF that]) (auto intro: informed_snoc)
  moreover have "worker_ok cs db w'" using inv worker_ok_of [OF w] worker_ok_of [OF w'] by (auto simp: creation_inv_def)
  ultimately show ?thesis using inv fi worker_of_view [OF w'] by (auto simp: creation_inv_def)
qed

lemma mark_pivot_cases:
  assumes "mark_pivot s l now ms db = (Inr (Some s'), db')"
  obtains "s' = s" "db' = db" "sg_step s = COMMIT_HOLD \<longrightarrow> sg_pivotAttempted s"
  | "sg_step s = COMMIT_HOLD" "\<not> sg_pivotAttempted s"
    "s' = s\<lparr>sg_pivotAttempted := True, sg_version := sg_version s + 1, sg_updatedAt := now\<rparr>"
    "saveSaga s' l False ms db = (True, db')"
  using assms by (auto simp: mark_pivot_def beginCommit_def expectStep_def split: if_splits prod.splits bool.splits)

lemma call_inv:
  assumes inv: "creation_inv \<lparr>cs_db = db, cs_workers = us @ Running rec s l # vs, cs_calls = cs\<rparr>"
    and t: "\<not> isTerminal (sg_step s)" and m: "mark_pivot s l now ms db = (Inr (Some s'), db')"
  shows "creation_inv \<lparr>cs_db = db', cs_workers = us @ Calling rec s' l # vs,
           cs_calls = cs @ [Sent (sg_bookingId s) (sg_step s)]\<rparr>"
  using m
proof (cases rule: mark_pivot_cases)
  case 1
  have wo: "worker_ok cs db (Running rec s l)" using inv by (simp add: creation_inv_def)
  have "creation_inv \<lparr>cs_db = db, cs_workers = us @ Calling rec s l # vs,
      cs_calls = cs @ [Sent (sg_bookingId s) (sg_step s)]\<rparr>"
  proof (rule log_keeps [OF inv worker_of_Running])
    fix r assume "r \<in> set (bk_sagas db)" "sr_bookingId r = sg_bookingId s"
    then have "informed s cs (sr_saga r)" using wo by simp
    then show "entry_ok (Sent (sg_bookingId s) (sg_step s)) cs (sr_saga r)"
      using 1(3) by (auto simp: informed_def entry_ok_def)
  qed (use 1 t in simp_all)
  with 1 show ?thesis by simp
next
  case 2
  have p: "past_create (cs @ [a]) s'" if "past_create cs s" for a
    using that 2(3) by (auto simp: past_create_def)
  show ?thesis
  proof (rule save_keeps [OF inv worker_of_Running _ 2(4)])
    show "worker_of rec s' l (Calling rec s' l)" using 2 t by simp
    show "sg_bookingId s' = sg_bookingId s" using 2 by simp
    fix b assume b: "consistent cs (bk_outbox db) s b"
    show "consistent (cs @ [Sent (sg_bookingId s) (sg_step s)]) (bk_outbox db) s' b"
      using b 2(1,2) p unfolding 2(3)
      by (auto simp: consistent_def saga_inv_def status_ok_def log_ok_def)
  next
    fix y assume "informed y cs s"
    then show "informed y (cs @ [Sent (sg_bookingId s) (sg_step s)]) s'"
      using p 2(3) by (auto simp: informed_def)
  qed simp
qed

section \<open>Answers\<close>

lemma append_event_outbox [simp]: "bk_outbox (append_event e db) = bk_outbox db @ event_list e"
  by (simp add: append_event_def event_list_def split: option.splits)

lemma append_simps [simp]:
  "bk_sagas (append_event e db) = bk_sagas db" "bk_bookings (append_event e db) = bk_bookings db"
  "bk_sagas (append_audit a db) = bk_sagas db" "bk_bookings (append_audit a db) = bk_bookings db"
  "bk_outbox (append_audit a db) = bk_outbox db"
  by (simp_all add: append_event_def append_audit_def split: option.splits)

definition finish_bookings :: "booking \<Rightarrow> int \<Rightarrow> booking_db \<Rightarrow> booking_error + booking list" where
  "finish_bookings b v db =
     (if b_version b \<noteq> v then andThen (update_booking finished_row b v db) (\<lambda>db'. Inr (bk_bookings db'))
      else Inr (bk_bookings db))"

lemma finish_done:
  assumes "finish x l b v event audit ms db = (Inr True, db')" and "sagas.fenced_inv (bk_sagas db) vs"
  obtains r where "r \<in> set (bk_sagas db)" "sagas.fenced x l r"
    "bk_sagas db' = update_rows (saga_fenced x l) (written_saga x True ms) (bk_sagas db)"
    "bk_outbox db' = bk_outbox db @ event_list event"
    "finish_bookings b v db = Inr (bk_bookings db')"
proof -
  obtain db1 where w: "writeSaga x l True ms db = (True, db1)"
    using assms(1) by (auto simp: finish_def split: prod.splits bool.splits)
  obtain r where r: "r \<in> set (bk_sagas db)" "sagas.fenced x l r"
    and db1: "db1 = db\<lparr>bk_sagas := update_rows (saga_fenced x l) (written_saga x True ms) (bk_sagas db)\<rparr>"
    by (rule writeSaga_done [OF w assms(2)])
  obtain db2 where db2: "(if b_version b \<noteq> v then update_booking finished_row b v db1 else Inr db1) = Inr db2"
    and db': "db' = append_audit audit (append_event event db2)"
    using assms(1) w by (auto simp: finish_def split: sum.splits)
  have "bk_sagas db2 = bk_sagas db1" "bk_outbox db2 = bk_outbox db1"
    "finish_bookings b v db = Inr (bk_bookings db2)"
    using db2 by (auto simp: update_booking_def Let_def db1 finish_bookings_def split: if_splits)
  then show thesis using that [OF r] db' db1 by simp
qed

lemma finish_not_done:
  assumes "finish x l b v event audit ms db = (res, db')" and "res \<noteq> Inr True"
  shows "db' = db"
  using assms by (auto simp: finish_def split: prod.splits bool.splits sum.splits)

lemma answer_not_done:
  assumes inv: "creation_inv \<lparr>cs_db = db, cs_workers = us @ Calling rec s l # vs, cs_calls = cs\<rparr>"
    and a: "answer rec s l env ms db = (res, db')" and n: "\<forall>s'. res \<noteq> Inr (Some s')"
  shows "db' = db"
proof -
  have fi: "sagas.fenced_inv (bk_sagas db) (map worker_view (us @ Calling rec s l # vs))"
    using inv by (simp add: creation_inv_def)
  show ?thesis
  proof (cases "decide (br_booking rec) s env")
    case (Inl e)
    then show ?thesis using a by (simp add: answer_def)
  next
    case (Inr p)
    obtain nxt slot where p: "p = (nxt, slot)" by (cases p)
    show ?thesis
    proof (cases "isTerminal (sg_step nxt)")
      case False
      with a n Inr p show ?thesis
        using writeSaga_lost [OF _ fi]
        by (auto simp: answer_def persist_def saveSaga_def split: prod.splits bool.splits)
    next
      case True
      obtain res' db'' where f: "finish_saga rec (br_booking rec) nxt l slot env ms db = (res', db'')"
        by (cases "finish_saga rec (br_booking rec) nxt l slot env ms db")
      then have r: "db' = db''" "res' \<noteq> Inr True"
        using a n Inr p True by (auto simp: answer_def persist_def split: sum.splits bool.splits)
      with f show ?thesis
        by (auto simp: finish_saga_def split: sum.splits prod.splits dest: finish_not_done)
    qed
  qed
qed

lemma answer_lost_inv:
  assumes inv: "creation_inv \<lparr>cs_db = db, cs_workers = us @ Calling rec s l # vs, cs_calls = cs\<rparr>"
    and a: "answer rec s l env ms db = (res, db')" and n: "\<forall>s'. res \<noteq> Inr (Some s')"
  shows "creation_inv \<lparr>cs_db = db', cs_workers = us @ vs, cs_calls = cs @ [answer_entry s env]\<rparr>"
proof -
  have w: "worker_of rec s l (Calling rec s l)" using inv by (simp add: creation_inv_def)
  have "call_of (answer_entry s env) = sg_bookingId s" by (cases "sg_step s") (simp_all add: answer_entry_def)
  then have "creation_inv \<lparr>cs_db = db, cs_workers = us @ Calling rec s l # vs, cs_calls = cs @ [answer_entry s env]\<rparr>"
    using log_keeps [OF inv w w] by simp
  then show ?thesis using answer_not_done [OF inv a n] creation_inv_drop by simp
qed

lemma call_of_answer [simp]: "call_of (answer_entry s env) = sg_bookingId s"
  by (cases "sg_step s") (simp_all add: answer_entry_def)

lemma decide_slot: "decide b s env = Inr (nxt, slot) \<Longrightarrow> sg_step s = COMMIT_HOLD \<Longrightarrow> slot = committed_slot (se_commit env)"
  by (auto simp: decide_def)

text \<open>The finishing transaction of the holder.\<close>

lemma finish_bookings_update:
  assumes "finish_bookings b' (b_version b) db = Inr rows'" and "b_version b' \<noteq> b_version b" and "b_id b' = b_id b"
    and d: "distinct (map b_id (bk_bookings db))" and b: "b \<in> set (bk_bookings db)"
  shows "set rows' = insert (finished_row b' b) {q \<in> set (bk_bookings db). b_id q \<noteq> b_id b}"
    and "map b_id rows' = map b_id (bk_bookings db)"
proof -
  let ?hit = "\<lambda>row. b_id row = b_id b' \<and> b_version row = b_version b"
  have rows': "rows' = update_rows ?hit (finished_row b') (bk_bookings db)"
    using assms(1,2) by (auto simp: finish_bookings_def update_booking_def Let_def split: if_splits)
  show "set rows' = insert (finished_row b' b) {q \<in> set (bk_bookings db). b_id q \<noteq> b_id b}"
    and "map b_id rows' = map b_id (bk_bookings db)"
    unfolding rows' using update_one [OF d b, of ?hit "finished_row b'"] assms(3) by auto
qed

lemma final_booking_id: "final_booking b s slot now = Inr (fb, action) \<Longrightarrow> b_id fb = b_id b"
  by (auto simp: final_booking_def confirmBooking_Inr rejectBooking_Inr simp del: can_move_simps
      split: if_splits option.splits)

lemma created_event_for:
  assumes "created_event rec b fb env = Inr event"
  shows "\<forall>e \<in> set (event_list event). created_for e \<in> {None, Some (b_id fb)}"
  using assms created_for_created [of _ _ _ _ fb]
  by (auto simp: created_event_def event_list_def split: if_splits)

lemma finish_keeps:
  assumes inv: "creation_inv \<lparr>cs_db = db, cs_workers = us @ Calling rec s l # vs, cs_calls = cs\<rparr>"
    and d: "decide (br_booking rec) s env = Inr (nxt, slot)" and t: "isTerminal (sg_step nxt)"
    and f: "finish_saga rec (br_booking rec) nxt l slot env ms db = (Inr True, db')"
  shows "creation_inv \<lparr>cs_db = db', cs_workers = us @ Running rec nxt l # vs, cs_calls = cs @ [answer_entry s env]\<rparr>"
proof -
  let ?b = "br_booking rec"
  have wo: "worker_ok cs db (Calling rec s l)" using inv by (simp add: creation_inv_def)
  then have live: "\<not> isTerminal (sg_step s)" and w: "worker_of rec s l (Calling rec s l)" by simp_all
  have fi: "sagas.fenced_inv (bk_sagas db) (map worker_view (us @ Calling rec s l # vs))"
    using inv by (simp add: creation_inv_def)
  obtain fb action event where fb: "final_booking ?b nxt slot (se_finishNow env) = Inr (fb, action)"
    and ev: "created_event rec ?b fb env = Inr event"
    and fin: "\<exists>audit. finish nxt l fb (b_version ?b) event audit ms db = (Inr True, db')"
    using f by (auto simp: finish_saga_def split: sum.splits prod.splits)
  obtain audit where fin: "finish nxt l fb (b_version ?b) event audit ms db = (Inr True, db')" using fin by blast
  obtain r where r: "r \<in> set (bk_sagas db)" "sagas.fenced nxt l r"
    and rows': "bk_sagas db' = update_rows (saga_fenced nxt l) (written_saga nxt True ms) (bk_sagas db)"
    and out: "bk_outbox db' = bk_outbox db @ event_list event"
    and bk: "finish_bookings fb (b_version ?b) db = Inr (bk_bookings db')"
    by (rule finish_done [OF fin fi])
  have sid: "saga_inv s" using inv w r by (auto simp: creation_inv_def informed_def sagas.fenced_inv_def sagas.in_step_def)
  have nid: "sg_bookingId nxt = sg_bookingId s" and spec: "saga_spec ?b (core s) (answer_entry s env) (core nxt)"
    using decide_spec [OF d sid] by blast+
  obtain b where b: "core (sr_saga r) = core s" "sr_bookingId r = sg_bookingId s" "b \<in> set (bk_bookings db)"
    "b_id b = sg_bookingId s" "consistent cs (bk_outbox db) s b" "distinct (map b_id (bk_bookings db))"
    "\<not> isTerminal (sg_step s) \<longrightarrow> b = ?b"
    by (rule holder_row [OF inv w r nid])
  then have bb: "b = ?b" using live by simp
  note c = b(5) [unfolded bb]
  have inf: "informed y (cs @ [answer_entry s env]) nxt" if "informed y cs (sr_saga r)" for y
    using spec_informed [OF spec nid sid] that informed_cong [OF b(1)] b(2) by (simp add: sr_bookingId_def)
  have es: "\<forall>e \<in> set (event_list event). created_for e \<in> {None, Some (sg_bookingId s)}"
    using created_event_for [OF ev] final_booking_id [OF fb] b(4) bb by simp
  show ?thesis
  proof (cases "sg_step nxt = saga_step.DONE")
    case True
    note e = spec_ends [OF spec c nid live True decide_slot [OF d] fb ev]
    note u = finish_bookings_update [OF bk e(2) final_booking_id [OF fb] b(6) b(3) [unfolded bb]]
    show ?thesis
    proof (rule holder_writes [OF inv w worker_of_Running r nid rows' _ _ _ out es])
      show "set (bk_bookings db') = insert (finished_row fb ?b) {q \<in> set (bk_bookings db). b_id q \<noteq> sg_bookingId s}"
        using u(1) b(4) bb by simp
      show "b_status (finished_row fb ?b) = PENDING_CONFIRMATION \<Longrightarrow> finished_row fb ?b \<in> set (bk_bookings db)"
        using e(1) True by (auto simp: consistent_def status_ok_def confirmed_ok_def split: if_splits)
    qed (use u(2) e(1) inf in simp_all)
  next
    case False
    then have n: "sg_step nxt = NEEDS_RECONCILIATION" using t by (simp add: isTerminal_def)
    then have fb': "fb = ?b" using fb by (simp add: final_booking_def)
    have st: "b_status ?b = PENDING_CONFIRMATION"
      using c live by (auto simp: consistent_def status_ok_def isTerminal_def split: if_splits)
    have ev': "event = None" using ev st by (simp add: fb' created_event_def)
    have bk': "bk_bookings db' = bk_bookings db" using bk by (simp add: fb' finish_bookings_def)
    show ?thesis
    proof (rule holder_writes [OF inv w worker_of_Running r nid rows' _ _ _ out es])
      show "set (bk_bookings db') = insert ?b {q \<in> set (bk_bookings db). b_id q \<noteq> sg_bookingId s}"
        using bookings_keep [OF b(6,3)] b(4) bb bk' by simp
      show "consistent (cs @ [answer_entry s env]) (bk_outbox db @ event_list event) nxt ?b"
        using spec_goes_on [OF spec c nid live False] by (simp add: ev' event_list_def)
    qed (use b bb bk' inf in simp_all)
  qed
qed

lemma answered_inv:
  assumes inv: "creation_inv \<lparr>cs_db = db, cs_workers = us @ Calling rec s l # vs, cs_calls = cs\<rparr>"
    and a: "answer rec s l env ms db = (Inr (Some nxt), db')"
  shows "creation_inv \<lparr>cs_db = db', cs_workers = us @ Running rec nxt l # vs, cs_calls = cs @ [answer_entry s env]\<rparr>"
proof -
  have wo: "worker_ok cs db (Calling rec s l)" using inv by (simp add: creation_inv_def)
  then have live: "\<not> isTerminal (sg_step s)" and w: "worker_of rec s l (Calling rec s l)" by simp_all
  have "sg_bookingId s \<in> sr_bookingId ` set (bk_sagas db)"
    using inv by (simp add: creation_inv_def sagas.fenced_inv_def sagas.in_step_def)
  then have sid: "saga_inv s" using wo by (auto simp: informed_def)
  obtain slot where d: "decide (br_booking rec) s env = Inr (nxt, slot)"
    and p: "persist rec nxt l slot env ms db = (Inr (Some nxt), db')"
    using a by (auto simp: answer_def persist_def split: sum.splits prod.splits if_splits bool.splits)
  have nid: "sg_bookingId nxt = sg_bookingId s" and spec: "saga_spec (br_booking rec) (core s) (answer_entry s env) (core nxt)"
    using decide_spec [OF d sid] by blast+
  show ?thesis
  proof (cases "isTerminal (sg_step nxt)")
    case False
    then have sv: "saveSaga nxt l False ms db = (True, db')"
      using p by (auto simp: persist_def split: prod.splits bool.splits)
    show ?thesis
    proof (rule save_keeps [OF inv w worker_of_Running sv nid])
      fix b assume b: "consistent cs (bk_outbox db) s b" "\<not> isTerminal (sg_step s) \<longrightarrow> b = br_booking rec"
      then have "b = br_booking rec" using live by simp
      then show "consistent (cs @ [answer_entry s env]) (bk_outbox db) nxt b"
        using spec_goes_on [OF spec _ nid live] b(1) False by (simp add: isTerminal_def)
    qed (use spec_informed [OF spec nid sid] in simp_all)
  next
    case True
    then have "finish_saga rec (br_booking rec) nxt l slot env ms db = (Inr True, db')"
      using p by (auto simp: persist_def split: prod.splits sum.splits bool.splits)
    then show ?thesis by (rule finish_keeps [OF inv d True])
  qed
qed

section \<open>Leases, requests and other transactions\<close>

lemma rows_ok_core:
  assumes ok: "rows_ok cs rows bookings ev" and k: "sr_bookingId ` set rows' = sr_bookingId ` set rows"
    and c: "\<And>q'. q' \<in> set rows' \<Longrightarrow> \<exists>q \<in> set rows. core (sr_saga q') = core (sr_saga q) \<and> sr_bookingId q' = sr_bookingId q"
  shows "rows_ok cs rows' bookings ev"
proof -
  have "\<exists>b \<in> set bookings. consistent cs ev (sr_saga q') b" if q': "q' \<in> set rows'" for q'
  proof -
    from c [OF q'] obtain q where q: "q \<in> set rows" "core (sr_saga q') = core (sr_saga q)" "sr_bookingId q' = sr_bookingId q"
      by blast
    show ?thesis
      by (rule rows_ok_booking [OF ok q(1)]) (use q consistent_cong [of "sr_saga q'" "sr_saga q"] in \<open>auto simp: sr_bookingId_def\<close>)
  qed
  then show ?thesis using ok k by (simp add: rows_ok_def)
qed

lemma take_keeps:
  assumes inv: "creation_inv \<lparr>cs_db = db, cs_workers = ws, cs_calls = cs\<rparr>"
    and ids: "distinct (map fst leased)"
    and l: "\<And>k l. (k, l) \<in> set leased \<Longrightarrow> \<exists>r \<in> set (bk_sagas db). sr_bookingId r = k \<and> le_fence l = sg_fence (sr_saga r) + 1"
    and db': "db' = db\<lparr>bk_sagas := update_rows (\<lambda>r. sr_bookingId r \<in> fst ` set leased) (take_lease who t) (bk_sagas db)\<rparr>"
  shows "creation_inv \<lparr>cs_db = db', cs_workers = map (\<lambda>(i, l). Leased i l) leased @ ws, cs_calls = cs\<rparr>"
proof -
  have fi: "sagas.fenced_inv (bk_sagas db) (map worker_view ws)" using inv by (simp add: creation_inv_def)
  have v: "map worker_view (map (\<lambda>(i, l). Leased i l) leased @ ws) = map (\<lambda>(k, l). (k, l, None)) leased @ map worker_view ws"
    by auto
  have F: "sagas.fenced_inv (bk_sagas db') (map worker_view (map (\<lambda>(i, l). Leased i l) leased @ ws))"
    unfolding v using sagas.fenced_inv_take [OF fi ids l] by (simp add: db')
  have "map sr_bookingId (bk_sagas db') = map sr_bookingId (bk_sagas db)"
    by (simp add: db' sr_bookingId_def)
  then have k: "sr_bookingId ` set (bk_sagas db') = sr_bookingId ` set (bk_sagas db)" by (metis set_map)
  have same: "\<exists>q \<in> set (bk_sagas db). core (sr_saga q') = core (sr_saga q) \<and> sr_bookingId q' = sr_bookingId q"
    if "q' \<in> set (bk_sagas db')" for q'
    using that by (auto simp: db' set_update_rows sr_bookingId_def split: if_splits)
  have "rows_ok cs (bk_sagas db') (bk_bookings db') (bk_outbox db')"
    using inv rows_ok_core [OF _ k same] by (simp add: creation_inv_def db')
  moreover have "worker_ok cs db' w" if "worker_ok cs db w" for w
  proof (rule worker_ok_mono [OF that])
    fix q' assume "q' \<in> set (bk_sagas db')"
    from same [OF this] show "\<exists>q \<in> set (bk_sagas db). sr_bookingId q = sr_bookingId q' \<and>
        (\<forall>x. informed x cs (sr_saga q) \<longrightarrow> informed x cs (sr_saga q'))"
      using informed_cong by (metis sr_bookingId_def)
  qed (simp add: db')
  ultimately show ?thesis using inv F by (auto simp: creation_inv_def)
qed

lemma lease_inv:
  assumes inv: "creation_inv \<lparr>cs_db = db, cs_workers = ws, cs_calls = cs\<rparr>"
    and u: "lease_update i who now ms db = (Some l, db')"
  shows "creation_inv \<lparr>cs_db = db', cs_workers = Leased i l # ws, cs_calls = cs\<rparr>"
proof -
  let ?hit = "\<lambda>r. sr_bookingId r = i \<and> saga_live (sg_step (sr_saga r)) \<and> lease_free (sr_leaseUntil r) now"
  obtain r where r: "find ?hit (bk_sagas db) = Some r" and l: "l = \<lparr>le_owner = who, le_fence = sg_fence (sr_saga r) + 1\<rparr>"
    and db': "db' = db\<lparr>bk_sagas := update_rows ?hit (take_lease who (now + ms)) (bk_sagas db)\<rparr>"
    using u by (auto simp: lease_update_def Let_def split: option.splits)
  have rs: "r \<in> set (bk_sagas db)" "?hit r" using find_Some_mem [OF r] by auto
  have d: "distinct (map sr_bookingId (bk_sagas db))"
    using inv sagas.fenced_inv_distinct by (auto simp: creation_inv_def)
  have "?hit q \<longleftrightarrow> sr_bookingId q = i" if "q \<in> set (bk_sagas db)" for q
    using that rs distinct_key_eq [OF d] by blast
  then have db'': "db' = db\<lparr>bk_sagas := update_rows (\<lambda>r. sr_bookingId r \<in> fst ` set [(i, l)]) (take_lease who (now + ms)) (bk_sagas db)\<rparr>"
    unfolding db' update_rows_def by (simp cong: map_cong)
  have ids: "distinct (map fst [(i, l)])" by simp
  have ex: "\<exists>r \<in> set (bk_sagas db). sr_bookingId r = k \<and> le_fence l' = sg_fence (sr_saga r) + 1"
    if "(k, l') \<in> set [(i, l)]" for k l'
    using that rs l by auto
  show ?thesis using take_keeps [OF inv ids ex db''] by simp
qed

lemma distinct_due:
  "distinct (map key rows) \<Longrightarrow> distinct (map key (take n (sort_key f (filter P rows))))"
  by (simp add: take_map [symmetric] distinct_take distinct_map inj_on_def)

lemma lease_due_inv:
  assumes inv: "creation_inv \<lparr>cs_db = db, cs_workers = ws, cs_calls = cs\<rparr>"
    and u: "due_update who now ms limit db = (leased, db')"
  shows "creation_inv \<lparr>cs_db = db', cs_workers = map (\<lambda>(i, l). Leased i l) leased @ ws, cs_calls = cs\<rparr>"
proof -
  define due where "due = due_sagas now limit db"
  have leased: "leased = map (\<lambda>r. (sr_bookingId r, \<lparr>le_owner = who, le_fence = sg_fence (sr_saga r) + 1\<rparr>)) due"
    using u by (simp add: due_update_def Let_def due_def)
  have fs: "fst ` set leased = set (map sr_bookingId due)" by (simp add: leased image_image)
  have db': "db' = db\<lparr>bk_sagas := update_rows (\<lambda>r. sr_bookingId r \<in> fst ` set leased) (take_lease who (now + ms)) (bk_sagas db)\<rparr>"
    unfolding fs using u by (simp add: due_update_def Let_def due_def)
  have sub: "set due \<subseteq> set (bk_sagas db)"
    by (auto simp: due_def due_sagas_def dest: in_set_takeD)
  have d: "distinct (map sr_bookingId (bk_sagas db))"
    using inv sagas.fenced_inv_distinct by (auto simp: creation_inv_def)
  have "distinct (map sr_bookingId due)" unfolding due_def due_sagas_def by (rule distinct_due [OF d])
  then have ids: "distinct (map fst leased)" by (simp add: leased comp_def)
  show ?thesis by (rule take_keeps [OF inv ids _ db']) (use sub in \<open>auto simp: leased\<close>)
qed

lemma read_inv:
  assumes inv: "creation_inv \<lparr>cs_db = db, cs_workers = us @ Leased i l # vs, cs_calls = cs\<rparr>"
    and f: "find_booking i db = Some rec"
  shows "creation_inv \<lparr>cs_db = db, cs_workers = us @ Running rec (br_saga rec) l # vs, cs_calls = cs\<rparr>"
proof -
  obtain b r where b: "find_row b_id i (bk_bookings db) = Some b" and r: "find_row sr_bookingId i (bk_sagas db) = Some r"
    and rec: "rec = \<lparr>br_booking = b, br_saga = sr_saga r, br_correlationId = sr_correlationId r\<rparr>"
    using f by (auto simp: find_booking_def split: option.splits)
  have rs: "r \<in> set (bk_sagas db)" "sr_bookingId r = i" and bs: "b \<in> set (bk_bookings db)" "b_id b = i"
    using find_row_Some [OF r] find_row_Some [OF b] by auto
  have fi: "sagas.fenced_inv (bk_sagas db) (map worker_view us @ (i, l, None) # map worker_view vs)"
    using inv by (simp add: creation_inv_def)
  have ri: "sg_bookingId (sr_saga r) = i" using rs(2) by (simp add: sr_bookingId_def)
  have F: "sagas.fenced_inv (bk_sagas db) (map worker_view us @ (i, l, Some (sr_saga r)) # map worker_view vs)"
    using sagas.fenced_inv_read [OF fi rs, of "sr_saga r"] ri by simp
  have ro: "rows_ok cs (bk_sagas db) (bk_bookings db) (bk_outbox db)" using inv by (simp add: creation_inv_def)
  then have db: "distinct (map b_id (bk_bookings db))" by (simp add: rows_ok_def)
  obtain b0 where "consistent cs (bk_outbox db) (sr_saga r) b0" by (rule rows_ok_booking [OF ro rs(1)])
  then have ci: "informed (sr_saga r) cs (sr_saga r)" by (rule consistent_informed)
  have "informed (sr_saga r) cs (sr_saga q)" if "q \<in> set (bk_sagas db)" "sr_bookingId q = i" for q
    using that rs ci distinct_key_eq [OF sagas.fenced_inv_distinct [OF fi]] by blast
  moreover have "read_of b (bk_bookings db)"
    using bs distinct_key_eq [OF db] by (auto simp: read_of_def)
  ultimately have "worker_ok cs db (Running rec (br_saga rec) l)" using bs ri by (simp add: rec)
  with inv F ri show ?thesis by (auto simp: creation_inv_def rec)
qed

definition first_row :: "saga \<Rightarrow> string \<Rightarrow> saga_row" where
  "first_row s correlationId =
     \<lparr>sr_saga = \<lparr>sg_bookingId = sg_bookingId s, sg_step = sg_step s, sg_outcome = None,
        sg_pendingRejection = None, sg_obligationId = None, sg_pivotAttempted = False,
        sg_attempts = 0, sg_nextAttemptAt = sg_nextAttemptAt s, sg_deadlineAt = sg_deadlineAt s,
        sg_lastError = None, sg_fence = 0, sg_version = sg_version s, sg_updatedAt = sg_updatedAt s\<rparr>,
      sr_leaseOwner = None, sr_leaseUntil = None, sr_correlationId = correlationId\<rparr>"

lemma insertBooking_cases:
  assumes "insertBooking b s k f audit db = (res, db')"
  shows "db' = db \<or>
    (\<not> booking_conflict b (bk_bookings db) \<and> bk_bookings db' = bk_bookings db @ [b] \<and>
     bk_sagas db' = bk_sagas db @ [first_row s (af_correlationId audit)] \<and> bk_outbox db' = bk_outbox db)"
  using assms
  by (simp add: insertBooking_def append_audit_def first_row_def split: option.splits if_splits) auto

lemma new_consistent:
  assumes b: "b_status b = PENDING_CONFIRMATION" "b_version b = 1" "b_id b = sg_bookingId s"
    and s: "core s = (VALIDATE_QUOTE, None, None, None, False)"
    and n: "\<forall>e \<in> set ev. created_for e \<noteq> Some (b_id b)" "\<forall>a \<in> set cs. call_of a \<noteq> b_id b"
  shows "consistent cs ev s b"
proof -
  have "Sent (sg_bookingId s) st \<notin> set cs" for st using n(2) b(3) by (metis call_of.simps(1))
  moreover have "created_count ev (b_id b) = 0" using n(1) by (intro created_count_none) blast
  ultimately show ?thesis using b s by (simp add: consistent_def saga_inv_def status_ok_def log_ok_def core_def)
qed

lemma insert_inv:
  assumes inv: "creation_inv \<lparr>cs_db = db, cs_workers = ws, cs_calls = cs\<rparr>"
    and cb: "createBooking input = Inr b" and ib: "insertBooking b (newSaga (b_id b) now) k f audit db = (res, db')"
  shows "creation_inv \<lparr>cs_db = db', cs_workers = ws, cs_calls = cs\<rparr>"
proof (cases "db' = db")
  case True
  then show ?thesis using inv by simp
next
  case False
  define row where "row = first_row (newSaga (b_id b) now) (af_correlationId audit)"
  from False insertBooking_cases [OF ib] have 2: "\<not> booking_conflict b (bk_bookings db)"
    "bk_bookings db' = bk_bookings db @ [b]" "bk_sagas db' = bk_sagas db @ [row]" "bk_outbox db' = bk_outbox db"
    by (simp_all add: row_def)
  have ro: "rows_ok cs (bk_sagas db) (bk_bookings db) (bk_outbox db)" using inv by (simp add: creation_inv_def)
  have fresh: "b_id b \<notin> b_id ` set (bk_bookings db)" using 2(1) by (auto simp: booking_conflict_def)
  then have fresh': "b_id b \<notin> sr_bookingId ` set (bk_sagas db)" using ro by (simp add: rows_ok_def)
  have rid: "sr_bookingId row = b_id b" by (simp add: row_def first_row_def newSaga_def sr_bookingId_def)
  have fi: "sagas.fenced_inv (bk_sagas db) (map worker_view ws)" using inv by (simp add: creation_inv_def)
  have F: "sagas.fenced_inv (bk_sagas db') (map worker_view ws)"
    unfolding 2(3) using sagas.fenced_inv_insert [OF fi] fresh' rid by simp
  have cr: "core (sr_saga row) = (VALIDATE_QUOTE, None, None, None, False)" by (simp add: row_def first_row_def newSaga_def core_def)
  have "consistent cs (bk_outbox db) (sr_saga row) b"
  proof (rule new_consistent [OF _ _ _ cr])
    show "b_status b = PENDING_CONFIRMATION" "b_version b = 1" using createBooking_Inr [OF cb] by blast+
    show "b_id b = sg_bookingId (sr_saga row)" using rid by (simp add: sr_bookingId_def)
    show "\<forall>e \<in> set (bk_outbox db). created_for e \<noteq> Some (b_id b)" "\<forall>a \<in> set cs. call_of a \<noteq> b_id b"
      using ro fresh' unfolding rows_ok_def by metis+
  qed
  then have R: "rows_ok cs (bk_sagas db') (bk_bookings db') (bk_outbox db')"
    using ro fresh rid by (auto simp: rows_ok_def 2)
  have "worker_ok cs db' w" if w: "w \<in> set ws" for w
  proof -
    have ok: "worker_ok cs db w" using inv w by (simp add: creation_inv_def)
    have "sagas.in_step (worker_view w) (bk_sagas db)" using fi w by (simp add: sagas.fenced_inv_def)
    then have "fst (worker_view w) \<in> sr_bookingId ` set (bk_sagas db)"
      by (cases "worker_view w") (simp add: sagas.in_step_def)
    then have n: "fst (worker_view w) \<noteq> b_id b" using fresh' by metis
    show ?thesis by (rule worker_ok_mono [OF ok]) (use n rid 2(2,3) in auto)
  qed
  with F R show ?thesis by (simp add: creation_inv_def)
qed

text \<open>A booking another transaction changed was confirmed and stays so, with its slot.\<close>

lemma later_change_consistent:
  assumes "consistent cs ev s b" and "later_change b b'" and "\<forall>e \<in> set es. created_for e = None"
  shows "consistent cs (ev @ es) s b'"
proof -
  have n: "created_count es i = 0" for i using assms(3) by (intro created_count_none) auto
  show ?thesis using assms(1,2) n
    by (auto simp: consistent_def later_change_def status_ok_def confirmed_ok_def matchesRequestedSlot_def
        split: if_splits)
qed

lemma later_change_id: "later_change b b' \<Longrightarrow> b_id b' = b_id b"
  by (auto simp: later_change_def)

lemma list_all2_set: "list_all2 P xs ys \<Longrightarrow> x \<in> set xs \<Longrightarrow> \<exists>y \<in> set ys. P x y"
  by (induction rule: list_all2_induct) auto

lemma list_all2_set': "list_all2 P xs ys \<Longrightarrow> y \<in> set ys \<Longrightarrow> \<exists>x \<in> set xs. P x y"
  by (induction rule: list_all2_induct) auto

lemma other_inv:
  assumes inv: "creation_inv \<lparr>cs_db = db, cs_workers = ws, cs_calls = cs\<rparr>" and rl: "rely db db'"
  shows "creation_inv \<lparr>cs_db = db', cs_workers = ws, cs_calls = cs\<rparr>"
proof -
  obtain es where sg: "bk_sagas db' = bk_sagas db" and la: "list_all2 later_change (bk_bookings db) (bk_bookings db')"
    and es: "bk_outbox db' = bk_outbox db @ es" "\<forall>e \<in> set es. created_for e = None"
    using rl by (auto simp: rely_def)
  have ro: "rows_ok cs (bk_sagas db) (bk_bookings db) (bk_outbox db)" using inv by (simp add: creation_inv_def)
  have ids: "map b_id (bk_bookings db') = map b_id (bk_bookings db)"
    using la by (induction rule: list_all2_induct) (auto simp: later_change_id)
  then have ids': "b_id ` set (bk_bookings db') = b_id ` set (bk_bookings db)" by (metis set_map)
  have "\<exists>b' \<in> set (bk_bookings db'). consistent cs (bk_outbox db') (sr_saga r) b'" if r: "r \<in> set (bk_sagas db)" for r
  proof -
    obtain b where b: "b \<in> set (bk_bookings db)" "consistent cs (bk_outbox db) (sr_saga r) b" by (rule rows_ok_booking [OF ro r])
    obtain b' where b': "b' \<in> set (bk_bookings db')" "later_change b b'" using list_all2_set [OF la b(1)] by blast
    have "consistent cs (bk_outbox db') (sr_saga r) b'" unfolding es(1) by (rule later_change_consistent [OF b(2) b'(2) es(2)])
    with b'(1) show ?thesis by blast
  qed
  moreover have "i \<in> sr_bookingId ` set (bk_sagas db)" if "e \<in> set (bk_outbox db')" "created_for e = Some i" for e i
    using that ro es by (fastforce simp: rows_ok_def)
  ultimately have R: "rows_ok cs (bk_sagas db') (bk_bookings db') (bk_outbox db')"
    using ro ids ids' sg by (simp add: rows_ok_def)
  have "worker_ok cs db' w" if "worker_ok cs db w" for w
  proof (rule worker_ok_mono [OF that])
    fix b' assume b': "b' \<in> set (bk_bookings db')" "b_status b' = PENDING_CONFIRMATION"
    obtain b where "b \<in> set (bk_bookings db)" "later_change b b'" using list_all2_set' [OF la b'(1)] by blast
    then show "b' \<in> set (bk_bookings db)" using b'(2) by (auto simp: later_change_def)
  qed (use sg in auto)
  with inv R sg show ?thesis by (auto simp: creation_inv_def)
qed

lemma claim_round_same:
  assumes "claim_round k c now ms db = (x, db')"
  shows "bk_sagas db' = bk_sagas db" "bk_bookings db' = bk_bookings db" "bk_outbox db' = bk_outbox db"
  using assms by (auto simp: claim_round_def split: if_splits option.splits)

lemma claim_rounds_same:
  assumes "claim_rounds n k c now ms db = (x, db')"
  shows "bk_sagas db' = bk_sagas db" "bk_bookings db' = bk_bookings db" "bk_outbox db' = bk_outbox db"
  using assms
  by (induction n k c now ms db rule: claim_rounds.induct)
    (auto split: prod.splits option.splits dest: claim_round_same)

lemma creation_move_inv:
  assumes "creation_move ms st st'" and "creation_inv st"
  shows "creation_inv st'"
  using assms
proof cases
  case (claim k cand now cms db c db' ws cs)
  then show ?thesis
    using assms(2) claim_rounds_same [of 3 k cand now cms db c db'] by (auto simp: claimRequest_def intro: creation_inv_same)
next
  case (abandon db ws cs k f)
  then show ?thesis using assms(2) by (auto simp: abandonRequest_def intro: creation_inv_same)
next
  case (insert input b now k f audit db res db' ws cs)
  then show ?thesis using assms(2) insert_inv by blast
next
  case (lease i who now db l db' ws cs)
  then show ?thesis using assms(2) lease_inv by blast
next
  case (lease_due who now limit db leased db' ws cs)
  then show ?thesis using assms(2) lease_due_inv by blast
next
  case (read i db rec us l vs cs)
  then show ?thesis using assms(2) read_inv by blast
next
  case (die db us w vs cs)
  then show ?thesis using assms(2) creation_inv_drop by blast
next
  case (release s l db ok db' us rec vs cs)
  then show ?thesis using assms(2) release_inv by blast
next
  case (call s l now db s' db' us rec vs cs)
  then show ?thesis using assms(2) call_inv by blast
next
  case (call_stopped s l now db r db' us rec vs cs)
  then show ?thesis using assms(2) mark_pivot_lost by blast
next
  case (answered rec s l env db nxt db' us vs cs)
  then show ?thesis using assms(2) answered_inv by blast
next
  case (answer_lost rec s l env db r db' us vs cs)
  then show ?thesis using assms(2) answer_lost_inv by blast
qed

lemma creation_step_inv:
  assumes "creation_step ms st st'" and "creation_inv st"
  shows "creation_inv st'"
  using assms
proof cases
  case own
  then show ?thesis using assms(2) by (rule creation_move_inv)
next
  case (other db db' ws cs)
  then show ?thesis using assms(2) other_inv by blast
qed

interpretation creation: transition_system creation_init "creation_step ms" creation_inv for ms
proof
  fix st assume "creation_init st"
  then show "creation_inv st"
    by (simp add: creation_init_def creation_inv_def empty_booking_db_def sagas.fenced_inv_def rows_ok_def)
qed (rule creation_step_inv)

end
