(* ===== verification/Booking_Change_System.thy ===== *)
theory Booking_Change_System
  imports Booking_Change_Manager Booking_Safety
begin

text \<open>
  Changes of bookings as a system: requests that read a booking and insert a change of it, and any
  number of workers that lease changes, call the other services and write what they were
  answered, in any interleaving of their transactions. The functions are those of
  \<open>Booking_Change_Manager\<close> and \<open>Booking_Store\<close>, cut where transactions and remote calls are.
  The transactions of booking creation are one step that satisfies \<open>change_rely\<close>.
\<close>

section \<open>State\<close>

datatype change_worker =
    Taken string lease
  | Working change string lease
  | Asking change string lease
  | Pivoting change change string lease "slot_snapshot option" booking

datatype change_reply =
    CancelReply dispatch_cancel_result
  | ReleaseReply capacity_release_result
  | SettleReply settlement_result
  | RebindReply rebind_result
  | ReplaceReply replace_result
  | ConfirmReply confirm_result
  | RevertReply revert_result

datatype change_call = ChangeSent string change_step | ChangeAnswered string change_reply

definition reply_of :: "change \<Rightarrow> change_env \<Rightarrow> change_reply" where
  "reply_of c env =
     (case ch_step c of
        DISPATCH_CANCEL \<Rightarrow> CancelReply (ce_cancel env)
      | RELEASE_CAPACITY \<Rightarrow> ReleaseReply (ce_release env)
      | SETTLE_BILLING \<Rightarrow> SettleReply (ce_settle env)
      | DISPATCH_REBIND \<Rightarrow> RebindReply (ce_rebind env)
      | REPLACE_COMMITMENT \<Rightarrow> ReplaceReply (ce_replace env)
      | DISPATCH_CONFIRM \<Rightarrow> ConfirmReply (ce_confirm env)
      | _ \<Rightarrow> RevertReply (ce_revert env))"

fun change_view :: "change_worker \<Rightarrow> (string, change) view" where
  "change_view (Taken i l) = (i, l, None)"
| "change_view (Working c cor l) = (ch_changeId c, l, Some c)"
| "change_view (Asking c cor l) = (ch_changeId c, l, Some c)"
| "change_view (Pivoting c nxt cor l slot b) = (ch_changeId c, l, Some c)"

record change_state =
  hs_db :: booking_db
  hs_readers :: "booking list"
  hs_workers :: "change_worker list"
  hs_calls :: "change_call list"

section \<open>Steps\<close>

inductive change_move :: "int \<Rightarrow> change_state \<Rightarrow> change_state \<Rightarrow> bool" for leaseMs where
  load: "find_booking i db = Some rec \<Longrightarrow>
    change_move leaseMs \<lparr>hs_db = db, hs_readers = rs, hs_workers = ws, hs_calls = cs\<rparr>
                        \<lparr>hs_db = db, hs_readers = br_booking rec # rs, hs_workers = ws, hs_calls = cs\<rparr>"
| request_cancel: "b \<in> set rs \<Longrightarrow> assertChangeable b expected busy = Inr slot \<Longrightarrow>
    insertChange (newCancellation changeId (b_id b) reason who slot now) key fp expected cor audit db = (res, db') \<Longrightarrow>
    change_move leaseMs \<lparr>hs_db = db, hs_readers = rs, hs_workers = ws, hs_calls = cs\<rparr>
                        \<lparr>hs_db = db', hs_readers = rs, hs_workers = ws, hs_calls = cs\<rparr>"
| request_reschedule: "b \<in> set rs \<Longrightarrow> assertChangeable b expected busy = Inr slot \<Longrightarrow>
    insertChange (newReschedule changeId (b_id b) who slot to_slot now) key fp expected cor audit db = (res, db') \<Longrightarrow>
    change_move leaseMs \<lparr>hs_db = db, hs_readers = rs, hs_workers = ws, hs_calls = cs\<rparr>
                        \<lparr>hs_db = db', hs_readers = rs, hs_workers = ws, hs_calls = cs\<rparr>"
| lease: "change_lease_update i who now leaseMs db = (Some l, db') \<Longrightarrow>
    change_move leaseMs \<lparr>hs_db = db, hs_readers = rs, hs_workers = ws, hs_calls = cs\<rparr>
                        \<lparr>hs_db = db', hs_readers = rs, hs_workers = Taken i l # ws, hs_calls = cs\<rparr>"
| lease_due: "due_changes_update who now leaseMs limit db = (leased, db') \<Longrightarrow>
    change_move leaseMs \<lparr>hs_db = db, hs_readers = rs, hs_workers = ws, hs_calls = cs\<rparr>
                        \<lparr>hs_db = db', hs_readers = rs, hs_workers = map (\<lambda>(i, l). Taken i l) leased @ ws, hs_calls = cs\<rparr>"
| read: "findChange i db = Some (c, cor) \<Longrightarrow>
    change_move leaseMs \<lparr>hs_db = db, hs_readers = rs, hs_workers = us @ Taken i l # vs, hs_calls = cs\<rparr>
                        \<lparr>hs_db = db, hs_readers = rs, hs_workers = us @ Working c cor l # vs, hs_calls = cs\<rparr>"
| die: "change_move leaseMs \<lparr>hs_db = db, hs_readers = rs, hs_workers = us @ w # vs, hs_calls = cs\<rparr>
                            \<lparr>hs_db = db, hs_readers = rs, hs_workers = us @ vs, hs_calls = cs\<rparr>"
| release: "saveChange c l True leaseMs db = (ok, db') \<Longrightarrow>
    change_move leaseMs \<lparr>hs_db = db, hs_readers = rs, hs_workers = us @ Working c cor l # vs, hs_calls = cs\<rparr>
                        \<lparr>hs_db = db', hs_readers = rs, hs_workers = us @ vs, hs_calls = cs\<rparr>"
| call: "ch_step c \<noteq> change_step.DONE \<Longrightarrow> begin_call c l now leaseMs db = (Inr (Some c'), db') \<Longrightarrow>
    change_move leaseMs \<lparr>hs_db = db, hs_readers = rs, hs_workers = us @ Working c cor l # vs, hs_calls = cs\<rparr>
                        \<lparr>hs_db = db', hs_readers = rs, hs_workers = us @ Asking c' cor l # vs,
                         hs_calls = cs @ [ChangeSent (ch_changeId c) (ch_step c)]\<rparr>"
| call_stopped: "begin_call c l now leaseMs db = (r, db') \<Longrightarrow> (\<forall>c'. r \<noteq> Inr (Some c')) \<Longrightarrow>
    change_move leaseMs \<lparr>hs_db = db, hs_readers = rs, hs_workers = us @ Working c cor l # vs, hs_calls = cs\<rparr>
                        \<lparr>hs_db = db', hs_readers = rs, hs_workers = us @ vs, hs_calls = cs\<rparr>"
| answered: "decide_change c env = Inr (nxt, slot) \<Longrightarrow> \<not> isPivotExit c nxt \<Longrightarrow>
    conclude c nxt cor l leaseMs db = (Inr True, db') \<Longrightarrow>
    change_move leaseMs \<lparr>hs_db = db, hs_readers = rs, hs_workers = us @ Asking c cor l # vs, hs_calls = cs\<rparr>
                        \<lparr>hs_db = db', hs_readers = rs, hs_workers = us @ Working nxt cor l # vs,
                         hs_calls = cs @ [ChangeAnswered (ch_changeId c) (reply_of c env)]\<rparr>"
| answer_lost: "decide_change c env = Inr (nxt, slot) \<Longrightarrow> \<not> isPivotExit c nxt \<Longrightarrow>
    conclude c nxt cor l leaseMs db = (r, db') \<Longrightarrow> r \<noteq> Inr True \<Longrightarrow>
    change_move leaseMs \<lparr>hs_db = db, hs_readers = rs, hs_workers = us @ Asking c cor l # vs, hs_calls = cs\<rparr>
                        \<lparr>hs_db = db', hs_readers = rs, hs_workers = us @ vs,
                         hs_calls = cs @ [ChangeAnswered (ch_changeId c) (reply_of c env)]\<rparr>"
| pivot_read: "decide_change c env = Inr (nxt, slot) \<Longrightarrow> isPivotExit c nxt \<Longrightarrow>
    find_booking (ch_bookingId c) db = Some rec \<Longrightarrow>
    change_move leaseMs \<lparr>hs_db = db, hs_readers = rs, hs_workers = us @ Asking c cor l # vs, hs_calls = cs\<rparr>
                        \<lparr>hs_db = db, hs_readers = rs,
                         hs_workers = us @ Pivoting c nxt cor l slot (br_booking rec) # vs,
                         hs_calls = cs @ [ChangeAnswered (ch_changeId c) (reply_of c env)]\<rparr>"
| pivoted: "pivot_write c nxt cor l slot b env leaseMs db = (Inr True, db') \<Longrightarrow>
    change_move leaseMs \<lparr>hs_db = db, hs_readers = rs, hs_workers = us @ Pivoting c nxt cor l slot b # vs, hs_calls = cs\<rparr>
                        \<lparr>hs_db = db', hs_readers = rs, hs_workers = us @ Working nxt cor l # vs, hs_calls = cs\<rparr>"
| pivot_lost: "pivot_write c nxt cor l slot b env leaseMs db = (r, db') \<Longrightarrow> r \<noteq> Inr True \<Longrightarrow>
    change_move leaseMs \<lparr>hs_db = db, hs_readers = rs, hs_workers = us @ Pivoting c nxt cor l slot b # vs, hs_calls = cs\<rparr>
                        \<lparr>hs_db = db', hs_readers = rs, hs_workers = us @ vs, hs_calls = cs\<rparr>"

text \<open>What the creation of bookings does to the tables a change depends on.\<close>

fun changed_by :: "booking_event \<Rightarrow> string option" where
  "changed_by (BookingCreatedV1 h d) = None"
| "changed_by (BookingCancelledV1 h d) = Some (xd_changeId d)"
| "changed_by (BookingRescheduledV1 h d) = Some (rd_changeId d)"

definition decided :: "booking \<Rightarrow> booking \<Rightarrow> bool" where
  "decided b b' \<longleftrightarrow>
     b' = b \<or>
     (b_id b' = b_id b \<and> b_version b < b_version b' \<and> b_scheduleRevision b' = b_scheduleRevision b \<and>
      b_status b = PENDING_CONFIRMATION \<and> b_status b' \<in> {booking_state.CONFIRMED, booking_state.REJECTED})"

definition change_rely :: "booking_db \<Rightarrow> booking_db \<Rightarrow> bool" where
  "change_rely db db' \<longleftrightarrow>
     bk_changes db' = bk_changes db \<and> distinct (map b_id (bk_bookings db')) \<and>
     (\<exists>known new. bk_bookings db' = known @ new \<and> list_all2 decided (bk_bookings db) known \<and>
        (\<forall>b \<in> set new. b_status b = PENDING_CONFIRMATION \<and> b_scheduleRevision b = 1)) \<and>
     (\<exists>es. bk_outbox db' = bk_outbox db @ es \<and> (\<forall>e \<in> set es. changed_by e = None))"

inductive change_system :: "int \<Rightarrow> change_state \<Rightarrow> change_state \<Rightarrow> bool" for leaseMs where
  own: "change_move leaseMs st st' \<Longrightarrow> change_system leaseMs st st'"
| other: "change_rely db db' \<Longrightarrow>
    change_system leaseMs \<lparr>hs_db = db, hs_readers = rs, hs_workers = ws, hs_calls = cs\<rparr>
                          \<lparr>hs_db = db', hs_readers = rs, hs_workers = ws, hs_calls = cs\<rparr>"

definition change_init :: "change_state \<Rightarrow> bool" where
  "change_init st \<longleftrightarrow> st = \<lparr>hs_db = empty_booking_db, hs_readers = [], hs_workers = [], hs_calls = []\<rparr>"

section \<open>What holds of a change and its booking\<close>

text \<open>The change went past its pivot: the booking shows it.\<close>

definition passed :: "change \<Rightarrow> bool" where
  "passed c \<longleftrightarrow>
     ch_step c \<in> {RELEASE_CAPACITY, SETTLE_BILLING, DISPATCH_CONFIRM} \<or>
     ch_outcome c = Some change_outcome.COMPLETED"

definition pivot_count :: "booking_event list \<Rightarrow> string \<Rightarrow> nat" where
  "pivot_count events i = length (filter (\<lambda>e. changed_by e = Some i) events)"

definition cancelled_count :: "booking_event list \<Rightarrow> string \<Rightarrow> nat" where
  "cancelled_count events i = length (filter (\<lambda>e. cancelled_for e = Some i) events)"

definition moved_count :: "booking_event list \<Rightarrow> string \<Rightarrow> nat" where
  "moved_count events i = length (filter (\<lambda>e. map_option fst (rescheduled_for e) = Some i) events)"

text \<open>What the other services answered before the change could come where it is.\<close>

definition answers_ok :: "change_call list \<Rightarrow> change \<Rightarrow> bool" where
  "answers_ok cs c \<longleftrightarrow>
     (passed c \<and> ch_kind c = CANCELLATION \<longrightarrow>
        (\<exists>a \<in> {JobCancelled, JobNotOpened}. ChangeAnswered (ch_changeId c) (CancelReply a) \<in> set cs)) \<and>
     (ch_step c = SETTLE_BILLING \<or> ch_outcome c = Some change_outcome.COMPLETED \<and> ch_kind c = CANCELLATION \<longrightarrow>
        (\<exists>a \<in> {CapacityReleased, CapacityNotCommitted}. ChangeAnswered (ch_changeId c) (ReleaseReply a) \<in> set cs)) \<and>
     (ch_outcome c = Some change_outcome.COMPLETED \<and> ch_kind c = CANCELLATION \<longrightarrow>
        (\<exists>how. ch_settlement c = Some (settlement_of how) \<and>
               ChangeAnswered (ch_changeId c) (SettleReply (Settled how)) \<in> set cs)) \<and>
     (passed c \<and> ch_kind c = RESCHEDULE \<longrightarrow>
        (\<exists>slot. ChangeAnswered (ch_changeId c) (ReplaceReply (Replaced slot)) \<in> set cs)) \<and>
     (ch_outcome c = Some change_outcome.COMPLETED \<and> ch_kind c = RESCHEDULE \<longrightarrow>
        ChangeAnswered (ch_changeId c) (ConfirmReply JobConfirmed) \<in> set cs) \<and>
     (ch_outcome c = Some change_outcome.FAILED \<longrightarrow>
        ChangeAnswered (ch_changeId c) (RevertReply JobReverted) \<in> set cs)"

definition sent_ok :: "change_call list \<Rightarrow> change \<Rightarrow> bool" where
  "sent_ok cs c \<longleftrightarrow>
     (ChangeSent (ch_changeId c) REPLACE_COMMITMENT \<in> set cs \<longrightarrow> ch_pivotAttempted c)"

definition fits :: "change \<Rightarrow> booking \<Rightarrow> bool" where
  "fits c b \<longleftrightarrow>
     b_id b = ch_bookingId c \<and> b_status b \<in> {booking_state.CONFIRMED, booking_state.CANCELLED} \<and>
     (ch_outcome c = None \<and> \<not> passed c \<longrightarrow>
        b_status b = booking_state.CONFIRMED \<and> currentSlot b = Some (ch_from c)) \<and>
     (passed c \<and> ch_kind c = CANCELLATION \<longrightarrow> b_status b = booking_state.CANCELLED)"

definition change_row_ok :: "change_call list \<Rightarrow> booking list \<Rightarrow> booking_event list \<Rightarrow> change \<Rightarrow> bool" where
  "change_row_ok cs bookings events c \<longleftrightarrow>
     change_inv c \<and> answers_ok cs c \<and> sent_ok cs c \<and>
     pivot_count events (ch_changeId c) = (if passed c then 1 else 0) \<and> (\<exists>b \<in> set bookings. fits c b)"

definition booking_row_ok :: "booking_event list \<Rightarrow> booking \<Rightarrow> bool" where
  "booking_row_ok events b \<longleftrightarrow>
     cancelled_count events (b_id b) = (if b_status b = booking_state.CANCELLED then 1 else 0) \<and>
     b_scheduleRevision b = 1 + int (moved_count events (b_id b))"

definition one_open :: "change_row list \<Rightarrow> bool" where
  "one_open rows \<longleftrightarrow>
     (\<forall>r \<in> set rows. \<forall>r' \<in> set rows. ch_outcome (cr_change r) = None \<longrightarrow> ch_outcome (cr_change r') = None \<longrightarrow>
        ch_bookingId (cr_change r) = ch_bookingId (cr_change r') \<longrightarrow> cr_changeId r = cr_changeId r')"

fun event_of :: "booking_event \<Rightarrow> string" where
  "event_of (BookingCreatedV1 h d) = en_aggregateId h"
| "event_of (BookingCancelledV1 h d) = en_aggregateId h"
| "event_of (BookingRescheduledV1 h d) = en_aggregateId h"

definition tables_ok :: "change_call list \<Rightarrow> change_row list \<Rightarrow> booking list \<Rightarrow> booking_event list \<Rightarrow> bool" where
  "tables_ok cs rows bookings events \<longleftrightarrow>
     distinct (map b_id bookings) \<and> one_open rows \<and>
     (\<forall>r \<in> set rows. change_row_ok cs bookings events (cr_change r)) \<and>
     (\<forall>b \<in> set bookings. booking_row_ok events b) \<and>
     (\<forall>e \<in> set events. \<forall>i. changed_by e = Some i \<longrightarrow> i \<in> cr_changeId ` set rows \<and> event_of e \<in> b_id ` set bookings) \<and>
     (\<forall>i step. ChangeSent i step \<in> set cs \<longrightarrow> i \<in> cr_changeId ` set rows)"

text \<open>A booking someone read: the row has moved on, or it is still the same.\<close>

definition known :: "booking \<Rightarrow> booking list \<Rightarrow> bool" where
  "known b rows \<longleftrightarrow>
     b_id b \<in> b_id ` set rows \<and>
     (\<forall>row \<in> set rows. b_id row = b_id b \<longrightarrow> b_version b \<le> b_version row \<and> (b_version row = b_version b \<longrightarrow> row = b))"

text \<open>What a worker knows of its change, whether or not it still holds it.\<close>

definition aware :: "change_call list \<Rightarrow> change_row list \<Rightarrow> change \<Rightarrow> bool" where
  "aware cs rows c \<longleftrightarrow>
     change_inv c \<and> answers_ok cs c \<and>
     (\<forall>r \<in> set rows. cr_changeId r = ch_changeId c \<longrightarrow> ch_pivotAttempted c \<longrightarrow> ch_pivotAttempted (cr_change r))"

fun change_worker_ok :: "change_call list \<Rightarrow> booking_db \<Rightarrow> change_worker \<Rightarrow> bool" where
  "change_worker_ok cs db (Taken i l) \<longleftrightarrow> True"
| "change_worker_ok cs db (Working c cor l) \<longleftrightarrow> aware cs (bk_changes db) c"
| "change_worker_ok cs db (Asking c cor l) \<longleftrightarrow>
     aware cs (bk_changes db) c \<and> ch_step c \<noteq> change_step.DONE \<and>
     (ch_step c = REPLACE_COMMITMENT \<longrightarrow> ch_pivotAttempted c)"
| "change_worker_ok cs db (Pivoting c nxt cor l slot b) \<longleftrightarrow>
     aware cs (bk_changes db) c \<and> aware cs (bk_changes db) nxt \<and> isPivotExit c nxt \<and> same_request c nxt \<and>
     ch_pivotAttempted nxt = ch_pivotAttempted c \<and> ch_outcome c = None \<and>
     b_id b = ch_bookingId c \<and> known b (bk_bookings db)"

definition change_sys_inv :: "change_state \<Rightarrow> bool" where
  "change_sys_inv st \<longleftrightarrow>
     changes.fenced_inv (bk_changes (hs_db st)) (map change_view (hs_workers st)) \<and>
     tables_ok (hs_calls st) (bk_changes (hs_db st)) (bk_bookings (hs_db st)) (bk_outbox (hs_db st)) \<and>
     (\<forall>b \<in> set (hs_readers st). known b (bk_bookings (hs_db st))) \<and>
     (\<forall>w \<in> set (hs_workers st). change_worker_ok (hs_calls st) (hs_db st) w)"

end
