(* ===== verification/Booking_Change_Safety.thy ===== *)
theory Booking_Change_Safety
  imports Booking_Change_System
begin

text \<open>
  The invariant of changes: every step of \<open>change_system\<close> keeps \<open>change_sys_inv\<close>. The moves of
  the abstract machine \<open>change_spec\<close> say what an answer may do to a change; the locale of fenced
  leases says who can write it; the version of a booking says that the row is the one that was read.
\<close>

section \<open>Moves\<close>

lemma spec_passed:
  assumes "change_spec env (change_core c) (change_core nxt)"
  shows "passed nxt \<longleftrightarrow> passed c \<or> isPivotExit c nxt"
  using assms by cases (auto simp: change_core_def passed_def isPivotExit_def)

lemma spec_pivot_flag:
  assumes "change_spec env (change_core c) (change_core nxt)"
  shows "ch_pivotAttempted nxt = ch_pivotAttempted c"
  using assms by cases (auto simp: change_core_def)

lemma spec_outcome:
  assumes "change_spec env (change_core c) (change_core nxt)" and "ch_outcome nxt = None"
  shows "ch_outcome c = None"
  using assms by cases (auto simp: change_core_def)

lemma isPivotExit_open:
  assumes "isPivotExit c nxt" and "change_inv c"
  shows "ch_outcome c = None" and "\<not> passed c"
proof -
  have "ch_step c \<noteq> change_step.DONE" using assms(1) by (auto simp: isPivotExit_def)
  from open_fields(1) [OF assms(2) this] show "ch_outcome c = None" .
  with assms(1) show "\<not> passed c" by (auto simp: isPivotExit_def passed_def)
qed

lemma answers_ok_mono: "answers_ok cs c \<Longrightarrow> set cs \<subseteq> set cs' \<Longrightarrow> answers_ok cs' c"
  unfolding answers_ok_def by blast

lemma core_step: "change_core c = (st, out, rf, stl, p) \<Longrightarrow> ch_step c = st \<and> ch_outcome c = out \<and> ch_settlement c = stl"
  by (simp add: change_core_def)

text \<open>The answer that moves a change is the one its new state asks for.\<close>

lemma answers_ok_move:
  assumes spec: "change_spec env (change_core c) (change_core nxt)" and sr: "same_request c nxt"
    and inv: "change_inv c" and ok: "answers_ok cs c"
  shows "answers_ok (cs @ [ChangeAnswered (ch_changeId c) (reply_of c env)]) nxt"
proof -
  let ?cs = "cs @ [ChangeAnswered (ch_changeId c) (reply_of c env)]"
  have ok': "answers_ok ?cs c" by (rule answers_ok_mono [OF ok]) auto
  have id: "ch_changeId nxt = ch_changeId c" "ch_kind nxt = ch_kind c" using sr by (simp_all add: same_request_def)
  have last: "ChangeAnswered (ch_changeId c) (reply_of c env) \<in> set ?cs" by simp
  from spec show ?thesis
  proof cases
    case stay
    then show ?thesis using ok' id by (simp add: answers_ok_def passed_def change_core_def)
  next
    case (job_cancelled s p)
    note k = core_step [OF job_cancelled(1)] core_step [OF job_cancelled(2)]
    have "ch_kind c = CANCELLATION" using change_inv_step(1) [OF inv] k by simp
    then show ?thesis using k id job_cancelled(3) last by (auto simp: answers_ok_def passed_def reply_of_def)
  next
    case (cancel_refused why s p)
    note k = core_step [OF cancel_refused(2)]
    then show ?thesis using id by (auto simp: answers_ok_def passed_def)
  next
    case (released s p)
    note k = core_step [OF released(1)] core_step [OF released(2)]
    have "ch_kind c = CANCELLATION" using change_inv_step(1) [OF inv] k by simp
    then show ?thesis using k id released(3) last ok' by (auto simp: answers_ok_def passed_def reply_of_def)
  next
    case (settled how s p)
    note k = core_step [OF settled(1)] core_step [OF settled(2)]
    have "ch_kind c = CANCELLATION" using change_inv_step(1) [OF inv] k by simp
    then show ?thesis using k id settled(3) last ok' by (auto simp: answers_ok_def passed_def reply_of_def)
  next
    case (rebound s p)
    note k = core_step [OF rebound(2)]
    then show ?thesis using id by (auto simp: answers_ok_def passed_def)
  next
    case (rebind_refused why s p)
    note k = core_step [OF rebind_refused(2)]
    then show ?thesis using id by (auto simp: answers_ok_def passed_def)
  next
    case (given_up p rf s)
    note k = core_step [OF given_up(2)]
    then show ?thesis using id by (auto simp: answers_ok_def passed_def)
  next
    case (replaced slot s)
    note k = core_step [OF replaced(1)] core_step [OF replaced(2)]
    have "ch_kind c = RESCHEDULE" using change_inv_step(2) [OF inv] k by simp
    then show ?thesis using k id replaced(3) last by (auto simp: answers_ok_def passed_def reply_of_def)
  next
    case (replace_refused why s)
    note k = core_step [OF replace_refused(2)]
    then show ?thesis using id by (auto simp: answers_ok_def passed_def)
  next
    case (confirmed r s p)
    note k = core_step [OF confirmed(1)] core_step [OF confirmed(2)]
    have "ch_kind c = RESCHEDULE" using change_inv_step(2) [OF inv] k by simp
    then show ?thesis using k id confirmed(3) last ok' by (auto simp: answers_ok_def passed_def reply_of_def)
  next
    case (reverted r s p)
    note k = core_step [OF reverted(1)] core_step [OF reverted(2)]
    then show ?thesis using id reverted(3) last by (auto simp: answers_ok_def passed_def reply_of_def)
  qed
qed

section \<open>A row is its image\<close>

text \<open>Nothing the invariant says of a change depends on its error text, which the row truncates.\<close>

lemma change_image_eq:
  assumes "change_image c = change_image c'"
  shows "ch_step c = ch_step c'" "ch_outcome c = ch_outcome c'" "ch_refusal c = ch_refusal c'"
    "ch_settlement c = ch_settlement c'" "ch_pivotAttempted c = ch_pivotAttempted c'" "ch_attempts c = ch_attempts c'"
    "ch_completedAt c = ch_completedAt c'" "same_request c c'"
  using assms by (cases c; cases c'; simp add: change_image_def same_request_def)+

lemma change_row_ok_image:
  assumes "change_image c = change_image c'"
  shows "change_row_ok cs bs ev c \<longleftrightarrow> change_row_ok cs bs ev c'"
  using change_image_eq [OF assms]
  by (simp add: change_row_ok_def change_inv_def shape_of_def request_ok_def answers_ok_def sent_ok_def
      passed_def fits_def same_request_def)

lemma written_change_image:
  assumes "same_request (cr_change r) x"
  shows "change_image (cr_change (written_change x rel ms r)) = change_image x"
  using assms by (cases x; cases "cr_change r") (simp add: written_change_def change_image_def same_request_def)

section \<open>Updating one change\<close>

lemma tables_ok_write:
  assumes ok: "tables_ok cs rows bookings events"
    and rows': "set rows' = insert r' {q \<in> set rows. cr_changeId q \<noteq> k}" "cr_changeId r' = k"
      "map cr_changeId rows' = map cr_changeId rows"
    and r: "r \<in> set rows" "cr_changeId r = k" "ch_bookingId (cr_change r') = ch_bookingId (cr_change r)"
      "ch_outcome (cr_change r') = None \<longrightarrow> ch_outcome (cr_change r) = None"
    and mine: "change_row_ok cs bookings' (events @ es) (cr_change r')"
    and others: "\<And>q. q \<in> set rows \<Longrightarrow> cr_changeId q \<noteq> k \<Longrightarrow> change_row_ok cs bookings events (cr_change q) \<Longrightarrow>
      change_row_ok cs bookings' (events @ es) (cr_change q)"
    and bs: "map b_id bookings' = map b_id bookings" "\<And>b. b \<in> set bookings' \<Longrightarrow> booking_row_ok (events @ es) b"
    and es: "\<forall>e \<in> set es. changed_by e \<in> {None, Some k} \<and> event_of e \<in> b_id ` set bookings"
  shows "tables_ok cs rows' bookings' (events @ es)"
proof -
  have keys: "cr_changeId ` set rows' = cr_changeId ` set rows" "b_id ` set bookings' = b_id ` set bookings"
    using rows'(3) bs(1) by (metis set_map)+
  have k: "k \<in> cr_changeId ` set rows" using r by auto
  have one: "one_open rows'"
    unfolding one_open_def
  proof (intro ballI impI)
    fix p q assume p: "p \<in> set rows'" and q: "q \<in> set rows'"
      and o: "ch_outcome (cr_change p) = None" "ch_outcome (cr_change q) = None"
      and b: "ch_bookingId (cr_change p) = ch_bookingId (cr_change q)"
    have old: "\<exists>p0 \<in> set rows. cr_changeId p0 = cr_changeId p \<and> ch_outcome (cr_change p0) = None \<and>
        ch_bookingId (cr_change p0) = ch_bookingId (cr_change p)"
      if "p \<in> set rows'" "ch_outcome (cr_change p) = None" for p
      using that rows'(1,2) r by (cases "p = r'") auto
    obtain p0 q0 where "p0 \<in> set rows" "q0 \<in> set rows" "cr_changeId p0 = cr_changeId p" "cr_changeId q0 = cr_changeId q"
      "ch_outcome (cr_change p0) = None" "ch_outcome (cr_change q0) = None"
      "ch_bookingId (cr_change p0) = ch_bookingId (cr_change q0)"
      using old [OF p o(1)] old [OF q o(2)] b by auto
    then show "cr_changeId p = cr_changeId q" using ok by (metis one_open_def tables_ok_def)
  qed
  have "change_row_ok cs bookings' (events @ es) (cr_change q)" if q: "q \<in> set rows'" for q
    using q rows'(1) mine others ok by (auto simp: tables_ok_def)
  moreover have "i \<in> cr_changeId ` set rows \<and> event_of e \<in> b_id ` set bookings"
    if "e \<in> set (events @ es)" "changed_by e = Some i" for e i
  proof (cases "e \<in> set events")
    case True
    then show ?thesis using ok that(2) by (auto simp: tables_ok_def)
  next
    case False
    with that es k show ?thesis by fastforce
  qed
  moreover have "i \<in> cr_changeId ` set rows" if "ChangeSent i st \<in> set cs" for i st
    using that ok by (auto simp: tables_ok_def)
  moreover have "distinct (map b_id bookings')" using ok bs(1) by (simp add: tables_ok_def)
  ultimately show ?thesis using one bs(2) keys by (simp add: tables_ok_def)
qed

section \<open>Bookings move on\<close>

definition moves_on :: "booking list \<Rightarrow> booking list \<Rightarrow> bool" where
  "moves_on rows rows' \<longleftrightarrow>
     b_id ` set rows \<subseteq> b_id ` set rows' \<and>
     (\<forall>row' \<in> set rows'. b_id row' \<in> b_id ` set rows \<longrightarrow>
        (\<exists>row \<in> set rows. b_id row = b_id row' \<and> (row' = row \<or> b_version row < b_version row')))"

lemma moves_on_refl [simp]: "moves_on rows rows"
  by (auto simp: moves_on_def)

lemma known_moves_on:
  assumes k: "known b rows" and m: "moves_on rows rows'"
  shows "known b rows'"
proof -
  have "b_version b \<le> b_version row' \<and> (b_version row' = b_version b \<longrightarrow> row' = b)"
    if r: "row' \<in> set rows'" "b_id row' = b_id b" for row'
  proof -
    have "b_id row' \<in> b_id ` set rows" using k r by (simp add: known_def)
    then obtain row where "row \<in> set rows" "b_id row = b_id row'" "row' = row \<or> b_version row < b_version row'"
      using m r unfolding moves_on_def by blast
    then show ?thesis using k r unfolding known_def by force
  qed
  then show ?thesis using k m by (auto simp: known_def moves_on_def)
qed

lemma known_row:
  assumes "known b rows" and "row \<in> set rows" and "b_id row = b_id b" and "b_version row = b_version b"
  shows "row = b"
  using assms by (simp add: known_def)

lemma find_booking_known:
  assumes "find_booking i db = Some rec" and "distinct (map b_id (bk_bookings db))"
  shows "known (br_booking rec) (bk_bookings db)" and "b_id (br_booking rec) = i"
    and "br_booking rec \<in> set (bk_bookings db)"
proof -
  have f: "find_row b_id i (bk_bookings db) = Some (br_booking rec)"
    using assms(1) by (auto simp: find_booking_def split: option.splits)
  then have m: "br_booking rec \<in> set (bk_bookings db)" "b_id (br_booking rec) = i"
    by (auto dest: find_row_Some)
  then show "b_id (br_booking rec) = i" "br_booking rec \<in> set (bk_bookings db)" by blast+
  have "row = br_booking rec" if "row \<in> set (bk_bookings db)" "b_id row = b_id (br_booking rec)" for row
    using distinct_key_eq [OF assms(2) that(1) m(1)] that(2) by blast
  with m show "known (br_booking rec) (bk_bookings db)" by (force simp: known_def)
qed

section \<open>Workers\<close>

lemma aware_mono:
  assumes a: "aware cs rows c" and cs: "set cs \<subseteq> set cs'"
    and r: "\<And>r'. r' \<in> set rows' \<Longrightarrow> cr_changeId r' = ch_changeId c \<Longrightarrow>
      \<exists>r \<in> set rows. cr_changeId r = cr_changeId r' \<and>
        (ch_pivotAttempted (cr_change r) \<longrightarrow> ch_pivotAttempted (cr_change r'))"
  shows "aware cs' rows' c"
  using a answers_ok_mono [OF _ cs] r unfolding aware_def by metis

lemma aware_id:
  "aware cs rows c \<Longrightarrow> change_inv c" "aware cs rows c \<Longrightarrow> answers_ok cs c"
  by (simp_all add: aware_def)

lemma change_worker_mono:
  assumes w: "change_worker_ok cs db w" and cs: "set cs \<subseteq> set cs'"
    and r: "\<And>r'. r' \<in> set (bk_changes db') \<Longrightarrow> cr_changeId r' = fst (change_view w) \<Longrightarrow>
      \<exists>r \<in> set (bk_changes db). cr_changeId r = cr_changeId r' \<and>
        (ch_pivotAttempted (cr_change r) \<longrightarrow> ch_pivotAttempted (cr_change r'))"
    and b: "moves_on (bk_bookings db) (bk_bookings db')"
  shows "change_worker_ok cs' db' w"
proof -
  have m: "aware cs' (bk_changes db') c" if "aware cs (bk_changes db) c" "ch_changeId c = fst (change_view w)" for c
    using that aware_mono [OF that(1) cs, of "bk_changes db'"] r by simp
  show ?thesis
  proof (cases w)
    case (Pivoting c nxt cor l slot bk)
    then have "ch_changeId nxt = ch_changeId c" using w by (simp add: same_request_def)
    with Pivoting w m [of c] m [of nxt] known_moves_on [OF _ b] show ?thesis by auto
  qed (use w m in auto)
qed

lemma change_sys_inv_same:
  assumes "change_sys_inv \<lparr>hs_db = db, hs_readers = rs, hs_workers = ws, hs_calls = cs\<rparr>"
    and "bk_changes db' = bk_changes db" "bk_bookings db' = bk_bookings db" "bk_outbox db' = bk_outbox db"
  shows "change_sys_inv \<lparr>hs_db = db', hs_readers = rs, hs_workers = ws, hs_calls = cs\<rparr>"
proof -
  have "change_worker_ok cs db' w" if "change_worker_ok cs db w" for w
    by (rule change_worker_mono [OF that order_refl]) (use assms(2,3) in auto)
  with assms show ?thesis by (auto simp: change_sys_inv_def)
qed

lemma change_sys_inv_drop:
  assumes "change_sys_inv \<lparr>hs_db = db, hs_readers = rs, hs_workers = us @ w # vs, hs_calls = cs\<rparr>"
  shows "change_sys_inv \<lparr>hs_db = db, hs_readers = rs, hs_workers = us @ vs, hs_calls = cs\<rparr>"
  using assms changes.fenced_inv_drop [of _ "map change_view us" "change_view w" "map change_view vs"]
  by (simp add: change_sys_inv_def)

text \<open>Replacing a worker by one with the same view.\<close>

lemma change_sys_inv_replace:
  assumes "change_sys_inv \<lparr>hs_db = db, hs_readers = rs, hs_workers = us @ w # vs, hs_calls = cs\<rparr>"
    and "change_view w' = change_view w" and "change_worker_ok cs db w'"
  shows "change_sys_inv \<lparr>hs_db = db, hs_readers = rs, hs_workers = us @ w' # vs, hs_calls = cs\<rparr>"
  using assms by (simp add: change_sys_inv_def)

section \<open>The log grows\<close>

lemma tables_ok_answered:
  assumes "tables_ok cs rows bookings events"
  shows "tables_ok (cs @ [ChangeAnswered i a]) rows bookings events"
proof -
  have "change_row_ok (cs @ [ChangeAnswered i a]) bookings events c" if "change_row_ok cs bookings events c" for c
    using that answers_ok_mono [of cs c "cs @ [ChangeAnswered i a]"] by (auto simp: change_row_ok_def sent_ok_def)
  with assms show ?thesis by (simp add: tables_ok_def)
qed

lemma change_sys_inv_answered:
  assumes "change_sys_inv \<lparr>hs_db = db, hs_readers = rs, hs_workers = ws, hs_calls = cs\<rparr>"
  shows "change_sys_inv \<lparr>hs_db = db, hs_readers = rs, hs_workers = ws, hs_calls = cs @ [ChangeAnswered i a]\<rparr>"
proof -
  have "change_worker_ok (cs @ [ChangeAnswered i a]) db w" if "change_worker_ok cs db w" for w
    by (rule change_worker_mono [OF that]) auto
  with assms tables_ok_answered show ?thesis by (auto simp: change_sys_inv_def)
qed

lemma change_sys_inv_sent:
  assumes inv: "change_sys_inv \<lparr>hs_db = db, hs_readers = rs, hs_workers = ws, hs_calls = cs\<rparr>"
    and i: "i \<in> cr_changeId ` set (bk_changes db)"
    and p: "\<And>r. step = REPLACE_COMMITMENT \<Longrightarrow> r \<in> set (bk_changes db) \<Longrightarrow> cr_changeId r = i \<Longrightarrow>
      ch_pivotAttempted (cr_change r)"
  shows "change_sys_inv \<lparr>hs_db = db, hs_readers = rs, hs_workers = ws, hs_calls = cs @ [ChangeSent i step]\<rparr>"
proof -
  let ?cs = "cs @ [ChangeSent i step]"
  have row: "change_row_ok ?cs bookings events (cr_change r)"
    if "change_row_ok cs bookings events (cr_change r)" "r \<in> set (bk_changes db)" for bookings events r
    using that p [OF _ that(2)] answers_ok_mono [of cs "cr_change r" ?cs]
    by (auto simp: change_row_ok_def sent_ok_def cr_changeId_def)
  have "change_worker_ok ?cs db w" if "change_worker_ok cs db w" for w
    by (rule change_worker_mono [OF that]) auto
  moreover have "tables_ok ?cs (bk_changes db) (bk_bookings db) (bk_outbox db)"
    using inv i row by (auto simp: change_sys_inv_def tables_ok_def)
  ultimately show ?thesis using inv by (auto simp: change_sys_inv_def)
qed

section \<open>The holder writes\<close>

lemma writeChange_lost:
  "writeChange x l rel ms db = (False, db') \<Longrightarrow> changes.fenced_inv (bk_changes db) vs \<Longrightarrow> db' = db"
  using changes.write_succeeds_iff [of "bk_changes db" vs x l] changes.write_lost(1) [of "bk_changes db" x l rel ms]
  by (auto simp: writeChange_def change_fenced_eq)

lemma writeChange_done:
  assumes "writeChange x l rel ms db = (True, db')" and "changes.fenced_inv (bk_changes db) vs"
  obtains r where "r \<in> set (bk_changes db)" "changes.fenced x l r"
    "db' = db\<lparr>bk_changes := update_rows (change_fenced x l) (written_change x rel ms) (bk_changes db)\<rparr>"
  using assms changes.write_succeeds_iff [of "bk_changes db" vs x l] by (auto simp: writeChange_def change_fenced_eq)

text \<open>What the database says to the worker that holds the row.\<close>

lemma change_holder_row:
  assumes inv: "change_sys_inv \<lparr>hs_db = db, hs_readers = rs, hs_workers = us @ w # vs, hs_calls = cs\<rparr>"
    and w: "change_view w = (ch_changeId c, l, Some c)"
    and r: "r \<in> set (bk_changes db)" "changes.fenced x l r" and xid: "ch_changeId x = ch_changeId c"
  shows "change_image (cr_change r) = change_image c" and "cr_changeId r = ch_changeId c"
    and "change_row_ok cs (bk_bookings db) (bk_outbox db) c"
proof -
  have fi: "changes.fenced_inv (bk_changes db) (map change_view us @ (ch_changeId c, l, Some c) # map change_view vs)"
    using inv w by (simp add: change_sys_inv_def)
  have rk: "cr_changeId r = ch_changeId c" "changes.holds l r" using r(2) xid by (simp_all add: changes.fenced_def)
  show i: "change_image (cr_change r) = change_image c"
    by (rule changes.holder_has_row(1) [OF fi _ r(1) rk]) simp
  show "cr_changeId r = ch_changeId c" by (rule rk)
  have "change_row_ok cs (bk_bookings db) (bk_outbox db) (cr_change r)"
    using inv r(1) by (simp add: change_sys_inv_def tables_ok_def)
  then show "change_row_ok cs (bk_bookings db) (bk_outbox db) c" using change_row_ok_image [OF i] by simp
qed

text \<open>
  The holder writes its change, with the booking and the events of its transaction; every other
  worker and reader still knows nothing the tables contradict.
\<close>

lemma change_holder_writes:
  assumes inv: "change_sys_inv \<lparr>hs_db = db, hs_readers = rs, hs_workers = us @ w # vs, hs_calls = cs\<rparr>"
    and w: "change_view w = (ch_changeId c, l, Some c)" and w': "change_view w' = (ch_changeId c, l, Some x)"
    and r: "r \<in> set (bk_changes db)" "changes.fenced x l r" and sr: "same_request c x"
    and rows': "bk_changes db' = update_rows (change_fenced x l) (written_change x rel ms) (bk_changes db)"
    and out: "ch_outcome x = None \<longrightarrow> ch_outcome c = None" and piv: "ch_pivotAttempted c \<longrightarrow> ch_pivotAttempted x"
    and mine: "change_row_ok cs (bk_bookings db') (bk_outbox db @ es) x"
    and ev: "bk_outbox db' = bk_outbox db @ es"
      "\<forall>e \<in> set es. changed_by e \<in> {None, Some (ch_changeId c)} \<and> event_of e \<in> b_id ` set (bk_bookings db)"
    and others: "\<And>q. q \<in> set (bk_changes db) \<Longrightarrow> cr_changeId q \<noteq> ch_changeId c \<Longrightarrow>
      change_row_ok cs (bk_bookings db) (bk_outbox db) (cr_change q) \<Longrightarrow>
      change_row_ok cs (bk_bookings db') (bk_outbox db @ es) (cr_change q)"
    and bs: "map b_id (bk_bookings db') = map b_id (bk_bookings db)"
      "\<And>b. b \<in> set (bk_bookings db') \<Longrightarrow> booking_row_ok (bk_outbox db @ es) b"
      "moves_on (bk_bookings db) (bk_bookings db')"
    and ok: "aware cs (bk_changes db') x \<Longrightarrow> change_worker_ok cs db' w'"
  shows "change_sys_inv \<lparr>hs_db = db', hs_readers = rs, hs_workers = us @ w' # vs, hs_calls = cs\<rparr>"
proof -
  let ?k = "ch_changeId c" and ?r' = "written_change x rel ms r"
  have xid: "ch_changeId x = ?k" using sr by (simp add: same_request_def)
  note hr = change_holder_row [OF inv w r xid]
  have fi: "changes.fenced_inv (bk_changes db) (map change_view us @ (?k, l, Some c) # map change_view vs)"
    using inv w by (simp add: change_sys_inv_def)
  have d: "distinct (map cr_changeId (bk_changes db))" using fi by (rule changes.fenced_inv_distinct)
  have rx: "same_request (cr_change r) x" using change_image_eq(8) [OF hr(1)] sr by (simp add: same_request_def)
  have img: "change_image (cr_change ?r') = change_image x" by (rule written_change_image [OF rx])
  note ix = change_image_eq [OF img] and ic = change_image_eq [OF hr(1)]
  have rk': "cr_changeId ?r' = ?k" using ix(8) xid by (simp add: same_request_def cr_changeId_def)
  have upd: "set (bk_changes db') = insert ?r' {q \<in> set (bk_changes db). cr_changeId q \<noteq> ?k}"
    "map cr_changeId (bk_changes db') = map cr_changeId (bk_changes db)"
    unfolding rows' change_fenced_eq
    using update_one [OF d r(1), of "changes.fenced x l" "written_change x rel ms"] r(2) hr(2) rk' xid
    by (auto simp: changes.fenced_def)
  have F: "changes.fenced_inv (bk_changes db') (map change_view (us @ w' # vs))"
    using changes.fenced_inv_write [OF fi sr xid, of rel ms] w' by (simp add: rows' change_fenced_eq)
  have T: "tables_ok cs (bk_changes db') (bk_bookings db') (bk_outbox db @ es)"
  proof (rule tables_ok_write [OF _ upd(1) rk' upd(2) r(1) hr(2) _ _ _ others bs(1,2) ev(2)])
    show "tables_ok cs (bk_changes db) (bk_bookings db) (bk_outbox db)" using inv by (simp add: change_sys_inv_def)
    show "ch_bookingId (cr_change ?r') = ch_bookingId (cr_change r)" using ix(8) rx by (simp add: same_request_def)
    show "ch_outcome (cr_change ?r') = None \<longrightarrow> ch_outcome (cr_change r) = None" using out ix(2) ic(2) by simp
    show "change_row_ok cs (bk_bookings db') (bk_outbox db @ es) (cr_change ?r')"
      using mine change_row_ok_image [OF img] by simp
  qed
  have row: "\<exists>q \<in> set (bk_changes db). cr_changeId q = cr_changeId q' \<and>
      (ch_pivotAttempted (cr_change q) \<longrightarrow> ch_pivotAttempted (cr_change q'))" if "q' \<in> set (bk_changes db')" for q'
  proof (cases "q' = ?r'")
    case True
    then show ?thesis using r(1) hr(2) rk' piv ix(5) ic(5) by auto
  next
    case False
    then show ?thesis using that upd(1) by auto
  qed
  have W: "change_worker_ok cs db' v" if "change_worker_ok cs db v" for v
    by (rule change_worker_mono [OF that order_refl _ bs(3)]) (use row in blast)
  have "aware cs (bk_changes db') x"
  proof -
    have "q = ?r'" if "q \<in> set (bk_changes db')" "cr_changeId q = ?k" for q using that upd(1) by auto
    then show ?thesis using mine ix(5) xid by (auto simp: aware_def change_row_ok_def)
  qed
  then have "change_worker_ok cs db' w'" by (rule ok)
  moreover have "\<forall>b \<in> set rs. known b (bk_bookings db')"
    using inv known_moves_on [OF _ bs(3)] by (auto simp: change_sys_inv_def)
  ultimately show ?thesis using F T W inv ev(1) by (auto simp: change_sys_inv_def)
qed

text \<open>A write that leaves the bookings alone.\<close>

lemma change_quiet_write:
  assumes inv: "change_sys_inv \<lparr>hs_db = db, hs_readers = rs, hs_workers = us @ w # vs, hs_calls = cs\<rparr>"
    and w: "change_view w = (ch_changeId c, l, Some c)" and w': "change_view w' = (ch_changeId c, l, Some x)"
    and wr: "writeChange x l rel ms db = (True, db')" and sr: "same_request c x"
    and out: "ch_outcome x = None \<longrightarrow> ch_outcome c = None" and piv: "ch_pivotAttempted c \<longrightarrow> ch_pivotAttempted x"
    and x: "change_inv x" "answers_ok cs x" "passed x = passed c"
    and ok: "aware cs (bk_changes db') x \<Longrightarrow> change_worker_ok cs db' w'"
  shows "change_sys_inv \<lparr>hs_db = db', hs_readers = rs, hs_workers = us @ w' # vs, hs_calls = cs\<rparr>"
proof -
  have fi: "changes.fenced_inv (bk_changes db) (map change_view (us @ w # vs))" using inv by (simp add: change_sys_inv_def)
  obtain r where r: "r \<in> set (bk_changes db)" "changes.fenced x l r"
    and db': "db' = db\<lparr>bk_changes := update_rows (change_fenced x l) (written_change x rel ms) (bk_changes db)\<rparr>"
    by (rule writeChange_done [OF wr fi])
  have xid: "ch_changeId x = ch_changeId c" using sr by (simp add: same_request_def)
  note hr = change_holder_row [OF inv w r xid]
  have "change_row_ok cs (bk_bookings db) (bk_outbox db) x"
    using hr(3) x sr out piv unfolding change_row_ok_def sent_ok_def fits_def same_request_def by auto
  moreover have "\<forall>b \<in> set (bk_bookings db). booking_row_ok (bk_outbox db) b"
    using inv by (simp add: change_sys_inv_def tables_ok_def)
  ultimately show ?thesis
    by (intro change_holder_writes [OF inv w w' r sr, where db' = db' and rel = rel and ms = ms and es = "[]"])
      (use db' out piv ok in \<open>auto\<close>)
qed

section \<open>Every step keeps the invariant\<close>

lemma change_inv_distinct:
  assumes "change_sys_inv \<lparr>hs_db = db, hs_readers = rs, hs_workers = ws, hs_calls = cs\<rparr>"
  shows "distinct (map cr_changeId (bk_changes db))" and "distinct (map b_id (bk_bookings db))"
  using assms changes.fenced_inv_distinct by (auto simp: change_sys_inv_def tables_ok_def)

lemma load_inv:
  assumes inv: "change_sys_inv \<lparr>hs_db = db, hs_readers = rs, hs_workers = ws, hs_calls = cs\<rparr>"
    and f: "find_booking i db = Some rec"
  shows "change_sys_inv \<lparr>hs_db = db, hs_readers = br_booking rec # rs, hs_workers = ws, hs_calls = cs\<rparr>"
  using inv find_booking_known(1) [OF f change_inv_distinct(2) [OF inv]] by (simp add: change_sys_inv_def)

lemma take_change_fields [simp]:
  "cr_changeId (take_change_lease who t r) = cr_changeId r" "cr_change (take_change_lease who t r) = cr_change r"
  by (simp_all add: take_change_lease_def cr_changeId_def)

lemma take_changes_keeps:
  assumes inv: "change_sys_inv \<lparr>hs_db = db, hs_readers = rs, hs_workers = ws, hs_calls = cs\<rparr>"
    and ids: "distinct (map fst leased)"
    and l: "\<And>k l. (k, l) \<in> set leased \<Longrightarrow> \<exists>r \<in> set (bk_changes db). cr_changeId r = k \<and> le_fence l = cr_fence r + 1"
    and db': "db' = db\<lparr>bk_changes := update_rows (\<lambda>r. cr_changeId r \<in> fst ` set leased) (take_change_lease who t) (bk_changes db)\<rparr>"
  shows "change_sys_inv \<lparr>hs_db = db', hs_readers = rs, hs_workers = map (\<lambda>(i, l). Taken i l) leased @ ws, hs_calls = cs\<rparr>"
proof -
  have fi: "changes.fenced_inv (bk_changes db) (map change_view ws)" using inv by (simp add: change_sys_inv_def)
  have v: "map change_view (map (\<lambda>(i, l). Taken i l) leased @ ws) = map (\<lambda>(k, l). (k, l, None)) leased @ map change_view ws"
    by auto
  have F: "changes.fenced_inv (bk_changes db') (map change_view (map (\<lambda>(i, l). Taken i l) leased @ ws))"
    unfolding v using changes.fenced_inv_take [OF fi ids l] by (simp add: db')
  have same: "\<exists>q \<in> set (bk_changes db). cr_change q' = cr_change q \<and> cr_changeId q' = cr_changeId q"
    if "q' \<in> set (bk_changes db')" for q'
    using that by (auto simp: db' set_update_rows split: if_splits)
  have "map cr_changeId (bk_changes db') = map cr_changeId (bk_changes db)" by (simp add: db')
  then have k: "cr_changeId ` set (bk_changes db') = cr_changeId ` set (bk_changes db)" by (metis set_map)
  have T: "tables_ok cs (bk_changes db) (bk_bookings db) (bk_outbox db)" using inv by (simp add: change_sys_inv_def)
  have "one_open (bk_changes db')"
    using T same unfolding tables_ok_def one_open_def by metis
  moreover have "change_row_ok cs (bk_bookings db) (bk_outbox db) (cr_change q')" if "q' \<in> set (bk_changes db')" for q'
    using T same [OF that] by (auto simp: tables_ok_def)
  ultimately have "tables_ok cs (bk_changes db') (bk_bookings db) (bk_outbox db)"
    using T k by (simp add: tables_ok_def)
  moreover have "change_worker_ok cs db' w" if "change_worker_ok cs db w" for w
    by (rule change_worker_mono [OF that order_refl]) (use same in \<open>fastforce simp: db'\<close>)+
  ultimately show ?thesis using inv F by (auto simp: change_sys_inv_def db')
qed

lemma change_lease_inv:
  assumes inv: "change_sys_inv \<lparr>hs_db = db, hs_readers = rs, hs_workers = ws, hs_calls = cs\<rparr>"
    and u: "change_lease_update i who now ms db = (Some l, db')"
  shows "change_sys_inv \<lparr>hs_db = db', hs_readers = rs, hs_workers = Taken i l # ws, hs_calls = cs\<rparr>"
proof -
  let ?hit = "\<lambda>r. cr_changeId r = i \<and> ch_outcome (cr_change r) = None \<and> lease_free (cr_leaseUntil r) now"
  obtain r where r: "find ?hit (bk_changes db) = Some r" and l: "l = \<lparr>le_owner = who, le_fence = cr_fence r + 1\<rparr>"
    and db': "db' = db\<lparr>bk_changes := update_rows ?hit (take_change_lease who (now + ms)) (bk_changes db)\<rparr>"
    using u by (auto simp: change_lease_update_def Let_def split: option.splits)
  have rs': "r \<in> set (bk_changes db)" "?hit r" using find_Some_mem [OF r] by auto
  note d = change_inv_distinct(1) [OF inv]
  have "?hit q \<longleftrightarrow> cr_changeId q = i" if "q \<in> set (bk_changes db)" for q
    using that rs' distinct_key_eq [OF d] by blast
  then have db'': "db' = db\<lparr>bk_changes := update_rows (\<lambda>r. cr_changeId r \<in> fst ` set [(i, l)])
      (take_change_lease who (now + ms)) (bk_changes db)\<rparr>"
    unfolding db' update_rows_def by (simp cong: map_cong)
  have ex: "\<exists>r \<in> set (bk_changes db). cr_changeId r = k \<and> le_fence l' = cr_fence r + 1"
    if "(k, l') \<in> set [(i, l)]" for k l'
    using that rs' l by auto
  show ?thesis using take_changes_keeps [OF inv _ ex db''] by simp
qed

lemma change_lease_due_inv:
  assumes inv: "change_sys_inv \<lparr>hs_db = db, hs_readers = rs, hs_workers = ws, hs_calls = cs\<rparr>"
    and u: "due_changes_update who now ms limit db = (leased, db')"
  shows "change_sys_inv \<lparr>hs_db = db', hs_readers = rs, hs_workers = map (\<lambda>(i, l). Taken i l) leased @ ws, hs_calls = cs\<rparr>"
proof -
  define due where "due = take limit (sort_key (\<lambda>r. (ch_nextAttemptAt (cr_change r), cr_changeId r))
                            (filter (change_due now) (bk_changes db)))"
  have leased: "leased = map (\<lambda>r. (cr_changeId r, \<lparr>le_owner = who, le_fence = cr_fence r + 1\<rparr>)) due"
    using u by (simp add: due_changes_update_def Let_def due_def)
  have fs: "fst ` set leased = set (map cr_changeId due)" by (simp add: leased image_image)
  have db': "db' = db\<lparr>bk_changes := update_rows (\<lambda>r. cr_changeId r \<in> fst ` set leased) (take_change_lease who (now + ms)) (bk_changes db)\<rparr>"
    unfolding fs using u by (simp add: due_changes_update_def Let_def due_def)
  have sub: "set due \<subseteq> set (bk_changes db)" by (auto simp: due_def dest: in_set_takeD)
  have "distinct (map cr_changeId due)" unfolding due_def by (rule distinct_due [OF change_inv_distinct(1) [OF inv]])
  then have ids: "distinct (map fst leased)" by (simp add: leased comp_def)
  show ?thesis by (rule take_changes_keeps [OF inv ids _ db']) (use sub in \<open>auto simp: leased\<close>)
qed

lemma change_read_inv:
  assumes inv: "change_sys_inv \<lparr>hs_db = db, hs_readers = rs, hs_workers = us @ Taken i l # vs, hs_calls = cs\<rparr>"
    and f: "findChange i db = Some (c, cor)"
  shows "change_sys_inv \<lparr>hs_db = db, hs_readers = rs, hs_workers = us @ Working c cor l # vs, hs_calls = cs\<rparr>"
proof -
  obtain r where r: "find_row cr_changeId i (bk_changes db) = Some r" and c: "c = cr_change r"
    using f by (auto simp: findChange_def)
  have rs': "r \<in> set (bk_changes db)" "cr_changeId r = i" using find_row_Some [OF r] by auto
  have fi: "changes.fenced_inv (bk_changes db) (map change_view us @ (i, l, None) # map change_view vs)"
    using inv by (simp add: change_sys_inv_def)
  have ci: "ch_changeId c = i" using rs'(2) by (simp add: cr_changeId_def c)
  have F: "changes.fenced_inv (bk_changes db) (map change_view us @ (i, l, Some c) # map change_view vs)"
    using changes.fenced_inv_read [OF fi rs', of c] ci c by simp
  have "q = r" if "q \<in> set (bk_changes db)" "cr_changeId q = i" for q
    using that rs' distinct_key_eq [OF change_inv_distinct(1) [OF inv]] by blast
  moreover have "change_row_ok cs (bk_bookings db) (bk_outbox db) c"
    using inv rs'(1) by (simp add: change_sys_inv_def tables_ok_def c)
  ultimately have "aware cs (bk_changes db) c" using ci c by (auto simp: aware_def change_row_ok_def)
  with inv F ci show ?thesis by (simp add: change_sys_inv_def)
qed

text \<open>A request: the booking is still the one that was read, and no other change of it is open.\<close>

lemma insertChange_cases:
  assumes "insertChange c key fp expected cor audit db = (res, db')"
  obtains "db' = db"
  | b where "b \<in> set (bk_bookings db)" "b_id b = ch_bookingId c" "b_version b = expected"
      "\<not> change_conflict c key (bk_changes db)"
      "db' = append_audit audit (db\<lparr>bk_changes := bk_changes db @
         [\<lparr>cr_change = inserted_change c, cr_key = key, cr_fingerprint = fp, cr_fence = 0,
           cr_leaseOwner = None, cr_leaseUntil = None, cr_correlationId = cor\<rparr>]\<rparr>)"
proof (cases "byKey (ch_requester c) key db")
  case (Some r)
  then show thesis using assms that(1) by (simp add: insertChange_def)
next
  case key: None
  show thesis
  proof (cases "find_row b_id (ch_bookingId c) (bk_bookings db)")
    case None
    then show thesis using assms that(1) key by (simp add: insertChange_def)
  next
    case (Some b)
    note b = find_row_Some [OF Some]
    show thesis
    proof (cases "b_version b = expected \<and> \<not> change_conflict c key (bk_changes db)")
      case True
      with assms key Some have "db' = append_audit audit (db\<lparr>bk_changes := bk_changes db @
         [\<lparr>cr_change = inserted_change c, cr_key = key, cr_fingerprint = fp, cr_fence = 0,
           cr_leaseOwner = None, cr_leaseUntil = None, cr_correlationId = cor\<rparr>]\<rparr>)"
        by (simp add: insertChange_def)
      with b True show thesis by (intro that(2)) auto
    next
      case False
      then show thesis using assms that(1) key Some by (auto simp: insertChange_def split: if_splits)
    qed
  qed
qed

definition fresh_change :: "change \<Rightarrow> bool" where
  "fresh_change c \<longleftrightarrow> change_inv c \<and> ch_outcome c = None \<and> \<not> passed c \<and> ch_step c \<noteq> SETTLE_BILLING"

lemma fresh_inserted [simp]:
  "fresh_change (inserted_change (newCancellation i b reason who slot now))"
  "fresh_change (inserted_change (newReschedule i b who slot to_slot now))"
  by (simp_all add: fresh_change_def inserted_change_def newCancellation_def newReschedule_def base_change_def
      change_inv_def shape_of_def request_ok_def passed_def)

lemma inserted_fields [simp]:
  "ch_changeId (inserted_change c) = ch_changeId c" "ch_bookingId (inserted_change c) = ch_bookingId c"
  "ch_from (inserted_change c) = ch_from c" "ch_outcome (inserted_change c) = None"
  by (simp_all add: inserted_change_def)

lemma one_openD:
  assumes "one_open rows" and "q \<in> set rows" and "r \<in> set rows"
    and "ch_outcome (cr_change q) = None" and "ch_outcome (cr_change r) = None"
    and "ch_bookingId (cr_change q) = ch_bookingId (cr_change r)"
  shows "cr_changeId q = cr_changeId r"
  using assms unfolding one_open_def by blast

lemma one_open_insert:
  assumes "one_open rows"
    and "\<And>q. q \<in> set rows \<Longrightarrow> ch_bookingId (cr_change q) = ch_bookingId (cr_change r) \<Longrightarrow> ch_outcome (cr_change q) \<noteq> None"
  shows "one_open (rows @ [r])"
  unfolding one_open_def
proof (intro ballI impI)
  fix p q assume p: "p \<in> set (rows @ [r])" "q \<in> set (rows @ [r])"
    and o: "ch_outcome (cr_change p) = None" "ch_outcome (cr_change q) = None"
    and b: "ch_bookingId (cr_change p) = ch_bookingId (cr_change q)"
  show "cr_changeId p = cr_changeId q"
  proof (cases "p \<in> set rows \<and> q \<in> set rows")
    case True
    then show ?thesis using assms(1) o b unfolding one_open_def by blast
  next
    case False
    then have "p = r \<and> q = r" using p o b assms(2) [of p] assms(2) [of q] by auto
    then show ?thesis by simp
  qed
qed

lemma change_insert_inv:
  assumes inv: "change_sys_inv \<lparr>hs_db = db, hs_readers = rs, hs_workers = ws, hs_calls = cs\<rparr>"
    and b: "b \<in> set rs" "assertChangeable b expected busy = Inr slot"
    and c: "fresh_change (inserted_change c)" "ch_bookingId c = b_id b" "ch_from c = slot"
    and ins: "insertChange c key fp expected cor audit db = (res, db')"
  shows "change_sys_inv \<lparr>hs_db = db', hs_readers = rs, hs_workers = ws, hs_calls = cs\<rparr>"
  using ins
proof (cases rule: insertChange_cases)
  case 1
  then show ?thesis using inv by simp
next
  case (2 row)
  let ?c = "inserted_change c" and ?k = "ch_changeId c"
  define r where "r = \<lparr>cr_change = ?c, cr_key = key, cr_fingerprint = fp, cr_fence = 0,
     cr_leaseOwner = None, cr_leaseUntil = None, cr_correlationId = cor\<rparr>"
  have rk: "cr_changeId r = ?k" "cr_change r = ?c" by (simp_all add: r_def cr_changeId_def)
  have db': "bk_changes db' = bk_changes db @ [r]" "bk_bookings db' = bk_bookings db" "bk_outbox db' = bk_outbox db"
    using 2(5) by (simp_all add: r_def append_audit_def)
  have T: "tables_ok cs (bk_changes db) (bk_bookings db) (bk_outbox db)" using inv by (simp add: change_sys_inv_def)
  have fresh: "?k \<notin> cr_changeId ` set (bk_changes db)" using 2(4) by (auto simp: change_conflict_def)
  have closed: "ch_outcome (cr_change q) \<noteq> None" if "q \<in> set (bk_changes db)" "ch_bookingId (cr_change q) = ch_bookingId c" for q
    using 2(4) that by (auto simp: change_conflict_def open_change_of_def)
  have "row = b"
    using inv b 2(1-3) c(2) by (intro known_row [of _ "bk_bookings db"]) (auto simp: change_sys_inv_def assertChangeable_Inr)
  then have "fits ?c b" using b(2) c by (auto simp: fits_def assertChangeable_Inr fresh_change_def)
  moreover have "pivot_count (bk_outbox db) ?k = 0"
    using T fresh by (force simp: pivot_count_def filter_empty_conv tables_ok_def)
  moreover have "answers_ok cs ?c" "sent_ok cs ?c"
    using c(1) T fresh by (auto simp: answers_ok_def sent_ok_def fresh_change_def tables_ok_def)
  ultimately have mine: "change_row_ok cs (bk_bookings db) (bk_outbox db) ?c"
    using c(1) 2(1) \<open>row = b\<close> by (auto simp: change_row_ok_def fresh_change_def)
  have "one_open (bk_changes db)" using T by (simp add: tables_ok_def)
  then have "one_open (bk_changes db @ [r])"
    by (rule one_open_insert) (use closed rk(2) in simp)
  then have "tables_ok cs (bk_changes db') (bk_bookings db') (bk_outbox db')"
    using T mine rk db' by (auto simp: tables_ok_def)
  moreover have "changes.fenced_inv (bk_changes db') (map change_view ws)"
    using inv fresh rk changes.fenced_inv_insert [of "bk_changes db" _ r] by (simp add: change_sys_inv_def db')
  moreover have "change_worker_ok cs db' w" if w: "w \<in> set ws" for w
  proof (rule change_worker_mono [OF _ order_refl])
    show "change_worker_ok cs db w" using inv w by (simp add: change_sys_inv_def)
    have "fst (change_view w) \<in> cr_changeId ` set (bk_changes db)"
      by (rule changes.view_key [of _ "map change_view ws"]) (use inv w in \<open>simp_all add: change_sys_inv_def\<close>)
    then show "\<exists>r \<in> set (bk_changes db). cr_changeId r = cr_changeId r' \<and>
        (ch_pivotAttempted (cr_change r) \<longrightarrow> ch_pivotAttempted (cr_change r'))"
      if "r' \<in> set (bk_changes db')" "cr_changeId r' = fst (change_view w)" for r'
      using that db' rk fresh by auto
  qed (simp add: db')
  ultimately show ?thesis using inv by (simp add: change_sys_inv_def db')
qed

lemma saveChange_lost_inv:
  assumes "change_sys_inv \<lparr>hs_db = db, hs_readers = rs, hs_workers = us @ w # vs, hs_calls = cs\<rparr>"
    and "writeChange x l rel ms db = (False, db')"
  shows "change_sys_inv \<lparr>hs_db = db', hs_readers = rs, hs_workers = us @ vs, hs_calls = cs\<rparr>"
proof -
  have "db' = db" using assms by (intro writeChange_lost [OF assms(2)]) (auto simp: change_sys_inv_def)
  then show ?thesis using change_sys_inv_drop [OF assms(1)] by simp
qed

lemma change_release_inv:
  assumes inv: "change_sys_inv \<lparr>hs_db = db, hs_readers = rs, hs_workers = us @ Working c cor l # vs, hs_calls = cs\<rparr>"
    and s: "saveChange c l True ms db = (ok, db')"
  shows "change_sys_inv \<lparr>hs_db = db', hs_readers = rs, hs_workers = us @ vs, hs_calls = cs\<rparr>"
proof (cases ok)
  case True
  have a: "aware cs (bk_changes db) c" using inv by (simp add: change_sys_inv_def)
  have "change_sys_inv \<lparr>hs_db = db', hs_readers = rs, hs_workers = us @ Working c cor l # vs, hs_calls = cs\<rparr>"
    by (rule change_quiet_write [where rel = True and ms = ms and c = c and x = c, OF inv])
      (use s True aware_id [OF a] in \<open>auto simp: saveChange_def\<close>)
  then show ?thesis by (rule change_sys_inv_drop)
next
  case False
  with s saveChange_lost_inv [OF inv] show ?thesis by (simp add: saveChange_def)
qed

lemma target_Inr [simp]: "andThen (target c) (\<lambda>_. Inr x) = Inr y \<longleftrightarrow> ch_to c \<noteq> None \<and> x = y"
  by (auto simp: target_def split: option.splits)

text \<open>A call leaves as it is, or after the pivot was saved.\<close>

lemma begin_call_cases:
  assumes "begin_call c l now ms db = (res, db')"
  obtains (same) "db' = db" "\<And>c'. res = Inr (Some c') \<Longrightarrow> c' = c \<and> (ch_step c = REPLACE_COMMITMENT \<longrightarrow> ch_pivotAttempted c)"
  | (saved) "ch_step c = REPLACE_COMMITMENT" "\<not> ch_pivotAttempted c" "writeChange (beginPivot c now) l False ms db = (True, db')"
      "\<And>c'. res = Inr (Some c') \<Longrightarrow> c' = beginPivot c now"
  | (lost) "writeChange (beginPivot c now) l False ms db = (False, db')" "res = Inr None"
  using assms
  by (cases "writeChange (beginPivot c now) l False ms db"; cases "ch_step c")
    (auto simp: begin_call_def saveChange_def split: if_splits bool.splits)

lemma change_call_inv:
  assumes inv: "change_sys_inv \<lparr>hs_db = db, hs_readers = rs, hs_workers = us @ Working c cor l # vs, hs_calls = cs\<rparr>"
    and d: "ch_step c \<noteq> change_step.DONE" and b: "begin_call c l now ms db = (Inr (Some c'), db')"
  shows "change_sys_inv \<lparr>hs_db = db', hs_readers = rs, hs_workers = us @ Asking c' cor l # vs,
           hs_calls = cs @ [ChangeSent (ch_changeId c) (ch_step c)]\<rparr>"
proof -
  have a: "aware cs (bk_changes db) c" using inv by (simp add: change_sys_inv_def)
  have A: "change_sys_inv \<lparr>hs_db = db', hs_readers = rs, hs_workers = us @ Asking c' cor l # vs, hs_calls = cs\<rparr> \<and>
      ch_changeId c' = ch_changeId c \<and> (ch_step c = REPLACE_COMMITMENT \<longrightarrow> ch_pivotAttempted c')"
    using b
  proof (cases rule: begin_call_cases)
    case same
    then have "c' = c" and p: "ch_step c = REPLACE_COMMITMENT \<longrightarrow> ch_pivotAttempted c" by blast+
    then show ?thesis using same(1) change_sys_inv_replace [OF inv, of "Asking c cor l"] a d by simp
  next
    case saved
    then have c': "c' = beginPivot c now" by blast
    have m: "change_inv c'" "answers_ok cs c'" "passed c' = passed c" "ch_outcome c' = ch_outcome c"
      "ch_pivotAttempted c'" "ch_step c' = ch_step c" "ch_changeId c' = ch_changeId c" "same_request c c'"
      using beginPivot_inv [OF aware_id(1) [OF a] saved(1)] aware_id(2) [OF a]
      by (simp_all add: c' beginPivot_def answers_ok_def passed_def same_request_def)
    have "change_sys_inv \<lparr>hs_db = db', hs_readers = rs, hs_workers = us @ Asking c' cor l # vs, hs_calls = cs\<rparr>"
      by (rule change_quiet_write [where rel = False and ms = ms and c = c and x = c', OF inv])
        (use saved(3) c' m d in simp_all)
    then show ?thesis using m by simp
  next
    case lost
    then show ?thesis by simp
  qed
  then have A': "change_sys_inv \<lparr>hs_db = db', hs_readers = rs, hs_workers = us @ Asking c' cor l # vs, hs_calls = cs\<rparr>"
    and id: "ch_changeId c' = ch_changeId c" by blast+
  have "fst (ch_changeId c', l, Some c') \<in> cr_changeId ` set (bk_changes db')"
    by (rule changes.view_key [of _ "map change_view (us @ Asking c' cor l # vs)"]) (use A' in \<open>simp_all add: change_sys_inv_def\<close>)
  moreover have "aware cs (bk_changes db') c'" using A' by (simp add: change_sys_inv_def)
  ultimately show ?thesis
    using A id by (intro change_sys_inv_sent [OF A']) (auto simp: aware_def)
qed

lemma change_call_stopped_inv:
  assumes inv: "change_sys_inv \<lparr>hs_db = db, hs_readers = rs, hs_workers = us @ Working c cor l # vs, hs_calls = cs\<rparr>"
    and b: "begin_call c l now ms db = (r, db')"
  shows "change_sys_inv \<lparr>hs_db = db', hs_readers = rs, hs_workers = us @ vs, hs_calls = cs\<rparr>"
  using b
proof (cases rule: begin_call_cases)
  case same
  then show ?thesis using change_sys_inv_drop [OF inv] by simp
next
  case saved
  have a: "aware cs (bk_changes db) c" using inv by (simp add: change_sys_inv_def)
  let ?c = "beginPivot c now"
  have m: "change_inv ?c" "answers_ok cs ?c" "passed ?c = passed c" "ch_outcome ?c = ch_outcome c" "ch_pivotAttempted ?c"
    "ch_changeId ?c = ch_changeId c"
    using beginPivot_inv [OF aware_id(1) [OF a] saved(1)] aware_id(2) [OF a]
    by (simp_all add: beginPivot_def answers_ok_def passed_def)
  have "change_sys_inv \<lparr>hs_db = db', hs_readers = rs, hs_workers = us @ Working ?c cor l # vs, hs_calls = cs\<rparr>"
    by (rule change_quiet_write [where rel = False and ms = ms and c = c and x = ?c, OF inv]) (use saved(3) m in simp_all)
  then show ?thesis by (rule change_sys_inv_drop)
next
  case lost
  then show ?thesis using saveChange_lost_inv [OF inv] by simp
qed

text \<open>An answer that does not change the booking.\<close>

lemma applyChange_quiet:
  assumes "applyChange x l rel None None audit ms db = (res, db')"
  shows "res = Inr False \<and> db' = db \<or>
    (\<exists>db1. writeChange x l rel ms db = (True, db1) \<and> res = Inr True \<and>
       bk_changes db' = bk_changes db1 \<and> bk_bookings db' = bk_bookings db1 \<and> bk_outbox db' = bk_outbox db1 \<and>
       bk_sagas db' = bk_sagas db1)"
  using assms
  by (cases "writeChange x l rel ms db"; cases "fst (writeChange x l rel ms db)")
    (auto simp: applyChange_def append_event_def append_audit_def split: option.splits)

lemma conclude_cases:
  assumes "conclude c nxt cor l ms db = (res, db')"
  obtains (lost) "res = Inr False" "db' = db \<or> writeChange nxt l False ms db = (False, db')"
  | (written) rel db1 where "writeChange nxt l rel ms db = (True, db1)" "res = Inr True"
      "bk_changes db' = bk_changes db1" "bk_bookings db' = bk_bookings db1" "bk_outbox db' = bk_outbox db1"
      "bk_sagas db' = bk_sagas db1"
proof (cases "ch_step nxt = change_step.DONE \<or> ch_step nxt \<noteq> ch_step c")
  case True
  then obtain audit where "applyChange nxt l (ch_step nxt = change_step.DONE) None None audit ms db = (res, db')"
    using assms by (auto simp: conclude_def Let_def)
  from applyChange_quiet [OF this] show thesis using that by blast
next
  case False
  then obtain ok where "writeChange nxt l False ms db = (ok, db')" "res = Inr ok"
    using assms by (auto simp: conclude_def Let_def saveChange_def split: prod.splits)
  then show thesis using that by (cases ok) auto
qed

lemma change_answered_inv:
  assumes inv: "change_sys_inv \<lparr>hs_db = db, hs_readers = rs, hs_workers = us @ Asking c cor l # vs, hs_calls = cs\<rparr>"
    and d: "decide_change c env = Inr (nxt, slot)" and p: "\<not> isPivotExit c nxt"
    and r: "conclude c nxt cor l ms db = (Inr True, db')"
  shows "change_sys_inv \<lparr>hs_db = db', hs_readers = rs, hs_workers = us @ Working nxt cor l # vs,
           hs_calls = cs @ [ChangeAnswered (ch_changeId c) (reply_of c env)]\<rparr>"
proof -
  let ?cs = "cs @ [ChangeAnswered (ch_changeId c) (reply_of c env)]"
  have a: "aware cs (bk_changes db) c" using inv by (simp add: change_sys_inv_def)
  note sp = decide_change_spec [OF d aware_id(1) [OF a]]
  have inv': "change_sys_inv \<lparr>hs_db = db, hs_readers = rs, hs_workers = us @ Asking c cor l # vs, hs_calls = ?cs\<rparr>"
    by (rule change_sys_inv_answered [OF inv])
  obtain rel db1 where w: "writeChange nxt l rel ms db = (True, db1)" and t: "bk_changes db' = bk_changes db1"
    "bk_bookings db' = bk_bookings db1" "bk_outbox db' = bk_outbox db1"
    using r by (cases rule: conclude_cases) auto
  have "change_sys_inv \<lparr>hs_db = db1, hs_readers = rs, hs_workers = us @ Working nxt cor l # vs, hs_calls = ?cs\<rparr>"
  proof (rule change_quiet_write [where c = c and x = nxt, OF inv' _ _ w sp(2)])
    show "ch_outcome nxt = None \<longrightarrow> ch_outcome c = None" using spec_outcome [OF sp(1)] by blast
    show "answers_ok ?cs nxt" by (rule answers_ok_move [OF sp(1,2) aware_id [OF a]])
    show "passed nxt = passed c" using spec_passed [OF sp(1)] p by simp
  qed (use sp spec_pivot_flag [OF sp(1)] in \<open>simp_all add: same_request_def\<close>)
  then show ?thesis by (rule change_sys_inv_same) (simp_all add: t)
qed

lemma change_answer_lost_inv:
  assumes inv: "change_sys_inv \<lparr>hs_db = db, hs_readers = rs, hs_workers = us @ Asking c cor l # vs, hs_calls = cs\<rparr>"
    and r: "conclude c nxt cor l ms db = (res, db')" "res \<noteq> Inr True"
  shows "change_sys_inv \<lparr>hs_db = db', hs_readers = rs, hs_workers = us @ vs, hs_calls = cs @ [ChangeAnswered i a]\<rparr>"
proof -
  have "change_sys_inv \<lparr>hs_db = db', hs_readers = rs, hs_workers = us @ vs, hs_calls = cs\<rparr>"
    using r(1)
  proof (cases rule: conclude_cases)
    case lost
    then show ?thesis using change_sys_inv_drop [OF inv] saveChange_lost_inv [OF inv] by auto
  next
    case written
    then show ?thesis using r(2) by simp
  qed
  then show ?thesis by (rule change_sys_inv_answered)
qed

text \<open>The pivot: the booking is read, then written with the change and the event.\<close>

lemma pivot_read_inv:
  assumes inv: "change_sys_inv \<lparr>hs_db = db, hs_readers = rs, hs_workers = us @ Asking c cor l # vs, hs_calls = cs\<rparr>"
    and d: "decide_change c env = Inr (nxt, slot)" and p: "isPivotExit c nxt"
    and f: "find_booking (ch_bookingId c) db = Some rec"
  shows "change_sys_inv \<lparr>hs_db = db, hs_readers = rs, hs_workers = us @ Pivoting c nxt cor l slot (br_booking rec) # vs,
           hs_calls = cs @ [ChangeAnswered (ch_changeId c) (reply_of c env)]\<rparr>"
proof -
  let ?cs = "cs @ [ChangeAnswered (ch_changeId c) (reply_of c env)]"
  have a: "aware cs (bk_changes db) c" using inv by (simp add: change_sys_inv_def)
  note sp = decide_change_spec [OF d aware_id(1) [OF a]]
  have inv': "change_sys_inv \<lparr>hs_db = db, hs_readers = rs, hs_workers = us @ Asking c cor l # vs, hs_calls = ?cs\<rparr>"
    by (rule change_sys_inv_answered [OF inv])
  then have a': "aware ?cs (bk_changes db) c" by (simp add: change_sys_inv_def)
  have "aware ?cs (bk_changes db) nxt"
    using a' sp spec_pivot_flag [OF sp(1)] answers_ok_move [OF sp(1,2) aware_id [OF a]]
    by (auto simp: aware_def same_request_def)
  then show ?thesis
    using a' sp p spec_pivot_flag [OF sp(1)] isPivotExit_open [OF p aware_id(1) [OF a]]
      find_booking_known [OF f change_inv_distinct(2) [OF inv]]
    by (intro change_sys_inv_replace [OF inv']) simp_all
qed

lemma pivot_facts:
  assumes "pivot_update c slot cor b env = Inr (u, e)"
  shows "b_id u = b_id b" "b_version u = b_version b + 1" "changed_by e = Some (ch_changeId c)" "event_of e = b_id b"
    "created_for e = None"
    "ch_kind c = CANCELLATION \<Longrightarrow> b_status u = booking_state.CANCELLED \<and> b_scheduleRevision u = b_scheduleRevision b \<and>
       cancelled_for e = Some (b_id b) \<and> rescheduled_for e = None"
    "ch_kind c = RESCHEDULE \<Longrightarrow> b_status u = b_status b \<and> b_scheduleRevision u = b_scheduleRevision b + 1 \<and>
       cancelled_for e = None \<and> map_option fst (rescheduled_for e) = Some (b_id b)"
proof -
  have "b_id u = b_id b \<and> b_version u = b_version b + 1 \<and> changed_by e = Some (ch_changeId c) \<and> event_of e = b_id b \<and>
    created_for e = None \<and>
    (if ch_kind c = CANCELLATION
     then b_status u = booking_state.CANCELLED \<and> b_scheduleRevision u = b_scheduleRevision b \<and>
          cancelled_for e = Some (b_id b) \<and> rescheduled_for e = None
     else b_status u = b_status b \<and> b_scheduleRevision u = b_scheduleRevision b + 1 \<and>
          cancelled_for e = None \<and> map_option fst (rescheduled_for e) = Some (b_id b))"
  proof (cases "ch_kind c = CANCELLATION")
    case True
    then obtain reason where u: "cancelBooking b reason (ce_pivotNow env) = Inr u"
      and e: "bookingCancelledEvent (ce_eventId env) cor (ce_traceparent env) u c = Inr e"
      using assms by (auto simp: pivot_update_def split: option.splits)
    from u have "b_id u = b_id b" "b_version u = b_version b + 1" "b_status u = booking_state.CANCELLED"
      "b_scheduleRevision u = b_scheduleRevision b" by (simp_all add: cancelBooking_Inr)
    with e True show ?thesis
      by (auto simp: bookingCancelledEvent_def head_aggregate split: option.splits if_splits)
  next
    case False
    then obtain sl where u: "rescheduleBooking b sl (ce_pivotNow env) = Inr u"
      and e: "bookingRescheduledEvent (ce_eventId env) cor (ce_traceparent env) u c = Inr e"
      using assms by (auto simp: pivot_update_def split: option.splits)
    from u have "b_id u = b_id b" "b_version u = b_version b + 1" "b_status u = b_status b"
      "b_scheduleRevision u = b_scheduleRevision b + 1" by (auto simp: rescheduleBooking_Inr)
    with e False show ?thesis
      by (auto simp: bookingRescheduledEvent_def head_aggregate split: option.splits if_splits)
  qed
  then show "b_id u = b_id b" "b_version u = b_version b + 1" "changed_by e = Some (ch_changeId c)" "event_of e = b_id b"
    "created_for e = None"
    "ch_kind c = CANCELLATION \<Longrightarrow> b_status u = booking_state.CANCELLED \<and> b_scheduleRevision u = b_scheduleRevision b \<and>
       cancelled_for e = Some (b_id b) \<and> rescheduled_for e = None"
    "ch_kind c = RESCHEDULE \<Longrightarrow> b_status u = b_status b \<and> b_scheduleRevision u = b_scheduleRevision b + 1 \<and>
       cancelled_for e = None \<and> map_option fst (rescheduled_for e) = Some (b_id b)"
    by (simp_all split: if_splits)
qed

definition stale_hit :: "booking \<Rightarrow> int \<Rightarrow> booking \<Rightarrow> bool" where
  "stale_hit u v row \<longleftrightarrow> b_id row = b_id u \<and> b_version row = v"

lemma applyChange_pivot:
  assumes "applyChange x l rel (Some (u, v)) (Some e) audit ms db = (res, db')"
  shows "res \<noteq> Inr True \<and> db' = db \<or>
    res = Inr True \<and>
    (\<exists>db1. writeChange x l rel ms db = (True, db1) \<and> bk_changes db' = bk_changes db1) \<and>
    length (filter (stale_hit u v) (bk_bookings db)) = 1 \<and>
    bk_bookings db' = update_rows (stale_hit u v) (changed_row u) (bk_bookings db) \<and>
    bk_outbox db' = bk_outbox db @ [e] \<and> bk_sagas db' = bk_sagas db"
proof -
  have hit: "(\<lambda>row. b_id row = b_id u \<and> b_version row = v) = stale_hit u v" by (simp add: stale_hit_def fun_eq_iff)
  obtain ok db1 where w: "writeChange x l rel ms db = (ok, db1)" by (cases "writeChange x l rel ms db")
  have db1: "bk_bookings db1 = bk_bookings db" "bk_outbox db1 = bk_outbox db" "bk_sagas db1 = bk_sagas db"
    using w by (auto simp: writeChange_def)
  have sch: "append_schedule x u d = Inr d' \<Longrightarrow> bk_bookings d' = bk_bookings d \<and> bk_outbox d' = bk_outbox d \<and>
      bk_sagas d' = bk_sagas d \<and> bk_changes d' = bk_changes d" for d d'
    by (auto simp: append_schedule_def split: option.splits if_splits)
  show ?thesis
  proof (cases ok)
    case True
    show ?thesis
    proof (cases "andThen (update_booking changed_row u v db1) (\<lambda>db2.
        if schedule_hold_taken u db1 then Inl (BookingDefect ''UNIQUE_VIOLATION'') else append_schedule x u db2)")
      case (Inl err)
      then show ?thesis using assms w True by (auto simp: applyChange_def)
    next
      case (Inr db3)
      then obtain db2 where u: "update_booking changed_row u v db1 = Inr db2" and a: "append_schedule x u db2 = Inr db3"
        by (auto split: if_splits)
      have r: "res = Inr True" "db' = (case audit of None \<Rightarrow> id | Some a \<Rightarrow> append_audit a) (append_event (Some e) db3)"
        using assms w True Inr by (simp_all add: applyChange_def)
      have db': "bk_bookings db' = bk_bookings db3" "bk_outbox db' = bk_outbox db3 @ [e]" "bk_sagas db' = bk_sagas db3"
        "bk_changes db' = bk_changes db3"
        by (simp_all add: r(2) append_event_def append_audit_def split: option.splits)
      show ?thesis using r(1) db' sch [OF a] u db1 w True
        by (auto simp: update_booking_def Let_def hit split: if_splits)
    qed
  next
    case False
    then show ?thesis using assms w by (auto simp: applyChange_def)
  qed
qed

lemma changed_row_fields [simp]:
  "b_id (changed_row u row) = b_id row" "b_status (changed_row u row) = b_status u"
  "b_version (changed_row u row) = b_version u" "b_scheduleRevision (changed_row u row) = b_scheduleRevision u"
  "b_requestedSlot (changed_row u row) = b_requestedSlot row" "b_slot (changed_row u row) = b_slot row"
  "b_quote (changed_row u row) = b_quote row"
  by (simp_all add: changed_row_def)

lemma change_row_booking:
  assumes "change_row_ok cs bookings ev c" and "distinct (map b_id bookings)" and "b \<in> set bookings" and "b_id b = ch_bookingId c"
  shows "fits c b"
proof -
  obtain b' where "b' \<in> set bookings" "fits c b'" using assms(1) by (auto simp: change_row_ok_def)
  moreover from this have "b' = b" using distinct_key_eq [OF assms(2)] assms(3,4) by (simp add: fits_def)
  ultimately show ?thesis by simp
qed

text \<open>What a pivot that succeeded wrote: the row that was read, changed, and one event.\<close>

lemma pivot_written:
  assumes inv: "change_sys_inv \<lparr>hs_db = db, hs_readers = rs, hs_workers = us @ Pivoting c nxt cor l slot b # vs, hs_calls = cs\<rparr>"
    and pw: "pivot_write c nxt cor l slot b env ms db = (Inr True, db')"
  obtains u e db1 where "pivot_update c slot cor b env = Inr (u, e)" "writeChange nxt l False ms db = (True, db1)"
    "bk_changes db' = bk_changes db1" "b \<in> set (bk_bookings db)"
    "set (bk_bookings db') = insert (changed_row u b) {q \<in> set (bk_bookings db). b_id q \<noteq> b_id b}"
    "map b_id (bk_bookings db') = map b_id (bk_bookings db)"
    "bk_outbox db' = bk_outbox db @ [e]" "bk_sagas db' = bk_sagas db"
    "bk_bookings db' = update_rows (stale_hit u (b_version b)) (changed_row u) (bk_bookings db)"
    "\<forall>q \<in> set (bk_bookings db). stale_hit u (b_version b) q \<longrightarrow> q = b"
    "b_status b = booking_state.CONFIRMED"
proof -
  have k: "known b (bk_bookings db)" using inv by (simp add: change_sys_inv_def)
  obtain u e where u: "pivot_update c slot cor b env = Inr (u, e)"
    and ap: "applyChange nxt l False (Some (u, b_version b)) (Some e) (Some (pivot_audit c slot cor u)) ms db = (Inr True, db')"
    using pw by (auto simp: pivot_write_def split: sum.splits prod.splits)
  note f = pivot_facts [OF u]
  from applyChange_pivot [OF ap] obtain db1 where w: "writeChange nxt l False ms db = (True, db1)"
    "bk_changes db' = bk_changes db1" and one: "length (filter (stale_hit u (b_version b)) (bk_bookings db)) = 1"
    and bs: "bk_bookings db' = update_rows (stale_hit u (b_version b)) (changed_row u) (bk_bookings db)"
    and out: "bk_outbox db' = bk_outbox db @ [e]" "bk_sagas db' = bk_sagas db"
    by auto
  obtain row where row: "row \<in> set (bk_bookings db)" "stale_hit u (b_version b) row"
    using one by (metis filter_empty_conv list.size(3) zero_neq_one)
  then have "row = b" using known_row [OF k row(1)] f(1) by (simp add: stale_hit_def)
  note b = row [unfolded this]
  note d = change_inv_distinct(2) [OF inv]
  have "set (bk_bookings db') = insert (changed_row u b) {q \<in> set (bk_bookings db). b_id q \<noteq> b_id b}"
    "map b_id (bk_bookings db') = map b_id (bk_bookings db)"
    unfolding bs using update_one [OF d b(1), of "stale_hit u (b_version b)" "changed_row u"] b(2) f(1)
    by (auto simp: stale_hit_def)
  moreover have "\<forall>q \<in> set (bk_bookings db). stale_hit u (b_version b) q \<longrightarrow> q = b"
    using known_row [OF k] f(1) by (simp add: stale_hit_def)
  moreover have "b_status b = booking_state.CONFIRMED"
  proof -
    have p: "aware cs (bk_changes db) c" "isPivotExit c nxt" "same_request c nxt" "b_id b = ch_bookingId c"
      using inv by (simp_all add: change_sys_inv_def)
    have fi: "changes.fenced_inv (bk_changes db) (map change_view (us @ Pivoting c nxt cor l slot b # vs))"
      using inv by (simp add: change_sys_inv_def)
    obtain r where r: "r \<in> set (bk_changes db)" "changes.fenced nxt l r" by (rule writeChange_done [OF w(1) fi])
    have "change_row_ok cs (bk_bookings db) (bk_outbox db) c"
      by (rule change_holder_row(3) [OF inv _ r]) (use p(3) in \<open>simp_all add: same_request_def\<close>)
    from change_row_booking [OF this d b(1) p(4)] isPivotExit_open [OF p(2) aware_id(1) [OF p(1)]]
    show ?thesis by (simp add: fits_def)
  qed
  ultimately show thesis using that u w b(1) out bs by blast
qed

lemma count_append [simp]:
  "pivot_count (ev @ ev') i = pivot_count ev i + pivot_count ev' i"
  "cancelled_count (ev @ ev') i = cancelled_count ev i + cancelled_count ev' i"
  "moved_count (ev @ ev') i = moved_count ev i + moved_count ev' i"
  by (simp_all add: pivot_count_def cancelled_count_def moved_count_def)

lemma fits_other:
  assumes "fits c' b" and "ch_outcome c' \<noteq> None \<or> passed c'" and "b_status b = booking_state.CONFIRMED"
    and "b_id b' = b_id b" and "b_status b' \<in> {booking_state.CONFIRMED, booking_state.CANCELLED}"
  shows "fits c' b'"
  using assms by (auto simp: fits_def)

lemma pivoted_inv:
  assumes inv: "change_sys_inv \<lparr>hs_db = db, hs_readers = rs, hs_workers = us @ Pivoting c nxt cor l slot b # vs, hs_calls = cs\<rparr>"
    and pw: "pivot_write c nxt cor l slot b env ms db = (Inr True, db')"
  shows "change_sys_inv \<lparr>hs_db = db', hs_readers = rs, hs_workers = us @ Working nxt cor l # vs, hs_calls = cs\<rparr>"
proof -
  obtain u e db1 where u: "pivot_update c slot cor b env = Inr (u, e)" and w: "writeChange nxt l False ms db = (True, db1)"
    "bk_changes db' = bk_changes db1" and b: "b \<in> set (bk_bookings db)"
    and bs: "set (bk_bookings db') = insert (changed_row u b) {q \<in> set (bk_bookings db). b_id q \<noteq> b_id b}"
      "map b_id (bk_bookings db') = map b_id (bk_bookings db)"
    and ev: "bk_outbox db' = bk_outbox db @ [e]" and conf: "b_status b = booking_state.CONFIRMED"
    by (rule pivot_written [OF inv pw])
  note f = pivot_facts [OF u]
  have p: "aware cs (bk_changes db) c" "aware cs (bk_changes db) nxt" "isPivotExit c nxt" "same_request c nxt"
    "ch_pivotAttempted nxt = ch_pivotAttempted c" "ch_outcome c = None" "b_id b = ch_bookingId c"
    using inv by (simp_all add: change_sys_inv_def)
  note open_c = isPivotExit_open [OF p(3) aware_id(1) [OF p(1)]]
  have pn: "passed nxt" using p(3) by (auto simp: isPivotExit_def passed_def)
  have fi: "changes.fenced_inv (bk_changes db) (map change_view (us @ Pivoting c nxt cor l slot b # vs))"
    using inv by (simp add: change_sys_inv_def)
  obtain r where r: "r \<in> set (bk_changes db)" "changes.fenced nxt l r"
    and rows': "bk_changes db' = update_rows (change_fenced nxt l) (written_change nxt False ms) (bk_changes db)"
    by (rule writeChange_done [OF w(1) fi]) (use w(2) in simp)
  have nid: "ch_changeId nxt = ch_changeId c" "ch_bookingId nxt = ch_bookingId c" "ch_kind nxt = ch_kind c"
    using p(4) by (simp_all add: same_request_def)
  note hr = change_holder_row [OF inv _ r nid(1), simplified]
  have T: "tables_ok cs (bk_changes db) (bk_bookings db) (bk_outbox db)" using inv by (simp add: change_sys_inv_def)
  then have oo: "one_open (bk_changes db)" by (simp add: tables_ok_def)
  note d = change_inv_distinct(2) [OF inv]
  have fc: "fits c b" by (rule change_row_booking [OF hr(3) d b p(7)])
  have st: "b_status u \<in> {booking_state.CONFIRMED, booking_state.CANCELLED}"
    using f(6,7) conf by (cases "ch_kind c") auto
  let ?b' = "changed_row u b"
  have mine: "change_row_ok cs (bk_bookings db') (bk_outbox db @ [e]) nxt"
  proof -
    have "fits nxt ?b'" using fc pn nid st f(6) open_c by (cases "ch_kind c") (auto simp: fits_def)
    moreover have "pivot_count (bk_outbox db @ [e]) (ch_changeId nxt) = 1"
      using hr(3) open_c(2) f(3) nid(1) by (simp add: change_row_ok_def pivot_count_def)
    ultimately show ?thesis using bs(1) p(2,5) hr(3) pn nid(1) by (auto simp: change_row_ok_def aware_def sent_ok_def)
  qed
  have others: "change_row_ok cs (bk_bookings db') (bk_outbox db @ [e]) (cr_change q)"
    if q: "q \<in> set (bk_changes db)" "cr_changeId q \<noteq> ch_changeId c" and ok: "change_row_ok cs (bk_bookings db) (bk_outbox db) (cr_change q)"
    for q
  proof -
    have cnt: "pivot_count [e] (ch_changeId (cr_change q)) = 0"
      using q(2) f(3) by (simp add: pivot_count_def cr_changeId_def)
    have "\<exists>b \<in> set (bk_bookings db'). fits (cr_change q) b"
    proof (cases "ch_bookingId (cr_change q) = b_id b")
      case True
      have "ch_outcome (cr_change q) \<noteq> None"
      proof
        assume "ch_outcome (cr_change q) = None"
        moreover have "ch_outcome (cr_change r) = None" "ch_bookingId (cr_change r) = ch_bookingId c"
          using change_image_eq [OF hr(1)] p(6) by (simp_all add: same_request_def)
        ultimately have "cr_changeId q = cr_changeId r"
          by (intro one_openD [OF oo q(1) r(1)]) (use True p(7) in simp_all)
        then show False using q(2) hr(2) by simp
      qed
      then have "fits (cr_change q) ?b'"
        using fits_other [OF change_row_booking [OF ok d b] _ conf] True st by simp
      then show ?thesis using bs(1) by auto
    next
      case False
      then show ?thesis using ok bs(1) by (auto simp: change_row_ok_def fits_def)
    qed
    with ok cnt show ?thesis by (simp add: change_row_ok_def)
  qed
  have rows_b: "booking_row_ok (bk_outbox db @ [e]) q" if q: "q \<in> set (bk_bookings db')" for q
  proof (cases "q = ?b'")
    case True
    have "booking_row_ok (bk_outbox db) b" using T b by (simp add: tables_ok_def)
    then show ?thesis using True f(6,7) conf
      by (cases "ch_kind c") (auto simp: booking_row_ok_def cancelled_count_def moved_count_def)
  next
    case False
    then have q': "q \<in> set (bk_bookings db)" "b_id q \<noteq> b_id b" using q bs(1) by auto
    then have "booking_row_ok (bk_outbox db) q" using T by (simp add: tables_ok_def)
    moreover have "cancelled_count [e] (b_id q) = 0" "moved_count [e] (b_id q) = 0"
      using q'(2) f(6,7) by (cases "ch_kind c"; auto simp: cancelled_count_def moved_count_def)+
    ultimately show ?thesis by (simp add: booking_row_ok_def)
  qed
  have mv: "moves_on (bk_bookings db) (bk_bookings db')"
  proof -
    have "b_id ` set (bk_bookings db') = b_id ` set (bk_bookings db)" using bs(2) by (metis set_map)
    then show ?thesis using bs(1) b f(2) by (auto simp: moves_on_def)
  qed
  have evs: "\<forall>x \<in> set [e]. changed_by x \<in> {None, Some (ch_changeId c)} \<and> event_of x \<in> b_id ` set (bk_bookings db)"
    using f(3,4) b by simp
  show ?thesis
    by (rule change_holder_writes [where c = c and x = nxt and w' = "Working nxt cor l",
          OF inv _ _ r p(4) rows' _ _ mine ev evs others bs(2) rows_b mv])
      (use nid p in simp_all)
qed

lemma pivot_lost_inv:
  assumes inv: "change_sys_inv \<lparr>hs_db = db, hs_readers = rs, hs_workers = us @ Pivoting c nxt cor l slot b # vs, hs_calls = cs\<rparr>"
    and pw: "pivot_write c nxt cor l slot b env ms db = (r, db')" "r \<noteq> Inr True"
  shows "db' = db" and "change_sys_inv \<lparr>hs_db = db', hs_readers = rs, hs_workers = us @ vs, hs_calls = cs\<rparr>"
proof -
  show "db' = db"
    using pw applyChange_pivot by (fastforce simp: pivot_write_def split: sum.splits prod.splits)
  then show "change_sys_inv \<lparr>hs_db = db', hs_readers = rs, hs_workers = us @ vs, hs_calls = cs\<rparr>"
    using change_sys_inv_drop [OF inv] by simp
qed

section \<open>Bookings that are created meanwhile\<close>

lemma event_counts:
  "cancelled_for e = Some i \<Longrightarrow> changed_by e \<noteq> None \<and> event_of e = i"
  "map_option fst (rescheduled_for e) = Some i \<Longrightarrow> changed_by e \<noteq> None \<and> event_of e = i"
  by (cases e; simp)+

lemma quiet_counts:
  assumes "\<forall>e \<in> set es. changed_by e = None"
  shows "pivot_count es i = 0" "cancelled_count es i = 0" "moved_count es i = 0"
  using assms event_counts
  by (force simp: pivot_count_def cancelled_count_def moved_count_def filter_empty_conv)+

lemma decided_ids: "list_all2 decided rows rows' \<Longrightarrow> map b_id rows' = map b_id rows"
  by (induction rule: list_all2_induct) (auto simp: decided_def)

lemma change_other_inv:
  assumes inv: "change_sys_inv \<lparr>hs_db = db, hs_readers = rs, hs_workers = ws, hs_calls = cs\<rparr>" and rel: "change_rely db db'"
  shows "change_sys_inv \<lparr>hs_db = db', hs_readers = rs, hs_workers = ws, hs_calls = cs\<rparr>"
proof -
  obtain kn new es where ch: "bk_changes db' = bk_changes db" and d: "distinct (map b_id (bk_bookings db'))"
    and bs: "bk_bookings db' = kn @ new" "list_all2 decided (bk_bookings db) kn"
    and nw: "\<forall>b \<in> set new. b_status b = PENDING_CONFIRMATION \<and> b_scheduleRevision b = 1"
    and ev: "bk_outbox db' = bk_outbox db @ es" "\<forall>e \<in> set es. changed_by e = None"
    using rel unfolding change_rely_def by blast
  have T: "tables_ok cs (bk_changes db) (bk_bookings db) (bk_outbox db)" using inv by (simp add: change_sys_inv_def)
  have ids: "b_id ` set kn = b_id ` set (bk_bookings db)" using decided_ids [OF bs(2)] by (metis set_map)
  have newid: "b_id b \<notin> b_id ` set (bk_bookings db)" if "b \<in> set new" for b
    using d that ids by (auto simp: bs(1))
  note q = quiet_counts [OF ev(2)]
  have rowc: "change_row_ok cs (bk_bookings db') (bk_outbox db') (cr_change r)" if "r \<in> set (bk_changes db)" for r
  proof -
    have ok: "change_row_ok cs (bk_bookings db) (bk_outbox db) (cr_change r)" using T that by (simp add: tables_ok_def)
    then obtain b where b: "b \<in> set (bk_bookings db)" "fits (cr_change r) b" by (auto simp: change_row_ok_def)
    obtain b' where b': "b' \<in> set kn" "decided b b'" using list_all2_set [OF bs(2) b(1)] by blast
    then have "b' = b" using b(2) by (auto simp: decided_def fits_def)
    with ok b b' q show ?thesis by (auto simp: change_row_ok_def ev(1) bs(1))
  qed
  have rowb: "booking_row_ok (bk_outbox db') b'" if "b' \<in> set (bk_bookings db')" for b'
  proof (cases "b' \<in> set kn")
    case True
    then obtain b where b: "b \<in> set (bk_bookings db)" "decided b b'" using list_all2_set' [OF bs(2)] by blast
    then have "booking_row_ok (bk_outbox db) b" using T by (simp add: tables_ok_def)
    with b q show ?thesis by (auto simp: booking_row_ok_def decided_def ev(1))
  next
    case False
    then have n: "b' \<in> set new" using that bs(1) by simp
    have "event_of e \<noteq> b_id b'" if "e \<in> set (bk_outbox db)" "changed_by e \<noteq> None" for e
      using T that newid [OF n] by (fastforce simp: tables_ok_def)
    then have "cancelled_count (bk_outbox db) (b_id b') = 0" "moved_count (bk_outbox db) (b_id b') = 0"
      using event_counts by (force simp: cancelled_count_def moved_count_def filter_empty_conv)+
    with n nw q show ?thesis by (simp add: booking_row_ok_def ev(1))
  qed
  have evs: "i \<in> cr_changeId ` set (bk_changes db) \<and> event_of e \<in> b_id ` set (bk_bookings db')"
    if "e \<in> set (bk_outbox db')" "changed_by e = Some i" for e i
  proof -
    have "e \<in> set (bk_outbox db)" using that ev by auto
    then show ?thesis using T that(2) ids by (auto simp: tables_ok_def bs(1))
  qed
  have T': "tables_ok cs (bk_changes db') (bk_bookings db') (bk_outbox db')"
    using T d rowc rowb evs by (simp add: tables_ok_def ch)
  have mv: "moves_on (bk_bookings db) (bk_bookings db')"
  proof -
    have "\<exists>b \<in> set (bk_bookings db). b_id b = b_id b' \<and> (b' = b \<or> b_version b < b_version b')"
      if b': "b' \<in> set (bk_bookings db')" "b_id b' \<in> b_id ` set (bk_bookings db)" for b'
    proof -
      have "b' \<in> set kn" using b' newid bs(1) by auto
      then obtain b where "b \<in> set (bk_bookings db)" "decided b b'" using list_all2_set' [OF bs(2)] by blast
      then show ?thesis by (auto simp: decided_def)
    qed
    then show ?thesis using ids by (auto simp: moves_on_def bs(1))
  qed
  have "change_worker_ok cs db' w" if "change_worker_ok cs db w" for w
    by (rule change_worker_mono [OF that order_refl _ mv]) (use ch in auto)
  with inv T' mv known_moves_on show ?thesis by (auto simp: change_sys_inv_def ch)
qed

lemma change_move_inv:
  assumes "change_move ms st st'" and "change_sys_inv st"
  shows "change_sys_inv st'"
  using assms
proof cases
  case (load i db rec rs ws cs)
  then show ?thesis using assms(2) load_inv by blast
next
  case (request_cancel b rs expected busy slot changeId reason who now key fp cor audit db res db' ws cs)
  have "change_sys_inv \<lparr>hs_db = db, hs_readers = rs, hs_workers = ws, hs_calls = cs\<rparr>"
    using assms(2) request_cancel(1) by simp
  then show ?thesis unfolding request_cancel(2)
    by (rule change_insert_inv [OF _ request_cancel(3,4) _ _ _ request_cancel(5)]) (simp_all, simp_all add: newCancellation_def base_change_def)
next
  case (request_reschedule b rs expected busy slot changeId who to_slot now key fp cor audit db res db' ws cs)
  have "change_sys_inv \<lparr>hs_db = db, hs_readers = rs, hs_workers = ws, hs_calls = cs\<rparr>"
    using assms(2) request_reschedule(1) by simp
  then show ?thesis unfolding request_reschedule(2)
    by (rule change_insert_inv [OF _ request_reschedule(3,4) _ _ _ request_reschedule(5)]) (simp_all, simp_all add: newReschedule_def base_change_def)
next
  case (lease i who now db l db' rs ws cs)
  then show ?thesis using assms(2) change_lease_inv by blast
next
  case (lease_due who now limit db leased db' rs ws cs)
  then show ?thesis using assms(2) change_lease_due_inv by blast
next
  case (read i db c cor rs us l vs cs)
  then show ?thesis using assms(2) change_read_inv by blast
next
  case (die db rs us w vs cs)
  then show ?thesis using assms(2) change_sys_inv_drop by blast
next
  case (release c l db ok db' rs us cor vs cs)
  then show ?thesis using assms(2) change_release_inv by blast
next
  case (call c l now db c' db' rs us cor vs cs)
  then show ?thesis using assms(2) change_call_inv by blast
next
  case (call_stopped c l now db r db' rs us cor vs cs)
  then show ?thesis using assms(2) change_call_stopped_inv by blast
next
  case (answered c env nxt slot cor l db db' rs us vs cs)
  then show ?thesis using assms(2) change_answered_inv by blast
next
  case (answer_lost c env nxt slot cor l db r db' rs us vs cs)
  then show ?thesis using assms(2) change_answer_lost_inv by blast
next
  case (pivot_read c env nxt slot db rec rs us cor l vs cs)
  then show ?thesis using assms(2) pivot_read_inv by blast
next
  case (pivoted c nxt cor l slot b env db db' rs us vs cs)
  then show ?thesis using assms(2) pivoted_inv by blast
next
  case (pivot_lost c nxt cor l slot b env db r db' rs us vs cs)
  then show ?thesis using assms(2) pivot_lost_inv(2) by blast
qed

lemma change_system_inv:
  assumes "change_system ms st st'" and "change_sys_inv st"
  shows "change_sys_inv st'"
  using assms
proof cases
  case own
  then show ?thesis using assms(2) by (rule change_move_inv)
next
  case (other db db' rs ws cs)
  then show ?thesis using assms(2) change_other_inv by blast
qed

lemma change_init_inv: "change_init st \<Longrightarrow> change_sys_inv st"
  by (simp add: change_init_def change_sys_inv_def tables_ok_def one_open_def empty_booking_db_def
      changes.fenced_inv_def)

interpretation changing: transition_system change_init "change_system ms" change_sys_inv for ms
  by unfold_locales (auto intro: change_init_inv change_system_inv)

end
