(* ===== verification/Booking_Joint.thy ===== *)
theory Booking_Joint
  imports Booking_Change_Safety
begin

text \<open>
  Creation and changes together. Both process managers work on one database; each was verified
  against what the other is allowed to do to it. Here each is shown to keep to it: a change
  satisfies \<open>rely\<close>, the creation of a booking satisfies \<open>change_rely\<close>, so in the joint system
  both invariants hold.
\<close>

section \<open>What a change does to bookings\<close>

lemma rely_same: "bk_sagas db' = bk_sagas db \<Longrightarrow> bk_bookings db' = bk_bookings db \<Longrightarrow> bk_outbox db' = bk_outbox db \<Longrightarrow> rely db db'"
  by (simp add: rely_def later_change_def list_all2_refl)

lemma writeChange_same:
  "writeChange x l rel ms db = (ok, db') \<Longrightarrow>
     bk_sagas db' = bk_sagas db \<and> bk_bookings db' = bk_bookings db \<and> bk_outbox db' = bk_outbox db"
  by (auto simp: writeChange_def)

lemma rely_write: "writeChange x l rel ms db = (ok, db') \<Longrightarrow> rely db db'"
  using writeChange_same [of x l rel ms db ok db'] by (simp add: rely_same)

lemma rely_begin: "begin_call c l now ms db = (r, db') \<Longrightarrow> rely db db'"
  by (erule begin_call_cases) (auto intro: rely_same rely_write)

lemma rely_conclude: "conclude c nxt cor l ms db = (r, db') \<Longrightarrow> rely db db'"
proof (erule conclude_cases)
  assume "db' = db \<or> writeChange nxt l False ms db = (False, db')"
  then show "rely db db'" by (auto intro: rely_same rely_write)
next
  fix rel db1
  assume "writeChange nxt l rel ms db = (True, db1)" "bk_bookings db' = bk_bookings db1" "bk_outbox db' = bk_outbox db1"
    "bk_sagas db' = bk_sagas db1"
  then show "rely db db'" using writeChange_same [of nxt l rel ms db True db1] by (simp add: rely_same)
qed

lemma rely_insert: "insertChange c key fp expected cor audit db = (res, db') \<Longrightarrow> rely db db'"
  by (erule insertChange_cases) (auto intro: rely_same simp: append_audit_def)

lemma list_all2_update_rows:
  "(\<And>r. r \<in> set rows \<Longrightarrow> hit r \<Longrightarrow> P r (f r)) \<Longrightarrow> (\<And>r. P r r) \<Longrightarrow> list_all2 P rows (update_rows hit f rows)"
  by (simp add: update_rows_def list_all2_map2 list_all2_same)

lemma rely_pivot:
  assumes inv: "change_sys_inv \<lparr>hs_db = db, hs_readers = rs, hs_workers = us @ Pivoting c nxt cor l slot b # vs, hs_calls = cs\<rparr>"
    and pw: "pivot_write c nxt cor l slot b env ms db = (Inr True, db')"
  shows "rely db db'"
proof -
  obtain u e db1 where u: "pivot_update c slot cor b env = Inr (u, e)"
    and bs: "bk_bookings db' = update_rows (stale_hit u (b_version b)) (changed_row u) (bk_bookings db)"
    and ev: "bk_outbox db' = bk_outbox db @ [e]" "bk_sagas db' = bk_sagas db"
    and hit: "\<forall>q \<in> set (bk_bookings db). stale_hit u (b_version b) q \<longrightarrow> q = b"
    and conf: "b_status b = booking_state.CONFIRMED"
    by (rule pivot_written [OF inv pw])
  note f = pivot_facts [OF u]
  have "later_change b (changed_row u b)"
    using f(6,7) conf by (cases "ch_kind c") (auto simp: later_change_def)
  then have "list_all2 later_change (bk_bookings db) (bk_bookings db')"
    unfolding bs using hit by (intro list_all2_update_rows) (auto simp: later_change_def)
  with ev f(5) show ?thesis by (auto simp: rely_def)
qed

lemma change_guarantee:
  assumes "change_move ms st st'" and "change_sys_inv st"
  shows "rely (hs_db st) (hs_db st')"
  using assms
proof cases
  case (lease i who now db l db' rs ws cs)
  then show ?thesis by (auto simp: change_lease_update_def Let_def intro: rely_same split: option.splits)
next
  case (lease_due who now limit db leased db' rs ws cs)
  then show ?thesis by (auto simp: due_changes_update_def Let_def intro: rely_same)
next
  case (pivoted c nxt cor l slot b env db db' rs us vs cs)
  then show ?thesis using assms(2) rely_pivot by simp
next
  case (pivot_lost c nxt cor l slot b env db r db' rs us vs cs)
  have "change_sys_inv \<lparr>hs_db = db, hs_readers = rs, hs_workers = us @ Pivoting c nxt cor l slot b # vs, hs_calls = cs\<rparr>"
    using assms(2) pivot_lost(1) by simp
  from pivot_lost_inv(1) [OF this pivot_lost(3,4)] show ?thesis using pivot_lost by (simp add: rely_same)
qed (auto intro: rely_same rely_insert rely_begin rely_conclude rely_write simp: saveChange_def)

section \<open>What the creation of a booking does to changes\<close>

lemma decided_refl [simp]: "decided b b"
  by (simp add: decided_def)

lemma change_rely_same:
  "bk_changes db' = bk_changes db \<Longrightarrow> bk_bookings db' = bk_bookings db \<Longrightarrow> bk_outbox db' = bk_outbox db \<Longrightarrow>
   distinct (map b_id (bk_bookings db)) \<Longrightarrow> change_rely db db'"
  unfolding change_rely_def by (intro conjI exI [of _ "bk_bookings db"] exI [of _ "[]"]) (auto intro: list_all2_refl)

lemma writeSaga_same:
  "writeSaga x l rel ms db = (ok, db') \<Longrightarrow>
     bk_changes db' = bk_changes db \<and> bk_bookings db' = bk_bookings db \<and> bk_outbox db' = bk_outbox db"
  by (auto simp: writeSaga_def)

lemma mark_pivot_same:
  "mark_pivot s l now ms db = (r, db') \<Longrightarrow>
     bk_changes db' = bk_changes db \<and> bk_bookings db' = bk_bookings db \<and> bk_outbox db' = bk_outbox db"
  using writeSaga_same
  by (fastforce simp: mark_pivot_def saveSaga_def split: if_splits sum.splits prod.splits bool.splits)

lemma claim_changes:
  "claim_rounds n k c now ms db = (x, db') \<Longrightarrow> bk_changes db' = bk_changes db"
  by (induction n k c now ms db rule: claim_rounds.induct)
    (auto simp: claim_round_def split: prod.splits option.splits if_splits)

lemma created_event_changed_by:
  "created_event rec b fb env = Inr event \<Longrightarrow> \<forall>e \<in> set (event_list event). changed_by e = None"
  by (auto simp: created_event_def event_list_def dest!: bookingCreatedEvent_Inr split: if_splits)

lemma final_booking_decided:
  assumes "final_booking b s slot now = Inr (fb, action)"
  shows "fb = b \<or> b_status b = PENDING_CONFIRMATION \<and> b_id fb = b_id b \<and> b_version fb = b_version b + 1 \<and>
    b_status fb \<in> {booking_state.CONFIRMED, booking_state.REJECTED}"
  using assms by (auto simp: final_booking_def confirmBooking_Inr rejectBooking_Inr split: if_splits option.splits)

lemma finish_changes: "finish x l b v event audit ms db = (res, db') \<Longrightarrow> bk_changes db' = bk_changes db"
  by (auto simp: finish_def writeSaga_def update_booking_def append_audit_def append_event_def Let_def
      split: prod.splits bool.splits sum.splits if_splits option.splits)

text \<open>The booking the holder of a saga finishes is the row, and it is still pending.\<close>

lemma finish_guarantee:
  assumes inv: "creation_inv \<lparr>cs_db = db, cs_workers = us @ Calling rec s l # vs, cs_calls = cs\<rparr>"
    and d: "decide (br_booking rec) s env = Inr (nxt, slot)"
    and f: "finish_saga rec (br_booking rec) nxt l slot env ms db = (Inr True, db')"
  shows "change_rely db db'"
proof -
  let ?b = "br_booking rec"
  have wo: "worker_ok cs db (Calling rec s l)" using inv by (simp add: creation_inv_def)
  then have live: "\<not> isTerminal (sg_step s)" and w: "worker_of rec s l (Calling rec s l)" by simp_all
  have fi: "sagas.fenced_inv (bk_sagas db) (map worker_view (us @ Calling rec s l # vs))"
    using inv by (simp add: creation_inv_def)
  obtain fb action event audit where fb: "final_booking ?b nxt slot (se_finishNow env) = Inr (fb, action)"
    and ev: "created_event rec ?b fb env = Inr event"
    and fin: "finish nxt l fb (b_version ?b) event audit ms db = (Inr True, db')"
    using f by (auto simp: finish_saga_def split: sum.splits prod.splits)
  obtain r where r: "r \<in> set (bk_sagas db)" "sagas.fenced nxt l r"
    and out: "bk_outbox db' = bk_outbox db @ event_list event"
    and bk: "finish_bookings fb (b_version ?b) db = Inr (bk_bookings db')"
    by (rule finish_done [OF fin fi])
  have sid: "saga_inv s" using inv w r by (auto simp: creation_inv_def informed_def sagas.fenced_inv_def sagas.in_step_def)
  have nid: "sg_bookingId nxt = sg_bookingId s" using decide_spec [OF d sid] by blast
  have b: "?b \<in> set (bk_bookings db)"
    by (rule holder_row [OF inv w r nid]) (use live in simp)
  have ds: "distinct (map b_id (bk_bookings db))" using inv by (simp add: creation_inv_def rows_ok_def)
  have es: "\<forall>e \<in> set (event_list event). changed_by e = None" by (rule created_event_changed_by [OF ev])
  have la: "list_all2 decided (bk_bookings db) (bk_bookings db')"
  proof (cases "b_version fb = b_version ?b")
    case True
    then have "bk_bookings db' = bk_bookings db" using bk by (simp add: finish_bookings_def)
    then show ?thesis by (simp add: list_all2_refl)
  next
    case False
    then have p: "b_status ?b = PENDING_CONFIRMATION" "b_id fb = b_id ?b" "b_version fb = b_version ?b + 1"
      "b_status fb \<in> {booking_state.CONFIRMED, booking_state.REJECTED}"
      using final_booking_decided [OF fb] by auto
    let ?hit = "\<lambda>row. b_id row = b_id fb \<and> b_version row = b_version ?b"
    have rows': "bk_bookings db' = update_rows ?hit (finished_row fb) (bk_bookings db)"
      using bk False by (auto simp: finish_bookings_def update_booking_def Let_def split: if_splits)
    have "q = ?b" if "q \<in> set (bk_bookings db)" "?hit q" for q
      using distinct_key_eq [OF ds that(1) b] that(2) p(2) by simp
    moreover have "decided ?b (finished_row fb ?b)" using p by (simp add: decided_def finished_row_def)
    ultimately show ?thesis unfolding rows' by (intro list_all2_update_rows) auto
  qed
  then have "distinct (map b_id (bk_bookings db'))" using decided_ids [OF la] ds by metis
  with la out es finish_changes [OF fin] show ?thesis unfolding change_rely_def
    by (intro conjI exI [of _ "bk_bookings db'"] exI [of _ "[]"] exI [of _ "event_list event"]) simp_all
qed

lemma answer_guarantee:
  assumes inv: "creation_inv \<lparr>cs_db = db, cs_workers = us @ Calling rec s l # vs, cs_calls = cs\<rparr>"
    and a: "answer rec s l env ms db = (Inr (Some nxt), db')"
  shows "change_rely db db'"
proof -
  obtain slot where d: "decide (br_booking rec) s env = Inr (nxt, slot)"
    and p: "persist rec nxt l slot env ms db = (Inr (Some nxt), db')"
    using a by (auto simp: answer_def persist_def split: sum.splits prod.splits if_splits bool.splits)
  have ds: "distinct (map b_id (bk_bookings db))" using inv by (simp add: creation_inv_def rows_ok_def)
  show ?thesis
  proof (cases "isTerminal (sg_step nxt)")
    case False
    then have "writeSaga nxt l False ms db = (True, db')"
      using p by (auto simp: persist_def saveSaga_def split: prod.splits bool.splits)
    then show ?thesis using writeSaga_same ds by (intro change_rely_same) blast+
  next
    case True
    then have "finish_saga rec (br_booking rec) nxt l slot env ms db = (Inr True, db')"
      using p by (auto simp: persist_def split: prod.splits sum.splits bool.splits)
    then show ?thesis by (rule finish_guarantee [OF inv d])
  qed
qed

lemma insertBooking_guarantee:
  assumes "insertBooking b sg k f audit db = (res, db')" and "b_status b = PENDING_CONFIRMATION" "b_scheduleRevision b = 1"
    and d: "distinct (map b_id (bk_bookings db))"
  shows "change_rely db db'"
proof (cases "db' = db")
  case True
  then show ?thesis using d by (simp add: change_rely_same)
next
  case False
  then have n: "\<not> booking_conflict b (bk_bookings db)" and
    db': "bk_bookings db' = bk_bookings db @ [b]" "bk_changes db' = bk_changes db" "bk_outbox db' = bk_outbox db"
    using assms(1) by (auto simp: insertBooking_def append_audit_def split: option.splits if_splits)
  have "b_id b \<notin> b_id ` set (bk_bookings db)" using n by (auto simp: booking_conflict_def)
  then show ?thesis unfolding change_rely_def
    using db' d assms(2,3)
    by (intro conjI exI [of _ "bk_bookings db"] exI [of _ "[b]"] exI [of _ "[]"]) (auto intro: list_all2_refl)
qed

lemma creation_guarantee:
  assumes "creation_move ms st st'" and "creation_inv st"
  shows "change_rely (cs_db st) (cs_db st')"
proof -
  have d: "distinct (map b_id (bk_bookings (cs_db st)))" using assms(2) by (simp add: creation_inv_def rows_ok_def)
  from assms(1) show ?thesis
  proof cases
    case (claim k cand now cms db c db' ws cs)
    then show ?thesis using d claim_rounds_same [of 3 k cand now cms db c db'] claim_changes [of 3 k cand now cms db c db']
      by (simp add: claimRequest_def change_rely_same)
  next
    case (abandon db ws cs k f)
    then show ?thesis using d by (simp add: abandonRequest_def change_rely_same)
  next
    case (insert input b now k f audit db res db' ws cs)
    then show ?thesis using d createBooking_Inr [OF insert(3)] insertBooking_guarantee [OF insert(4)] by simp
  next
    case (lease i who now db l db' ws cs)
    then show ?thesis using d by (auto simp: lease_update_def Let_def intro!: change_rely_same split: option.splits)
  next
    case (lease_due who now limit db leased db' ws cs)
    then show ?thesis using d by (auto simp: due_update_def Let_def intro!: change_rely_same)
  next
    case (read i db rec us l vs cs)
    then show ?thesis using d by (simp add: change_rely_same)
  next
    case (die db us w vs cs)
    then show ?thesis using d by (simp add: change_rely_same)
  next
    case (release s l db ok db' us rec vs cs)
    then show ?thesis using d writeSaga_same [of s l True ms db ok db'] by (simp add: saveSaga_def change_rely_same)
  next
    case (call s l now db s' db' us rec vs cs)
    then show ?thesis using d mark_pivot_same [of s l now ms db "Inr (Some s')" db'] by (simp add: change_rely_same)
  next
    case (call_stopped s l now db r db' us rec vs cs)
    then show ?thesis using d mark_pivot_same [of s l now ms db r db'] by (simp add: change_rely_same)
  next
    case (answered rec s l env db nxt db' us vs cs)
    then have "creation_inv \<lparr>cs_db = db, cs_workers = us @ Calling rec s l # vs, cs_calls = cs\<rparr>" using assms(2) by simp
    from answer_guarantee [OF this answered(3)] show ?thesis using answered by simp
  next
    case (answer_lost rec s l env db r db' us vs cs)
    then have "creation_inv \<lparr>cs_db = db, cs_workers = us @ Calling rec s l # vs, cs_calls = cs\<rparr>" using assms(2) by simp
    from answer_not_done [OF this answer_lost(3,4)] show ?thesis using answer_lost d by (simp add: change_rely_same)
  qed
qed

section \<open>The joint system\<close>

record joint_state =
  js_creation :: creation_state
  js_readers :: "booking list"
  js_workers :: "change_worker list"
  js_calls :: "change_call list"

definition change_part :: "joint_state \<Rightarrow> change_state" where
  "change_part st = \<lparr>hs_db = cs_db (js_creation st), hs_readers = js_readers st, hs_workers = js_workers st,
                     hs_calls = js_calls st\<rparr>"

inductive joint_step :: "int \<Rightarrow> joint_state \<Rightarrow> joint_state \<Rightarrow> bool" for leaseMs where
  create: "creation_move leaseMs cr cr' \<Longrightarrow>
    joint_step leaseMs \<lparr>js_creation = cr, js_readers = rs, js_workers = ws, js_calls = cs\<rparr>
                       \<lparr>js_creation = cr', js_readers = rs, js_workers = ws, js_calls = cs\<rparr>"
| change: "change_move leaseMs \<lparr>hs_db = cs_db cr, hs_readers = rs, hs_workers = ws, hs_calls = cs\<rparr>
                               \<lparr>hs_db = db', hs_readers = rs', hs_workers = ws', hs_calls = cs'\<rparr> \<Longrightarrow>
    joint_step leaseMs \<lparr>js_creation = cr, js_readers = rs, js_workers = ws, js_calls = cs\<rparr>
                       \<lparr>js_creation = cr\<lparr>cs_db := db'\<rparr>, js_readers = rs', js_workers = ws', js_calls = cs'\<rparr>"

definition joint_init :: "joint_state \<Rightarrow> bool" where
  "joint_init st \<longleftrightarrow> creation_init (js_creation st) \<and> change_init (change_part st)"

definition joint_inv :: "joint_state \<Rightarrow> bool" where
  "joint_inv st \<longleftrightarrow> creation_inv (js_creation st) \<and> change_sys_inv (change_part st)"

text \<open>Each part sees the other as one of its own \<open>other\<close> steps.\<close>

lemma joint_parts:
  assumes "joint_step ms st st'" and "joint_inv st"
  shows "creation_step ms (js_creation st) (js_creation st')" and "change_system ms (change_part st) (change_part st')"
proof -
  have "creation_step ms (js_creation st) (js_creation st') \<and> change_system ms (change_part st) (change_part st')"
    using assms(1)
  proof cases
    case (create cr cr' rs ws cs)
    then have "change_rely (cs_db cr) (cs_db cr')" using assms(2) creation_guarantee by (simp add: joint_inv_def)
    with create show ?thesis by (simp add: creation_step.own change_system.other change_part_def)
  next
    case (change cr rs ws cs db' rs' ws' cs')
    then have "rely (cs_db cr) db'" using assms(2) change_guarantee [OF change(3)] by (simp add: joint_inv_def change_part_def)
    then have "creation_step ms cr (cr\<lparr>cs_db := db'\<rparr>)"
      using creation_step.other [of "cs_db cr" db' ms "cs_workers cr" "cs_calls cr"] by (cases cr) simp
    with change show ?thesis by (simp add: change_system.own change_part_def)
  qed
  then show "creation_step ms (js_creation st) (js_creation st')" and "change_system ms (change_part st) (change_part st')"
    by blast+
qed

interpretation joint: transition_system joint_init "joint_step ms" joint_inv for ms
proof
  fix st assume "joint_init st"
  then show "joint_inv st"
    by (simp add: joint_init_def joint_inv_def creation.init_inv change_init_inv)
next
  fix st st' assume "joint_inv st" "joint_step ms st st'"
  with joint_parts [of ms st st'] show "joint_inv st'"
    by (auto simp: joint_inv_def intro: creation_step_inv change_system_inv)
qed

text \<open>So a run of the joint system is a run of each part.\<close>

lemma joint_runs:
  assumes "(joint_step ms)\<^sup>*\<^sup>* s0 st" and "joint_init s0"
  shows "(creation_step ms)\<^sup>*\<^sup>* (js_creation s0) (js_creation st)"
    and "(change_system ms)\<^sup>*\<^sup>* (change_part s0) (change_part st)"
proof -
  have "(creation_step ms)\<^sup>*\<^sup>* (js_creation s0) (js_creation st) \<and> (change_system ms)\<^sup>*\<^sup>* (change_part s0) (change_part st)"
    using assms
  proof (induction rule: rtranclp_induct)
    case (step y z)
    have "joint_inv y" by (rule joint.reachable_inv [OF step.prems step.hyps(1)])
    with joint_parts [OF step.hyps(2)] step.IH [OF step.prems] show ?case by (meson rtranclp.rtrancl_into_rtrancl)
  qed simp
  then show "(creation_step ms)\<^sup>*\<^sup>* (js_creation s0) (js_creation st)"
    and "(change_system ms)\<^sup>*\<^sup>* (change_part s0) (change_part st)" by blast+
qed

end
