(* ===== verification/Booking_Properties.thy ===== *)
theory Booking_Properties
  imports Booking_Safety
begin

text \<open>
  What the creation of bookings guarantees, over every reachable state of \<open>creation_step\<close>,
  and what the functions of the saga and of its loop compute.
\<close>

section \<open>One saga per booking\<close>

lemma reachable_rows:
  assumes "(creation_step ms)\<^sup>*\<^sup>* s0 st" and "creation_init s0" and "b \<in> set (bk_bookings (cs_db st))"
  obtains s where "consistent (cs_calls st) (bk_outbox (cs_db st)) s b"
proof -
  have inv: "rows_ok (cs_calls st) (bk_sagas (cs_db st)) (bk_bookings (cs_db st)) (bk_outbox (cs_db st))"
    using creation.reachable_inv [OF assms(2,1)] by (simp add: creation_inv_def)
  then obtain r where r: "r \<in> set (bk_sagas (cs_db st))" "sr_bookingId r = b_id b"
    using assms(3) unfolding rows_ok_def by (metis imageE image_eqI)
  obtain b' where b': "b' \<in> set (bk_bookings (cs_db st))" "b_id b' = sr_bookingId r"
    "consistent (cs_calls st) (bk_outbox (cs_db st)) (sr_saga r) b'"
    by (rule rows_ok_booking [OF inv r(1)])
  have "distinct (map b_id (bk_bookings (cs_db st)))" using inv by (simp add: rows_ok_def)
  from distinct_key_eq [OF this b'(1) assms(3)] b'(2) r(2) have "b' = b" by simp
  with b'(3) that show thesis by blast
qed

section \<open>Example\<close>

text \<open>One booking, from its request to its confirmation.\<close>

definition ex_money :: money where
  "ex_money = \<lparr>m_currency = SYP, m_amountMinor = 5000, m_scale = 2\<rparr>"

definition ex_principal :: principal_ref where
  "ex_principal = \<lparr>pr_kind = account, pr_subjectId = ex_uuid CHR ''a''\<rparr>"

definition ex_quote :: quote_snapshot where
  "ex_quote = \<lparr>qs_quoteId = ex_uuid CHR ''2'', qs_revision = 1, qs_beneficiary = ex_principal,
     qs_vehicleType = sedan, qs_zoneId = None, qs_currency = SYP, qs_lines = [], qs_total = ex_money,
     qs_catalogRevision = 1, qs_priceBookRevision = 1, qs_issuedAt = [], qs_expiresAt = []\<rparr>"

definition ex_input :: new_booking where
  "ex_input = \<lparr>nb_id = ex_uuid CHR ''1'', nb_beneficiary = ex_principal,
     nb_paymentMethod = CASH_ON_COMPLETION,
     nb_contact = \<lparr>ct_name = ''Amal'', ct_phone = ''+963912345678'', ct_notes = None\<rparr>,
     nb_vehicle = \<lparr>vs_source = inline, vs_vehicleId = None, vs_vehicleRevision = None, vs_type = sedan,
       vs_make = None, vs_model = None, vs_color = None, vs_plate = None, vs_capturedAt = []\<rparr>,
     nb_address = \<lparr>as_addressId = ex_uuid CHR ''3'', as_addressRevision = 1,
       as_location = manual ''Mazzeh'', as_details = None, as_capturedAt = []\<rparr>,
     nb_quote = ex_quote,
     nb_requestedSlot = \<lparr>rs_holdId = ex_uuid CHR ''4'', rs_holdRevision = 1, rs_zoneId = ex_uuid CHR ''5'',
       rs_startsAt = 3600000, rs_endsAt = 7200000\<rparr>,
     nb_now = 0\<rparr>"

definition ex_slot :: slot_snapshot where
  "ex_slot = \<lparr>sl_holdId = ex_uuid CHR ''4'', sl_zoneId = ex_uuid CHR ''5'', sl_startsAt = 3600000, sl_endsAt = 7200000\<rparr>"

definition ex_booking :: booking where
  "ex_booking =
     \<lparr>b_id = ex_uuid CHR ''1'', b_beneficiary = ex_principal, b_status = PENDING_CONFIRMATION,
      b_rejectionReason = None, b_paymentMethod = CASH_ON_COMPLETION, b_contact = nb_contact ex_input,
      b_vehicle = nb_vehicle ex_input, b_address = nb_address ex_input, b_quote = ex_quote,
      b_requestedSlot = nb_requestedSlot ex_input, b_slot = None, b_rescheduledSlot = None,
      b_scheduleRevision = 1, b_cancellation = None, b_total = ex_money, b_version = 1,
      b_createdAt = 0, b_updatedAt = 0, b_confirmedAt = None\<rparr>"

definition ex_request :: request_key where
  "ex_request = \<lparr>rk_principalKind = account, rk_subject = ex_uuid CHR ''a'', rk_key = ex_key CHR ''k'',
     rk_fingerprint = ''f''\<rparr>"

definition ex_audit :: audit_fact where
  "ex_audit = \<lparr>af_action = ''booking.created'', af_actor = SystemActor ''api'', af_bookingId = ex_uuid CHR ''1'',
     af_correlationId = ex_uuid CHR ''c'',
     af_details = CreateDetails PENDING_CONFIRMATION (ex_uuid CHR ''4'') (ex_uuid CHR ''2'') inline CASH_ON_COMPLETION\<rparr>"

definition ex_env :: step_env where
  "ex_env = \<lparr>se_loopNow = 10, se_random = 0, se_markNow = 10, se_quote = ValidTotal ex_money,
     se_obligation = ObligationCreated ''obligation-1'', se_commit = HoldCommitted ex_slot, se_void = Voided,
     se_now = 10, se_finishNow = 10, se_eventId = ex_uuid CHR ''e'', se_traceparent = None\<rparr>"

definition ex_shape :: "booking \<Rightarrow> saga \<Rightarrow> string option \<Rightarrow> instant option \<Rightarrow> booking_event list \<Rightarrow> audit_fact list \<Rightarrow> booking_db" where
  "ex_shape b s who until out aud =
     \<lparr>bk_bookings = [b],
      bk_sagas = [\<lparr>sr_saga = s, sr_leaseOwner = who, sr_leaseUntil = until, sr_correlationId = ex_uuid CHR ''c''\<rparr>],
      bk_requests = [\<lparr>rr_scope = scope_of ex_request, rr_fingerprint = ''f'', rr_bookingId = ex_uuid CHR ''1'',
                      rr_state = BOUND, rr_fence = 1, rr_leaseUntil = 30000\<rparr>],
      bk_changes = [], bk_schedules = [], bk_outbox = out, bk_audit = aud\<rparr>"

definition ex_s0 :: saga where "ex_s0 = newSaga (ex_uuid CHR ''1'') 0"
definition ex_s1 :: saga where "ex_s1 = ex_s0\<lparr>sg_fence := 1\<rparr>"
definition ex_s2 :: saga where "ex_s2 = advance ex_s1 CREATE_OBLIGATION 10 id"
definition ex_s3 :: saga where
  "ex_s3 = advance ex_s2 COMMIT_HOLD 10 (sg_obligationId_update (\<lambda>_. Some ''obligation-1''))"
definition ex_s4 :: saga where "ex_s4 = ex_s3\<lparr>sg_pivotAttempted := True, sg_version := 4, sg_updatedAt := 10\<rparr>"
definition ex_s5 :: saga where
  "ex_s5 = advance ex_s4 saga_step.DONE 10 (sg_outcome_update (\<lambda>_. Some saga_outcome.CONFIRMED))"

lemmas ex_saga_defs = ex_s0_def ex_s1_def ex_s2_def ex_s3_def ex_s4_def ex_s5_def newSaga_def deadlineMs_def

definition ex_lease :: lease where "ex_lease = \<lparr>le_owner = ''api'', le_fence = 1\<rparr>"

definition ex_rec :: booking_record where
  "ex_rec = \<lparr>br_booking = ex_booking, br_saga = ex_s1, br_correlationId = ex_uuid CHR ''c''\<rparr>"

definition ex_confirmed_booking :: booking where
  "ex_confirmed_booking = ex_booking\<lparr>b_status := booking_state.CONFIRMED, b_version := 2, b_slot := Some ex_slot,
     b_updatedAt := 10, b_confirmedAt := Some 10\<rparr>"

definition ex_event :: booking_event where
  "ex_event = BookingCreatedV1
     \<lparr>en_eventId = ex_uuid CHR ''e'', en_eventType = BOOKING_CREATED_V1, en_occurredAt = 10,
      en_correlationId = ex_uuid CHR ''c'', en_causationId = None, en_traceparent = None,
      en_aggregateId = ex_uuid CHR ''1'', en_aggregateVersion = 2,
      en_actor = \<lparr>ea_kind = actor_account, ea_id = Some (ex_uuid CHR ''a'')\<rparr>\<rparr>
     \<lparr>cd_beneficiary = ex_principal, cd_zoneId = ex_uuid CHR ''5'', cd_startsAt = 3600000,
      cd_endsAt = 7200000, cd_holdId = ex_uuid CHR ''4'', cd_quoteId = ex_uuid CHR ''2'',
      cd_quoteRevision = 1, cd_total = moneyToWire ex_money, cd_paymentMethod = CASH_ON_COMPLETION\<rparr>"

definition ex_done :: audit_fact where
  "ex_done = \<lparr>af_action = ''booking.confirmed'', af_actor = SAGA_ACTOR, af_bookingId = ex_uuid CHR ''1'',
     af_correlationId = ex_uuid CHR ''c'',
     af_details = SagaDetails booking_state.CONFIRMED None (Some ''obligation-1'') None\<rparr>"

lemma ex_created: "createBooking ex_input = Inr ex_booking"
  by (simp add: createBooking_def ex_input_def ex_quote_def ex_booking_def ex_principal_def samePrincipal_def)

lemmas store_eval =
  update_rows_def find_row_def saveSaga_def writeSaga_def saga_fenced_def written_saga_def
  sr_bookingId_def truncated_def append_audit_def append_event_def ex_shape_def

lemma ex_claimed: "claimRequest ex_request (ex_uuid CHR ''1'') 0 30000 empty_booking_db =
  (NewClaim (ex_uuid CHR ''1'') 1, empty_booking_db\<lparr>bk_requests :=
     [\<lparr>rr_scope = scope_of ex_request, rr_fingerprint = ''f'', rr_bookingId = ex_uuid CHR ''1'',
       rr_state = CAPTURING, rr_fence = 1, rr_leaseUntil = 30000\<rparr>]\<rparr>)"
  by (simp add: claimRequest_def numeral_eq_Suc claim_round_def empty_booking_db_def ex_request_def)

lemma ex_inserted: "insertBooking ex_booking (newSaga (b_id ex_booking) 0) ex_request 1 ex_audit
    (snd (claimRequest ex_request (ex_uuid CHR ''1'') 0 30000 empty_booking_db)) =
  (CREATED, ex_shape ex_booking ex_s0 None None [] [ex_audit])"
  unfolding ex_claimed snd_conv
  by (simp add: insertBooking_def empty_booking_db_def booking_conflict_def store_eval ex_booking_def
      ex_saga_defs ex_audit_def)

lemma ex_leased: "lease_update (ex_uuid CHR ''1'') ''api'' 5 30000 (ex_shape ex_booking ex_s0 None None [] [ex_audit]) =
  (Some ex_lease, ex_shape ex_booking ex_s1 (Some ''api'') (Some 30005) [] [ex_audit])"
  by (simp add: lease_update_def store_eval ex_saga_defs saga_live_def lease_free_def take_lease_def ex_lease_def)

lemma ex_read: "find_booking (ex_uuid CHR ''1'') (ex_shape ex_booking ex_s1 who until out aud) = Some ex_rec"
  by (simp add: find_booking_def store_eval ex_rec_def ex_booking_def ex_saga_defs)

lemma ex_quoted: "answer ex_rec ex_s1 ex_lease ex_env 30000 (ex_shape ex_booking ex_s1 (Some ''api'') (Some 30005) [] [ex_audit]) =
  (Inr (Some ex_s2), ex_shape ex_booking ex_s2 (Some ''api'') (Some 30010) [] [ex_audit])"
  by (simp add: answer_def persist_def decide_def onQuoteChecked_def quote_check_of_def expectStep_def totalMatches_def
      sameMoney_def isTerminal_def store_eval ex_saga_defs advance_def ex_env_def ex_rec_def ex_lease_def ex_booking_def)

lemma ex_obliged: "answer ex_rec ex_s2 ex_lease ex_env 30000 (ex_shape ex_booking ex_s2 (Some ''api'') (Some 30010) [] [ex_audit]) =
  (Inr (Some ex_s3), ex_shape ex_booking ex_s3 (Some ''api'') (Some 30010) [] [ex_audit])"
  by (simp add: answer_def persist_def decide_def onObligation_def expectStep_def
      isTerminal_def store_eval ex_saga_defs advance_def ex_env_def ex_rec_def ex_lease_def)

lemma ex_marked: "mark_pivot ex_s3 ex_lease 10 30000 (ex_shape ex_booking ex_s3 (Some ''api'') (Some 30010) [] [ex_audit]) =
  (Inr (Some ex_s4), ex_shape ex_booking ex_s4 (Some ''api'') (Some 30010) [] [ex_audit])"
  by (simp add: mark_pivot_def beginCommit_def expectStep_def store_eval ex_saga_defs advance_def ex_lease_def)

lemma ex_committed: "answer ex_rec ex_s4 ex_lease ex_env 30000 (ex_shape ex_booking ex_s4 (Some ''api'') (Some 30010) [] [ex_audit]) =
  (Inr (Some ex_s5), ex_shape ex_confirmed_booking ex_s5 None None [ex_event] [ex_audit, ex_done])"
  by (simp add: answer_def persist_def decide_def onCommit_def commit_result_of_def expectStep_def matchesRequestedSlot_def
      committed_slot_def isTerminal_def finish_saga_def final_booking_def confirmBooking_def transition_to_def
      transitionBooking_def version_of_def created_event_def bookingCreatedEvent_def finish_def update_booking_def
      finished_row_def stored_slot_def MAX_SAFE_INTEGER_def valid_traceparent_def event_uuid_def
      store_eval ex_saga_defs advance_def ex_env_def ex_rec_def ex_lease_def ex_booking_def ex_slot_def ex_input_def
      ex_principal_def ex_quote_def ex_confirmed_booking_def ex_event_def ex_done_def)

definition ex_state :: "booking \<Rightarrow> saga \<Rightarrow> string option \<Rightarrow> instant option \<Rightarrow> booking_event list \<Rightarrow> audit_fact list \<Rightarrow>
  saga_worker list \<Rightarrow> call_entry list \<Rightarrow> creation_state" where
  "ex_state b s who until out aud ws cs = \<lparr>cs_db = ex_shape b s who until out aud, cs_workers = ws, cs_calls = cs\<rparr>"

definition ex_calls :: "call_entry list" where
  "ex_calls =
     [Sent (ex_uuid CHR ''1'') VALIDATE_QUOTE, AnsweredQuote (ex_uuid CHR ''1'') (ValidTotal ex_money),
      Sent (ex_uuid CHR ''1'') CREATE_OBLIGATION,
      AnsweredObligation (ex_uuid CHR ''1'') (ObligationCreated ''obligation-1''),
      Sent (ex_uuid CHR ''1'') COMMIT_HOLD, AnsweredCommit (ex_uuid CHR ''1'') (HoldCommitted ex_slot)]"

definition ex_end :: creation_state where
  "ex_end = ex_state ex_confirmed_booking ex_s5 None None [ex_event] [ex_audit, ex_done] [Running ex_rec ex_s5 ex_lease] ex_calls"

definition ex_init :: creation_state where
  "ex_init = \<lparr>cs_db = empty_booking_db, cs_workers = [], cs_calls = []\<rparr>"

lemma ex_steps_live [simp]:
  "\<not> isTerminal (sg_step ex_s1)" "\<not> isTerminal (sg_step ex_s2)" "\<not> isTerminal (sg_step ex_s3)"
  by (simp_all add: isTerminal_def ex_saga_defs advance_def)

lemma ex_ids: "sg_bookingId ex_s1 = ex_uuid CHR ''1''" "sg_bookingId ex_s2 = ex_uuid CHR ''1''"
  "sg_bookingId ex_s3 = ex_uuid CHR ''1''" "sg_step ex_s1 = VALIDATE_QUOTE" "sg_step ex_s2 = CREATE_OBLIGATION"
  "sg_step ex_s3 = COMMIT_HOLD"
  by (simp_all add: ex_saga_defs advance_def)

lemma ex_entries:
  "answer_entry ex_s1 ex_env = AnsweredQuote (ex_uuid CHR ''1'') (ValidTotal ex_money)"
  "answer_entry ex_s2 ex_env = AnsweredObligation (ex_uuid CHR ''1'') (ObligationCreated ''obligation-1'')"
  "answer_entry ex_s4 ex_env = AnsweredCommit (ex_uuid CHR ''1'') (HoldCommitted ex_slot)"
  by (simp_all add: answer_entry_def ex_saga_defs advance_def ex_env_def)

lemma ex_call_first: "mark_pivot s l now ms db = (Inr (Some s), db)" if "sg_step s \<noteq> COMMIT_HOLD" for s
  using that by (simp add: mark_pivot_def)

lemma ex_reached1:
  "(creation_move 30000)\<^sup>*\<^sup>* ex_init
     (ex_state ex_booking ex_s1 (Some ''api'') (Some 30005) [] [ex_audit] [Running ex_rec ex_s1 ex_lease] [])"
proof -
  let ?db1 = "snd (claimRequest ex_request (ex_uuid CHR ''1'') 0 30000 empty_booking_db)"
  have 1: "creation_move 30000 ex_init \<lparr>cs_db = ?db1, cs_workers = [], cs_calls = []\<rparr>"
    unfolding ex_init_def by (rule creation_move.claim) (rule prod.collapse [symmetric])
  have 2: "creation_move 30000 \<lparr>cs_db = ?db1, cs_workers = [], cs_calls = []\<rparr>
      (ex_state ex_booking ex_s0 None None [] [ex_audit] [] [])"
    unfolding ex_state_def by (rule creation_move.insert [OF ex_created ex_inserted])
  have 3: "creation_move 30000 (ex_state ex_booking ex_s0 None None [] [ex_audit] [] [])
      (ex_state ex_booking ex_s1 (Some ''api'') (Some 30005) [] [ex_audit] [Leased (ex_uuid CHR ''1'') ex_lease] [])"
    unfolding ex_state_def by (rule creation_move.lease [OF ex_leased])
  have 4: "creation_move 30000
      (ex_state ex_booking ex_s1 (Some ''api'') (Some 30005) [] [ex_audit] [Leased (ex_uuid CHR ''1'') ex_lease] [])
      (ex_state ex_booking ex_s1 (Some ''api'') (Some 30005) [] [ex_audit] [Running ex_rec ex_s1 ex_lease] [])"
    unfolding ex_state_def
    using creation_move.read [OF ex_read [of "Some ''api''" "Some 30005" "[]" "[ex_audit]"], of 30000 "[]" ex_lease "[]" "[]"]
    by (simp add: ex_rec_def)
  show ?thesis using 1 2 3 4 by (meson rtranclp.rtrancl_refl rtranclp.rtrancl_into_rtrancl)
qed

lemma two_steps: "r a b \<Longrightarrow> r b c \<Longrightarrow> r\<^sup>*\<^sup>* a c"
  by (rule rtranclp.rtrancl_into_rtrancl) (rule r_into_rtranclp)

lemma ex_call_and_answer:
  assumes "\<not> isTerminal (sg_step s)" and "mark_pivot s ex_lease 10 30000 (ex_shape b s who until out aud) = (Inr (Some s'), db')"
    and "answer ex_rec s' ex_lease env 30000 db' = (Inr (Some nxt), ex_shape b2 nxt who2 until2 out2 aud2)"
  shows "(creation_move 30000)\<^sup>*\<^sup>* (ex_state b s who until out aud [Running ex_rec s ex_lease] cs)
    (ex_state b2 nxt who2 until2 out2 aud2 [Running ex_rec nxt ex_lease]
       (cs @ [Sent (sg_bookingId s) (sg_step s), answer_entry s' env]))"
proof -
  have 1: "creation_move 30000 (ex_state b s who until out aud [Running ex_rec s ex_lease] cs)
      \<lparr>cs_db = db', cs_workers = [Calling ex_rec s' ex_lease], cs_calls = cs @ [Sent (sg_bookingId s) (sg_step s)]\<rparr>"
    unfolding ex_state_def using creation_move.call [OF assms(1,2), of "[]" ex_rec "[]" cs] by simp
  have 2: "creation_move 30000
      \<lparr>cs_db = db', cs_workers = [Calling ex_rec s' ex_lease], cs_calls = cs @ [Sent (sg_bookingId s) (sg_step s)]\<rparr>
      (ex_state b2 nxt who2 until2 out2 aud2 [Running ex_rec nxt ex_lease]
         ((cs @ [Sent (sg_bookingId s) (sg_step s)]) @ [answer_entry s' env]))"
    unfolding ex_state_def using creation_move.answered [OF assms(3), of "[]" "[]" "cs @ [Sent (sg_bookingId s) (sg_step s)]"] by simp
  show ?thesis using two_steps [where r = "creation_move 30000", OF 1 2] by simp
qed

lemma ex_reached: "(creation_move 30000)\<^sup>*\<^sup>* ex_init ex_end"
proof -
  note q = ex_call_and_answer [OF ex_steps_live(1) ex_call_first ex_quoted, of "[]"]
  note o = ex_call_and_answer [OF ex_steps_live(2) ex_call_first ex_obliged]
  note c = ex_call_and_answer [OF ex_steps_live(3) ex_marked ex_committed]
  note q' = q [unfolded ex_ids ex_entries append_Nil]
  note o' = o [unfolded ex_ids ex_entries]
  note c' = c [unfolded ex_ids ex_entries]
  show ?thesis
    using rtranclp_trans [OF rtranclp_trans [OF rtranclp_trans [OF ex_reached1 q'] o'] c']
    by (simp add: ex_end_def ex_calls_def)
qed

lemma run_of_moves: "(creation_move ms)\<^sup>*\<^sup>* a b \<Longrightarrow> (creation_step ms)\<^sup>*\<^sup>* a b"
  by (induction rule: rtranclp_induct) (auto intro: rtranclp.rtrancl_into_rtrancl creation_step.own)

lemma ex_init_ok: "creation_init ex_init"
  by (simp add: creation_init_def ex_init_def)

section \<open>Properties of booking creation\<close>

text \<open>
  C11. Whatever the workers do, a booking has exactly one \<^verbatim>\<open>booking.created.v1\<close> event in the
  outbox once it was confirmed (also after it was later changed or cancelled), and none before or
  when it was rejected.
\<close>

theorem created_event_exactly_once:
  assumes "creation_init s0" and "(creation_step ms)\<^sup>*\<^sup>* s0 st" and "b \<in> set (bk_bookings (cs_db st))"
  shows "created_count (bk_outbox (cs_db st)) (b_id b) =
    (if b_status b \<in> {PENDING_CONFIRMATION, booking_state.REJECTED} then 0 else 1)"
proof -
  obtain s where "consistent (cs_calls st) (bk_outbox (cs_db st)) s b" by (rule reachable_rows [OF assms(2,1,3)])
  then show ?thesis by (auto simp: consistent_def status_ok_def confirmed_ok_def split: if_splits)
qed

theorem created_event_exactly_once_witness:
  "created_count (bk_outbox (cs_db ex_end)) (b_id ex_confirmed_booking) = 1"
  using created_event_exactly_once [OF ex_init_ok run_of_moves [OF ex_reached], of ex_confirmed_booking]
  by (simp add: ex_end_def ex_state_def ex_shape_def ex_confirmed_booking_def)

text \<open>
  C12. A confirmed booking has the slot its customer asked for, Scheduling answered that this slot is
  committed to it, and Billing answered that its obligation was created.
\<close>

theorem confirmed_only_when_committed:
  assumes "creation_init s0" and "(creation_step ms)\<^sup>*\<^sup>* s0 st" and "b \<in> set (bk_bookings (cs_db st))"
    and "b_status b \<notin> {PENDING_CONFIRMATION, booking_state.REJECTED}"
  shows "\<exists>slot oid. b_slot b = Some slot \<and> matchesRequestedSlot b slot \<and>
    AnsweredCommit (b_id b) (HoldCommitted slot) \<in> set (cs_calls st) \<and>
    AnsweredObligation (b_id b) (ObligationCreated oid) \<in> set (cs_calls st)"
proof -
  obtain s where c: "consistent (cs_calls st) (bk_outbox (cs_db st)) s b" by (rule reachable_rows [OF assms(2,1,3)])
  then have ok: "confirmed_ok (cs_calls st) (bk_outbox (cs_db st)) b" and st: "sg_step s = saga_step.DONE"
    "sg_outcome s = Some saga_outcome.CONFIRMED"
    using assms(4) by (auto simp: consistent_def status_ok_def split: if_splits)
  obtain oid where "sg_obligationId s = Some oid" using c st by (auto simp: consistent_def saga_inv_def)
  then have "AnsweredObligation (b_id b) (ObligationCreated oid) \<in> set (cs_calls st)"
    using c by (auto simp: consistent_def log_ok_def)
  with ok show ?thesis by (auto simp: confirmed_ok_def)
qed

theorem confirmed_only_when_committed_witness:
  "\<exists>slot oid. b_slot ex_confirmed_booking = Some slot \<and> matchesRequestedSlot ex_confirmed_booking slot \<and>
    AnsweredCommit (b_id ex_confirmed_booking) (HoldCommitted slot) \<in> set (cs_calls ex_end) \<and>
    AnsweredObligation (b_id ex_confirmed_booking) (ObligationCreated oid) \<in> set (cs_calls ex_end)"
  by (rule confirmed_only_when_committed [OF ex_init_ok run_of_moves [OF ex_reached]])
    (simp_all add: ex_end_def ex_state_def ex_shape_def ex_confirmed_booking_def)

section \<open>Example: a worker that was superseded, and a booking that was given up\<close>

text \<open>The quote service does not answer until the deadline; another worker has taken the saga over.\<close>

definition ex_late :: step_env where
  "ex_late = ex_env\<lparr>se_quote := QuoteServiceDown ''TIMEOUT'', se_now := 700000, se_finishNow := 700000\<rparr>"

definition ex_s1b :: saga where "ex_s1b = ex_s0\<lparr>sg_fence := 2\<rparr>"
definition ex_lease2 :: lease where "ex_lease2 = \<lparr>le_owner = ''worker'', le_fence = 2\<rparr>"

definition ex_taken :: creation_state where
  "ex_taken = ex_state ex_booking ex_s1b (Some ''worker'') (Some 70000) [] [ex_audit]
     [Leased (ex_uuid CHR ''1'') ex_lease2, Calling ex_rec ex_s1 ex_lease] [Sent (ex_uuid CHR ''1'') VALIDATE_QUOTE]"

definition ex_mid :: creation_state where
  "ex_mid = ex_state ex_booking ex_s1 (Some ''api'') (Some 30005) [] [ex_audit] [Calling ex_rec ex_s1 ex_lease]
     [Sent (ex_uuid CHR ''1'') VALIDATE_QUOTE]"

lemma ex_called: "creation_move 30000
  (ex_state ex_booking ex_s1 (Some ''api'') (Some 30005) [] [ex_audit] [Running ex_rec ex_s1 ex_lease] []) ex_mid"
proof -
  have m: "mark_pivot ex_s1 ex_lease 10 30000 db = (Inr (Some ex_s1), db)" for db
    by (rule ex_call_first) (simp add: ex_ids)
  show ?thesis unfolding ex_mid_def ex_state_def
    using creation_move.call [OF ex_steps_live(1) m, of _ "[]" ex_rec "[]" "[]"] by (simp add: ex_ids)
qed

lemma ex_taken_over: "lease_update (ex_uuid CHR ''1'') ''worker'' 40000 30000
    (ex_shape ex_booking ex_s1 (Some ''api'') (Some 30005) [] [ex_audit]) =
  (Some ex_lease2, ex_shape ex_booking ex_s1b (Some ''worker'') (Some 70000) [] [ex_audit])"
  by (simp add: lease_update_def store_eval ex_saga_defs ex_s1b_def saga_live_def lease_free_def take_lease_def ex_lease2_def)

lemma ex_taken_reached: "(creation_move 30000)\<^sup>*\<^sup>* ex_init ex_taken"
proof -
  have 2: "creation_move 30000 ex_mid ex_taken"
    unfolding ex_mid_def ex_taken_def ex_state_def by (rule creation_move.lease [OF ex_taken_over])
  show ?thesis by (rule rtranclp_trans [OF ex_reached1 two_steps [where r = "creation_move 30000", OF ex_called 2]])
qed

definition ex_gone :: saga where
  "ex_gone = advance ex_s1 saga_step.DONE 700000 (\<lambda>s. s\<lparr>sg_outcome := Some saga_outcome.REJECTED,
     sg_pendingRejection := Some DEADLINE_EXCEEDED\<rparr>)"

definition ex_rejected :: booking where
  "ex_rejected = ex_booking\<lparr>b_status := booking_state.REJECTED, b_version := 2,
     b_rejectionReason := Some DEADLINE_EXCEEDED, b_updatedAt := 700000\<rparr>"

definition ex_gone_audit :: audit_fact where
  "ex_gone_audit = \<lparr>af_action = ''booking.rejected'', af_actor = SAGA_ACTOR, af_bookingId = ex_uuid CHR ''1'',
     af_correlationId = ex_uuid CHR ''c'',
     af_details = SagaDetails booking_state.REJECTED (Some DEADLINE_EXCEEDED) None None\<rparr>"

definition ex_gone_state :: creation_state where
  "ex_gone_state = ex_state ex_rejected ex_gone None None [] [ex_audit, ex_gone_audit] [Running ex_rec ex_gone ex_lease]
     [Sent (ex_uuid CHR ''1'') VALIDATE_QUOTE, AnsweredQuote (ex_uuid CHR ''1'') (QuoteServiceDown ''TIMEOUT'')]"

lemma ex_given_up: "answer ex_rec ex_s1 ex_lease ex_late 30000 (ex_shape ex_booking ex_s1 (Some ''api'') (Some 30005) [] [ex_audit]) =
  (Inr (Some ex_gone), ex_shape ex_rejected ex_gone None None [] [ex_audit, ex_gone_audit])"
  by (simp add: answer_def persist_def decide_def onQuoteChecked_def quote_check_of_def expectStep_def retryBeforePivot_def
      rejectOrCompensate_def isTerminal_def finish_saga_def final_booking_def rejectBooking_def transition_to_def
      transitionBooking_def version_of_def created_event_def finish_def update_booking_def finished_row_def MAX_SAFE_INTEGER_def
      store_eval ex_saga_defs ex_gone_def advance_def ex_env_def ex_late_def ex_rec_def ex_lease_def ex_booking_def
      ex_rejected_def ex_gone_audit_def)

lemma ex_gone_reached: "(creation_move 30000)\<^sup>*\<^sup>* ex_init ex_gone_state"
proof -
  have e: "answer_entry ex_s1 ex_late = AnsweredQuote (ex_uuid CHR ''1'') (QuoteServiceDown ''TIMEOUT'')"
    by (simp add: answer_entry_def ex_ids ex_late_def)
  have 2: "creation_move 30000 ex_mid ex_gone_state"
    unfolding ex_mid_def ex_gone_state_def ex_state_def
    using creation_move.answered [OF ex_given_up, of "[]" "[]" "[Sent (ex_uuid CHR ''1'') VALIDATE_QUOTE]"] by (simp add: e)
  show ?thesis by (rule rtranclp_trans [OF ex_reached1 two_steps [where r = "creation_move 30000", OF ex_called 2]])
qed

text \<open>
  C13. A booking that was rejected because its deadline passed was never sent to Scheduling for its
  commit, by any worker: once the commit may have left, time alone no longer rejects.
\<close>

theorem deadline_rejection_never_committed:
  assumes "creation_init s0" and "(creation_step ms)\<^sup>*\<^sup>* s0 st" and "b \<in> set (bk_bookings (cs_db st))"
    and "b_status b = booking_state.REJECTED" and "b_rejectionReason b = Some DEADLINE_EXCEEDED"
  shows "Sent (b_id b) COMMIT_HOLD \<notin> set (cs_calls st)"
proof -
  obtain s where c: "consistent (cs_calls st) (bk_outbox (cs_db st)) s b" by (rule reachable_rows [OF assms(2,1,3)])
  have "sg_step s = saga_step.DONE" "sg_outcome s = Some saga_outcome.REJECTED" "sg_pendingRejection s = Some DEADLINE_EXCEEDED"
    using c assms(4,5) by (auto simp: consistent_def status_ok_def confirmed_ok_def saga_inv_def split: if_splits)
  with c show ?thesis by (auto simp: consistent_def saga_inv_def log_ok_def)
qed

theorem deadline_rejection_never_committed_witness:
  "Sent (ex_uuid CHR ''1'') COMMIT_HOLD \<notin> set (cs_calls ex_gone_state)"
  using deadline_rejection_never_committed [OF ex_init_ok run_of_moves [OF ex_gone_reached], of ex_rejected]
  by (simp add: ex_gone_state_def ex_state_def ex_shape_def ex_rejected_def ex_booking_def)

definition ex_refusing :: step_env where
  "ex_refusing = ex_env\<lparr>se_obligation := ObligationRejected\<rparr>"

definition ex_refused_saga :: saga where
  "ex_refused_saga = advance ex_s2 saga_step.DONE 10 (\<lambda>s. s\<lparr>sg_outcome := Some saga_outcome.REJECTED,
     sg_pendingRejection := Some OBLIGATION_REJECTED\<rparr>)"

definition ex_refused :: booking where
  "ex_refused = ex_booking\<lparr>b_status := booking_state.REJECTED, b_version := 2,
     b_rejectionReason := Some OBLIGATION_REJECTED, b_updatedAt := 10\<rparr>"

definition ex_refused_audit :: audit_fact where
  "ex_refused_audit = \<lparr>af_action = ''booking.rejected'', af_actor = SAGA_ACTOR, af_bookingId = ex_uuid CHR ''1'',
     af_correlationId = ex_uuid CHR ''c'',
     af_details = SagaDetails booking_state.REJECTED (Some OBLIGATION_REJECTED) None None\<rparr>"

definition ex_refused_state :: creation_state where
  "ex_refused_state = ex_state ex_refused ex_refused_saga None None [] [ex_audit, ex_refused_audit]
     [Running ex_rec ex_refused_saga ex_lease]
     [Sent (ex_uuid CHR ''1'') VALIDATE_QUOTE, AnsweredQuote (ex_uuid CHR ''1'') (ValidTotal ex_money),
      Sent (ex_uuid CHR ''1'') CREATE_OBLIGATION, AnsweredObligation (ex_uuid CHR ''1'') ObligationRejected]"

lemma ex_obligation_refused:
  "answer ex_rec ex_s2 ex_lease ex_refusing 30000 (ex_shape ex_booking ex_s2 (Some ''api'') (Some 30010) [] [ex_audit]) =
  (Inr (Some ex_refused_saga), ex_shape ex_refused ex_refused_saga None None [] [ex_audit, ex_refused_audit])"
  by (simp add: answer_def persist_def decide_def onObligation_def expectStep_def
      isTerminal_def finish_saga_def final_booking_def rejectBooking_def transition_to_def
      transitionBooking_def version_of_def created_event_def finish_def update_booking_def finished_row_def MAX_SAFE_INTEGER_def
      store_eval ex_saga_defs ex_refused_saga_def advance_def ex_env_def ex_refusing_def ex_rec_def ex_lease_def ex_booking_def
      ex_refused_def ex_refused_audit_def)

lemma ex_refused_reached: "(creation_move 30000)\<^sup>*\<^sup>* ex_init ex_refused_state"
proof -
  have e: "answer_entry ex_s2 ex_refusing = AnsweredObligation (ex_uuid CHR ''1'') ObligationRejected"
    by (simp add: answer_entry_def ex_ids ex_refusing_def)
  note q = ex_call_and_answer [OF ex_steps_live(1) ex_call_first ex_quoted, of "[]", unfolded ex_ids ex_entries append_Nil]
  note r = ex_call_and_answer [OF ex_steps_live(2) ex_call_first ex_obligation_refused, unfolded ex_ids e]
  show ?thesis using rtranclp_trans [OF rtranclp_trans [OF ex_reached1 q] r] by (simp add: ex_refused_state_def)
qed

text \<open>
  C14. A rejected booking leaves no obligation behind: if the creation of its obligation was ever
  sent, by any worker, then Billing refused it or Billing confirmed that it is void.
\<close>

theorem rejected_leaves_no_obligation:
  assumes "creation_init s0" and "(creation_step ms)\<^sup>*\<^sup>* s0 st" and "b \<in> set (bk_bookings (cs_db st))"
    and "b_status b = booking_state.REJECTED" and "Sent (b_id b) CREATE_OBLIGATION \<in> set (cs_calls st)"
  shows "AnsweredObligation (b_id b) ObligationRejected \<in> set (cs_calls st) \<or>
    AnsweredVoid (b_id b) Voided \<in> set (cs_calls st)"
proof -
  obtain s where c: "consistent (cs_calls st) (bk_outbox (cs_db st)) s b" by (rule reachable_rows [OF assms(2,1,3)])
  have "sg_outcome s = Some saga_outcome.REJECTED"
    using c assms(4) by (auto simp: consistent_def status_ok_def confirmed_ok_def saga_inv_def split: if_splits)
  with c assms(5) show ?thesis by (auto simp: consistent_def log_ok_def past_create_def)
qed

theorem rejected_leaves_no_obligation_witness:
  "AnsweredObligation (ex_uuid CHR ''1'') ObligationRejected \<in> set (cs_calls ex_refused_state) \<or>
    AnsweredVoid (ex_uuid CHR ''1'') Voided \<in> set (cs_calls ex_refused_state)"
  using rejected_leaves_no_obligation [OF ex_init_ok run_of_moves [OF ex_refused_reached], of ex_refused]
  by (simp add: ex_refused_state_def ex_state_def ex_shape_def ex_refused_def ex_booking_def)

text \<open>The writes of a worker whose fence is no longer the saga's.\<close>

lemma superseded_answer:
  assumes "creation_init s0" and "(creation_step ms)\<^sup>*\<^sup>* s0 st" and "Calling rec s l \<in> set (cs_workers st)"
    and "\<forall>r \<in> set (bk_sagas (cs_db st)). sr_bookingId r = sg_bookingId s \<longrightarrow> sg_fence (sr_saga r) \<noteq> le_fence l"
  shows "snd (answer rec s l env ms (cs_db st)) = cs_db st \<and> (\<forall>nxt. fst (answer rec s l env ms (cs_db st)) \<noteq> Inr (Some nxt))"
proof -
  have inv: "creation_inv st" by (rule creation.reachable_inv [OF assms(1,2)])
  obtain us vs where ws: "cs_workers st = us @ Calling rec s l # vs" using assms(3) by (meson split_list)
  obtain db cs where st: "st = \<lparr>cs_db = db, cs_workers = us @ Calling rec s l # vs, cs_calls = cs\<rparr>"
    using ws by (cases st) simp
  have inv': "creation_inv \<lparr>cs_db = db, cs_workers = us @ Calling rec s l # vs, cs_calls = cs\<rparr>" using inv st by simp
  obtain res db' where a: "answer rec s l env ms db = (res, db')" by (cases "answer rec s l env ms db")
  have lost: "\<not> fst (writeSaga x l rel ms db)" if x: "sg_bookingId x = sg_bookingId s" for x rel
  proof -
    have "filter (saga_fenced x l) (bk_sagas db) = []" using assms(4) x st by (auto simp: filter_empty_conv saga_fenced_def)
    then show ?thesis by (simp add: writeSaga_def)
  qed
  have sid: "saga_inv s"
  proof -
    have "sg_bookingId s \<in> sr_bookingId ` set (bk_sagas db)" "worker_ok cs db (Calling rec s l)"
      using inv' by (simp_all add: creation_inv_def sagas.fenced_inv_def sagas.in_step_def)
    then show ?thesis by (auto simp: informed_def)
  qed
  have "res \<noteq> Inr (Some nxt)" for nxt
  proof
    assume "res = Inr (Some nxt)"
    then obtain slot where d: "decide (br_booking rec) s env = Inr (nxt, slot)"
      and p: "persist rec nxt l slot env ms db = (Inr (Some nxt), db')"
      using a by (auto simp: answer_def persist_def split: sum.splits prod.splits if_splits bool.splits)
    have nid: "sg_bookingId nxt = sg_bookingId s" using decide_spec(2) [OF d sid] .
    show False using p lost [OF nid, of False] lost [OF nid, of True]
      by (auto simp: persist_def saveSaga_def finish_saga_def finish_def split: prod.splits sum.splits if_splits bool.splits)
  qed
  moreover from this have "db' = db" using answer_not_done [OF inv' a] by blast
  ultimately show ?thesis using a st by simp
qed

lemma superseded_write:
  assumes "\<forall>r \<in> set (bk_sagas db). sr_bookingId r = sg_bookingId x \<longrightarrow> sg_fence (sr_saga r) \<noteq> le_fence l"
  shows "saveSaga x l rel ms db = (False, db)"
proof -
  have none: "\<not> saga_fenced x l r" if "r \<in> set (bk_sagas db)" for r using assms that by (auto simp: saga_fenced_def)
  then have "update_rows (saga_fenced x l) f (bk_sagas db) = bk_sagas db" for f
    unfolding update_rows_def by (intro map_idI) auto
  moreover have "filter (saga_fenced x l) (bk_sagas db) = []" using none by (auto simp: filter_empty_conv)
  ultimately show ?thesis by (simp add: saveSaga_def writeSaga_def)
qed

lemma superseded_mark:
  assumes lost: "\<forall>r \<in> set (bk_sagas db). sr_bookingId r = sg_bookingId s \<longrightarrow> sg_fence (sr_saga r) \<noteq> le_fence l"
    and m: "mark_pivot s l now ms db = (res, db')"
  shows "db' = db" and "res = Inr (Some s') \<Longrightarrow> s' = s \<and> (sg_step s = COMMIT_HOLD \<longrightarrow> sg_pivotAttempted s)"
proof -
  have "saveSaga x l False ms db = (False, db)" if "beginCommit s now = Inr x" for x
    using that lost by (intro superseded_write) (auto simp: beginCommit_def saga_defs split: if_splits)
  then show "db' = db" and "res = Inr (Some s') \<Longrightarrow> s' = s \<and> (sg_step s = COMMIT_HOLD \<longrightarrow> sg_pivotAttempted s)"
    using m by (auto simp: mark_pivot_def split: if_splits sum.splits)
qed

text \<open>
  C15. A worker whose saga another worker has taken over changes nothing. One that is between two
  calls cannot give the saga back or release it, cannot mark the pivot (so it never sends the first
  commit), and a whole further step of it, whatever it is answered, leaves the database as it is;
  one that waits for an answer writes neither the saga nor the booking and publishes nothing,
  whatever it is answered. (A worker that has only leased the saga reads it and writes nothing.)
\<close>

theorem superseded_worker_changes_nothing:
  assumes "creation_init s0" and "(creation_step ms)\<^sup>*\<^sup>* s0 st" and "w \<in> set (cs_workers st)"
    and "worker_view w = (i, l, v)"
    and "\<forall>r \<in> set (bk_sagas (cs_db st)). sr_bookingId r = i \<longrightarrow> sg_fence (sr_saga r) \<noteq> le_fence l"
  shows "(\<forall>rec s. w = Running rec s l \<longrightarrow>
      saveSaga s l True ms (cs_db st) = (False, cs_db st) \<and>
      snd (mark_pivot s l now ms (cs_db st)) = cs_db st \<and>
      (sg_step s = COMMIT_HOLD \<and> \<not> sg_pivotAttempted s \<longrightarrow>
         (\<forall>s'. fst (mark_pivot s l now ms (cs_db st)) \<noteq> Inr (Some s'))) \<and>
      snd (pm_step rec s l env ms (cs_db st)) = cs_db st) \<and>
    (\<forall>rec s. w = Calling rec s l \<longrightarrow>
      snd (answer rec s l env ms (cs_db st)) = cs_db st \<and>
      (\<forall>nxt. fst (answer rec s l env ms (cs_db st)) \<noteq> Inr (Some nxt)))"
proof -
  let ?db = "cs_db st"
  have run: "saveSaga s l True ms ?db = (False, ?db) \<and> snd (mark_pivot s l now ms ?db) = ?db \<and>
      (sg_step s = COMMIT_HOLD \<and> \<not> sg_pivotAttempted s \<longrightarrow>
         (\<forall>s'. fst (mark_pivot s l now ms ?db) \<noteq> Inr (Some s'))) \<and>
      snd (pm_step rec s l env ms ?db) = ?db" if w: "w = Running rec s l" for rec s
  proof -
    have lost: "\<forall>r \<in> set (bk_sagas ?db). sr_bookingId r = sg_bookingId s \<longrightarrow> sg_fence (sr_saga r) \<noteq> le_fence l"
      using assms(4,5) w by simp
    obtain us vs where ws: "cs_workers st = us @ Running rec s l # vs" using assms(3) w by (meson split_list)
    have st: "st = \<lparr>cs_db = ?db, cs_workers = us @ Running rec s l # vs, cs_calls = cs_calls st\<rparr>"
      using ws by (cases st) simp
    obtain m db' where m: "mark_pivot s l now ms ?db = (m, db')" by fastforce
    obtain m2 db2 where m2: "mark_pivot s l (se_markNow env) ms ?db = (m2, db2)" by fastforce
    have step: "snd (answer rec s l env ms ?db) = ?db" if "\<not> isTerminal (sg_step s)" "m2 = Inr (Some s')" for s'
    proof -
      have same: "db2 = ?db" "s' = s"
        using superseded_mark(1) [OF lost m2] superseded_mark(2) [OF lost m2 that(2)] by auto
      have "creation_move ms st \<lparr>cs_db = ?db, cs_workers = us @ Calling rec s l # vs,
          cs_calls = cs_calls st @ [Sent (sg_bookingId s) (sg_step s)]\<rparr>"
        by (subst st, rule creation_move.call [OF that(1)]) (use m2 that(2) same in simp)
      then have "(creation_step ms)\<^sup>*\<^sup>* s0 \<lparr>cs_db = ?db, cs_workers = us @ Calling rec s l # vs,
          cs_calls = cs_calls st @ [Sent (sg_bookingId s) (sg_step s)]\<rparr>"
        using assms(2) by (meson creation_step.own rtranclp.rtrancl_into_rtrancl)
      from superseded_answer [OF assms(1) this, of rec s l env] lost show ?thesis by simp
    qed
    have "snd (pm_step rec s l env ms ?db) = ?db"
      using m2 superseded_mark [OF lost m2] step
      by (auto simp: pm_step_def split: sum.splits option.splits)
    then show ?thesis
      using superseded_write [OF lost] superseded_mark(1) [OF lost m] superseded_mark(2) [OF lost m] m by auto
  qed
  have "snd (answer rec s l env ms ?db) = ?db \<and> (\<forall>nxt. fst (answer rec s l env ms ?db) \<noteq> Inr (Some nxt))"
    if "w = Calling rec s l" for rec s
    using superseded_answer [OF assms(1,2)] assms(3-5) that by simp
  with run show ?thesis by blast
qed

text \<open>The worker of the example, taken over between two calls and while it waits for an answer.\<close>

definition ex_taken_running :: creation_state where
  "ex_taken_running = ex_state ex_booking ex_s1b (Some ''worker'') (Some 70000) [] [ex_audit]
     [Leased (ex_uuid CHR ''1'') ex_lease2, Running ex_rec ex_s1 ex_lease] []"

lemma ex_taken_running_reached: "(creation_move 30000)\<^sup>*\<^sup>* ex_init ex_taken_running"
proof -
  have "creation_move 30000 (ex_state ex_booking ex_s1 (Some ''api'') (Some 30005) [] [ex_audit]
      [Running ex_rec ex_s1 ex_lease] []) ex_taken_running"
    unfolding ex_taken_running_def ex_state_def by (rule creation_move.lease [OF ex_taken_over])
  with ex_reached1 show ?thesis by (rule rtranclp.rtrancl_into_rtrancl)
qed

theorem superseded_worker_changes_nothing_witness:
  "snd (answer ex_rec ex_s1 ex_lease ex_env 30000 (cs_db ex_taken)) = cs_db ex_taken \<and>
   saveSaga ex_s1 ex_lease True 30000 (cs_db ex_taken_running) = (False, cs_db ex_taken_running) \<and>
   snd (pm_step ex_rec ex_s1 ex_lease ex_env 30000 (cs_db ex_taken_running)) = cs_db ex_taken_running"
  using superseded_worker_changes_nothing [OF ex_init_ok run_of_moves [OF ex_taken_reached],
      of "Calling ex_rec ex_s1 ex_lease" _ _ _ 0 ex_env]
    superseded_worker_changes_nothing [OF ex_init_ok run_of_moves [OF ex_taken_running_reached],
      of "Running ex_rec ex_s1 ex_lease" _ _ _ 0 ex_env]
  by (simp add: ex_taken_def ex_taken_running_def ex_state_def ex_shape_def ex_s1b_def ex_s0_def newSaga_def ex_lease_def)

section \<open>The saga\<close>

text \<open>
  C16. Each decision of the process manager refines a move of the abstract machine \<open>saga_spec\<close>
  on the answer it received, and keeps the saga in one of its shapes.
\<close>

theorem decide_refines_machine:
  assumes "saga_inv s" and "decide b s env = Inr (nxt, slot)"
  shows "saga_spec b (core s) (answer_entry s env) (core nxt) \<and> saga_inv nxt \<and> sg_bookingId nxt = sg_bookingId s"
  using decide_spec [OF assms(2,1)] spec_saga_inv assms(1) by blast

lemma ex_decided: "decide ex_booking ex_s1 ex_env = Inr (ex_s2, None)"
  by (simp add: decide_def onQuoteChecked_def quote_check_of_def expectStep_def totalMatches_def sameMoney_def
      ex_saga_defs ex_env_def ex_booking_def)

theorem decide_refines_machine_witness:
  "saga_spec ex_booking (VALIDATE_QUOTE, None, None, None, False)
     (AnsweredQuote (ex_uuid CHR ''1'') (ValidTotal ex_money)) (CREATE_OBLIGATION, None, None, None, False)"
proof -
  have "saga_inv ex_s1" by (simp add: saga_inv_def ex_saga_defs)
  moreover have "core ex_s1 = (VALIDATE_QUOTE, None, None, None, False)" "core ex_s2 = (CREATE_OBLIGATION, None, None, None, False)"
    by (simp_all add: core_def ex_saga_defs advance_def)
  ultimately show ?thesis using decide_refines_machine [OF _ ex_decided] by (simp add: ex_entries)
qed

lemma rejectOrCompensate_simps:
  "sg_pendingRejection (rejectOrCompensate s reason now) = Some reason"
  "sg_step (rejectOrCompensate s reason now) = VOID_OBLIGATION \<or> sg_step (rejectOrCompensate s reason now) = saga_step.DONE"
  by (simp_all add: rejectOrCompensate_def advance_def)

text \<open>
  C17. Before the deadline nothing but an answer ends the saga, and after it no silent service keeps
  a booking waiting: from the deadline on, an attempt that finds the quote or billing service
  unavailable leaves those steps, while an unknown commit is only retried.
\<close>

theorem deadline_decides:
  assumes "saga_inv s" and "decide b s env = Inr (nxt, slot)"
    and "se_quote env = QuoteServiceDown e1" and "se_obligation env = ObligationUnavailable e2"
    and "se_commit env = HoldUnknown e3"
  shows "(sg_step s \<in> {VALIDATE_QUOTE, CREATE_OBLIGATION} \<longrightarrow>
            (if sg_deadlineAt s \<le> se_now env
             then sg_pendingRejection nxt = Some DEADLINE_EXCEEDED \<and> sg_step nxt \<in> {VOID_OBLIGATION, saga_step.DONE}
             else core nxt = core s)) \<and>
         (sg_step s = COMMIT_HOLD \<longrightarrow> core nxt = core s)"
proof (cases "sg_step s")
  case VALIDATE_QUOTE
  with assms rejectOrCompensate_simps(2) [of s DEADLINE_EXCEEDED "se_now env"] show ?thesis
    by (auto simp: decide_def onQuoteChecked_def quote_check_of_def retryBeforePivot_def rejectOrCompensate_simps(1))
next
  case CREATE_OBLIGATION
  with assms rejectOrCompensate_simps(2) [of s DEADLINE_EXCEEDED "se_now env"] show ?thesis
    by (auto simp: decide_def onObligation_def retryBeforePivot_def rejectOrCompensate_simps(1))
next
  case COMMIT_HOLD
  with assms show ?thesis
    by (auto simp: decide_def onCommit_def commit_result_of_def split: if_splits)
qed simp_all

theorem deadline_decides_witness:
  "\<exists>nxt slot. decide ex_booking ex_s1 (ex_late\<lparr>se_obligation := ObligationUnavailable [], se_commit := HoldUnknown []\<rparr>) = Inr (nxt, slot) \<and>
    sg_pendingRejection nxt = Some DEADLINE_EXCEEDED"
proof -
  let ?env = "ex_late\<lparr>se_obligation := ObligationUnavailable [], se_commit := HoldUnknown []\<rparr>"
  have inv: "saga_inv ex_s1" by (simp add: saga_inv_def ex_saga_defs)
  obtain nxt slot where d: "decide ex_booking ex_s1 ?env = Inr (nxt, slot)"
    by (simp add: decide_def onQuoteChecked_def quote_check_of_def expectStep_def ex_ids ex_late_def)
  from deadline_decides [OF inv d, of "''TIMEOUT''" "[]" "[]"] d show ?thesis
    by (auto simp: ex_ids ex_late_def ex_saga_defs)
qed

text \<open>
  C18. A retry waits at least 100 ms, so the loop never spins, and at most 30 seconds before the
  pivot and 5 minutes after it.
\<close>

theorem retry_delay_bounds:
  assumes "0 \<le> r" and "r < 1"
  shows "sg_nextAttemptAt (retry s e now r) - now \<in>
    {100 .. (if sg_pivotAttempted s \<or> sg_step s = VOID_OBLIGATION then 300000 else 30000)}"
proof -
  have "random_ok r" using assms by (simp add: random_ok_def)
  from backoffMs_bounds [OF this, of "sg_attempts s + 1" "sg_pivotAttempted s \<or> sg_step s = VOID_OBLIGATION"]
  show ?thesis
    unfolding retry_def Let_def maxDelayAfterPivotMs_def maxDelayBeforePivotMs_def
    by (auto split: if_splits)
qed

theorem retry_delay_bounds_witness:
  "sg_nextAttemptAt (retry ex_s1 ''TIMEOUT'' 1000 (1 / 2)) - 1000 \<in> {100 .. 30000}"
  using retry_delay_bounds [of "1 / 2" ex_s1 "''TIMEOUT''" 1000] by (simp add: ex_saga_defs)

section \<open>The loop\<close>

lemma run_saga_Cons_returns:
  "deadline \<le> se_loopNow env \<Longrightarrow> \<exists>res db'. run_saga (env # envs) rec s l deadline ms db = Some (res, db')"
  by (cases "saveSaga s l True ms db"; cases "fst (saveSaga s l True ms db)") auto

text \<open>
  C19. The loop over a saga returns: as soon as the clock reaches its budget it saves the saga and
  gives the lease back, if no earlier iteration finished, failed or had to wait.
\<close>

theorem run_saga_returns:
  assumes "\<exists>env \<in> set envs. deadline \<le> se_loopNow env"
  shows "\<exists>res db'. run_saga envs rec s l deadline ms db = Some (res, db')"
  using assms
proof (induction envs arbitrary: s db)
  case (Cons env envs)
  show ?case
  proof (cases "deadline \<le> se_loopNow env")
    case True
    then show ?thesis by (rule run_saga_Cons_returns)
  next
    case False
    with Cons.prems have ex: "\<exists>env \<in> set envs. deadline \<le> se_loopNow env" by simp
    show ?thesis
      using Cons.IH [OF ex]
      by (cases "pm_step rec s l env ms db"; cases "saveSaga s l True ms db")
        (auto split: sum.splits option.splits bool.splits)
  qed
qed simp

theorem run_saga_returns_witness:
  "\<exists>res db'. run_saga [ex_env\<lparr>se_loopNow := 5000\<rparr>] ex_rec ex_s1 ex_lease 5000 30000 empty_booking_db = Some (res, db')"
  by (rule run_saga_returns) simp

section \<open>Money\<close>

text \<open>
  C20. Money survives the wire: what is printed is read back unchanged, and what is accepted is
  well-formed money with exactly the three fields it prints as (in any order).
\<close>

theorem money_round_trip:
  "(money_ok m \<longrightarrow> moneyFromWire (moneyToWire m) = Inr m) \<and>
   (moneyFromWire (JObject kvs) = Inr m' \<longrightarrow>
      money_ok m' \<and> length kvs = 3 \<and>
      (\<forall>k \<in> {''currency'', ''amountMinor'', ''scale''}. \<exists>v fields. map_of kvs k = Some v \<and>
         moneyToWire m' = JObject fields \<and> map_of fields k = Some v))"
  using moneyFromWire_moneyToWire [of m] moneyFromWire_Inr [of kvs m']
  by (auto simp: wire_keys_def moneyToWire_def)

theorem money_round_trip_witness:
  "moneyFromWire (moneyToWire ex_money) = Inr ex_money \<and>
   money_ok ex_money"
  using money_round_trip [of ex_money "[]" ex_money] by (simp add: money_ok_def ex_money_def LIMIT_def)

text \<open>
  C21. A sum of amounts is exact, of one currency and its scale, and refused exactly when an amount
  is of another currency or scale or the total needs more than 18 digits.
\<close>

theorem sumMoney_exact:
  "sumMoney c vals = Inr m \<longleftrightarrow>
     (\<forall>v \<in> set vals. m_currency v = c \<and> m_scale v = CURRENCY_SCALE c) \<and>
     \<bar>sum_list (map m_amountMinor vals)\<bar> < 10 ^ 18 \<and>
     m = \<lparr>m_currency = c, m_amountMinor = sum_list (map m_amountMinor vals), m_scale = CURRENCY_SCALE c\<rparr>"
  by (simp add: sumMoney_Inr LIMIT_def)

theorem sumMoney_exact_witness: "sumMoney SYP [ex_money, ex_money] = Inr \<lparr>m_currency = SYP, m_amountMinor = 10000, m_scale = 2\<rparr>"
  using sumMoney_exact [of SYP "[ex_money, ex_money]"] by (simp add: ex_money_def)

end
