(* ===== verification/Booking_Change_Properties.thy ===== *)
theory Booking_Change_Properties
  imports Booking_Joint Booking_Properties
begin

text \<open>
  What changes of bookings guarantee, over every reachable state of \<open>joint_step\<close>: creation and
  changes interleaved in any way on one database.
\<close>

section \<open>Reachable tables\<close>

abbreviation joint_db :: "joint_state \<Rightarrow> booking_db" where
  "joint_db st \<equiv> cs_db (js_creation st)"

lemma joint_tables:
  assumes "joint_init s0" and "(joint_step ms)\<^sup>*\<^sup>* s0 st"
  shows "tables_ok (js_calls st) (bk_changes (joint_db st)) (bk_bookings (joint_db st)) (bk_outbox (joint_db st))"
  using joint.reachable_inv [OF assms] by (simp add: joint_inv_def change_sys_inv_def change_part_def)

lemma joint_change:
  assumes "joint_init s0" and "(joint_step ms)\<^sup>*\<^sup>* s0 st" and "r \<in> set (bk_changes (joint_db st))"
  shows "change_row_ok (js_calls st) (bk_bookings (joint_db st)) (bk_outbox (joint_db st)) (cr_change r)"
  using joint_tables [OF assms(1,2)] assms(3) by (simp add: tables_ok_def)

section \<open>Example: a booking that is cancelled\<close>

definition ex_who :: requester where
  "ex_who = \<lparr>rq_kind = requester_account, rq_subjectId = ex_uuid CHR ''a''\<rparr>"

definition ex_c0 :: change where
  "ex_c0 = newCancellation (ex_uuid CHR ''7'') (ex_uuid CHR ''1'') CUSTOMER_REQUEST ex_who ex_slot 100"
definition ex_c1 :: change where "ex_c1 = advance_change ex_c0 RELEASE_CAPACITY 110 id"
definition ex_c2 :: change where "ex_c2 = advance_change ex_c1 SETTLE_BILLING 110 id"
definition ex_c3 :: change where
  "ex_c3 = advance_change ex_c2 change_step.DONE 110 (\<lambda>c. c\<lparr>ch_outcome := Some change_outcome.COMPLETED,
     ch_settlement := Some VOIDED\<rparr>)"

lemmas ex_change_defs = ex_c0_def ex_c1_def ex_c2_def ex_c3_def newCancellation_def base_change_def advance_change_def

definition ex_cenv :: change_env where
  "ex_cenv = \<lparr>ce_loopNow = 110, ce_random = 0, ce_markNow = 110, ce_cancel = JobCancelled,
     ce_release = CapacityReleased, ce_settle = Settled SettledVoided, ce_rebind = Rebound,
     ce_replace = ReplaceUnknown ''TIMEOUT'', ce_confirm = JobConfirmed, ce_revert = JobReverted,
     ce_now = 110, ce_pivotNow = 110, ce_eventId = ex_uuid CHR ''f'', ce_traceparent = None\<rparr>"

definition ex_cancelled_booking :: booking where
  "ex_cancelled_booking = ex_confirmed_booking\<lparr>b_status := booking_state.CANCELLED, b_version := 3,
     b_cancellation := Some (CUSTOMER_REQUEST, 110), b_updatedAt := 110\<rparr>"

definition ex_cancelled_event :: booking_event where
  "ex_cancelled_event = BookingCancelledV1
     \<lparr>en_eventId = ex_uuid CHR ''f'', en_eventType = BOOKING_CANCELLED_V1, en_occurredAt = 110,
      en_correlationId = ex_uuid CHR ''c'', en_causationId = None, en_traceparent = None,
      en_aggregateId = ex_uuid CHR ''1'', en_aggregateVersion = 3,
      en_actor = \<lparr>ea_kind = actor_account, ea_id = Some (ex_uuid CHR ''a'')\<rparr>\<rparr>
     \<lparr>xd_changeId = ex_uuid CHR ''7'', xd_reason = CUSTOMER_REQUEST, xd_holdId = ex_uuid CHR ''4'',
      xd_zoneId = ex_uuid CHR ''5'', xd_startsAt = 3600000, xd_endsAt = 7200000,
      xd_paymentMethod = CASH_ON_COMPLETION, xd_total = moneyToWire ex_money\<rparr>"

definition ex_asked :: audit_fact where
  "ex_asked = \<lparr>af_action = ''booking.cancellation.requested'',
     af_actor = UserActor account (ex_uuid CHR ''a'') [''bookings.create:self''],
     af_bookingId = ex_uuid CHR ''1'', af_correlationId = ex_uuid CHR ''c'',
     af_details = RequestDetails (ex_uuid CHR ''7'') requester_account (Some CUSTOMER_REQUEST) None\<rparr>"

definition ex_cdb :: "booking \<Rightarrow> change \<Rightarrow> int \<Rightarrow> string option \<Rightarrow> instant option \<Rightarrow> booking_event list \<Rightarrow> audit_fact list \<Rightarrow> booking_db" where
  "ex_cdb b c fence who until out aud =
     (ex_shape b ex_s5 None None out aud)\<lparr>bk_changes :=
        [\<lparr>cr_change = c, cr_key = ex_key CHR ''x'', cr_fingerprint = ''g'', cr_fence = fence,
          cr_leaseOwner = who, cr_leaseUntil = until, cr_correlationId = ex_uuid CHR ''c''\<rparr>]\<rparr>"

definition ex_cstate :: "booking_db \<Rightarrow> change_worker list \<Rightarrow> change_call list \<Rightarrow> change_state" where
  "ex_cstate db ws cs = \<lparr>hs_db = db, hs_readers = [ex_confirmed_booking], hs_workers = ws, hs_calls = cs\<rparr>"

abbreviation ex_aud :: "audit_fact list" where "ex_aud \<equiv> [ex_audit, ex_done, ex_asked]"

lemmas change_eval =
  ex_cdb_def ex_shape_def ex_s5_def writeChange_def change_fenced_def written_change_def cr_changeId_def
  applyChange_def update_booking_def changed_row_def schedule_hold_taken_def append_schedule_def
  append_event_def append_audit_def update_rows_def find_row_def truncated_def Let_def

lemma ex_found: "find_booking (ex_uuid CHR ''1'') (ex_shape ex_confirmed_booking ex_s5 None None out aud) =
    Some \<lparr>br_booking = ex_confirmed_booking, br_saga = ex_s5, br_correlationId = ex_uuid CHR ''c''\<rparr>"
  "find_booking (ex_uuid CHR ''1'') (ex_cdb ex_confirmed_booking c fence who until out aud) =
    Some \<lparr>br_booking = ex_confirmed_booking, br_saga = ex_s5, br_correlationId = ex_uuid CHR ''c''\<rparr>"
  by (simp_all add: find_booking_def ex_cdb_def store_eval ex_confirmed_booking_def ex_booking_def ex_saga_defs advance_def)

lemma ex_changeable: "assertChangeable ex_confirmed_booking 2 False = Inr ex_slot"
  by (simp add: assertChangeable_Inr ex_confirmed_booking_def ex_booking_def currentSlot_def)

lemma ex_requested:
  "insertChange ex_c0 (ex_key CHR ''x'') ''g'' 2 (ex_uuid CHR ''c'') ex_asked
     (ex_shape ex_confirmed_booking ex_s5 None None [ex_event] [ex_audit, ex_done]) =
   (ChangeCreated, ex_cdb ex_confirmed_booking ex_c0 0 None None [ex_event] ex_aud)"
  by (simp add: insertChange_def byKey_def change_conflict_def inserted_change_def ex_cdb_def store_eval
      ex_confirmed_booking_def ex_booking_def ex_change_defs)

definition ex_clease :: lease where "ex_clease = \<lparr>le_owner = ''api'', le_fence = 1\<rparr>"

lemma ex_change_leased:
  "change_lease_update (ex_uuid CHR ''7'') ''api'' 105 30000 (ex_cdb b ex_c0 0 None None out aud) =
   (Some ex_clease, ex_cdb b ex_c0 1 (Some ''api'') (Some 30105) out aud)"
  by (simp add: change_lease_update_def change_eval lease_free_def take_change_lease_def ex_clease_def ex_change_defs)

lemma ex_change_found:
  "findChange (ex_uuid CHR ''7'') (ex_cdb b ex_c0 f who until out aud) = Some (ex_c0, ex_uuid CHR ''c'')"
  by (simp add: findChange_def change_eval ex_change_defs)

lemma ex_cdecided:
  "decide_change ex_c0 ex_cenv = Inr (ex_c1, None)" "decide_change ex_c1 ex_cenv = Inr (ex_c2, None)"
  "decide_change ex_c2 ex_cenv = Inr (ex_c3, None)"
  by (simp_all add: decide_change_def onDispatchCancel_def onCapacityReleased_def onSettled_def expectChangeStep_def
      ex_cenv_def ex_change_defs)

lemma ex_begin: "begin_call c l now ms db = (Inr (Some c), db)"
  if "ch_step c \<in> {DISPATCH_CANCEL, RELEASE_CAPACITY, SETTLE_BILLING}" for c
  using that by (auto simp: begin_call_def)

lemma ex_pivoted:
  "pivot_write ex_c0 ex_c1 (ex_uuid CHR ''c'') ex_clease None ex_confirmed_booking ex_cenv 30000
     (ex_cdb ex_confirmed_booking ex_c0 1 (Some ''api'') (Some 30105) [ex_event] ex_aud) =
   (Inr True, ex_cdb ex_cancelled_booking ex_c1 1 (Some ''api'') (Some 30110) [ex_event, ex_cancelled_event]
      (ex_aud @ [pivot_audit ex_c0 None (ex_uuid CHR ''c'') ex_cancelled_booking]))"
proof -
  have u: "pivot_update ex_c0 None (ex_uuid CHR ''c'') ex_confirmed_booking ex_cenv = Inr (ex_cancelled_booking, ex_cancelled_event)"
    by (simp add: pivot_update_def cancelBooking_def transition_to_def transitionBooking_def version_of_def
        bookingCancelledEvent_def head_def changeActor_def event_uuid_def valid_traceparent_def MAX_SAFE_INTEGER_def
        ex_confirmed_booking_def ex_booking_def ex_cancelled_booking_def ex_cancelled_event_def ex_cenv_def
        ex_change_defs ex_who_def ex_slot_def ex_input_def)
  show ?thesis unfolding pivot_write_def u
    by (simp add: change_eval ex_clease_def ex_change_defs ex_confirmed_booking_def ex_booking_def ex_cancelled_booking_def)
qed

lemma ex_quiet:
  "conclude ex_c1 ex_c2 (ex_uuid CHR ''c'') ex_clease 30000
     (ex_cdb b ex_c1 1 (Some ''api'') (Some 30110) out aud) =
   (Inr True, ex_cdb b ex_c2 1 (Some ''api'') (Some 30110) out aud)"
  "conclude ex_c2 ex_c3 (ex_uuid CHR ''c'') ex_clease 30000
     (ex_cdb b ex_c2 1 (Some ''api'') (Some 30110) out aud) =
   (Inr True, ex_cdb b ex_c3 1 None None out (aud @ [change_audit ex_c3 (ex_uuid CHR ''c'')]))"
  by (simp_all add: conclude_def change_eval ex_clease_def ex_change_defs)

definition ex_ccalls :: "change_call list" where
  "ex_ccalls =
     [ChangeSent (ex_uuid CHR ''7'') DISPATCH_CANCEL, ChangeAnswered (ex_uuid CHR ''7'') (CancelReply JobCancelled),
      ChangeSent (ex_uuid CHR ''7'') RELEASE_CAPACITY, ChangeAnswered (ex_uuid CHR ''7'') (ReleaseReply CapacityReleased),
      ChangeSent (ex_uuid CHR ''7'') SETTLE_BILLING, ChangeAnswered (ex_uuid CHR ''7'') (SettleReply (Settled SettledVoided))]"

definition ex_cancelled_db :: booking_db where
  "ex_cancelled_db = ex_cdb ex_cancelled_booking ex_c3 1 None None [ex_event, ex_cancelled_event]
     (ex_aud @ [pivot_audit ex_c0 None (ex_uuid CHR ''c'') ex_cancelled_booking, change_audit ex_c3 (ex_uuid CHR ''c'')])"

lemma ex_cfields:
  "ch_step ex_c0 = DISPATCH_CANCEL" "ch_step ex_c1 = RELEASE_CAPACITY" "ch_step ex_c2 = SETTLE_BILLING"
  "ch_changeId ex_c0 = ex_uuid CHR ''7''" "ch_changeId ex_c1 = ex_uuid CHR ''7''" "ch_changeId ex_c2 = ex_uuid CHR ''7''"
  "ch_bookingId ex_c0 = ex_uuid CHR ''1''"
  by (simp_all add: ex_change_defs)

lemma ex_replies:
  "reply_of ex_c0 ex_cenv = CancelReply JobCancelled" "reply_of ex_c1 ex_cenv = ReleaseReply CapacityReleased"
  "reply_of ex_c2 ex_cenv = SettleReply (Settled SettledVoided)"
  by (simp_all add: reply_of_def ex_cfields ex_cenv_def)

lemma ex_quiet_step:
  assumes "ch_step c \<in> {RELEASE_CAPACITY, SETTLE_BILLING}" and "decide_change c ex_cenv = Inr (nxt, None)"
    and "conclude c nxt (ex_uuid CHR ''c'') ex_clease 30000 db = (Inr True, db')"
  shows "(change_move 30000)\<^sup>*\<^sup>* (ex_cstate db [Working c (ex_uuid CHR ''c'') ex_clease] cs)
    (ex_cstate db' [Working nxt (ex_uuid CHR ''c'') ex_clease]
       (cs @ [ChangeSent (ch_changeId c) (ch_step c), ChangeAnswered (ch_changeId c) (reply_of c ex_cenv)]))"
proof -
  have b: "begin_call c ex_clease 110 30000 db = (Inr (Some c), db)" using assms(1) by (intro ex_begin) auto
  have 1: "change_move 30000 (ex_cstate db [Working c (ex_uuid CHR ''c'') ex_clease] cs)
      (ex_cstate db [Asking c (ex_uuid CHR ''c'') ex_clease] (cs @ [ChangeSent (ch_changeId c) (ch_step c)]))"
    unfolding ex_cstate_def using change_move.call [OF _ b, where us = "[]" and vs = "[]" and cs = cs] assms(1) by auto
  have 2: "change_move 30000 (ex_cstate db [Asking c (ex_uuid CHR ''c'') ex_clease] (cs @ [ChangeSent (ch_changeId c) (ch_step c)]))
      (ex_cstate db' [Working nxt (ex_uuid CHR ''c'') ex_clease]
        ((cs @ [ChangeSent (ch_changeId c) (ch_step c)]) @ [ChangeAnswered (ch_changeId c) (reply_of c ex_cenv)]))"
    unfolding ex_cstate_def
    using change_move.answered [OF assms(2) _ assms(3), where us = "[]" and vs = "[]" and cs = "cs @ [ChangeSent (ch_changeId c) (ch_step c)]"] assms(1)
    by (auto simp: isPivotExit_def)
  show ?thesis using two_steps [where r = "change_move 30000", OF 1 2] by simp
qed

lemma ex_cancelling:
  "(change_move 30000)\<^sup>*\<^sup>*
     \<lparr>hs_db = ex_shape ex_confirmed_booking ex_s5 None None [ex_event] [ex_audit, ex_done], hs_readers = [], hs_workers = [], hs_calls = []\<rparr>
     (ex_cstate (ex_cdb ex_cancelled_booking ex_c1 1 (Some ''api'') (Some 30110) [ex_event, ex_cancelled_event]
        (ex_aud @ [pivot_audit ex_c0 None (ex_uuid CHR ''c'') ex_cancelled_booking]))
        [Working ex_c1 (ex_uuid CHR ''c'') ex_clease]
        [ChangeSent (ex_uuid CHR ''7'') DISPATCH_CANCEL, ChangeAnswered (ex_uuid CHR ''7'') (CancelReply JobCancelled)])"
  (is "?R\<^sup>*\<^sup>* ?s0 ?s7")
proof -
  let ?db0 = "ex_shape ex_confirmed_booking ex_s5 None None [ex_event] [ex_audit, ex_done]"
  let ?db1 = "ex_cdb ex_confirmed_booking ex_c0 0 None None [ex_event] ex_aud"
  let ?db2 = "ex_cdb ex_confirmed_booking ex_c0 1 (Some ''api'') (Some 30105) [ex_event] ex_aud"
  let ?cor = "ex_uuid CHR ''c''" and ?sent = "[ChangeSent (ex_uuid CHR ''7'') DISPATCH_CANCEL]"
  have 1: "?R ?s0 (ex_cstate ?db0 [] [])"
    unfolding ex_cstate_def using change_move.load [OF ex_found(1) [of "[ex_event]" "[ex_audit, ex_done]"], of 30000 "[]" "[]" "[]"] by simp
  have 2: "?R (ex_cstate ?db0 [] []) (ex_cstate ?db1 [] [])"
    unfolding ex_cstate_def
    by (rule change_move.request_cancel [OF _ ex_changeable, where changeId = "ex_uuid CHR ''7''" and reason = CUSTOMER_REQUEST
          and who = ex_who and now = 100 and key = "ex_key CHR ''x''" and fp = "''g''" and cor = ?cor and audit = ex_asked])
      (use ex_requested in \<open>simp_all add: ex_c0_def ex_confirmed_booking_def ex_booking_def\<close>)
  have 3: "?R (ex_cstate ?db1 [] []) (ex_cstate ?db2 [Taken (ex_uuid CHR ''7'') ex_clease] [])"
    unfolding ex_cstate_def by (rule change_move.lease [OF ex_change_leased])
  have 4: "?R (ex_cstate ?db2 [Taken (ex_uuid CHR ''7'') ex_clease] []) (ex_cstate ?db2 [Working ex_c0 ?cor ex_clease] [])"
    unfolding ex_cstate_def using change_move.read [OF ex_change_found, where us = "[]" and vs = "[]"] by simp
  have b: "begin_call ex_c0 ex_clease 110 30000 ?db2 = (Inr (Some ex_c0), ?db2)" by (rule ex_begin) (simp add: ex_cfields)
  have 5: "?R (ex_cstate ?db2 [Working ex_c0 ?cor ex_clease] []) (ex_cstate ?db2 [Asking ex_c0 ?cor ex_clease] ?sent)"
    unfolding ex_cstate_def using change_move.call [OF _ b, where us = "[]" and vs = "[]" and cs = "[]"] by (simp add: ex_cfields)
  have 6: "?R (ex_cstate ?db2 [Asking ex_c0 ?cor ex_clease] ?sent)
      (ex_cstate ?db2 [Pivoting ex_c0 ex_c1 ?cor ex_clease None ex_confirmed_booking]
        (?sent @ [ChangeAnswered (ex_uuid CHR ''7'') (CancelReply JobCancelled)]))"
    unfolding ex_cstate_def
    using change_move.pivot_read [OF ex_cdecided(1) _ ex_found(2) [folded ex_cfields(7)], where us = "[]" and vs = "[]" and cs = ?sent]
    by (simp add: ex_cfields ex_replies isPivotExit_def)
  have 7: "?R (ex_cstate ?db2 [Pivoting ex_c0 ex_c1 ?cor ex_clease None ex_confirmed_booking]
        (?sent @ [ChangeAnswered (ex_uuid CHR ''7'') (CancelReply JobCancelled)])) ?s7"
    unfolding ex_cstate_def using change_move.pivoted [OF ex_pivoted, where us = "[]" and vs = "[]"] by simp
  show ?thesis using 1 2 3 4 5 6 7 by (meson rtranclp.rtrancl_refl rtranclp.rtrancl_into_rtrancl)
qed

lemma ex_changes:
  "(change_move 30000)\<^sup>*\<^sup>*
     \<lparr>hs_db = ex_shape ex_confirmed_booking ex_s5 None None [ex_event] [ex_audit, ex_done], hs_readers = [], hs_workers = [], hs_calls = []\<rparr>
     (ex_cstate ex_cancelled_db [Working ex_c3 (ex_uuid CHR ''c'') ex_clease] ex_ccalls)"
proof -
  note q1 = ex_quiet_step [OF _ ex_cdecided(2) ex_quiet(1)]
  note q2 = ex_quiet_step [OF _ ex_cdecided(3) ex_quiet(2)]
  note q1' = q1 [unfolded ex_cfields ex_replies, simplified] and q2' = q2 [unfolded ex_cfields ex_replies, simplified]
  show ?thesis using rtranclp_trans [OF rtranclp_trans [OF ex_cancelling q1'] q2']
    by (simp add: ex_cancelled_db_def ex_ccalls_def)
qed

definition ex_joint :: "creation_state \<Rightarrow> change_state \<Rightarrow> joint_state" where
  "ex_joint cr h = \<lparr>js_creation = cr\<lparr>cs_db := hs_db h\<rparr>, js_readers = hs_readers h, js_workers = hs_workers h, js_calls = hs_calls h\<rparr>"

definition ex_jinit :: joint_state where
  "ex_jinit = \<lparr>js_creation = ex_init, js_readers = [], js_workers = [], js_calls = []\<rparr>"

definition ex_jend :: joint_state where
  "ex_jend = ex_joint ex_end (ex_cstate ex_cancelled_db [Working ex_c3 (ex_uuid CHR ''c'') ex_clease] ex_ccalls)"

lemma ex_jinit_ok: "joint_init ex_jinit"
  by (simp add: joint_init_def ex_jinit_def ex_init_ok change_init_def change_part_def) (simp add: ex_init_def)

lemma joint_creates:
  "(creation_move ms)\<^sup>*\<^sup>* cr cr' \<Longrightarrow>
   (joint_step ms)\<^sup>*\<^sup>* \<lparr>js_creation = cr, js_readers = rs, js_workers = ws, js_calls = cs\<rparr>
                     \<lparr>js_creation = cr', js_readers = rs, js_workers = ws, js_calls = cs\<rparr>"
  by (induction rule: rtranclp_induct) (auto intro: rtranclp.rtrancl_into_rtrancl joint_step.create)

lemma joint_changes:
  "(change_move ms)\<^sup>*\<^sup>* h h' \<Longrightarrow> (joint_step ms)\<^sup>*\<^sup>* (ex_joint cr h) (ex_joint cr h')"
proof (induction rule: rtranclp_induct)
  case (step y z)
  have "change_move ms \<lparr>hs_db = cs_db (cr\<lparr>cs_db := hs_db y\<rparr>), hs_readers = hs_readers y, hs_workers = hs_workers y, hs_calls = hs_calls y\<rparr>
      \<lparr>hs_db = hs_db z, hs_readers = hs_readers z, hs_workers = hs_workers z, hs_calls = hs_calls z\<rparr>"
    using step.hyps(2) by (cases y; cases z) simp
  from joint_step.change [OF this] have "joint_step ms (ex_joint cr y) (ex_joint cr z)" by (simp add: ex_joint_def)
  with step.IH show ?case by (rule rtranclp.rtrancl_into_rtrancl)
qed simp

lemma ex_joint_changes:
  assumes "(change_move 30000)\<^sup>*\<^sup>*
     \<lparr>hs_db = ex_shape ex_confirmed_booking ex_s5 None None [ex_event] [ex_audit, ex_done], hs_readers = [], hs_workers = [], hs_calls = []\<rparr> h"
  shows "(joint_step 30000)\<^sup>*\<^sup>* ex_jinit (ex_joint ex_end h)"
proof -
  have 1: "(joint_step 30000)\<^sup>*\<^sup>* ex_jinit \<lparr>js_creation = ex_end, js_readers = [], js_workers = [], js_calls = []\<rparr>"
    unfolding ex_jinit_def by (rule joint_creates [OF ex_reached])
  have 2: "(joint_step 30000)\<^sup>*\<^sup>* \<lparr>js_creation = ex_end, js_readers = [], js_workers = [], js_calls = []\<rparr> (ex_joint ex_end h)"
    using joint_changes [OF assms, of ex_end] by (simp add: ex_joint_def ex_end_def ex_state_def)
  show ?thesis by (rule rtranclp_trans [OF 1 2])
qed

lemma ex_joint_reached: "(joint_step 30000)\<^sup>*\<^sup>* ex_jinit ex_jend"
  unfolding ex_jend_def by (rule ex_joint_changes [OF ex_changes])

lemma ex_jend_db: "joint_db ex_jend = ex_cancelled_db" "js_calls ex_jend = ex_ccalls"
  by (simp_all add: ex_jend_def ex_joint_def ex_cstate_def)

section \<open>Properties of changes\<close>

text \<open>
  C22. With creation and changes interleaved in any way, the outbox tells the life of every
  booking exactly: one created event from its confirmation on, one cancelled event if and only if
  it is cancelled, and one rescheduled event per revision of its schedule after the first.
\<close>

theorem outbox_tells_booking:
  assumes "joint_init s0" and "(joint_step ms)\<^sup>*\<^sup>* s0 st" and "b \<in> set (bk_bookings (joint_db st))"
  shows "created_count (bk_outbox (joint_db st)) (b_id b) =
           (if b_status b \<in> {PENDING_CONFIRMATION, booking_state.REJECTED} then 0 else 1) \<and>
    cancelled_count (bk_outbox (joint_db st)) (b_id b) = (if b_status b = booking_state.CANCELLED then 1 else 0) \<and>
    b_scheduleRevision b = 1 + int (moved_count (bk_outbox (joint_db st)) (b_id b))"
proof -
  have i: "creation_init (js_creation s0)" using assms(1) by (simp add: joint_init_def)
  obtain s where "consistent (cs_calls (js_creation st)) (bk_outbox (joint_db st)) s b"
    by (rule reachable_rows [OF joint_runs(1) [OF assms(2,1)] i assms(3)])
  moreover have "booking_row_ok (bk_outbox (joint_db st)) b"
    using joint_tables [OF assms(1,2)] assms(3) by (simp add: tables_ok_def)
  ultimately show ?thesis
    by (auto simp: consistent_def status_ok_def confirmed_ok_def booking_row_ok_def split: if_splits)
qed

theorem outbox_tells_booking_witness:
  "created_count (bk_outbox (joint_db ex_jend)) (ex_uuid CHR ''1'') = 1 \<and>
   cancelled_count (bk_outbox (joint_db ex_jend)) (ex_uuid CHR ''1'') = 1 \<and>
   moved_count (bk_outbox (joint_db ex_jend)) (ex_uuid CHR ''1'') = 0"
  using outbox_tells_booking [OF ex_jinit_ok ex_joint_reached, of ex_cancelled_booking]
  by (simp add: ex_jend_db ex_cancelled_db_def ex_cdb_def ex_shape_def ex_cancelled_booking_def
      ex_confirmed_booking_def ex_booking_def)

text \<open>
  C23. A change takes effect on its booking exactly once, and exactly when it passed its pivot: the
  outbox has one event of a change that is past its pivot or completed, and none of one that is
  not there yet, was refused, or failed and was reverted.
\<close>

theorem change_applied_exactly_once:
  assumes "joint_init s0" and "(joint_step ms)\<^sup>*\<^sup>* s0 st" and "r \<in> set (bk_changes (joint_db st))"
  shows "pivot_count (bk_outbox (joint_db st)) (cr_changeId r) =
    (if ch_step (cr_change r) \<in> {RELEASE_CAPACITY, SETTLE_BILLING, DISPATCH_CONFIRM} \<or>
        ch_outcome (cr_change r) = Some change_outcome.COMPLETED then 1 else 0)"
  using joint_change [OF assms] by (simp add: change_row_ok_def passed_def cr_changeId_def)

theorem change_applied_exactly_once_witness:
  "pivot_count (bk_outbox (joint_db ex_jend)) (ex_uuid CHR ''7'') = 1"
  using change_applied_exactly_once [OF ex_jinit_ok ex_joint_reached, of "hd (bk_changes ex_cancelled_db)"]
  by (simp add: ex_jend_db ex_cancelled_db_def ex_cdb_def cr_changeId_def ex_change_defs)

text \<open>
  C24. A cancellation that completed: its booking is cancelled; Dispatch answered that the job is
  cancelled or that none was opened; Scheduling answered that the capacity is released or that
  nothing was committed; and the settlement it records is the one Billing answered, which may be a
  refund that is still pending.
\<close>

theorem completed_cancellation:
  assumes "joint_init s0" and "(joint_step ms)\<^sup>*\<^sup>* s0 st" and "r \<in> set (bk_changes (joint_db st))"
    and "ch_kind (cr_change r) = CANCELLATION" and "ch_outcome (cr_change r) = Some change_outcome.COMPLETED"
  shows "(\<exists>b \<in> set (bk_bookings (joint_db st)). b_id b = ch_bookingId (cr_change r) \<and> b_status b = booking_state.CANCELLED) \<and>
    (\<exists>a \<in> {JobCancelled, JobNotOpened}. ChangeAnswered (cr_changeId r) (CancelReply a) \<in> set (js_calls st)) \<and>
    (\<exists>a \<in> {CapacityReleased, CapacityNotCommitted}. ChangeAnswered (cr_changeId r) (ReleaseReply a) \<in> set (js_calls st)) \<and>
    (\<exists>how. ch_settlement (cr_change r) = Some (settlement_of how) \<and>
       ChangeAnswered (cr_changeId r) (SettleReply (Settled how)) \<in> set (js_calls st))"
proof -
  note ok = joint_change [OF assms(1-3)]
  have p: "passed (cr_change r)" using assms(5) by (simp add: passed_def)
  have "\<exists>b \<in> set (bk_bookings (joint_db st)). b_id b = ch_bookingId (cr_change r) \<and> b_status b = booking_state.CANCELLED"
    using ok p assms(4) unfolding change_row_ok_def fits_def by blast
  moreover have "answers_ok (js_calls st) (cr_change r)" using ok by (simp add: change_row_ok_def)
  ultimately show ?thesis using p assms(4,5) unfolding answers_ok_def cr_changeId_def by simp
qed

theorem completed_cancellation_witness:
  "(ChangeAnswered (ex_uuid CHR ''7'') (CancelReply JobCancelled) \<in> set ex_ccalls \<or>
    ChangeAnswered (ex_uuid CHR ''7'') (CancelReply JobNotOpened) \<in> set ex_ccalls) \<and>
   (\<exists>how. VOIDED = settlement_of how \<and> ChangeAnswered (ex_uuid CHR ''7'') (SettleReply (Settled how)) \<in> set ex_ccalls)"
  using completed_cancellation [OF ex_jinit_ok ex_joint_reached, of "hd (bk_changes ex_cancelled_db)"]
  by (simp add: ex_jend_db ex_cancelled_db_def ex_cdb_def cr_changeId_def ex_change_defs)

section \<open>Example: a reschedule that is given up\<close>

definition ex_target :: target_slot where
  "ex_target = \<lparr>ts_slot = \<lparr>sl_holdId = ex_uuid CHR ''6'', sl_zoneId = ex_uuid CHR ''5'', sl_startsAt = 9000000, sl_endsAt = 12600000\<rparr>,
     ts_holdRevision = 1, ts_expiresAt = 109\<rparr>"

definition ex_r0 :: change where
  "ex_r0 = newReschedule (ex_uuid CHR ''8'') (ex_uuid CHR ''1'') ex_who ex_slot ex_target 100"
definition ex_r1 :: change where
  "ex_r1 = advance_change ex_r0 DISPATCH_REVERT 110 (ch_refusal_update (\<lambda>_. Some DISPATCH_NOT_READY))"

lemmas ex_reschedule_defs = ex_r0_def ex_r1_def newReschedule_def base_change_def advance_change_def

definition ex_renv :: change_env where
  "ex_renv = ex_cenv\<lparr>ce_rebind := RebindNotReady\<rparr>"

definition ex_rasked :: audit_fact where
  "ex_rasked = \<lparr>af_action = ''booking.reschedule.requested'',
     af_actor = UserActor account (ex_uuid CHR ''a'') [''bookings.create:self''],
     af_bookingId = ex_uuid CHR ''1'', af_correlationId = ex_uuid CHR ''c'',
     af_details = RequestDetails (ex_uuid CHR ''8'') requester_account None (Some (ex_uuid CHR ''6''))\<rparr>"

lemma ex_r0_stored: "inserted_change ex_r0 = ex_r0"
  by (simp add: inserted_change_def ex_reschedule_defs ex_target_def ex_slot_def)

lemma ex_rrequested:
  "insertChange ex_r0 (ex_key CHR ''x'') ''g'' 2 (ex_uuid CHR ''c'') ex_rasked
     (ex_shape ex_confirmed_booking ex_s5 None None [ex_event] [ex_audit, ex_done]) =
   (ChangeCreated, ex_cdb ex_confirmed_booking ex_r0 0 None None [ex_event] [ex_audit, ex_done, ex_rasked])"
  by (simp add: insertChange_def byKey_def change_conflict_def ex_r0_stored ex_cdb_def store_eval
      ex_confirmed_booking_def ex_booking_def) (simp add: ex_reschedule_defs)

lemma ex_rleased:
  "change_lease_update (ex_uuid CHR ''8'') ''api'' 105 30000 (ex_cdb b ex_r0 0 None None out aud) =
   (Some ex_clease, ex_cdb b ex_r0 1 (Some ''api'') (Some 30105) out aud)"
  by (simp add: change_lease_update_def change_eval lease_free_def take_change_lease_def ex_clease_def ex_reschedule_defs)

lemma ex_rfound:
  "findChange (ex_uuid CHR ''8'') (ex_cdb b ex_r0 f who until out aud) = Some (ex_r0, ex_uuid CHR ''c'')"
  by (simp add: findChange_def change_eval ex_reschedule_defs)

lemma ex_rbegin: "begin_call ex_r0 l now ms db = (Inr (Some ex_r0), db)"
  by (simp add: begin_call_def target_def ex_reschedule_defs)

lemma ex_rdecided: "decide_change ex_r0 ex_renv = Inr (ex_r1, None)"
  by (simp add: decide_change_def onRebind_def expectChangeStep_def pastDeadline_def ex_renv_def ex_cenv_def
      ex_reschedule_defs ex_target_def)

lemma ex_rconcluded:
  "conclude ex_r0 ex_r1 (ex_uuid CHR ''c'') ex_clease 30000 (ex_cdb b ex_r0 1 (Some ''api'') (Some 30105) out aud) =
   (Inr True, ex_cdb b ex_r1 1 (Some ''api'') (Some 30110) out aud)"
  by (simp add: conclude_def change_eval ex_clease_def ex_reschedule_defs)

definition ex_rstart :: change_state where
  "ex_rstart = ex_cstate (ex_cdb ex_confirmed_booking ex_r0 0 None None [ex_event] [ex_audit, ex_done, ex_rasked]) [] []"

definition ex_rgiven_up :: change_state where
  "ex_rgiven_up = ex_cstate (ex_cdb ex_confirmed_booking ex_r1 1 (Some ''api'') (Some 30110) [ex_event] [ex_audit, ex_done, ex_rasked])
     [Working ex_r1 (ex_uuid CHR ''c'') ex_clease]
     [ChangeSent (ex_uuid CHR ''8'') DISPATCH_REBIND, ChangeAnswered (ex_uuid CHR ''8'') (RebindReply RebindNotReady)]"

lemma ex_rstarted:
  "(change_move 30000)\<^sup>*\<^sup>*
     \<lparr>hs_db = ex_shape ex_confirmed_booking ex_s5 None None [ex_event] [ex_audit, ex_done], hs_readers = [], hs_workers = [], hs_calls = []\<rparr>
     ex_rstart" (is "?R\<^sup>*\<^sup>* ?s0 _")
proof -
  let ?db0 = "ex_shape ex_confirmed_booking ex_s5 None None [ex_event] [ex_audit, ex_done]"
  have 1: "?R ?s0 (ex_cstate ?db0 [] [])"
    unfolding ex_cstate_def using change_move.load [OF ex_found(1) [of "[ex_event]" "[ex_audit, ex_done]"], of 30000 "[]" "[]" "[]"] by simp
  have 2: "?R (ex_cstate ?db0 [] []) ex_rstart"
    unfolding ex_cstate_def ex_rstart_def
    by (rule change_move.request_reschedule [OF _ ex_changeable, where changeId = "ex_uuid CHR ''8''" and who = ex_who
          and to_slot = ex_target and now = 100 and key = "ex_key CHR ''x''" and fp = "''g''" and cor = "ex_uuid CHR ''c''" and audit = ex_rasked])
      (use ex_rrequested in \<open>simp_all add: ex_r0_def ex_confirmed_booking_def ex_booking_def\<close>)
  show ?thesis by (rule two_steps [where r = ?R, OF 1 2])
qed

lemma ex_rreached: "(change_move 30000)\<^sup>*\<^sup>* ex_rstart ex_rgiven_up"
proof -
  let ?R = "change_move 30000" and ?cor = "ex_uuid CHR ''c''" and ?sent = "[ChangeSent (ex_uuid CHR ''8'') DISPATCH_REBIND]"
  let ?db = "ex_cdb ex_confirmed_booking ex_r0 1 (Some ''api'') (Some 30105) [ex_event] [ex_audit, ex_done, ex_rasked]"
  have f: "ch_step ex_r0 = DISPATCH_REBIND" "ch_changeId ex_r0 = ex_uuid CHR ''8''" "ch_step ex_r1 = DISPATCH_REVERT"
    "reply_of ex_r0 ex_renv = RebindReply RebindNotReady"
    by (simp_all add: ex_reschedule_defs reply_of_def ex_renv_def)
  have 1: "?R ex_rstart (ex_cstate ?db [Taken (ex_uuid CHR ''8'') ex_clease] [])"
    unfolding ex_rstart_def ex_cstate_def by (rule change_move.lease [OF ex_rleased])
  have 2: "?R (ex_cstate ?db [Taken (ex_uuid CHR ''8'') ex_clease] []) (ex_cstate ?db [Working ex_r0 ?cor ex_clease] [])"
    unfolding ex_cstate_def using change_move.read [OF ex_rfound, where us = "[]" and vs = "[]"] by simp
  have 3: "?R (ex_cstate ?db [Working ex_r0 ?cor ex_clease] []) (ex_cstate ?db [Asking ex_r0 ?cor ex_clease] ?sent)"
    unfolding ex_cstate_def using change_move.call [OF _ ex_rbegin, where us = "[]" and vs = "[]" and cs = "[]"] by (simp add: f)
  have 4: "?R (ex_cstate ?db [Asking ex_r0 ?cor ex_clease] ?sent) ex_rgiven_up"
    unfolding ex_cstate_def ex_rgiven_up_def
    using change_move.answered [OF ex_rdecided _ ex_rconcluded, where us = "[]" and vs = "[]" and cs = ?sent]
    by (simp add: f isPivotExit_def)
  show ?thesis using 1 2 3 4 by (meson rtranclp.rtrancl_refl rtranclp.rtrancl_into_rtrancl)
qed

text \<open>
  C25. Until a change passes its pivot it owns its booking: the booking is confirmed at the very
  slot the change leaves, and no other change of it is open.
\<close>

theorem open_change_owns_booking:
  assumes "joint_init s0" and "(joint_step ms)\<^sup>*\<^sup>* s0 st" and "r \<in> set (bk_changes (joint_db st))"
    and "ch_outcome (cr_change r) = None" and "\<not> passed (cr_change r)"
  shows "(\<exists>b \<in> set (bk_bookings (joint_db st)). b_id b = ch_bookingId (cr_change r) \<and>
      b_status b = booking_state.CONFIRMED \<and> currentSlot b = Some (ch_from (cr_change r))) \<and>
    {r' \<in> set (bk_changes (joint_db st)). ch_outcome (cr_change r') = None \<and>
       ch_bookingId (cr_change r') = ch_bookingId (cr_change r)} = {r}"
proof -
  note ok = joint_change [OF assms(1-3)]
  have inv: "change_sys_inv (change_part st)" using joint.reachable_inv [OF assms(1,2)] by (simp add: joint_inv_def)
  then have d: "distinct (map cr_changeId (bk_changes (joint_db st)))"
    by (simp add: change_sys_inv_def change_part_def changes.fenced_inv_def)
  have oo: "one_open (bk_changes (joint_db st))" using joint_tables [OF assms(1,2)] by (simp add: tables_ok_def)
  have "r' = r" if "r' \<in> set (bk_changes (joint_db st))" "ch_outcome (cr_change r') = None"
    "ch_bookingId (cr_change r') = ch_bookingId (cr_change r)" for r'
    using distinct_key_eq [OF d that(1) assms(3)] one_openD [OF oo that(1) assms(3) that(2) assms(4) that(3)] by blast
  moreover have "\<exists>b \<in> set (bk_bookings (joint_db st)). b_id b = ch_bookingId (cr_change r) \<and>
      b_status b = booking_state.CONFIRMED \<and> currentSlot b = Some (ch_from (cr_change r))"
    using ok assms(4,5) unfolding change_row_ok_def fits_def by blast
  ultimately show ?thesis using assms(3,4) by blast
qed

theorem open_change_owns_booking_witness:
  "{r' \<in> set (bk_changes (hs_db ex_rstart)). ch_outcome (cr_change r') = None \<and> ch_bookingId (cr_change r') = ex_uuid CHR ''1''} =
   {hd (bk_changes (hs_db ex_rstart))}"
  using open_change_owns_booking [OF ex_jinit_ok ex_joint_changes [OF ex_rstarted], of "hd (bk_changes (hs_db ex_rstart))"]
  by (simp add: ex_joint_def ex_rstart_def ex_cstate_def ex_cdb_def passed_def ex_reschedule_defs)

text \<open>
  C26. A reschedule that was given up because Dispatch was not ready never asked Scheduling to move
  the commitment, by any worker: so the old slot still stands.
\<close>

theorem given_up_never_replaced:
  assumes "joint_init s0" and "(joint_step ms)\<^sup>*\<^sup>* s0 st" and "r \<in> set (bk_changes (joint_db st))"
    and "ch_refusal (cr_change r) = Some DISPATCH_NOT_READY"
  shows "ChangeSent (cr_changeId r) REPLACE_COMMITMENT \<notin> set (js_calls st)"
proof -
  have ok: "change_inv (cr_change r)" "sent_ok (js_calls st) (cr_change r)"
    using joint_change [OF assms(1-3)] by (simp_all add: change_row_ok_def)
  have "\<not> ch_pivotAttempted (cr_change r)"
    using change_inv_shape [OF ok(1)] assms(4)
    by (cases "ch_kind (cr_change r)"; cases "ch_step (cr_change r)") (auto simp: shape_of_def)
  with ok(2) show ?thesis by (auto simp: sent_ok_def cr_changeId_def)
qed

theorem given_up_never_replaced_witness:
  "ChangeSent (ex_uuid CHR ''8'') REPLACE_COMMITMENT \<notin> set (hs_calls ex_rgiven_up)"
  using given_up_never_replaced [OF ex_jinit_ok ex_joint_changes [OF rtranclp_trans [OF ex_rstarted ex_rreached]],
      of "hd (bk_changes (hs_db ex_rgiven_up))"]
  by (simp add: ex_joint_def ex_rgiven_up_def ex_cstate_def ex_cdb_def cr_changeId_def ex_reschedule_defs)

section \<open>Two things the code does not do\<close>

text \<open>
  The pivot of a cancellation is never recorded: \<^verbatim>\<open>pivotAttempted\<close> stays false although
  Dispatch was asked to cancel the job.
\<close>

lemma cancellation_pivot_unrecorded:
  assumes "joint_init s0" and "(joint_step ms)\<^sup>*\<^sup>* s0 st" and "r \<in> set (bk_changes (joint_db st))"
    and "ch_kind (cr_change r) = CANCELLATION"
  shows "\<not> ch_pivotAttempted (cr_change r)"
proof -
  have "change_inv (cr_change r)" using joint_change [OF assms(1-3)] by (simp add: change_row_ok_def)
  from change_inv_shape [OF this] assms(4) show ?thesis
    by (cases "ch_step (cr_change r)") (auto simp: shape_of_def)
qed

text \<open>
  C27. The answer that raises the attention of the operators leaves no audit row, whatever the
  database: the row \<^verbatim>\<open>booking.change.attention\<close> is written by the later step that clears it.
\<close>

theorem attention_raised_unaudited:
  assumes "decide_change c env = Inr (nxt, slot)" and "\<not> ch_attention c" and "ch_attention nxt"
  shows "bk_audit (snd (change_answered c cor l env ms db)) = bk_audit db"
proof -
  have same: "ch_step nxt = ch_step c \<and> ch_step nxt \<noteq> change_step.DONE"
  proof -
    have adv: "\<not> ch_attention (advance_change c st now id)" "\<not> ch_attention (advance_change c st now (ch_outcome_update f))"
      "\<not> ch_attention (advance_change c st now (ch_refusal_update g))" "\<not> ch_attention (advance_change c st now (ch_lastError_update h))"
      for st now f g h by (simp_all add: advance_change_def)
    show ?thesis
    proof (cases "ch_step c")
      case DISPATCH_CANCEL
      then show ?thesis using assms adv by (cases "ce_cancel env") (auto simp: decide_change_def onDispatchCancel_def advance_change_def)
    next
      case RELEASE_CAPACITY
      then show ?thesis using assms adv by (cases "ce_release env") (auto simp: decide_change_def onCapacityReleased_def)
    next
      case SETTLE_BILLING
      then show ?thesis using assms adv by (cases "ce_settle env") (auto simp: decide_change_def onSettled_def advance_change_def)
    next
      case DISPATCH_REBIND
      then show ?thesis using assms adv
        by (cases "ce_rebind env") (auto simp: decide_change_def onRebind_def advance_change_def split: if_splits)
    next
      case REPLACE_COMMITMENT
      then show ?thesis using assms adv by (cases "ce_replace env") (auto simp: decide_change_def onReplace_def split: if_splits)
    next
      case DISPATCH_CONFIRM
      then show ?thesis using assms adv by (cases "ce_confirm env") (auto simp: decide_change_def onConfirm_def)
    next
      case DISPATCH_REVERT
      then show ?thesis using assms adv by (cases "ce_revert env") (auto simp: decide_change_def onRevert_def)
    qed (use assms in \<open>auto simp: decide_change_def\<close>)
  qed
  then have "\<not> isPivotExit c nxt" by (auto simp: isPivotExit_def)
  then show ?thesis using assms(1) same
    by (auto simp: change_answered_def conclude_def saveChange_def writeChange_def settle_step_def Let_def split: bool.splits)
qed

theorem attention_raised_unaudited_witness:
  "bk_audit (snd (change_answered (ex_c0\<lparr>ch_attempts := 7\<rparr>) (ex_uuid CHR ''c'') ex_clease
     (ex_cenv\<lparr>ce_cancel := CancelUnknown ''TIMEOUT''\<rparr>) 30000 ex_cancelled_db)) = bk_audit ex_cancelled_db"
  by (rule attention_raised_unaudited [of _ _ "retry_change (ex_c0\<lparr>ch_attempts := 7\<rparr>) ''TIMEOUT'' 110 0" None])
    (simp_all add: decide_change_def onDispatchCancel_def expectChangeStep_def ex_cenv_def ex_change_defs retry_change_def
      attentionAfterAttempts_def)

end
