(* ===== verification/Billing_Money.thy ===== *)
theory Billing_Money
  imports "HOL-Library.List_Lexorder" "HOL-Library.Char_ord" Decimal
begin

text \<open>
  Billing, money and errors: \<^verbatim>\<open>domain/money.ts\<close> and \<^verbatim>\<open>application/billing-errors.ts\<close>.

  A \<^verbatim>\<open>Money\<close> is a currency and an integer number of minor units. Its constructor is private:
  every value the service holds was made by \<open>Money_of\<close>, whose currency is one the lookup in
  \<^verbatim>\<open>SUPPORTED_SCALES\<close> finds and whose amount is in range. The lookup is a property access on an
  object literal, so it also finds the names every object inherits; \<open>valid_money\<close> is the amount in
  a currency of the table itself. The wire parser returns only such amounts, sums and differences
  of them are such amounts, and \<open>Billing_Properties\<close> shows that the database holds no other.
\<close>

section \<open>Errors\<close>

text \<open>
  The literal codes of \<^verbatim>\<open>MoneyError\<close>, of the four rule errors and of
  \<^verbatim>\<open>BillingApplicationError\<close>. The codes are string literals in the source, so one code used
  by two error classes is one value.
\<close>

type_synonym billing_code = string

text \<open>
  What a call can throw. \<open>StoreError\<close> are the named errors of the ports and the raw ones of the
  database: a unique index the adapter does not translate, and a \<^verbatim>\<open>CHECK\<close>. \<open>Fault\<close> is a
  plain \<^verbatim>\<open>Error\<close> (an internal error of the service).
\<close>

datatype store_signal =
    ConcurrentModification | ReceiptAlreadyExists | ObligationAlreadyExists | ProviderReferenceTaken
  | CollectionAlreadyRecorded | TreasuryReferenceTaken | ProviderCreditTaken
  | ProviderRefundReferenceTaken | BookingAlreadyLinked | UniqueViolation | CheckViolation

datatype billing_error =
    MoneyError billing_code
  | PaymentRuleError billing_code
  | CashRuleError billing_code
  | ProviderRuleError billing_code
  | RefundRuleError billing_code
  | BillingApplicationError billing_code
  | StoreError store_signal
  | Fault string

text \<open>\<^verbatim>\<open>STATUS\<close>: the HTTP status of a code; \<^verbatim>\<open>MoneyError\<close>'s own codes have none.\<close>

definition error_status :: "billing_code \<Rightarrow> nat option" where
  "error_status c =
     (if c \<in> set [
        ''REQUEST_INVALID'', ''IDEMPOTENCY_KEY_INVALID''] then Some 400
      else if c \<in> set [
        ''AUTH_REQUIRED'', ''NOTIFICATION_REJECTED''] then Some 401
      else if c \<in> set [
        ''AUTH_FORBIDDEN'', ''COLLECTOR_NOT_ASSIGNED'', ''SELF_COLLECTION_FORBIDDEN'',
        ''SEPARATION_OF_DUTIES''] then Some 403
      else if c \<in> set [
        ''NOT_FOUND'', ''BOOKING_MISMATCH''] then Some 404
      else if c \<in> set [
        ''REVISION_CONFLICT''] then Some 412
      else if c \<in> set [
        ''AMOUNT_INVALID'', ''CURRENCY_UNSUPPORTED'', ''ATTEMPT_LIMIT_REACHED'',
        ''AMOUNT_NOT_EQUAL_OUTSTANDING'', ''OBSERVED_AMOUNT_NOT_ALLOWED'', ''HANDOVER_EMPTY'',
        ''HANDOVER_TOO_LARGE'', ''HANDOVER_DUPLICATE_RECEIPT'', ''HANDOVER_MIXED_CURRENCY'',
        ''DECLARED_TOTAL_MISMATCH'', ''CURRENCY_MISMATCH'', ''MERCHANT_ACCOUNT_UNKNOWN'',
        ''OCCURRED_IN_FUTURE'', ''REFUND_REASON_NOT_ALLOWED'', ''REFUND_CURRENCY_MISMATCH'',
        ''REFUND_EXCEEDS_AVAILABLE''] then Some 422
      else if c \<in> set [
        ''AUTH_UNAVAILABLE'', ''UPSTREAM_UNAVAILABLE''] then Some 503
      else if c \<in> set [
        ''IDEMPOTENCY_CONFLICT'', ''OBLIGATION_ALREADY_EXISTS'', ''QUOTE_NOT_USABLE'',
        ''PROVIDER_REFERENCE_TAKEN'', ''OBLIGATION_SETTLED'', ''OBLIGATION_VOIDED'',
        ''VOID_NOT_ALLOWED'', ''METHOD_UNCHANGED'', ''PAYMENT_IN_REVIEW'', ''NO_ACTIVE_INTENT'',
        ''INTENT_NOT_ACCEPTING_ATTEMPTS'', ''ATTEMPT_NOT_OPEN'', ''ALREADY_UNKNOWN'',
        ''COLLECTION_ALREADY_RECORDED'', ''TREASURY_REFERENCE_TAKEN'', ''INTENT_NOT_CASH'',
        ''WORK_NOT_COMPLETED'', ''RECEIPT_ALREADY_REVERSED'', ''RECEIPT_NOT_HELD'',
        ''HANDOVER_NOT_PENDING'', ''HANDOVER_NOT_RECEIVED'', ''PROVIDER_CREDIT_REQUIRED'',
        ''PROVIDER_CAPABILITY_MISSING'', ''PROVIDER_CREDIT_CONFLICT'',
        ''PROVIDER_CREDIT_ALREADY_RECORDED'', ''PROVIDER_REFUND_REFERENCE_TAKEN'',
        ''CREDIT_NOT_PENDING'', ''CREDIT_NOT_CONFIRMED'', ''CREDIT_NOT_REFUNDABLE'',
        ''REFUND_NOT_REQUESTED'', ''REFUND_NOT_EXECUTABLE'', ''REFUND_NOT_PENDING_AT_PROVIDER'',
        ''REFUND_CHANNEL_MISMATCH''] then Some 409
      else None)"

section \<open>Money\<close>

record bmoney =
  mo_currency :: string
  mo_amountMinor :: int

record money_wire =
  wi_currency :: string
  wi_amountMinor :: string
  wi_scale :: nat

definition SUPPORTED_SCALES :: "(string \<times> nat) list" where
  "SUPPORTED_SCALES = [(''SYP'', 2), (''USD'', 2)]"

text \<open>
  The names an object literal inherits from \<^verbatim>\<open>Object.prototype\<close>. \<^verbatim>\<open>SUPPORTED_SCALES[c]\<close> is
  \<^verbatim>\<open>undefined\<close> unless \<open>c\<close> is a key of the table or one of them.
\<close>

definition OBJECT_PROTOTYPE_NAMES :: "string list" where
  "OBJECT_PROTOTYPE_NAMES =
     [''constructor'', ''__defineGetter__'', ''__defineSetter__'', ''hasOwnProperty'',
      ''__lookupGetter__'', ''__lookupSetter__'', ''isPrototypeOf'', ''propertyIsEnumerable'',
      ''toString'', ''valueOf'', ''__proto__'', ''toLocaleString'']"

definition scale_defined :: "string \<Rightarrow> bool" where
  "scale_defined c \<longleftrightarrow> map_of SUPPORTED_SCALES c \<noteq> None \<or> c \<in> set OBJECT_PROTOTYPE_NAMES"

text \<open>\<^verbatim>\<open>const LIMIT = 10n ** 18n\<close>.\<close>

definition MONEY_LIMIT :: int where
  "MONEY_LIMIT = 10 ^ 18"

text \<open>\<^verbatim>\<open>AMOUNT = /^(0|[1-9][0-9]{0,17})$/\<close>.\<close>

definition AMOUNT_text :: "string \<Rightarrow> bool" where
  "AMOUNT_text s \<longleftrightarrow> s = ''0'' \<or> positive_digits 18 s"

definition Money_of :: "string \<Rightarrow> int \<Rightarrow> billing_error + bmoney" where
  "Money_of c a =
     (if \<not> scale_defined c then Inl (MoneyError ''CURRENCY_UNSUPPORTED'')
      else if a < 0 then Inl (MoneyError ''MONEY_INVALID'')
      else if a \<ge> MONEY_LIMIT then Inl (MoneyError ''MONEY_OUT_OF_RANGE'')
      else Inr \<lparr>mo_currency = c, mo_amountMinor = a\<rparr>)"

definition Money_zero :: "string \<Rightarrow> billing_error + bmoney" where
  "Money_zero c = Money_of c 0"

text \<open>
  \<^verbatim>\<open>Object.keys(input).sort().join(',')\<close>, the line two key sets are compared by; the keys the
  code compares are ASCII, where the order of UTF-16 code units is that of the characters.
\<close>

definition key_line :: "string list \<Rightarrow> string" where
  "key_line ks = concat (map (\<lambda>k. k @ '','') (sort ks))"

text \<open>The own property of an object; \<open>None\<close> is \<^verbatim>\<open>undefined\<close>.\<close>

definition field :: "(string \<times> json) list \<Rightarrow> string \<Rightarrow> json option" where
  "field kvs k = map_of kvs k"

text \<open>
  \<^verbatim>\<open>Money.parse\<close>. For an inherited name the lookup gives a function or an object, which no JSON
  scale is identical to, so the next line refuses it with the same error as an unknown currency.
\<close>

definition Money_parse :: "json \<Rightarrow> billing_error + bmoney" where
  "Money_parse v =
     (case v of
        JObject kvs \<Rightarrow>
          if key_line (map fst kvs) \<noteq> key_line [''amountMinor'', ''currency'', ''scale''] then
            Inl (MoneyError ''MONEY_INVALID'')
          else
            (case field kvs ''currency'' of
               Some (JString c) \<Rightarrow>
                 (case map_of SUPPORTED_SCALES c of
                    None \<Rightarrow> Inl (MoneyError ''CURRENCY_UNSUPPORTED'')
                  | Some sc \<Rightarrow>
                      if field kvs ''scale'' \<noteq> Some (JNumber (JsInt (int sc))) then
                        Inl (MoneyError ''CURRENCY_UNSUPPORTED'')
                      else
                        (case field kvs ''amountMinor'' of
                           Some (JString a) \<Rightarrow>
                             if AMOUNT_text a then Money_of c (parse_int a)
                             else Inl (MoneyError ''MONEY_INVALID'')
                         | _ \<Rightarrow> Inl (MoneyError ''MONEY_INVALID'')))
             | _ \<Rightarrow> Inl (MoneyError ''CURRENCY_UNSUPPORTED''))
      | _ \<Rightarrow> Inl (MoneyError ''MONEY_INVALID''))"

text \<open>\<^verbatim>\<open>scale\<close>, of an amount in a currency of the table.\<close>

definition Money_scale :: "bmoney \<Rightarrow> nat" where
  "Money_scale m = (case map_of SUPPORTED_SCALES (mo_currency m) of Some s \<Rightarrow> s | None \<Rightarrow> 0)"

definition sameCurrency :: "bmoney \<Rightarrow> bmoney \<Rightarrow> billing_error + unit" where
  "sameCurrency m n =
     (if mo_currency n \<noteq> mo_currency m then Inl (MoneyError ''CURRENCY_MISMATCH'') else Inr ())"

definition Money_plus :: "bmoney \<Rightarrow> bmoney \<Rightarrow> billing_error + bmoney" where
  "Money_plus m n =
     andThen (sameCurrency m n) (\<lambda>_. Money_of (mo_currency m) (mo_amountMinor m + mo_amountMinor n))"

definition Money_minus :: "bmoney \<Rightarrow> bmoney \<Rightarrow> billing_error + bmoney" where
  "Money_minus m n =
     andThen (sameCurrency m n) (\<lambda>_. Money_of (mo_currency m) (mo_amountMinor m - mo_amountMinor n))"

definition Money_equals :: "bmoney \<Rightarrow> bmoney \<Rightarrow> bool" where
  "Money_equals m n \<longleftrightarrow> mo_currency m = mo_currency n \<and> mo_amountMinor m = mo_amountMinor n"

definition Money_isZero :: "bmoney \<Rightarrow> bool" where
  "Money_isZero m \<longleftrightarrow> mo_amountMinor m = 0"

definition Money_toWire :: "bmoney \<Rightarrow> money_wire" where
  "Money_toWire m =
     \<lparr>wi_currency = mo_currency m, wi_amountMinor = show_int (mo_amountMinor m),
      wi_scale = Money_scale m\<rparr>"

text \<open>The wire form as the JSON value that leaves the service.\<close>

definition wire_json :: "money_wire \<Rightarrow> json" where
  "wire_json w =
     JObject [(''currency'', JString (wi_currency w)), (''amountMinor'', JString (wi_amountMinor w)),
              (''scale'', JNumber (JsInt (int (wi_scale w))))]"

section \<open>Well-formed money\<close>

definition valid_money :: "bmoney \<Rightarrow> bool" where
  "valid_money m \<longleftrightarrow>
     map_of SUPPORTED_SCALES (mo_currency m) \<noteq> None \<and> 0 \<le> mo_amountMinor m \<and>
     mo_amountMinor m < MONEY_LIMIT"

text \<open>What every value of the class satisfies.\<close>

definition made_money :: "bmoney \<Rightarrow> bool" where
  "made_money m \<longleftrightarrow> scale_defined (mo_currency m) \<and> 0 \<le> mo_amountMinor m \<and> mo_amountMinor m < MONEY_LIMIT"

lemma valid_made: "valid_money m \<Longrightarrow> made_money m"
  by (auto simp: valid_money_def made_money_def scale_defined_def)

lemma made_valid: "made_money k \<Longrightarrow> mo_currency k = mo_currency m \<Longrightarrow> valid_money m \<Longrightarrow> valid_money k"
  by (auto simp: valid_money_def made_money_def)

lemma Money_of_Inr [simp]:
  "Money_of c a = Inr m \<longleftrightarrow> m = \<lparr>mo_currency = c, mo_amountMinor = a\<rparr> \<and> made_money m"
  by (auto simp: Money_of_def made_money_def)

lemma Money_zero_Inr [simp]:
  "Money_zero c = Inr m \<longleftrightarrow> m = \<lparr>mo_currency = c, mo_amountMinor = 0\<rparr> \<and> made_money m"
  by (simp add: Money_zero_def)

lemma sameCurrency_Inr [simp]: "sameCurrency m n = Inr u \<longleftrightarrow> mo_currency n = mo_currency m"
  by (simp add: sameCurrency_def)

lemma Money_plus_Inr:
  "Money_plus m n = Inr k \<longleftrightarrow>
   mo_currency n = mo_currency m \<and> made_money k \<and>
   k = \<lparr>mo_currency = mo_currency m, mo_amountMinor = mo_amountMinor m + mo_amountMinor n\<rparr>"
  by (auto simp: Money_plus_def)

lemma Money_minus_Inr:
  "Money_minus m n = Inr k \<longleftrightarrow>
   mo_currency n = mo_currency m \<and> made_money k \<and>
   k = \<lparr>mo_currency = mo_currency m, mo_amountMinor = mo_amountMinor m - mo_amountMinor n\<rparr>"
  by (auto simp: Money_minus_def)

text \<open>Sums and differences of amounts in a currency of the table stay in it.\<close>

lemma money_arith_valid:
  "Money_plus m n = Inr k \<Longrightarrow> valid_money m \<Longrightarrow> valid_money k"
  "Money_minus m n = Inr k \<Longrightarrow> valid_money m \<Longrightarrow> valid_money k"
  by (auto simp: Money_plus_Inr Money_minus_Inr intro: made_valid)

lemma Money_equals_eq [simp]: "Money_equals m n \<longleftrightarrow> m = (n :: bmoney)"
  by (cases m; cases n) (simp add: Money_equals_def)

lemma Money_parse_Inr:
  assumes "Money_parse v = Inr m"
  shows "valid_money m"
  using assms by (auto simp: Money_parse_def made_money_def valid_money_def split: json.splits if_splits option.splits)

lemma amount_text_show_int: "AMOUNT_text (show_int a) \<longleftrightarrow> 0 \<le> a \<and> a < MONEY_LIMIT"
proof (cases "a < 0")
  case True
  then have "hd (show_int a) = CHR ''-''" by (simp add: show_int_def)
  moreover have "\<not> is_digit (CHR ''-'')" by (simp add: is_digit_def in_range_def)
  ultimately have "\<not> positive_digits 18 (show_int a)"
    by (cases "show_int a") (auto simp: positive_digits_def)
  moreover have "show_int a \<noteq> ''0''" using True by (simp add: show_int_def)
  ultimately show ?thesis using True by (simp add: AMOUNT_text_def)
next
  case False
  have zero: "show_int 0 = ''0''"
    using digit_char_simps(3) [of 0] by (simp add: show_int_def show_nat.simps)
  have "a < MONEY_LIMIT \<longleftrightarrow> nat a < 10 ^ 18" using False by (simp add: MONEY_LIMIT_def nat_less_iff)
  moreover have "show_int a = ''0'' \<longleftrightarrow> a = 0"
    by (metis parse_int_show_int zero)
  moreover have "0 < nat a \<Longrightarrow> positive_digits 18 (show_int a) \<longleftrightarrow> nat a < 10 ^ 18"
    using False by (simp add: show_int_def positive_digits_show_nat)
  ultimately show ?thesis using False
    by (cases "a = 0") (auto simp: AMOUNT_text_def MONEY_LIMIT_def)
qed

lemma wire_keys_line:
  "key_line (map fst [(''currency'', x), (''amountMinor'', y), (''scale'', z)]) =
   key_line [''amountMinor'', ''currency'', ''scale'']"
  by (simp add: key_line_def)

lemma Money_parse_toWire:
  assumes "valid_money m"
  shows "Money_parse (wire_json (Money_toWire m)) = Inr m"
proof -
  from assms obtain s where s: "map_of SUPPORTED_SCALES (mo_currency m) = Some s"
    by (auto simp: valid_money_def)
  have "AMOUNT_text (show_int (mo_amountMinor m))"
    using assms by (simp add: amount_text_show_int valid_money_def)
  with s assms show ?thesis
    unfolding Money_parse_def wire_json_def Money_toWire_def
    by (simp only: json.case wire_keys_line) (simp add: field_def Money_scale_def valid_made)
qed

end
