(* ===== verification/Billing_Payment.thy ===== *)
theory Billing_Payment
  imports Billing_Money
begin

text \<open>
  Billing, the payment rules: \<^verbatim>\<open>domain/payment.ts\<close>. One obligation, at most one active
  payment intent, and the attempts (reported provider references). The source's structural
  interfaces are records that the stored rows extend (\<open>Billing_Store\<close>), so a rule applies to
  a row as it does in the source.
\<close>

section \<open>Methods and statuses\<close>

datatype pay_method = CASH_ON_COMPLETION | SHAM_CASH | SYRIATEL_CASH

definition PAYMENT_METHODS :: "(string \<times> pay_method) list" where
  "PAYMENT_METHODS =
     [(''CASH_ON_COMPLETION'', CASH_ON_COMPLETION), (''SHAM_CASH'', SHAM_CASH),
      (''SYRIATEL_CASH'', SYRIATEL_CASH)]"

definition ELECTRONIC_METHODS :: "pay_method list" where
  "ELECTRONIC_METHODS = [SHAM_CASH, SYRIATEL_CASH]"

datatype obligation_status = OPEN | SETTLED | VOIDED

datatype intent_status =
    AWAITING_CASH_COLLECTION | AWAITING_CUSTOMER_PAYMENT | UNDER_REVIEW
  | SUCCEEDED | SUPERSEDED | CANCELLED

datatype attempt_status = PENDING_REVIEW | MATCHED | MISMATCHED | UNKNOWN

datatype reconciliation_outcome = To_MATCHED | To_MISMATCHED | To_UNKNOWN

definition RECONCILIATION_OUTCOMES :: "(string \<times> reconciliation_outcome) list" where
  "RECONCILIATION_OUTCOMES =
     [(''MATCHED'', To_MATCHED), (''MISMATCHED'', To_MISMATCHED), (''UNKNOWN'', To_UNKNOWN)]"

definition ACTIVE_INTENT_STATUSES :: "intent_status list" where
  "ACTIVE_INTENT_STATUSES = [AWAITING_CASH_COLLECTION, AWAITING_CUSTOMER_PAYMENT, UNDER_REVIEW]"

definition OPEN_ATTEMPT_STATUSES :: "attempt_status list" where
  "OPEN_ATTEMPT_STATUSES = [PENDING_REVIEW, UNKNOWN]"

definition MAX_ATTEMPTS_PER_OBLIGATION :: nat where
  "MAX_ATTEMPTS_PER_OBLIGATION = 5"

record obligation_state =
  ob_amount :: bmoney
  ob_verified :: bmoney
  ob_status :: obligation_status

record intent_state =
  it_method :: pay_method
  it_status :: intent_status

definition payment_rule :: "billing_code \<Rightarrow> billing_error + 'a" where
  "payment_rule c = Inl (PaymentRuleError c)"

section \<open>Rules\<close>

definition isElectronic :: "pay_method \<Rightarrow> bool" where
  "isElectronic pm \<longleftrightarrow> pm \<in> set ELECTRONIC_METHODS"

definition outstanding :: "'a obligation_state_scheme \<Rightarrow> billing_error + bmoney" where
  "outstanding ob = Money_minus (ob_amount ob) (ob_verified ob)"

definition assertOpen :: "'a obligation_state_scheme \<Rightarrow> billing_error + unit" where
  "assertOpen ob =
     (if ob_status ob = SETTLED then payment_rule ''OBLIGATION_SETTLED''
      else if ob_status ob = VOIDED then payment_rule ''OBLIGATION_VOIDED''
      else Inr ())"

definition initialIntentStatus :: "pay_method \<Rightarrow> intent_status" where
  "initialIntentStatus pm =
     (if isElectronic pm then AWAITING_CUSTOMER_PAYMENT else AWAITING_CASH_COLLECTION)"

record selection_plan =
  sp_supersedeCurrent :: bool
  sp_status :: intent_status
  sp_amount :: bmoney

definition planMethodSelection ::
  "'a obligation_state_scheme \<Rightarrow> 'b intent_state_scheme option \<Rightarrow> pay_method \<Rightarrow>
   billing_error + selection_plan" where
  "planMethodSelection ob current pm =
     andThen (assertOpen ob) (\<lambda>_.
     andThen
       (case current of
          None \<Rightarrow> Inr ()
        | Some it \<Rightarrow>
            if it_status it = UNDER_REVIEW then payment_rule ''PAYMENT_IN_REVIEW''
            else if it_method it = pm then payment_rule ''METHOD_UNCHANGED''
            else Inr ()) (\<lambda>_.
     andThen (outstanding ob) (\<lambda>due.
     Inr \<lparr>sp_supersedeCurrent = (current \<noteq> None), sp_status = initialIntentStatus pm,
          sp_amount = due\<rparr>)))"

definition planAttemptSubmission ::
  "'a obligation_state_scheme \<Rightarrow> 'b intent_state_scheme option \<Rightarrow> nat \<Rightarrow> billing_error + unit" where
  "planAttemptSubmission ob intent attemptsSoFar =
     andThen (assertOpen ob) (\<lambda>_.
     (case intent of
        None \<Rightarrow> payment_rule ''NO_ACTIVE_INTENT''
      | Some it \<Rightarrow>
          if it_status it \<noteq> AWAITING_CUSTOMER_PAYMENT \<or> \<not> isElectronic (it_method it) then
            payment_rule ''INTENT_NOT_ACCEPTING_ATTEMPTS''
          else if attemptsSoFar \<ge> MAX_ATTEMPTS_PER_OBLIGATION then
            payment_rule ''ATTEMPT_LIMIT_REACHED''
          else Inr ()))"

record reconciliation_plan =
  rp_attemptStatus :: attempt_status
  rp_intentStatus :: intent_status
  rp_obligationStatus :: obligation_status

definition planReconciliation ::
  "'a obligation_state_scheme \<Rightarrow> attempt_status \<Rightarrow> reconciliation_outcome \<Rightarrow> bmoney option \<Rightarrow>
   billing_error + reconciliation_plan" where
  "planReconciliation ob st decision observed =
     (if st \<notin> set OPEN_ATTEMPT_STATUSES then payment_rule ''ATTEMPT_NOT_OPEN''
      else andThen (assertOpen ob) (\<lambda>_.
      (case decision of
         To_MATCHED \<Rightarrow> payment_rule ''PROVIDER_CREDIT_REQUIRED''
       | To_MISMATCHED \<Rightarrow>
           Inr \<lparr>rp_attemptStatus = MISMATCHED, rp_intentStatus = AWAITING_CUSTOMER_PAYMENT,
                rp_obligationStatus = ob_status ob\<rparr>
       | To_UNKNOWN \<Rightarrow>
           if observed \<noteq> None then payment_rule ''OBSERVED_AMOUNT_NOT_ALLOWED''
           else if st = UNKNOWN then payment_rule ''ALREADY_UNKNOWN''
           else Inr \<lparr>rp_attemptStatus = UNKNOWN, rp_intentStatus = UNDER_REVIEW,
                     rp_obligationStatus = ob_status ob\<rparr>)))"

definition planVoid :: "'a obligation_state_scheme \<Rightarrow> nat \<Rightarrow> billing_error + unit" where
  "planVoid ob attemptsSoFar =
     andThen (assertOpen ob) (\<lambda>_.
     if attemptsSoFar > 0 \<or> \<not> Money_isZero (ob_verified ob) then payment_rule ''VOID_NOT_ALLOWED''
     else Inr ())"

datatype financial_status =
    FS_VOIDED | PAID | CASH_COLLECTED | PARTIALLY_REFUNDED | REFUNDED | UNPAID | AWAITING_CASH
  | AWAITING_PAYMENT | FS_UNDER_REVIEW | OUTCOME_UNKNOWN

definition financialStatus ::
  "'a obligation_state_scheme \<Rightarrow> 'b intent_state_scheme option \<Rightarrow> bool \<Rightarrow> bool \<Rightarrow> bmoney option \<Rightarrow>
   financial_status" where
  "financialStatus ob activeIntent hasUnknownAttempt settledByCash refunded =
     (if ob_status ob = VOIDED then FS_VOIDED
      else if ob_status ob = SETTLED then
        (if settledByCash then CASH_COLLECTED
         else (case refunded of
                 None \<Rightarrow> PAID
               | Some r \<Rightarrow>
                   if Money_isZero r then PAID
                   else if Money_equals r (ob_amount ob) then REFUNDED
                   else PARTIALLY_REFUNDED))
      else (case activeIntent of
              None \<Rightarrow> UNPAID
            | Some it \<Rightarrow>
                (case it_status it of
                   AWAITING_CASH_COLLECTION \<Rightarrow> AWAITING_CASH
                 | AWAITING_CUSTOMER_PAYMENT \<Rightarrow> AWAITING_PAYMENT
                 | UNDER_REVIEW \<Rightarrow> if hasUnknownAttempt then OUTCOME_UNKNOWN else FS_UNDER_REVIEW
                 | _ \<Rightarrow> UNPAID)))"

section \<open>References\<close>

text \<open>\<^verbatim>\<open>PROVIDER_REFERENCE = /^[A-Za-z0-9-]{4,64}$/\<close>, which is also \<^verbatim>\<open>TREASURY_REFERENCE\<close>.\<close>

definition reference_char :: "char \<Rightarrow> bool" where
  "reference_char c \<longleftrightarrow> is_upper c \<or> is_lower c \<or> is_digit c \<or> c = CHR ''-''"

definition PROVIDER_REFERENCE :: "string \<Rightarrow> bool" where
  "PROVIDER_REFERENCE s \<longleftrightarrow> list_all reference_char s \<and> 4 \<le> length s \<and> length s \<le> 64"

text \<open>
  \<^verbatim>\<open>raw.replaceAll('-', '').toUpperCase()\<close>. The argument is \<open>None\<close> when the field is
  \<^verbatim>\<open>undefined\<close>.
\<close>

fun normalizeProviderReference :: "json option \<Rightarrow> string option" where
  "normalizeProviderReference (Some (JString raw)) =
     (if \<not> PROVIDER_REFERENCE raw then None
      else let normalized = toUpperCase (filter (\<lambda>c. c \<noteq> CHR ''-'') raw) in
           if length normalized \<ge> 4 then Some normalized else None)"
| "normalizeProviderReference _ = None"

text \<open>The four characters \<^verbatim>\<open>maskProviderReference\<close> shows after its ellipsis.\<close>

definition maskProviderReference :: "string \<Rightarrow> string" where
  "maskProviderReference normalized = drop (length normalized - 4) normalized"

section \<open>Lemmas\<close>

lemma payment_rule_Inr [simp]: "payment_rule c \<noteq> Inr x"
  by (simp add: payment_rule_def)

lemma assertOpen_Inr [simp]: "assertOpen ob = Inr u \<longleftrightarrow> ob_status ob = OPEN"
  by (cases "ob_status ob") (simp_all add: assertOpen_def)

lemma outstanding_Inr:
  "outstanding ob = Inr due \<longleftrightarrow>
   mo_currency (ob_verified ob) = mo_currency (ob_amount ob) \<and> made_money due \<and>
   due = \<lparr>mo_currency = mo_currency (ob_amount ob),
          mo_amountMinor = mo_amountMinor (ob_amount ob) - mo_amountMinor (ob_verified ob)\<rparr>"
  by (simp add: outstanding_def Money_minus_Inr)

lemma planMethodSelection_Inr:
  assumes "planMethodSelection ob current pm = Inr p"
  shows "ob_status ob = OPEN" and "outstanding ob = Inr (sp_amount p)"
    and "sp_status p = initialIntentStatus pm" and "sp_supersedeCurrent p \<longleftrightarrow> current \<noteq> None"
    and "current = Some it \<Longrightarrow> it_status it \<noteq> UNDER_REVIEW"
  using assms by (auto simp: planMethodSelection_def split: option.splits if_splits)

lemma planAttemptSubmission_Inr:
  "planAttemptSubmission ob intent n = Inr u \<longleftrightarrow>
   ob_status ob = OPEN \<and> n < MAX_ATTEMPTS_PER_OBLIGATION \<and>
   (\<exists>it. intent = Some it \<and> it_status it = AWAITING_CUSTOMER_PAYMENT \<and> isElectronic (it_method it))"
  by (auto simp: planAttemptSubmission_def split: option.splits)

text \<open>A reviewer's word never settles: a plan that is accepted is MISMATCHED or UNKNOWN.\<close>

lemma planReconciliation_Inr:
  assumes "planReconciliation ob st d observed = Inr p"
  shows "ob_status ob = OPEN" and "rp_obligationStatus p = OPEN"
    and "st = PENDING_REVIEW \<or> st = UNKNOWN"
    and "d = To_MISMATCHED \<and> rp_attemptStatus p = MISMATCHED \<and>
           rp_intentStatus p = AWAITING_CUSTOMER_PAYMENT \<or>
         d = To_UNKNOWN \<and> st = PENDING_REVIEW \<and> rp_attemptStatus p = UNKNOWN \<and>
           rp_intentStatus p = UNDER_REVIEW \<and> observed = None"
  using assms
  by (auto simp: planReconciliation_def OPEN_ATTEMPT_STATUSES_def
      split: if_splits reconciliation_outcome.splits)

lemma planVoid_Inr:
  "planVoid ob n = Inr u \<longleftrightarrow> ob_status ob = OPEN \<and> n = 0 \<and> mo_amountMinor (ob_verified ob) = 0"
  by (auto simp: planVoid_def Money_isZero_def)

lemma normalizeProviderReference_Some:
  assumes "normalizeProviderReference v = Some s"
  shows "4 \<le> length s" and "length s \<le> 64" and "CHR ''-'' \<notin> set s" and "toUpperCase s = s"
proof -
  from assms obtain raw where raw: "PROVIDER_REFERENCE raw"
      "s = toUpperCase (filter (\<lambda>c. c \<noteq> CHR ''-'') raw)" "4 \<le> length s"
    by (cases v rule: normalizeProviderReference.cases) (auto simp: Let_def split: if_splits)
  then show "4 \<le> length s" and "toUpperCase s = s" by simp_all
  have "length s \<le> length raw" using raw by (simp add: toUpperCase_def)
  with raw show "length s \<le> 64" by (simp add: PROVIDER_REFERENCE_def)
  have up: "to_upper c \<noteq> CHR ''-''" if "c \<noteq> CHR ''-''" for c
  proof (cases "is_lower c")
    case True
    then have "97 \<le> (of_char c :: nat)" "(of_char c :: nat) \<le> 122"
      by (auto simp: is_lower_def in_range_def)
    then have "(of_char (to_upper c) :: nat) \<ge> 65" using True by (simp add: to_upper_def)
    then show ?thesis by auto
  qed (use that in \<open>simp add: to_upper_def\<close>)
  then show "CHR ''-'' \<notin> set s" using raw(2) by (force simp: toUpperCase_def)
qed

end
