(* ===== verification/Billing_Journal.thy ===== *)
theory Billing_Journal
  imports Billing_Payment
begin

text \<open>
  Billing, the ledger: \<^verbatim>\<open>domain/ledger.ts\<close> (the balance check of a candidate journal) and
  \<^verbatim>\<open>domain/journal.ts\<close> (the chart of accounts and one constructor per kind of journal). The
  check accumulates a total per currency in a map; \<open>balanced_entries\<close> says the same without the
  map, and the two agree. Its argument is typed as the code declares it, so the checks that only
  a value outside that type fails (that it is an array, that account and amount are strings, that
  the side is one of the two) have no branch here.
\<close>

section \<open>The balance check\<close>

datatype journal_side = DEBIT | CREDIT

record ledger_entry =
  le_accountId :: string
  le_currency :: string
  le_side :: journal_side
  le_amountMinor :: string

text \<open>The characters \<^verbatim>\<open>String.prototype.trim\<close> removes, among the one-byte ones.\<close>

definition js_space :: "char \<Rightarrow> bool" where
  "js_space c \<longleftrightarrow> (of_char c :: nat) \<in> {9, 10, 11, 12, 13, 32, 160}"

definition blank :: "string \<Rightarrow> bool" where
  "blank s \<longleftrightarrow> list_all js_space s"

definition currency_text :: "string \<Rightarrow> bool" where
  "currency_text s \<longleftrightarrow> list_all is_upper s \<and> length s = 3"

definition signed :: "journal_side \<Rightarrow> int \<Rightarrow> int" where
  "signed side a = a * (if side = DEBIT then 1 else - 1)"

text \<open>The \<^verbatim>\<open>Map\<close> of totals, in insertion order.\<close>

fun add_total :: "string \<Rightarrow> int \<Rightarrow> (string \<times> int) list \<Rightarrow> (string \<times> int) list" where
  "add_total c d [] = [(c, 0 + d)]"
| "add_total c d ((c', t) # ts) = (if c' = c then (c', t + d) # ts else (c', t) # add_total c d ts)"

fun journal_totals ::
  "ledger_entry list \<Rightarrow> (string \<times> int) list \<Rightarrow> billing_error + (string \<times> int) list" where
  "journal_totals [] totals = Inr totals"
| "journal_totals (e # es) totals =
     (if blank (le_accountId e) then Inl (Fault ''INVALID_ACCOUNT'')
      else if \<not> currency_text (le_currency e) then Inl (Fault ''INVALID_CURRENCY_FORMAT'')
      else if \<not> positive_digits 18 (le_amountMinor e) then Inl (Fault ''INVALID_AMOUNT'')
      else journal_totals es
             (add_total (le_currency e) (signed (le_side e) (parse_int (le_amountMinor e))) totals))"

definition assertBalancedJournal :: "ledger_entry list \<Rightarrow> billing_error + unit" where
  "assertBalancedJournal entries =
     (if length entries < 2 \<or> length entries > 1000 then Inl (Fault ''INVALID_ENTRY_COUNT'')
      else andThen (journal_totals entries []) (\<lambda>totals.
        if list_ex (\<lambda>(c, t). t \<noteq> 0) totals then Inl (Fault ''UNBALANCED_JOURNAL'')
        else Inr ()))"

text \<open>The specification: well-formed entries whose debits and credits agree in every currency.\<close>

definition entry_delta :: "ledger_entry \<Rightarrow> int" where
  "entry_delta e = signed (le_side e) (parse_int (le_amountMinor e))"

definition entry_wf :: "ledger_entry \<Rightarrow> bool" where
  "entry_wf e \<longleftrightarrow> \<not> blank (le_accountId e) \<and> currency_text (le_currency e) \<and>
     positive_digits 18 (le_amountMinor e)"

definition balanced_entries :: "ledger_entry list \<Rightarrow> bool" where
  "balanced_entries es \<longleftrightarrow>
     2 \<le> length es \<and> length es \<le> 1000 \<and> (\<forall>e \<in> set es. entry_wf e) \<and>
     (\<forall>c. sum_rows entry_delta (\<lambda>e. le_currency e = c) es = 0)"

definition total_of :: "(string \<times> int) list \<Rightarrow> string \<Rightarrow> int" where
  "total_of ts c = (case map_of ts c of None \<Rightarrow> 0 | Some t \<Rightarrow> t)"

lemma add_total_of: "total_of (add_total c d ts) c' = total_of ts c' + (if c' = c then d else 0)"
  by (induction ts) (auto simp: total_of_def)

lemma add_total_keys: "fst ` set (add_total c d ts) = insert c (fst ` set ts)"
proof (induction ts)
  case (Cons p ts)
  then show ?case by (cases p) (auto simp: image_iff)
qed simp

lemma add_total_distinct: "distinct (map fst ts) \<Longrightarrow> distinct (map fst (add_total c d ts))"
proof (induction ts)
  case (Cons p ts)
  then show ?case using add_total_keys [of c d ts] by (cases p) (auto simp flip: set_map)
qed simp

lemma journal_totals_Inr:
  assumes "distinct (map fst totals)"
  shows "journal_totals es totals = Inr ts \<Longrightarrow>
    (\<forall>e \<in> set es. entry_wf e) \<and> distinct (map fst ts) \<and>
    (\<forall>c. total_of ts c = total_of totals c + sum_rows entry_delta (\<lambda>e. le_currency e = c) es)"
  using assms
proof (induction es totals rule: journal_totals.induct)
  case (2 e es totals)
  then show ?case
    by (auto simp: entry_wf_def entry_delta_def add_total_distinct add_total_of split: if_splits)
qed simp

lemma journal_totals_ok: "\<forall>e \<in> set es. entry_wf e \<Longrightarrow> \<exists>ts. journal_totals es totals = Inr ts"
  by (induction es totals rule: journal_totals.induct) (auto simp: entry_wf_def)

lemma totals_zero:
  assumes "distinct (map fst ts)"
  shows "list_ex (\<lambda>(c, t). t \<noteq> 0) ts \<longleftrightarrow> (\<exists>c. total_of ts c \<noteq> 0)"
proof
  assume "list_ex (\<lambda>(c, t). t \<noteq> 0) ts"
  then obtain c t where "(c, t) \<in> set ts" "t \<noteq> 0" by (auto simp: list_ex_iff)
  with assms have "total_of ts c \<noteq> 0" by (simp add: total_of_def)
  then show "\<exists>c. total_of ts c \<noteq> 0" by blast
next
  assume "\<exists>c. total_of ts c \<noteq> 0"
  then obtain c t where "map_of ts c = Some t" "t \<noteq> 0"
    by (auto simp: total_of_def split: option.splits)
  then show "list_ex (\<lambda>(c, t). t \<noteq> 0) ts"
    by (auto simp: list_ex_iff intro: bexI [OF _ map_of_SomeD])
qed

lemma assertBalancedJournal_iff: "assertBalancedJournal es = Inr () \<longleftrightarrow> balanced_entries es"
proof -
  have "assertBalancedJournal es = Inr () \<longleftrightarrow>
        2 \<le> length es \<and> length es \<le> 1000 \<and>
        (\<exists>ts. journal_totals es [] = Inr ts \<and> \<not> list_ex (\<lambda>(c, t). t \<noteq> 0) ts)"
    by (auto simp: assertBalancedJournal_def not_less)
  also have "\<dots> \<longleftrightarrow> balanced_entries es"
  proof -
    have zero: "\<not> list_ex (\<lambda>(c, t). t \<noteq> 0) ts \<longleftrightarrow>
          (\<forall>c. sum_rows entry_delta (\<lambda>e. le_currency e = c) es = 0)"
      and wf: "\<forall>e \<in> set es. entry_wf e"
      if ts: "journal_totals es [] = Inr ts" for ts
      using journal_totals_Inr [OF _ ts] totals_zero [of ts] by (simp_all add: total_of_def)
    show ?thesis
    proof (cases "\<forall>e \<in> set es. entry_wf e")
      case True
      then obtain ts where ts: "journal_totals es [] = Inr ts" using journal_totals_ok by blast
      show ?thesis unfolding balanced_entries_def ts using zero [OF ts] True by simp
    next
      case False
      then have "\<nexists>ts. journal_totals es [] = Inr ts" using wf by blast
      with False show ?thesis unfolding balanced_entries_def by simp
    qed
  qed
  finally show ?thesis .
qed

section \<open>Accounts and journals\<close>

datatype ledger_account =
    CUSTOMER_RECEIVABLE | BILLED_OBLIGATIONS_CONTROL | CLEARING_SHAM_CASH | CLEARING_SYRIATEL_CASH
  | CASH_IN_CUSTODY | TREASURY_CASH_UNRECONCILED | TREASURY_CASH | CUSTODY_SHORTAGE_RECEIVABLE
  | CUSTODY_OVERAGE_SUSPENSE | PROVIDER_CREDITS_UNALLOCATED | REFUNDS_CONTROL

fun account_name :: "ledger_account \<Rightarrow> string" where
  "account_name CUSTOMER_RECEIVABLE = ''CUSTOMER_RECEIVABLE''"
| "account_name BILLED_OBLIGATIONS_CONTROL = ''BILLED_OBLIGATIONS_CONTROL''"
| "account_name CLEARING_SHAM_CASH = ''CLEARING_SHAM_CASH''"
| "account_name CLEARING_SYRIATEL_CASH = ''CLEARING_SYRIATEL_CASH''"
| "account_name CASH_IN_CUSTODY = ''CASH_IN_CUSTODY''"
| "account_name TREASURY_CASH_UNRECONCILED = ''TREASURY_CASH_UNRECONCILED''"
| "account_name TREASURY_CASH = ''TREASURY_CASH''"
| "account_name CUSTODY_SHORTAGE_RECEIVABLE = ''CUSTODY_SHORTAGE_RECEIVABLE''"
| "account_name CUSTODY_OVERAGE_SUSPENSE = ''CUSTODY_OVERAGE_SUSPENSE''"
| "account_name PROVIDER_CREDITS_UNALLOCATED = ''PROVIDER_CREDITS_UNALLOCATED''"
| "account_name REFUNDS_CONTROL = ''REFUNDS_CONTROL''"

definition HOLDER_ACCOUNTS :: "ledger_account list" where
  "HOLDER_ACCOUNTS = [CASH_IN_CUSTODY, CUSTODY_SHORTAGE_RECEIVABLE]"

datatype journal_kind =
    JK_OBLIGATION_BILLED | JK_OBLIGATION_VOIDED | JK_CASH_COLLECTED | JK_CASH_COLLECTION_REVERSED
  | JK_CUSTODY_RECEIVED | JK_CUSTODY_RECONCILED | JK_CREDIT_RECEIVED | JK_CREDIT_ALLOCATED
  | JK_REFUND_PAID

record journal_line =
  jl_account :: ledger_account
  jl_side :: journal_side
  jl_amount :: bmoney
  jl_holder :: "string option"

record journal_plan =
  jp_kind :: journal_kind
  jp_businessRef :: string
  jp_lines :: "journal_line list"

definition line_entry :: "journal_line \<Rightarrow> ledger_entry" where
  "line_entry l =
     \<lparr>le_accountId = account_name (jl_account l), le_currency = mo_currency (jl_amount l),
      le_side = jl_side l, le_amountMinor = show_int (mo_amountMinor (jl_amount l))\<rparr>"

definition balanced :: "journal_plan \<Rightarrow> billing_error + journal_plan" where
  "balanced plan =
     (if list_ex (\<lambda>l. (jl_account l \<in> set HOLDER_ACCOUNTS) \<noteq> (jl_holder l \<noteq> None)) (jp_lines plan) then
        Inl (Fault ''INVALID_HOLDER_DIMENSION'')
      else andThen (assertBalancedJournal (map line_entry (jp_lines plan))) (\<lambda>_. Inr plan))"

definition line :: "ledger_account \<Rightarrow> journal_side \<Rightarrow> bmoney \<Rightarrow> journal_line" where
  "line account side amount =
     \<lparr>jl_account = account, jl_side = side, jl_amount = amount, jl_holder = None\<rparr>"

definition holder_line :: "ledger_account \<Rightarrow> journal_side \<Rightarrow> bmoney \<Rightarrow> string \<Rightarrow> journal_line" where
  "holder_line account side amount holder =
     \<lparr>jl_account = account, jl_side = side, jl_amount = amount, jl_holder = Some holder\<rparr>"

definition obligationBilledJournal :: "string \<Rightarrow> bmoney \<Rightarrow> billing_error + journal_plan" where
  "obligationBilledJournal obligationId amount =
     balanced \<lparr>jp_kind = JK_OBLIGATION_BILLED,
       jp_businessRef = ''obligation:'' @ obligationId @ '':billed'',
       jp_lines = [line CUSTOMER_RECEIVABLE DEBIT amount,
                   line BILLED_OBLIGATIONS_CONTROL CREDIT amount]\<rparr>"

definition obligationVoidedJournal :: "string \<Rightarrow> bmoney \<Rightarrow> billing_error + journal_plan" where
  "obligationVoidedJournal obligationId amount =
     balanced \<lparr>jp_kind = JK_OBLIGATION_VOIDED,
       jp_businessRef = ''obligation:'' @ obligationId @ '':voided'',
       jp_lines = [line BILLED_OBLIGATIONS_CONTROL DEBIT amount,
                   line CUSTOMER_RECEIVABLE CREDIT amount]\<rparr>"

fun clearingAccount :: "pay_method \<Rightarrow> billing_error + ledger_account" where
  "clearingAccount SHAM_CASH = Inr CLEARING_SHAM_CASH"
| "clearingAccount SYRIATEL_CASH = Inr CLEARING_SYRIATEL_CASH"
| "clearingAccount CASH_ON_COMPLETION = Inl (Fault ''NO_CLEARING_ACCOUNT_FOR_METHOD'')"

definition cashCollectedJournal :: "string \<Rightarrow> string \<Rightarrow> bmoney \<Rightarrow> billing_error + journal_plan" where
  "cashCollectedJournal receiptId holder received =
     balanced \<lparr>jp_kind = JK_CASH_COLLECTED,
       jp_businessRef = ''receipt:'' @ receiptId @ '':collected'',
       jp_lines = [holder_line CASH_IN_CUSTODY DEBIT received holder,
                   line CUSTOMER_RECEIVABLE CREDIT received]\<rparr>"

definition cashCollectionReversedJournal ::
  "string \<Rightarrow> string \<Rightarrow> bmoney \<Rightarrow> billing_error + journal_plan" where
  "cashCollectionReversedJournal receiptId holder amount =
     balanced \<lparr>jp_kind = JK_CASH_COLLECTION_REVERSED,
       jp_businessRef = ''receipt:'' @ receiptId @ '':reversed'',
       jp_lines = [line CUSTOMER_RECEIVABLE DEBIT amount,
                   holder_line CASH_IN_CUSTODY CREDIT amount holder]\<rparr>"

record treasury_plan =
  tp_counted :: bmoney
  tp_shortage :: bmoney
  tp_overage :: bmoney

definition custodyReceivedJournal ::
  "string \<Rightarrow> string \<Rightarrow> bmoney \<Rightarrow> treasury_plan \<Rightarrow> billing_error + journal_plan" where
  "custodyReceivedJournal handoverId holder declared plan =
     balanced \<lparr>jp_kind = JK_CUSTODY_RECEIVED,
       jp_businessRef = ''handover:'' @ handoverId @ '':received'',
       jp_lines =
         (if \<not> Money_isZero (tp_counted plan)
          then [line TREASURY_CASH_UNRECONCILED DEBIT (tp_counted plan)] else []) @
         (if \<not> Money_isZero (tp_shortage plan)
          then [holder_line CUSTODY_SHORTAGE_RECEIVABLE DEBIT (tp_shortage plan) holder] else []) @
         [holder_line CASH_IN_CUSTODY CREDIT declared holder] @
         (if \<not> Money_isZero (tp_overage plan)
          then [line CUSTODY_OVERAGE_SUSPENSE CREDIT (tp_overage plan)] else [])\<rparr>"

definition custodyReconciledJournal :: "string \<Rightarrow> bmoney \<Rightarrow> billing_error + journal_plan" where
  "custodyReconciledJournal handoverId counted =
     balanced \<lparr>jp_kind = JK_CUSTODY_RECONCILED,
       jp_businessRef = ''handover:'' @ handoverId @ '':reconciled'',
       jp_lines = [line TREASURY_CASH DEBIT counted,
                   line TREASURY_CASH_UNRECONCILED CREDIT counted]\<rparr>"

definition creditReceivedJournal ::
  "string \<Rightarrow> pay_method \<Rightarrow> bmoney \<Rightarrow> billing_error + journal_plan" where
  "creditReceivedJournal creditId provider amount =
     andThen (clearingAccount provider) (\<lambda>clearing.
     balanced \<lparr>jp_kind = JK_CREDIT_RECEIVED,
       jp_businessRef = ''credit:'' @ creditId @ '':received'',
       jp_lines = [line clearing DEBIT amount,
                   line PROVIDER_CREDITS_UNALLOCATED CREDIT amount]\<rparr>)"

definition creditAllocatedJournal :: "string \<Rightarrow> bmoney \<Rightarrow> billing_error + journal_plan" where
  "creditAllocatedJournal creditId amount =
     balanced \<lparr>jp_kind = JK_CREDIT_ALLOCATED,
       jp_businessRef = ''credit:'' @ creditId @ '':allocated'',
       jp_lines = [line PROVIDER_CREDITS_UNALLOCATED DEBIT amount,
                   line CUSTOMER_RECEIVABLE CREDIT amount]\<rparr>"

definition refundPaidJournal ::
  "string \<Rightarrow> pay_method \<Rightarrow> bmoney \<Rightarrow> bool \<Rightarrow> billing_error + journal_plan" where
  "refundPaidJournal refundId provider amount creditWasAllocated =
     andThen (clearingAccount provider) (\<lambda>clearing.
     balanced \<lparr>jp_kind = JK_REFUND_PAID,
       jp_businessRef = ''refund:'' @ refundId @ '':paid'',
       jp_lines = [line (if creditWasAllocated then REFUNDS_CONTROL else PROVIDER_CREDITS_UNALLOCATED)
                     DEBIT amount,
                   line clearing CREDIT amount]\<rparr>)"

section \<open>Balances of lines\<close>

text \<open>
  The balance of an account over a list of lines: debits less credits, for one currency and one
  holder (\<open>None\<close> for the accounts without that dimension).
\<close>

definition line_delta :: "journal_line \<Rightarrow> int" where
  "line_delta l = signed (jl_side l) (mo_amountMinor (jl_amount l))"

definition in_account :: "ledger_account \<Rightarrow> string \<Rightarrow> string option \<Rightarrow> journal_line \<Rightarrow> bool" where
  "in_account account c h l \<longleftrightarrow>
     jl_account l = account \<and> mo_currency (jl_amount l) = c \<and> jl_holder l = h"

definition lines_balance ::
  "ledger_account \<Rightarrow> string \<Rightarrow> string option \<Rightarrow> journal_line list \<Rightarrow> int" where
  "lines_balance account c h ls = sum_rows line_delta (in_account account c h) ls"

definition lines_total :: "string \<Rightarrow> journal_line list \<Rightarrow> int" where
  "lines_total c ls = sum_rows line_delta (\<lambda>l. mo_currency (jl_amount l) = c) ls"

lemma entry_delta_line [simp]: "entry_delta (line_entry l) = line_delta l"
  by (simp add: entry_delta_def line_entry_def line_delta_def)

lemma sum_entries:
  "sum_rows entry_delta (\<lambda>e. le_currency e = c) (map line_entry ls) = lines_total c ls"
  by (induction ls) (simp_all add: lines_total_def line_entry_def entry_delta_def line_delta_def)

lemma balanced_Inr:
  assumes "balanced plan = Inr p"
  shows "p = plan" and "lines_total c (jp_lines p) = 0"
    and "l \<in> set (jp_lines p) \<Longrightarrow> 0 < mo_amountMinor (jl_amount l)"
    and "l \<in> set (jp_lines p) \<Longrightarrow> jl_account l \<in> set HOLDER_ACCOUNTS \<longleftrightarrow> jl_holder l \<noteq> None"
proof -
  from assms show p: "p = plan" by (auto simp: balanced_def split: if_splits)
  from assms have "assertBalancedJournal (map line_entry (jp_lines plan)) = Inr ()"
    by (auto simp: balanced_def split: if_splits)
  then have b: "balanced_entries (map line_entry (jp_lines plan))"
    by (simp add: assertBalancedJournal_iff)
  then show "lines_total c (jp_lines p) = 0"
    by (simp add: balanced_entries_def sum_entries p)
  show "0 < mo_amountMinor (jl_amount l)" if l: "l \<in> set (jp_lines p)"
  proof -
    have d: "positive_digits 18 (show_int (mo_amountMinor (jl_amount l)))"
      using b l unfolding balanced_entries_def entry_wf_def p by (auto simp: line_entry_def)
    then have "AMOUNT_text (show_int (mo_amountMinor (jl_amount l)))"
      by (simp add: AMOUNT_text_def)
    then have "0 \<le> mo_amountMinor (jl_amount l)" by (simp add: amount_text_show_int)
    moreover have "mo_amountMinor (jl_amount l) \<noteq> 0"
      using d hd_show_nat [of 0] by (auto simp: positive_digits_def show_int_def)
    ultimately show ?thesis by simp
  qed
  show "l \<in> set (jp_lines p) \<Longrightarrow> jl_account l \<in> set HOLDER_ACCOUNTS \<longleftrightarrow> jl_holder l \<noteq> None"
    using assms by (auto simp: balanced_def list_ex_iff p split: if_splits)
qed

lemma lines_balance_simps [simp]:
  "lines_balance a c h [] = 0"
  "lines_balance a c h (line a' s m # ls) =
     (if a' = a \<and> mo_currency m = c \<and> h = None then signed s (mo_amountMinor m) else 0) +
     lines_balance a c h ls"
  "lines_balance a c h (holder_line a' s m k # ls) =
     (if a' = a \<and> mo_currency m = c \<and> h = Some k then signed s (mo_amountMinor m) else 0) +
     lines_balance a c h ls"
  by (auto simp: lines_balance_def in_account_def line_def holder_line_def line_delta_def)

lemma lines_balance_append [simp]:
  "lines_balance a c h (ls @ ls') = lines_balance a c h ls + lines_balance a c h ls'"
  by (simp add: lines_balance_def)

lemma signed_simps [simp]: "signed DEBIT x = x" "signed CREDIT x = - x"
  by (simp_all add: signed_def)

text \<open>What each journal is, when its constructor returns.\<close>

lemmas journal_defs =
  obligationBilledJournal_def obligationVoidedJournal_def cashCollectedJournal_def
  cashCollectionReversedJournal_def custodyReceivedJournal_def custodyReconciledJournal_def
  creditReceivedJournal_def creditAllocatedJournal_def refundPaidJournal_def

text \<open>A pair of equal amounts on two accounts is accepted exactly when the amount is positive.\<close>

lemma pair_accepted:
  assumes v: "valid_money m"
    and l: "l1 = \<lparr>jl_account = a, jl_side = DEBIT, jl_amount = m, jl_holder = h\<rparr>"
      "l2 = \<lparr>jl_account = a', jl_side = CREDIT, jl_amount = m, jl_holder = h'\<rparr>"
    and h: "(a \<in> set HOLDER_ACCOUNTS) = (h \<noteq> None)" "(a' \<in> set HOLDER_ACCOUNTS) = (h' \<noteq> None)"
  shows "balanced \<lparr>jp_kind = k, jp_businessRef = b, jp_lines = [l1, l2]\<rparr> =
           (if 0 < mo_amountMinor m
            then Inr \<lparr>jp_kind = k, jp_businessRef = b, jp_lines = [l1, l2]\<rparr>
            else Inl (Fault ''INVALID_AMOUNT''))"
proof -
  have name: "\<not> blank (account_name x)" for x
    by (cases x) (simp_all add: blank_def js_space_def)
  have cur: "currency_text (mo_currency m)"
    using v by (auto simp: valid_money_def SUPPORTED_SCALES_def currency_text_def is_upper_def in_range_def
        split: if_splits)
  have digits: "positive_digits 18 (show_int (mo_amountMinor m)) \<longleftrightarrow> 0 < mo_amountMinor m"
  proof (cases "mo_amountMinor m = 0")
    case True
    with hd_show_nat [of 0] show ?thesis by (simp add: positive_digits_def show_int_def)
  next
    case False
    with v have "0 < nat (mo_amountMinor m)" "nat (mo_amountMinor m) < 10 ^ 18"
        "\<not> mo_amountMinor m < 0"
      by (auto simp: valid_money_def MONEY_LIMIT_def nat_less_iff)
    then show ?thesis
      using positive_digits_show_nat [of "nat (mo_amountMinor m)" 18] by (simp add: show_int_def)
  qed
  show ?thesis
    using h name cur digits
    by (simp add: balanced_def assertBalancedJournal_def l line_entry_def signed_def)
qed

end
