(* ===== verification/Billing_Rules.thy ===== *)
theory Billing_Rules
  imports Billing_Journal
begin

text \<open>
  Billing, the other domain rules: \<^verbatim>\<open>domain/cash.ts\<close> (collection, reversal, handover,
  treasury receipt, settlement), \<^verbatim>\<open>domain/provider.ts\<close> (provider credits and their
  allocation) and \<^verbatim>\<open>domain/refund.ts\<close> (refunds of credits).
\<close>

section \<open>Cash\<close>

datatype custody_status = HELD | IN_HANDOVER | DEPOSITED | CU_SETTLED | REVERSED

datatype handover_status = HO_PENDING | RECEIVED | RECONCILED | HO_CANCELLED

datatype reversal_reason = RECORDED_IN_ERROR | WRONG_BOOKING | AMOUNT_NOT_RECEIVED | DUPLICATE_RECORD

definition REVERSAL_REASONS :: "(string \<times> reversal_reason) list" where
  "REVERSAL_REASONS =
     [(''RECORDED_IN_ERROR'', RECORDED_IN_ERROR), (''WRONG_BOOKING'', WRONG_BOOKING),
      (''AMOUNT_NOT_RECEIVED'', AMOUNT_NOT_RECEIVED), (''DUPLICATE_RECORD'', DUPLICATE_RECORD)]"

datatype work_state = NOT_STARTED | IN_PROGRESS | COMPLETED | WO_CANCELLED

definition MAX_RECEIPTS_PER_HANDOVER :: nat where
  "MAX_RECEIPTS_PER_HANDOVER = 200"

definition cash_rule :: "billing_code \<Rightarrow> billing_error + 'a" where
  "cash_rule c = Inl (CashRuleError c)"

record work_evidence =
  we_bookingId :: string
  we_quoteId :: string
  we_assignmentId :: string
  we_assignmentRevision :: int
  we_technicianSubject :: "string option"
  we_workState :: work_state

record receipt_state =
  re_collector :: string
  re_amount :: bmoney
  re_custodyStatus :: custody_status

record handover_state =
  ha_holder :: string
  ha_status :: handover_status
  ha_declared :: bmoney
  ha_counted :: "bmoney option"
  ha_receivedBy :: "string option"

text \<open>The obligation's quote id is passed beside its state.\<close>

definition planCashCollection ::
  "'a obligation_state_scheme \<Rightarrow> string \<Rightarrow> 'b intent_state_scheme option \<Rightarrow> string \<Rightarrow> string \<Rightarrow>
   work_evidence \<Rightarrow> bmoney \<Rightarrow> billing_error + bmoney" where
  "planCashCollection ob quoteId intent owner collector work declared =
     (if we_quoteId work \<noteq> quoteId then cash_rule ''BOOKING_MISMATCH''
      else if we_technicianSubject work \<noteq> Some collector then cash_rule ''COLLECTOR_NOT_ASSIGNED''
      else if collector = owner then cash_rule ''SELF_COLLECTION_FORBIDDEN''
      else if ob_status ob = SETTLED then cash_rule ''OBLIGATION_SETTLED''
      else if ob_status ob = VOIDED then cash_rule ''OBLIGATION_VOIDED''
      else if we_workState work \<noteq> COMPLETED then cash_rule ''WORK_NOT_COMPLETED''
      else (case intent of
              None \<Rightarrow> cash_rule ''NO_ACTIVE_INTENT''
            | Some it \<Rightarrow>
                if it_method it \<noteq> CASH_ON_COMPLETION \<or> it_status it \<noteq> AWAITING_CASH_COLLECTION then
                  cash_rule ''INTENT_NOT_CASH''
                else if mo_currency declared \<noteq> mo_currency (ob_amount ob) then
                  cash_rule ''CURRENCY_MISMATCH''
                else andThen (outstanding ob) (\<lambda>due.
                  if Money_isZero due \<or> \<not> Money_equals declared due then
                    cash_rule ''AMOUNT_NOT_EQUAL_OUTSTANDING''
                  else Inr declared)))"

definition planCollectionReversal ::
  "'a receipt_state_scheme \<Rightarrow> string \<Rightarrow> billing_error + unit" where
  "planCollectionReversal re reverser =
     (if re_custodyStatus re = REVERSED then cash_rule ''RECEIPT_ALREADY_REVERSED''
      else if re_custodyStatus re \<noteq> HELD then cash_rule ''RECEIPT_NOT_HELD''
      else if reverser = re_collector re then cash_rule ''SEPARATION_OF_DUTIES''
      else Inr ())"

text \<open>The loop of \<^verbatim>\<open>planHandover\<close> that adds up the locked receipts.\<close>

fun handover_total ::
  "string \<Rightarrow> string \<Rightarrow> 'a receipt_state_scheme list \<Rightarrow> bmoney \<Rightarrow> billing_error + bmoney" where
  "handover_total holder c [] acc = Inr acc"
| "handover_total holder c (re # res) acc =
     (if re_collector re \<noteq> holder then cash_rule ''RECEIPT_NOT_HELD''
      else if re_custodyStatus re \<noteq> HELD then cash_rule ''RECEIPT_NOT_HELD''
      else if mo_currency (re_amount re) \<noteq> c then cash_rule ''HANDOVER_MIXED_CURRENCY''
      else andThen (Money_plus acc (re_amount re)) (\<lambda>acc'. handover_total holder c res acc'))"

definition planHandover ::
  "string \<Rightarrow> 'a receipt_state_scheme list \<Rightarrow> string list \<Rightarrow> bmoney \<Rightarrow> billing_error + bmoney" where
  "planHandover holder receipts requestedIds declared =
     (if length requestedIds = 0 then cash_rule ''HANDOVER_EMPTY''
      else if length requestedIds > MAX_RECEIPTS_PER_HANDOVER then cash_rule ''HANDOVER_TOO_LARGE''
      else if card (set requestedIds) \<noteq> length requestedIds then
        cash_rule ''HANDOVER_DUPLICATE_RECEIPT''
      else andThen (Money_zero (mo_currency declared)) (\<lambda>zero.
           andThen (handover_total holder (mo_currency declared) receipts zero) (\<lambda>total.
           if length receipts \<noteq> length requestedIds then cash_rule ''RECEIPT_NOT_HELD''
           else if \<not> Money_equals total declared then cash_rule ''DECLARED_TOTAL_MISMATCH''
           else Inr total)))"

definition planHandoverCancel :: "'a handover_state_scheme \<Rightarrow> billing_error + unit" where
  "planHandoverCancel ha =
     (if ha_status ha \<noteq> HO_PENDING then cash_rule ''HANDOVER_NOT_PENDING'' else Inr ())"

definition planTreasuryReceipt ::
  "'a handover_state_scheme \<Rightarrow> string \<Rightarrow> bmoney \<Rightarrow> billing_error + treasury_plan" where
  "planTreasuryReceipt ha receiver counted =
     (if ha_status ha \<noteq> HO_PENDING then cash_rule ''HANDOVER_NOT_PENDING''
      else if receiver = ha_holder ha then cash_rule ''SEPARATION_OF_DUTIES''
      else let declared = ha_declared ha in
        if mo_currency counted \<noteq> mo_currency declared then cash_rule ''CURRENCY_MISMATCH''
        else andThen (Money_zero (mo_currency declared)) (\<lambda>zero.
          if mo_amountMinor counted < mo_amountMinor declared then
            andThen (Money_minus declared counted) (\<lambda>d.
              Inr \<lparr>tp_counted = counted, tp_shortage = d, tp_overage = zero\<rparr>)
          else
            andThen (Money_minus counted declared) (\<lambda>d.
              Inr \<lparr>tp_counted = counted, tp_shortage = zero, tp_overage = d\<rparr>)))"

definition planHandoverReconciliation ::
  "'a handover_state_scheme \<Rightarrow> string \<Rightarrow> billing_error + unit" where
  "planHandoverReconciliation ha reconciler =
     (if ha_status ha \<noteq> RECEIVED then cash_rule ''HANDOVER_NOT_RECEIVED''
      else if reconciler = ha_holder ha \<or> Some reconciler = ha_receivedBy ha then
        cash_rule ''SEPARATION_OF_DUTIES''
      else Inr ())"

fun receiptStatusFor :: "handover_status \<Rightarrow> custody_status" where
  "receiptStatusFor HO_PENDING = IN_HANDOVER"
| "receiptStatusFor RECEIVED = DEPOSITED"
| "receiptStatusFor RECONCILED = CU_SETTLED"
| "receiptStatusFor HO_CANCELLED = HELD"

text \<open>\<^verbatim>\<open>normalizeTreasuryReference\<close> has the body of \<^verbatim>\<open>normalizeProviderReference\<close>.\<close>

definition normalizeTreasuryReference :: "json option \<Rightarrow> string option" where
  "normalizeTreasuryReference raw = normalizeProviderReference raw"

section \<open>Provider credits\<close>

definition PROVIDERS :: "(string \<times> pay_method) list" where
  "PROVIDERS = [(''SHAM_CASH'', SHAM_CASH), (''SYRIATEL_CASH'', SYRIATEL_CASH)]"

datatype credit_source = PROVIDER_NOTIFICATION | PROVIDER_QUERY | MERCHANT_STATEMENT

datatype credit_status = PENDING_APPROVAL | CR_REJECTED | UNALLOCATED | ALLOCATED

definition CONFIRMED_CREDIT_STATUSES :: "credit_status list" where
  "CONFIRMED_CREDIT_STATUSES = [UNALLOCATED, ALLOCATED]"

datatype unallocated_reason =
    NO_CLAIM | CLAIM_CLOSED | OBLIGATION_NOT_OPEN | CREDIT_CURRENCY_MISMATCH | AMOUNT_MISMATCH
  | REFUND_RESERVED

datatype statement_rejection = NOT_ON_STATEMENT | DETAILS_DIFFER | WRONG_MERCHANT_ACCOUNT | DUPLICATE_ENTRY

definition STATEMENT_REJECTION_REASONS :: "(string \<times> statement_rejection) list" where
  "STATEMENT_REJECTION_REASONS =
     [(''NOT_ON_STATEMENT'', NOT_ON_STATEMENT), (''DETAILS_DIFFER'', DETAILS_DIFFER),
      (''WRONG_MERCHANT_ACCOUNT'', WRONG_MERCHANT_ACCOUNT), (''DUPLICATE_ENTRY'', DUPLICATE_ENTRY)]"

definition provider_rule :: "billing_code \<Rightarrow> billing_error + 'a" where
  "provider_rule c = Inl (ProviderRuleError c)"

record credit_state =
  cr_provider :: pay_method
  cr_amount :: bmoney
  cr_status :: credit_status
  cr_recordedBy :: "string option"

record claim_state =
  at_id :: string
  at_intentId :: string
  at_status :: attempt_status
  at_claimed :: bmoney

record intent_claim_state = intent_state +
  it_id :: string

datatype allocation_plan = ALLOCATE bmoney | LEAVE unallocated_reason

text \<open>
  \<^verbatim>\<open>outstanding\<close> throws only when the stored amounts disagree; here that is a branch of the
  result. \<open>LEAVE\<close> is \<^verbatim>\<open>{ kind: 'UNALLOCATED', reason }\<close>.
\<close>

definition planCreditAllocation ::
  "bmoney \<Rightarrow> bmoney option \<Rightarrow> 'a claim_state_scheme option \<Rightarrow> 'b obligation_state_scheme option \<Rightarrow>
   'c intent_claim_state_scheme option \<Rightarrow> billing_error + allocation_plan" where
  "planCreditAllocation amount reservedForRefund claim obligation intent =
     (if (case reservedForRefund of None \<Rightarrow> False | Some r \<Rightarrow> \<not> Money_isZero r) then
        Inr (LEAVE REFUND_RESERVED)
      else
        (case (claim, obligation) of
           (Some cl, Some ob) \<Rightarrow>
             if at_status cl \<notin> set OPEN_ATTEMPT_STATUSES then Inr (LEAVE CLAIM_CLOSED)
             else if ob_status ob \<noteq> OPEN then Inr (LEAVE OBLIGATION_NOT_OPEN)
             else
               (case intent of
                  None \<Rightarrow> Inr (LEAVE CLAIM_CLOSED)
                | Some it \<Rightarrow>
                    if it_id it \<noteq> at_intentId cl \<or> it_status it \<noteq> UNDER_REVIEW then
                      Inr (LEAVE CLAIM_CLOSED)
                    else andThen (outstanding ob) (\<lambda>due.
                      if mo_currency amount \<noteq> mo_currency due then
                        Inr (LEAVE CREDIT_CURRENCY_MISMATCH)
                      else if Money_isZero due \<or> \<not> Money_equals amount due \<or>
                              \<not> Money_equals amount (at_claimed cl) then
                        Inr (LEAVE AMOUNT_MISMATCH)
                      else Inr (ALLOCATE amount)))
         | _ \<Rightarrow> Inr (LEAVE NO_CLAIM)))"

definition planStatementDecision :: "'a credit_state_scheme \<Rightarrow> string \<Rightarrow> billing_error + unit" where
  "planStatementDecision cr decider =
     (if cr_status cr \<noteq> PENDING_APPROVAL then provider_rule ''CREDIT_NOT_PENDING''
      else if cr_recordedBy cr = None \<or> cr_recordedBy cr = Some decider then
        provider_rule ''SEPARATION_OF_DUTIES''
      else Inr ())"

definition assertOccurredBefore :: "instant \<Rightarrow> instant \<Rightarrow> billing_error + unit" where
  "assertOccurredBefore occurredAt observedAt =
     (if occurredAt > observedAt then provider_rule ''OCCURRED_IN_FUTURE'' else Inr ())"

text \<open>\<^verbatim>\<open>MERCHANT_ACCOUNT = /^[A-Za-z0-9_-]{1,64}$/\<close>, \<^verbatim>\<open>EVIDENCE_DIGEST = /^[0-9a-f]{64}$/\<close>.\<close>

definition MERCHANT_ACCOUNT :: "string \<Rightarrow> bool" where
  "MERCHANT_ACCOUNT s \<longleftrightarrow>
     list_all (\<lambda>c. reference_char c \<or> c = CHR ''_'') s \<and> 1 \<le> length s \<and> length s \<le> 64"

definition EVIDENCE_DIGEST :: "string \<Rightarrow> bool" where
  "EVIDENCE_DIGEST s \<longleftrightarrow>
     list_all (\<lambda>c. is_digit c \<or> in_range CHR ''a'' CHR ''f'' c) s \<and> length s = 64"

section \<open>Refunds\<close>

datatype refund_reason =
    SERVICE_NOT_DELIVERED | BOOKING_CANCELLED | DUPLICATE_PAYMENT | UNALLOCATABLE_CREDIT

definition REFUND_REASONS :: "(string \<times> refund_reason) list" where
  "REFUND_REASONS =
     [(''SERVICE_NOT_DELIVERED'', SERVICE_NOT_DELIVERED), (''BOOKING_CANCELLED'', BOOKING_CANCELLED),
      (''DUPLICATE_PAYMENT'', DUPLICATE_PAYMENT), (''UNALLOCATABLE_CREDIT'', UNALLOCATABLE_CREDIT)]"

datatype refund_status =
    REQUESTED | RF_REJECTED | APPROVED | SUBMITTED | RF_UNKNOWN | RF_SUCCEEDED | FAILED

definition RESERVING_REFUND_STATUSES :: "refund_status list" where
  "RESERVING_REFUND_STATUSES = [REQUESTED, APPROVED, SUBMITTED, RF_UNKNOWN, RF_SUCCEEDED]"

definition PROVIDER_PENDING_REFUND_STATUSES :: "refund_status list" where
  "PROVIDER_PENDING_REFUND_STATUSES = [SUBMITTED, RF_UNKNOWN]"

datatype refund_channel = PROVIDER_API | MANUAL_OUT_OF_BAND

datatype refund_outcome = PO_PENDING | PO_SUCCEEDED | PO_FAILED | PO_UNKNOWN

definition ALLOCATED_REASONS :: "refund_reason list" where
  "ALLOCATED_REASONS = [SERVICE_NOT_DELIVERED, BOOKING_CANCELLED]"

definition UNALLOCATED_REFUND_REASONS :: "refund_reason list" where
  "UNALLOCATED_REFUND_REASONS = [DUPLICATE_PAYMENT, UNALLOCATABLE_CREDIT]"

definition refund_rule :: "billing_code \<Rightarrow> billing_error + 'a" where
  "refund_rule c = Inl (RefundRuleError c)"

record refund_state =
  rf_status :: refund_status
  rf_channel :: refund_channel
  rf_requestedBy :: string

definition refundableAmount :: "bmoney \<Rightarrow> bmoney \<Rightarrow> billing_error + bmoney" where
  "refundableAmount creditAmount reserved = Money_minus creditAmount reserved"

definition planRefundRequest ::
  "'a credit_state_scheme \<Rightarrow> bmoney \<Rightarrow> bmoney \<Rightarrow> refund_reason \<Rightarrow> billing_error + unit" where
  "planRefundRequest cr reserved amount reason =
     andThen
       (if cr_status cr = ALLOCATED then
          (if reason \<notin> set ALLOCATED_REASONS then refund_rule ''REFUND_REASON_NOT_ALLOWED'' else Inr ())
        else if cr_status cr = UNALLOCATED then
          (if reason \<notin> set UNALLOCATED_REFUND_REASONS then refund_rule ''REFUND_REASON_NOT_ALLOWED''
           else Inr ())
        else refund_rule ''CREDIT_NOT_REFUNDABLE'') (\<lambda>_.
     if mo_currency amount \<noteq> mo_currency (cr_amount cr) then refund_rule ''REFUND_CURRENCY_MISMATCH''
     else if Money_isZero amount then refund_rule ''REFUND_EXCEEDS_AVAILABLE''
     else andThen (refundableAmount (cr_amount cr) reserved) (\<lambda>available.
       if mo_amountMinor amount > mo_amountMinor available then refund_rule ''REFUND_EXCEEDS_AVAILABLE''
       else Inr ()))"

definition planRefundDecision :: "'a refund_state_scheme \<Rightarrow> string \<Rightarrow> billing_error + unit" where
  "planRefundDecision rf decider =
     (if rf_status rf \<noteq> REQUESTED then refund_rule ''REFUND_NOT_REQUESTED''
      else if rf_requestedBy rf = decider then refund_rule ''SEPARATION_OF_DUTIES''
      else Inr ())"

definition planRefundProviderOutcome ::
  "'a refund_state_scheme \<Rightarrow> refund_outcome \<Rightarrow> billing_error + refund_status" where
  "planRefundProviderOutcome rf outcome =
     (if rf_channel rf \<noteq> PROVIDER_API then refund_rule ''REFUND_CHANNEL_MISMATCH''
      else if rf_status rf \<noteq> APPROVED \<and> rf_status rf \<notin> set PROVIDER_PENDING_REFUND_STATUSES then
        refund_rule ''REFUND_NOT_PENDING_AT_PROVIDER''
      else Inr (case outcome of
                  PO_PENDING \<Rightarrow> SUBMITTED
                | PO_SUCCEEDED \<Rightarrow> RF_SUCCEEDED
                | PO_FAILED \<Rightarrow> FAILED
                | PO_UNKNOWN \<Rightarrow> if rf_status rf = SUBMITTED then SUBMITTED else RF_UNKNOWN))"

definition planManualRefundCompletion ::
  "'a refund_state_scheme \<Rightarrow> string \<Rightarrow> billing_error + unit" where
  "planManualRefundCompletion rf recorder =
     (if rf_channel rf \<noteq> MANUAL_OUT_OF_BAND then refund_rule ''REFUND_CHANNEL_MISMATCH''
      else if rf_status rf \<noteq> APPROVED then refund_rule ''REFUND_NOT_EXECUTABLE''
      else if rf_requestedBy rf = recorder then refund_rule ''SEPARATION_OF_DUTIES''
      else Inr ())"

section \<open>What an accepted plan says\<close>

lemma rule_errors [simp]:
  "cash_rule c \<noteq> Inr x" "provider_rule c \<noteq> Inr y" "refund_rule c \<noteq> Inr z"
  by (simp_all add: cash_rule_def provider_rule_def refund_rule_def)

lemma planCashCollection_Inr:
  assumes "planCashCollection ob q intent owner collector work declared = Inr received"
  shows "received = declared" and "ob_status ob = OPEN" and "outstanding ob = Inr declared"
    and "0 < mo_amountMinor declared \<or> mo_amountMinor declared < 0" and "collector \<noteq> owner"
    and "we_technicianSubject work = Some collector" and "we_workState work = COMPLETED"
    and "we_quoteId work = q"
    and "\<exists>it. intent = Some it \<and> it_method it = CASH_ON_COMPLETION \<and>
           it_status it = AWAITING_CASH_COLLECTION"
proof -
  have st: "ob_status ob \<noteq> SETTLED \<Longrightarrow> ob_status ob \<noteq> VOIDED \<Longrightarrow> ob_status ob = OPEN"
    by (cases "ob_status ob") auto
  show "received = declared" "ob_status ob = OPEN" "outstanding ob = Inr declared"
    "0 < mo_amountMinor declared \<or> mo_amountMinor declared < 0" "collector \<noteq> owner"
    "we_technicianSubject work = Some collector" "we_workState work = COMPLETED" "we_quoteId work = q"
    "\<exists>it. intent = Some it \<and> it_method it = CASH_ON_COMPLETION \<and>
       it_status it = AWAITING_CASH_COLLECTION"
    using assms st
    by (auto simp: planCashCollection_def Money_isZero_def split: if_splits option.splits)
qed

lemma planCollectionReversal_Inr:
  "planCollectionReversal re who = Inr u \<longleftrightarrow> re_custodyStatus re = HELD \<and> who \<noteq> re_collector re"
  by (auto simp: planCollectionReversal_def)

lemma handover_total_Inr:
  assumes "handover_total holder c res acc = Inr tot" and "mo_currency acc = c"
  shows "mo_currency tot = c \<and>
    mo_amountMinor tot = mo_amountMinor acc + sum_list (map (\<lambda>r. mo_amountMinor (re_amount r)) res) \<and>
    (\<forall>r \<in> set res. re_collector r = holder \<and> re_custodyStatus r = HELD \<and>
           mo_currency (re_amount r) = c)"
  using assms
proof (induction res arbitrary: acc)
  case (Cons re res)
  then obtain acc' where "Money_plus acc (re_amount re) = Inr acc'"
      "handover_total holder c res acc' = Inr tot" "re_collector re = holder"
      "re_custodyStatus re = HELD" "mo_currency (re_amount re) = c"
    by (auto split: if_splits)
  with Cons.IH [of acc'] Cons.prems(2) show ?case by (simp add: Money_plus_Inr)
qed simp

lemma planHandover_Inr:
  assumes "planHandover holder receipts ids declared = Inr tot"
  shows "tot = declared" and "distinct ids" and "ids \<noteq> []" and "length ids \<le> 200"
    and "length receipts = length ids"
    and "\<forall>r \<in> set receipts. re_collector r = holder \<and> re_custodyStatus r = HELD \<and>
           mo_currency (re_amount r) = mo_currency declared"
    and "sum_list (map (\<lambda>r. mo_amountMinor (re_amount r)) receipts) = mo_amountMinor declared"
    and "made_money \<lparr>mo_currency = mo_currency declared, mo_amountMinor = 0\<rparr>"
proof -
  from assms obtain zero where z: "Money_zero (mo_currency declared) = Inr zero"
      and t: "handover_total holder (mo_currency declared) receipts zero = Inr tot"
      and eq: "length receipts = length ids" "tot = declared"
      and d: "card (set ids) = length ids" "ids \<noteq> []" "length ids \<le> MAX_RECEIPTS_PER_HANDOVER"
    by (auto simp: planHandover_def split: if_splits)
  from d eq show "tot = declared" "distinct ids" "ids \<noteq> []" "length ids \<le> 200"
      "length receipts = length ids"
    by (simp_all add: card_distinct MAX_RECEIPTS_PER_HANDOVER_def)
  from z show "made_money \<lparr>mo_currency = mo_currency declared, mo_amountMinor = 0\<rparr>" by auto
  from handover_total_Inr [OF t] z eq
  show "\<forall>r \<in> set receipts. re_collector r = holder \<and> re_custodyStatus r = HELD \<and>
      mo_currency (re_amount r) = mo_currency declared"
    "sum_list (map (\<lambda>r. mo_amountMinor (re_amount r)) receipts) = mo_amountMinor declared"
    by simp_all
qed

lemma planTreasuryReceipt_Inr:
  assumes "planTreasuryReceipt ha receiver counted = Inr p"
  shows "ha_status ha = HO_PENDING" and "receiver \<noteq> ha_holder ha" and "tp_counted p = counted"
    and "mo_currency counted = mo_currency (ha_declared ha)"
    and "mo_currency (tp_shortage p) = mo_currency counted"
    and "mo_currency (tp_overage p) = mo_currency counted"
    and "mo_amountMinor (tp_shortage p) =
           max 0 (mo_amountMinor (ha_declared ha) - mo_amountMinor counted)"
    and "mo_amountMinor (tp_overage p) =
           max 0 (mo_amountMinor counted - mo_amountMinor (ha_declared ha))"
    and "made_money (tp_shortage p)" and "made_money (tp_overage p)"
  using assms
  by (auto simp: planTreasuryReceipt_def Let_def Money_minus_Inr split: if_splits)

lemma planHandoverReconciliation_Inr:
  "planHandoverReconciliation ha who = Inr u \<longleftrightarrow>
   ha_status ha = RECEIVED \<and> who \<noteq> ha_holder ha \<and> ha_receivedBy ha \<noteq> Some who"
  by (auto simp: planHandoverReconciliation_def)

lemma planCreditAllocation_ALLOCATE:
  assumes "planCreditAllocation amount reserved claim obligation intent = Inr (ALLOCATE received)"
  obtains cl ob it where "claim = Some cl" "obligation = Some ob" "intent = Some it"
    "received = amount" "at_status cl \<in> set OPEN_ATTEMPT_STATUSES" "ob_status ob = OPEN"
    "it_id it = at_intentId cl" "it_status it = UNDER_REVIEW" "outstanding ob = Inr amount"
    "amount = at_claimed cl" "mo_amountMinor amount \<noteq> 0"
    "case reserved of None \<Rightarrow> True | Some r \<Rightarrow> mo_amountMinor r = 0"
  using assms
  by (auto simp: planCreditAllocation_def Money_isZero_def split: if_splits option.splits)

lemma planStatementDecision_Inr:
  "planStatementDecision cr who = Inr u \<longleftrightarrow>
   cr_status cr = PENDING_APPROVAL \<and> (\<exists>r. cr_recordedBy cr = Some r \<and> r \<noteq> who)"
  by (auto simp: planStatementDecision_def)

lemma planRefundRequest_Inr:
  assumes "planRefundRequest cr reserved amount reason = Inr u"
  shows "cr_status cr \<in> {ALLOCATED, UNALLOCATED}"
    and "mo_currency amount = mo_currency (cr_amount cr)" and "mo_amountMinor amount \<noteq> 0"
    and "mo_amountMinor amount + mo_amountMinor reserved \<le> mo_amountMinor (cr_amount cr)"
  using assms
  by (auto simp: planRefundRequest_def refundableAmount_def Money_minus_Inr Money_isZero_def
      split: if_splits)

lemma planRefundDecision_Inr:
  "planRefundDecision rf who = Inr u \<longleftrightarrow> rf_status rf = REQUESTED \<and> rf_requestedBy rf \<noteq> who"
  by (auto simp: planRefundDecision_def)

lemma planRefundProviderOutcome_Inr:
  assumes "planRefundProviderOutcome rf out = Inr st"
  shows "rf_channel rf = PROVIDER_API" and "rf_status rf \<in> {APPROVED, SUBMITTED, RF_UNKNOWN}"
    and "st \<in> {SUBMITTED, RF_UNKNOWN, RF_SUCCEEDED, FAILED}"
    and "st = RF_SUCCEEDED \<longleftrightarrow> out = PO_SUCCEEDED"
  using assms
  by (auto simp: planRefundProviderOutcome_def PROVIDER_PENDING_REFUND_STATUSES_def
      split: if_splits refund_outcome.splits)

lemma planManualRefundCompletion_Inr:
  "planManualRefundCompletion rf who = Inr u \<longleftrightarrow>
   rf_channel rf = MANUAL_OUT_OF_BAND \<and> rf_status rf = APPROVED \<and> rf_requestedBy rf \<noteq> who"
  by (auto simp: planManualRefundCompletion_def)

end
