(* ===== verification/Billing_Store.thy ===== *)
theory Billing_Store
  imports "HOL-Library.Product_Lexorder" Billing_Rules
begin

text \<open>
  Billing, the rows and the statements: the record types of \<^verbatim>\<open>ports/*.ts\<close>, and
  \<^verbatim>\<open>infrastructure/persistence/prisma-billing.repository.ts\<close>, \<^verbatim>\<open>prisma-custody.store.ts\<close>,
  \<^verbatim>\<open>prisma-provider.store.ts\<close> and \<^verbatim>\<open>prisma-booking-link.store.ts\<close>.

  A table is the list of its rows. A statement takes the database and returns the next one or
  throws. The unique indexes of the schema are those the statements check; the adapters
  translate some of them to a named error and let the others through as \<open>UniqueViolation\<close>. Of
  the \<^verbatim>\<open>CHECK\<close> constraints, the positive amounts of new rows are modelled; every other
  constraint and trigger of the migrations could only make a transaction throw. The columns
  \<^verbatim>\<open>active_slot\<close> are functions of the status (1 or null) and are not stored. A row lock has
  no effect of its own, because a transaction is one step.
\<close>

section \<open>Rows\<close>

datatype owner_kind = Account | Guest

record principal =
  pr_kind :: owner_kind
  pr_subject :: string

record obligation = obligation_state +
  ob_id :: string
  ob_owner :: principal
  ob_quoteId :: string
  ob_revision :: nat
  ob_createdAt :: instant
  ob_updatedAt :: instant

record intent = intent_claim_state +
  it_obligationId :: string
  it_amount :: bmoney
  it_createdAt :: instant
  it_updatedAt :: instant

record attempt = claim_state +
  at_obligationId :: string
  at_method :: pay_method
  at_providerReference :: string
  at_submittedAt :: instant
  at_reconciledAt :: "instant option"
  at_reconciledBy :: "principal option"
  at_observed :: "bmoney option"
  at_creditId :: "string option"

record cash_receipt = receipt_state +
  re_id :: string
  re_obligationId :: string
  re_intentId :: string
  re_bookingId :: string
  re_assignmentId :: string
  re_assignmentRevision :: int
  re_handoverId :: "string option"
  re_revision :: nat
  re_collectedAt :: instant
  re_updatedAt :: instant

record reversal =
  rv_id :: string
  rv_receiptId :: string
  rv_obligationId :: string
  rv_reason :: reversal_reason
  rv_reversedBy :: string
  rv_reversedAt :: instant

record handover = handover_state +
  ha_id :: string
  ha_receiptCount :: nat
  ha_shortage :: "bmoney option"
  ha_overage :: "bmoney option"
  ha_treasuryReference :: "string option"
  ha_receivedAt :: "instant option"
  ha_settlementReference :: "string option"
  ha_reconciledBy :: "string option"
  ha_reconciledAt :: "instant option"
  ha_cancelledBy :: "string option"
  ha_cancelledAt :: "instant option"
  ha_revision :: nat
  ha_createdAt :: instant
  ha_updatedAt :: instant

record handover_item =
  hi_handoverId :: string
  hi_receiptId :: string
  hi_amount :: bmoney

record credit = credit_state +
  cr_id :: string
  cr_merchantAccount :: string
  cr_reference :: string
  cr_occurredAt :: instant
  cr_source :: credit_source
  cr_evidenceDigest :: string
  cr_unallocatedReason :: "unallocated_reason option"
  cr_attemptId :: "string option"
  cr_obligationId :: "string option"
  cr_decidedBy :: "string option"
  cr_decidedAt :: "instant option"
  cr_rejectionReason :: "statement_rejection option"
  cr_revision :: nat
  cr_createdAt :: instant
  cr_updatedAt :: instant

record refund = refund_state +
  rf_id :: string
  rf_creditId :: string
  rf_provider :: pay_method
  rf_amount :: bmoney
  rf_reason :: refund_reason
  rf_requestedAt :: instant
  rf_decidedBy :: "string option"
  rf_decidedAt :: "instant option"
  rf_providerRefundReference :: "string option"
  rf_evidenceDigest :: "string option"
  rf_completedBy :: "string option"
  rf_completedAt :: "instant option"
  rf_revision :: nat
  rf_updatedAt :: instant

record booking_link =
  bl_bookingId :: string
  bl_obligationId :: string
  bl_clientId :: string
  bl_createdAt :: instant
  bl_voidedAt :: "instant option"

record journal_meta =
  jm_id :: string
  jm_obligationId :: "string option"
  jm_handoverId :: "string option"
  jm_creditId :: "string option"
  jm_postedAt :: instant
  jm_correlationId :: string

text \<open>A posted journal: its plan (with the lines of \<^verbatim>\<open>ledger_line\<close>) and its metadata.\<close>

record journal =
  lj_plan :: journal_plan
  lj_meta :: journal_meta

section \<open>Snapshots, views, events\<close>

record snapshot =
  sn_obligation :: obligation
  sn_activeIntent :: "intent option"
  sn_attempts :: "attempt list"
  sn_cashReceipt :: "cash_receipt option"
  sn_refunded :: "bmoney option"

definition snapshotFinancialStatus :: "snapshot \<Rightarrow> financial_status" where
  "snapshotFinancialStatus sn =
     financialStatus (sn_obligation sn) (sn_activeIntent sn)
       (list_ex (\<lambda>a. at_status a = UNKNOWN) (sn_attempts sn)) (sn_cashReceipt sn \<noteq> None)
       (sn_refunded sn)"

record obligation_view =
  ov_obligationId :: string
  ov_revision :: nat
  ov_status :: obligation_status
  ov_financialStatus :: financial_status
  ov_quoteId :: string
  ov_amount :: money_wire
  ov_verified :: money_wire
  ov_outstanding :: money_wire
  ov_activeIntent :: "(string \<times> pay_method \<times> intent_status \<times> money_wire \<times> instant \<times> instant) option"
  ov_attempts ::
    "(string \<times> string \<times> pay_method \<times> attempt_status \<times> string \<times> money_wire \<times> instant \<times> instant option) list"
  ov_cashReceipt :: "(string \<times> money_wire \<times> instant) option"
  ov_createdAt :: instant
  ov_updatedAt :: instant

text \<open>What the events and views show as outstanding: zero once the obligation is void.\<close>

definition shown_outstanding :: "obligation \<Rightarrow> billing_error + money_wire" where
  "shown_outstanding ob =
     andThen (if ob_status ob = VOIDED then Money_zero (mo_currency (ob_amount ob)) else outstanding ob)
       (\<lambda>due. Inr (Money_toWire due))"

definition intentView ::
  "intent \<Rightarrow> string \<times> pay_method \<times> intent_status \<times> money_wire \<times> instant \<times> instant" where
  "intentView it =
     (it_id it, it_method it, it_status it, Money_toWire (it_amount it), it_createdAt it, it_updatedAt it)"

definition attemptView ::
  "attempt \<Rightarrow>
   string \<times> string \<times> pay_method \<times> attempt_status \<times> string \<times> money_wire \<times> instant \<times> instant option" where
  "attemptView a =
     (at_id a, at_intentId a, at_method a, at_status a, maskProviderReference (at_providerReference a),
      Money_toWire (at_claimed a), at_submittedAt a, at_reconciledAt a)"

definition obligationView :: "snapshot \<Rightarrow> billing_error + obligation_view" where
  "obligationView sn =
     (let ob = sn_obligation sn in
      andThen (shown_outstanding ob) (\<lambda>due.
      Inr \<lparr>ov_obligationId = ob_id ob, ov_revision = ob_revision ob, ov_status = ob_status ob,
           ov_financialStatus = snapshotFinancialStatus sn, ov_quoteId = ob_quoteId ob,
           ov_amount = Money_toWire (ob_amount ob), ov_verified = Money_toWire (ob_verified ob),
           ov_outstanding = due, ov_activeIntent = map_option intentView (sn_activeIntent sn),
           ov_attempts = map attemptView (sn_attempts sn),
           ov_cashReceipt =
             map_option (\<lambda>r. (re_id r, Money_toWire (re_amount r), re_collectedAt r)) (sn_cashReceipt sn),
           ov_createdAt = ob_createdAt ob, ov_updatedAt = ob_updatedAt ob\<rparr>))"

record status_view =
  sv_obligationId :: string
  sv_revision :: nat
  sv_financialStatus :: financial_status
  sv_amount :: money_wire
  sv_verified :: money_wire
  sv_outstanding :: money_wire
  sv_method :: "pay_method option"

definition financialStatusView :: "snapshot \<Rightarrow> billing_error + status_view" where
  "financialStatusView sn =
     andThen (obligationView sn) (\<lambda>ov.
     Inr \<lparr>sv_obligationId = ov_obligationId ov, sv_revision = ov_revision ov,
          sv_financialStatus = ov_financialStatus ov, sv_amount = ov_amount ov,
          sv_verified = ov_verified ov, sv_outstanding = ov_outstanding ov,
          sv_method = map_option it_method (sn_activeIntent sn)\<rparr>)"

datatype verification_outcome =
    VO_FOUND | VO_PENDING | VO_NOT_FOUND | VO_UNKNOWN | VO_WRONG_MERCHANT_ACCOUNT

text \<open>
  Response bodies. The JSON views of credits, refunds, receipts and handovers are projections
  of the row (they mask references); the body carries the row.
\<close>

datatype billing_body =
    ObligationBody obligation_view
  | CreditBody credit
  | RefundBody refund
  | CollectionBody cash_receipt "reversal option" status_view
  | HandoverBody handover "string list"
  | VerificationBody verification_outcome "credit option" status_view

record recorded_outcome =
  ro_status :: nat
  ro_body :: billing_body

record idempotency_receipt =
  ir_actor :: principal
  ir_operation :: string
  ir_key :: string
  ir_fingerprint :: string
  ir_outcome :: recorded_outcome

datatype audit_actor = PrincipalAuditActor principal | ProviderAuditActor string

record billing_audit =
  au_id :: string
  au_occurredAt :: instant
  au_actor :: audit_actor
  au_action :: string
  au_obligationId :: "string option"
  au_attemptId :: "string option"
  au_receiptId :: "string option"
  au_handoverId :: "string option"
  au_creditId :: "string option"
  au_refundId :: "string option"
  au_outcome :: string
  au_correlationId :: string

record event_context =
  ev_eventId :: string
  ev_occurredAt :: instant
  ev_correlationId :: string
  ev_actor :: "principal option"
  ev_aggregateId :: string
  ev_revision :: nat

text \<open>
  The data of the seven integration events. The envelope's constant fields, its JSON text and
  the self-check by the shared parser are left out; that check could only throw.
\<close>

datatype billing_event =
    ObligationCreatedV1 event_context string money_wire financial_status
  | ObligationStatusChangedV1 event_context financial_status financial_status money_wire money_wire
  | CashCollectedV1 event_context string string string money_wire custody_status
  | CashCollectionReversedV1 event_context string string money_wire reversal_reason
  | CustodyHandoverChangedV1 event_context string "handover_status option" handover_status nat
      money_wire "money_wire option" "money_wire option" "money_wire option"
  | ProviderCreditChangedV1 event_context pay_method credit_source "credit_status option"
      credit_status "unallocated_reason option" money_wire "string option"
  | RefundChangedV1 event_context string "string option" pay_method refund_channel refund_reason
      "refund_status option" refund_status money_wire

fun event_ctx :: "billing_event \<Rightarrow> event_context" where
  "event_ctx (ObligationCreatedV1 c _ _ _) = c"
| "event_ctx (ObligationStatusChangedV1 c _ _ _ _) = c"
| "event_ctx (CashCollectedV1 c _ _ _ _ _) = c"
| "event_ctx (CashCollectionReversedV1 c _ _ _ _) = c"
| "event_ctx (CustodyHandoverChangedV1 c _ _ _ _ _ _ _ _) = c"
| "event_ctx (ProviderCreditChangedV1 c _ _ _ _ _ _ _) = c"
| "event_ctx (RefundChangedV1 c _ _ _ _ _ _ _ _) = c"

section \<open>The database\<close>

record billing_db =
  b_obligations :: "obligation list"
  b_intents :: "intent list"
  b_attempts :: "attempt list"
  b_journals :: "journal list"
  b_receipts :: "cash_receipt list"
  b_reversals :: "reversal list"
  b_handovers :: "handover list"
  b_items :: "handover_item list"
  b_credits :: "credit list"
  b_refunds :: "refund list"
  b_links :: "booking_link list"
  b_idempotency :: "idempotency_receipt list"
  b_audit :: "billing_audit list"
  b_outbox :: "billing_event list"

definition empty_billing_db :: billing_db where
  "empty_billing_db =
     \<lparr>b_obligations = [], b_intents = [], b_attempts = [], b_journals = [], b_receipts = [],
      b_reversals = [], b_handovers = [], b_items = [], b_credits = [], b_refunds = [], b_links = [],
      b_idempotency = [], b_audit = [], b_outbox = []\<rparr>"

text \<open>
  \<open>insert_row\<close>: a row whose key is taken violates the unique index and the statement throws
  \<open>e\<close>. \<open>cas_rows\<close>: an \<^verbatim>\<open>updateMany\<close> that must have changed exactly one row.
\<close>

definition insert_row :: "('r \<Rightarrow> 'k) \<Rightarrow> store_signal \<Rightarrow> 'r \<Rightarrow> 'r list \<Rightarrow> billing_error + 'r list" where
  "insert_row key e r rows =
     (if key r \<in> key ` set rows then Inl (StoreError e) else Inr (rows @ [r]))"

definition cas_rows :: "('r \<Rightarrow> bool) \<Rightarrow> ('r \<Rightarrow> 'r) \<Rightarrow> 'r list \<Rightarrow> billing_error + 'r list" where
  "cas_rows hit f rows =
     (if length (filter hit rows) = 1 then Inr (update_rows hit f rows)
      else Inl (StoreError ConcurrentModification))"

definition guard :: "bool \<Rightarrow> store_signal \<Rightarrow> billing_error + unit" where
  "guard ok e = (if ok then Inr () else Inl (StoreError e))"

section \<open>Obligations, intents, attempts\<close>

definition findReceipt ::
  "billing_db \<Rightarrow> principal \<Rightarrow> string \<Rightarrow> string \<Rightarrow> idempotency_receipt option" where
  "findReceipt db actor operation key =
     find_row (\<lambda>r. (ir_actor r, ir_operation r, ir_key r)) (actor, operation, key) (b_idempotency db)"

definition saveReceipt :: "idempotency_receipt \<Rightarrow> billing_db \<Rightarrow> billing_error + billing_db" where
  "saveReceipt r db =
     andThen (insert_row (\<lambda>r. (ir_actor r, ir_operation r, ir_key r)) ReceiptAlreadyExists r (b_idempotency db))
       (\<lambda>rows. Inr (db\<lparr>b_idempotency := rows\<rparr>))"

definition obligationIdForQuote :: "billing_db \<Rightarrow> string \<Rightarrow> string option" where
  "obligationIdForQuote db quoteId = map_option ob_id (find_row ob_quoteId quoteId (b_obligations db))"

definition obligationIdForAttempt :: "billing_db \<Rightarrow> string \<Rightarrow> string option" where
  "obligationIdForAttempt db attemptId =
     map_option at_obligationId (find_row at_id attemptId (b_attempts db))"

definition insertObligation :: "obligation \<Rightarrow> billing_db \<Rightarrow> billing_error + billing_db" where
  "insertObligation ob db =
     andThen (guard (0 < mo_amountMinor (ob_amount ob)) CheckViolation) (\<lambda>_.
     andThen (guard (ob_quoteId ob \<notin> ob_quoteId ` set (b_obligations db)) ObligationAlreadyExists) (\<lambda>_.
     andThen (insert_row ob_id UniqueViolation ob (b_obligations db)) (\<lambda>rows.
     Inr (db\<lparr>b_obligations := rows\<rparr>))))"

definition lockObligation :: "billing_db \<Rightarrow> string \<Rightarrow> obligation option" where
  "lockObligation db i = find_row ob_id i (b_obligations db)"

text \<open>The row keeps its currency; only the verified minor units, status, time and revision move.\<close>

definition changed_obligation :: "bmoney \<Rightarrow> obligation_status \<Rightarrow> instant \<Rightarrow> obligation \<Rightarrow> obligation" where
  "changed_obligation verified st at ob =
     ob\<lparr>ob_verified := \<lparr>mo_currency = mo_currency (ob_amount ob), mo_amountMinor = mo_amountMinor verified\<rparr>,
        ob_status := st, ob_updatedAt := at, ob_revision := ob_revision ob + 1\<rparr>"

definition updateObligation ::
  "string \<Rightarrow> nat \<Rightarrow> bmoney \<Rightarrow> obligation_status \<Rightarrow> instant \<Rightarrow> billing_db \<Rightarrow> billing_error + billing_db" where
  "updateObligation i expectedRevision verified st at db =
     andThen (cas_rows (\<lambda>r. ob_id r = i \<and> ob_revision r = expectedRevision)
                (changed_obligation verified st at) (b_obligations db))
       (\<lambda>rows. Inr (db\<lparr>b_obligations := rows\<rparr>))"

definition active_intent :: "'a intent_state_scheme \<Rightarrow> bool" where
  "active_intent it \<longleftrightarrow> it_status it \<in> set ACTIVE_INTENT_STATUSES"

definition active_receipt :: "'a receipt_state_scheme \<Rightarrow> bool" where
  "active_receipt re \<longleftrightarrow> re_custodyStatus re \<noteq> REVERSED"

definition refunded_sum :: "string \<Rightarrow> billing_db \<Rightarrow> int" where
  "refunded_sum creditId db =
     sum_rows (\<lambda>f. mo_amountMinor (rf_amount f))
       (\<lambda>f. rf_creditId f = creditId \<and> rf_status f = RF_SUCCEEDED) (b_refunds db)"

definition snapshot_of :: "billing_db \<Rightarrow> string \<Rightarrow> billing_error + snapshot option" where
  "snapshot_of db obligationId =
     (case lockObligation db obligationId of
        None \<Rightarrow> Inr None
      | Some ob \<Rightarrow>
          andThen
            (case find (\<lambda>c. cr_obligationId c = Some obligationId \<and> cr_status c = ALLOCATED) (b_credits db) of
               None \<Rightarrow> Inr None
             | Some c \<Rightarrow>
                 andThen (Money_of (mo_currency (ob_amount ob)) (refunded_sum (cr_id c) db))
                   (\<lambda>m. Inr (Some m)))
            (\<lambda>refunded.
             Inr (Some
               \<lparr>sn_obligation = ob,
                sn_activeIntent =
                  find (\<lambda>it. it_obligationId it = obligationId \<and> active_intent it) (b_intents db),
                sn_attempts =
                  rev (sort_key (\<lambda>a. (at_submittedAt a, at_id a))
                    (filter (\<lambda>a. at_obligationId a = obligationId) (b_attempts db))),
                sn_cashReceipt =
                  find (\<lambda>r. re_obligationId r = obligationId \<and> active_receipt r) (b_receipts db),
                sn_refunded = refunded\<rparr>)))"

definition insertIntent :: "intent \<Rightarrow> billing_db \<Rightarrow> billing_error + billing_db" where
  "insertIntent it db =
     andThen (guard (0 < mo_amountMinor (it_amount it)) CheckViolation) (\<lambda>_.
     andThen (guard (\<not> (active_intent it \<and>
                list_ex (\<lambda>r. it_obligationId r = it_obligationId it \<and> active_intent r) (b_intents db)))
                UniqueViolation) (\<lambda>_.
     andThen (insert_row it_id UniqueViolation it (b_intents db)) (\<lambda>rows.
     Inr (db\<lparr>b_intents := rows\<rparr>))))"

definition setIntentStatus ::
  "string \<Rightarrow> intent_status \<Rightarrow> intent_status \<Rightarrow> instant \<Rightarrow> billing_db \<Rightarrow> billing_error + billing_db" where
  "setIntentStatus i was becomes at db =
     andThen (cas_rows (\<lambda>r. it_id r = i \<and> it_status r = was)
                (\<lambda>r. r\<lparr>it_status := becomes, it_updatedAt := at\<rparr>) (b_intents db)) (\<lambda>rows.
     andThen (guard (becomes \<notin> set ACTIVE_INTENT_STATUSES \<or>
                \<not> list_ex (\<lambda>r. list_ex (\<lambda>s. it_id r = i \<and> it_id s \<noteq> i \<and>
                       it_obligationId s = it_obligationId r \<and> active_intent s) rows) rows)
                UniqueViolation) (\<lambda>_.
     Inr (db\<lparr>b_intents := rows\<rparr>)))"

definition countAttempts :: "billing_db \<Rightarrow> string \<Rightarrow> nat" where
  "countAttempts db obligationId =
     length (filter (\<lambda>a. at_obligationId a = obligationId) (b_attempts db))"

definition insertAttempt :: "attempt \<Rightarrow> billing_db \<Rightarrow> billing_error + billing_db" where
  "insertAttempt a db =
     andThen (guard (0 < mo_amountMinor (at_claimed a)) CheckViolation) (\<lambda>_.
     andThen (guard ((at_method a, at_providerReference a) \<notin>
                (\<lambda>r. (at_method r, at_providerReference r)) ` set (b_attempts db)) ProviderReferenceTaken) (\<lambda>_.
     andThen (insert_row at_id UniqueViolation a (b_attempts db)) (\<lambda>rows.
     Inr (db\<lparr>b_attempts := rows\<rparr>))))"

definition changed_attempt ::
  "attempt_status \<Rightarrow> instant \<Rightarrow> principal option \<Rightarrow> bmoney option \<Rightarrow> string option \<Rightarrow> attempt \<Rightarrow> attempt" where
  "changed_attempt becomes at by_whom observed creditId a =
     a\<lparr>at_status := becomes, at_reconciledAt := Some at, at_reconciledBy := by_whom,
       at_observed := map_option (\<lambda>m. \<lparr>mo_currency = mo_currency (at_claimed a),
                                       mo_amountMinor = mo_amountMinor m\<rparr>) observed,
       at_creditId := creditId\<rparr>"

definition reconcileAttempt_row ::
  "string \<Rightarrow> attempt_status \<Rightarrow> attempt_status \<Rightarrow> instant \<Rightarrow> principal option \<Rightarrow> bmoney option \<Rightarrow>
   string option \<Rightarrow> billing_db \<Rightarrow> billing_error + billing_db" where
  "reconcileAttempt_row i was becomes at by_whom observed creditId db =
     andThen (cas_rows (\<lambda>r. at_id r = i \<and> at_status r = was)
                (changed_attempt becomes at by_whom observed creditId) (b_attempts db)) (\<lambda>rows.
     andThen (guard (creditId = None \<or>
                \<not> list_ex (\<lambda>r. at_id r \<noteq> i \<and> at_creditId r = creditId) (b_attempts db)) UniqueViolation) (\<lambda>_.
     Inr (db\<lparr>b_attempts := rows\<rparr>)))"

section \<open>Journals, audit, outbox\<close>

definition postJournal :: "journal_plan \<Rightarrow> journal_meta \<Rightarrow> billing_db \<Rightarrow> billing_error + billing_db" where
  "postJournal plan meta db =
     andThen (guard (jp_businessRef plan \<notin> (\<lambda>j. jp_businessRef (lj_plan j)) ` set (b_journals db))
                UniqueViolation) (\<lambda>_.
     andThen (insert_row (\<lambda>j. jm_id (lj_meta j)) UniqueViolation \<lparr>lj_plan = plan, lj_meta = meta\<rparr>
                (b_journals db)) (\<lambda>rows.
     Inr (db\<lparr>b_journals := rows\<rparr>)))"

definition appendAudit_row :: "billing_audit \<Rightarrow> billing_db \<Rightarrow> billing_error + billing_db" where
  "appendAudit_row a db =
     andThen (insert_row au_id UniqueViolation a (b_audit db)) (\<lambda>rows. Inr (db\<lparr>b_audit := rows\<rparr>))"

definition appendOutbox :: "billing_event \<Rightarrow> billing_db \<Rightarrow> billing_error + billing_db" where
  "appendOutbox e db =
     andThen (insert_row (\<lambda>e. ev_eventId (event_ctx e)) UniqueViolation e (b_outbox db))
       (\<lambda>rows. Inr (db\<lparr>b_outbox := rows\<rparr>))"

section \<open>Custody\<close>

definition lockReceipt :: "billing_db \<Rightarrow> string \<Rightarrow> cash_receipt option" where
  "lockReceipt db i = find_row re_id i (b_receipts db)"

definition lockReceipts :: "billing_db \<Rightarrow> string list \<Rightarrow> cash_receipt list" where
  "lockReceipts db ids = sort_key re_id (filter (\<lambda>r. re_id r \<in> set ids) (b_receipts db))"

definition insertReceipt :: "cash_receipt \<Rightarrow> billing_db \<Rightarrow> billing_error + billing_db" where
  "insertReceipt re db =
     andThen (guard (0 < mo_amountMinor (re_amount re)) CheckViolation) (\<lambda>_.
     andThen (guard (\<not> (active_receipt re \<and>
                list_ex (\<lambda>r. active_receipt r \<and>
                  (re_obligationId r = re_obligationId re \<or> re_bookingId r = re_bookingId re))
                  (b_receipts db))) CollectionAlreadyRecorded) (\<lambda>_.
     andThen (insert_row re_id UniqueViolation re (b_receipts db)) (\<lambda>rows.
     Inr (db\<lparr>b_receipts := rows\<rparr>))))"

definition moved_receipt :: "custody_status \<Rightarrow> string option \<Rightarrow> instant \<Rightarrow> cash_receipt \<Rightarrow> cash_receipt" where
  "moved_receipt st handoverId at re =
     re\<lparr>re_custodyStatus := st, re_handoverId := handoverId, re_updatedAt := at,
        re_revision := re_revision re + 1\<rparr>"

definition updateReceiptCustody ::
  "string \<Rightarrow> nat \<Rightarrow> custody_status \<Rightarrow> string option \<Rightarrow> instant \<Rightarrow> billing_db \<Rightarrow> billing_error + billing_db" where
  "updateReceiptCustody i expectedRevision st handoverId at db =
     andThen (cas_rows (\<lambda>r. re_id r = i \<and> re_revision r = expectedRevision)
                (moved_receipt st handoverId at) (b_receipts db))
       (\<lambda>rows. Inr (db\<lparr>b_receipts := rows\<rparr>))"

definition insertReversal :: "reversal \<Rightarrow> billing_db \<Rightarrow> billing_error + billing_db" where
  "insertReversal rv db =
     andThen (guard (rv_receiptId rv \<notin> rv_receiptId ` set (b_reversals db)) ConcurrentModification) (\<lambda>_.
     andThen (insert_row rv_id UniqueViolation rv (b_reversals db)) (\<lambda>rows.
     Inr (db\<lparr>b_reversals := rows\<rparr>)))"

definition lockHandover :: "billing_db \<Rightarrow> string \<Rightarrow> handover option" where
  "lockHandover db i = find_row ha_id i (b_handovers db)"

definition insertHandover ::
  "handover \<Rightarrow> (string \<times> bmoney) list \<Rightarrow> billing_db \<Rightarrow> billing_error + billing_db" where
  "insertHandover ha items db =
     andThen (guard (0 < mo_amountMinor (ha_declared ha)) CheckViolation) (\<lambda>_.
     andThen (insert_row ha_id UniqueViolation ha (b_handovers db)) (\<lambda>rows.
     Inr (db\<lparr>b_handovers := rows,
             b_items := b_items db @
               map (\<lambda>(r, m). \<lparr>hi_handoverId = ha_id ha, hi_receiptId = r, hi_amount = m\<rparr>) items\<rparr>)))"

text \<open>
  \<^verbatim>\<open>handoverData\<close>: the columns an update of a handover writes. The holder, the declared total
  and the receipt count are never written again; the amounts keep the row's currency.
\<close>

definition handoverData :: "handover \<Rightarrow> handover \<Rightarrow> handover" where
  "handoverData later ha =
     (let money = map_option (\<lambda>m. \<lparr>mo_currency = mo_currency (ha_declared ha), mo_amountMinor = mo_amountMinor m\<rparr>) in
      ha\<lparr>ha_status := ha_status later, ha_counted := money (ha_counted later),
         ha_shortage := money (ha_shortage later), ha_overage := money (ha_overage later),
         ha_treasuryReference := ha_treasuryReference later, ha_receivedBy := ha_receivedBy later,
         ha_receivedAt := ha_receivedAt later, ha_settlementReference := ha_settlementReference later,
         ha_reconciledBy := ha_reconciledBy later, ha_reconciledAt := ha_reconciledAt later,
         ha_cancelledBy := ha_cancelledBy later, ha_cancelledAt := ha_cancelledAt later,
         ha_updatedAt := ha_updatedAt later, ha_revision := ha_revision ha + 1\<rparr>)"

definition updateHandover :: "string \<Rightarrow> nat \<Rightarrow> handover \<Rightarrow> billing_db \<Rightarrow> billing_error + billing_db" where
  "updateHandover i expectedRevision later db =
     andThen (guard (\<not> list_ex (\<lambda>r. ha_id r \<noteq> i \<and>
                (ha_treasuryReference r \<noteq> None \<and> ha_treasuryReference r = ha_treasuryReference later \<or>
                 ha_settlementReference r \<noteq> None \<and> ha_settlementReference r = ha_settlementReference later))
                (b_handovers db)) TreasuryReferenceTaken) (\<lambda>_.
     andThen (cas_rows (\<lambda>r. ha_id r = i \<and> ha_revision r = expectedRevision) (handoverData later)
                (b_handovers db)) (\<lambda>rows.
     Inr (db\<lparr>b_handovers := rows\<rparr>)))"

definition handoverReceiptIds :: "billing_db \<Rightarrow> string \<Rightarrow> string list" where
  "handoverReceiptIds db handoverId =
     sort (map hi_receiptId (filter (\<lambda>i. hi_handoverId i = handoverId) (b_items db)))"

section \<open>Provider credits and refunds\<close>

definition effectiveCredit :: "billing_db \<Rightarrow> pay_method \<Rightarrow> string \<Rightarrow> string \<Rightarrow> credit option" where
  "effectiveCredit db provider merchantAccount reference =
     find (\<lambda>c. cr_provider c = provider \<and> cr_merchantAccount c = merchantAccount \<and>
             cr_reference c = reference \<and> cr_status c \<noteq> CR_REJECTED) (b_credits db)"

definition unallocatedCreditFor :: "billing_db \<Rightarrow> pay_method \<Rightarrow> string \<Rightarrow> credit option" where
  "unallocatedCreditFor db provider reference =
     (case sort_key (\<lambda>c. (cr_createdAt c, cr_id c))
             (filter (\<lambda>c. cr_provider c = provider \<and> cr_reference c = reference \<and>
                        cr_status c = UNALLOCATED) (b_credits db)) of
        [] \<Rightarrow> None
      | c # _ \<Rightarrow> Some c)"

definition claimFor :: "billing_db \<Rightarrow> pay_method \<Rightarrow> string \<Rightarrow> (string \<times> string) option" where
  "claimFor db provider reference =
     map_option (\<lambda>a. (at_id a, at_obligationId a))
       (find (\<lambda>a. at_method a = provider \<and> at_providerReference a = reference) (b_attempts db))"

definition lockCredit :: "billing_db \<Rightarrow> string \<Rightarrow> credit option" where
  "lockCredit db i = find_row cr_id i (b_credits db)"

definition attempt_free :: "credit \<Rightarrow> credit list \<Rightarrow> bool" where
  "attempt_free c rows \<longleftrightarrow>
     \<not> list_ex (\<lambda>r. cr_id r \<noteq> cr_id c \<and> cr_attemptId r \<noteq> None \<and> cr_attemptId r = cr_attemptId c) rows"

definition insertCredit :: "credit \<Rightarrow> billing_db \<Rightarrow> billing_error + billing_db" where
  "insertCredit c db =
     andThen (guard (0 < mo_amountMinor (cr_amount c)) CheckViolation) (\<lambda>_.
     andThen (guard (\<not> (cr_status c \<noteq> CR_REJECTED \<and>
                effectiveCredit db (cr_provider c) (cr_merchantAccount c) (cr_reference c) \<noteq> None))
                ProviderCreditTaken) (\<lambda>_.
     andThen (guard (attempt_free c (b_credits db)) UniqueViolation) (\<lambda>_.
     andThen (insert_row cr_id UniqueViolation c (b_credits db)) (\<lambda>rows.
     Inr (db\<lparr>b_credits := rows\<rparr>)))))"

text \<open>\<^verbatim>\<open>creditData\<close>: the columns an update writes.\<close>

definition creditData :: "credit \<Rightarrow> credit \<Rightarrow> credit" where
  "creditData later c =
     c\<lparr>cr_status := cr_status later, cr_unallocatedReason := cr_unallocatedReason later,
       cr_attemptId := cr_attemptId later, cr_obligationId := cr_obligationId later,
       cr_decidedBy := cr_decidedBy later, cr_decidedAt := cr_decidedAt later,
       cr_rejectionReason := cr_rejectionReason later, cr_revision := cr_revision later,
       cr_updatedAt := cr_updatedAt later\<rparr>"

definition updateCredit :: "string \<Rightarrow> nat \<Rightarrow> credit \<Rightarrow> billing_db \<Rightarrow> billing_error + billing_db" where
  "updateCredit i expectedRevision later db =
     andThen (cas_rows (\<lambda>r. cr_id r = i \<and> cr_revision r = expectedRevision) (creditData later)
                (b_credits db)) (\<lambda>rows.
     andThen (guard (attempt_free (later\<lparr>cr_id := i\<rparr>) (b_credits db)) UniqueViolation) (\<lambda>_.
     Inr (db\<lparr>b_credits := rows\<rparr>)))"

definition reserving :: "refund \<Rightarrow> bool" where
  "reserving f \<longleftrightarrow> rf_status f \<in> set RESERVING_REFUND_STATUSES"

definition reserved_sum :: "string \<Rightarrow> refund list \<Rightarrow> int" where
  "reserved_sum creditId rows =
     sum_rows (\<lambda>f. mo_amountMinor (rf_amount f)) (\<lambda>f. rf_creditId f = creditId \<and> reserving f) rows"

definition reservedForRefund :: "billing_db \<Rightarrow> credit \<Rightarrow> billing_error + bmoney" where
  "reservedForRefund db c =
     Money_of (mo_currency (cr_amount c)) (reserved_sum (cr_id c) (b_refunds db))"

definition insertRefund :: "refund \<Rightarrow> billing_db \<Rightarrow> billing_error + billing_db" where
  "insertRefund f db =
     andThen (guard (0 < mo_amountMinor (rf_amount f)) CheckViolation) (\<lambda>_.
     andThen (insert_row rf_id UniqueViolation f (b_refunds db)) (\<lambda>rows.
     Inr (db\<lparr>b_refunds := rows\<rparr>)))"

definition lockRefund :: "billing_db \<Rightarrow> string \<Rightarrow> refund option" where
  "lockRefund db i = find_row rf_id i (b_refunds db)"

definition refundData :: "refund \<Rightarrow> refund \<Rightarrow> refund" where
  "refundData later f =
     f\<lparr>rf_status := rf_status later, rf_decidedBy := rf_decidedBy later,
       rf_decidedAt := rf_decidedAt later,
       rf_providerRefundReference := rf_providerRefundReference later,
       rf_evidenceDigest := rf_evidenceDigest later, rf_completedBy := rf_completedBy later,
       rf_completedAt := rf_completedAt later, rf_revision := rf_revision later,
       rf_updatedAt := rf_updatedAt later\<rparr>"

definition updateRefund :: "string \<Rightarrow> nat \<Rightarrow> refund \<Rightarrow> billing_db \<Rightarrow> billing_error + billing_db" where
  "updateRefund i expectedRevision later db =
     andThen (guard (\<not> list_ex (\<lambda>r. rf_id r \<noteq> i \<and> rf_provider r = rf_provider later \<and>
                rf_providerRefundReference r \<noteq> None \<and>
                rf_providerRefundReference r = rf_providerRefundReference later) (b_refunds db))
                ProviderRefundReferenceTaken) (\<lambda>_.
     andThen (cas_rows (\<lambda>r. rf_id r = i \<and> rf_revision r = expectedRevision) (refundData later)
                (b_refunds db)) (\<lambda>rows.
     Inr (db\<lparr>b_refunds := rows\<rparr>)))"

section \<open>Booking links\<close>

definition linkForBooking :: "billing_db \<Rightarrow> string \<Rightarrow> booking_link option" where
  "linkForBooking db bookingId = find_row bl_bookingId bookingId (b_links db)"

definition linkForObligation :: "billing_db \<Rightarrow> string \<Rightarrow> booking_link option" where
  "linkForObligation db obligationId = find_row bl_obligationId obligationId (b_links db)"

definition insertLink :: "booking_link \<Rightarrow> billing_db \<Rightarrow> billing_error + billing_db" where
  "insertLink l db =
     andThen (guard (bl_obligationId l \<notin> bl_obligationId ` set (b_links db)) BookingAlreadyLinked) (\<lambda>_.
     andThen (insert_row bl_bookingId BookingAlreadyLinked l (b_links db)) (\<lambda>rows.
     Inr (db\<lparr>b_links := rows\<rparr>)))"

definition markVoided :: "string \<Rightarrow> instant \<Rightarrow> billing_db \<Rightarrow> billing_error + billing_db" where
  "markVoided obligationId at db =
     (let hit = (\<lambda>l. bl_obligationId l = obligationId \<and> bl_voidedAt l = None) in
      if length (filter hit (b_links db)) = 1 then
        Inr (db\<lparr>b_links := update_rows hit (\<lambda>l. l\<lparr>bl_voidedAt := Some at\<rparr>) (b_links db)\<rparr>)
      else Inl (Fault ''BOOKING_LINK_NOT_VOIDABLE''))"

end
