(* ===== verification/Billing_Commands.thy ===== *)
theory Billing_Commands
  imports Billing_Store
begin

text \<open>
  Billing, the command protocol and the obligation commands:
  \<^verbatim>\<open>application/command-support.ts\<close>, \<^verbatim>\<open>credit-settlement.ts\<close>, \<^verbatim>\<open>billing.service.ts\<close> and
  \<^verbatim>\<open>booking-obligation.service.ts\<close>.

  A command takes a \<open>brequest\<close> and the database and returns its answer and the next database;
  the body of its transaction is a function \<open>..._tx\<close>. The request carries what the command
  gets from outside: the answer of the access authority, the correlation id, the clock, the ids
  the generator hands out (\<open>bq_ids n\<close> at the n-th call site of the command), the database the
  reads before the transaction see (\<open>bq_seen\<close>) and the one a read after a failed transaction
  sees (\<open>bq_later\<close>): other commands may commit in between. The SHA-256 digest of the canonical
  JSON is the parameter \<open>sha\<close>.
\<close>

section \<open>Requests\<close>

record verified_principal =
  vp_kind :: owner_kind
  vp_subject :: string
  vp_permissions :: "string list"

datatype access_answer = Verified verified_principal | Denied billing_code | AuthorityDown

record brequest =
  bq_access :: access_answer
  bq_correlationId :: string
  bq_now :: instant
  bq_ids :: "nat \<Rightarrow> string"
  bq_seen :: billing_db
  bq_later :: billing_db

record command =
  co_actor :: principal
  co_operation :: string
  co_key :: string
  co_fingerprint :: string

record command_result =
  cm_outcome :: recorded_outcome
  cm_replayed :: bool

type_synonym answer_db = "(billing_error + command_result) \<times> billing_db"

definition app_error :: "billing_code \<Rightarrow> billing_error + 'a" where
  "app_error c = Inl (BillingApplicationError c)"

text \<open>A check before the transaction: when it throws, the database is as it was.\<close>

definition checked :: "billing_error + 'a \<Rightarrow> billing_db \<Rightarrow> ('a \<Rightarrow> answer_db) \<Rightarrow> answer_db" where
  "checked m db f = (case m of Inl e \<Rightarrow> (Inl e, db) | Inr x \<Rightarrow> f x)"

section \<open>Input\<close>

definition key_pattern :: "string \<Rightarrow> bool" where
  "key_pattern s \<longleftrightarrow>
     list_all (\<lambda>c. is_upper c \<or> is_lower c \<or> is_digit c \<or> c = CHR ''_'' \<or> c = CHR ''-'') s \<and>
     16 \<le> length s \<and> length s \<le> 128"

definition lower_hex_char :: "char \<Rightarrow> bool" where
  "lower_hex_char c \<longleftrightarrow> is_digit c \<or> in_range CHR ''a'' CHR ''f'' c"

text \<open>\<^verbatim>\<open>/^[0-9a-f]{8}-[0-9a-f]{4}-[1-5][0-9a-f]{3}-[89ab][0-9a-f]{3}-[0-9a-f]{12}$/\<close>.\<close>

definition billing_uuid :: "string \<Rightarrow> bool" where
  "billing_uuid s \<longleftrightarrow>
     list_all2 (\<lambda>p c. p c)
       (replicate 8 lower_hex_char @ [\<lambda>c. c = CHR ''-''] @ replicate 4 lower_hex_char @ [\<lambda>c. c = CHR ''-''] @
        [in_range CHR ''1'' CHR ''5''] @ replicate 3 lower_hex_char @ [\<lambda>c. c = CHR ''-''] @
        [\<lambda>c. c \<in> set ''89ab''] @ replicate 3 lower_hex_char @ [\<lambda>c. c = CHR ''-''] @
        replicate 12 lower_hex_char) s"

definition objectWithKeys :: "json \<Rightarrow> string list \<Rightarrow> billing_error + (string \<times> json) list" where
  "objectWithKeys body ks =
     (case body of
        JObject kvs \<Rightarrow>
          if key_line (map fst kvs) \<noteq> key_line ks then app_error ''REQUEST_INVALID'' else Inr kvs
      | _ \<Rightarrow> app_error ''REQUEST_INVALID'')"

definition uuid_field :: "json option \<Rightarrow> billing_error + string" where
  "uuid_field v =
     (case v of
        Some (JString s) \<Rightarrow> if billing_uuid s then Inr s else app_error ''REQUEST_INVALID''
      | _ \<Rightarrow> app_error ''REQUEST_INVALID'')"

definition MAX_REVISION :: int where
  "MAX_REVISION = 2147483647"

definition revision_field :: "json option \<Rightarrow> billing_error + nat" where
  "revision_field v =
     (case v of
        Some (JNumber (JsInt n)) \<Rightarrow>
          if n < 1 \<or> n \<ge> MAX_REVISION then app_error ''REQUEST_INVALID'' else Inr (nat n)
      | _ \<Rightarrow> app_error ''REQUEST_INVALID'')"

definition oneOf :: "json option \<Rightarrow> (string \<times> 'a) list \<Rightarrow> billing_error + 'a" where
  "oneOf v allowed =
     (case v of
        Some (JString s) \<Rightarrow>
          (case map_of allowed s of Some x \<Rightarrow> Inr x | None \<Rightarrow> app_error ''REQUEST_INVALID'')
      | _ \<Rightarrow> app_error ''REQUEST_INVALID'')"

definition moneyInput :: "json option \<Rightarrow> billing_error + bmoney" where
  "moneyInput v =
     (case v of
        None \<Rightarrow> app_error ''REQUEST_INVALID''
      | Some j \<Rightarrow>
          (case Money_parse j of
             Inr m \<Rightarrow> Inr m
           | Inl (MoneyError c) \<Rightarrow>
               if c = ''CURRENCY_UNSUPPORTED'' then app_error ''CURRENCY_UNSUPPORTED''
               else app_error ''REQUEST_INVALID''
           | Inl e \<Rightarrow> Inl e))"

definition target_id :: "string \<Rightarrow> billing_error + string" where
  "target_id i = (if billing_uuid i then Inr i else app_error ''NOT_FOUND'')"

definition idempotency_key :: "json option \<Rightarrow> billing_error + string" where
  "idempotency_key v =
     (case v of
        Some (JString s) \<Rightarrow> if key_pattern s then Inr s else app_error ''IDEMPOTENCY_KEY_INVALID''
      | _ \<Rightarrow> app_error ''IDEMPOTENCY_KEY_INVALID'')"

section \<open>Command support\<close>

definition refOf :: "verified_principal \<Rightarrow> principal" where
  "refOf p = \<lparr>pr_kind = vp_kind p, pr_subject = vp_subject p\<rparr>"

text \<open>\<^verbatim>\<open>decide\<close>: a rule failure of the domain becomes a public code.\<close>

fun public_error :: "billing_error \<Rightarrow> billing_error" where
  "public_error (PaymentRuleError c) = BillingApplicationError c"
| "public_error (CashRuleError c) = BillingApplicationError c"
| "public_error (ProviderRuleError c) = BillingApplicationError c"
| "public_error (RefundRuleError c) = BillingApplicationError c"
| "public_error e = e"

definition decide_rule :: "billing_error + 'a \<Rightarrow> billing_error + 'a" where
  "decide_rule m = (case m of Inl e \<Rightarrow> Inl (public_error e) | Inr x \<Rightarrow> Inr x)"

definition principal_of :: "brequest \<Rightarrow> billing_error + verified_principal" where
  "principal_of rq =
     (case bq_access rq of
        Verified p \<Rightarrow> Inr p
      | Denied reason \<Rightarrow> app_error reason
      | AuthorityDown \<Rightarrow> app_error ''AUTH_UNAVAILABLE'')"

definition permitted :: "brequest \<Rightarrow> string \<Rightarrow> billing_error + verified_principal" where
  "permitted rq permission =
     andThen (principal_of rq) (\<lambda>p.
     if permission \<notin> set (vp_permissions p) then app_error ''AUTH_FORBIDDEN'' else Inr p)"

definition accountOnly :: "verified_principal \<Rightarrow> billing_error + verified_principal" where
  "accountOnly p = (if vp_kind p \<noteq> Account then app_error ''AUTH_FORBIDDEN'' else Inr p)"

fun owner_kind_name :: "owner_kind \<Rightarrow> string" where
  "owner_kind_name Account = ''account''"
| "owner_kind_name Guest = ''guest''"

definition make_command ::
  "(json \<Rightarrow> string) \<Rightarrow> principal \<Rightarrow> string \<Rightarrow> string \<Rightarrow> (string \<times> json) list \<Rightarrow> command" where
  "make_command sha actor operation key body =
     \<lparr>co_actor = actor, co_operation = operation, co_key = key,
      co_fingerprint =
        sha (JObject [(''operation'', JString operation),
                      (''actor'', JObject [(''kind'', JString (owner_kind_name (pr_kind actor))),
                                           (''subjectId'', JString (pr_subject actor))]),
                      (''request'', JObject body)])\<rparr>"

definition replay :: "idempotency_receipt \<Rightarrow> command \<Rightarrow> billing_error + command_result" where
  "replay r cmd =
     (if ir_fingerprint r \<noteq> co_fingerprint cmd then app_error ''IDEMPOTENCY_CONFLICT''
      else Inr \<lparr>cm_outcome = ir_outcome r, cm_replayed = True\<rparr>)"

definition committed_receipt :: "billing_db \<Rightarrow> command \<Rightarrow> idempotency_receipt option" where
  "committed_receipt db cmd = findReceipt db (co_actor cmd) (co_operation cmd) (co_key cmd)"

definition execute_tx ::
  "command \<Rightarrow> (billing_db \<Rightarrow> billing_error + recorded_outcome \<times> billing_db) \<Rightarrow>
   (billing_db, billing_error, command_result) tx" where
  "execute_tx cmd work db =
     (case committed_receipt db cmd of
        Some raced \<Rightarrow> andThen (replay raced cmd) (\<lambda>res. Inr (res, db))
      | None \<Rightarrow>
          bindS (work db) (\<lambda>outcome db1.
          andThen (saveReceipt \<lparr>ir_actor = co_actor cmd, ir_operation = co_operation cmd,
                      ir_key = co_key cmd, ir_fingerprint = co_fingerprint cmd,
                      ir_outcome = outcome\<rparr> db1) (\<lambda>db2.
          Inr (\<lparr>cm_outcome = outcome, cm_replayed = False\<rparr>, db2))))"

text \<open>The \<^verbatim>\<open>catch\<close> of \<^verbatim>\<open>execute\<close>, when no winner committed under the key.\<close>

fun loser_error :: "billing_error \<Rightarrow> billing_error" where
  "loser_error (StoreError ConcurrentModification) = BillingApplicationError ''REVISION_CONFLICT''"
| "loser_error (StoreError ReceiptAlreadyExists) = Fault ''RECEIPT_RACE_WITHOUT_WINNER''"
| "loser_error e = e"

definition execute ::
  "brequest \<Rightarrow> command \<Rightarrow> (billing_db \<Rightarrow> billing_error + recorded_outcome \<times> billing_db) \<Rightarrow>
   billing_db \<Rightarrow> answer_db" where
  "execute rq cmd work db =
     (case committed_receipt (bq_seen rq) cmd of
        Some existing \<Rightarrow> (replay existing cmd, db)
      | None \<Rightarrow>
          (case run_tx (execute_tx cmd work) db of
             (Inr res, db') \<Rightarrow> (Inr res, db')
           | (Inl e, db') \<Rightarrow>
               (case committed_receipt (bq_later rq) cmd of
                  Some winner \<Rightarrow> (replay winner cmd, db')
                | None \<Rightarrow> (Inl (loser_error e), db'))))"

text \<open>\<^verbatim>\<open>committed\<close> as a step of its own: an earlier receipt answers before the next read.\<close>

definition unless_committed :: "brequest \<Rightarrow> command \<Rightarrow> billing_db \<Rightarrow> answer_db \<Rightarrow> answer_db" where
  "unless_committed rq cmd db go =
     (case committed_receipt (bq_seen rq) cmd of
        Some existing \<Rightarrow> (replay existing cmd, db)
      | None \<Rightarrow> go)"

text \<open>A service's own \<^verbatim>\<open>catch\<close> around \<^verbatim>\<open>execute\<close>: one store error becomes a public code.\<close>

definition translating :: "store_signal \<Rightarrow> billing_code \<Rightarrow> answer_db \<Rightarrow> answer_db" where
  "translating signal c r =
     (case r of
        (Inl (StoreError s), db) \<Rightarrow>
          if s = signal then (app_error c, db) else (Inl (StoreError s), db)
      | _ \<Rightarrow> r)"

section \<open>Audit rows, journals and events of a transaction\<close>

definition audit_row ::
  "brequest \<Rightarrow> nat \<Rightarrow> audit_actor \<Rightarrow> string \<Rightarrow> string option \<Rightarrow> string option \<Rightarrow> string \<Rightarrow> billing_audit" where
  "audit_row rq n actor action obligationId attemptId outcome =
     \<lparr>au_id = bq_ids rq n, au_occurredAt = bq_now rq, au_actor = actor, au_action = action,
      au_obligationId = obligationId, au_attemptId = attemptId, au_receiptId = None,
      au_handoverId = None, au_creditId = None, au_refundId = None, au_outcome = outcome,
      au_correlationId = bq_correlationId rq\<rparr>"

definition event_context_of ::
  "brequest \<Rightarrow> nat \<Rightarrow> principal option \<Rightarrow> string \<Rightarrow> nat \<Rightarrow> event_context" where
  "event_context_of rq n actor aggregateId revision =
     \<lparr>ev_eventId = bq_ids rq n, ev_occurredAt = bq_now rq, ev_correlationId = bq_correlationId rq,
      ev_actor = actor, ev_aggregateId = aggregateId, ev_revision = revision\<rparr>"

definition meta_of ::
  "brequest \<Rightarrow> nat \<Rightarrow> string option \<Rightarrow> string option \<Rightarrow> string option \<Rightarrow> journal_meta" where
  "meta_of rq n obligationId handoverId creditId =
     \<lparr>jm_id = bq_ids rq n, jm_obligationId = obligationId, jm_handoverId = handoverId,
      jm_creditId = creditId, jm_postedAt = bq_now rq, jm_correlationId = bq_correlationId rq\<rparr>"

text \<open>Plan a journal and post it.\<close>

definition post :: "billing_error + journal_plan \<Rightarrow> journal_meta \<Rightarrow> billing_db \<Rightarrow> billing_error + billing_db" where
  "post plan meta db = andThen plan (\<lambda>p. postJournal p meta db)"

definition some_snapshot :: "billing_db \<Rightarrow> string \<Rightarrow> string \<Rightarrow> billing_error + snapshot" where
  "some_snapshot db obligationId fault =
     andThen (snapshot_of db obligationId) (\<lambda>sn.
     case sn of None \<Rightarrow> Inl (Fault fault) | Some s \<Rightarrow> Inr s)"

text \<open>The status-changed outbox row, written only when the customer-facing status moved.\<close>

definition obligationChanged ::
  "brequest \<Rightarrow> nat \<Rightarrow> principal option \<Rightarrow> snapshot \<Rightarrow> snapshot \<Rightarrow> billing_db \<Rightarrow> billing_error + billing_db" where
  "obligationChanged rq n actor before after db =
     (let previous = snapshotFinancialStatus before; current = snapshotFinancialStatus after;
          ob = sn_obligation after in
      if previous = current then Inr db
      else andThen (shown_outstanding ob) (\<lambda>due.
        appendOutbox (ObligationStatusChangedV1 (event_context_of rq n actor (ob_id ob) (ob_revision ob))
          previous current (Money_toWire (ob_verified ob)) due) db))"

section \<open>Credit settlement\<close>

definition PROVIDER_AUDIT_SUBJECTS :: "pay_method \<Rightarrow> string" where
  "PROVIDER_AUDIT_SUBJECTS provider =
     (if provider = SHAM_CASH then ''5c0a1b2c-3d4e-4f50-8a61-000000000001''
      else ''5c0a1b2c-3d4e-4f50-8a61-000000000002'')"

definition auditActor :: "principal option \<Rightarrow> pay_method \<Rightarrow> audit_actor" where
  "auditActor actor provider =
     (case actor of Some p \<Rightarrow> PrincipalAuditActor p
      | None \<Rightarrow> ProviderAuditActor (PROVIDER_AUDIT_SUBJECTS provider))"

definition creditEvent ::
  "brequest \<Rightarrow> nat \<Rightarrow> principal option \<Rightarrow> credit_status option \<Rightarrow> credit \<Rightarrow> billing_event" where
  "creditEvent rq n actor previousStatus c =
     ProviderCreditChangedV1 (event_context_of rq n actor (cr_id c) (cr_revision c)) (cr_provider c)
       (cr_source c) previousStatus (cr_status c) (cr_unallocatedReason c) (Money_toWire (cr_amount c))
       (cr_obligationId c)"

text \<open>The next state of the credit: allocated to the claim, or left with its reason.\<close>

definition allocated_credit :: "brequest \<Rightarrow> credit \<Rightarrow> credit option \<Rightarrow> attempt \<Rightarrow> obligation \<Rightarrow> credit" where
  "allocated_credit rq draft previous a ob =
     draft\<lparr>cr_status := ALLOCATED, cr_unallocatedReason := None, cr_attemptId := Some (at_id a),
           cr_obligationId := Some (ob_id ob),
           cr_revision := (case previous of Some p \<Rightarrow> cr_revision p + 1 | None \<Rightarrow> 1),
           cr_updatedAt := bq_now rq\<rparr>"

definition left_credit :: "brequest \<Rightarrow> credit \<Rightarrow> credit option \<Rightarrow> unallocated_reason \<Rightarrow> credit" where
  "left_credit rq draft previous reason =
     draft\<lparr>cr_status := UNALLOCATED, cr_unallocatedReason := Some reason, cr_attemptId := None,
           cr_obligationId := None,
           cr_revision := (case previous of Some p \<Rightarrow> cr_revision p + 1 | None \<Rightarrow> 1),
           cr_updatedAt := bq_now rq\<rparr>"

text \<open>The credit row and, at the first confirmation, \<open>CREDIT_RECEIVED\<close>.\<close>

definition store_credit :: "brequest \<Rightarrow> credit option \<Rightarrow> credit \<Rightarrow> billing_db \<Rightarrow> billing_error + billing_db" where
  "store_credit rq previous c db =
     andThen (case previous of
                Some p \<Rightarrow> updateCredit (cr_id p) (cr_revision p) c db
              | None \<Rightarrow> insertCredit c db) (\<lambda>db1.
     if (case previous of Some p \<Rightarrow> cr_status p \<in> set CONFIRMED_CREDIT_STATUSES | None \<Rightarrow> False) then Inr db1
     else post (creditReceivedJournal (cr_id c) (cr_provider c) (cr_amount c))
            (meta_of rq 10 None None (Some (cr_id c))) db1)"

text \<open>The claim is matched and the obligation settled by the credit \<open>c\<close>.\<close>

definition settle_claim ::
  "brequest \<Rightarrow> principal option \<Rightarrow> credit \<Rightarrow> attempt \<Rightarrow> snapshot \<Rightarrow> billing_db \<Rightarrow>
   billing_error + snapshot \<times> billing_db" where
  "settle_claim rq actor c a before db =
     (case sn_activeIntent before of
        None \<Rightarrow> Inl (Fault ''ALLOCATION_WITHOUT_INTENT'')
      | Some it \<Rightarrow>
          (let ob = sn_obligation before; now = bq_now rq in
           andThen (reconcileAttempt_row (at_id a) (at_status a) MATCHED now actor (Some (cr_amount c))
                      (Some (cr_id c)) db) (\<lambda>db1.
           andThen (setIntentStatus (it_id it) (it_status it) SUCCEEDED now db1) (\<lambda>db2.
           andThen (post (creditAllocatedJournal (cr_id c) (cr_amount c))
                      (meta_of rq 11 (Some (ob_id ob)) None (Some (cr_id c))) db2) (\<lambda>db3.
           andThen (Money_plus (ob_verified ob) (cr_amount c)) (\<lambda>verified.
           andThen (updateObligation (ob_id ob) (ob_revision ob) verified SETTLED now db3) (\<lambda>db4.
           andThen (some_snapshot db4 (ob_id ob) ''OBLIGATION_DISAPPEARED'') (\<lambda>after.
           andThen (appendAudit_row ((audit_row rq 12 (auditActor actor (cr_provider c))
                      ''billing.credit.allocated'' (Some (ob_id ob)) (Some (at_id a)) ''MATCHED'')
                      \<lparr>au_creditId := Some (cr_id c)\<rparr>) db4) (\<lambda>db5.
           andThen (obligationChanged rq 13 actor before after db5) (\<lambda>db6.
           Inr (after, db6)))))))))))"

definition confirm ::
  "brequest \<Rightarrow> principal option \<Rightarrow> credit \<Rightarrow> credit option \<Rightarrow> billing_db \<Rightarrow>
   billing_error + (credit \<times> snapshot option) \<times> billing_db" where
  "confirm rq actor draft previous db =
     (let claim = claimFor db (cr_provider draft) (cr_reference draft);
          obligation = (case claim of None \<Rightarrow> None | Some (_, i) \<Rightarrow> lockObligation db i) in
      andThen (case obligation of None \<Rightarrow> Inr None | Some ob \<Rightarrow> snapshot_of db (ob_id ob)) (\<lambda>before.
      andThen (case (obligation, before) of
                 (Some ob, Some _) \<Rightarrow>
                   (let owner = pr_subject (ob_owner ob) in
                    if map_option pr_subject actor = Some owner \<or> cr_recordedBy draft = Some owner
                    then app_error ''SEPARATION_OF_DUTIES'' else Inr ())
               | _ \<Rightarrow> Inr ()) (\<lambda>_.
      (let attempt = (case (claim, before) of
                        (Some (i, _), Some sn) \<Rightarrow> find (\<lambda>a. at_id a = i) (sn_attempts sn)
                      | _ \<Rightarrow> None) in
       andThen (case previous of None \<Rightarrow> Inr None
                | Some p \<Rightarrow> andThen (reservedForRefund db p) (\<lambda>m. Inr (Some m))) (\<lambda>reserved.
       andThen (planCreditAllocation (cr_amount draft) reserved attempt
                  (map_option sn_obligation before)
                  (case before of None \<Rightarrow> None | Some sn \<Rightarrow> sn_activeIntent sn)) (\<lambda>plan.
       (case (previous, plan) of
          (Some p, LEAVE reason) \<Rightarrow>
            if cr_status p = UNALLOCATED then Inr ((p, None), db)
            else (let c = left_credit rq draft previous reason in
                  andThen (store_credit rq previous c db) (\<lambda>db1.
                  andThen (appendOutbox (creditEvent rq 14 actor (Some (cr_status p)) c) db1) (\<lambda>db2.
                  Inr ((c, None), db2))))
        | (None, LEAVE reason) \<Rightarrow>
            (let c = left_credit rq draft previous reason in
             andThen (store_credit rq previous c db) (\<lambda>db1.
             andThen (appendOutbox (creditEvent rq 14 actor None c) db1) (\<lambda>db2.
             Inr ((c, None), db2))))
        | (_, ALLOCATE received) \<Rightarrow>
            (case (attempt, before) of
               (Some a, Some sn) \<Rightarrow>
                 (let c = allocated_credit rq draft previous a (sn_obligation sn) in
                  andThen (store_credit rq previous c db) (\<lambda>db1.
                  bindS (settle_claim rq actor c a sn db1) (\<lambda>after db2.
                  andThen (appendOutbox (creditEvent rq 14 actor (map_option cr_status previous) c) db2) (\<lambda>db3.
                  Inr ((c, Some after), db3)))))
             | _ \<Rightarrow>
                 (let c = left_credit rq draft previous NO_CLAIM in
                  andThen (store_credit rq previous c db) (\<lambda>db1.
                  andThen (appendOutbox (creditEvent rq 14 actor (map_option cr_status previous) c) db1) (\<lambda>db2.
                  Inr ((c, None), db2))))))))))))"

section \<open>Obligations\<close>

definition CREATE_PERMISSION :: string where "CREATE_PERMISSION = ''bookings.create:self''"

definition RECONCILE_PERMISSION :: string where "RECONCILE_PERMISSION = ''billing.reconcile''"

text \<open>What Pricing answers about a quote.\<close>

datatype quote_answer = QuoteDown | NoQuote | Quote string bool bmoney

definition created_obligation :: "brequest \<Rightarrow> principal \<Rightarrow> string \<Rightarrow> bmoney \<Rightarrow> bmoney \<Rightarrow> obligation" where
  "created_obligation rq owner quoteId amount zero =
     \<lparr>ob_amount = amount, ob_verified = zero, ob_status = OPEN, ob_id = bq_ids rq 0, ob_owner = owner,
      ob_quoteId = quoteId, ob_revision = 1, ob_createdAt = bq_now rq, ob_updatedAt = bq_now rq\<rparr>"

text \<open>
  The rows of a new obligation: the obligation, its \<open>OBLIGATION_BILLED\<close> journal, the booking
  link when there is one, the audit row and the created event.
\<close>

definition bill_obligation ::
  "brequest \<Rightarrow> principal \<Rightarrow> string \<Rightarrow> bmoney \<Rightarrow> (string \<times> string) option \<Rightarrow> billing_db \<Rightarrow>
   billing_error + recorded_outcome \<times> billing_db" where
  "bill_obligation rq owner quoteId amount link db =
     andThen (Money_zero (mo_currency amount)) (\<lambda>zero.
     (let ob = created_obligation rq owner quoteId amount zero in
      andThen (insertObligation ob db) (\<lambda>db1.
      andThen (post (obligationBilledJournal (ob_id ob) amount)
                 (meta_of rq 1 (Some (ob_id ob)) None None) db1) (\<lambda>db2.
      andThen (case link of
                 None \<Rightarrow> Inr db2
               | Some (bookingId, clientId) \<Rightarrow>
                   insertLink \<lparr>bl_bookingId = bookingId, bl_obligationId = ob_id ob,
                      bl_clientId = clientId, bl_createdAt = bq_now rq, bl_voidedAt = None\<rparr> db2) (\<lambda>db3.
      andThen (appendAudit_row (audit_row rq 2 (PrincipalAuditActor owner) ''billing.obligation.created''
                 (Some (ob_id ob)) None ''OPEN'') db3) (\<lambda>db4.
      andThen (some_snapshot db4 (ob_id ob) ''OBLIGATION_NOT_VISIBLE_IN_OWN_TRANSACTION'') (\<lambda>sn.
      andThen (appendOutbox (ObligationCreatedV1
                 (event_context_of rq 3 (Some owner) (ob_id ob) (ob_revision ob)) quoteId
                 (Money_toWire amount) (snapshotFinancialStatus sn)) db4) (\<lambda>db5.
      andThen (obligationView sn) (\<lambda>ov.
      Inr (\<lparr>ro_status = 201, ro_body = ObligationBody ov\<rparr>, db5))))))))))"

definition createObligation_tx ::
  "brequest \<Rightarrow> principal \<Rightarrow> string \<Rightarrow> bmoney \<Rightarrow> billing_db \<Rightarrow> billing_error + recorded_outcome \<times> billing_db" where
  "createObligation_tx rq owner quoteId amount db =
     (case obligationIdForQuote db quoteId of
        Some _ \<Rightarrow> Inl (StoreError ObligationAlreadyExists)
      | None \<Rightarrow> bill_obligation rq owner quoteId amount None db)"

text \<open>The answer of a repeated creation: the owner's obligation for the quote, or a conflict.\<close>

definition existingObligationFor :: "billing_db \<Rightarrow> string \<Rightarrow> principal \<Rightarrow> billing_error + snapshot option" where
  "existingObligationFor db quoteId owner =
     (case obligationIdForQuote db quoteId of
        None \<Rightarrow> Inr None
      | Some i \<Rightarrow>
          andThen (snapshot_of db i) (\<lambda>sn.
          Inr (case sn of
                 Some s \<Rightarrow> if ob_owner (sn_obligation s) = owner then Some s else None
               | None \<Rightarrow> None)))"

definition createObligation ::
  "(json \<Rightarrow> string) \<Rightarrow> brequest \<Rightarrow> json option \<Rightarrow> json \<Rightarrow> (string \<Rightarrow> quote_answer) \<Rightarrow> billing_db \<Rightarrow> answer_db" where
  "createObligation sha rq keyIn body quotes db =
     checked (permitted rq CREATE_PERMISSION) db (\<lambda>p.
     checked (idempotency_key keyIn) db (\<lambda>key.
     checked (objectWithKeys body [''quoteId'']) db (\<lambda>input.
     checked (uuid_field (field input ''quoteId'')) db (\<lambda>quoteId.
     (let owner = refOf p;
          cmd = make_command sha owner ''billing.obligation.create.v1'' key [(''quoteId'', JString quoteId)] in
      unless_committed rq cmd db
        (case quotes quoteId of
           QuoteDown \<Rightarrow> (app_error ''UPSTREAM_UNAVAILABLE'', db)
         | NoQuote \<Rightarrow> (app_error ''NOT_FOUND'', db)
         | Quote q usable amount \<Rightarrow>
             if q \<noteq> quoteId then (app_error ''NOT_FOUND'', db)
             else if \<not> usable then (app_error ''QUOTE_NOT_USABLE'', db)
             else if Money_isZero amount then (app_error ''AMOUNT_INVALID'', db)
             else
               (case execute rq cmd (createObligation_tx rq owner quoteId amount) db of
                  (Inl (StoreError ObligationAlreadyExists), db') \<Rightarrow>
                    (case committed_receipt (bq_later rq) cmd of
                       Some r \<Rightarrow> (replay r cmd, db')
                     | None \<Rightarrow>
                         checked (existingObligationFor (bq_later rq) quoteId owner) db' (\<lambda>existing.
                         (case existing of
                            None \<Rightarrow> (app_error ''OBLIGATION_ALREADY_EXISTS'', db')
                          | Some sn \<Rightarrow>
                              checked (obligationView sn) db' (\<lambda>ov.
                              (Inr \<lparr>cm_outcome = \<lparr>ro_status = 200, ro_body = ObligationBody ov\<rparr>,
                                    cm_replayed = False\<rparr>, db')))))
                | r \<Rightarrow> r)))))))"

section \<open>Intents and attempts\<close>

text \<open>\<^verbatim>\<open>locked\<close>: the obligation under the caller's access check and expected revision.\<close>

definition locked ::
  "billing_db \<Rightarrow> string \<Rightarrow> nat \<Rightarrow> (obligation \<Rightarrow> bool) \<Rightarrow> billing_error + snapshot" where
  "locked db obligationId expectedRevision allowed =
     (case lockObligation db obligationId of
        None \<Rightarrow> app_error ''NOT_FOUND''
      | Some ob \<Rightarrow>
          if \<not> allowed ob then app_error ''NOT_FOUND''
          else if ob_revision ob \<noteq> expectedRevision then app_error ''REVISION_CONFLICT''
          else some_snapshot db obligationId ''LOCKED_OBLIGATION_WITHOUT_SNAPSHOT'')"

definition finish_command ::
  "brequest \<Rightarrow> principal \<Rightarrow> snapshot \<Rightarrow> string \<Rightarrow> string \<Rightarrow> string option \<Rightarrow> nat \<Rightarrow> billing_db \<Rightarrow>
   billing_error + recorded_outcome \<times> billing_db" where
  "finish_command rq actor before action outcome attemptId status db =
     (let i = ob_id (sn_obligation before) in
      andThen (some_snapshot db i ''OBLIGATION_DISAPPEARED'') (\<lambda>after.
      andThen (appendAudit_row (audit_row rq 1 (PrincipalAuditActor actor) action (Some i) attemptId outcome) db) (\<lambda>db1.
      andThen (obligationChanged rq 2 (Some actor) before after db1) (\<lambda>db2.
      andThen (obligationView after) (\<lambda>ov.
      Inr (\<lparr>ro_status = status, ro_body = ObligationBody ov\<rparr>, db2))))))"

definition is_owner :: "principal \<Rightarrow> obligation \<Rightarrow> bool" where
  "is_owner p ob \<longleftrightarrow> ob_owner ob = p"

fun method_name :: "pay_method \<Rightarrow> string" where
  "method_name CASH_ON_COMPLETION = ''CASH_ON_COMPLETION''"
| "method_name SHAM_CASH = ''SHAM_CASH''"
| "method_name SYRIATEL_CASH = ''SYRIATEL_CASH''"

definition initializePayment_tx ::
  "brequest \<Rightarrow> principal \<Rightarrow> string \<Rightarrow> nat \<Rightarrow> pay_method \<Rightarrow> billing_db \<Rightarrow>
   billing_error + recorded_outcome \<times> billing_db" where
  "initializePayment_tx rq owner i expectedRevision pm db =
     andThen (locked db i expectedRevision (is_owner owner)) (\<lambda>before.
     (let ob = sn_obligation before; now = bq_now rq in
      andThen (decide_rule (planMethodSelection ob (sn_activeIntent before) pm)) (\<lambda>plan.
      andThen (case sn_activeIntent before of
                 Some it \<Rightarrow>
                   if sp_supersedeCurrent plan then setIntentStatus (it_id it) (it_status it) SUPERSEDED now db
                   else Inr db
               | None \<Rightarrow> Inr db) (\<lambda>db1.
      andThen (insertIntent \<lparr>it_method = pm, it_status = sp_status plan, it_id = bq_ids rq 0,
                 it_obligationId = i, it_amount = sp_amount plan, it_createdAt = now,
                 it_updatedAt = now\<rparr> db1) (\<lambda>db2.
      andThen (updateObligation i expectedRevision (ob_verified ob) (ob_status ob) now db2) (\<lambda>db3.
      finish_command rq owner before ''billing.intent.initialized'' (method_name pm) None 201 db3))))))"

definition initializePayment ::
  "(json \<Rightarrow> string) \<Rightarrow> brequest \<Rightarrow> string \<Rightarrow> json option \<Rightarrow> json \<Rightarrow> billing_db \<Rightarrow> answer_db" where
  "initializePayment sha rq obligationId keyIn body db =
     checked (permitted rq CREATE_PERMISSION) db (\<lambda>p.
     checked (target_id obligationId) db (\<lambda>i.
     checked (idempotency_key keyIn) db (\<lambda>key.
     checked (objectWithKeys body [''expectedRevision'', ''method'']) db (\<lambda>input.
     checked (revision_field (field input ''expectedRevision'')) db (\<lambda>expectedRevision.
     checked (oneOf (field input ''method'') PAYMENT_METHODS) db (\<lambda>pm.
     (let cmd = make_command sha (refOf p) ''billing.intent.initialize.v1'' key
                  [(''obligationId'', JString i), (''expectedRevision'', JNumber (JsInt (int expectedRevision))),
                   (''method'', JString (method_name pm))] in
      execute rq cmd (initializePayment_tx rq (refOf p) i expectedRevision pm) db)))))))"

definition submitAttempt_tx ::
  "brequest \<Rightarrow> principal \<Rightarrow> string \<Rightarrow> nat \<Rightarrow> string \<Rightarrow> billing_db \<Rightarrow>
   billing_error + recorded_outcome \<times> billing_db" where
  "submitAttempt_tx rq owner i expectedRevision reference db =
     andThen (locked db i expectedRevision (is_owner owner)) (\<lambda>before.
     (let ob = sn_obligation before; now = bq_now rq in
      andThen (decide_rule (planAttemptSubmission ob (sn_activeIntent before) (countAttempts db i))) (\<lambda>_.
      (case sn_activeIntent before of
         None \<Rightarrow> Inl (Fault ''PLAN_ACCEPTED_WITHOUT_INTENT'')
       | Some it \<Rightarrow>
           if it_method it \<notin> snd ` set PROVIDERS then Inl (Fault ''ELECTRONIC_INTENT_WITHOUT_PROVIDER'')
           else
             andThen (insertAttempt
                \<lparr>at_id = bq_ids rq 0, at_intentId = it_id it, at_status = PENDING_REVIEW,
                 at_claimed = it_amount it, at_obligationId = i, at_method = it_method it,
                 at_providerReference = reference, at_submittedAt = now, at_reconciledAt = None,
                 at_reconciledBy = None, at_observed = None, at_creditId = None\<rparr> db) (\<lambda>db1.
             andThen (setIntentStatus (it_id it) (it_status it) UNDER_REVIEW now db1) (\<lambda>db2.
             andThen (updateObligation i expectedRevision (ob_verified ob) (ob_status ob) now db2) (\<lambda>db3.
             (let credit = (case unallocatedCreditFor db3 (it_method it) reference of
                              None \<Rightarrow> None | Some waiting \<Rightarrow> lockCredit db3 (cr_id waiting)) in
              bindS (case credit of
                       None \<Rightarrow> Inr ((), db3)
                     | Some c \<Rightarrow>
                         if cr_status c = UNALLOCATED
                         then bindS (confirm rq None c (Some c) db3) (\<lambda>_ db4. Inr ((), db4))
                         else Inr ((), db3)) (\<lambda>_ db4.
              finish_command rq owner before ''billing.attempt.submitted'' ''PENDING_REVIEW''
                (Some (bq_ids rq 0)) 202 db4)))))))))"

definition submitAttempt ::
  "(json \<Rightarrow> string) \<Rightarrow> brequest \<Rightarrow> string \<Rightarrow> json option \<Rightarrow> json \<Rightarrow> billing_db \<Rightarrow> answer_db" where
  "submitAttempt sha rq obligationId keyIn body db =
     checked (permitted rq CREATE_PERMISSION) db (\<lambda>p.
     checked (target_id obligationId) db (\<lambda>i.
     checked (idempotency_key keyIn) db (\<lambda>key.
     checked (objectWithKeys body [''expectedRevision'', ''providerReference'']) db (\<lambda>input.
     checked (revision_field (field input ''expectedRevision'')) db (\<lambda>expectedRevision.
     (case normalizeProviderReference (field input ''providerReference'') of
        None \<Rightarrow> (app_error ''REQUEST_INVALID'', db)
      | Some reference \<Rightarrow>
          (let cmd = make_command sha (refOf p) ''billing.attempt.submit.v1'' key
                       [(''obligationId'', JString i),
                        (''expectedRevision'', JNumber (JsInt (int expectedRevision))),
                        (''providerReference'', JString reference)] in
           translating ProviderReferenceTaken ''PROVIDER_REFERENCE_TAKEN''
             (execute rq cmd (submitAttempt_tx rq (refOf p) i expectedRevision reference) db))))))))"

fun attempt_status_name :: "attempt_status \<Rightarrow> string" where
  "attempt_status_name PENDING_REVIEW = ''PENDING_REVIEW''"
| "attempt_status_name MATCHED = ''MATCHED''"
| "attempt_status_name MISMATCHED = ''MISMATCHED''"
| "attempt_status_name UNKNOWN = ''UNKNOWN''"

definition reconcileAttempt_tx ::
  "brequest \<Rightarrow> principal \<Rightarrow> string \<Rightarrow> string \<Rightarrow> nat \<Rightarrow> reconciliation_outcome \<Rightarrow> bmoney option \<Rightarrow>
   billing_db \<Rightarrow> billing_error + recorded_outcome \<times> billing_db" where
  "reconcileAttempt_tx rq who obligationId attemptId expectedRevision decision observed db =
     andThen (locked db obligationId expectedRevision (\<lambda>_. True)) (\<lambda>before.
     (let ob = sn_obligation before; now = bq_now rq in
      if ob_owner ob = who then app_error ''AUTH_FORBIDDEN''
      else (case find (\<lambda>a. at_id a = attemptId) (sn_attempts before) of
              None \<Rightarrow> app_error ''NOT_FOUND''
            | Some a \<Rightarrow>
                if (case observed of None \<Rightarrow> False
                    | Some m \<Rightarrow> mo_currency m \<noteq> mo_currency (ob_amount ob)) then
                  app_error ''CURRENCY_UNSUPPORTED''
                else
                  andThen (decide_rule (planReconciliation ob (at_status a) decision observed)) (\<lambda>plan.
                  (case sn_activeIntent before of
                     None \<Rightarrow> Inl (Fault ''OPEN_ATTEMPT_WITHOUT_INTENT'')
                   | Some it \<Rightarrow>
                       if it_id it \<noteq> at_intentId a then Inl (Fault ''OPEN_ATTEMPT_WITHOUT_INTENT'')
                       else
                         andThen (reconcileAttempt_row (at_id a) (at_status a) (rp_attemptStatus plan) now
                                    (Some who) (if decision = To_UNKNOWN then None else observed) None db) (\<lambda>db1.
                         andThen (if rp_intentStatus plan \<noteq> it_status it
                                  then setIntentStatus (it_id it) (it_status it) (rp_intentStatus plan) now db1
                                  else Inr db1) (\<lambda>db2.
                         andThen (updateObligation obligationId expectedRevision (ob_verified ob)
                                    (rp_obligationStatus plan) now db2) (\<lambda>db3.
                         finish_command rq who before ''billing.attempt.reconciled''
                           (attempt_status_name (rp_attemptStatus plan)) (Some (at_id a)) 200 db3))))))))"

fun reconciliation_name :: "reconciliation_outcome \<Rightarrow> string" where
  "reconciliation_name To_MATCHED = ''MATCHED''"
| "reconciliation_name To_MISMATCHED = ''MISMATCHED''"
| "reconciliation_name To_UNKNOWN = ''UNKNOWN''"

text \<open>\<open>observedAmount\<close> must be present; \<^verbatim>\<open>null\<close> means that none was observed.\<close>

definition observed_input :: "json option \<Rightarrow> billing_error + bmoney option" where
  "observed_input v =
     (if v = Some JNull then Inr None else andThen (moneyInput v) (\<lambda>m. Inr (Some m)))"

definition reconcileAttempt ::
  "(json \<Rightarrow> string) \<Rightarrow> brequest \<Rightarrow> string \<Rightarrow> json option \<Rightarrow> json \<Rightarrow> billing_db \<Rightarrow> answer_db" where
  "reconcileAttempt sha rq attemptId keyIn body db =
     checked (permitted rq RECONCILE_PERMISSION) db (\<lambda>p.
     checked (target_id attemptId) db (\<lambda>i.
     checked (idempotency_key keyIn) db (\<lambda>key.
     checked (objectWithKeys body [''expectedRevision'', ''outcome'', ''observedAmount'']) db (\<lambda>input.
     checked (revision_field (field input ''expectedRevision'')) db (\<lambda>expectedRevision.
     checked (oneOf (field input ''outcome'') RECONCILIATION_OUTCOMES) db (\<lambda>decision.
     checked (observed_input (field input ''observedAmount'')) db (\<lambda>observed.
     (let cmd = make_command sha (refOf p) ''billing.attempt.reconcile.v1'' key
                  [(''attemptId'', JString i), (''expectedRevision'', JNumber (JsInt (int expectedRevision))),
                   (''outcome'', JString (reconciliation_name decision)),
                   (''observedAmount'', case observed of None \<Rightarrow> JNull | Some m \<Rightarrow> wire_json (Money_toWire m))] in
      case obligationIdForAttempt (bq_seen rq) i of
        None \<Rightarrow> (app_error ''NOT_FOUND'', db)
      | Some obligationId \<Rightarrow>
          execute rq cmd (reconcileAttempt_tx rq (refOf p) obligationId i expectedRevision decision observed) db))))))))"

section \<open>Voiding\<close>

text \<open>
  The rows both void commands write before they part: the intent is cancelled, the billing
  journal reversed, the obligation void.
\<close>

definition void_rows :: "brequest \<Rightarrow> string \<Rightarrow> nat \<Rightarrow> snapshot \<Rightarrow> billing_db \<Rightarrow> billing_error + billing_db" where
  "void_rows rq i expectedRevision before db =
     (let ob = sn_obligation before; now = bq_now rq in
      andThen (case sn_activeIntent before of
                 None \<Rightarrow> Inr db
               | Some it \<Rightarrow> setIntentStatus (it_id it) (it_status it) CANCELLED now db) (\<lambda>db1.
      andThen (post (obligationVoidedJournal i (ob_amount ob)) (meta_of rq 0 (Some i) None None) db1) (\<lambda>db2.
      updateObligation i expectedRevision (ob_verified ob) VOIDED now db2)))"

definition voidObligation_tx ::
  "brequest \<Rightarrow> principal \<Rightarrow> string \<Rightarrow> nat \<Rightarrow> billing_db \<Rightarrow> billing_error + recorded_outcome \<times> billing_db" where
  "voidObligation_tx rq owner i expectedRevision db =
     andThen (locked db i expectedRevision (is_owner owner)) (\<lambda>before.
     if linkForObligation db i \<noteq> None then app_error ''VOID_NOT_ALLOWED''
     else
       andThen (decide_rule (planVoid (sn_obligation before) (countAttempts db i))) (\<lambda>_.
       andThen (void_rows rq i expectedRevision before db) (\<lambda>db1.
       finish_command rq owner before ''billing.obligation.voided'' ''VOIDED'' None 200 db1)))"

definition voidObligation ::
  "(json \<Rightarrow> string) \<Rightarrow> brequest \<Rightarrow> string \<Rightarrow> json option \<Rightarrow> json \<Rightarrow> billing_db \<Rightarrow> answer_db" where
  "voidObligation sha rq obligationId keyIn body db =
     checked (permitted rq CREATE_PERMISSION) db (\<lambda>p.
     checked (target_id obligationId) db (\<lambda>i.
     checked (idempotency_key keyIn) db (\<lambda>key.
     checked (objectWithKeys body [''expectedRevision'']) db (\<lambda>input.
     checked (revision_field (field input ''expectedRevision'')) db (\<lambda>expectedRevision.
     (let cmd = make_command sha (refOf p) ''billing.obligation.void.v1'' key
                  [(''obligationId'', JString i), (''expectedRevision'', JNumber (JsInt (int expectedRevision)))] in
      execute rq cmd (voidObligation_tx rq (refOf p) i expectedRevision) db))))))"

section \<open>The booking saga's commands\<close>

text \<open>\<open>bearer\<close>: a bearer credential was sent too; \<open>decision\<close>: the service caller authority's answer.\<close>

datatype service_decision = ServiceOk string | ScopeDenied | CredentialDenied

definition authorizeWorkload :: "bool \<Rightarrow> service_decision \<Rightarrow> billing_error + string" where
  "authorizeWorkload bearer decision =
     (if bearer then app_error ''AUTH_REQUIRED''
      else (case decision of
              ServiceOk clientId \<Rightarrow> Inr clientId
            | ScopeDenied \<Rightarrow> app_error ''AUTH_FORBIDDEN''
            | CredentialDenied \<Rightarrow> app_error ''AUTH_REQUIRED''))"

definition PRINCIPAL_KINDS :: "(string \<times> owner_kind) list" where
  "PRINCIPAL_KINDS = [(''account'', Account), (''guest'', Guest)]"

definition beneficiaryOf :: "json option \<Rightarrow> billing_error + principal" where
  "beneficiaryOf v =
     andThen (case v of None \<Rightarrow> app_error ''REQUEST_INVALID''
              | Some j \<Rightarrow> objectWithKeys j [''kind'', ''subjectId'']) (\<lambda>input.
     andThen (oneOf (field input ''kind'') PRINCIPAL_KINDS) (\<lambda>kind.
     andThen (uuid_field (field input ''subjectId'')) (\<lambda>subjectId.
     Inr \<lparr>pr_kind = kind, pr_subject = subjectId\<rparr>)))"

definition existingFor ::
  "billing_db \<Rightarrow> string \<Rightarrow> string \<Rightarrow> principal \<Rightarrow> string \<Rightarrow> billing_error + snapshot option" where
  "existingFor db bookingId clientId beneficiary quoteId =
     (case linkForBooking db bookingId of
        None \<Rightarrow> Inr None
      | Some l \<Rightarrow>
          andThen (some_snapshot db (bl_obligationId l) ''LINKED_OBLIGATION_MISSING'') (\<lambda>sn.
          if bl_clientId l = clientId \<and> ob_quoteId (sn_obligation sn) = quoteId \<and>
             ob_owner (sn_obligation sn) = beneficiary
          then Inr (Some sn) else app_error ''OBLIGATION_ALREADY_EXISTS''))"

datatype quote_validation_answer = ValidatorDown | NotValid | Valid bmoney

definition createForBooking_tx ::
  "brequest \<Rightarrow> string \<Rightarrow> principal \<Rightarrow> string \<Rightarrow> string \<Rightarrow> bmoney \<Rightarrow> billing_db \<Rightarrow>
   billing_error + recorded_outcome \<times> billing_db" where
  "createForBooking_tx rq clientId beneficiary quoteId bookingId amount db =
     (if linkForBooking db bookingId \<noteq> None then Inl (StoreError BookingAlreadyLinked)
      else if obligationIdForQuote db quoteId \<noteq> None then Inl (StoreError ObligationAlreadyExists)
      else bill_obligation rq beneficiary quoteId amount (Some (bookingId, clientId)) db)"

text \<open>The answer with an obligation that already exists.\<close>

definition answer_existing :: "snapshot \<Rightarrow> billing_db \<Rightarrow> answer_db" where
  "answer_existing sn db =
     checked (obligationView sn) db (\<lambda>ov.
     (Inr \<lparr>cm_outcome = \<lparr>ro_status = 200, ro_body = ObligationBody ov\<rparr>, cm_replayed = False\<rparr>, db))"

definition createForBooking ::
  "(json \<Rightarrow> string) \<Rightarrow> brequest \<Rightarrow> bool \<Rightarrow> service_decision \<Rightarrow> json option \<Rightarrow> json \<Rightarrow>
   (string \<Rightarrow> principal \<Rightarrow> quote_validation_answer) \<Rightarrow> billing_db \<Rightarrow> answer_db" where
  "createForBooking sha rq bearer decision keyIn body validate db =
     checked (authorizeWorkload bearer decision) db (\<lambda>clientId.
     checked (idempotency_key keyIn) db (\<lambda>key.
     checked (objectWithKeys body [''beneficiary'', ''quoteId'', ''bookingId'']) db (\<lambda>input.
     checked (beneficiaryOf (field input ''beneficiary'')) db (\<lambda>beneficiary.
     checked (uuid_field (field input ''quoteId'')) db (\<lambda>quoteId.
     checked (uuid_field (field input ''bookingId'')) db (\<lambda>bookingId.
     (let cmd = make_command sha beneficiary ''billing.booking-obligation.create.v1'' key
                  [(''clientId'', JString clientId),
                   (''beneficiary'', JObject [(''kind'', JString (owner_kind_name (pr_kind beneficiary))),
                                              (''subjectId'', JString (pr_subject beneficiary))]),
                   (''quoteId'', JString quoteId), (''bookingId'', JString bookingId)] in
      unless_committed rq cmd db
        (checked (existingFor (bq_seen rq) bookingId clientId beneficiary quoteId) db (\<lambda>existing.
        (case existing of
           Some sn \<Rightarrow> answer_existing sn db
         | None \<Rightarrow>
             if obligationIdForQuote (bq_seen rq) quoteId \<noteq> None then
               (app_error ''OBLIGATION_ALREADY_EXISTS'', db)
             else
               (case validate quoteId beneficiary of
                  ValidatorDown \<Rightarrow> (app_error ''UPSTREAM_UNAVAILABLE'', db)
                | NotValid \<Rightarrow> (app_error ''QUOTE_NOT_USABLE'', db)
                | Valid amount \<Rightarrow>
                    if Money_isZero amount then (app_error ''AMOUNT_INVALID'', db)
                    else
                      (case execute rq cmd
                              (createForBooking_tx rq clientId beneficiary quoteId bookingId amount) db of
                         (Inl (StoreError s), db') \<Rightarrow>
                           if s \<noteq> BookingAlreadyLinked \<and> s \<noteq> ObligationAlreadyExists then
                             (Inl (StoreError s), db')
                           else
                             checked (existingFor (bq_later rq) bookingId clientId beneficiary quoteId) db' (\<lambda>w.
                             (case w of
                                None \<Rightarrow> (app_error ''OBLIGATION_ALREADY_EXISTS'', db')
                              | Some sn \<Rightarrow> answer_existing sn db'))
                       | r \<Rightarrow> r))))))))))))"

definition voidForBooking_tx ::
  "brequest \<Rightarrow> principal \<Rightarrow> string \<Rightarrow> nat \<Rightarrow> billing_db \<Rightarrow> billing_error + recorded_outcome \<times> billing_db" where
  "voidForBooking_tx rq beneficiary i expectedRevision db =
     andThen (locked db i expectedRevision (\<lambda>_. True)) (\<lambda>before.
     andThen (decide_rule (planVoid (sn_obligation before) (countAttempts db i))) (\<lambda>_.
     andThen (void_rows rq i expectedRevision before db) (\<lambda>db1.
     andThen (markVoided i (bq_now rq) db1) (\<lambda>db2.
     finish_command rq beneficiary before ''billing.obligation.voided'' ''VOIDED'' None 200 db2))))"

definition voidForBooking ::
  "(json \<Rightarrow> string) \<Rightarrow> brequest \<Rightarrow> bool \<Rightarrow> service_decision \<Rightarrow> string \<Rightarrow> json option \<Rightarrow> json \<Rightarrow>
   billing_db \<Rightarrow> answer_db" where
  "voidForBooking sha rq bearer decision obligationId keyIn body db =
     checked (authorizeWorkload bearer decision) db (\<lambda>clientId.
     checked (target_id obligationId) db (\<lambda>i.
     checked (idempotency_key keyIn) db (\<lambda>key.
     checked (objectWithKeys body [''expectedRevision'']) db (\<lambda>input.
     checked (revision_field (field input ''expectedRevision'')) db (\<lambda>expectedRevision.
     (case linkForObligation (bq_seen rq) i of
        None \<Rightarrow> (app_error ''NOT_FOUND'', db)
      | Some l \<Rightarrow>
          if bl_clientId l \<noteq> clientId then (app_error ''NOT_FOUND'', db)
          else
            checked (some_snapshot (bq_seen rq) i ''LINKED_OBLIGATION_MISSING'') db (\<lambda>current.
            (let beneficiary = ob_owner (sn_obligation current);
                 cmd = make_command sha beneficiary ''billing.booking-obligation.void.v1'' key
                         [(''clientId'', JString clientId), (''obligationId'', JString i),
                          (''expectedRevision'', JNumber (JsInt (int expectedRevision)))] in
             execute rq cmd (voidForBooking_tx rq beneficiary i expectedRevision) db))))))))"

end
