(* ===== verification/Billing_Providers.thy ===== *)
theory Billing_Providers
  imports Billing_Commands
begin

text \<open>
  Billing, provider credits and refunds: \<^verbatim>\<open>application/provider-payments.service.ts\<close> and
  \<^verbatim>\<open>refund.service.ts\<close>. The provider adapters are not part of the commands: what a command
  asks of one is a record \<open>adapter\<close>, and what a provider answered during the command is an
  argument.
\<close>

section \<open>Adapters\<close>

record adapter =
  ad_notifications :: bool
  ad_creditQuery :: bool
  ad_refunds :: refund_channel
  ad_statementEvidence :: bool
  ad_acceptsMerchantAccount :: "string \<Rightarrow> bool"

type_synonym registry = "pay_method \<Rightarrow> adapter"

record credit_fact =
  cf_merchantAccount :: string
  cf_reference :: string
  cf_amount :: bmoney
  cf_occurredAt :: instant

definition sameFacts :: "credit \<Rightarrow> credit_fact \<Rightarrow> bool" where
  "sameFacts stored f \<longleftrightarrow>
     Money_equals (cr_amount stored) (cf_amount f) \<and> cr_occurredAt stored = cf_occurredAt f \<and>
     cr_merchantAccount stored = cf_merchantAccount f"

definition draft_credit ::
  "brequest \<Rightarrow> pay_method \<Rightarrow> credit_fact \<Rightarrow> string \<Rightarrow> credit_source \<Rightarrow> string option \<Rightarrow> credit" where
  "draft_credit rq provider f evidenceDigest source recordedBy =
     \<lparr>cr_provider = provider, cr_amount = cf_amount f, cr_status = UNALLOCATED, cr_recordedBy = recordedBy,
      cr_id = bq_ids rq 0, cr_merchantAccount = cf_merchantAccount f, cr_reference = cf_reference f,
      cr_occurredAt = cf_occurredAt f, cr_source = source, cr_evidenceDigest = evidenceDigest,
      cr_unallocatedReason = None, cr_attemptId = None, cr_obligationId = None, cr_decidedBy = None,
      cr_decidedAt = None, cr_rejectionReason = None, cr_revision = 1, cr_createdAt = bq_now rq,
      cr_updatedAt = bq_now rq\<rparr>"

fun credit_status_name :: "credit_status \<Rightarrow> string" where
  "credit_status_name PENDING_APPROVAL = ''PENDING_APPROVAL''"
| "credit_status_name CR_REJECTED = ''REJECTED''"
| "credit_status_name UNALLOCATED = ''UNALLOCATED''"
| "credit_status_name ALLOCATED = ''ALLOCATED''"

definition credit_audit ::
  "brequest \<Rightarrow> nat \<Rightarrow> audit_actor \<Rightarrow> string \<Rightarrow> credit \<Rightarrow> billing_db \<Rightarrow> billing_error + billing_db" where
  "credit_audit rq n actor action c db =
     appendAudit_row ((audit_row rq n actor action (cr_obligationId c) (cr_attemptId c)
       (credit_status_name (cr_status c)))\<lparr>au_creditId := Some (cr_id c)\<rparr>) db"

section \<open>Statement credits\<close>

text \<open>\<^verbatim>\<open>ISO_INSTANT = /^\d{4}-\d{2}-\d{2}T\d{2}:\d{2}:\d{2}(\.\d{1,3})?Z$/\<close>.\<close>

definition ISO_INSTANT :: "string \<Rightarrow> bool" where
  "ISO_INSTANT s \<longleftrightarrow>
     (let d = is_digit; is = (\<lambda>k c. c = k);
          base = replicate 4 d @ [is CHR ''-''] @ replicate 2 d @ [is CHR ''-''] @ replicate 2 d @
                 [is CHR ''T''] @ replicate 2 d @ [is CHR '':''] @ replicate 2 d @ [is CHR '':''] @ replicate 2 d in
      list_ex (\<lambda>ps. list_all2 (\<lambda>p c. p c) ps s)
        ((base @ [is CHR ''Z'']) #
         map (\<lambda>n. base @ [is CHR ''.''] @ replicate n d @ [is CHR ''Z'']) [1, 2, 3]))"

text \<open>\<open>parse_date\<close> is \<^verbatim>\<open>new Date(text).getTime()\<close>, \<open>None\<close> for an invalid date.\<close>

definition instant_field :: "(string \<Rightarrow> instant option) \<Rightarrow> json option \<Rightarrow> billing_error + instant" where
  "instant_field parse_date v =
     (case v of
        Some (JString s) \<Rightarrow>
          if \<not> ISO_INSTANT s then app_error ''REQUEST_INVALID''
          else (case parse_date s of None \<Rightarrow> app_error ''REQUEST_INVALID'' | Some t \<Rightarrow> Inr t)
      | _ \<Rightarrow> app_error ''REQUEST_INVALID'')"

definition pattern_field :: "(string \<Rightarrow> bool) \<Rightarrow> json option \<Rightarrow> billing_error + string" where
  "pattern_field expression v =
     (case v of
        Some (JString s) \<Rightarrow> if expression s then Inr s else app_error ''REQUEST_INVALID''
      | _ \<Rightarrow> app_error ''REQUEST_INVALID'')"

definition recordStatementCredit_tx ::
  "brequest \<Rightarrow> principal \<Rightarrow> pay_method \<Rightarrow> credit_fact \<Rightarrow> string \<Rightarrow> billing_db \<Rightarrow>
   billing_error + recorded_outcome \<times> billing_db" where
  "recordStatementCredit_tx rq who provider f evidenceDigest db =
     andThen (decide_rule (assertOccurredBefore (cf_occurredAt f) (bq_now rq))) (\<lambda>_.
     if effectiveCredit db provider (cf_merchantAccount f) (cf_reference f) \<noteq> None then
       app_error ''PROVIDER_CREDIT_ALREADY_RECORDED''
     else
       (let c = (draft_credit rq provider f evidenceDigest MERCHANT_STATEMENT (Some (pr_subject who)))
                  \<lparr>cr_status := PENDING_APPROVAL\<rparr> in
        andThen (insertCredit c db) (\<lambda>db1.
        andThen (credit_audit rq 1 (PrincipalAuditActor who) ''billing.credit.recorded'' c db1) (\<lambda>db2.
        andThen (appendOutbox (creditEvent rq 2 (Some who) None c) db2) (\<lambda>db3.
        Inr (\<lparr>ro_status = 201, ro_body = CreditBody c\<rparr>, db3))))))"

definition recordStatementCredit ::
  "(json \<Rightarrow> string) \<Rightarrow> (string \<Rightarrow> instant option) \<Rightarrow> registry \<Rightarrow> brequest \<Rightarrow> json option \<Rightarrow> json \<Rightarrow>
   billing_db \<Rightarrow> answer_db" where
  "recordStatementCredit sha parse_date adapters rq keyIn body db =
     checked (andThen (permitted rq RECONCILE_PERMISSION) accountOnly) db (\<lambda>p.
     checked (idempotency_key keyIn) db (\<lambda>key.
     checked (objectWithKeys body [''provider'', ''merchantAccount'', ''providerReference'', ''amount'',
                ''occurredAt'', ''evidenceDigest'']) db (\<lambda>input.
     checked (oneOf (field input ''provider'') PROVIDERS) db (\<lambda>provider.
     checked (pattern_field MERCHANT_ACCOUNT (field input ''merchantAccount'')) db (\<lambda>merchantAccount.
     (case normalizeProviderReference (field input ''providerReference'') of
        None \<Rightarrow> (app_error ''REQUEST_INVALID'', db)
      | Some reference \<Rightarrow>
          checked (moneyInput (field input ''amount'')) db (\<lambda>amount.
          checked (instant_field parse_date (field input ''occurredAt'')) db (\<lambda>occurredAt.
          checked (pattern_field EVIDENCE_DIGEST (field input ''evidenceDigest'')) db (\<lambda>evidenceDigest.
          if \<not> ad_statementEvidence (adapters provider) then
            (app_error ''PROVIDER_CAPABILITY_MISSING'', db)
          else if \<not> ad_acceptsMerchantAccount (adapters provider) merchantAccount then
            (app_error ''MERCHANT_ACCOUNT_UNKNOWN'', db)
          else
            (let f = \<lparr>cf_merchantAccount = merchantAccount, cf_reference = reference,
                      cf_amount = amount, cf_occurredAt = occurredAt\<rparr>;
                 cmd = make_command sha (refOf p) ''billing.credit.statement.record.v1'' key
                         [(''provider'', JString (method_name provider)),
                          (''merchantAccount'', JString merchantAccount),
                          (''providerReference'', JString reference),
                          (''amount'', wire_json (Money_toWire amount)),
                          (''occurredAt'', JNumber (JsInt occurredAt)),
                          (''evidenceDigest'', JString evidenceDigest)] in
             translating ProviderCreditTaken ''PROVIDER_CREDIT_ALREADY_RECORDED''
               (execute rq cmd (recordStatementCredit_tx rq (refOf p) provider f evidenceDigest) db)))))))))))"

datatype decision = APPROVE | REJECT

definition DECISIONS :: "(string \<times> decision) list" where
  "DECISIONS = [(''APPROVE'', APPROVE), (''REJECT'', REJECT)]"

fun decision_name :: "decision \<Rightarrow> string" where
  "decision_name APPROVE = ''APPROVE''"
| "decision_name REJECT = ''REJECT''"

definition decideStatementCredit_tx ::
  "brequest \<Rightarrow> principal \<Rightarrow> string \<Rightarrow> nat \<Rightarrow> decision \<Rightarrow> statement_rejection option \<Rightarrow> billing_db \<Rightarrow>
   billing_error + recorded_outcome \<times> billing_db" where
  "decideStatementCredit_tx rq who i expectedRevision d reason db =
     (case lockCredit db i of
        None \<Rightarrow> app_error ''NOT_FOUND''
      | Some c \<Rightarrow>
          if cr_revision c \<noteq> expectedRevision then app_error ''REVISION_CONFLICT''
          else
            andThen (decide_rule (planStatementDecision c (pr_subject who))) (\<lambda>_.
            (case d of
               REJECT \<Rightarrow>
                 (let c' = c\<lparr>cr_status := CR_REJECTED, cr_decidedBy := Some (pr_subject who),
                             cr_decidedAt := Some (bq_now rq), cr_rejectionReason := reason,
                             cr_revision := cr_revision c + 1, cr_updatedAt := bq_now rq\<rparr> in
                  andThen (updateCredit i (cr_revision c) c' db) (\<lambda>db1.
                  andThen (credit_audit rq 1 (PrincipalAuditActor who) ''billing.credit.rejected'' c' db1) (\<lambda>db2.
                  andThen (appendOutbox (ProviderCreditChangedV1
                             (event_context_of rq 2 (Some who) i (cr_revision c')) (cr_provider c')
                             (cr_source c') (Some (cr_status c)) (cr_status c') None
                             (Money_toWire (cr_amount c')) None) db2) (\<lambda>db3.
                  Inr (\<lparr>ro_status = 200, ro_body = CreditBody c'\<rparr>, db3)))))
             | APPROVE \<Rightarrow>
                 bindS (confirm rq (Some who)
                          (c\<lparr>cr_decidedBy := Some (pr_subject who), cr_decidedAt := Some (bq_now rq)\<rparr>)
                          (Some c) db) (\<lambda>(c', _) db1.
                 andThen (credit_audit rq 1 (PrincipalAuditActor who) ''billing.credit.approved'' c' db1) (\<lambda>db2.
                 Inr (\<lparr>ro_status = 200, ro_body = CreditBody c'\<rparr>, db2))))))"

definition rejection_input :: "decision \<Rightarrow> json option \<Rightarrow> billing_error + statement_rejection option" where
  "rejection_input d v =
     (case d of
        REJECT \<Rightarrow> andThen (oneOf v STATEMENT_REJECTION_REASONS) (\<lambda>r. Inr (Some r))
      | APPROVE \<Rightarrow> if v \<noteq> Some JNull then app_error ''REQUEST_INVALID'' else Inr None)"

fun rejection_name :: "statement_rejection \<Rightarrow> string" where
  "rejection_name NOT_ON_STATEMENT = ''NOT_ON_STATEMENT''"
| "rejection_name DETAILS_DIFFER = ''DETAILS_DIFFER''"
| "rejection_name WRONG_MERCHANT_ACCOUNT = ''WRONG_MERCHANT_ACCOUNT''"
| "rejection_name DUPLICATE_ENTRY = ''DUPLICATE_ENTRY''"

definition decideStatementCredit ::
  "(json \<Rightarrow> string) \<Rightarrow> brequest \<Rightarrow> string \<Rightarrow> json option \<Rightarrow> json \<Rightarrow> billing_db \<Rightarrow> answer_db" where
  "decideStatementCredit sha rq creditId keyIn body db =
     checked (andThen (permitted rq RECONCILE_PERMISSION) accountOnly) db (\<lambda>p.
     checked (target_id creditId) db (\<lambda>i.
     checked (idempotency_key keyIn) db (\<lambda>key.
     checked (objectWithKeys body [''expectedRevision'', ''decision'', ''rejectionReason'']) db (\<lambda>input.
     checked (revision_field (field input ''expectedRevision'')) db (\<lambda>expectedRevision.
     checked (oneOf (field input ''decision'') DECISIONS) db (\<lambda>d.
     checked (rejection_input d (field input ''rejectionReason'')) db (\<lambda>reason.
     (let cmd = make_command sha (refOf p) ''billing.credit.statement.decide.v1'' key
                  [(''creditId'', JString i), (''expectedRevision'', JNumber (JsInt (int expectedRevision))),
                   (''decision'', JString (decision_name d)),
                   (''rejectionReason'', case reason of None \<Rightarrow> JNull | Some r \<Rightarrow> JString (rejection_name r))] in
      unless_committed rq cmd db
        (case lockCredit (bq_seen rq) i of
           None \<Rightarrow> (app_error ''NOT_FOUND'', db)
         | Some known \<Rightarrow>
             execute rq cmd (decideStatementCredit_tx rq (refOf p) i expectedRevision d reason) db)))))))))"

section \<open>Provider notifications\<close>

text \<open>What the adapter said of the bytes it authenticated.\<close>

datatype notification_answer =
    NotificationRejectedOrMissing
  | Ignored
  | CreditFinal credit_fact string

datatype notification_result = NotRecorded | Duplicate | Recorded

definition receiveNotification_tx ::
  "brequest \<Rightarrow> pay_method \<Rightarrow> credit_fact \<Rightarrow> string \<Rightarrow> billing_db \<Rightarrow>
   billing_error + notification_result \<times> billing_db" where
  "receiveNotification_tx rq provider f evidenceDigest db =
     (case effectiveCredit db provider (cf_merchantAccount f) (cf_reference f) of
        Some stored \<Rightarrow>
          if \<not> sameFacts stored f then app_error ''PROVIDER_CREDIT_CONFLICT'' else Inr (Duplicate, db)
      | None \<Rightarrow>
          bindS (confirm rq None (draft_credit rq provider f evidenceDigest PROVIDER_NOTIFICATION None)
                   None db) (\<lambda>(c, _) db1.
          andThen (credit_audit rq 1 (ProviderAuditActor (PROVIDER_AUDIT_SUBJECTS provider))
                     ''billing.credit.recorded'' c db1) (\<lambda>db2.
          Inr (Recorded, db2))))"

definition receiveNotification ::
  "registry \<Rightarrow> brequest \<Rightarrow> string \<Rightarrow> notification_answer \<Rightarrow> billing_db \<Rightarrow>
   (billing_error + notification_result) \<times> billing_db" where
  "receiveNotification adapters rq providerPath authenticated db =
     (case map_of PROVIDERS (toUpperCase providerPath) of
        None \<Rightarrow> (app_error ''NOT_FOUND'', db)
      | Some provider \<Rightarrow>
          if \<not> ad_notifications (adapters provider) then (app_error ''NOT_FOUND'', db)
          else
            (case authenticated of
               NotificationRejectedOrMissing \<Rightarrow> (app_error ''NOTIFICATION_REJECTED'', db)
             | Ignored \<Rightarrow> (Inr NotRecorded, db)
             | CreditFinal f evidenceDigest \<Rightarrow>
                 if \<not> ad_acceptsMerchantAccount (adapters provider) (cf_merchantAccount f) then
                   (app_error ''MERCHANT_ACCOUNT_UNKNOWN'', db)
                 else
                   (case decide_rule (assertOccurredBefore (cf_occurredAt f) (bq_now rq)) of
                      Inl e \<Rightarrow> (Inl e, db)
                    | Inr _ \<Rightarrow>
                        (case run_tx (receiveNotification_tx rq provider f evidenceDigest) db of
                           (Inl (StoreError ProviderCreditTaken), db') \<Rightarrow> (Inr Duplicate, db')
                         | r \<Rightarrow> r))))"

section \<open>Verification of a claim with the provider\<close>

datatype query_answer = FoundFinal credit_fact string | QueryPending | QueryNotFound | QueryUnknown

text \<open>\<^verbatim>\<open>query\<close>: an answer about another transaction is no answer; a failure is UNKNOWN.\<close>

definition query_result :: "attempt \<Rightarrow> query_answer option \<Rightarrow> query_answer" where
  "query_result claim raw =
     (case raw of
        None \<Rightarrow> QueryUnknown
      | Some (FoundFinal f d) \<Rightarrow>
          if cf_reference f \<noteq> at_providerReference claim then QueryUnknown else FoundFinal f d
      | Some a \<Rightarrow> a)"

definition markUnknown ::
  "brequest \<Rightarrow> principal \<Rightarrow> string \<Rightarrow> string \<Rightarrow> billing_db \<Rightarrow> billing_error + billing_db" where
  "markUnknown rq who obligationId attemptId db =
     andThen (snapshot_of db obligationId) (\<lambda>before.
     (case (lockObligation db obligationId, before) of
        (Some ob, Some sn) \<Rightarrow>
          (case find (\<lambda>a. at_id a = attemptId) (sn_attempts sn) of
             None \<Rightarrow> Inr db
           | Some a \<Rightarrow>
               if at_status a \<noteq> PENDING_REVIEW then Inr db
               else
                 andThen (reconcileAttempt_row attemptId PENDING_REVIEW UNKNOWN (bq_now rq) (Some who) None None db) (\<lambda>db1.
                 andThen (updateObligation obligationId (ob_revision ob) (ob_verified ob) (ob_status ob)
                            (bq_now rq) db1) (\<lambda>db2.
                 andThen (appendAudit_row (audit_row rq 1 (PrincipalAuditActor who) ''billing.attempt.reconciled''
                            (Some obligationId) (Some attemptId) ''UNKNOWN'') db2) (\<lambda>db3.
                 andThen (some_snapshot db3 obligationId ''OBLIGATION_DISAPPEARED'') (\<lambda>after.
                 obligationChanged rq 2 (Some who) sn after db3)))))
      | _ \<Rightarrow> Inr db))"

definition verification ::
  "string \<Rightarrow> verification_outcome \<Rightarrow> credit option \<Rightarrow> billing_db \<Rightarrow>
   billing_error + recorded_outcome \<times> billing_db" where
  "verification obligationId outcome c db =
     andThen (some_snapshot db obligationId ''OBLIGATION_DISAPPEARED'') (\<lambda>after.
     andThen (financialStatusView after) (\<lambda>sv.
     Inr (\<lparr>ro_status = 200, ro_body = VerificationBody outcome c sv\<rparr>, db)))"

definition verifyAttempt_tx ::
  "registry \<Rightarrow> brequest \<Rightarrow> principal \<Rightarrow> string \<Rightarrow> string \<Rightarrow> pay_method \<Rightarrow> query_answer \<Rightarrow> billing_db \<Rightarrow>
   billing_error + recorded_outcome \<times> billing_db" where
  "verifyAttempt_tx adapters rq who obligationId attemptId provider answer db =
     (case answer of
        FoundFinal f evidenceDigest \<Rightarrow>
          if \<not> ad_acceptsMerchantAccount (adapters provider) (cf_merchantAccount f) then
            verification obligationId VO_WRONG_MERCHANT_ACCOUNT None db
          else
            andThen (decide_rule (assertOccurredBefore (cf_occurredAt f) (bq_now rq))) (\<lambda>_.
            (case effectiveCredit db provider (cf_merchantAccount f) (cf_reference f) of
               Some stored \<Rightarrow>
                 if \<not> sameFacts stored f then app_error ''PROVIDER_CREDIT_CONFLICT''
                 else
                   (case lockCredit db (cr_id stored) of
                      None \<Rightarrow> Inl (Fault ''CREDIT_DISAPPEARED'')
                    | Some c \<Rightarrow>
                        if cr_status c \<noteq> UNALLOCATED then verification obligationId VO_FOUND (Some c) db
                        else
                          bindS (confirm rq (Some who) c (Some c) db) (\<lambda>(c', _) db1.
                          verification obligationId VO_FOUND (Some c') db1))
             | None \<Rightarrow>
                 bindS (confirm rq (Some who)
                          (draft_credit rq provider f evidenceDigest PROVIDER_QUERY (Some (pr_subject who)))
                          None db) (\<lambda>(c', _) db1.
                 andThen (credit_audit rq 1 (PrincipalAuditActor who) ''billing.credit.recorded'' c' db1) (\<lambda>db2.
                 verification obligationId VO_FOUND (Some c') db2))))
      | QueryUnknown \<Rightarrow>
          andThen (markUnknown rq who obligationId attemptId db) (\<lambda>db1.
          verification obligationId VO_UNKNOWN None db1)
      | QueryPending \<Rightarrow> verification obligationId VO_PENDING None db
      | QueryNotFound \<Rightarrow> verification obligationId VO_NOT_FOUND None db)"

text \<open>\<open>query\<close> is the provider's answer about a reference; \<open>None\<close> when the call failed.\<close>

definition verifyAttemptWithProvider ::
  "(json \<Rightarrow> string) \<Rightarrow> registry \<Rightarrow> (string \<Rightarrow> query_answer option) \<Rightarrow> brequest \<Rightarrow> string \<Rightarrow> json option \<Rightarrow>
   json \<Rightarrow> billing_db \<Rightarrow> answer_db" where
  "verifyAttemptWithProvider sha adapters query rq attemptId keyIn body db =
     checked (andThen (permitted rq RECONCILE_PERMISSION) accountOnly) db (\<lambda>p.
     checked (target_id attemptId) db (\<lambda>i.
     checked (idempotency_key keyIn) db (\<lambda>key.
     checked (objectWithKeys body []) db (\<lambda>_.
     (let cmd = make_command sha (refOf p) ''billing.attempt.provider-verify.v1'' key
                  [(''attemptId'', JString i)] in
      unless_committed rq cmd db
        (case obligationIdForAttempt (bq_seen rq) i of
           None \<Rightarrow> (app_error ''NOT_FOUND'', db)
         | Some obligationId \<Rightarrow>
             checked (snapshot_of (bq_seen rq) obligationId) db (\<lambda>sn.
             (case sn of
                None \<Rightarrow> (app_error ''NOT_FOUND'', db)
              | Some s \<Rightarrow>
                  (case find (\<lambda>a. at_id a = i) (sn_attempts s) of
                     None \<Rightarrow> (app_error ''NOT_FOUND'', db)
                   | Some claim \<Rightarrow>
                       if pr_subject (ob_owner (sn_obligation s)) = vp_subject p then
                         (app_error ''SEPARATION_OF_DUTIES'', db)
                       else if at_status claim \<notin> set OPEN_ATTEMPT_STATUSES then
                         (app_error ''ATTEMPT_NOT_OPEN'', db)
                       else if at_method claim \<notin> snd ` set PROVIDERS then
                         (app_error ''PROVIDER_CAPABILITY_MISSING'', db)
                       else if \<not> ad_creditQuery (adapters (at_method claim)) then
                         (app_error ''PROVIDER_CAPABILITY_MISSING'', db)
                       else
                         execute rq cmd
                           (verifyAttempt_tx adapters rq (refOf p) obligationId i (at_method claim)
                              (query_result claim (query (at_providerReference claim)))) db)))))))))"

section \<open>Refunds\<close>

definition REFUND_PERMISSION :: string where "REFUND_PERMISSION = ''billing.refund''"

fun refund_status_name :: "refund_status \<Rightarrow> string" where
  "refund_status_name REQUESTED = ''REQUESTED''"
| "refund_status_name RF_REJECTED = ''REJECTED''"
| "refund_status_name APPROVED = ''APPROVED''"
| "refund_status_name SUBMITTED = ''SUBMITTED''"
| "refund_status_name RF_UNKNOWN = ''UNKNOWN''"
| "refund_status_name RF_SUCCEEDED = ''SUCCEEDED''"
| "refund_status_name FAILED = ''FAILED''"

text \<open>\<^verbatim>\<open>changed\<close>: the audit row, the event and the answer of a refund command.\<close>

definition refund_changed ::
  "brequest \<Rightarrow> principal \<Rightarrow> string \<Rightarrow> credit \<Rightarrow> refund option \<Rightarrow> refund \<Rightarrow> billing_db \<Rightarrow>
   billing_error + recorded_outcome \<times> billing_db" where
  "refund_changed rq who action c previous f db =
     andThen (appendAudit_row ((audit_row rq 1 (PrincipalAuditActor who) action (cr_obligationId c) None
                (refund_status_name (rf_status f)))\<lparr>au_creditId := Some (cr_id c), au_refundId := Some (rf_id f)\<rparr>) db) (\<lambda>db1.
     andThen (appendOutbox (RefundChangedV1 (event_context_of rq 2 (Some who) (rf_id f) (rf_revision f))
                (cr_id c) (cr_obligationId c) (rf_provider f) (rf_channel f) (rf_reason f)
                (map_option rf_status previous) (rf_status f) (Money_toWire (rf_amount f))) db1) (\<lambda>db2.
     Inr (\<lparr>ro_status = (case previous of Some _ \<Rightarrow> 200 | None \<Rightarrow> 201), ro_body = RefundBody f\<rparr>, db2)))"

definition lockedRefund ::
  "billing_db \<Rightarrow> string \<Rightarrow> string \<Rightarrow> nat \<Rightarrow> billing_error + credit \<times> refund" where
  "lockedRefund db refundId creditId expectedRevision =
     (case (lockCredit db creditId, lockRefund db refundId) of
        (Some c, Some f) \<Rightarrow>
          if rf_creditId f \<noteq> cr_id c then app_error ''NOT_FOUND''
          else if rf_revision f \<noteq> expectedRevision then app_error ''REVISION_CONFLICT''
          else Inr (c, f)
      | _ \<Rightarrow> app_error ''NOT_FOUND'')"

definition refund_paid :: "brequest \<Rightarrow> credit \<Rightarrow> refund \<Rightarrow> billing_db \<Rightarrow> billing_error + billing_db" where
  "refund_paid rq c f db =
     post (refundPaidJournal (rf_id f) (cr_provider c) (rf_amount f) (cr_status c = ALLOCATED))
       (meta_of rq 3 None None (Some (cr_id c))) db"

definition requestRefund_tx ::
  "registry \<Rightarrow> brequest \<Rightarrow> principal \<Rightarrow> string \<Rightarrow> nat \<Rightarrow> bmoney \<Rightarrow> refund_reason \<Rightarrow> billing_db \<Rightarrow>
   billing_error + recorded_outcome \<times> billing_db" where
  "requestRefund_tx adapters rq who i expectedRevision amount reason db =
     (case lockCredit db i of
        None \<Rightarrow> app_error ''NOT_FOUND''
      | Some c \<Rightarrow>
          if cr_revision c \<noteq> expectedRevision then app_error ''REVISION_CONFLICT''
          else
            andThen (case cr_obligationId c of
                       None \<Rightarrow> Inr None
                     | Some obligationId \<Rightarrow> snapshot_of db obligationId) (\<lambda>sn.
            if (case sn of None \<Rightarrow> False
                | Some s \<Rightarrow> pr_subject (ob_owner (sn_obligation s)) = pr_subject who) then
              app_error ''SEPARATION_OF_DUTIES''
            else
              andThen (reservedForRefund db c) (\<lambda>reserved.
              andThen (decide_rule (planRefundRequest c reserved amount reason)) (\<lambda>_.
              (let f = \<lparr>rf_status = REQUESTED, rf_channel = ad_refunds (adapters (cr_provider c)),
                        rf_requestedBy = pr_subject who, rf_id = bq_ids rq 0, rf_creditId = i,
                        rf_provider = cr_provider c, rf_amount = amount, rf_reason = reason,
                        rf_requestedAt = bq_now rq, rf_decidedBy = None, rf_decidedAt = None,
                        rf_providerRefundReference = None, rf_evidenceDigest = None,
                        rf_completedBy = None, rf_completedAt = None, rf_revision = 1,
                        rf_updatedAt = bq_now rq\<rparr> in
               andThen (insertRefund f db) (\<lambda>db1.
               refund_changed rq who ''billing.refund.requested'' c None f db1))))))"

fun refund_reason_name :: "refund_reason \<Rightarrow> string" where
  "refund_reason_name SERVICE_NOT_DELIVERED = ''SERVICE_NOT_DELIVERED''"
| "refund_reason_name BOOKING_CANCELLED = ''BOOKING_CANCELLED''"
| "refund_reason_name DUPLICATE_PAYMENT = ''DUPLICATE_PAYMENT''"
| "refund_reason_name UNALLOCATABLE_CREDIT = ''UNALLOCATABLE_CREDIT''"

definition requestRefund ::
  "(json \<Rightarrow> string) \<Rightarrow> registry \<Rightarrow> brequest \<Rightarrow> string \<Rightarrow> json option \<Rightarrow> json \<Rightarrow> billing_db \<Rightarrow> answer_db" where
  "requestRefund sha adapters rq creditId keyIn body db =
     checked (andThen (permitted rq REFUND_PERMISSION) accountOnly) db (\<lambda>p.
     checked (target_id creditId) db (\<lambda>i.
     checked (idempotency_key keyIn) db (\<lambda>key.
     checked (objectWithKeys body [''expectedRevision'', ''amount'', ''reason'']) db (\<lambda>input.
     checked (revision_field (field input ''expectedRevision'')) db (\<lambda>expectedRevision.
     checked (moneyInput (field input ''amount'')) db (\<lambda>amount.
     checked (oneOf (field input ''reason'') REFUND_REASONS) db (\<lambda>reason.
     (let cmd = make_command sha (refOf p) ''billing.refund.request.v1'' key
                  [(''creditId'', JString i), (''expectedRevision'', JNumber (JsInt (int expectedRevision))),
                   (''amount'', wire_json (Money_toWire amount)), (''reason'', JString (refund_reason_name reason))] in
      execute rq cmd (requestRefund_tx adapters rq (refOf p) i expectedRevision amount reason) db))))))))"

definition decideRefund_tx ::
  "brequest \<Rightarrow> principal \<Rightarrow> string \<Rightarrow> string \<Rightarrow> nat \<Rightarrow> decision \<Rightarrow> billing_db \<Rightarrow>
   billing_error + recorded_outcome \<times> billing_db" where
  "decideRefund_tx rq who i creditId expectedRevision d db =
     andThen (lockedRefund db i creditId expectedRevision) (\<lambda>(c, f).
     andThen (decide_rule (planRefundDecision f (pr_subject who))) (\<lambda>_.
     (let f' = f\<lparr>rf_status := (if d = APPROVE then APPROVED else RF_REJECTED),
                 rf_decidedBy := Some (pr_subject who), rf_decidedAt := Some (bq_now rq),
                 rf_revision := rf_revision f + 1, rf_updatedAt := bq_now rq\<rparr> in
      andThen (updateRefund i (rf_revision f) f' db) (\<lambda>db1.
      refund_changed rq who (if d = APPROVE then ''billing.refund.approved'' else ''billing.refund.rejected'')
        c (Some f) f' db1))))"

definition decideRefund ::
  "(json \<Rightarrow> string) \<Rightarrow> brequest \<Rightarrow> string \<Rightarrow> json option \<Rightarrow> json \<Rightarrow> billing_db \<Rightarrow> answer_db" where
  "decideRefund sha rq refundId keyIn body db =
     checked (andThen (permitted rq REFUND_PERMISSION) accountOnly) db (\<lambda>p.
     checked (target_id refundId) db (\<lambda>i.
     checked (idempotency_key keyIn) db (\<lambda>key.
     checked (objectWithKeys body [''expectedRevision'', ''decision'']) db (\<lambda>input.
     checked (revision_field (field input ''expectedRevision'')) db (\<lambda>expectedRevision.
     checked (oneOf (field input ''decision'') DECISIONS) db (\<lambda>d.
     (let cmd = make_command sha (refOf p) ''billing.refund.decide.v1'' key
                  [(''refundId'', JString i), (''expectedRevision'', JNumber (JsInt (int expectedRevision))),
                   (''decision'', JString (decision_name d))] in
      unless_committed rq cmd db
        (case lockRefund (bq_seen rq) i of
           None \<Rightarrow> (app_error ''NOT_FOUND'', db)
         | Some known \<Rightarrow>
             execute rq cmd (decideRefund_tx rq (refOf p) i (rf_creditId known) expectedRevision d) db))))))))"

text \<open>
  The provider's answer to a submission or a status question: the outcome and the normalised
  reference, when it gave one.
\<close>

definition executeRefund_tx ::
  "brequest \<Rightarrow> principal \<Rightarrow> string \<Rightarrow> string \<Rightarrow> nat \<Rightarrow> refund_outcome \<Rightarrow> string option \<Rightarrow> billing_db \<Rightarrow>
   billing_error + recorded_outcome \<times> billing_db" where
  "executeRefund_tx rq who i creditId expectedRevision outcome reference db =
     andThen (lockedRefund db i creditId expectedRevision) (\<lambda>(c, f).
     andThen (decide_rule (planRefundProviderOutcome f outcome)) (\<lambda>st.
     if st = rf_status f then Inr (\<lparr>ro_status = 200, ro_body = RefundBody f\<rparr>, db)
     else
       (let f' = f\<lparr>rf_status := st,
                   rf_providerRefundReference :=
                     (case rf_providerRefundReference f of Some r \<Rightarrow> Some r | None \<Rightarrow> reference),
                   rf_completedAt := (if st = RF_SUCCEEDED \<or> st = FAILED then Some (bq_now rq) else None),
                   rf_revision := rf_revision f + 1, rf_updatedAt := bq_now rq\<rparr> in
        andThen (updateRefund i (rf_revision f) f' db) (\<lambda>db1.
        andThen (if st = RF_SUCCEEDED then refund_paid rq c f' db1 else Inr db1) (\<lambda>db2.
        refund_changed rq who ''billing.refund.outcome-recorded'' c (Some f) f' db2)))))"

definition executeRefund ::
  "(json \<Rightarrow> string) \<Rightarrow> registry \<Rightarrow> (refund \<Rightarrow> (refund_outcome \<times> string option) option) \<Rightarrow> brequest \<Rightarrow> string \<Rightarrow>
   json option \<Rightarrow> json \<Rightarrow> billing_db \<Rightarrow> answer_db" where
  "executeRefund sha adapters ask rq refundId keyIn body db =
     checked (andThen (permitted rq REFUND_PERMISSION) accountOnly) db (\<lambda>p.
     checked (target_id refundId) db (\<lambda>i.
     checked (idempotency_key keyIn) db (\<lambda>key.
     checked (objectWithKeys body [''expectedRevision'']) db (\<lambda>input.
     checked (revision_field (field input ''expectedRevision'')) db (\<lambda>expectedRevision.
     (let cmd = make_command sha (refOf p) ''billing.refund.provider-execute.v1'' key
                  [(''refundId'', JString i), (''expectedRevision'', JNumber (JsInt (int expectedRevision)))] in
      unless_committed rq cmd db
        (case lockRefund (bq_seen rq) i of
           None \<Rightarrow> (app_error ''NOT_FOUND'', db)
         | Some f \<Rightarrow>
             if rf_revision f \<noteq> expectedRevision then (app_error ''REVISION_CONFLICT'', db)
             else
               checked (decide_rule (planRefundProviderOutcome f PO_UNKNOWN)) db (\<lambda>_.
               (case lockCredit (bq_seen rq) (rf_creditId f) of
                  None \<Rightarrow> (Inl (Fault ''REFUND_WITHOUT_CREDIT''), db)
                | Some c \<Rightarrow>
                    if ad_refunds (adapters (cr_provider c)) \<noteq> PROVIDER_API then
                      (app_error ''PROVIDER_CAPABILITY_MISSING'', db)
                    else
                      (let (outcome, raw) = (case ask f of Some a \<Rightarrow> a | None \<Rightarrow> (PO_UNKNOWN, None));
                           reference = (case raw of None \<Rightarrow> None
                                        | Some s \<Rightarrow> normalizeProviderReference (Some (JString s))) in
                       translating ProviderRefundReferenceTaken ''PROVIDER_REFUND_REFERENCE_TAKEN''
                         (execute rq cmd
                            (executeRefund_tx rq (refOf p) i (rf_creditId f) expectedRevision outcome reference)
                            db)))))))))))"

datatype manual_outcome = MO_SUCCEEDED | MO_FAILED

definition MANUAL_OUTCOMES :: "(string \<times> manual_outcome) list" where
  "MANUAL_OUTCOMES = [(''SUCCEEDED'', MO_SUCCEEDED), (''FAILED'', MO_FAILED)]"

text \<open>A completed transfer needs its reference and evidence; a failed one must carry neither.\<close>

definition transfer_input ::
  "manual_outcome \<Rightarrow> json option \<Rightarrow> json option \<Rightarrow> billing_error + (string \<times> string) option" where
  "transfer_input outcome transferReference evidenceDigest =
     (case outcome of
        MO_SUCCEEDED \<Rightarrow>
          (case normalizeProviderReference transferReference of
             None \<Rightarrow> app_error ''REQUEST_INVALID''
           | Some r \<Rightarrow> andThen (pattern_field EVIDENCE_DIGEST evidenceDigest) (\<lambda>d. Inr (Some (r, d))))
      | MO_FAILED \<Rightarrow>
          if transferReference \<noteq> Some JNull \<or> evidenceDigest \<noteq> Some JNull then app_error ''REQUEST_INVALID''
          else Inr None)"

definition completeManualRefund_tx ::
  "brequest \<Rightarrow> principal \<Rightarrow> string \<Rightarrow> string \<Rightarrow> nat \<Rightarrow> manual_outcome \<Rightarrow> (string \<times> string) option \<Rightarrow>
   billing_db \<Rightarrow> billing_error + recorded_outcome \<times> billing_db" where
  "completeManualRefund_tx rq who i creditId expectedRevision outcome transfer db =
     andThen (lockedRefund db i creditId expectedRevision) (\<lambda>(c, f).
     andThen (decide_rule (planManualRefundCompletion f (pr_subject who))) (\<lambda>_.
     (let f' = f\<lparr>rf_status := (if outcome = MO_SUCCEEDED then RF_SUCCEEDED else FAILED),
                 rf_providerRefundReference := map_option fst transfer,
                 rf_evidenceDigest := map_option snd transfer, rf_completedBy := Some (pr_subject who),
                 rf_completedAt := Some (bq_now rq), rf_revision := rf_revision f + 1,
                 rf_updatedAt := bq_now rq\<rparr> in
      andThen (updateRefund i (rf_revision f) f' db) (\<lambda>db1.
      andThen (if outcome = MO_SUCCEEDED then refund_paid rq c f' db1 else Inr db1) (\<lambda>db2.
      refund_changed rq who ''billing.refund.outcome-recorded'' c (Some f) f' db2)))))"

definition completeManualRefund ::
  "(json \<Rightarrow> string) \<Rightarrow> brequest \<Rightarrow> string \<Rightarrow> json option \<Rightarrow> json \<Rightarrow> billing_db \<Rightarrow> answer_db" where
  "completeManualRefund sha rq refundId keyIn body db =
     checked (andThen (permitted rq REFUND_PERMISSION) accountOnly) db (\<lambda>p.
     checked (target_id refundId) db (\<lambda>i.
     checked (idempotency_key keyIn) db (\<lambda>key.
     checked (objectWithKeys body [''expectedRevision'', ''outcome'', ''transferReference'', ''evidenceDigest'']) db (\<lambda>input.
     checked (revision_field (field input ''expectedRevision'')) db (\<lambda>expectedRevision.
     checked (oneOf (field input ''outcome'') MANUAL_OUTCOMES) db (\<lambda>outcome.
     checked (transfer_input outcome (field input ''transferReference'') (field input ''evidenceDigest'')) db (\<lambda>transfer.
     (let text = (\<lambda>v. case v of None \<Rightarrow> JNull | Some s \<Rightarrow> JString s);
          cmd = make_command sha (refOf p) ''billing.refund.manual-complete.v1'' key
                  [(''refundId'', JString i), (''expectedRevision'', JNumber (JsInt (int expectedRevision))),
                   (''outcome'', JString (if outcome = MO_SUCCEEDED then ''SUCCEEDED'' else ''FAILED'')),
                   (''transferReference'', text (map_option fst transfer)),
                   (''evidenceDigest'', text (map_option snd transfer))] in
      unless_committed rq cmd db
        (case lockRefund (bq_seen rq) i of
           None \<Rightarrow> (app_error ''NOT_FOUND'', db)
         | Some known \<Rightarrow>
             translating ProviderRefundReferenceTaken ''PROVIDER_REFUND_REFERENCE_TAKEN''
               (execute rq cmd
                  (completeManualRefund_tx rq (refOf p) i (rf_creditId known) expectedRevision outcome transfer)
                  db))))))))))"

end
