(* ===== verification/Billing_Custody.thy ===== *)
theory Billing_Custody
  imports Billing_Providers
begin

text \<open>
  Billing, cash custody: \<^verbatim>\<open>application/cash-custody.service.ts\<close> (collection, reversal, the
  handover of cash and its receipt and settlement at the treasury) and the read-side check
  of \<^verbatim>\<open>PrismaCustodyReader\<close>, \<open>reconciliationReport\<close> with its treasury positions.
\<close>

section \<open>Helpers\<close>

definition COLLECT_PERMISSION :: string where "COLLECT_PERMISSION = ''billing.cash.collect''"

definition CORRECT_PERMISSION :: string where "CORRECT_PERMISSION = ''billing.cash.correct''"

definition TREASURY_RECEIVE_PERMISSION :: string where
  "TREASURY_RECEIVE_PERMISSION = ''billing.treasury.receive''"

definition custody_audit ::
  "brequest \<Rightarrow> principal \<Rightarrow> string \<Rightarrow> string \<Rightarrow> string option \<Rightarrow> string option \<Rightarrow> string option \<Rightarrow>
   billing_db \<Rightarrow> billing_error + billing_db" where
  "custody_audit rq who action outcome obligationId receiptId handoverId db =
     appendAudit_row ((audit_row rq 20 (PrincipalAuditActor who) action obligationId None outcome)
       \<lparr>au_receiptId := receiptId, au_handoverId := handoverId\<rparr>) db"

definition handoverEvent :: "brequest \<Rightarrow> principal \<Rightarrow> handover option \<Rightarrow> handover \<Rightarrow> billing_event" where
  "handoverEvent rq who previous ha =
     CustodyHandoverChangedV1 (event_context_of rq 21 (Some who) (ha_id ha) (ha_revision ha))
       (ha_holder ha) (map_option ha_status previous) (ha_status ha) (ha_receiptCount ha)
       (Money_toWire (ha_declared ha)) (map_option Money_toWire (ha_counted ha))
       (map_option Money_toWire (ha_shortage ha)) (map_option Money_toWire (ha_overage ha))"

text \<open>The loop of \<^verbatim>\<open>moveReceipts\<close> over the locked receipts of a handover.\<close>

fun move_each ::
  "brequest \<Rightarrow> string \<Rightarrow> custody_status \<Rightarrow> custody_status \<Rightarrow> string option \<Rightarrow> cash_receipt list \<Rightarrow>
   billing_db \<Rightarrow> billing_error + billing_db" where
  "move_each rq handoverId expected becomes link [] db = Inr db"
| "move_each rq handoverId expected becomes link (re # res) db =
     (if re_custodyStatus re \<noteq> expected \<or> re_handoverId re \<noteq> Some handoverId then
        Inl (Fault ''HANDOVER_RECEIPT_OUT_OF_STEP'')
      else andThen (updateReceiptCustody (re_id re) (re_revision re) becomes link (bq_now rq) db) (\<lambda>db1.
             move_each rq handoverId expected becomes link res db1))"

definition moveReceipts ::
  "brequest \<Rightarrow> string \<Rightarrow> custody_status \<Rightarrow> custody_status \<Rightarrow> string option \<Rightarrow> billing_db \<Rightarrow>
   billing_error + billing_db" where
  "moveReceipts rq handoverId expected becomes link db =
     (let ids = handoverReceiptIds db handoverId; receipts = lockReceipts db ids in
      if length receipts \<noteq> length ids then Inl (Fault ''HANDOVER_RECEIPT_MISSING'')
      else move_each rq handoverId expected becomes link receipts db)"

definition lockedHandover ::
  "billing_db \<Rightarrow> string \<Rightarrow> nat \<Rightarrow> (handover \<Rightarrow> bool) \<Rightarrow> billing_error + handover" where
  "lockedHandover db i expectedRevision allowed =
     (case lockHandover db i of
        None \<Rightarrow> app_error ''NOT_FOUND''
      | Some ha \<Rightarrow>
          if \<not> allowed ha then app_error ''NOT_FOUND''
          else if ha_revision ha \<noteq> expectedRevision then app_error ''REVISION_CONFLICT''
          else Inr ha)"

definition handoverOutcome :: "billing_db \<Rightarrow> handover \<Rightarrow> nat \<Rightarrow> recorded_outcome" where
  "handoverOutcome db ha status =
     \<lparr>ro_status = status, ro_body = HandoverBody ha (handoverReceiptIds db (ha_id ha))\<rparr>"

section \<open>Collection and its reversal\<close>

definition recordCollection_tx ::
  "brequest \<Rightarrow> principal \<Rightarrow> string \<Rightarrow> nat \<Rightarrow> string \<Rightarrow> work_evidence \<Rightarrow> bmoney \<Rightarrow> billing_db \<Rightarrow>
   billing_error + recorded_outcome \<times> billing_db" where
  "recordCollection_tx rq who i expectedRevision bookingId work declared db =
     (case lockObligation db i of
        None \<Rightarrow> app_error ''NOT_FOUND''
      | Some ob \<Rightarrow>
          if ob_quoteId ob \<noteq> we_quoteId work then app_error ''NOT_FOUND''
          else if we_technicianSubject work \<noteq> Some (pr_subject who) then
            app_error ''COLLECTOR_NOT_ASSIGNED''
          else if ob_revision ob \<noteq> expectedRevision then app_error ''REVISION_CONFLICT''
          else
            andThen (some_snapshot db i ''LOCKED_OBLIGATION_WITHOUT_SNAPSHOT'') (\<lambda>before.
            andThen (decide_rule (planCashCollection ob (ob_quoteId ob) (sn_activeIntent before)
                       (pr_subject (ob_owner ob)) (pr_subject who) work declared)) (\<lambda>received.
            (case sn_activeIntent before of
               None \<Rightarrow> Inl (Fault ''PLAN_ACCEPTED_WITHOUT_INTENT'')
             | Some it \<Rightarrow>
                 (let now = bq_now rq;
                      re = \<lparr>re_collector = pr_subject who, re_amount = received,
                            re_custodyStatus = HELD, re_id = bq_ids rq 0, re_obligationId = i,
                            re_intentId = it_id it, re_bookingId = bookingId,
                            re_assignmentId = we_assignmentId work,
                            re_assignmentRevision = we_assignmentRevision work, re_handoverId = None,
                            re_revision = 1, re_collectedAt = now, re_updatedAt = now\<rparr> in
                  andThen (insertReceipt re db) (\<lambda>db1.
                  andThen (setIntentStatus (it_id it) (it_status it) SUCCEEDED now db1) (\<lambda>db2.
                  andThen (post (cashCollectedJournal (re_id re) (pr_subject who) received)
                             (meta_of rq 1 (Some i) None None) db2) (\<lambda>db3.
                  andThen (Money_plus (ob_verified ob) received) (\<lambda>verified.
                  andThen (updateObligation i expectedRevision verified SETTLED now db3) (\<lambda>db4.
                  andThen (some_snapshot db4 i ''OBLIGATION_DISAPPEARED'') (\<lambda>after.
                  andThen (custody_audit rq who ''billing.cash.collected'' ''HELD'' (Some i) (Some (re_id re)) None db4) (\<lambda>db5.
                  andThen (appendOutbox (CashCollectedV1 (event_context_of rq 21 (Some who) (re_id re) 1) i
                             bookingId (we_assignmentId work) (Money_toWire received) HELD) db5) (\<lambda>db6.
                  andThen (obligationChanged rq 22 (Some who) before after db6) (\<lambda>db7.
                  andThen (financialStatusView after) (\<lambda>sv.
                  Inr (\<lparr>ro_status = 201, ro_body = CollectionBody re None sv\<rparr>, db7))))))))))))))))"

text \<open>What the work owner answers about a booking.\<close>

datatype work_answer = WorkDown | NoWork | Work work_evidence

definition recordCollection ::
  "(json \<Rightarrow> string) \<Rightarrow> brequest \<Rightarrow> string \<Rightarrow> json option \<Rightarrow> json \<Rightarrow> (string \<Rightarrow> work_answer) \<Rightarrow> billing_db \<Rightarrow> answer_db" where
  "recordCollection sha rq obligationId keyIn body evidenceFor db =
     checked (andThen (permitted rq COLLECT_PERMISSION) accountOnly) db (\<lambda>p.
     checked (target_id obligationId) db (\<lambda>i.
     checked (idempotency_key keyIn) db (\<lambda>key.
     checked (objectWithKeys body [''expectedRevision'', ''bookingId'', ''amount'']) db (\<lambda>input.
     checked (revision_field (field input ''expectedRevision'')) db (\<lambda>expectedRevision.
     checked (uuid_field (field input ''bookingId'')) db (\<lambda>bookingId.
     checked (moneyInput (field input ''amount'')) db (\<lambda>declared.
     (let cmd = make_command sha (refOf p) ''billing.cash.collect.v1'' key
                  [(''obligationId'', JString i), (''expectedRevision'', JNumber (JsInt (int expectedRevision))),
                   (''bookingId'', JString bookingId), (''amount'', wire_json (Money_toWire declared))] in
      unless_committed rq cmd db
        (case evidenceFor bookingId of
           WorkDown \<Rightarrow> (app_error ''UPSTREAM_UNAVAILABLE'', db)
         | NoWork \<Rightarrow> (app_error ''NOT_FOUND'', db)
         | Work work \<Rightarrow>
             if we_bookingId work \<noteq> bookingId then (app_error ''NOT_FOUND'', db)
             else
               translating CollectionAlreadyRecorded ''COLLECTION_ALREADY_RECORDED''
                 (execute rq cmd
                    (recordCollection_tx rq (refOf p) i expectedRevision bookingId work declared) db))))))))))"

fun reversal_name :: "reversal_reason \<Rightarrow> string" where
  "reversal_name RECORDED_IN_ERROR = ''RECORDED_IN_ERROR''"
| "reversal_name WRONG_BOOKING = ''WRONG_BOOKING''"
| "reversal_name AMOUNT_NOT_RECEIVED = ''AMOUNT_NOT_RECEIVED''"
| "reversal_name DUPLICATE_RECORD = ''DUPLICATE_RECORD''"

definition reverseCollection_tx ::
  "brequest \<Rightarrow> principal \<Rightarrow> string \<Rightarrow> string \<Rightarrow> nat \<Rightarrow> reversal_reason \<Rightarrow> billing_db \<Rightarrow>
   billing_error + recorded_outcome \<times> billing_db" where
  "reverseCollection_tx rq who i obligationId expectedRevision reason db =
     (case (lockObligation db obligationId, lockReceipt db i) of
        (Some ob, Some re) \<Rightarrow>
          if re_revision re \<noteq> expectedRevision then app_error ''REVISION_CONFLICT''
          else if pr_subject (ob_owner ob) = pr_subject who then app_error ''SEPARATION_OF_DUTIES''
          else
            andThen (decide_rule (planCollectionReversal re (pr_subject who))) (\<lambda>_.
            andThen (some_snapshot db (ob_id ob) ''LOCKED_OBLIGATION_WITHOUT_SNAPSHOT'') (\<lambda>before.
            (let now = bq_now rq;
                 rv = \<lparr>rv_id = bq_ids rq 0, rv_receiptId = i, rv_obligationId = ob_id ob,
                       rv_reason = reason, rv_reversedBy = pr_subject who, rv_reversedAt = now\<rparr> in
             andThen (insertReversal rv db) (\<lambda>db1.
             andThen (updateReceiptCustody i (re_revision re) REVERSED None now db1) (\<lambda>db2.
             andThen (setIntentStatus (re_intentId re) SUCCEEDED CANCELLED now db2) (\<lambda>db3.
             andThen (post (cashCollectionReversedJournal i (re_collector re) (re_amount re))
                        (meta_of rq 1 (Some (ob_id ob)) None None) db3) (\<lambda>db4.
             andThen (Money_minus (ob_verified ob) (re_amount re)) (\<lambda>reopened.
             andThen (updateObligation (ob_id ob) (ob_revision ob) reopened OPEN now db4) (\<lambda>db5.
             andThen (Money_minus (ob_amount ob) reopened) (\<lambda>due.
             andThen (insertIntent \<lparr>it_method = CASH_ON_COMPLETION, it_status = AWAITING_CASH_COLLECTION,
                        it_id = bq_ids rq 2, it_obligationId = ob_id ob, it_amount = due,
                        it_createdAt = now, it_updatedAt = now\<rparr> db5) (\<lambda>db6.
             andThen (some_snapshot db6 (ob_id ob) ''OBLIGATION_DISAPPEARED'') (\<lambda>after.
             andThen (custody_audit rq who ''billing.cash.reversed'' (reversal_name reason) (Some (ob_id ob))
                        (Some i) None db6) (\<lambda>db7.
             andThen (appendOutbox (CashCollectionReversedV1
                        (event_context_of rq 21 (Some who) i (re_revision re + 1)) (ob_id ob)
                        (re_bookingId re) (Money_toWire (re_amount re)) reason) db7) (\<lambda>db8.
             andThen (obligationChanged rq 22 (Some who) before after db8) (\<lambda>db9.
             (case lockReceipt db9 i of
                None \<Rightarrow> Inl (Fault ''RECEIPT_DISAPPEARED'')
              | Some updated \<Rightarrow>
                  andThen (financialStatusView after) (\<lambda>sv.
                  Inr (\<lparr>ro_status = 200, ro_body = CollectionBody updated (Some rv) sv\<rparr>, db9))))))))))))))))))
      | _ \<Rightarrow> app_error ''NOT_FOUND'')"

definition reverseCollection ::
  "(json \<Rightarrow> string) \<Rightarrow> brequest \<Rightarrow> string \<Rightarrow> json option \<Rightarrow> json \<Rightarrow> billing_db \<Rightarrow> answer_db" where
  "reverseCollection sha rq receiptId keyIn body db =
     checked (andThen (permitted rq CORRECT_PERMISSION) accountOnly) db (\<lambda>p.
     checked (target_id receiptId) db (\<lambda>i.
     checked (idempotency_key keyIn) db (\<lambda>key.
     checked (objectWithKeys body [''expectedRevision'', ''reason'']) db (\<lambda>input.
     checked (revision_field (field input ''expectedRevision'')) db (\<lambda>expectedRevision.
     checked (oneOf (field input ''reason'') REVERSAL_REASONS) db (\<lambda>reason.
     (let cmd = make_command sha (refOf p) ''billing.cash.reverse.v1'' key
                  [(''receiptId'', JString i), (''expectedRevision'', JNumber (JsInt (int expectedRevision))),
                   (''reason'', JString (reversal_name reason))] in
      unless_committed rq cmd db
        (case lockReceipt (bq_seen rq) i of
           None \<Rightarrow> (app_error ''NOT_FOUND'', db)
         | Some known \<Rightarrow>
             execute rq cmd
               (reverseCollection_tx rq (refOf p) i (re_obligationId known) expectedRevision reason) db))))))))"

section \<open>Handovers\<close>

fun receipt_ids :: "json list \<Rightarrow> billing_error + string list" where
  "receipt_ids [] = Inr []"
| "receipt_ids (JString s # js) =
     (if billing_uuid s then andThen (receipt_ids js) (\<lambda>ids. Inr (s # ids))
      else app_error ''REQUEST_INVALID'')"
| "receipt_ids (_ # js) = app_error ''REQUEST_INVALID''"

definition receiptIdSet :: "json option \<Rightarrow> billing_error + string list" where
  "receiptIdSet v =
     (case v of
        Some (JArray js) \<Rightarrow> if length js > 200 then app_error ''REQUEST_INVALID'' else receipt_ids js
      | _ \<Rightarrow> app_error ''REQUEST_INVALID'')"

text \<open>The loop of \<^verbatim>\<open>declareHandover\<close> that puts the locked receipts into the handover.\<close>

fun hand_over_each ::
  "brequest \<Rightarrow> string \<Rightarrow> cash_receipt list \<Rightarrow> billing_db \<Rightarrow> billing_error + billing_db" where
  "hand_over_each rq handoverId [] db = Inr db"
| "hand_over_each rq handoverId (re # res) db =
     andThen (updateReceiptCustody (re_id re) (re_revision re) IN_HANDOVER (Some handoverId) (bq_now rq) db) (\<lambda>db1.
     hand_over_each rq handoverId res db1)"

definition new_handover :: "brequest \<Rightarrow> string \<Rightarrow> bmoney \<Rightarrow> nat \<Rightarrow> handover" where
  "new_handover rq holder declared n =
     \<lparr>ha_holder = holder, ha_status = HO_PENDING, ha_declared = declared, ha_counted = None,
      ha_receivedBy = None, ha_id = bq_ids rq 0, ha_receiptCount = n, ha_shortage = None,
      ha_overage = None, ha_treasuryReference = None, ha_receivedAt = None,
      ha_settlementReference = None, ha_reconciledBy = None, ha_reconciledAt = None,
      ha_cancelledBy = None, ha_cancelledAt = None, ha_revision = 1, ha_createdAt = bq_now rq,
      ha_updatedAt = bq_now rq\<rparr>"

definition declareHandover_tx ::
  "brequest \<Rightarrow> principal \<Rightarrow> string list \<Rightarrow> bmoney \<Rightarrow> billing_db \<Rightarrow>
   billing_error + recorded_outcome \<times> billing_db" where
  "declareHandover_tx rq who requested declared db =
     (let receipts = (if card (set requested) = length requested then lockReceipts db requested else []) in
      andThen (decide_rule (planHandover (pr_subject who) receipts requested declared)) (\<lambda>amount.
      (let ha = new_handover rq (pr_subject who) amount (length receipts) in
       andThen (insertHandover ha (map (\<lambda>r. (re_id r, re_amount r)) receipts) db) (\<lambda>db1.
       andThen (hand_over_each rq (ha_id ha) receipts db1) (\<lambda>db2.
       andThen (custody_audit rq who ''billing.custody.handover-declared'' ''PENDING'' None None
                  (Some (ha_id ha)) db2) (\<lambda>db3.
       andThen (appendOutbox (handoverEvent rq who None ha) db3) (\<lambda>db4.
       Inr (handoverOutcome db4 ha 201, db4))))))))"

definition declareHandover ::
  "(json \<Rightarrow> string) \<Rightarrow> brequest \<Rightarrow> json option \<Rightarrow> json \<Rightarrow> billing_db \<Rightarrow> answer_db" where
  "declareHandover sha rq keyIn body db =
     checked (andThen (permitted rq COLLECT_PERMISSION) accountOnly) db (\<lambda>p.
     checked (idempotency_key keyIn) db (\<lambda>key.
     checked (objectWithKeys body [''receiptIds'', ''declaredAmount'']) db (\<lambda>input.
     checked (receiptIdSet (field input ''receiptIds'')) db (\<lambda>requested.
     checked (moneyInput (field input ''declaredAmount'')) db (\<lambda>declared.
     (let cmd = make_command sha (refOf p) ''billing.custody.handover.declare.v1'' key
                  [(''receiptIds'', JArray (map JString (sort requested))),
                   (''declaredAmount'', wire_json (Money_toWire declared))] in
      execute rq cmd (declareHandover_tx rq (refOf p) requested declared) db))))))"

definition cancelHandover_tx ::
  "brequest \<Rightarrow> principal \<Rightarrow> bool \<Rightarrow> bool \<Rightarrow> string \<Rightarrow> nat \<Rightarrow> billing_db \<Rightarrow>
   billing_error + recorded_outcome \<times> billing_db" where
  "cancelHandover_tx rq who holderDuty treasuryDuty i expectedRevision db =
     andThen (lockedHandover db i expectedRevision
                (\<lambda>ha. treasuryDuty \<or> holderDuty \<and> ha_holder ha = pr_subject who)) (\<lambda>ha.
     andThen (decide_rule (planHandoverCancel ha)) (\<lambda>_.
     (let ha' = ha\<lparr>ha_status := HO_CANCELLED, ha_cancelledBy := Some (pr_subject who),
                   ha_cancelledAt := Some (bq_now rq), ha_revision := ha_revision ha + 1,
                   ha_updatedAt := bq_now rq\<rparr> in
      andThen (updateHandover i (ha_revision ha) ha' db) (\<lambda>db1.
      andThen (moveReceipts rq i IN_HANDOVER HELD None db1) (\<lambda>db2.
      andThen (custody_audit rq who ''billing.custody.handover-cancelled'' ''CANCELLED'' None None (Some i) db2) (\<lambda>db3.
      andThen (appendOutbox (handoverEvent rq who (Some ha) ha') db3) (\<lambda>db4.
      Inr (handoverOutcome db4 ha' 200, db4))))))))"

definition cancelHandover ::
  "(json \<Rightarrow> string) \<Rightarrow> brequest \<Rightarrow> string \<Rightarrow> json option \<Rightarrow> json \<Rightarrow> billing_db \<Rightarrow> answer_db" where
  "cancelHandover sha rq handoverId keyIn body db =
     checked (andThen (principal_of rq) accountOnly) db (\<lambda>p.
     (let holderDuty = COLLECT_PERMISSION \<in> set (vp_permissions p);
          treasuryDuty = TREASURY_RECEIVE_PERMISSION \<in> set (vp_permissions p) in
      if \<not> holderDuty \<and> \<not> treasuryDuty then (app_error ''AUTH_FORBIDDEN'', db)
      else
        checked (target_id handoverId) db (\<lambda>i.
        checked (idempotency_key keyIn) db (\<lambda>key.
        checked (objectWithKeys body [''expectedRevision'']) db (\<lambda>input.
        checked (revision_field (field input ''expectedRevision'')) db (\<lambda>expectedRevision.
        (let cmd = make_command sha (refOf p) ''billing.custody.handover.cancel.v1'' key
                     [(''handoverId'', JString i), (''expectedRevision'', JNumber (JsInt (int expectedRevision)))] in
         execute rq cmd (cancelHandover_tx rq (refOf p) holderDuty treasuryDuty i expectedRevision) db)))))))"

definition treasuryReference :: "json option \<Rightarrow> billing_error + string" where
  "treasuryReference v =
     (case normalizeTreasuryReference v of None \<Rightarrow> app_error ''REQUEST_INVALID'' | Some s \<Rightarrow> Inr s)"

definition receiveHandover_tx ::
  "brequest \<Rightarrow> principal \<Rightarrow> string \<Rightarrow> nat \<Rightarrow> bmoney \<Rightarrow> string \<Rightarrow> billing_db \<Rightarrow>
   billing_error + recorded_outcome \<times> billing_db" where
  "receiveHandover_tx rq who i expectedRevision counted reference db =
     andThen (lockedHandover db i expectedRevision (\<lambda>_. True)) (\<lambda>ha.
     andThen (decide_rule (planTreasuryReceipt ha (pr_subject who) counted)) (\<lambda>plan.
     (let ha' = ha\<lparr>ha_status := RECEIVED, ha_counted := Some (tp_counted plan),
                   ha_shortage := Some (tp_shortage plan), ha_overage := Some (tp_overage plan),
                   ha_treasuryReference := Some reference, ha_receivedBy := Some (pr_subject who),
                   ha_receivedAt := Some (bq_now rq), ha_revision := ha_revision ha + 1,
                   ha_updatedAt := bq_now rq\<rparr> in
      andThen (updateHandover i (ha_revision ha) ha' db) (\<lambda>db1.
      andThen (post (custodyReceivedJournal i (ha_holder ha) (ha_declared ha) plan)
                 (meta_of rq 0 None (Some i) None) db1) (\<lambda>db2.
      andThen (moveReceipts rq i IN_HANDOVER DEPOSITED (Some i) db2) (\<lambda>db3.
      andThen (custody_audit rq who ''billing.custody.handover-received''
                 (if Money_isZero (tp_shortage plan)
                  then if Money_isZero (tp_overage plan) then ''RECEIVED'' else ''RECEIVED_OVERAGE''
                  else ''RECEIVED_SHORTAGE'') None None (Some i) db3) (\<lambda>db4.
      andThen (appendOutbox (handoverEvent rq who (Some ha) ha') db4) (\<lambda>db5.
      Inr (handoverOutcome db5 ha' 200, db5)))))))))"

definition receiveHandover ::
  "(json \<Rightarrow> string) \<Rightarrow> brequest \<Rightarrow> string \<Rightarrow> json option \<Rightarrow> json \<Rightarrow> billing_db \<Rightarrow> answer_db" where
  "receiveHandover sha rq handoverId keyIn body db =
     checked (andThen (permitted rq TREASURY_RECEIVE_PERMISSION) accountOnly) db (\<lambda>p.
     checked (target_id handoverId) db (\<lambda>i.
     checked (idempotency_key keyIn) db (\<lambda>key.
     checked (objectWithKeys body [''expectedRevision'', ''countedAmount'', ''treasuryReference'']) db (\<lambda>input.
     checked (revision_field (field input ''expectedRevision'')) db (\<lambda>expectedRevision.
     checked (moneyInput (field input ''countedAmount'')) db (\<lambda>counted.
     checked (treasuryReference (field input ''treasuryReference'')) db (\<lambda>reference.
     (let cmd = make_command sha (refOf p) ''billing.custody.handover.receive.v1'' key
                  [(''handoverId'', JString i), (''expectedRevision'', JNumber (JsInt (int expectedRevision))),
                   (''countedAmount'', wire_json (Money_toWire counted)),
                   (''treasuryReference'', JString reference)] in
      translating TreasuryReferenceTaken ''TREASURY_REFERENCE_TAKEN''
        (execute rq cmd (receiveHandover_tx rq (refOf p) i expectedRevision counted reference) db)))))))))"

definition reconcileHandover_tx ::
  "brequest \<Rightarrow> principal \<Rightarrow> string \<Rightarrow> nat \<Rightarrow> string \<Rightarrow> billing_db \<Rightarrow>
   billing_error + recorded_outcome \<times> billing_db" where
  "reconcileHandover_tx rq who i expectedRevision reference db =
     andThen (lockedHandover db i expectedRevision (\<lambda>_. True)) (\<lambda>ha.
     andThen (decide_rule (planHandoverReconciliation ha (pr_subject who))) (\<lambda>_.
     (case ha_counted ha of
        None \<Rightarrow> Inl (Fault ''RECEIVED_HANDOVER_WITHOUT_COUNT'')
      | Some counted \<Rightarrow>
          (let ha' = ha\<lparr>ha_status := RECONCILED, ha_settlementReference := Some reference,
                        ha_reconciledBy := Some (pr_subject who), ha_reconciledAt := Some (bq_now rq),
                        ha_revision := ha_revision ha + 1, ha_updatedAt := bq_now rq\<rparr> in
           andThen (updateHandover i (ha_revision ha) ha' db) (\<lambda>db1.
           andThen (if \<not> Money_isZero counted
                    then post (custodyReconciledJournal i counted) (meta_of rq 0 None (Some i) None) db1
                    else Inr db1) (\<lambda>db2.
           andThen (moveReceipts rq i DEPOSITED CU_SETTLED (Some i) db2) (\<lambda>db3.
           andThen (custody_audit rq who ''billing.custody.handover-reconciled'' ''RECONCILED'' None None
                      (Some i) db3) (\<lambda>db4.
           andThen (appendOutbox (handoverEvent rq who (Some ha) ha') db4) (\<lambda>db5.
           Inr (handoverOutcome db5 ha' 200, db5))))))))))"

definition reconcileHandover ::
  "(json \<Rightarrow> string) \<Rightarrow> brequest \<Rightarrow> string \<Rightarrow> json option \<Rightarrow> json \<Rightarrow> billing_db \<Rightarrow> answer_db" where
  "reconcileHandover sha rq handoverId keyIn body db =
     checked (andThen (permitted rq RECONCILE_PERMISSION) accountOnly) db (\<lambda>p.
     checked (target_id handoverId) db (\<lambda>i.
     checked (idempotency_key keyIn) db (\<lambda>key.
     checked (objectWithKeys body [''expectedRevision'', ''settlementReference'']) db (\<lambda>input.
     checked (revision_field (field input ''expectedRevision'')) db (\<lambda>expectedRevision.
     checked (treasuryReference (field input ''settlementReference'')) db (\<lambda>reference.
     (let cmd = make_command sha (refOf p) ''billing.custody.handover.reconcile.v1'' key
                  [(''handoverId'', JString i), (''expectedRevision'', JNumber (JsInt (int expectedRevision))),
                   (''settlementReference'', JString reference)] in
      translating TreasuryReferenceTaken ''TREASURY_REFERENCE_TAKEN''
        (execute rq cmd (reconcileHandover_tx rq (refOf p) i expectedRevision reference) db))))))))"

section \<open>The custody reports\<close>

definition all_lines :: "billing_db \<Rightarrow> journal_line list" where
  "all_lines db = concat (map (\<lambda>j. jp_lines (lj_plan j)) (b_journals db))"

text \<open>The balance of an account in the posted lines: debits less credits.\<close>

definition ledger_balance :: "billing_db \<Rightarrow> ledger_account \<Rightarrow> string \<Rightarrow> string option \<Rightarrow> int" where
  "ledger_balance db account c h = lines_balance account c h (all_lines db)"

definition in_custody :: "string \<Rightarrow> string \<Rightarrow> 'a receipt_state_scheme \<Rightarrow> bool" where
  "in_custody holder c re \<longleftrightarrow>
     re_collector re = holder \<and> mo_currency (re_amount re) = c \<and>
     re_custodyStatus re \<in> {HELD, IN_HANDOVER}"

definition receipts_in_custody :: "billing_db \<Rightarrow> string \<Rightarrow> string \<Rightarrow> int" where
  "receipts_in_custody db holder c =
     sum_rows (\<lambda>r. mo_amountMinor (re_amount r)) (in_custody holder c) (b_receipts db)"

text \<open>
  The holders and currencies the report joins: those of the custody lines and those of the
  receipts in custody (a full outer join), in the report's order.
\<close>

definition custody_keys :: "billing_db \<Rightarrow> (string \<times> string) list" where
  "custody_keys db =
     sort (remdups
       (List.map_filter
          (\<lambda>l. if jl_account l = CASH_IN_CUSTODY
               then map_option (\<lambda>h. (h, mo_currency (jl_amount l))) (jl_holder l) else None) (all_lines db) @
        map (\<lambda>r. (re_collector r, mo_currency (re_amount r)))
          (filter (\<lambda>r. re_custodyStatus r \<in> {HELD, IN_HANDOVER}) (b_receipts db))))"

record holder_invariant =
  hv_holder :: string
  hv_currency :: string
  hv_ledgerCustodyMinor :: int
  hv_receiptsInCustodyMinor :: int

record custody_report =
  cu_evaluatedAt :: instant
  cu_holderMismatches :: "holder_invariant list"
  cu_holdersChecked :: nat
  cu_receiptsWithoutSettledObligation :: nat
  cu_cashSettlementsWithoutReceipt :: nat
  cu_handoversPending :: nat
  cu_handoversAwaitingReconciliation :: nat
  cu_handoversWithDiscrepancy :: nat

definition positive_amount :: "bmoney option \<Rightarrow> bool" where
  "positive_amount m \<longleftrightarrow> (case m of None \<Rightarrow> False | Some a \<Rightarrow> mo_amountMinor a > 0)"

text \<open>
  \<^verbatim>\<open>reconciliationReport\<close>: its checks and counts. Its treasury positions, whose amounts can
  be refused, are \<open>treasuryPositions\<close> below; \<open>custodyReport\<close> is the whole answer.
\<close>

definition reconciliationReport :: "instant \<Rightarrow> billing_db \<Rightarrow> custody_report" where
  "reconciliationReport now db =
     (let rows = map (\<lambda>(h, c). \<lparr>hv_holder = h, hv_currency = c,
                        hv_ledgerCustodyMinor = ledger_balance db CASH_IN_CUSTODY c (Some h),
                        hv_receiptsInCustodyMinor = receipts_in_custody db h c\<rparr>) (custody_keys db) in
      \<lparr>cu_evaluatedAt = now,
       cu_holderMismatches =
         filter (\<lambda>r. hv_ledgerCustodyMinor r \<noteq> hv_receiptsInCustodyMinor r) rows,
       cu_holdersChecked = length rows,
       cu_receiptsWithoutSettledObligation =
         length (filter (\<lambda>r. active_receipt r \<and>
           list_ex (\<lambda>ob. ob_id ob = re_obligationId r \<and> ob_status ob \<noteq> SETTLED) (b_obligations db))
           (b_receipts db)),
       cu_cashSettlementsWithoutReceipt =
         length (filter (\<lambda>it. it_method it = CASH_ON_COMPLETION \<and> it_status it = SUCCEEDED \<and>
           \<not> list_ex (\<lambda>r. re_intentId r = it_id it \<and> active_receipt r) (b_receipts db)) (b_intents db)),
       cu_handoversPending = length (filter (\<lambda>h. ha_status h = HO_PENDING) (b_handovers db)),
       cu_handoversAwaitingReconciliation =
         length (filter (\<lambda>h. ha_status h = RECEIVED) (b_handovers db)),
       cu_handoversWithDiscrepancy =
         length (filter (\<lambda>h. ha_status h \<in> {RECEIVED, RECONCILED} \<and>
           (positive_amount (ha_shortage h) \<or> positive_amount (ha_overage h))) (b_handovers db))\<rparr>)"

text \<open>
  The treasury positions: one per currency of the treasury lines, in order, each the net of an
  account over all its holders. \<open>Money_of\<close> refuses a negative net, and then the read fails.
\<close>

definition TREASURY_ACCOUNTS :: "ledger_account list" where
  "TREASURY_ACCOUNTS =
     [TREASURY_CASH_UNRECONCILED, TREASURY_CASH, CUSTODY_SHORTAGE_RECEIVABLE, CUSTODY_OVERAGE_SUSPENSE]"

record treasury_position =
  ty_currency :: string
  ty_unreconciled :: bmoney
  ty_reconciled :: bmoney
  ty_shortageOutstanding :: bmoney
  ty_overageSuspense :: bmoney

definition treasury_keys :: "billing_db \<Rightarrow> string list" where
  "treasury_keys db =
     sort (remdups (map (\<lambda>l. mo_currency (jl_amount l))
       (filter (\<lambda>l. jl_account l \<in> set TREASURY_ACCOUNTS) (all_lines db))))"

definition account_net :: "billing_db \<Rightarrow> ledger_account \<Rightarrow> journal_side \<Rightarrow> string \<Rightarrow> int" where
  "account_net db account side c =
     (\<Sum>l \<leftarrow> filter (\<lambda>l. jl_account l = account \<and> mo_currency (jl_amount l) = c) (all_lines db).
        if jl_side l = side then mo_amountMinor (jl_amount l) else - mo_amountMinor (jl_amount l))"

definition treasury_position :: "billing_db \<Rightarrow> string \<Rightarrow> billing_error + treasury_position" where
  "treasury_position db c =
     andThen (Money_of c (account_net db TREASURY_CASH_UNRECONCILED DEBIT c)) (\<lambda>unreconciled.
     andThen (Money_of c (account_net db TREASURY_CASH DEBIT c)) (\<lambda>reconciled.
     andThen (Money_of c (account_net db CUSTODY_SHORTAGE_RECEIVABLE DEBIT c)) (\<lambda>shortage.
     andThen (Money_of c (account_net db CUSTODY_OVERAGE_SUSPENSE CREDIT c)) (\<lambda>overage.
     Inr \<lparr>ty_currency = c, ty_unreconciled = unreconciled, ty_reconciled = reconciled,
          ty_shortageOutstanding = shortage, ty_overageSuspense = overage\<rparr>))))"

fun each_position :: "billing_db \<Rightarrow> string list \<Rightarrow> billing_error + treasury_position list" where
  "each_position db [] = Inr []"
| "each_position db (c # cs) =
     andThen (treasury_position db c) (\<lambda>p. andThen (each_position db cs) (\<lambda>ps. Inr (p # ps)))"

definition treasuryPositions :: "billing_db \<Rightarrow> billing_error + treasury_position list" where
  "treasuryPositions db = each_position db (treasury_keys db)"

definition custodyReport ::
  "instant \<Rightarrow> billing_db \<Rightarrow> billing_error + custody_report \<times> treasury_position list" where
  "custodyReport now db =
     andThen (treasuryPositions db) (\<lambda>treasury. Inr (reconciliationReport now db, treasury))"

text \<open>The read answers exactly when every net is an amount, and its positions are those nets.\<close>

lemma each_position_Inr:
  "each_position db cs = Inr ps \<longleftrightarrow>
   map ty_currency ps = cs \<and>
   (\<forall>p \<in> set ps. made_money (ty_unreconciled p) \<and> made_money (ty_reconciled p) \<and>
      made_money (ty_shortageOutstanding p) \<and> made_money (ty_overageSuspense p) \<and>
      ty_unreconciled p = \<lparr>mo_currency = ty_currency p,
        mo_amountMinor = account_net db TREASURY_CASH_UNRECONCILED DEBIT (ty_currency p)\<rparr> \<and>
      ty_reconciled p = \<lparr>mo_currency = ty_currency p,
        mo_amountMinor = account_net db TREASURY_CASH DEBIT (ty_currency p)\<rparr> \<and>
      ty_shortageOutstanding p = \<lparr>mo_currency = ty_currency p,
        mo_amountMinor = account_net db CUSTODY_SHORTAGE_RECEIVABLE DEBIT (ty_currency p)\<rparr> \<and>
      ty_overageSuspense p = \<lparr>mo_currency = ty_currency p,
        mo_amountMinor = account_net db CUSTODY_OVERAGE_SUSPENSE CREDIT (ty_currency p)\<rparr>)"
proof (induction cs arbitrary: ps)
  case (Cons c cs)
  show ?case
  proof (cases ps)
    case (Cons p ps')
    have "treasury_position db c = Inr p \<longleftrightarrow> ty_currency p = c \<and>
        made_money (ty_unreconciled p) \<and> made_money (ty_reconciled p) \<and>
        made_money (ty_shortageOutstanding p) \<and> made_money (ty_overageSuspense p) \<and>
        ty_unreconciled p = \<lparr>mo_currency = c, mo_amountMinor = account_net db TREASURY_CASH_UNRECONCILED DEBIT c\<rparr> \<and>
        ty_reconciled p = \<lparr>mo_currency = c, mo_amountMinor = account_net db TREASURY_CASH DEBIT c\<rparr> \<and>
        ty_shortageOutstanding p = \<lparr>mo_currency = c, mo_amountMinor = account_net db CUSTODY_SHORTAGE_RECEIVABLE DEBIT c\<rparr> \<and>
        ty_overageSuspense p = \<lparr>mo_currency = c, mo_amountMinor = account_net db CUSTODY_OVERAGE_SUSPENSE CREDIT c\<rparr>"
      by (cases p) (auto simp: treasury_position_def)
    with Cons.IH [of ps'] Cons show ?thesis by auto
  qed auto
qed auto

text \<open>\<^verbatim>\<open>reconciliationView\<close>: what Finance is shown as \<^verbatim>\<open>consistent\<close>.\<close>

definition report_consistent :: "custody_report \<Rightarrow> bool" where
  "report_consistent r \<longleftrightarrow>
     length (cu_holderMismatches r) = 0 \<and> cu_receiptsWithoutSettledObligation r = 0 \<and>
     cu_cashSettlementsWithoutReceipt r = 0"

end
