(* ===== verification/Billing_Ledger.thy ===== *)
theory Billing_Ledger
  imports Billing_Custody
begin

text \<open>
  Billing, what the books promise. \<open>ledger_step\<close> is an abstract machine over the financial
  tables: one rule per business fact (an obligation is billed, cash is collected, a credit is
  allocated, a refund is paid, a handover is counted, ...), each with the journal it posts.
  \<open>books\<close> is the invariant: the ledger balances are what the rows say, every settled
  obligation is funded once and exactly, refunds never exceed their credit, and no decision was
  taken alone. \<open>Billing_Refinement\<close> shows that every transaction of the services is a run of
  this machine.
\<close>

section \<open>Balances of a journal table\<close>

definition journal_lines :: "journal list \<Rightarrow> journal_line list" where
  "journal_lines js = concat (map (\<lambda>j. jp_lines (lj_plan j)) js)"

definition balance :: "journal list \<Rightarrow> ledger_account \<Rightarrow> string \<Rightarrow> string option \<Rightarrow> int" where
  "balance js a c h = lines_balance a c h (journal_lines js)"

definition posted :: "journal_line list \<Rightarrow> journal list \<Rightarrow> journal list \<Rightarrow> bool" where
  "posted ls js js' \<longleftrightarrow>
     (\<exists>j. js' = js @ [j] \<and> jp_lines (lj_plan j) = ls \<and>
          jp_businessRef (lj_plan j) \<notin> (\<lambda>j. jp_businessRef (lj_plan j)) ` set js)"

lemma ledger_balance_eq: "ledger_balance db a c h = balance (b_journals db) a c h"
  by (simp add: ledger_balance_def balance_def all_lines_def journal_lines_def)

lemma balance_posted: "posted ls js js' \<Longrightarrow> balance js' a c h = balance js a c h + lines_balance a c h ls"
  by (auto simp: posted_def balance_def journal_lines_def)

section \<open>The invariant\<close>

abbreviation "amount_of_obligation ob \<equiv> mo_amountMinor (ob_amount ob)"

abbreviation "amount_of_receipt r \<equiv> mo_amountMinor (re_amount r)"

abbreviation "amount_of_credit c \<equiv> mo_amountMinor (cr_amount c)"

abbreviation "amount_of_refund f \<equiv> mo_amountMinor (rf_amount f)"

text \<open>Obligations: nothing is verified until the whole amount is.\<close>

definition obligation_ok :: "obligation \<Rightarrow> bool" where
  "obligation_ok ob \<longleftrightarrow>
     valid_money (ob_amount ob) \<and> 0 < amount_of_obligation ob \<and>
     ob_verified ob = \<lparr>mo_currency = mo_currency (ob_amount ob),
       mo_amountMinor = (if ob_status ob = SETTLED then amount_of_obligation ob else 0)\<rparr>"

definition obligations_ok :: "obligation list \<Rightarrow> bool" where
  "obligations_ok obs \<longleftrightarrow>
     distinct (map ob_id obs) \<and> distinct (map ob_quoteId obs) \<and> (\<forall>ob \<in> set obs. obligation_ok ob)"

definition open_in :: "string \<Rightarrow> obligation \<Rightarrow> bool" where
  "open_in c ob \<longleftrightarrow> ob_status ob = OPEN \<and> mo_currency (ob_amount ob) = c"

definition receivable_ok :: "obligation list \<Rightarrow> journal list \<Rightarrow> bool" where
  "receivable_ok obs js \<longleftrightarrow>
     (\<forall>c. balance js CUSTOMER_RECEIVABLE c None = sum_rows amount_of_obligation (open_in c) obs)"

text \<open>Cash: what the ledger says a holder keeps is what their receipts say.\<close>

definition receipts_ok :: "cash_receipt list \<Rightarrow> bool" where
  "receipts_ok res \<longleftrightarrow>
     distinct (map re_id res) \<and> (\<forall>r \<in> set res. valid_money (re_amount r) \<and> 0 < amount_of_receipt r)"

definition custody_ok :: "cash_receipt list \<Rightarrow> journal list \<Rightarrow> bool" where
  "custody_ok res js \<longleftrightarrow>
     (\<forall>c h. balance js CASH_IN_CUSTODY c (Some h) = sum_rows amount_of_receipt (in_custody h c) res)"

text \<open>Credits and refunds.\<close>

definition confirmed :: "credit \<Rightarrow> bool" where
  "confirmed c \<longleftrightarrow> cr_status c \<in> {UNALLOCATED, ALLOCATED}"

definition paid_back :: "string \<Rightarrow> refund list \<Rightarrow> int" where
  "paid_back k rfs =
     sum_rows amount_of_refund (\<lambda>f. rf_creditId f = k \<and> rf_status f = RF_SUCCEEDED) rfs"

definition credits_ok :: "credit list \<Rightarrow> bool" where
  "credits_ok crs \<longleftrightarrow>
     distinct (map cr_id crs) \<and> (\<forall>c \<in> set crs. valid_money (cr_amount c) \<and> 0 < amount_of_credit c)"

definition refunds_ok :: "credit list \<Rightarrow> refund list \<Rightarrow> bool" where
  "refunds_ok crs rfs \<longleftrightarrow>
     distinct (map rf_id rfs) \<and>
     (\<forall>f \<in> set rfs. 0 < amount_of_refund f \<and>
        (\<exists>c \<in> set crs. cr_id c = rf_creditId f \<and> confirmed c \<and>
           mo_currency (rf_amount f) = mo_currency (cr_amount c))) \<and>
     (\<forall>c \<in> set crs. reserved_sum (cr_id c) rfs \<le> amount_of_credit c)"

definition unallocated_in :: "string \<Rightarrow> credit \<Rightarrow> bool" where
  "unallocated_in cur c \<longleftrightarrow> cr_status c = UNALLOCATED \<and> mo_currency (cr_amount c) = cur"

definition unallocated_ok :: "credit list \<Rightarrow> refund list \<Rightarrow> journal list \<Rightarrow> bool" where
  "unallocated_ok crs rfs js \<longleftrightarrow>
     (\<forall>cur. balance js PROVIDER_CREDITS_UNALLOCATED cur None =
        - sum_rows (\<lambda>c. amount_of_credit c - paid_back (cr_id c) rfs) (unallocated_in cur) crs)"

text \<open>Funding: a settled obligation has exactly one effective receipt or one allocated credit.\<close>

definition fundings :: "string \<Rightarrow> cash_receipt list \<Rightarrow> credit list \<Rightarrow> nat" where
  "fundings i res crs =
     length (filter (\<lambda>r. active_receipt r \<and> re_obligationId r = i) res) +
     length (filter (\<lambda>c. cr_status c = ALLOCATED \<and> cr_obligationId c = Some i) crs)"

definition funding_ok :: "obligation list \<Rightarrow> cash_receipt list \<Rightarrow> credit list \<Rightarrow> bool" where
  "funding_ok obs res crs \<longleftrightarrow>
     (\<forall>ob \<in> set obs. fundings (ob_id ob) res crs = (if ob_status ob = SETTLED then 1 else 0)) \<and>
     (\<forall>r \<in> set res. \<exists>ob \<in> set obs. ob_id ob = re_obligationId r \<and> re_amount r = ob_amount ob \<and>
        re_collector r \<noteq> pr_subject (ob_owner ob)) \<and>
     (\<forall>c \<in> set crs. cr_status c = ALLOCATED \<longrightarrow>
        (\<exists>ob \<in> set obs. cr_obligationId c = Some (ob_id ob) \<and> cr_amount c = ob_amount ob \<and>
           cr_recordedBy c \<noteq> Some (pr_subject (ob_owner ob))))"

text \<open>Intents: the status fits the method; a cash intent that succeeded has its receipt.\<close>

definition intent_coherent :: "intent \<Rightarrow> bool" where
  "intent_coherent it \<longleftrightarrow>
     (it_status it = AWAITING_CASH_COLLECTION \<longrightarrow> it_method it = CASH_ON_COMPLETION) \<and>
     (it_status it \<in> {AWAITING_CUSTOMER_PAYMENT, UNDER_REVIEW} \<longrightarrow> isElectronic (it_method it))"

definition cash_success :: "intent \<Rightarrow> bool" where
  "cash_success it \<longleftrightarrow> it_method it = CASH_ON_COMPLETION \<and> it_status it = SUCCEEDED"

definition intents_ok :: "intent list \<Rightarrow> cash_receipt list \<Rightarrow> bool" where
  "intents_ok ints res \<longleftrightarrow>
     distinct (map it_id ints) \<and> (\<forall>it \<in> set ints. intent_coherent it) \<and>
     (\<forall>it \<in> set ints. cash_success it \<longrightarrow>
        (\<exists>r \<in> set res. re_intentId r = it_id it \<and> active_receipt r))"

text \<open>Claims: a reported payment belongs to an intent of an electronic method.\<close>

definition electronic_intent :: "intent list \<Rightarrow> string \<Rightarrow> bool" where
  "electronic_intent ints i \<longleftrightarrow> (\<exists>it \<in> set ints. it_id it = i \<and> isElectronic (it_method it))"

definition claims_ok :: "intent list \<Rightarrow> attempt list \<Rightarrow> bool" where
  "claims_ok ints ats \<longleftrightarrow> (\<forall>a \<in> set ats. electronic_intent ints (at_intentId a))"

text \<open>
  Handovers: the declared total is the sum of the receipts the handover was made of; all are the
  holder's. A counted handover's shortage and overage are the difference.
\<close>

definition item_ids :: "string \<Rightarrow> handover_item list \<Rightarrow> string list" where
  "item_ids i items = map hi_receiptId (filter (\<lambda>x. hi_handoverId x = i) items)"

definition handover_ok :: "handover_item list \<Rightarrow> cash_receipt list \<Rightarrow> handover \<Rightarrow> bool" where
  "handover_ok items res ha \<longleftrightarrow>
     (let ids = item_ids (ha_id ha) items in
      distinct ids \<and> set ids \<subseteq> re_id ` set res \<and>
      (\<forall>r \<in> set res. re_id r \<in> set ids \<longrightarrow>
         re_collector r = ha_holder ha \<and> mo_currency (re_amount r) = mo_currency (ha_declared ha)) \<and>
      sum_rows amount_of_receipt (\<lambda>r. re_id r \<in> set ids) res = mo_amountMinor (ha_declared ha))"

definition counted_ok :: "handover \<Rightarrow> bool" where
  "counted_ok ha \<longleftrightarrow>
     (if ha_status ha \<in> {RECEIVED, RECONCILED} then
        (\<exists>n s v. ha_counted ha = Some n \<and> ha_shortage ha = Some s \<and> ha_overage ha = Some v \<and>
           mo_currency n = mo_currency (ha_declared ha) \<and> mo_currency s = mo_currency (ha_declared ha) \<and>
           mo_currency v = mo_currency (ha_declared ha) \<and>
           mo_amountMinor s = max 0 (mo_amountMinor (ha_declared ha) - mo_amountMinor n) \<and>
           mo_amountMinor v = max 0 (mo_amountMinor n - mo_amountMinor (ha_declared ha)))
      else ha_counted ha = None \<and> ha_shortage ha = None \<and> ha_overage ha = None)"

definition handovers_ok :: "handover list \<Rightarrow> handover_item list \<Rightarrow> cash_receipt list \<Rightarrow> bool" where
  "handovers_ok has items res \<longleftrightarrow>
     distinct (map ha_id has) \<and> (\<forall>ha \<in> set has. handover_ok items res ha \<and> counted_ok ha) \<and>
     (\<forall>x \<in> set items. hi_handoverId x \<in> ha_id ` set has)"

text \<open>The treasury accounts, over the handovers in each state.\<close>

definition opt_amount :: "bmoney option \<Rightarrow> int" where
  "opt_amount m = (case m of None \<Rightarrow> 0 | Some a \<Rightarrow> mo_amountMinor a)"

definition handover_in :: "handover_status set \<Rightarrow> string \<Rightarrow> handover \<Rightarrow> bool" where
  "handover_in sts c ha \<longleftrightarrow> ha_status ha \<in> sts \<and> mo_currency (ha_declared ha) = c"

definition treasury_ok :: "handover list \<Rightarrow> journal list \<Rightarrow> bool" where
  "treasury_ok has js \<longleftrightarrow>
     (\<forall>c. balance js TREASURY_CASH_UNRECONCILED c None =
            sum_rows (\<lambda>h. opt_amount (ha_counted h)) (handover_in {RECEIVED} c) has \<and>
          balance js TREASURY_CASH c None =
            sum_rows (\<lambda>h. opt_amount (ha_counted h)) (handover_in {RECONCILED} c) has \<and>
          balance js CUSTODY_OVERAGE_SUSPENSE c None =
            - sum_rows (\<lambda>h. opt_amount (ha_overage h)) (handover_in {RECEIVED, RECONCILED} c) has \<and>
          (\<forall>k. balance js CUSTODY_SHORTAGE_RECEIVABLE c (Some k) =
            sum_rows (\<lambda>h. opt_amount (ha_shortage h))
              (\<lambda>h. handover_in {RECEIVED, RECONCILED} c h \<and> ha_holder h = k) has))"

text \<open>Every posted journal balances and has its own business reference.\<close>

definition journals_ok :: "journal list \<Rightarrow> bool" where
  "journals_ok js \<longleftrightarrow>
     distinct (map (\<lambda>j. jp_businessRef (lj_plan j)) js) \<and>
     (\<forall>j \<in> set js. \<forall>c. lines_total c (jp_lines (lj_plan j)) = 0)"

text \<open>Separation of duties, as the rows record it.\<close>

definition handover_duties :: "handover \<Rightarrow> bool" where
  "handover_duties ha \<longleftrightarrow>
     (ha_status ha \<in> {RECEIVED, RECONCILED} \<longrightarrow>
        (\<exists>r. ha_receivedBy ha = Some r \<and> r \<noteq> ha_holder ha)) \<and>
     (ha_status ha = RECONCILED \<longrightarrow>
        (\<exists>r. ha_reconciledBy ha = Some r \<and> r \<noteq> ha_holder ha \<and> ha_receivedBy ha \<noteq> Some r))"

definition credit_duties :: "credit \<Rightarrow> bool" where
  "credit_duties c \<longleftrightarrow>
     (cr_source c = MERCHANT_STATEMENT \<and> confirmed c \<longrightarrow>
        (\<exists>r d. cr_recordedBy c = Some r \<and> cr_decidedBy c = Some d \<and> r \<noteq> d))"

definition refund_duties :: "refund \<Rightarrow> bool" where
  "refund_duties f \<longleftrightarrow>
     (rf_status f \<noteq> REQUESTED \<longrightarrow> (\<exists>d. rf_decidedBy f = Some d \<and> d \<noteq> rf_requestedBy f))"

definition duties_ok :: "handover list \<Rightarrow> credit list \<Rightarrow> refund list \<Rightarrow> bool" where
  "duties_ok has crs rfs \<longleftrightarrow>
     (\<forall>h \<in> set has. handover_duties h) \<and> (\<forall>c \<in> set crs. credit_duties c) \<and>
     (\<forall>f \<in> set rfs. refund_duties f)"

text \<open>Each command key has one recorded answer.\<close>

definition receipt_key :: "idempotency_receipt \<Rightarrow> principal \<times> string \<times> string" where
  "receipt_key r = (ir_actor r, ir_operation r, ir_key r)"

definition books :: "billing_db \<Rightarrow> bool" where
  "books db \<longleftrightarrow>
     obligations_ok (b_obligations db) \<and> receivable_ok (b_obligations db) (b_journals db) \<and>
     receipts_ok (b_receipts db) \<and> custody_ok (b_receipts db) (b_journals db) \<and>
     credits_ok (b_credits db) \<and> refunds_ok (b_credits db) (b_refunds db) \<and>
     unallocated_ok (b_credits db) (b_refunds db) (b_journals db) \<and>
     funding_ok (b_obligations db) (b_receipts db) (b_credits db) \<and>
     intents_ok (b_intents db) (b_receipts db) \<and>
     handovers_ok (b_handovers db) (b_items db) (b_receipts db) \<and>
     treasury_ok (b_handovers db) (b_journals db) \<and> journals_ok (b_journals db) \<and>
     duties_ok (b_handovers db) (b_credits db) (b_refunds db) \<and>
     claims_ok (b_intents db) (b_attempts db) \<and>
     distinct (map receipt_key (b_idempotency db))"

section \<open>The machine\<close>

text \<open>The financial tables and the recorded answers; audit, outbox, links and reversals are left out.\<close>

definition same_core :: "billing_db \<Rightarrow> billing_db \<Rightarrow> bool" where
  "same_core a b \<longleftrightarrow>
     b_obligations a = b_obligations b \<and> b_intents a = b_intents b \<and> b_journals a = b_journals b \<and>
     b_receipts a = b_receipts b \<and> b_handovers a = b_handovers b \<and> b_items a = b_items b \<and>
     b_credits a = b_credits b \<and> b_refunds a = b_refunds b \<and> b_attempts a = b_attempts b \<and>
     b_idempotency a = b_idempotency b"

definition set_row :: "('r \<Rightarrow> 'k) \<Rightarrow> 'r \<Rightarrow> 'r \<Rightarrow> 'r list \<Rightarrow> 'r list" where
  "set_row key r r' rows = update_rows (\<lambda>x. key x = key r) (\<lambda>_. r') rows"

text \<open>The obligation with only its revision and time moved.\<close>

definition obligation_core :: "obligation \<Rightarrow> string \<times> string \<times> principal \<times> bmoney" where
  "obligation_core ob = (ob_id ob, ob_quoteId ob, ob_owner ob, ob_amount ob)"

definition obligation_becomes :: "obligation_status \<Rightarrow> obligation \<Rightarrow> obligation \<Rightarrow> bool" where
  "obligation_becomes st ob ob' \<longleftrightarrow>
     obligation_core ob' = obligation_core ob \<and> ob_status ob' = st \<and>
     (obligation_ok ob \<longrightarrow> obligation_ok ob')"

text \<open>Intents are never deleted and keep their method.\<close>

definition methods_kept :: "intent list \<Rightarrow> intent list \<Rightarrow> bool" where
  "methods_kept ints ints' \<longleftrightarrow>
     (\<forall>it \<in> set ints. \<exists>it' \<in> set ints'. it_id it' = it_id it \<and> it_method it' = it_method it)"

definition quiet_intents :: "intent list \<Rightarrow> intent list \<Rightarrow> bool" where
  "quiet_intents ints ints' \<longleftrightarrow>
     distinct (map it_id ints') \<and> methods_kept ints ints' \<and>
     (\<forall>it \<in> set ints'. it \<in> set ints \<or> intent_coherent it \<and> \<not> cash_success it)"

text \<open>At most one more recorded answer, under a new key.\<close>

definition answer_saved :: "idempotency_receipt list \<Rightarrow> idempotency_receipt list \<Rightarrow> bool" where
  "answer_saved rs rs' \<longleftrightarrow> rs' = rs \<or> (\<exists>r. rs' = rs @ [r] \<and> receipt_key r \<notin> receipt_key ` set rs)"

text \<open>Claims keep their intent; a new one is of an electronic intent.\<close>

definition claims_follow :: "intent list \<Rightarrow> attempt list \<Rightarrow> attempt list \<Rightarrow> bool" where
  "claims_follow ints ats ats' \<longleftrightarrow>
     (\<forall>a \<in> set ats'. at_intentId a \<in> at_intentId ` set ats \<or> electronic_intent ints (at_intentId a))"

text \<open>The receipt with only its custody moved.\<close>

definition receipt_core ::
  "cash_receipt \<Rightarrow> string \<times> string \<times> bmoney \<times> string \<times> string" where
  "receipt_core r = (re_id r, re_collector r, re_amount r, re_obligationId r, re_intentId r)"

definition receipts_moved ::
  "string set \<Rightarrow> custody_status \<Rightarrow> custody_status \<Rightarrow> cash_receipt list \<Rightarrow> cash_receipt list \<Rightarrow> bool" where
  "receipts_moved ids was becomes res res' \<longleftrightarrow>
     list_all2 (\<lambda>r r'. receipt_core r' = receipt_core r \<and>
       (if re_id r \<in> ids then re_custodyStatus r = was \<and> re_custodyStatus r' = becomes
        else re_custodyStatus r' = re_custodyStatus r)) res res'"

definition handover_core :: "handover \<Rightarrow> string \<times> string \<times> bmoney" where
  "handover_core ha = (ha_id ha, ha_holder ha, ha_declared ha)"

definition credit_core ::
  "credit \<Rightarrow> string \<times> bmoney \<times> pay_method \<times> credit_source \<times> string option" where
  "credit_core c = (cr_id c, cr_amount c, cr_provider c, cr_source c, cr_recordedBy c)"

definition refund_core :: "refund \<Rightarrow> string \<times> string \<times> bmoney \<times> string" where
  "refund_core f = (rf_id f, rf_creditId f, rf_amount f, rf_requestedBy f)"

text \<open>
  The credit that becomes \<open>c\<close>: a new one, one awaiting approval, or one already received;
  the first two post \<open>CREDIT_RECEIVED\<close>.
\<close>

inductive credit_confirmed ::
  "credit \<Rightarrow> credit list \<Rightarrow> refund list \<Rightarrow> journal list \<Rightarrow> credit list \<Rightarrow> journal list \<Rightarrow> bool" where
  new_credit:
  "\<lbrakk> cr_id c \<notin> cr_id ` set crs; cr_source c \<noteq> MERCHANT_STATEMENT; valid_money (cr_amount c);
     0 < amount_of_credit c; clearingAccount (cr_provider c) = Inr clearing;
     posted [line clearing DEBIT (cr_amount c), line PROVIDER_CREDITS_UNALLOCATED CREDIT (cr_amount c)] js js' \<rbrakk>
   \<Longrightarrow> credit_confirmed c crs rfs js (crs @ [c]) js'"
| pending_credit:
  "\<lbrakk> p \<in> set crs; cr_status p = PENDING_APPROVAL; credit_core c = credit_core p;
     cr_recordedBy p = Some r; cr_decidedBy c = Some d; r \<noteq> d;
     clearingAccount (cr_provider c) = Inr clearing;
     posted [line clearing DEBIT (cr_amount c), line PROVIDER_CREDITS_UNALLOCATED CREDIT (cr_amount c)] js js' \<rbrakk>
   \<Longrightarrow> credit_confirmed c crs rfs js (set_row cr_id p c crs) js'"
| received_credit:
  "\<lbrakk> p \<in> set crs; cr_status p = UNALLOCATED; credit_core c = credit_core p;
     cr_decidedBy c = cr_decidedBy p; reserved_sum (cr_id p) rfs = 0 \<rbrakk>
   \<Longrightarrow> credit_confirmed c crs rfs js (set_row cr_id p c crs) js"

inductive ledger_step :: "billing_db \<Rightarrow> billing_db \<Rightarrow> bool" where
  quiet:
  "\<lbrakk> quiet_intents (b_intents db) ints;
     same_core db' (db\<lparr>b_obligations := b_obligations db', b_intents := ints, b_attempts := b_attempts db',
                       b_idempotency := b_idempotency db'\<rparr>);
     b_obligations db' = b_obligations db \<or>
     ob \<in> set (b_obligations db) \<and> obligation_becomes (ob_status ob) ob ob' \<and>
       b_obligations db' = set_row ob_id ob ob' (b_obligations db);
     claims_follow ints (b_attempts db) (b_attempts db'); answer_saved (b_idempotency db) (b_idempotency db') \<rbrakk>
   \<Longrightarrow> ledger_step db db'"
| bill:
  "\<lbrakk> ob_id ob \<notin> ob_id ` set (b_obligations db); ob_quoteId ob \<notin> ob_quoteId ` set (b_obligations db);
     ob_status ob = OPEN; obligation_ok ob;
     posted [line CUSTOMER_RECEIVABLE DEBIT (ob_amount ob), line BILLED_OBLIGATIONS_CONTROL CREDIT (ob_amount ob)]
       (b_journals db) js;
     same_core db' (db\<lparr>b_obligations := b_obligations db @ [ob], b_journals := js\<rparr>) \<rbrakk>
   \<Longrightarrow> ledger_step db db'"
| void_obligation:
  "\<lbrakk> ob \<in> set (b_obligations db); ob_status ob = OPEN; obligation_becomes VOIDED ob ob';
     quiet_intents (b_intents db) ints;
     posted [line BILLED_OBLIGATIONS_CONTROL DEBIT (ob_amount ob), line CUSTOMER_RECEIVABLE CREDIT (ob_amount ob)]
       (b_journals db) js;
     same_core db' (db\<lparr>b_obligations := set_row ob_id ob ob' (b_obligations db), b_intents := ints,
                       b_journals := js\<rparr>) \<rbrakk>
   \<Longrightarrow> ledger_step db db'"
| leave_credit:
  "\<lbrakk> credit_confirmed c (b_credits db) (b_refunds db) (b_journals db) crs js; cr_status c = UNALLOCATED;
     same_core db' (db\<lparr>b_credits := crs, b_journals := js\<rparr>) \<rbrakk>
   \<Longrightarrow> ledger_step db db'"
| allocate_credit:
  "\<lbrakk> credit_confirmed c (b_credits db) (b_refunds db) (b_journals db) crs js;
     cr_status c = ALLOCATED; cr_obligationId c = Some (ob_id ob); cr_amount c = ob_amount ob;
     cr_recordedBy c \<noteq> Some (pr_subject (ob_owner ob));
     ob \<in> set (b_obligations db); ob_status ob = OPEN; obligation_becomes SETTLED ob ob';
     quiet_intents (b_intents db) ints;
     posted [line PROVIDER_CREDITS_UNALLOCATED DEBIT (cr_amount c), line CUSTOMER_RECEIVABLE CREDIT (cr_amount c)]
       js js';
     same_core db' (db\<lparr>b_credits := crs, b_intents := ints, b_journals := js',
                       b_obligations := set_row ob_id ob ob' (b_obligations db),
                       b_attempts := b_attempts db'\<rparr>);
     claims_follow ints (b_attempts db) (b_attempts db') \<rbrakk>
   \<Longrightarrow> ledger_step db db'"
| record_statement:
  "\<lbrakk> cr_id c \<notin> cr_id ` set (b_credits db); cr_status c = PENDING_APPROVAL; valid_money (cr_amount c);
     0 < amount_of_credit c; same_core db' (db\<lparr>b_credits := b_credits db @ [c]\<rparr>) \<rbrakk>
   \<Longrightarrow> ledger_step db db'"
| reject_statement:
  "\<lbrakk> p \<in> set (b_credits db); cr_status p = PENDING_APPROVAL; cr_status c = CR_REJECTED;
     credit_core c = credit_core p;
     same_core db' (db\<lparr>b_credits := set_row cr_id p c (b_credits db)\<rparr>) \<rbrakk>
   \<Longrightarrow> ledger_step db db'"
| request_refund:
  "\<lbrakk> c \<in> set (b_credits db); confirmed c; rf_id f \<notin> rf_id ` set (b_refunds db); rf_creditId f = cr_id c;
     mo_currency (rf_amount f) = mo_currency (cr_amount c); 0 < amount_of_refund f;
     amount_of_refund f + reserved_sum (cr_id c) (b_refunds db) \<le> amount_of_credit c;
     rf_status f = REQUESTED; same_core db' (db\<lparr>b_refunds := b_refunds db @ [f]\<rparr>) \<rbrakk>
   \<Longrightarrow> ledger_step db db'"
| move_refund:
  "\<lbrakk> f \<in> set (b_refunds db); refund_core f' = refund_core f; reserving f; rf_status f \<noteq> RF_SUCCEEDED;
     rf_status f' \<noteq> RF_SUCCEEDED; refund_duties f';
     same_core db' (db\<lparr>b_refunds := set_row rf_id f f' (b_refunds db)\<rparr>) \<rbrakk>
   \<Longrightarrow> ledger_step db db'"
| pay_refund:
  "\<lbrakk> f \<in> set (b_refunds db); refund_core f' = refund_core f; reserving f; rf_status f \<noteq> RF_SUCCEEDED;
     rf_status f' = RF_SUCCEEDED; refund_duties f';
     c \<in> set (b_credits db); cr_id c = rf_creditId f; clearingAccount (cr_provider c) = Inr clearing;
     posted [line (if cr_status c = ALLOCATED then REFUNDS_CONTROL else PROVIDER_CREDITS_UNALLOCATED) DEBIT
               (rf_amount f), line clearing CREDIT (rf_amount f)] (b_journals db) js;
     same_core db' (db\<lparr>b_refunds := set_row rf_id f f' (b_refunds db), b_journals := js\<rparr>) \<rbrakk>
   \<Longrightarrow> ledger_step db db'"
| collect:
  "\<lbrakk> ob \<in> set (b_obligations db); ob_status ob = OPEN; obligation_becomes SETTLED ob ob';
     re_id r \<notin> re_id ` set (b_receipts db); re_obligationId r = ob_id ob; re_amount r = ob_amount ob;
     re_custodyStatus r = HELD; re_collector r \<noteq> pr_subject (ob_owner ob);
     it \<in> set (b_intents db); it_method it = CASH_ON_COMPLETION; re_intentId r = it_id it;
     it_id it' = it_id it; it_method it' = it_method it; it_status it' = SUCCEEDED;
     posted [holder_line CASH_IN_CUSTODY DEBIT (re_amount r) (re_collector r),
             line CUSTOMER_RECEIVABLE CREDIT (re_amount r)] (b_journals db) js;
     same_core db' (db\<lparr>b_obligations := set_row ob_id ob ob' (b_obligations db),
                       b_receipts := b_receipts db @ [r], b_journals := js,
                       b_intents := set_row it_id it it' (b_intents db)\<rparr>) \<rbrakk>
   \<Longrightarrow> ledger_step db db'"
| reverse:
  "\<lbrakk> ob \<in> set (b_obligations db); obligation_becomes OPEN ob ob'; r \<in> set (b_receipts db);
     re_obligationId r = ob_id ob; re_custodyStatus r = HELD;
     receipts_moved {re_id r} HELD REVERSED (b_receipts db) res;
     distinct (map it_id ints);
     \<forall>it \<in> set ints. (it \<in> set (b_intents db) \<and> it_id it \<noteq> re_intentId r) \<or>
        intent_coherent it \<and> \<not> cash_success it;
     posted [line CUSTOMER_RECEIVABLE DEBIT (re_amount r),
             holder_line CASH_IN_CUSTODY CREDIT (re_amount r) (re_collector r)] (b_journals db) js;
     same_core db' (db\<lparr>b_obligations := set_row ob_id ob ob' (b_obligations db), b_receipts := res,
                       b_journals := js, b_intents := ints\<rparr>);
     methods_kept (b_intents db) ints \<rbrakk>
   \<Longrightarrow> ledger_step db db'"
| declare_handover:
  "\<lbrakk> ha_id ha \<notin> ha_id ` set (b_handovers db); ha_status ha = HO_PENDING; counted_ok ha;
     items = map (\<lambda>k. \<lparr>hi_handoverId = ha_id ha, hi_receiptId = fst k, hi_amount = snd k\<rparr>) ks;
     distinct (map fst ks); set (map fst ks) \<subseteq> re_id ` set (b_receipts db);
     \<forall>r \<in> set (b_receipts db). re_id r \<in> set (map fst ks) \<longrightarrow>
        re_collector r = ha_holder ha \<and> mo_currency (re_amount r) = mo_currency (ha_declared ha);
     sum_rows amount_of_receipt (\<lambda>r. re_id r \<in> set (map fst ks)) (b_receipts db) =
        mo_amountMinor (ha_declared ha);
     receipts_moved (set (map fst ks)) HELD IN_HANDOVER (b_receipts db) res;
     same_core db' (db\<lparr>b_handovers := b_handovers db @ [ha], b_items := b_items db @ items,
                       b_receipts := res\<rparr>) \<rbrakk>
   \<Longrightarrow> ledger_step db db'"
| cancel_handover:
  "\<lbrakk> ha \<in> set (b_handovers db); ha_status ha = HO_PENDING; ha_status ha' = HO_CANCELLED;
     handover_core ha' = handover_core ha; counted_ok ha';
     receipts_moved (set (item_ids (ha_id ha) (b_items db))) IN_HANDOVER HELD (b_receipts db) res;
     same_core db' (db\<lparr>b_handovers := set_row ha_id ha ha' (b_handovers db), b_receipts := res\<rparr>) \<rbrakk>
   \<Longrightarrow> ledger_step db db'"
| receive_handover:
  "\<lbrakk> ha \<in> set (b_handovers db); ha_status ha = HO_PENDING; ha_status ha' = RECEIVED;
     handover_core ha' = handover_core ha; counted_ok ha'; handover_duties ha';
     ha_counted ha' = Some n; ha_shortage ha' = Some s; ha_overage ha' = Some v;
     posted ((if mo_amountMinor n = 0 then [] else [line TREASURY_CASH_UNRECONCILED DEBIT n]) @
             (if mo_amountMinor s = 0 then []
              else [holder_line CUSTODY_SHORTAGE_RECEIVABLE DEBIT s (ha_holder ha)]) @
             [holder_line CASH_IN_CUSTODY CREDIT (ha_declared ha) (ha_holder ha)] @
             (if mo_amountMinor v = 0 then [] else [line CUSTODY_OVERAGE_SUSPENSE CREDIT v])) (b_journals db) js;
     receipts_moved (set (item_ids (ha_id ha) (b_items db))) IN_HANDOVER DEPOSITED (b_receipts db) res;
     same_core db' (db\<lparr>b_handovers := set_row ha_id ha ha' (b_handovers db), b_receipts := res,
                       b_journals := js\<rparr>) \<rbrakk>
   \<Longrightarrow> ledger_step db db'"
| reconcile_handover:
  "\<lbrakk> ha \<in> set (b_handovers db); ha_status ha = RECEIVED; ha_status ha' = RECONCILED;
     handover_core ha' = handover_core ha; counted_ok ha'; handover_duties ha';
     ha_counted ha = Some n; ha_counted ha' = Some n; ha_shortage ha' = ha_shortage ha;
     ha_overage ha' = ha_overage ha;
     if mo_amountMinor n = 0 then js = b_journals db
     else posted [line TREASURY_CASH DEBIT n, line TREASURY_CASH_UNRECONCILED CREDIT n] (b_journals db) js;
     receipts_moved (set (item_ids (ha_id ha) (b_items db))) DEPOSITED CU_SETTLED (b_receipts db) res;
     same_core db' (db\<lparr>b_handovers := set_row ha_id ha ha' (b_handovers db), b_receipts := res,
                       b_journals := js\<rparr>) \<rbrakk>
   \<Longrightarrow> ledger_step db db'"

lemma books_empty: "books empty_billing_db"
  by (simp add: books_def empty_billing_db_def obligations_ok_def receivable_ok_def receipts_ok_def
      custody_ok_def credits_ok_def refunds_ok_def unallocated_ok_def funding_ok_def intents_ok_def
      handovers_ok_def treasury_ok_def journals_ok_def duties_ok_def claims_ok_def balance_def journal_lines_def)

end
