(* ===== verification/Billing_Books.thy ===== *)
theory Billing_Books
  imports Billing_Ledger
begin

text \<open>
  Billing, the books stay right: every step of the ledger machine keeps the invariant. Each part
  of it is shown on the tables it reads, from how one row's change moves a sum or a count.
\<close>

section \<open>One row of a table\<close>

lemma set_row_distinct:
  assumes "distinct (map key rows)" and "key r' = key r"
  shows "distinct (map key (set_row key r r' rows))"
proof -
  have "map key (set_row key r r' rows) = map key rows"
    using assms(2) by (auto simp: set_row_def update_rows_def)
  with assms(1) show ?thesis by simp
qed

lemma set_row_set:
  assumes "distinct (map key rows)" and "r \<in> set rows"
  shows "set (set_row key r r' rows) = insert r' (set rows - {r})"
proof -
  have "x = r" if "x \<in> set rows" "key x = key r" for x
    using that assms distinct_key_eq [of key rows x r] by blast
  then show ?thesis using assms(2) by (auto simp: set_row_def update_rows_def image_iff)
qed

lemma set_row_mem:
  assumes "distinct (map key rows)" and "r \<in> set rows" and "x \<in> set (set_row key r r' rows)"
  shows "x = r' \<or> x \<in> set rows \<and> x \<noteq> r"
  using assms set_row_set by fastforce

lemma sum_rows_set_row:
  assumes "distinct (map key rows)" and "r \<in> set rows"
  shows "sum_rows amt P (set_row key r r' rows) =
         sum_rows amt P rows - (if P r then amt r else 0) + (if P r' then amt r' else 0)"
  using sum_rows_update_key [OF assms, of amt P "\<lambda>_. r'"] by (simp add: set_row_def)

lemma count_set_row:
  assumes "distinct (map key rows)" and "r \<in> set rows"
  shows "length (filter P (set_row key r r' rows)) + (if P r then 1 else 0) =
         length (filter P rows) + (if P r' then 1 else 0)"
proof -
  have len: "sum_rows (\<lambda>_. 1) P xs = int (length (filter P xs))" for xs
    by (induction xs) auto
  have "int (length (filter P (set_row key r r' rows))) =
        int (length (filter P rows)) - (if P r then 1 else 0) + (if P r' then 1 else 0)"
    using sum_rows_set_row [OF assms, of "\<lambda>_. 1" P r'] by (simp add: len)
  then show ?thesis by (simp split: if_splits)
qed

text \<open>A sum of values that change at one key only.\<close>

lemma sum_rows_values:
  assumes "distinct (map key rows)" and "r \<in> set rows"
    and "\<And>x. x \<in> set rows \<Longrightarrow> key x \<noteq> key r \<Longrightarrow> g' x = g x"
  shows "sum_rows g' P rows = sum_rows g P rows + (if P r then g' r - g r else 0)"
  using assms
proof (induction rows)
  case (Cons x rows)
  show ?case
  proof (cases "x = r")
    case True
    then have "\<forall>y \<in> set rows. key y \<noteq> key r" using Cons.prems(1) by (auto simp: image_iff)
    then have "sum_rows g' P rows = sum_rows g P rows"
      using Cons.prems(3) unfolding sum_rows_def by (intro arg_cong [where f = sum_list] map_cong) auto
    with True show ?thesis by simp
  next
    case False
    with Cons.prems have "key x \<noteq> key r" "r \<in> set rows" by auto
    with Cons False show ?thesis by simp
  qed
qed simp

section \<open>Obligations and the receivable\<close>

lemma becomes_ok: "obligation_becomes st ob ob' \<Longrightarrow> obligation_ok ob \<Longrightarrow> obligation_ok ob'"
  by (simp add: obligation_becomes_def)

lemma becomes_core:
  assumes "obligation_becomes st ob ob'"
  shows "ob_id ob' = ob_id ob" "ob_quoteId ob' = ob_quoteId ob" "ob_owner ob' = ob_owner ob"
    "ob_amount ob' = ob_amount ob" "ob_status ob' = st"
  using assms by (simp_all add: obligation_becomes_def obligation_core_def)

lemma obligations_ok_set_row:
  assumes "obligations_ok obs" and "ob \<in> set obs" and "obligation_becomes st ob ob'"
  shows "obligations_ok (set_row ob_id ob ob' obs)"
proof -
  have "map ob_quoteId (set_row ob_id ob ob' obs) = map ob_quoteId obs"
    using assms becomes_core(2) [OF assms(3)] distinct_key_eq [of ob_id obs _ ob]
    by (auto simp: set_row_def update_rows_def obligations_ok_def)
  then show ?thesis
    using assms becomes_core [OF assms(3)] becomes_ok [OF assms(3)]
    by (auto simp: obligations_ok_def set_row_distinct dest: set_row_mem)
qed

lemma obligations_step:
  assumes "books db" and "ledger_step db db'"
  shows "obligations_ok (b_obligations db')"
proof -
  from assms(1) have ok: "obligations_ok (b_obligations db)" by (simp add: books_def)
  from assms(2) show ?thesis
  proof cases
    case (bill ob js)
    with ok show ?thesis by (auto simp: same_core_def obligations_ok_def)
  qed (use ok in \<open>auto simp: same_core_def intro: obligations_ok_set_row\<close>)
qed

lemma open_sum_set_row:
  assumes "obligations_ok obs" and "ob \<in> set obs" and "obligation_becomes st ob ob'"
  shows "sum_rows amount_of_obligation (open_in c) (set_row ob_id ob ob' obs) =
    sum_rows amount_of_obligation (open_in c) obs +
    (if mo_currency (ob_amount ob) = c
     then amount_of_obligation ob * ((if st = OPEN then 1 else 0) - (if ob_status ob = OPEN then 1 else 0))
     else 0)"
  using assms becomes_core [OF assms(3)]
  by (simp add: sum_rows_set_row obligations_ok_def open_in_def)

text \<open>The journals of a confirmed credit never touch any account but its clearing and suspense.\<close>

lemma credit_confirmed_balance:
  assumes "credit_confirmed c crs rfs js crs' js'"
    and "a \<notin> {PROVIDER_CREDITS_UNALLOCATED, CLEARING_SHAM_CASH, CLEARING_SYRIATEL_CASH}"
  shows "balance js' a cur h = balance js a cur h"
  using assms
proof cases
  case (new_credit clearing)
  then have "a \<noteq> clearing" using assms(2) by (cases "cr_provider c") auto
  then show ?thesis using balance_posted [OF new_credit(7)] assms(2) by auto
next
  case (pending_credit p r d clearing)
  then have "a \<noteq> clearing" using assms(2) by (cases "cr_provider c") auto
  then show ?thesis using balance_posted [OF pending_credit(9)] assms(2) by auto
qed simp

lemma settled_by_receipt:
  assumes "books db" and "r \<in> set (b_receipts db)" and "active_receipt r"
    and "ob \<in> set (b_obligations db)" and "re_obligationId r = ob_id ob"
  shows "ob_status ob = SETTLED"
proof (rule ccontr)
  assume "ob_status ob \<noteq> SETTLED"
  then have "fundings (ob_id ob) (b_receipts db) (b_credits db) = 0"
    using assms(1,4) by (auto simp: books_def funding_ok_def)
  then have "filter (\<lambda>r. active_receipt r \<and> re_obligationId r = ob_id ob) (b_receipts db) = []"
    by (simp add: fundings_def)
  with assms(2,3,5) show False by (auto simp: filter_empty_conv)
qed

lemma receipt_obligation:
  assumes "books db" and "r \<in> set (b_receipts db)" and "ob \<in> set (b_obligations db)"
    and "re_obligationId r = ob_id ob"
  shows "re_amount r = ob_amount ob"
proof -
  from assms(1,2) obtain ob2 where "ob2 \<in> set (b_obligations db)" "ob_id ob2 = re_obligationId r"
      "re_amount r = ob_amount ob2"
    by (auto simp: books_def funding_ok_def)
  moreover have "distinct (map ob_id (b_obligations db))"
    using assms(1) by (simp add: books_def obligations_ok_def)
  ultimately show ?thesis using assms(3,4) distinct_key_eq [of ob_id] by metis
qed

lemma receivable_step:
  assumes "books db" and "ledger_step db db'"
  shows "receivable_ok (b_obligations db') (b_journals db')"
proof -
  from assms(1) have ok: "obligations_ok (b_obligations db)"
    and rec: "\<And>c. balance (b_journals db) CUSTOMER_RECEIVABLE c None =
        sum_rows amount_of_obligation (open_in c) (b_obligations db)"
    by (simp_all add: books_def receivable_ok_def)
  note sums = open_sum_set_row [OF ok]
  from assms(2) show ?thesis
  proof cases
    case (quiet ints ob ob')
    then show ?thesis using sums by (auto simp: receivable_ok_def same_core_def rec)
  next
    case (bill ob js)
    then show ?thesis
      using balance_posted [OF bill(5)] by (auto simp: receivable_ok_def same_core_def rec open_in_def)
  next
    case (void_obligation ob ob' ints js)
    then show ?thesis
      using balance_posted [OF void_obligation(5)] sums
      by (auto simp: receivable_ok_def same_core_def rec)
  next
    case (leave_credit c crs js)
    then show ?thesis
      using credit_confirmed_balance [OF leave_credit(1)] by (simp add: receivable_ok_def same_core_def rec)
  next
    case (allocate_credit c crs js ob ob' ints js')
    then show ?thesis
      using balance_posted [OF allocate_credit(10)] credit_confirmed_balance [OF allocate_credit(1)] sums
      by (auto simp: receivable_ok_def same_core_def rec)
  next
    case (pay_refund f f' c clearing js)
    then have "clearing \<noteq> CUSTOMER_RECEIVABLE" by (cases "cr_provider c") auto
    then show ?thesis
      using pay_refund balance_posted [OF pay_refund(10)]
      by (auto simp: receivable_ok_def same_core_def rec)
  next
    case (collect ob ob' r it it' js)
    then show ?thesis
      using balance_posted [OF collect(15)] sums by (auto simp: receivable_ok_def same_core_def rec)
  next
    case (reverse ob ob' r res ints js)
    then have "ob_status ob = SETTLED" "re_amount r = ob_amount ob"
      using assms(1) by (auto intro!: settled_by_receipt [of db r] receipt_obligation [of db]
          simp: active_receipt_def)
    then show ?thesis
      using reverse balance_posted [OF reverse(9)] sums by (auto simp: receivable_ok_def same_core_def rec)
  next
    case (receive_handover ha ha' n s v js res)
    then show ?thesis
      using balance_posted [OF receive_handover(10)] by (auto simp: receivable_ok_def same_core_def rec)
  next
    case (reconcile_handover ha ha' n js res)
    then show ?thesis
      by (auto simp: receivable_ok_def same_core_def rec balance_posted split: if_splits)
  qed (simp_all add: receivable_ok_def same_core_def rec)
qed

section \<open>Receipts and custody\<close>

definition kept :: "custody_status \<Rightarrow> int" where
  "kept st = (if st \<in> {HELD, IN_HANDOVER} then 1 else 0)"

lemma moved_core:
  "receipts_moved ids was becomes res res' \<Longrightarrow> map receipt_core res' = map receipt_core res"
  unfolding receipts_moved_def by (induction res res' rule: list_all2_induct) auto

lemma moved_custody_sum:
  "receipts_moved ids was becomes res res' \<Longrightarrow>
   sum_rows amount_of_receipt (in_custody h c) res' =
   sum_rows amount_of_receipt (in_custody h c) res + (kept becomes - kept was) *
     sum_rows amount_of_receipt
       (\<lambda>r. re_id r \<in> ids \<and> re_collector r = h \<and> mo_currency (re_amount r) = c) res"
  unfolding receipts_moved_def
  by (induction res res' rule: list_all2_induct)
    (auto simp: in_custody_def receipt_core_def kept_def algebra_simps split: if_splits)

lemma moved_sum_core:
  "receipts_moved ids was becomes res res' \<Longrightarrow>
   sum_rows amount_of_receipt (\<lambda>r. re_id r \<in> ks) res' = sum_rows amount_of_receipt (\<lambda>r. re_id r \<in> ks) res"
  unfolding receipts_moved_def
  by (induction res res' rule: list_all2_induct) (auto simp: receipt_core_def)

lemma moved_count:
  "receipts_moved ids was becomes res res' \<Longrightarrow> was \<noteq> REVERSED \<Longrightarrow>
   length (filter (\<lambda>r. active_receipt r \<and> re_obligationId r = i) res') +
     (if becomes = REVERSED then length (filter (\<lambda>r. re_id r \<in> ids \<and> re_obligationId r = i) res) else 0) =
   length (filter (\<lambda>r. active_receipt r \<and> re_obligationId r = i) res)"
  unfolding receipts_moved_def
  by (induction res res' rule: list_all2_induct)
    (auto simp: active_receipt_def receipt_core_def split: if_splits)

lemma moved_mem:
  assumes "receipts_moved ids was becomes res res'" and "r' \<in> set res'"
  shows "\<exists>r \<in> set res. receipt_core r' = receipt_core r"
proof -
  have "receipt_core r' \<in> set (map receipt_core res)"
    using assms(2) unfolding moved_core [OF assms(1), symmetric] by simp
  then show ?thesis by auto
qed

lemma moved_mem_back:
  assumes "receipts_moved ids was becomes res res'" and "r \<in> set res"
  shows "\<exists>r' \<in> set res'. receipt_core r' = receipt_core r \<and>
    (if re_id r \<in> ids then re_custodyStatus r = was \<and> re_custodyStatus r' = becomes
     else re_custodyStatus r' = re_custodyStatus r)"
proof -
  from assms(2) obtain k where "k < length res" "r = res ! k" by (auto simp: in_set_conv_nth)
  with assms(1) show ?thesis
    unfolding receipts_moved_def list_all2_conv_all_nth by (metis nth_mem)
qed

lemma moved_ids:
  assumes "receipts_moved ids was becomes res res'"
  shows "map re_id res' = map re_id res"
proof -
  have "map fst (map receipt_core res') = map fst (map receipt_core res)"
    by (simp only: moved_core [OF assms])
  then show ?thesis by (simp add: receipt_core_def comp_def)
qed

lemma receipts_ok_moved:
  assumes "receipts_ok res" and "receipts_moved ids was becomes res res'"
  shows "receipts_ok res'"
  using assms moved_ids [OF assms(2)] moved_mem [OF assms(2)]
  by (fastforce simp: receipts_ok_def receipt_core_def)

lemma receipts_step:
  assumes "books db" and "ledger_step db db'"
  shows "receipts_ok (b_receipts db')"
proof -
  from assms(1) have ok: "receipts_ok (b_receipts db)" and obs: "obligations_ok (b_obligations db)"
    by (simp_all add: books_def)
  from assms(2) show ?thesis
  proof cases
    case (collect ob ob' r it it' js)
    then have "obligation_ok ob" using obs by (simp add: obligations_ok_def)
    with collect ok show ?thesis by (auto simp: same_core_def receipts_ok_def obligation_ok_def)
  qed (use ok in \<open>auto simp: same_core_def intro: receipts_ok_moved\<close>)
qed

lemma sum_rows_one:
  assumes "distinct (map key rows)" and "r \<in> set rows"
  shows "sum_rows amt (\<lambda>x. key x = key r \<and> Q x) rows = (if Q r then amt r else 0)"
  using assms
proof (induction rows)
  case (Cons x rows)
  show ?case
  proof (cases "x = r")
    case True
    then have "\<forall>y \<in> set rows. key y \<noteq> key r" using Cons.prems(1) by (auto simp: image_iff)
    then have "sum_rows amt (\<lambda>x. key x = key r \<and> Q x) rows = 0"
      by (auto simp: sum_rows_def filter_empty_conv intro!: arg_cong [where f = "\<lambda>xs. sum_list (map amt xs)"])
    with True show ?thesis by simp
  next
    case False
    with Cons.prems have "key x \<noteq> key r" "r \<in> set rows" by auto
    with Cons show ?thesis by simp
  qed
qed simp

text \<open>The receipts of a handover, by holder and currency: all of them or none.\<close>

lemma handover_sum:
  assumes "handover_ok items res ha"
  shows "sum_rows amount_of_receipt
      (\<lambda>r. re_id r \<in> set (item_ids (ha_id ha) items) \<and> re_collector r = h \<and> mo_currency (re_amount r) = c) res =
    (if h = ha_holder ha \<and> c = mo_currency (ha_declared ha) then mo_amountMinor (ha_declared ha) else 0)"
proof -
  let ?ids = "set (item_ids (ha_id ha) items)"
  have "sum_rows amount_of_receipt
      (\<lambda>r. re_id r \<in> ?ids \<and> re_collector r = h \<and> mo_currency (re_amount r) = c) res =
    sum_rows amount_of_receipt (\<lambda>r. re_id r \<in> ?ids \<and>
      (h = ha_holder ha \<and> c = mo_currency (ha_declared ha))) res"
    using assms by (intro sum_rows_cong) (auto simp: handover_ok_def Let_def)
  also have "\<dots> = (if h = ha_holder ha \<and> c = mo_currency (ha_declared ha)
      then mo_amountMinor (ha_declared ha) else 0)"
    using assms by (auto simp: handover_ok_def Let_def sum_rows_def)
  finally show ?thesis .
qed

lemma custody_step:
  assumes "books db" and "ledger_step db db'"
  shows "custody_ok (b_receipts db') (b_journals db')"
proof -
  from assms(1) have rok: "receipts_ok (b_receipts db)"
    and hok: "handovers_ok (b_handovers db) (b_items db) (b_receipts db)"
    and cus: "\<And>c h. balance (b_journals db) CASH_IN_CUSTODY c (Some h) =
        sum_rows amount_of_receipt (in_custody h c) (b_receipts db)"
    by (simp_all add: books_def custody_ok_def)
  from assms(2) show ?thesis
  proof cases
    case (bill ob js)
    then show ?thesis using balance_posted [OF bill(5)] by (simp add: custody_ok_def same_core_def cus)
  next
    case (void_obligation ob ob' ints js)
    then show ?thesis
      using balance_posted [OF void_obligation(5)] by (simp add: custody_ok_def same_core_def cus)
  next
    case (leave_credit c crs js)
    then show ?thesis
      using credit_confirmed_balance [OF leave_credit(1)] by (simp add: custody_ok_def same_core_def cus)
  next
    case (allocate_credit c crs js ob ob' ints js')
    then show ?thesis
      using balance_posted [OF allocate_credit(10)] credit_confirmed_balance [OF allocate_credit(1)]
      by (simp add: custody_ok_def same_core_def cus)
  next
    case (pay_refund f f' c clearing js)
    then show ?thesis
      using balance_posted [OF pay_refund(10)] by (simp add: custody_ok_def same_core_def cus)
  next
    case (collect ob ob' r it it' js)
    then show ?thesis
      using balance_posted [OF collect(15)]
      by (auto simp: custody_ok_def same_core_def cus in_custody_def)
  next
    case (reverse ob ob' r res ints js)
    have "sum_rows amount_of_receipt
        (\<lambda>x. re_id x \<in> {re_id r} \<and> re_collector x = h \<and> mo_currency (re_amount x) = c) (b_receipts db) =
      (if re_collector r = h \<and> mo_currency (re_amount r) = c then amount_of_receipt r else 0)" for h c
      using sum_rows_one [of re_id "b_receipts db" r amount_of_receipt
          "\<lambda>x. re_collector x = h \<and> mo_currency (re_amount x) = c"] rok reverse(3)
      by (simp add: receipts_ok_def)
    then show ?thesis
      using reverse balance_posted [OF reverse(9)] moved_custody_sum [OF reverse(6)]
      by (auto simp: custody_ok_def same_core_def cus kept_def)
  next
    case (declare_handover ha items ks res)
    then show ?thesis
      using moved_custody_sum [OF declare_handover(9)] by (simp add: custody_ok_def same_core_def cus kept_def)
  next
    case (cancel_handover ha ha' res)
    then show ?thesis
      using moved_custody_sum [OF cancel_handover(6)] by (simp add: custody_ok_def same_core_def cus kept_def)
  next
    case (receive_handover ha ha' n s v js res)
    then have "handover_ok (b_items db) (b_receipts db) ha" using hok by (simp add: handovers_ok_def)
    from handover_sum [OF this] show ?thesis
      using receive_handover balance_posted [OF receive_handover(10)] moved_custody_sum [OF receive_handover(11)]
      by (auto simp: custody_ok_def same_core_def cus kept_def)
  next
    case (reconcile_handover ha ha' n js res)
    then have "balance js CASH_IN_CUSTODY c (Some h) = balance (b_journals db) CASH_IN_CUSTODY c (Some h)" for c h
      by (auto simp: balance_posted split: if_splits)
    then show ?thesis
      using reconcile_handover moved_custody_sum [OF reconcile_handover(12)]
      by (simp add: custody_ok_def same_core_def cus kept_def)
  qed (simp_all add: custody_ok_def same_core_def cus)
qed

end
