(* ===== verification/Billing_Books_Credits.thy ===== *)
theory Billing_Books_Credits
  imports Billing_Books
begin

text \<open>
  Billing, the books stay right, continued: provider credits, their refunds and the balance of
  money not yet applied; the funding of settled obligations; the intents.
\<close>

section \<open>Credits\<close>

lemma credit_core_simps:
  assumes "credit_core c = credit_core p"
  shows "cr_id c = cr_id p" "cr_amount c = cr_amount p" "cr_provider c = cr_provider p"
    "cr_source c = cr_source p" "cr_recordedBy c = cr_recordedBy p"
  using assms by (simp_all add: credit_core_def)

lemma credits_ok_set_row:
  assumes "credits_ok crs" and "p \<in> set crs" and "credit_core c = credit_core p"
  shows "credits_ok (set_row cr_id p c crs)"
  using assms credit_core_simps [OF assms(3)]
  by (auto simp: credits_ok_def set_row_distinct dest!: set_row_mem [rotated 2])

lemma credits_ok_confirmed:
  assumes "credit_confirmed c crs rfs js crs' js'" and "credits_ok crs"
  shows "credits_ok crs'"
  using assms by cases (auto simp: credits_ok_def [of "crs @ [c]"] credits_ok_def [of crs] intro: credits_ok_set_row)

lemma credits_step:
  assumes "books db" and "ledger_step db db'"
  shows "credits_ok (b_credits db')"
proof -
  from assms(1) have ok: "credits_ok (b_credits db)" by (simp add: books_def)
  from assms(2) show ?thesis
  proof cases
    case (record_statement c)
    with ok show ?thesis by (auto simp: same_core_def credits_ok_def)
  qed (use ok in \<open>auto simp: same_core_def intro: credits_ok_confirmed credits_ok_set_row\<close>)
qed

text \<open>Only confirmed credits have refunds.\<close>

lemma no_refunds:
  assumes "refunds_ok crs rfs" and "credits_ok crs" and "\<And>c. c \<in> set crs \<Longrightarrow> cr_id c = k \<Longrightarrow> \<not> confirmed c"
  shows "paid_back k rfs = 0" and "reserved_sum k rfs = 0"
proof -
  have "rf_creditId f \<noteq> k" if "f \<in> set rfs" for f
    using that assms(1,3) by (auto simp: refunds_ok_def)
  then show "paid_back k rfs = 0" and "reserved_sum k rfs = 0"
    unfolding paid_back_def reserved_sum_def sum_rows_def
    by (auto simp: filter_empty_conv intro!: arg_cong [where f = "\<lambda>xs. sum_list (map amount_of_refund xs)"])
qed

lemma paid_le_reserved:
  assumes "refunds_ok crs rfs"
  shows "0 \<le> paid_back k rfs" and "paid_back k rfs \<le> reserved_sum k rfs"
proof -
  have pos: "0 \<le> amount_of_refund f" if "f \<in> set rfs" for f
    using that assms by (fastforce simp: refunds_ok_def)
  then show "0 \<le> paid_back k rfs" unfolding paid_back_def by (rule sum_rows_nonneg)
  show "paid_back k rfs \<le> reserved_sum k rfs"
    unfolding paid_back_def reserved_sum_def
    by (rule sum_rows_mono) (auto simp: pos reserving_def RESERVING_REFUND_STATUSES_def)
qed

text \<open>What becomes of the other credits when one is confirmed.\<close>

lemma credit_confirmed_set:
  assumes "credit_confirmed c crs rfs js crs' js'" and "credits_ok crs"
  shows "set crs' = insert c {p \<in> set crs. cr_id p \<noteq> cr_id c}"
  using assms
proof cases
  case (pending_credit p r d clearing)
  have "{q \<in> set crs. cr_id q \<noteq> cr_id c} = set crs - {p}"
    using pending_credit assms(2) credit_core_simps(1) [OF pending_credit(4)] distinct_key_eq [of cr_id crs]
    by (auto simp: credits_ok_def)
  then show ?thesis using pending_credit assms(2) by (simp add: set_row_set credits_ok_def)
next
  case (received_credit p)
  have "{q \<in> set crs. cr_id q \<noteq> cr_id c} = set crs - {p}"
    using received_credit assms(2) credit_core_simps(1) [OF received_credit(5)] distinct_key_eq [of cr_id crs]
    by (auto simp: credits_ok_def)
  then show ?thesis using received_credit assms(2) by (simp add: set_row_set credits_ok_def)
qed (auto simp: image_iff)

lemma credit_confirmed_reserved:
  assumes "credit_confirmed c crs rfs js crs' js'" and "credits_ok crs" and "refunds_ok crs rfs"
  shows "reserved_sum (cr_id c) rfs = 0" and "paid_back (cr_id c) rfs = 0"
proof -
  show r: "reserved_sum (cr_id c) rfs = 0" using assms(1)
  proof cases
    case (new_credit clearing)
    then show ?thesis by (intro no_refunds(2) [OF assms(3,2)]) (auto simp: image_iff)
  next
    case (pending_credit p r d clearing)
    then have "\<not> confirmed q" if "q \<in> set crs" "cr_id q = cr_id c" for q
      using that assms(2) credit_core_simps(1) [OF pending_credit(4)] distinct_key_eq [of cr_id crs q p]
      by (auto simp: credits_ok_def confirmed_def)
    then show ?thesis by (intro no_refunds(2) [OF assms(3,2)])
  next
    case (received_credit p)
    then show ?thesis using credit_core_simps(1) [OF received_credit(5)] by simp
  qed
  show "paid_back (cr_id c) rfs = 0" using paid_le_reserved [OF assms(3), of "cr_id c"] r by simp
qed

lemma credit_confirmed_amount:
  assumes "credit_confirmed c crs rfs js crs' js'" and "credits_ok crs"
  shows "0 < amount_of_credit c"
  using assms by cases (auto simp: credits_ok_def dest: credit_core_simps)

lemma credit_confirmed_same:
  assumes "credit_confirmed c crs rfs js crs' js'" and "credits_ok crs"
    and "q \<in> set crs" and "cr_id q = cr_id c" and "confirmed q"
  shows "cr_amount c = cr_amount q"
  using assms(1)
proof cases
  case (new_credit clearing)
  with assms(3,4) show ?thesis by (metis imageI)
next
  case (pending_credit p r d clearing)
  then have "q = p"
    using assms(2-4) credit_core_simps(1) [OF pending_credit(4)] distinct_key_eq [of cr_id crs q p]
    by (simp add: credits_ok_def)
  with pending_credit assms(5) show ?thesis by (simp add: confirmed_def)
next
  case (received_credit p)
  then have "q = p"
    using assms(2-4) credit_core_simps(1) [OF received_credit(5)] distinct_key_eq [of cr_id crs q p]
    by (simp add: credits_ok_def)
  with credit_core_simps(2) [OF received_credit(5)] show ?thesis by simp
qed

lemma refunds_ok_confirmed:
  assumes "credit_confirmed c crs rfs js crs' js'" and "credits_ok crs" and "refunds_ok crs rfs"
    and "confirmed c"
  shows "refunds_ok crs' rfs"
proof -
  note set' = credit_confirmed_set [OF assms(1,2)]
  have "\<exists>c' \<in> set crs'. cr_id c' = rf_creditId f \<and> confirmed c' \<and>
      mo_currency (rf_amount f) = mo_currency (cr_amount c')" if "f \<in> set rfs" for f
  proof -
    from that assms(3) obtain q where q: "q \<in> set crs" "cr_id q = rf_creditId f" "confirmed q"
        "mo_currency (rf_amount f) = mo_currency (cr_amount q)"
      by (auto simp: refunds_ok_def)
    show ?thesis
    proof (cases "cr_id q = cr_id c")
      case True
      then have "cr_amount c = cr_amount q" using credit_confirmed_same [OF assms(1,2) q(1)] q(3) by simp
      with q True assms(4) show ?thesis by (intro bexI [of _ c]) (auto simp: set')
    next
      case False
      with q show ?thesis by (intro bexI [of _ q]) (auto simp: set')
    qed
  qed
  moreover have "reserved_sum (cr_id c') rfs \<le> amount_of_credit c'" if "c' \<in> set crs'" for c'
    using that assms(3) credit_confirmed_reserved(1) [OF assms(1-3)] credit_confirmed_amount [OF assms(1,2)]
    by (auto simp: set' refunds_ok_def)
  ultimately show ?thesis using assms(3) by (simp add: refunds_ok_def)
qed

section \<open>Refunds\<close>

lemma refund_core_simps:
  assumes "refund_core f' = refund_core f"
  shows "rf_id f' = rf_id f" "rf_creditId f' = rf_creditId f" "rf_amount f' = rf_amount f"
    "rf_requestedBy f' = rf_requestedBy f"
  using assms by (simp_all add: refund_core_def)

lemma reserved_set_row:
  assumes "distinct (map rf_id rfs)" and "f \<in> set rfs" and "refund_core f' = refund_core f"
  shows "reserved_sum k (set_row rf_id f f' rfs) = reserved_sum k rfs +
    (if rf_creditId f = k then amount_of_refund f * ((if reserving f' then 1 else 0) - (if reserving f then 1 else 0))
     else 0)"
  using refund_core_simps [OF assms(3)]
  by (simp add: reserved_sum_def sum_rows_set_row [OF assms(1,2)])

lemma paid_set_row:
  assumes "distinct (map rf_id rfs)" and "f \<in> set rfs" and "refund_core f' = refund_core f"
  shows "paid_back k (set_row rf_id f f' rfs) = paid_back k rfs +
    (if rf_creditId f = k then amount_of_refund f *
       ((if rf_status f' = RF_SUCCEEDED then 1 else 0) - (if rf_status f = RF_SUCCEEDED then 1 else 0))
     else 0)"
  using refund_core_simps [OF assms(3)]
  by (simp add: paid_back_def sum_rows_set_row [OF assms(1,2)])

lemma refunds_ok_set_row:
  assumes "refunds_ok crs rfs" and "f \<in> set rfs" and "refund_core f' = refund_core f" and "reserving f"
  shows "refunds_ok crs (set_row rf_id f f' rfs)"
proof -
  from assms(1) have d: "distinct (map rf_id rfs)" by (simp add: refunds_ok_def)
  have "0 < amount_of_refund f" using assms(1,2) by (simp add: refunds_ok_def)
  then have "reserved_sum k (set_row rf_id f f' rfs) \<le> reserved_sum k rfs" for k
    using reserved_set_row [OF d assms(2,3), of k] assms(4) by simp
  then have "\<forall>c \<in> set crs. reserved_sum (cr_id c) (set_row rf_id f f' rfs) \<le> amount_of_credit c"
    using assms(1) by (auto simp: refunds_ok_def intro: order_trans)
  moreover have "\<forall>x \<in> set (set_row rf_id f f' rfs). 0 < amount_of_refund x \<and>
      (\<exists>c \<in> set crs. cr_id c = rf_creditId x \<and> confirmed c \<and>
         mo_currency (rf_amount x) = mo_currency (cr_amount c))"
  proof
    fix x assume "x \<in> set (set_row rf_id f f' rfs)"
    then consider "x = f'" | "x \<in> set rfs" using set_row_mem [OF d assms(2)] by blast
    then show "0 < amount_of_refund x \<and> (\<exists>c \<in> set crs. cr_id c = rf_creditId x \<and> confirmed c \<and>
         mo_currency (rf_amount x) = mo_currency (cr_amount c))"
    proof cases
      case 1
      with assms(1,2) refund_core_simps [OF assms(3)] show ?thesis by (simp add: refunds_ok_def)
    next
      case 2
      with assms(1) show ?thesis by (simp add: refunds_ok_def)
    qed
  qed
  ultimately show ?thesis
    using d refund_core_simps(1) [OF assms(3)] by (simp add: refunds_ok_def set_row_distinct)
qed

lemma refunds_ok_pending:
  assumes "refunds_ok crs rfs" and "credits_ok crs" and "p \<in> set crs" and "\<not> confirmed p"
    and "credit_core c = credit_core p"
  shows "refunds_ok (set_row cr_id p c crs) rfs"
proof -
  from assms(2) have d: "distinct (map cr_id crs)" by (simp add: credits_ok_def)
  have "reserved_sum (cr_id p) rfs = 0"
    using assms(3,4) d distinct_key_eq [of cr_id crs _ p] by (intro no_refunds(2) [OF assms(1,2)]) blast
  moreover have "0 < amount_of_credit p" using assms(2,3) by (simp add: credits_ok_def)
  moreover have "\<exists>c' \<in> set (set_row cr_id p c crs). cr_id c' = rf_creditId f \<and> confirmed c' \<and>
      mo_currency (rf_amount f) = mo_currency (cr_amount c')" if "f \<in> set rfs" for f
  proof -
    from that assms(1) obtain q where "q \<in> set crs" "cr_id q = rf_creditId f" "confirmed q"
        "mo_currency (rf_amount f) = mo_currency (cr_amount q)"
      by (auto simp: refunds_ok_def)
    moreover from this assms(4) have "q \<in> set (set_row cr_id p c crs)"
      using set_row_set [OF d assms(3)] by auto
    ultimately show ?thesis by blast
  qed
  ultimately show ?thesis
    using assms(1) credit_core_simps [OF assms(5)]
    by (auto simp: refunds_ok_def dest!: set_row_mem [OF d assms(3)])
qed

lemma refunds_step:
  assumes "books db" and "ledger_step db db'"
  shows "refunds_ok (b_credits db') (b_refunds db')"
proof -
  from assms(1) have cok: "credits_ok (b_credits db)" and rok: "refunds_ok (b_credits db) (b_refunds db)"
    by (simp_all add: books_def)
  from assms(2) show ?thesis
  proof cases
    case (leave_credit c crs js)
    then show ?thesis
      using refunds_ok_confirmed [OF leave_credit(1) cok rok] by (simp add: same_core_def confirmed_def)
  next
    case (allocate_credit c crs js ob ob' ints js')
    then show ?thesis
      using refunds_ok_confirmed [OF allocate_credit(1) cok rok] by (simp add: same_core_def confirmed_def)
  next
    case (record_statement c)
    then have "reserved_sum (cr_id c) (b_refunds db) = 0"
      by (intro no_refunds(2) [OF rok cok]) (auto simp: image_iff)
    with record_statement rok show ?thesis by (auto simp: same_core_def refunds_ok_def)
  next
    case (reject_statement p c)
    then show ?thesis
      using refunds_ok_pending [OF rok cok] by (simp add: same_core_def confirmed_def)
  next
    case (request_refund c f)
    have "reserved_sum (cr_id q) (b_refunds db @ [f]) \<le> amount_of_credit q" if "q \<in> set (b_credits db)" for q
      using that request_refund rok cok distinct_key_eq [of cr_id "b_credits db" q c]
      by (auto simp: reserved_sum_def refunds_ok_def credits_ok_def)
    with request_refund rok show ?thesis by (auto simp: same_core_def refunds_ok_def)
  next
    case (move_refund f f')
    then show ?thesis using refunds_ok_set_row [OF rok] by (simp add: same_core_def)
  next
    case (pay_refund f f' c clearing js)
    then show ?thesis using refunds_ok_set_row [OF rok] by (simp add: same_core_def)
  qed (use rok in \<open>simp_all add: same_core_def\<close>)
qed

section \<open>Money not yet applied\<close>

definition unapplied :: "string \<Rightarrow> credit list \<Rightarrow> refund list \<Rightarrow> int" where
  "unapplied cur crs rfs =
     sum_rows (\<lambda>c. amount_of_credit c - paid_back (cr_id c) rfs) (unallocated_in cur) crs"

lemma unallocated_ok_iff:
  "unallocated_ok crs rfs js \<longleftrightarrow>
   (\<forall>cur. balance js PROVIDER_CREDITS_UNALLOCATED cur None = - unapplied cur crs rfs)"
  by (simp add: unallocated_ok_def unapplied_def)

lemma credit_confirmed_unapplied:
  assumes "credit_confirmed c crs rfs js crs' js'" and "credits_ok crs" and "refunds_ok crs rfs"
    and "confirmed c"
  shows "balance js' PROVIDER_CREDITS_UNALLOCATED cur None + unapplied cur crs' rfs =
    balance js PROVIDER_CREDITS_UNALLOCATED cur None + unapplied cur crs rfs -
    (if cr_status c = ALLOCATED \<and> mo_currency (cr_amount c) = cur then amount_of_credit c else 0)"
proof -
  from assms(2) have d: "distinct (map cr_id crs)" by (simp add: credits_ok_def)
  note paid = credit_confirmed_reserved(2) [OF assms(1-3)]
  from assms(4) have st: "cr_status c = UNALLOCATED \<or> cr_status c = ALLOCATED" by (auto simp: confirmed_def)
  show ?thesis
    using assms(1)
  proof cases
    case (new_credit clearing)
    then have "clearing \<noteq> PROVIDER_CREDITS_UNALLOCATED" by (cases "cr_provider c") auto
    then show ?thesis
      using new_credit balance_posted [OF new_credit(7)] paid st
      by (auto simp: unapplied_def unallocated_in_def)
  next
    case (pending_credit p r d' clearing)
    then have "clearing \<noteq> PROVIDER_CREDITS_UNALLOCATED" by (cases "cr_provider c") auto
    then show ?thesis
      using pending_credit balance_posted [OF pending_credit(9)] paid st
        sum_rows_set_row [OF d pending_credit(2), of "\<lambda>c. amount_of_credit c - paid_back (cr_id c) rfs"
          "unallocated_in cur" c]
      by (auto simp: unapplied_def unallocated_in_def)
  next
    case (received_credit p)
    then show ?thesis
      using paid st credit_core_simps [OF received_credit(5)]
        sum_rows_set_row [OF d received_credit(3), of "\<lambda>c. amount_of_credit c - paid_back (cr_id c) rfs"
          "unallocated_in cur" c]
      by (auto simp: unapplied_def unallocated_in_def)
  qed
qed

lemma unapplied_cong:
  assumes "\<And>c. c \<in> set crs \<Longrightarrow> paid_back (cr_id c) rfs' = paid_back (cr_id c) rfs"
  shows "unapplied cur crs rfs' = unapplied cur crs rfs"
  unfolding unapplied_def sum_rows_def using assms by (intro arg_cong [where f = sum_list] map_cong) auto

lemma unallocated_step:
  assumes "books db" and "ledger_step db db'"
  shows "unallocated_ok (b_credits db') (b_refunds db') (b_journals db')"
proof -
  from assms(1) have cok: "credits_ok (b_credits db)" and rok: "refunds_ok (b_credits db) (b_refunds db)"
    and dc: "distinct (map cr_id (b_credits db))" and dr: "distinct (map rf_id (b_refunds db))"
    and un: "\<And>cur. balance (b_journals db) PROVIDER_CREDITS_UNALLOCATED cur None =
        - unapplied cur (b_credits db) (b_refunds db)"
    by (simp_all add: books_def unallocated_ok_iff credits_ok_def refunds_ok_def)
  from assms(2) show ?thesis
  proof cases
    case (bill ob js)
    then show ?thesis using balance_posted [OF bill(5)] by (simp add: unallocated_ok_iff same_core_def un)
  next
    case (void_obligation ob ob' ints js)
    then show ?thesis
      using balance_posted [OF void_obligation(5)] by (simp add: unallocated_ok_iff same_core_def un)
  next
    case (leave_credit c crs js)
    then have "confirmed c" by (simp add: confirmed_def)
    from credit_confirmed_unapplied [OF leave_credit(1) cok rok this]
    have "balance js PROVIDER_CREDITS_UNALLOCATED cur None = - unapplied cur crs (b_refunds db)" for cur
      using leave_credit(2) un [of cur] by (simp add: eq_neg_iff_add_eq_0)
    with leave_credit show ?thesis by (simp add: unallocated_ok_iff same_core_def)
  next
    case (allocate_credit c crs js ob ob' ints js')
    then have "confirmed c" by (simp add: confirmed_def)
    from credit_confirmed_unapplied [OF allocate_credit(1) cok rok this] allocate_credit(2)
    have eq: "balance js PROVIDER_CREDITS_UNALLOCATED cur None +
        (if mo_currency (cr_amount c) = cur then amount_of_credit c else 0) =
        - unapplied cur crs (b_refunds db)" for cur
      using un [of cur] by (smt (verit))
    have "balance js' PROVIDER_CREDITS_UNALLOCATED cur None = - unapplied cur crs (b_refunds db)" for cur
      using balance_posted [OF allocate_credit(10), of PROVIDER_CREDITS_UNALLOCATED cur None] eq [of cur]
      by (simp split: if_splits)
    with allocate_credit show ?thesis by (simp add: unallocated_ok_iff same_core_def)
  next
    case (record_statement c)
    then show ?thesis by (simp add: unallocated_ok_iff same_core_def un unapplied_def unallocated_in_def)
  next
    case (reject_statement p c)
    then show ?thesis
      using sum_rows_set_row [OF dc reject_statement(1)]
      by (simp add: unallocated_ok_iff same_core_def un unapplied_def unallocated_in_def)
  next
    case (request_refund c f)
    have "unapplied cur (b_credits db) (b_refunds db @ [f]) = unapplied cur (b_credits db) (b_refunds db)" for cur
      using request_refund(8) by (intro unapplied_cong) (simp add: paid_back_def)
    with request_refund show ?thesis by (simp add: unallocated_ok_iff same_core_def un)
  next
    case (move_refund f f')
    have "unapplied cur (b_credits db) (set_row rf_id f f' (b_refunds db)) =
        unapplied cur (b_credits db) (b_refunds db)" for cur
      using move_refund by (intro unapplied_cong) (simp add: paid_set_row [OF dr])
    with move_refund show ?thesis by (simp add: unallocated_ok_iff same_core_def un)
  next
    case (pay_refund f f' c clearing js)
    then have clearing: "clearing \<noteq> PROVIDER_CREDITS_UNALLOCATED" by (cases "cr_provider c") auto
    obtain q where "q \<in> set (b_credits db)" "cr_id q = rf_creditId f" "confirmed q"
        "mo_currency (rf_amount f) = mo_currency (cr_amount q)"
      using rok pay_refund(1) by (auto simp: refunds_ok_def)
    then have c: "confirmed c" "mo_currency (rf_amount f) = mo_currency (cr_amount c)"
      using pay_refund(7,8) dc distinct_key_eq [of cr_id "b_credits db" q c] by auto
    have "unapplied cur (b_credits db) (set_row rf_id f f' (b_refunds db)) =
        unapplied cur (b_credits db) (b_refunds db) -
        (if unallocated_in cur c then amount_of_refund f else 0)" for cur
      using sum_rows_values [OF dc pay_refund(7),
          of "\<lambda>c. amount_of_credit c - paid_back (cr_id c) (set_row rf_id f f' (b_refunds db))"
             "\<lambda>c. amount_of_credit c - paid_back (cr_id c) (b_refunds db)" "unallocated_in cur"]
        pay_refund
      by (simp add: unapplied_def paid_set_row [OF dr])
    with pay_refund balance_posted [OF pay_refund(10)] clearing c show ?thesis
      by (auto simp: unallocated_ok_iff same_core_def un unallocated_in_def confirmed_def)
  next
    case (collect ob ob' r it it' js)
    then show ?thesis using balance_posted [OF collect(15)] by (simp add: unallocated_ok_iff same_core_def un)
  next
    case (reverse ob ob' r res ints js)
    then show ?thesis using balance_posted [OF reverse(9)] by (simp add: unallocated_ok_iff same_core_def un)
  next
    case (receive_handover ha ha' n s v js res)
    then show ?thesis
      using balance_posted [OF receive_handover(10)] by (simp add: unallocated_ok_iff same_core_def un)
  next
    case (reconcile_handover ha ha' n js res)
    then have "balance js PROVIDER_CREDITS_UNALLOCATED cur None =
        balance (b_journals db) PROVIDER_CREDITS_UNALLOCATED cur None" for cur
      by (auto simp: balance_posted split: if_splits)
    with reconcile_handover show ?thesis by (simp add: unallocated_ok_iff same_core_def un)
  qed (simp_all add: unallocated_ok_iff same_core_def un)
qed

end
