(* ===== verification/Billing_Books_Funding.thy ===== *)
theory Billing_Books_Funding
  imports Billing_Books_Credits
begin

text \<open>
  Billing, the books stay right, continued: every settled obligation is funded once and exactly,
  intents and handovers, the treasury accounts, the journals and the separation of duties.
\<close>

section \<open>Funding\<close>

definition receipt_count :: "string \<Rightarrow> cash_receipt list \<Rightarrow> nat" where
  "receipt_count i res = length (filter (\<lambda>r. active_receipt r \<and> re_obligationId r = i) res)"

definition credit_count :: "string \<Rightarrow> credit list \<Rightarrow> nat" where
  "credit_count i crs = length (filter (\<lambda>c. cr_status c = ALLOCATED \<and> cr_obligationId c = Some i) crs)"

lemma fundings_eq: "fundings i res crs = receipt_count i res + credit_count i crs"
  by (simp add: fundings_def receipt_count_def credit_count_def)

lemma credit_count_confirmed:
  assumes "credit_confirmed c crs rfs js crs' js'" and "credits_ok crs"
  shows "credit_count i crs' = credit_count i crs +
    (if cr_status c = ALLOCATED \<and> cr_obligationId c = Some i then 1 else 0)"
  using assms(1)
proof cases
  case (pending_credit p r d clearing)
  then show ?thesis
    using count_set_row [of cr_id crs p "\<lambda>c. cr_status c = ALLOCATED \<and> cr_obligationId c = Some i" c] assms(2)
    by (simp add: credit_count_def credits_ok_def)
next
  case (received_credit p)
  then show ?thesis
    using count_set_row [of cr_id crs p "\<lambda>c. cr_status c = ALLOCATED \<and> cr_obligationId c = Some i" c] assms(2)
    by (simp add: credit_count_def credits_ok_def)
qed (simp add: credit_count_def)

text \<open>The parts of \<open>funding_ok\<close> that say where a receipt or an allocated credit belongs.\<close>

definition receipt_placed :: "obligation list \<Rightarrow> cash_receipt \<Rightarrow> bool" where
  "receipt_placed obs r \<longleftrightarrow>
     (\<exists>ob \<in> set obs. ob_id ob = re_obligationId r \<and> re_amount r = ob_amount ob \<and>
        re_collector r \<noteq> pr_subject (ob_owner ob))"

definition credit_placed :: "obligation list \<Rightarrow> credit \<Rightarrow> bool" where
  "credit_placed obs c \<longleftrightarrow>
     (cr_status c = ALLOCATED \<longrightarrow>
        (\<exists>ob \<in> set obs. cr_obligationId c = Some (ob_id ob) \<and> cr_amount c = ob_amount ob \<and>
           cr_recordedBy c \<noteq> Some (pr_subject (ob_owner ob))))"

lemma funding_ok_iff:
  "funding_ok obs res crs \<longleftrightarrow>
     (\<forall>ob \<in> set obs. receipt_count (ob_id ob) res + credit_count (ob_id ob) crs =
        (if ob_status ob = SETTLED then 1 else 0)) \<and>
     (\<forall>r \<in> set res. receipt_placed obs r) \<and> (\<forall>c \<in> set crs. credit_placed obs c)"
  by (simp add: funding_ok_def fundings_eq receipt_placed_def credit_placed_def)

text \<open>Where things belong depends on the obligations' unchanging columns only.\<close>

lemma placed_cores:
  assumes "obligation_core ` set obs \<subseteq> obligation_core ` set obs'"
  shows "receipt_placed obs r \<Longrightarrow> receipt_placed obs' r" and "credit_placed obs c \<Longrightarrow> credit_placed obs' c"
proof -
  have same: "\<exists>ob' \<in> set obs'. ob_id ob' = ob_id ob \<and> ob_amount ob' = ob_amount ob \<and> ob_owner ob' = ob_owner ob"
    if "ob \<in> set obs" for ob
  proof -
    from that assms obtain ob' where "ob' \<in> set obs'" "obligation_core ob = obligation_core ob'" by blast
    then show ?thesis by (auto simp: obligation_core_def)
  qed
  show "receipt_placed obs r \<Longrightarrow> receipt_placed obs' r"
    unfolding receipt_placed_def using same by metis
  show "credit_placed obs c \<Longrightarrow> credit_placed obs' c"
    unfolding credit_placed_def using same by metis
qed

lemma cores_set_row:
  assumes "obligations_ok obs" and "ob \<in> set obs" and "obligation_becomes st ob ob'"
  shows "obligation_core ` set (set_row ob_id ob ob' obs) = obligation_core ` set obs"
proof -
  have "obligation_core ob' = obligation_core ob" using assms(3) by (simp add: obligation_becomes_def)
  then show ?thesis using assms(1,2) by (auto simp: set_row_set obligations_ok_def image_iff)
qed

lemma receipt_placed_core:
  "receipt_core r' = receipt_core r \<Longrightarrow> receipt_placed obs r' = receipt_placed obs r"
  by (simp add: receipt_placed_def receipt_core_def)

lemma funding_set_row:
  assumes ok: "obligations_ok obs" and ob: "ob \<in> set obs" "obligation_becomes st ob ob'"
    and fund: "funding_ok obs res crs"
    and res: "\<And>r. r \<in> set res' \<Longrightarrow> receipt_placed obs r" and crs: "\<And>c. c \<in> set crs' \<Longrightarrow> credit_placed obs c"
    and one: "receipt_count (ob_id ob) res' + credit_count (ob_id ob) crs' = (if st = SETTLED then 1 else 0)"
    and rest: "\<And>i. i \<noteq> ob_id ob \<Longrightarrow> receipt_count i res' = receipt_count i res \<and> credit_count i crs' = credit_count i crs"
  shows "funding_ok (set_row ob_id ob ob' obs) res' crs'"
proof -
  note core = becomes_core [OF ob(2)] and cores = cores_set_row [OF ok ob]
  have d: "distinct (map ob_id obs)" using ok by (simp add: obligations_ok_def)
  have "receipt_count (ob_id x) res' + credit_count (ob_id x) crs' = (if ob_status x = SETTLED then 1 else 0)"
    if "x \<in> set (set_row ob_id ob ob' obs)" for x
    using set_row_mem [OF d ob(1) that]
  proof
    assume "x = ob'"
    with core one show ?thesis by simp
  next
    assume x: "x \<in> set obs \<and> x \<noteq> ob"
    then have "ob_id x \<noteq> ob_id ob" using d ob(1) distinct_key_eq [of ob_id obs x ob] by blast
    with rest [of "ob_id x"] x fund show ?thesis by (simp add: funding_ok_iff)
  qed
  moreover have "receipt_placed (set_row ob_id ob ob' obs) r" if "r \<in> set res'" for r
    using placed_cores(1) [of obs "set_row ob_id ob ob' obs"] cores res [OF that] by simp
  moreover have "credit_placed (set_row ob_id ob ob' obs) c" if "c \<in> set crs'" for c
    using placed_cores(2) [of obs "set_row ob_id ob ob' obs"] cores crs [OF that] by simp
  ultimately show ?thesis by (simp add: funding_ok_iff)
qed

lemma funding_moved:
  assumes "funding_ok obs res crs" and "receipts_moved ids was becomes res res'"
    and "was \<noteq> REVERSED" and "becomes \<noteq> REVERSED"
  shows "funding_ok obs res' crs"
proof -
  have "receipt_count i res' = receipt_count i res" for i
    using moved_count [OF assms(2,3), of i] assms(4) by (simp add: receipt_count_def)
  moreover have "receipt_placed obs r'" if "r' \<in> set res'" for r'
  proof -
    from moved_mem [OF assms(2) that] obtain r where r: "r \<in> set res" "receipt_core r' = receipt_core r" by blast
    with assms(1) show ?thesis by (simp add: funding_ok_iff receipt_placed_core [OF r(2)])
  qed
  ultimately show ?thesis using assms(1) by (simp add: funding_ok_iff)
qed

lemma funding_credit:
  assumes "funding_ok obs res crs" and "\<And>i. credit_count i crs' = credit_count i crs"
    and "\<And>c. c \<in> set crs' \<Longrightarrow> c \<in> set crs \<or> cr_status c \<noteq> ALLOCATED"
  shows "funding_ok obs res crs'"
  using assms by (fastforce simp: funding_ok_iff credit_placed_def)

lemma funding_step:
  assumes "books db" and "ledger_step db db'"
  shows "funding_ok (b_obligations db') (b_receipts db') (b_credits db')"
proof -
  from assms(1) have ok: "obligations_ok (b_obligations db)" and cok: "credits_ok (b_credits db)"
    and rok: "receipts_ok (b_receipts db)"
    and fund: "funding_ok (b_obligations db) (b_receipts db) (b_credits db)"
    by (simp_all add: books_def)
  have dc: "distinct (map cr_id (b_credits db))" using cok by (simp add: credits_ok_def)
  have placed: "r \<in> set (b_receipts db) \<Longrightarrow> receipt_placed (b_obligations db) r"
      "c \<in> set (b_credits db) \<Longrightarrow> credit_placed (b_obligations db) c" for r c
    using fund by (simp_all add: funding_ok_iff)
  have count: "ob \<in> set (b_obligations db) \<Longrightarrow>
      receipt_count (ob_id ob) (b_receipts db) + credit_count (ob_id ob) (b_credits db) =
      (if ob_status ob = SETTLED then 1 else 0)" for ob
    using fund by (simp add: funding_ok_iff)
  from assms(2) show ?thesis
  proof cases
    case (quiet ints ob ob')
    from quiet(3) show ?thesis
    proof (elim disjE conjE)
      assume "ob \<in> set (b_obligations db)" "obligation_becomes (ob_status ob) ob ob'"
        "b_obligations db' = set_row ob_id ob ob' (b_obligations db)"
      with quiet(2) show ?thesis
        using funding_set_row [OF ok _ _ fund] placed count by (simp add: same_core_def)
    qed (use quiet(2) fund in \<open>simp add: same_core_def\<close>)
  next
    case (bill ob js)
    have "receipt_count (ob_id ob) (b_receipts db) = 0"
      using bill(1) placed(1)
      by (auto simp: receipt_count_def receipt_placed_def filter_empty_conv) (metis image_eqI)
    moreover have "credit_count (ob_id ob) (b_credits db) = 0"
      using bill(1) placed(2)
      by (auto simp: credit_count_def credit_placed_def filter_empty_conv) (metis image_eqI option.inject)
    moreover have "obligation_core ` set (b_obligations db) \<subseteq> obligation_core ` set (b_obligations db @ [ob])"
      by auto
    ultimately show ?thesis
      using bill fund placed_cores [of "b_obligations db" "b_obligations db @ [ob]"]
      by (auto simp: same_core_def funding_ok_iff)
  next
    case (void_obligation ob ob' ints js)
    then show ?thesis
      using funding_set_row [OF ok void_obligation(1,3) fund placed] count [OF void_obligation(1)]
      by (simp add: same_core_def)
  next
    case (leave_credit c crs js)
    then show ?thesis
      using credit_count_confirmed [OF leave_credit(1) cok] credit_confirmed_set [OF leave_credit(1) cok]
      by (auto simp: same_core_def intro!: funding_credit [OF fund])
  next
    case (allocate_credit c crs js ob ob' ints js')
    have "credit_placed (b_obligations db) c"
      using allocate_credit(3-6) by (auto simp: credit_placed_def)
    then have "credit_placed (b_obligations db) x" if "x \<in> set crs" for x
      using that placed(2) credit_confirmed_set [OF allocate_credit(1) cok] by auto
    with allocate_credit show ?thesis
      using funding_set_row [OF ok allocate_credit(6,8) fund placed(1)] count [of ob]
        credit_count_confirmed [OF allocate_credit(1) cok]
      by (simp add: same_core_def)
  next
    case (record_statement c)
    then show ?thesis by (auto simp: same_core_def credit_count_def intro!: funding_credit [OF fund])
  next
    case (reject_statement p c)
    have "credit_count i (set_row cr_id p c (b_credits db)) = credit_count i (b_credits db)" for i
      using count_set_row [OF dc reject_statement(1),
          of "\<lambda>c. cr_status c = ALLOCATED \<and> cr_obligationId c = Some i" c] reject_statement(2,3)
      by (simp add: credit_count_def)
    moreover have "x \<in> set (b_credits db) \<or> cr_status x \<noteq> ALLOCATED"
      if "x \<in> set (set_row cr_id p c (b_credits db))" for x
      using set_row_mem [OF dc reject_statement(1) that] reject_statement(3) by auto
    ultimately show ?thesis
      using funding_credit [OF fund] reject_statement(5) by (simp add: same_core_def)
  next
    case (collect ob ob' r it it' js)
    have "receipt_placed (b_obligations db) r"
      using collect(1,5,6,8) by (auto simp: receipt_placed_def)
    then have "receipt_placed (b_obligations db) x" if "x \<in> set (b_receipts db @ [r])" for x
      using that placed(1) by auto
    moreover have "receipt_count i (b_receipts db @ [r]) =
        receipt_count i (b_receipts db) + (if ob_id ob = i then 1 else 0)" for i
      using collect(5,7) by (simp add: receipt_count_def active_receipt_def)
    ultimately show ?thesis
      using funding_set_row [OF ok collect(1,3) fund _ placed(2), of "b_receipts db @ [r]"]
        count [OF collect(1)] collect(2,16)
      by (simp add: same_core_def)
  next
    case (reverse ob ob' r res ints js)
    have settled: "ob_status ob = SETTLED"
      using settled_by_receipt [OF assms(1) reverse(3) _ reverse(1,4)] reverse(5) by (simp add: active_receipt_def)
    have "length (filter (\<lambda>x. re_id x = re_id r \<and> re_obligationId x = i) (b_receipts db)) =
        (if ob_id ob = i then 1 else 0)" for i
      using sum_rows_one [of re_id "b_receipts db" r "\<lambda>_. 1" "\<lambda>x. re_obligationId x = i"] rok reverse(3,4)
      by (simp add: receipts_ok_def sum_rows_def sum_list_triv split: if_splits)
    then have cnt: "receipt_count i res + (if ob_id ob = i then 1 else 0) = receipt_count i (b_receipts db)" for i
      using moved_count [OF reverse(6), of i] by (simp add: receipt_count_def)
    have rp: "receipt_placed (b_obligations db) r'" if "r' \<in> set res" for r'
    proof -
      from moved_mem [OF reverse(6) that] obtain x
        where x: "x \<in> set (b_receipts db)" "receipt_core r' = receipt_core x" by blast
      with placed(1) show ?thesis by (simp add: receipt_placed_core [OF x(2)])
    qed
    have "funding_ok (set_row ob_id ob ob' (b_obligations db)) res (b_credits db)"
    proof (rule funding_set_row [OF ok reverse(1,2) fund rp placed(2)])
      show "receipt_count (ob_id ob) res + credit_count (ob_id ob) (b_credits db) = (if OPEN = SETTLED then 1 else 0)"
        using cnt [of "ob_id ob"] count [OF reverse(1)] settled by simp
      show "receipt_count i res = receipt_count i (b_receipts db) \<and> credit_count i (b_credits db) = credit_count i (b_credits db)"
        if "i \<noteq> ob_id ob" for i using cnt [of i] that by simp
    qed
    with reverse(10) show ?thesis by (simp add: same_core_def)
  next
    case (declare_handover ha items ks res)
    then show ?thesis using funding_moved [OF fund] by (simp add: same_core_def)
  next
    case (cancel_handover ha ha' res)
    then show ?thesis using funding_moved [OF fund] by (simp add: same_core_def)
  next
    case (receive_handover ha ha' n s v js res)
    then show ?thesis using funding_moved [OF fund receive_handover(11)] by (simp add: same_core_def)
  next
    case (reconcile_handover ha ha' n js res)
    then show ?thesis using funding_moved [OF fund reconcile_handover(12)] by (simp add: same_core_def)
  qed (use fund in \<open>simp_all add: same_core_def\<close>)
qed

end
