(* ===== verification/Billing_Books_Handovers.thy ===== *)
theory Billing_Books_Handovers
  imports Billing_Books_Funding
begin

text \<open>
  Billing, the books stay right, concluded: intents and handovers, the treasury accounts, the
  journals and the separation of duties; \<open>books_step\<close> is the whole invariant.
\<close>

section \<open>Intents\<close>

lemma intents_quiet:
  assumes "intents_ok ints res" and "quiet_intents ints ints'"
  shows "intents_ok ints' res"
proof -
  have "intent_coherent it \<and> (cash_success it \<longrightarrow> (\<exists>r \<in> set res. re_intentId r = it_id it \<and> active_receipt r))"
    if "it \<in> set ints'" for it
    using that assms by (auto simp: intents_ok_def quiet_intents_def)
  then show ?thesis using assms(2) by (simp add: intents_ok_def quiet_intents_def)
qed

lemma receipt_core_simps:
  assumes "receipt_core r' = receipt_core r"
  shows "re_id r' = re_id r" "re_collector r' = re_collector r" "re_amount r' = re_amount r"
    "re_obligationId r' = re_obligationId r" "re_intentId r' = re_intentId r"
  using assms by (simp_all add: receipt_core_def)

text \<open>A receipt that was active and is not reversed is found again, active.\<close>

lemma moved_active:
  assumes "receipts_moved ids was becomes res res'" and "r \<in> set res" and "active_receipt r"
    and "becomes \<noteq> REVERSED \<or> re_id r \<notin> ids"
  shows "\<exists>r' \<in> set res'. re_intentId r' = re_intentId r \<and> active_receipt r'"
proof -
  from moved_mem_back [OF assms(1,2)] obtain r' where r': "r' \<in> set res'" "receipt_core r' = receipt_core r"
      "if re_id r \<in> ids then re_custodyStatus r = was \<and> re_custodyStatus r' = becomes
       else re_custodyStatus r' = re_custodyStatus r"
    by blast
  from r'(3) assms(3,4) have "active_receipt r'" by (auto simp: active_receipt_def split: if_splits)
  with r'(1) receipt_core_simps(5) [OF r'(2)] show ?thesis by blast
qed

lemma intents_moved:
  assumes "intents_ok ints res" and "receipts_moved ids was becomes res res'" and "becomes \<noteq> REVERSED"
  shows "intents_ok ints res'"
proof -
  have "\<exists>r \<in> set res'. re_intentId r = it_id it \<and> active_receipt r" if "it \<in> set ints" "cash_success it" for it
  proof -
    from that assms(1) obtain r where "r \<in> set res" "re_intentId r = it_id it" "active_receipt r"
      by (auto simp: intents_ok_def)
    with moved_active [OF assms(2), of r] assms(3) show ?thesis by auto
  qed
  with assms(1) show ?thesis by (simp add: intents_ok_def)
qed

lemma intents_step:
  assumes "books db" and "ledger_step db db'"
  shows "intents_ok (b_intents db') (b_receipts db')"
proof -
  from assms(1) have iok: "intents_ok (b_intents db) (b_receipts db)" and rok: "receipts_ok (b_receipts db)"
    by (simp_all add: books_def)
  have di: "distinct (map it_id (b_intents db))" using iok by (simp add: intents_ok_def)
  from assms(2) show ?thesis
  proof cases
    case (quiet ints ob ob')
    then show ?thesis using intents_quiet [OF iok] by (simp add: same_core_def)
  next
    case (void_obligation ob ob' ints js)
    then show ?thesis using intents_quiet [OF iok] by (simp add: same_core_def)
  next
    case (allocate_credit c crs js ob ob' ints js')
    then show ?thesis using intents_quiet [OF iok] by (simp add: same_core_def)
  next
    case (collect ob ob' r it it' js)
    have new: "intent_coherent it'" "active_receipt r"
      using collect(7,14) by (simp_all add: intent_coherent_def active_receipt_def)
    have "intent_coherent x \<and> (cash_success x \<longrightarrow>
        (\<exists>r' \<in> set (b_receipts db @ [r]). re_intentId r' = it_id x \<and> active_receipt r'))"
      if "x \<in> set (set_row it_id it it' (b_intents db))" for x
      using set_row_mem [OF di collect(9) that]
    proof
      assume "x = it'"
      with new collect(11,12) show ?thesis by auto
    next
      assume "x \<in> set (b_intents db) \<and> x \<noteq> it"
      with iok show ?thesis by (auto simp: intents_ok_def)
    qed
    moreover have "distinct (map it_id (set_row it_id it it' (b_intents db)))"
      using set_row_distinct [OF di collect(12)] .
    ultimately show ?thesis using collect(16) by (simp add: same_core_def intents_ok_def)
  next
    case (reverse ob ob' r res ints js)
    have "intent_coherent it \<and> (cash_success it \<longrightarrow> (\<exists>r' \<in> set res. re_intentId r' = it_id it \<and> active_receipt r'))"
      if "it \<in> set ints" for it
    proof (cases "intent_coherent it \<and> \<not> cash_success it")
      case False
      with reverse(8) that have it: "it \<in> set (b_intents db)" "it_id it \<noteq> re_intentId r" by auto
      have "\<exists>r' \<in> set res. re_intentId r' = it_id it \<and> active_receipt r'" if "cash_success it"
      proof -
        from that it(1) iok obtain x where x: "x \<in> set (b_receipts db)" "re_intentId x = it_id it" "active_receipt x"
          by (auto simp: intents_ok_def)
        with it(2) have "re_id x \<noteq> re_id r"
          using distinct_key_eq [of re_id "b_receipts db" x r] rok reverse(3) by (auto simp: receipts_ok_def)
        with moved_active [OF reverse(6) x(1,3)] x(2) show ?thesis by auto
      qed
      with it(1) iok show ?thesis by (simp add: intents_ok_def)
    qed simp
    with reverse(7,10) show ?thesis by (simp add: same_core_def intents_ok_def)
  next
    case (declare_handover ha items ks res)
    then show ?thesis using intents_moved [OF iok declare_handover(9)] by (simp add: same_core_def)
  next
    case (cancel_handover ha ha' res)
    then show ?thesis using intents_moved [OF iok cancel_handover(6)] by (simp add: same_core_def)
  next
    case (receive_handover ha ha' n s v js res)
    then show ?thesis using intents_moved [OF iok receive_handover(11)] by (simp add: same_core_def)
  next
    case (reconcile_handover ha ha' n js res)
    then show ?thesis using intents_moved [OF iok reconcile_handover(12)] by (simp add: same_core_def)
  qed (use iok in \<open>simp_all add: same_core_def\<close>)
qed

section \<open>Handovers\<close>

lemma handover_ok_moved:
  assumes "handover_ok items res ha" and "receipts_moved ids was becomes res res'"
  shows "handover_ok items res' ha"
proof -
  let ?ids = "set (item_ids (ha_id ha) items)"
  have "re_collector r' = ha_holder ha \<and> mo_currency (re_amount r') = mo_currency (ha_declared ha)"
    if "r' \<in> set res'" "re_id r' \<in> ?ids" for r'
  proof -
    from moved_mem [OF assms(2) that(1)] obtain r where r: "r \<in> set res" "receipt_core r' = receipt_core r" by blast
    with assms(1) that(2) show ?thesis by (simp add: handover_ok_def Let_def receipt_core_simps [OF r(2)])
  qed
  moreover have "re_id ` set res' = re_id ` set res"
    using moved_ids [OF assms(2)] by (metis list.set_map)
  ultimately show ?thesis
    using assms(1) moved_sum_core [OF assms(2), of ?ids] by (simp add: handover_ok_def Let_def)
qed

lemma handover_ok_insert:
  assumes "handover_ok items res ha" and "re_id r \<notin> re_id ` set res"
  shows "handover_ok items (res @ [r]) ha"
proof -
  have "re_id r \<notin> set (item_ids (ha_id ha) items)" using assms by (auto simp: handover_ok_def Let_def)
  with assms(1) show ?thesis by (auto simp: handover_ok_def Let_def)
qed

lemma handover_ok_core:
  assumes "handover_core ha' = handover_core ha"
  shows "handover_ok items res ha' = handover_ok items res ha"
  using assms by (simp add: handover_ok_def handover_core_def)

lemma handovers_ok_receipts:
  assumes "handovers_ok has items res" and "\<And>ha. handover_ok items res ha \<Longrightarrow> handover_ok items res' ha"
  shows "handovers_ok has items res'"
  using assms by (simp add: handovers_ok_def)

lemma handovers_ok_set_row:
  assumes "handovers_ok has items res" and "ha \<in> set has" and "handover_core ha' = handover_core ha"
    and "counted_ok ha'"
  shows "handovers_ok (set_row ha_id ha ha' has) items res"
proof -
  have id': "ha_id ha' = ha_id ha" using assms(3) by (simp add: handover_core_def)
  have d: "distinct (map ha_id has)" using assms(1) by (simp add: handovers_ok_def)
  have "handover_ok items res x \<and> counted_ok x" if "x \<in> set (set_row ha_id ha ha' has)" for x
    using set_row_mem [OF d assms(2) that] assms handover_ok_core [OF assms(3)]
    by (auto simp: handovers_ok_def)
  moreover have "map ha_id (set_row ha_id ha ha' has) = map ha_id has"
    using id' by (auto simp: set_row_def update_rows_def)
  then have "ha_id ` set (set_row ha_id ha ha' has) = ha_id ` set has" by (metis list.set_map)
  ultimately show ?thesis
    using assms(1) set_row_distinct [OF d id'] by (simp add: handovers_ok_def)
qed

lemma item_ids_append: "item_ids i (xs @ ys) = item_ids i xs @ item_ids i ys"
  by (simp add: item_ids_def)

lemma item_ids_new:
  "item_ids i (map (\<lambda>k. \<lparr>hi_handoverId = j, hi_receiptId = fst k, hi_amount = snd k\<rparr>) ks) =
   (if i = j then map fst ks else [])"
  by (auto simp: item_ids_def comp_def)

lemma handovers_ok_declare:
  assumes "handovers_ok has items res" and "ha_id ha \<notin> ha_id ` set has" and "counted_ok ha"
    and "new = map (\<lambda>k. \<lparr>hi_handoverId = ha_id ha, hi_receiptId = fst k, hi_amount = snd k\<rparr>) ks"
    and "distinct (map fst ks)" and "set (map fst ks) \<subseteq> re_id ` set res"
    and "\<forall>r \<in> set res. re_id r \<in> set (map fst ks) \<longrightarrow>
        re_collector r = ha_holder ha \<and> mo_currency (re_amount r) = mo_currency (ha_declared ha)"
    and "sum_rows amount_of_receipt (\<lambda>r. re_id r \<in> set (map fst ks)) res = mo_amountMinor (ha_declared ha)"
  shows "handovers_ok (has @ [ha]) (items @ new) res"
proof -
  have "item_ids (ha_id ha) items = []"
    using assms(1,2) by (auto simp: item_ids_def handovers_ok_def filter_empty_conv) metis
  then have "item_ids (ha_id ha) (items @ new) = map fst ks"
    by (simp add: item_ids_append assms(4) item_ids_new)
  then have "handover_ok (items @ new) res ha"
    using assms(5-8) by (simp add: handover_ok_def)
  moreover have "handover_ok (items @ new) res x" if "x \<in> set has" for x
  proof -
    have "ha_id x \<noteq> ha_id ha" using that assms(2) by (metis imageI)
    then have "item_ids (ha_id x) (items @ new) = item_ids (ha_id x) items"
      by (simp add: item_ids_append assms(4) item_ids_new)
    with that assms(1) show ?thesis by (simp add: handovers_ok_def handover_ok_def)
  qed
  moreover have "hi_handoverId x = ha_id ha" if "x \<in> set new" for x
    using that by (auto simp: assms(4))
  ultimately show ?thesis using assms(1-3) by (auto simp: handovers_ok_def)
qed

lemma handovers_step:
  assumes "books db" and "ledger_step db db'"
  shows "handovers_ok (b_handovers db') (b_items db') (b_receipts db')"
proof -
  from assms(1) have hok: "handovers_ok (b_handovers db) (b_items db) (b_receipts db)" by (simp add: books_def)
  from assms(2) show ?thesis
  proof cases
    case (collect ob ob' r it it' js)
    then show ?thesis
      using handovers_ok_receipts [OF hok handover_ok_insert] by (simp add: same_core_def)
  next
    case (reverse ob ob' r res ints js)
    then show ?thesis
      using handovers_ok_receipts [OF hok handover_ok_moved] by (simp add: same_core_def)
  next
    case (declare_handover ha items ks res)
    have "handovers_ok (b_handovers db @ [ha]) (b_items db @ items) (b_receipts db)"
      using handovers_ok_declare [OF hok declare_handover(1,3-8)] .
    from handovers_ok_receipts [OF this handover_ok_moved [OF _ declare_handover(9)]]
    show ?thesis using declare_handover(10) by (simp add: same_core_def)
  next
    case (cancel_handover ha ha' res)
    from handovers_ok_receipts [OF handovers_ok_set_row [OF hok cancel_handover(1,4,5)]
        handover_ok_moved [OF _ cancel_handover(6)]]
    show ?thesis using cancel_handover(7) by (simp add: same_core_def)
  next
    case (receive_handover ha ha' n s v js res)
    from handovers_ok_receipts [OF handovers_ok_set_row [OF hok receive_handover(1,4,5)]
        handover_ok_moved [OF _ receive_handover(11)]]
    show ?thesis using receive_handover(12) by (simp add: same_core_def)
  next
    case (reconcile_handover ha ha' n js res)
    from handovers_ok_receipts [OF handovers_ok_set_row [OF hok reconcile_handover(1,4,5)]
        handover_ok_moved [OF _ reconcile_handover(12)]]
    show ?thesis using reconcile_handover(13) by (simp add: same_core_def)
  qed (use hok in \<open>simp_all add: same_core_def\<close>)
qed

section \<open>The treasury\<close>

definition treasury_accounts :: "ledger_account set" where
  "treasury_accounts =
     {TREASURY_CASH_UNRECONCILED, TREASURY_CASH, CUSTODY_OVERAGE_SUSPENSE, CUSTODY_SHORTAGE_RECEIVABLE}"

lemma treasury_kept:
  assumes "treasury_ok has js" and "\<And>a c h. a \<in> treasury_accounts \<Longrightarrow> balance js' a c h = balance js a c h"
  shows "treasury_ok has js'"
  using assms by (simp add: treasury_ok_def treasury_accounts_def)

lemma treasury_posted:
  assumes "treasury_ok has js" and "posted ls js js'"
    and "\<forall>a \<in> treasury_accounts. \<forall>c h. lines_balance a c h ls = 0"
  shows "treasury_ok has js'"
  using treasury_kept [OF assms(1)] assms(3) balance_posted [OF assms(2)] by simp

lemma treasury_confirmed:
  assumes "treasury_ok has js" and "credit_confirmed c crs rfs js crs' js'"
  shows "treasury_ok has js'"
  by (rule treasury_kept [OF assms(1)], rule credit_confirmed_balance [OF assms(2)])
    (auto simp: treasury_accounts_def)

lemma clearing_not_treasury:
  "clearingAccount pm = Inr a \<Longrightarrow> a \<notin> treasury_accounts"
  by (cases pm) (auto simp: treasury_accounts_def)

lemma treasury_received:
  assumes tok: "treasury_ok has js" and d: "distinct (map ha_id has)" and ha: "ha \<in> set has"
    and st: "ha_status ha = HO_PENDING" "ha_status ha' = RECEIVED" "handover_core ha' = handover_core ha"
    and cts: "counted_ok ha'" "ha_counted ha' = Some n" "ha_shortage ha' = Some s" "ha_overage ha' = Some v"
    and post: "posted ((if mo_amountMinor n = 0 then [] else [line TREASURY_CASH_UNRECONCILED DEBIT n]) @
             (if mo_amountMinor s = 0 then []
              else [holder_line CUSTODY_SHORTAGE_RECEIVABLE DEBIT s (ha_holder ha)]) @
             [holder_line CASH_IN_CUSTODY CREDIT (ha_declared ha) (ha_holder ha)] @
             (if mo_amountMinor v = 0 then [] else [line CUSTODY_OVERAGE_SUSPENSE CREDIT v])) js js'"
  shows "treasury_ok (set_row ha_id ha ha' has) js'"
proof -
  have core: "ha_holder ha' = ha_holder ha" "ha_declared ha' = ha_declared ha"
    using st(3) by (simp_all add: handover_core_def)
  have cur: "mo_currency n = mo_currency (ha_declared ha)" "mo_currency s = mo_currency (ha_declared ha)"
      "mo_currency v = mo_currency (ha_declared ha)"
    using cts st(2) core(2) by (simp_all add: counted_ok_def)
  note sums = sum_rows_set_row [OF d ha]
  show ?thesis
    unfolding treasury_ok_def balance_posted [OF post] sums
    using tok by (simp add: treasury_ok_def handover_in_def st(1,2) core cts(2-4) cur opt_amount_def)
qed

lemma treasury_reconciled:
  assumes tok: "treasury_ok has js" and d: "distinct (map ha_id has)" and ha: "ha \<in> set has"
    and st: "ha_status ha = RECEIVED" "ha_status ha' = RECONCILED" "handover_core ha' = handover_core ha"
    and cts: "ha_counted ha = Some n" "ha_counted ha' = Some n" "ha_shortage ha' = ha_shortage ha"
      "ha_overage ha' = ha_overage ha" "mo_currency n = mo_currency (ha_declared ha)"
    and post: "if mo_amountMinor n = 0 then js' = js
     else posted [line TREASURY_CASH DEBIT n, line TREASURY_CASH_UNRECONCILED CREDIT n] js js'"
  shows "treasury_ok (set_row ha_id ha ha' has) js'"
proof -
  have core: "ha_holder ha' = ha_holder ha" "ha_declared ha' = ha_declared ha"
    using st(3) by (simp_all add: handover_core_def)
  note sums = sum_rows_set_row [OF d ha]
  have bal: "balance js' a c h = balance js a c h +
      lines_balance a c h [line TREASURY_CASH DEBIT n, line TREASURY_CASH_UNRECONCILED CREDIT n]" for a c h
    using post by (auto simp: balance_posted split: if_splits)
  show ?thesis
    unfolding treasury_ok_def bal sums
    using tok by (simp add: treasury_ok_def handover_in_def st(1,2) core cts opt_amount_def)
qed

lemma treasury_step:
  assumes "books db" and "ledger_step db db'"
  shows "treasury_ok (b_handovers db') (b_journals db')"
proof -
  from assms(1) have tok: "treasury_ok (b_handovers db) (b_journals db)"
    and hok: "handovers_ok (b_handovers db) (b_items db) (b_receipts db)" by (simp_all add: books_def)
  have d: "distinct (map ha_id (b_handovers db))" using hok by (simp add: handovers_ok_def)
  from assms(2) show ?thesis
  proof cases
    case (bill ob js)
    from treasury_posted [OF tok bill(5)] show ?thesis
      using bill(6) by (auto simp: same_core_def treasury_accounts_def)
  next
    case (void_obligation ob ob' ints js)
    from treasury_posted [OF tok void_obligation(5)] show ?thesis
      using void_obligation(6) by (auto simp: same_core_def treasury_accounts_def)
  next
    case (leave_credit c crs js)
    from treasury_confirmed [OF tok leave_credit(1)] show ?thesis using leave_credit(3) by (simp add: same_core_def)
  next
    case (allocate_credit c crs js ob ob' ints js')
    from treasury_posted [OF treasury_confirmed [OF tok allocate_credit(1)] allocate_credit(10)]
    show ?thesis using allocate_credit(11) by (auto simp: same_core_def treasury_accounts_def)
  next
    case (pay_refund f f' c clearing js)
    from treasury_posted [OF tok pay_refund(10)] show ?thesis
      using pay_refund(11) clearing_not_treasury [OF pay_refund(9)]
      by (auto simp: same_core_def treasury_accounts_def split: if_splits)
  next
    case (collect ob ob' r it it' js)
    from treasury_posted [OF tok collect(15)] show ?thesis
      using collect(16) by (auto simp: same_core_def treasury_accounts_def)
  next
    case (reverse ob ob' r res ints js)
    from treasury_posted [OF tok reverse(9)] show ?thesis
      using reverse(10) by (auto simp: same_core_def treasury_accounts_def)
  next
    case (declare_handover ha items ks res)
    then have "treasury_ok (b_handovers db @ [ha]) (b_journals db)"
      using tok by (simp add: treasury_ok_def handover_in_def)
    with declare_handover(10) show ?thesis by (simp add: same_core_def)
  next
    case (cancel_handover ha ha' res)
    then have "treasury_ok (set_row ha_id ha ha' (b_handovers db)) (b_journals db)"
      using tok unfolding treasury_ok_def sum_rows_set_row [OF d cancel_handover(1)]
      by (simp add: handover_in_def)
    with cancel_handover(7) show ?thesis by (simp add: same_core_def)
  next
    case (receive_handover ha ha' n s v js res)
    from treasury_received [OF tok d receive_handover(1-5,7-10)] receive_handover(12)
    show ?thesis by (simp add: same_core_def)
  next
    case (reconcile_handover ha ha' n js res)
    have "mo_currency n = mo_currency (ha_declared ha)"
      using hok reconcile_handover(1,2,7) by (auto simp: handovers_ok_def counted_ok_def)
    from treasury_reconciled [OF tok d reconcile_handover(1-4,7-10) this reconcile_handover(11)]
    show ?thesis using reconcile_handover(13) by (simp add: same_core_def)
  qed (use tok in \<open>simp_all add: same_core_def\<close>)
qed

section \<open>Journals\<close>

lemma lines_total_simps [simp]:
  "lines_total c [] = 0"
  "lines_total c (line a s m # ls) =
     (if mo_currency m = c then signed s (mo_amountMinor m) else 0) + lines_total c ls"
  "lines_total c (holder_line a s m k # ls) =
     (if mo_currency m = c then signed s (mo_amountMinor m) else 0) + lines_total c ls"
  "lines_total c (ls @ ls') = lines_total c ls + lines_total c ls'"
  by (auto simp: lines_total_def line_def holder_line_def line_delta_def)

lemma journals_posted:
  assumes "journals_ok js" and "posted ls js js'" and "\<forall>c. lines_total c ls = 0"
  shows "journals_ok js'"
  using assms by (auto simp: journals_ok_def posted_def)

lemma journals_confirmed:
  assumes "journals_ok js" and "credit_confirmed c crs rfs js crs' js'"
  shows "journals_ok js'"
  using assms(2)
proof cases
  case (new_credit clearing)
  from journals_posted [OF assms(1) new_credit(7)] show ?thesis by simp
next
  case (pending_credit p r d clearing)
  from journals_posted [OF assms(1) pending_credit(9)] show ?thesis by simp
qed (use assms(1) in simp)

lemma received_total:
  assumes "counted_ok ha'" and "ha_status ha' = RECEIVED" and "handover_core ha' = handover_core ha"
    and "ha_counted ha' = Some n" "ha_shortage ha' = Some s" "ha_overage ha' = Some v"
  shows "lines_total c ((if mo_amountMinor n = 0 then [] else [line TREASURY_CASH_UNRECONCILED DEBIT n]) @
     (if mo_amountMinor s = 0 then [] else [holder_line CUSTODY_SHORTAGE_RECEIVABLE DEBIT s (ha_holder ha)]) @
     [holder_line CASH_IN_CUSTODY CREDIT (ha_declared ha) (ha_holder ha)] @
     (if mo_amountMinor v = 0 then [] else [line CUSTODY_OVERAGE_SUSPENSE CREDIT v])) = 0"
proof -
  have core: "ha_declared ha' = ha_declared ha" using assms(3) by (simp add: handover_core_def)
  have "mo_currency n = mo_currency (ha_declared ha)" "mo_currency s = mo_currency (ha_declared ha)"
      "mo_currency v = mo_currency (ha_declared ha)"
      "mo_amountMinor s = max 0 (mo_amountMinor (ha_declared ha) - mo_amountMinor n)"
      "mo_amountMinor v = max 0 (mo_amountMinor n - mo_amountMinor (ha_declared ha))"
    using assms(1,2,4-6) core by (simp_all add: counted_ok_def)
  then show ?thesis by (auto simp: max_def split: if_splits)
qed

lemma journals_step:
  assumes "books db" and "ledger_step db db'"
  shows "journals_ok (b_journals db')"
proof -
  from assms(1) have ok: "journals_ok (b_journals db)" by (simp add: books_def)
  from assms(2) show ?thesis
  proof cases
    case (bill ob js)
    from journals_posted [OF ok bill(5)] show ?thesis using bill(6) by (simp add: same_core_def)
  next
    case (void_obligation ob ob' ints js)
    from journals_posted [OF ok void_obligation(5)] show ?thesis using void_obligation(6) by (simp add: same_core_def)
  next
    case (leave_credit c crs js)
    from journals_confirmed [OF ok leave_credit(1)] show ?thesis using leave_credit(3) by (simp add: same_core_def)
  next
    case (allocate_credit c crs js ob ob' ints js')
    from journals_posted [OF journals_confirmed [OF ok allocate_credit(1)] allocate_credit(10)]
    show ?thesis using allocate_credit(11) by (simp add: same_core_def)
  next
    case (pay_refund f f' c clearing js)
    from journals_posted [OF ok pay_refund(10)] show ?thesis using pay_refund(11) by (simp add: same_core_def)
  next
    case (collect ob ob' r it it' js)
    from journals_posted [OF ok collect(15)] show ?thesis using collect(16) by (simp add: same_core_def)
  next
    case (reverse ob ob' r res ints js)
    from journals_posted [OF ok reverse(9)] show ?thesis using reverse(10) by (simp add: same_core_def)
  next
    case (receive_handover ha ha' n s v js res)
    from journals_posted [OF ok receive_handover(10)]
      received_total [OF receive_handover(5,3,4,7-9)]
    show ?thesis using receive_handover(12) by (simp add: same_core_def)
  next
    case (reconcile_handover ha ha' n js res)
    then have "journals_ok js"
      using ok journals_posted [OF ok, of "[line TREASURY_CASH DEBIT n, line TREASURY_CASH_UNRECONCILED CREDIT n]"]
      by (simp split: if_splits)
    with reconcile_handover(13) show ?thesis by (simp add: same_core_def)
  qed (use ok in \<open>simp_all add: same_core_def\<close>)
qed

section \<open>Separation of duties\<close>

lemma duties_set_row:
  assumes "duties_ok has crs rfs" and "distinct (map ha_id has)" and "ha \<in> set has" and "handover_duties ha'"
  shows "duties_ok (set_row ha_id ha ha' has) crs rfs"
  using assms(1,4) set_row_mem [OF assms(2,3)] by (auto simp: duties_ok_def)

lemma duties_credits:
  assumes "duties_ok has crs rfs" and "\<forall>c \<in> set crs'. c \<in> set crs \<or> credit_duties c"
  shows "duties_ok has crs' rfs"
  using assms by (auto simp: duties_ok_def)

lemma duties_refunds:
  assumes "duties_ok has crs rfs" and "\<forall>f \<in> set rfs'. f \<in> set rfs \<or> refund_duties f"
  shows "duties_ok has crs rfs'"
  using assms by (auto simp: duties_ok_def)

lemma confirmed_duties:
  assumes "credit_confirmed c crs rfs js crs' js'" and "duties_ok has crs rfs"
  shows "credit_duties c"
  using assms(1)
proof cases
  case (pending_credit p r d clearing)
  then show ?thesis using credit_core_simps(5) [OF pending_credit(4)] by (simp add: credit_duties_def)
next
  case (received_credit p)
  with assms(2) have "credit_duties p" by (simp add: duties_ok_def)
  with received_credit(4,6) show ?thesis
    using credit_core_simps [OF received_credit(5)] by (auto simp: credit_duties_def confirmed_def)
qed (simp add: credit_duties_def)

lemma duties_confirmed:
  assumes "credit_confirmed c crs rfs js crs' js'" and "duties_ok has crs rfs" and "credits_ok crs"
  shows "duties_ok has crs' rfs"
  using duties_credits [OF assms(2), of crs'] credit_confirmed_set [OF assms(1,3)] confirmed_duties [OF assms(1,2)]
  by auto

lemma duties_step:
  assumes "books db" and "ledger_step db db'"
  shows "duties_ok (b_handovers db') (b_credits db') (b_refunds db')"
proof -
  from assms(1) have ok: "duties_ok (b_handovers db) (b_credits db) (b_refunds db)"
    and cok: "credits_ok (b_credits db)" by (simp_all add: books_def)
  have d: "distinct (map ha_id (b_handovers db))" "distinct (map rf_id (b_refunds db))"
      "distinct (map cr_id (b_credits db))"
    using assms(1) by (simp_all add: books_def handovers_ok_def refunds_ok_def credits_ok_def)
  from assms(2) show ?thesis
  proof cases
    case (leave_credit c crs js)
    from duties_confirmed [OF leave_credit(1) ok cok] show ?thesis using leave_credit(3) by (simp add: same_core_def)
  next
    case (allocate_credit c crs js ob ob' ints js')
    from duties_confirmed [OF allocate_credit(1) ok cok] show ?thesis
      using allocate_credit(11) by (simp add: same_core_def)
  next
    case (record_statement c)
    then have "credit_duties c" by (simp add: credit_duties_def confirmed_def)
    with duties_credits [OF ok, of "b_credits db @ [c]"] show ?thesis
      using record_statement(5) by (auto simp: same_core_def)
  next
    case (reject_statement p c)
    then have "credit_duties c" by (simp add: credit_duties_def confirmed_def)
    with duties_credits [OF ok, of "set_row cr_id p c (b_credits db)"] set_row_mem [OF d(3) reject_statement(1)]
    show ?thesis using reject_statement(5) by (auto simp: same_core_def)
  next
    case (request_refund c f)
    then have "refund_duties f" by (simp add: refund_duties_def)
    with duties_refunds [OF ok, of "b_refunds db @ [f]"] show ?thesis
      using request_refund(9) by (auto simp: same_core_def)
  next
    case (move_refund f f')
    from move_refund(6) duties_refunds [OF ok, of "set_row rf_id f f' (b_refunds db)"]
      set_row_mem [OF d(2) move_refund(1)]
    show ?thesis using move_refund(7) by (auto simp: same_core_def)
  next
    case (pay_refund f f' c clearing js)
    from pay_refund(6) duties_refunds [OF ok, of "set_row rf_id f f' (b_refunds db)"]
      set_row_mem [OF d(2) pay_refund(1)]
    show ?thesis using pay_refund(11) by (auto simp: same_core_def)
  next
    case (declare_handover ha items ks res)
    then have "handover_duties ha" by (simp add: handover_duties_def)
    with ok declare_handover(10) show ?thesis by (auto simp: same_core_def duties_ok_def)
  next
    case (cancel_handover ha ha' res)
    then have "handover_duties ha'" by (simp add: handover_duties_def)
    from duties_set_row [OF ok d(1) cancel_handover(1) this] cancel_handover(7)
    show ?thesis by (simp add: same_core_def)
  next
    case (receive_handover ha ha' n s v js res)
    from duties_set_row [OF ok d(1) receive_handover(1,6)] receive_handover(12)
    show ?thesis by (simp add: same_core_def)
  next
    case (reconcile_handover ha ha' n js res)
    from duties_set_row [OF ok d(1) reconcile_handover(1,6)] reconcile_handover(13)
    show ?thesis by (simp add: same_core_def)
  qed (use ok in \<open>simp_all add: same_core_def\<close>)
qed

section \<open>Claims\<close>

lemma electronic_kept: "methods_kept ints ints' \<Longrightarrow> electronic_intent ints i \<Longrightarrow> electronic_intent ints' i"
  unfolding methods_kept_def electronic_intent_def by metis

lemma claims_kept:
  assumes "claims_ok ints ats" and "methods_kept ints ints'"
  shows "claims_ok ints' ats"
  using assms electronic_kept by (auto simp: claims_ok_def)

lemma claims_followed:
  assumes "claims_ok ints ats" and "methods_kept ints ints'" and "claims_follow ints' ats ats'"
  shows "claims_ok ints' ats'"
proof -
  have "electronic_intent ints' (at_intentId a)" if "at_intentId a \<in> at_intentId ` set ats" for a
    using that claims_kept [OF assms(1,2)] by (auto simp: claims_ok_def)
  with assms(3) show ?thesis by (auto simp: claims_ok_def claims_follow_def)
qed

lemma quiet_methods: "quiet_intents ints ints' \<Longrightarrow> methods_kept ints ints'"
  by (simp add: quiet_intents_def)

lemma methods_set_row:
  assumes "distinct (map it_id ints)" and "it \<in> set ints" and "it_id it' = it_id it"
    and "it_method it' = it_method it"
  shows "methods_kept ints (set_row it_id it it' ints)"
  using assms by (auto simp: methods_kept_def set_row_set)

lemma claims_step:
  assumes "books db" and "ledger_step db db'"
  shows "claims_ok (b_intents db') (b_attempts db')"
proof -
  from assms(1) have ok: "claims_ok (b_intents db) (b_attempts db)"
    and di: "distinct (map it_id (b_intents db))" by (simp_all add: books_def intents_ok_def)
  from assms(2) show ?thesis
  proof cases
    case (quiet ints ob ob')
    with claims_followed [OF ok quiet_methods [OF quiet(1)]] show ?thesis by (simp add: same_core_def)
  next
    case (void_obligation ob ob' ints js)
    with claims_kept [OF ok quiet_methods [OF void_obligation(4)]] show ?thesis by (simp add: same_core_def)
  next
    case (allocate_credit c crs js ob ob' ints js')
    with claims_followed [OF ok quiet_methods [OF allocate_credit(9)]] show ?thesis by (simp add: same_core_def)
  next
    case (collect ob ob' r it it' js)
    with claims_kept [OF ok methods_set_row [OF di collect(9,12,13)]] show ?thesis by (simp add: same_core_def)
  next
    case (reverse ob ob' r res ints js)
    with claims_kept [OF ok reverse(11)] show ?thesis by (simp add: same_core_def)
  qed (use ok in \<open>simp_all add: same_core_def\<close>)
qed

section \<open>Recorded answers\<close>

lemma answers_step:
  assumes "ledger_step db db'"
  shows "answer_saved (b_idempotency db) (b_idempotency db')"
  using assms by cases (simp_all add: same_core_def answer_saved_def)

lemma answers_distinct:
  assumes "books db" and "ledger_step db db'"
  shows "distinct (map receipt_key (b_idempotency db'))"
  using assms(1) answers_step [OF assms(2)] by (auto simp: books_def answer_saved_def)

section \<open>The whole invariant\<close>

lemma books_step: "ledger_step db db' \<Longrightarrow> books db \<Longrightarrow> books db'"
  unfolding books_def [of db']
  by (intro conjI obligations_step receivable_step receipts_step custody_step credits_step refunds_step
      unallocated_step funding_step intents_step handovers_step treasury_step journals_step duties_step claims_step answers_distinct)

lemma books_steps: "ledger_step\<^sup>*\<^sup>* db db' \<Longrightarrow> books db \<Longrightarrow> books db'"
  by (induction rule: rtranclp_induct) (auto intro: books_step)

end
