(* ===== verification/Billing_Statements.thy ===== *)
theory Billing_Statements
  imports Billing_Books_Handovers
begin

text \<open>
  Billing, what a statement that returned has done: an update of one row is a \<open>set_row\<close>, a
  posted plan is \<open>posted\<close>, and the rows of audit, outbox, links, reversals and idempotency do
  not touch the financial tables (\<open>same_core\<close>). The refinement reads every transaction
  through these facts.
\<close>

named_theorems stmt \<open>what a statement that returned has done\<close>

section \<open>The tables outside the ledger\<close>

lemma same_core_refl [simp]: "same_core db db"
  by (simp add: same_core_def)

lemma same_core_sym: "same_core a b \<Longrightarrow> same_core b a"
  by (simp add: same_core_def)

lemma same_core_trans [trans]: "same_core a b \<Longrightarrow> same_core b c \<Longrightarrow> same_core a c"
  by (simp add: same_core_def)

lemma guard_Inr [simp]: "guard b e = Inr u \<longleftrightarrow> b"
  by (simp add: guard_def)

lemma insert_row_Inr [simp]:
  "insert_row key e r rows = Inr rows' \<longleftrightarrow> key r \<notin> key ` set rows \<and> rows' = rows @ [r]"
  by (auto simp: insert_row_def)

lemma app_error_Inr [simp]: "app_error c \<noteq> Inr x"
  by (simp add: app_error_def)

lemma decide_rule_Inr [simp]: "decide_rule m = Inr x \<longleftrightarrow> m = Inr x"
  by (cases m) (simp_all add: decide_rule_def)

lemma appendAudit_row_Inr [stmt]: "appendAudit_row a db = Inr db' \<Longrightarrow> same_core db' db"
  by (auto simp: appendAudit_row_def same_core_def)

lemma appendOutbox_Inr [stmt]: "appendOutbox e db = Inr db' \<Longrightarrow> same_core db' db"
  by (auto simp: appendOutbox_def same_core_def)

lemma answer_saved_refl [simp]: "answer_saved rs rs"
  by (simp add: answer_saved_def)

lemma saveReceipt_Inr:
  assumes "saveReceipt r db = Inr db'"
  shows "db' = db\<lparr>b_idempotency := b_idempotency db @ [r]\<rparr>" and "answer_saved (b_idempotency db) (b_idempotency db')"
  using assms by (auto simp: saveReceipt_def answer_saved_def receipt_key_def [abs_def])

lemma insertReversal_Inr: "insertReversal rv db = Inr db' \<Longrightarrow> same_core db' db"
  by (auto simp: insertReversal_def same_core_def)

lemma insertLink_Inr: "insertLink l db = Inr db' \<Longrightarrow> same_core db' db"
  by (auto simp: insertLink_def same_core_def)

lemma markVoided_Inr: "markVoided i at db = Inr db' \<Longrightarrow> same_core db' db"
  by (auto simp: markVoided_def Let_def same_core_def split: if_splits)

lemma credit_audit_Inr: "credit_audit rq n actor action c db = Inr db' \<Longrightarrow> same_core db' db"
  unfolding credit_audit_def by (rule appendAudit_row_Inr)

lemma custody_audit_Inr: "custody_audit rq who action out i j k db = Inr db' \<Longrightarrow> same_core db' db"
  unfolding custody_audit_def by (rule appendAudit_row_Inr)

lemma obligationChanged_Inr: "obligationChanged rq n actor before after db = Inr db' \<Longrightarrow> same_core db' db"
  by (auto simp: obligationChanged_def Let_def split: if_splits dest: appendOutbox_Inr)

lemma finish_command_Inr: "finish_command rq actor before action out a st db = Inr (res, db') \<Longrightarrow> same_core db' db"
  by (auto simp: finish_command_def Let_def intro: same_core_trans dest!: appendAudit_row_Inr obligationChanged_Inr)

lemma refund_changed_Inr: "refund_changed rq who action c prev f db = Inr (res, db') \<Longrightarrow> same_core db' db"
  by (auto simp: refund_changed_def intro: same_core_trans dest!: appendAudit_row_Inr appendOutbox_Inr)

lemma verification_Inr: "verification i out c db = Inr (res, db') \<Longrightarrow> db' = db"
  by (auto simp: verification_def)

section \<open>Reads\<close>

lemma snapshot_of_Inr:
  assumes "snapshot_of db i = Inr (Some sn)"
  shows "sn_obligation sn \<in> set (b_obligations db)" and "ob_id (sn_obligation sn) = i"
    and "lockObligation db i = Some (sn_obligation sn)"
    and "sn_activeIntent sn = Some it \<Longrightarrow> it \<in> set (b_intents db) \<and> it_obligationId it = i \<and> active_intent it"
    and "a \<in> set (sn_attempts sn) \<Longrightarrow> a \<in> set (b_attempts db) \<and> at_obligationId a = i"
  using assms
  by (auto simp: snapshot_of_def lockObligation_def split: option.splits dest!: find_row_Some find_Some_mem)

lemma some_snapshot_Inr: "some_snapshot db i e = Inr sn \<longleftrightarrow> snapshot_of db i = Inr (Some sn)"
  by (auto simp: some_snapshot_def split: option.splits)

lemma locked_Inr:
  assumes "locked db i n allowed = Inr sn"
  shows "snapshot_of db i = Inr (Some sn)" and "allowed (sn_obligation sn)" and "ob_revision (sn_obligation sn) = n"
proof -
  from assms obtain ob where ob: "lockObligation db i = Some ob" "allowed ob" "ob_revision ob = n"
      "some_snapshot db i ''LOCKED_OBLIGATION_WITHOUT_SNAPSHOT'' = Inr sn"
    by (auto simp: locked_def split: option.splits if_splits)
  from ob(4) show sn: "snapshot_of db i = Inr (Some sn)" by (simp add: some_snapshot_Inr)
  from snapshot_of_Inr(3) [OF this] ob show "allowed (sn_obligation sn)" "ob_revision (sn_obligation sn) = n"
    by simp_all
qed

section \<open>One row, compared and set\<close>

lemma cas_rows_Inr:
  assumes "cas_rows (\<lambda>r. key r = i \<and> Q r) f rows = Inr rows'" and "distinct (map key rows)"
  obtains r where "r \<in> set rows" "key r = i" "Q r" "rows' = set_row key r (f r) rows"
proof -
  from assms(1) have len: "length (filter (\<lambda>r. key r = i \<and> Q r) rows) = 1"
    and rows': "rows' = update_rows (\<lambda>r. key r = i \<and> Q r) f rows"
    by (auto simp: cas_rows_def split: if_splits)
  from len have "filter (\<lambda>r. key r = i \<and> Q r) rows \<noteq> []" by auto
  then obtain r where r: "r \<in> set rows" "key r = i" "Q r" by (auto simp: filter_empty_conv)
  have "x = r" if "x \<in> set rows" "key x = key r" for x
    using that r(1) assms(2) distinct_key_eq [of key rows x r] by blast
  then have "rows' = set_row key r (f r) rows"
    using r(2,3) unfolding rows' set_row_def update_rows_def by (intro map_cong) auto
  with r show thesis by (rule that)
qed

text \<open>The same, when the row is already at hand.\<close>

lemma cas_rows_row:
  assumes "cas_rows (\<lambda>r. key r = key x \<and> Q r) f rows = Inr rows'" and "distinct (map key rows)"
    and "x \<in> set rows"
  shows "rows' = set_row key x (f x) rows"
proof -
  from cas_rows_Inr [OF assms(1,2)] obtain r where r: "r \<in> set rows" "key r = key x" "rows' = set_row key r (f r) rows"
    by blast
  from distinct_key_eq [OF assms(2) r(1) assms(3) r(2)] r(3) show ?thesis by simp
qed

lemma books_keys:
  assumes "books db"
  shows "distinct (map ob_id (b_obligations db))" and "distinct (map it_id (b_intents db))"
    and "distinct (map re_id (b_receipts db))" and "distinct (map ha_id (b_handovers db))"
    and "distinct (map cr_id (b_credits db))" and "distinct (map rf_id (b_refunds db))"
  using assms
  by (simp_all add: books_def obligations_ok_def intents_ok_def receipts_ok_def handovers_ok_def credits_ok_def
      refunds_ok_def)

lemma updateObligation_Inr:
  assumes "updateObligation (ob_id ob) n v st at db = Inr db'" and "ob \<in> set (b_obligations db)"
    and "distinct (map ob_id (b_obligations db))"
  shows "db' = db\<lparr>b_obligations := set_row ob_id ob (changed_obligation v st at ob) (b_obligations db)\<rparr>"
  using assms cas_rows_row [of ob_id ob _ _ "b_obligations db"] by (auto simp: updateObligation_def)

lemma setIntentStatus_Inr:
  assumes "setIntentStatus i was becomes at db = Inr db'" and "distinct (map it_id (b_intents db))"
  obtains it where "it \<in> set (b_intents db)" "it_id it = i" "it_status it = was"
    "db' = db\<lparr>b_intents := set_row it_id it (it\<lparr>it_status := becomes, it_updatedAt := at\<rparr>) (b_intents db)\<rparr>"
proof -
  from assms(1) obtain rows where rows: "cas_rows (\<lambda>r. it_id r = i \<and> it_status r = was)
      (\<lambda>r. r\<lparr>it_status := becomes, it_updatedAt := at\<rparr>) (b_intents db) = Inr rows" "db' = db\<lparr>b_intents := rows\<rparr>"
    by (auto simp: setIntentStatus_def)
  from cas_rows_Inr [OF rows(1) assms(2)] obtain it where "it \<in> set (b_intents db)" "it_id it = i" "it_status it = was"
      "rows = set_row it_id it (it\<lparr>it_status := becomes, it_updatedAt := at\<rparr>) (b_intents db)" .
  with rows(2) that show thesis by blast
qed

lemma insertIntent_Inr:
  assumes "insertIntent it db = Inr db'"
  shows "it_id it \<notin> it_id ` set (b_intents db)" and "db' = db\<lparr>b_intents := b_intents db @ [it]\<rparr>"
  using assms by (auto simp: insertIntent_def)

lemma insertObligation_Inr:
  assumes "insertObligation ob db = Inr db'"
  shows "ob_id ob \<notin> ob_id ` set (b_obligations db)" and "ob_quoteId ob \<notin> ob_quoteId ` set (b_obligations db)"
    and "0 < amount_of_obligation ob" and "db' = db\<lparr>b_obligations := b_obligations db @ [ob]\<rparr>"
  using assms by (auto simp: insertObligation_def)

lemma insertAttempt_Inr:
  assumes "insertAttempt a db = Inr db'"
  shows "db' = db\<lparr>b_attempts := b_attempts db @ [a]\<rparr>"
  using assms by (auto simp: insertAttempt_def)

lemma reconcileAttempt_row_Inr:
  assumes "reconcileAttempt_row i was becomes at who observed cr db = Inr db'"
  shows "\<exists>ats. db' = db\<lparr>b_attempts := ats\<rparr> \<and> map at_intentId ats = map at_intentId (b_attempts db)"
proof -
  from assms have "db' = db\<lparr>b_attempts := update_rows (\<lambda>r. at_id r = i \<and> at_status r = was)
      (changed_attempt becomes at who observed cr) (b_attempts db)\<rparr>"
    by (auto simp: reconcileAttempt_row_def cas_rows_def split: if_splits)
  moreover have "map at_intentId (update_rows (\<lambda>r. at_id r = i \<and> at_status r = was)
      (changed_attempt becomes at who observed cr) (b_attempts db)) = map at_intentId (b_attempts db)"
    by (rule map_key_update_rows) (simp add: changed_attempt_def)
  ultimately show ?thesis by blast
qed

lemma claims_follow_map:
  assumes "map at_intentId ats' = map at_intentId ats"
  shows "claims_follow ints ats ats'"
proof -
  have "at_intentId ` set ats' = at_intentId ` set ats" using assms by (metis list.set_map)
  then show ?thesis by (auto simp: claims_follow_def)
qed

lemma claims_follow_refl [simp]: "claims_follow ints ats ats"
  by (simp add: claims_follow_map)

lemma post_Inr:
  assumes "post plan meta db = Inr db'"
  obtains p js where "plan = Inr p" "posted (jp_lines p) (b_journals db) js" "db' = db\<lparr>b_journals := js\<rparr>"
proof -
  from assms obtain p where p: "plan = Inr p" "postJournal p meta db = Inr db'" by (auto simp: post_def)
  then have "posted (jp_lines p) (b_journals db) (b_journals db @ [\<lparr>lj_plan = p, lj_meta = meta\<rparr>])"
      "db' = db\<lparr>b_journals := b_journals db @ [\<lparr>lj_plan = p, lj_meta = meta\<rparr>]\<rparr>"
    by (simp_all add: postJournal_def posted_def)
  with p(1) that show thesis by blast
qed

text \<open>The lines of each journal.\<close>

lemma journal_lines_Inr:
  "obligationBilledJournal i m = Inr p \<Longrightarrow>
     jp_lines p = [line CUSTOMER_RECEIVABLE DEBIT m, line BILLED_OBLIGATIONS_CONTROL CREDIT m]"
  "obligationVoidedJournal i m = Inr p \<Longrightarrow>
     jp_lines p = [line BILLED_OBLIGATIONS_CONTROL DEBIT m, line CUSTOMER_RECEIVABLE CREDIT m]"
  "cashCollectedJournal i h m = Inr p \<Longrightarrow>
     jp_lines p = [holder_line CASH_IN_CUSTODY DEBIT m h, line CUSTOMER_RECEIVABLE CREDIT m]"
  "cashCollectionReversedJournal i h m = Inr p \<Longrightarrow>
     jp_lines p = [line CUSTOMER_RECEIVABLE DEBIT m, holder_line CASH_IN_CUSTODY CREDIT m h]"
  "custodyReconciledJournal i m = Inr p \<Longrightarrow>
     jp_lines p = [line TREASURY_CASH DEBIT m, line TREASURY_CASH_UNRECONCILED CREDIT m]"
  "creditAllocatedJournal i m = Inr p \<Longrightarrow>
     jp_lines p = [line PROVIDER_CREDITS_UNALLOCATED DEBIT m, line CUSTOMER_RECEIVABLE CREDIT m]"
  by (auto simp: journal_defs dest!: balanced_Inr(1))

lemma creditReceivedJournal_Inr:
  assumes "creditReceivedJournal i pm m = Inr p"
  obtains clearing where "clearingAccount pm = Inr clearing"
    "jp_lines p = [line clearing DEBIT m, line PROVIDER_CREDITS_UNALLOCATED CREDIT m]"
  using assms by (auto simp: creditReceivedJournal_def dest!: balanced_Inr(1))

lemma refundPaidJournal_Inr:
  assumes "refundPaidJournal i pm m al = Inr p"
  obtains clearing where "clearingAccount pm = Inr clearing"
    "jp_lines p = [line (if al then REFUNDS_CONTROL else PROVIDER_CREDITS_UNALLOCATED) DEBIT m, line clearing CREDIT m]"
  using assms by (auto simp: refundPaidJournal_def dest!: balanced_Inr(1))

end
