(* ===== verification/Billing_Refinement.thy ===== *)
theory Billing_Refinement
  imports Billing_Statements
begin

text \<open>
  Billing, the transactions refine the ledger machine, first part: whenever the body of a
  command of \<^verbatim>\<open>billing.service.ts\<close>, \<^verbatim>\<open>booking-obligation.service.ts\<close> or the credit settlement
  returns on a database whose books are right, its database is reached by a run of
  \<open>ledger_step\<close>.
\<close>

section \<open>Runs\<close>

lemma same_core_step:
  assumes "books db" and "same_core db' db"
  shows "ledger_step db db'"
proof (rule ledger_step.quiet [where ints = "b_intents db"])
  show "quiet_intents (b_intents db) (b_intents db)"
    using assms(1) by (auto simp: quiet_intents_def methods_kept_def books_def intents_ok_def)
qed (use assms(2) in \<open>simp_all add: same_core_def\<close>)

lemma saved_step:
  assumes "books db" and "saveReceipt r db = Inr db'"
  shows "ledger_step db db'"
proof (rule ledger_step.quiet [where ints = "b_intents db"])
  show "quiet_intents (b_intents db) (b_intents db)"
    using assms(1) by (auto simp: quiet_intents_def methods_kept_def books_def intents_ok_def)
qed (use saveReceipt_Inr [OF assms(2)] in \<open>simp_all add: same_core_def\<close>)

lemma run_core:
  assumes "books db" and "ledger_step\<^sup>*\<^sup>* db db1" and "same_core db2 db1"
  shows "ledger_step\<^sup>*\<^sup>* db db2"
  using assms(2) same_core_step [OF books_steps [OF assms(2,1)] assms(3)] by simp

lemma step_core: "books db \<Longrightarrow> ledger_step db db1 \<Longrightarrow> same_core db2 db1 \<Longrightarrow> ledger_step\<^sup>*\<^sup>* db db2"
  using run_core by (metis r_into_rtranclp)

section \<open>Intents and obligations of a transaction\<close>

lemma quiet_refl: "distinct (map it_id ints) \<Longrightarrow> quiet_intents ints ints"
  by (auto simp: quiet_intents_def methods_kept_def)

lemma quiet_set:
  assumes "quiet_intents ints ints1" and "it \<in> set ints1" and "it_id it' = it_id it"
    and "it_method it' = it_method it" and "intent_coherent it'" and "\<not> cash_success it'"
  shows "quiet_intents ints (set_row it_id it it' ints1)"
proof -
  from assms(1) have d: "distinct (map it_id ints1)" by (simp add: quiet_intents_def)
  from methods_set_row [OF d assms(2-4)] assms(1) have "methods_kept ints (set_row it_id it it' ints1)"
    unfolding quiet_intents_def methods_kept_def by metis
  then show ?thesis
    using assms set_row_distinct [OF d assms(3)] set_row_mem [OF d assms(2)]
    unfolding quiet_intents_def by blast
qed

lemma quiet_insert:
  assumes "quiet_intents ints ints1" and "it_id it \<notin> it_id ` set ints1" and "intent_coherent it"
    and "\<not> cash_success it"
  shows "quiet_intents ints (ints1 @ [it])"
  using assms by (auto simp: quiet_intents_def methods_kept_def)

lemma changed_becomes:
  assumes "obligation_ok ob \<Longrightarrow> mo_amountMinor v = (if st = SETTLED then amount_of_obligation ob else 0)"
  shows "obligation_becomes st ob (changed_obligation v st at ob)"
  using assms by (auto simp: obligation_becomes_def obligation_core_def changed_obligation_def obligation_ok_def)

lemma changed_same:
  "obligation_becomes (ob_status ob) ob (changed_obligation (ob_verified ob) (ob_status ob) at ob)"
  by (rule changed_becomes) (simp add: obligation_ok_def)

lemma books_obligation:
  assumes "books db" and "ob \<in> set (b_obligations db)"
  shows "obligation_ok ob"
  using assms by (simp add: books_def obligations_ok_def)

lemma open_verified:
  assumes "obligation_ok ob" and "ob_status ob \<noteq> SETTLED"
  shows "ob_verified ob = \<lparr>mo_currency = mo_currency (ob_amount ob), mo_amountMinor = 0\<rparr>"
  using assms by (simp add: obligation_ok_def)

lemma open_outstanding:
  assumes "obligation_ok ob" and "ob_status ob \<noteq> SETTLED" and "outstanding ob = Inr due"
  shows "due = ob_amount ob"
  using assms(3) open_verified [OF assms(1,2)] by (simp add: outstanding_Inr)

lemma touched_obligation:
  assumes "books db" and "ob \<in> set (b_obligations db)" and "quiet_intents (b_intents db) ints"
    and "claims_follow ints (b_attempts db) ats"
    and "same_core db' (db\<lparr>b_intents := ints, b_attempts := ats,
          b_obligations := set_row ob_id ob (changed_obligation (ob_verified ob) (ob_status ob) at ob)
            (b_obligations db)\<rparr>)"
  shows "ledger_step db db'"
  using assms changed_same [of ob at]
  by (intro ledger_step.quiet [where ints = ints and ob = ob]) (auto simp: same_core_def)

section \<open>Billing an obligation\<close>

lemma bill_obligation_run:
  assumes "books db" and "bill_obligation rq owner q amount link db = Inr (out, db')" and "valid_money amount"
  shows "ledger_step\<^sup>*\<^sup>* db db'"
proof -
  let ?ob = "created_obligation rq owner q amount \<lparr>mo_currency = mo_currency amount, mo_amountMinor = 0\<rparr>"
  from assms(2) obtain db1 db2 db3 db4 where s1: "insertObligation ?ob db = Inr db1"
    and s2: "post (obligationBilledJournal (ob_id ?ob) amount) (meta_of rq 1 (Some (ob_id ?ob)) None None) db1 = Inr db2"
    and s3: "(case link of None \<Rightarrow> Inr db2 | Some (b, c) \<Rightarrow> insertLink \<lparr>bl_bookingId = b, bl_obligationId = ob_id ?ob,
                      bl_clientId = c, bl_createdAt = bq_now rq, bl_voidedAt = None\<rparr> db2) = Inr db3"
    and s4: "same_core db4 db3" and s5: "same_core db' db4"
    by (auto simp: bill_obligation_def Let_def dest!: appendAudit_row_Inr appendOutbox_Inr)
  from s3 have c3: "same_core db3 db2" by (auto split: option.splits dest: insertLink_Inr)
  note ins = insertObligation_Inr [OF s1]
  from post_Inr [OF s2] obtain p js where p: "obligationBilledJournal (ob_id ?ob) amount = Inr p"
      "posted (jp_lines p) (b_journals db1) js" "db2 = db1\<lparr>b_journals := js\<rparr>" .
  have "ledger_step db db2"
  proof (rule ledger_step.bill [where ob = ?ob and js = js])
    show "obligation_ok ?ob" using ins(3) assms(3) by (simp add: obligation_ok_def created_obligation_def)
    show "posted [line CUSTOMER_RECEIVABLE DEBIT (ob_amount ?ob), line BILLED_OBLIGATIONS_CONTROL CREDIT (ob_amount ?ob)]
        (b_journals db) js"
      using p(2) journal_lines_Inr(1) [OF p(1)] ins(4) by (simp add: created_obligation_def)
    show "same_core db2 (db\<lparr>b_obligations := b_obligations db @ [?ob], b_journals := js\<rparr>)"
      using p(3) ins(4) by (simp add: same_core_def)
  qed (use ins in \<open>simp_all add: created_obligation_def\<close>)
  moreover have "same_core db' db2" using s4 s5 c3 by (blast intro: same_core_trans)
  ultimately show ?thesis using step_core [OF assms(1)] by blast
qed

lemma createObligation_tx_run:
  assumes "books db" and "createObligation_tx rq owner q amount db = Inr (out, db')" and "valid_money amount"
  shows "ledger_step\<^sup>*\<^sup>* db db'"
  using assms bill_obligation_run [OF assms(1)] by (auto simp: createObligation_tx_def split: option.splits)

lemma createForBooking_tx_run:
  assumes "books db" and "createForBooking_tx rq cl b q bk amount db = Inr (out, db')" and "valid_money amount"
  shows "ledger_step\<^sup>*\<^sup>* db db'"
  using assms bill_obligation_run [OF assms(1)] by (auto simp: createForBooking_tx_def split: if_splits)

section \<open>Intents and attempts\<close>

lemma initial_coherent:
  assumes "it_method it = pm" and "it_status it = initialIntentStatus pm"
  shows "intent_coherent it" and "\<not> cash_success it"
  using assms
  by (cases pm; simp add: intent_coherent_def cash_success_def initialIntentStatus_def isElectronic_def
      ELECTRONIC_METHODS_def)+

lemma closed_coherent:
  assumes "it_status it \<in> {SUPERSEDED, CANCELLED}"
  shows "intent_coherent it" and "\<not> cash_success it"
  using assms by (auto simp: intent_coherent_def cash_success_def)

lemma electronic_coherent:
  assumes "isElectronic (it_method it)" and "it_status it \<noteq> AWAITING_CASH_COLLECTION"
  shows "intent_coherent it" and "\<not> cash_success it"
  using assms by (auto simp: intent_coherent_def cash_success_def isElectronic_def ELECTRONIC_METHODS_def)

lemma quiet_status:
  assumes "setIntentStatus i was becomes at db = Inr db1" and "quiet_intents ints (b_intents db)"
    and "becomes \<in> {SUPERSEDED, CANCELLED} \<or>
         becomes \<noteq> AWAITING_CASH_COLLECTION \<and> electronic_intent (b_intents db) i"
  shows "\<exists>ints1. db1 = db\<lparr>b_intents := ints1\<rparr> \<and> quiet_intents ints ints1"
proof -
  from assms(2) have d: "distinct (map it_id (b_intents db))" by (simp add: quiet_intents_def)
  from setIntentStatus_Inr [OF assms(1) d] obtain it where it: "it \<in> set (b_intents db)" "it_id it = i"
      "db1 = db\<lparr>b_intents := set_row it_id it (it\<lparr>it_status := becomes, it_updatedAt := at\<rparr>) (b_intents db)\<rparr>" .
  let ?new = "it\<lparr>it_status := becomes, it_updatedAt := at\<rparr>"
  have "intent_coherent ?new \<and> \<not> cash_success ?new"
  proof (cases "becomes \<in> {SUPERSEDED, CANCELLED}")
    case True
    then show ?thesis using closed_coherent [of ?new] by simp
  next
    case False
    with assms(3) obtain x where "x \<in> set (b_intents db)" "it_id x = i" "isElectronic (it_method x)"
        "becomes \<noteq> AWAITING_CASH_COLLECTION"
      by (auto simp: electronic_intent_def)
    then show ?thesis using distinct_key_eq [OF d, of x it] it(1,2) electronic_coherent [of ?new] by simp
  qed
  then have "quiet_intents ints (set_row it_id it ?new (b_intents db))"
    by (intro quiet_set [OF assms(2) it(1)]) simp_all
  with it(3) show ?thesis by blast
qed

lemma quiet_none:
  "quiet_intents ints (b_intents db) \<Longrightarrow> \<exists>ints1. db = db\<lparr>b_intents := ints1\<rparr> \<and> quiet_intents ints ints1"
  by (intro exI [of _ "b_intents db"]) simp

lemma initializePayment_tx_run:
  assumes "books db" and "initializePayment_tx rq owner i n pm db = Inr (out, db')"
  shows "ledger_step\<^sup>*\<^sup>* db db'"
proof -
  note keys = books_keys [OF assms(1)]
  from assms(2) obtain sn plan db1 db2 db3 where l: "locked db i n (is_owner owner) = Inr sn"
    and plan: "planMethodSelection (sn_obligation sn) (sn_activeIntent sn) pm = Inr plan"
    and s1: "(case sn_activeIntent sn of Some it \<Rightarrow> if sp_supersedeCurrent plan
        then setIntentStatus (it_id it) (it_status it) SUPERSEDED (bq_now rq) db else Inr db | None \<Rightarrow> Inr db) = Inr db1"
    and s2: "insertIntent \<lparr>it_method = pm, it_status = sp_status plan, it_id = bq_ids rq 0,
                 it_obligationId = i, it_amount = sp_amount plan, it_createdAt = bq_now rq,
                 it_updatedAt = bq_now rq\<rparr> db1 = Inr db2"
    and s3: "updateObligation i n (ob_verified (sn_obligation sn)) (ob_status (sn_obligation sn)) (bq_now rq) db2 = Inr db3"
    and s4: "same_core db' db3"
    by (auto simp: initializePayment_tx_def Let_def dest!: finish_command_Inr)
  let ?ob = "sn_obligation sn"
  note sn = snapshot_of_Inr [OF locked_Inr(1) [OF l]]
  have "\<exists>ints. db1 = db\<lparr>b_intents := ints\<rparr> \<and> quiet_intents (b_intents db) ints"
    using s1 quiet_status [OF _ quiet_refl [OF keys(2)]] quiet_none [OF quiet_refl [OF keys(2)]]
    by (cases "sn_activeIntent sn") (auto split: if_splits)
  then obtain ints where ints: "db1 = db\<lparr>b_intents := ints\<rparr>" "quiet_intents (b_intents db) ints" by blast
  note ins = insertIntent_Inr [OF s2]
  let ?it = "\<lparr>it_method = pm, it_status = sp_status plan, it_id = bq_ids rq 0, it_obligationId = i,
      it_amount = sp_amount plan, it_createdAt = bq_now rq, it_updatedAt = bq_now rq\<rparr>"
  have "quiet_intents (b_intents db) (ints @ [?it])"
    using ins(1) ints initial_coherent [of ?it pm] planMethodSelection_Inr(3) [OF plan]
    by (intro quiet_insert) simp_all
  moreover have "db3 = db2\<lparr>b_obligations := set_row ob_id ?ob
      (changed_obligation (ob_verified ?ob) (ob_status ?ob) (bq_now rq) ?ob) (b_obligations db2)\<rparr>"
    using updateObligation_Inr [of ?ob n _ _ _ db2 db3] s3 sn(1,2) keys(1) ins(2) ints(1) by simp
  ultimately have "ledger_step db db3"
    using ins(2) ints(1) by (intro touched_obligation [OF assms(1) sn(1)]) (auto simp: same_core_def)
  with s4 show ?thesis using step_core [OF assms(1)] by blast
qed

lemma reconcileAttempt_tx_run:
  assumes "books db" and "reconcileAttempt_tx rq who i attemptId n d observed db = Inr (out, db')"
  shows "ledger_step\<^sup>*\<^sup>* db db'"
proof -
  note keys = books_keys [OF assms(1)]
  note tx = assms(2) [unfolded reconcileAttempt_tx_def Let_def]
  from tx obtain sn where l: "locked db i n (\<lambda>_. True) = Inr sn" by auto
  from tx l obtain a where a: "find (\<lambda>a. at_id a = attemptId) (sn_attempts sn) = Some a"
    by (auto split: if_splits option.splits)
  from tx l a obtain plan where plan: "planReconciliation (sn_obligation sn) (at_status a) d observed = Inr plan"
    by (auto split: if_splits)
  from tx l a plan obtain it where it: "sn_activeIntent sn = Some it" "it_id it = at_intentId a"
    by (auto split: if_splits option.splits)
  let ?observed = "if d = To_UNKNOWN then None else observed"
  from tx l a plan it obtain db1 where
    s1: "reconcileAttempt_row (at_id a) (at_status a) (rp_attemptStatus plan) (bq_now rq) (Some who) ?observed None db = Inr db1"
    by (auto split: if_split_asm)
  from tx l a plan it s1 obtain db2 db3 where
    s2: "db2 = db1 \<or> setIntentStatus (it_id it) (it_status it) (rp_intentStatus plan) (bq_now rq) db1 = Inr db2"
    and s3: "updateObligation i n (ob_verified (sn_obligation sn)) (rp_obligationStatus plan) (bq_now rq) db2 = Inr db3"
    and s4: "same_core db' db3"
    by (auto split: if_split_asm dest!: finish_command_Inr)
  let ?ob = "sn_obligation sn"
  note sn = snapshot_of_Inr [OF locked_Inr(1) [OF l]] and rec = planReconciliation_Inr [OF plan]
  from a have "a \<in> set (b_attempts db)" using sn(5) by (auto dest: find_Some_mem)
  then have el: "electronic_intent (b_intents db) (it_id it)"
    using assms(1) it(2) by (simp add: books_def claims_ok_def)
  from reconcileAttempt_row_Inr [OF s1] obtain ats where ats: "db1 = db\<lparr>b_attempts := ats\<rparr>"
      "map at_intentId ats = map at_intentId (b_attempts db)" by blast
  have q: "quiet_intents (b_intents db) (b_intents db1)" using ats(1) quiet_refl [OF keys(2)] by simp
  have "rp_intentStatus plan \<noteq> AWAITING_CASH_COLLECTION" using rec(4) by auto
  then have "\<exists>ints. db2 = db1\<lparr>b_intents := ints\<rparr> \<and> quiet_intents (b_intents db) ints"
    using s2 quiet_status [OF _ q] el ats(1) quiet_none [OF q] by auto
  then obtain ints where ints: "db2 = db1\<lparr>b_intents := ints\<rparr>" "quiet_intents (b_intents db) ints" by blast
  have "db3 = db2\<lparr>b_obligations := set_row ob_id ?ob
      (changed_obligation (ob_verified ?ob) (ob_status ?ob) (bq_now rq) ?ob) (b_obligations db2)\<rparr>"
    using updateObligation_Inr [of ?ob n _ _ _ db2 db3] s3 sn(1,2) keys(1) ats(1) ints(1) rec(1,2) by simp
  then have "ledger_step db db3"
    using ats ints claims_follow_map [OF ats(2)]
    by (intro touched_obligation [OF assms(1) sn(1), where ints = ints and ats = ats]) (auto simp: same_core_def)
  with s4 show ?thesis using step_core [OF assms(1)] by blast
qed

section \<open>Voiding\<close>

lemma void_rows_step:
  assumes "books db" and "void_rows rq i n sn db = Inr db'" and sn: "snapshot_of db i = Inr (Some sn)"
    and op: "ob_status (sn_obligation sn) = OPEN"
  shows "ledger_step db db'"
proof -
  note keys = books_keys [OF assms(1)] and s = snapshot_of_Inr [OF sn]
  let ?ob = "sn_obligation sn"
  from assms(2) obtain db1 db2 where
    s1: "(case sn_activeIntent sn of None \<Rightarrow> Inr db
          | Some it \<Rightarrow> setIntentStatus (it_id it) (it_status it) CANCELLED (bq_now rq) db) = Inr db1"
    and s2: "post (obligationVoidedJournal i (ob_amount ?ob)) (meta_of rq 0 (Some i) None None) db1 = Inr db2"
    and s3: "updateObligation i n (ob_verified ?ob) VOIDED (bq_now rq) db2 = Inr db'"
    by (auto simp: void_rows_def Let_def)
  have "\<exists>ints. db1 = db\<lparr>b_intents := ints\<rparr> \<and> quiet_intents (b_intents db) ints"
    using s1 quiet_status [OF _ quiet_refl [OF keys(2)]] quiet_none [OF quiet_refl [OF keys(2)]]
    by (cases "sn_activeIntent sn") auto
  then obtain ints where ints: "db1 = db\<lparr>b_intents := ints\<rparr>" "quiet_intents (b_intents db) ints" by blast
  from post_Inr [OF s2] obtain p js where p: "obligationVoidedJournal i (ob_amount ?ob) = Inr p"
      "posted (jp_lines p) (b_journals db1) js" "db2 = db1\<lparr>b_journals := js\<rparr>" .
  let ?new = "changed_obligation (ob_verified ?ob) VOIDED (bq_now rq) ?ob"
  have "db' = db2\<lparr>b_obligations := set_row ob_id ?ob ?new (b_obligations db2)\<rparr>"
    using updateObligation_Inr [of ?ob n _ _ _ db2 db'] s3 s(1,2) keys(1) ints(1) p(3) by simp
  moreover have "obligation_becomes VOIDED ?ob ?new"
    using op by (intro changed_becomes) (simp add: open_verified)
  ultimately show ?thesis
    using ints p journal_lines_Inr(2) [OF p(1)]
    by (intro ledger_step.void_obligation [OF s(1) op _ ints(2), where js = js]) (auto simp: same_core_def)
qed

lemma voidObligation_tx_run:
  assumes "books db" and "voidObligation_tx rq owner i n db = Inr (out, db')"
  shows "ledger_step\<^sup>*\<^sup>* db db'"
proof -
  from assms(2) obtain sn db1 where l: "locked db i n (is_owner owner) = Inr sn"
    and plan: "planVoid (sn_obligation sn) (countAttempts db i) = Inr ()"
    and s1: "void_rows rq i n sn db = Inr db1" and s2: "same_core db' db1"
    by (auto simp: voidObligation_tx_def split: if_splits dest!: finish_command_Inr)
  from void_rows_step [OF assms(1) s1 locked_Inr(1) [OF l]] plan s2
  show ?thesis using step_core [OF assms(1)] by (auto simp: planVoid_Inr)
qed

lemma voidForBooking_tx_run:
  assumes "books db" and "voidForBooking_tx rq beneficiary i n db = Inr (out, db')"
  shows "ledger_step\<^sup>*\<^sup>* db db'"
proof -
  from assms(2) obtain sn db1 db2 where l: "locked db i n (\<lambda>_. True) = Inr sn"
    and plan: "planVoid (sn_obligation sn) (countAttempts db i) = Inr ()"
    and s1: "void_rows rq i n sn db = Inr db1" and s2: "same_core db2 db1" and s3: "same_core db' db2"
    by (auto simp: voidForBooking_tx_def dest!: finish_command_Inr markVoided_Inr)
  from void_rows_step [OF assms(1) s1 locked_Inr(1) [OF l]] plan same_core_trans [OF s3 s2]
  show ?thesis using step_core [OF assms(1)] by (auto simp: planVoid_Inr)
qed

section \<open>Credit settlement\<close>

text \<open>What the caller of \<open>confirm\<close> guarantees of the credit and of its earlier row.\<close>

definition confirmable :: "billing_db \<Rightarrow> credit \<Rightarrow> credit option \<Rightarrow> bool" where
  "confirmable db draft previous \<longleftrightarrow>
     (case previous of
        None \<Rightarrow> cr_source draft \<noteq> MERCHANT_STATEMENT \<and> valid_money (cr_amount draft)
      | Some p \<Rightarrow>
          p \<in> set (b_credits db) \<and> credit_core draft = credit_core p \<and>
          (cr_status p = PENDING_APPROVAL \<and>
             (\<exists>r d. cr_recordedBy p = Some r \<and> cr_decidedBy draft = Some d \<and> r \<noteq> d) \<or>
           cr_status p = UNALLOCATED \<and> cr_decidedBy draft = cr_decidedBy p))"

lemma insertCredit_Inr:
  assumes "insertCredit c db = Inr db'"
  shows "cr_id c \<notin> cr_id ` set (b_credits db)" and "0 < amount_of_credit c"
    and "db' = db\<lparr>b_credits := b_credits db @ [c]\<rparr>"
  using assms by (auto simp: insertCredit_def)

lemma updateCredit_Inr:
  assumes "updateCredit (cr_id p) n c db = Inr db'" and "p \<in> set (b_credits db)"
    and "distinct (map cr_id (b_credits db))"
  shows "db' = db\<lparr>b_credits := set_row cr_id p (creditData c p) (b_credits db)\<rparr>"
  using assms cas_rows_row [of cr_id p _ _ "b_credits db"] by (auto simp: updateCredit_def)

lemma creditData_core [simp]:
  "credit_core (creditData c p) = credit_core p" "cr_status (creditData c p) = cr_status c"
  "cr_obligationId (creditData c p) = cr_obligationId c" "cr_decidedBy (creditData c p) = cr_decidedBy c"
  "cr_amount (creditData c p) = cr_amount p" "cr_recordedBy (creditData c p) = cr_recordedBy p"
  "cr_provider (creditData c p) = cr_provider p" "cr_id (creditData c p) = cr_id p"
  by (simp_all add: creditData_def credit_core_def)

lemma store_credit_Inr:
  assumes "store_credit rq previous c db = Inr db'" and "confirmable db c previous"
    and d: "distinct (map cr_id (b_credits db))"
    and free: "\<And>p. previous = Some p \<Longrightarrow> cr_status p = UNALLOCATED \<Longrightarrow> reserved_sum (cr_id p) (b_refunds db) = 0"
  obtains c' crs js where "db' = db\<lparr>b_credits := crs, b_journals := js\<rparr>"
    "credit_confirmed c' (b_credits db) (b_refunds db) (b_journals db) crs js"
    "credit_core c' = credit_core c" "cr_status c' = cr_status c" "cr_obligationId c' = cr_obligationId c"
proof (cases previous)
  case None
  with assms(1) obtain db1 where s1: "insertCredit c db = Inr db1"
    and s2: "post (creditReceivedJournal (cr_id c) (cr_provider c) (cr_amount c))
        (meta_of rq 10 None None (Some (cr_id c))) db1 = Inr db'"
    by (auto simp: store_credit_def)
  note ins = insertCredit_Inr [OF s1]
  from post_Inr [OF s2] obtain p js where p: "creditReceivedJournal (cr_id c) (cr_provider c) (cr_amount c) = Inr p"
      "posted (jp_lines p) (b_journals db1) js" "db' = db1\<lparr>b_journals := js\<rparr>" .
  from creditReceivedJournal_Inr [OF p(1)] obtain clearing where cl: "clearingAccount (cr_provider c) = Inr clearing"
      "jp_lines p = [line clearing DEBIT (cr_amount c), line PROVIDER_CREDITS_UNALLOCATED CREDIT (cr_amount c)]" .
  have "credit_confirmed c (b_credits db) (b_refunds db) (b_journals db) (b_credits db @ [c]) js"
    using assms(2) None ins p(2) cl by (intro credit_confirmed.new_credit) (simp_all add: confirmable_def)
  with ins(3) p(3) that show thesis by simp
next
  case (Some p)
  with assms(2) have p: "p \<in> set (b_credits db)" "credit_core c = credit_core p" by (simp_all add: confirmable_def)
  note core = credit_core_simps [OF p(2)]
  from assms(1) Some obtain db1 where s1: "updateCredit (cr_id p) (cr_revision p) c db = Inr db1"
    and s2: "(if cr_status p \<in> set CONFIRMED_CREDIT_STATUSES then Inr db1
      else post (creditReceivedJournal (cr_id c) (cr_provider c) (cr_amount c))
        (meta_of rq 10 None None (Some (cr_id c))) db1) = Inr db'"
    by (auto simp: store_credit_def)
  note upd = updateCredit_Inr [OF s1 p(1) d]
  show thesis
  proof (cases "cr_status p = UNALLOCATED")
    case True
    with s2 have "db' = db1" by (simp add: CONFIRMED_CREDIT_STATUSES_def)
    moreover have "credit_confirmed (creditData c p) (b_credits db) (b_refunds db) (b_journals db)
        (set_row cr_id p (creditData c p) (b_credits db)) (b_journals db)"
      using assms(2) Some True free [OF Some True] p
      by (intro credit_confirmed.received_credit) (auto simp: confirmable_def)
    ultimately show thesis using that [where crs = "set_row cr_id p (creditData c p) (b_credits db)" and js = "b_journals db"] upd p(2)
      by simp
  next
    case False
    with assms(2) Some obtain r e where st: "cr_status p = PENDING_APPROVAL" "cr_recordedBy p = Some r"
        "cr_decidedBy c = Some e" "r \<noteq> e"
      by (auto simp: confirmable_def)
    with s2 have s2': "post (creditReceivedJournal (cr_id c) (cr_provider c) (cr_amount c))
        (meta_of rq 10 None None (Some (cr_id c))) db1 = Inr db'" by (simp add: CONFIRMED_CREDIT_STATUSES_def)
    from post_Inr [OF s2'] obtain q js where q: "creditReceivedJournal (cr_id c) (cr_provider c) (cr_amount c) = Inr q"
        "posted (jp_lines q) (b_journals db1) js" "db' = db1\<lparr>b_journals := js\<rparr>" .
    from creditReceivedJournal_Inr [OF q(1)] obtain clearing where cl: "clearingAccount (cr_provider c) = Inr clearing"
        "jp_lines q = [line clearing DEBIT (cr_amount c), line PROVIDER_CREDITS_UNALLOCATED CREDIT (cr_amount c)]" .
    have "credit_confirmed (creditData c p) (b_credits db) (b_refunds db) (b_journals db)
        (set_row cr_id p (creditData c p) (b_credits db)) js"
      using p st cl q(2) upd core by (intro credit_confirmed.pending_credit) simp_all
    with upd q(3) that [where crs = "set_row cr_id p (creditData c p) (b_credits db)" and js = js] p(2) show thesis by simp
  qed
qed

lemma settle_claim_Inr:
  assumes tx: "settle_claim rq actor c a sn db = Inr (after, db')"
    and d: "distinct (map it_id (b_intents db))" "distinct (map ob_id (b_obligations db))"
    and ob: "sn_obligation sn \<in> set (b_obligations db)"
    and it: "sn_activeIntent sn = Some it" "electronic_intent (b_intents db) (it_id it)"
  obtains ats ints js verified where
    "same_core db' (db\<lparr>b_attempts := ats, b_intents := ints, b_journals := js,
       b_obligations := set_row ob_id (sn_obligation sn)
         (changed_obligation verified SETTLED (bq_now rq) (sn_obligation sn)) (b_obligations db)\<rparr>)"
    "map at_intentId ats = map at_intentId (b_attempts db)" "quiet_intents (b_intents db) ints"
    "posted [line PROVIDER_CREDITS_UNALLOCATED DEBIT (cr_amount c), line CUSTOMER_RECEIVABLE CREDIT (cr_amount c)]
       (b_journals db) js"
    "Money_plus (ob_verified (sn_obligation sn)) (cr_amount c) = Inr verified"
proof -
  let ?ob = "sn_obligation sn"
  from tx it(1) obtain db1 db2 db3 verified db4 db5 where
    s1: "reconcileAttempt_row (at_id a) (at_status a) MATCHED (bq_now rq) actor (Some (cr_amount c))
          (Some (cr_id c)) db = Inr db1"
    and s2: "setIntentStatus (it_id it) (it_status it) SUCCEEDED (bq_now rq) db1 = Inr db2"
    and s3: "post (creditAllocatedJournal (cr_id c) (cr_amount c))
          (meta_of rq 11 (Some (ob_id ?ob)) None (Some (cr_id c))) db2 = Inr db3"
    and v: "Money_plus (ob_verified ?ob) (cr_amount c) = Inr verified"
    and s4: "updateObligation (ob_id ?ob) (ob_revision ?ob) verified SETTLED (bq_now rq) db3 = Inr db4"
    and s5: "same_core db5 db4" and s6: "same_core db' db5"
    by (auto simp: settle_claim_def Let_def dest!: appendAudit_row_Inr obligationChanged_Inr)
  from reconcileAttempt_row_Inr [OF s1] obtain ats where ats: "db1 = db\<lparr>b_attempts := ats\<rparr>"
      "map at_intentId ats = map at_intentId (b_attempts db)" by blast
  have "quiet_intents (b_intents db) (b_intents db1)" using quiet_refl [OF d(1)] ats(1) by simp
  from quiet_status [OF s2 this] it(2) ats(1) obtain ints where ints: "db2 = db1\<lparr>b_intents := ints\<rparr>"
      "quiet_intents (b_intents db) ints" by auto
  from post_Inr [OF s3] obtain p js where p: "creditAllocatedJournal (cr_id c) (cr_amount c) = Inr p"
      "posted (jp_lines p) (b_journals db2) js" "db3 = db2\<lparr>b_journals := js\<rparr>" .
  have "db4 = db3\<lparr>b_obligations := set_row ob_id ?ob (changed_obligation verified SETTLED (bq_now rq) ?ob)
      (b_obligations db3)\<rparr>"
    using updateObligation_Inr [OF s4] ob d(2) ats(1) ints(1) p(3) by simp
  with same_core_trans [OF s6 s5] have "same_core db' (db\<lparr>b_attempts := ats, b_intents := ints, b_journals := js,
       b_obligations := set_row ob_id ?ob (changed_obligation verified SETTLED (bq_now rq) ?ob) (b_obligations db)\<rparr>)"
    using ats(1) ints(1) p(3) by (simp add: same_core_def)
  moreover have "posted [line PROVIDER_CREDITS_UNALLOCATED DEBIT (cr_amount c),
      line CUSTOMER_RECEIVABLE CREDIT (cr_amount c)] (b_journals db) js"
    using p(2) journal_lines_Inr(6) [OF p(1)] ats(1) ints(1) by simp
  ultimately show thesis using that ats(2) ints(2) v by blast
qed

text \<open>The step that leaves the credit unallocated, and the one that settles the claim with it.\<close>

lemma leave_run:
  assumes "books db" and "store_credit rq previous (left_credit rq draft previous reason) db = Inr db1"
    and conf: "confirmable db draft previous"
    and new: "\<And>p. previous = Some p \<Longrightarrow> cr_status p \<noteq> UNALLOCATED"
    and "same_core db' db1"
  shows "ledger_step\<^sup>*\<^sup>* db db'"
proof -
  let ?c = "left_credit rq draft previous reason"
  have core: "credit_core ?c = credit_core draft" by (simp add: left_credit_def credit_core_def)
  then have "confirmable db ?c previous"
    using conf credit_core_simps [OF core] by (auto simp: confirmable_def left_credit_def split: option.splits)
  from store_credit_Inr [OF assms(2) this books_keys(5) [OF assms(1)]] new obtain c' crs js where
      "db1 = db\<lparr>b_credits := crs, b_journals := js\<rparr>"
      "credit_confirmed c' (b_credits db) (b_refunds db) (b_journals db) crs js" "cr_status c' = cr_status ?c"
    by metis
  then have "ledger_step db db1"
    by (intro ledger_step.leave_credit [where c = c' and crs = crs and js = js])
      (simp_all add: left_credit_def same_core_def)
  with assms(5) show ?thesis using step_core [OF assms(1)] by blast
qed

lemma allocate_run:
  assumes "books db" and conf: "confirmable db draft previous" and sn: "snapshot_of db i = Inr (Some sn)"
    and reserved: "\<And>p. previous = Some p \<Longrightarrow> reserved_sum (cr_id p) (b_refunds db) = 0"
    and duties: "cr_recordedBy draft \<noteq> Some (pr_subject (ob_owner (sn_obligation sn)))"
    and ob: "ob_status (sn_obligation sn) = OPEN" "outstanding (sn_obligation sn) = Inr (cr_amount draft)"
    and it: "sn_activeIntent sn = Some it" "it_status it = UNDER_REVIEW"
    and s1: "store_credit rq previous (allocated_credit rq draft previous a (sn_obligation sn)) db = Inr db1"
    and s2: "settle_claim rq actor (allocated_credit rq draft previous a (sn_obligation sn)) a sn db1 = Inr (after, db2)"
    and "same_core db' db2"
  shows "ledger_step\<^sup>*\<^sup>* db db'"
proof -
  let ?ob = "sn_obligation sn" and ?c = "allocated_credit rq draft previous a (sn_obligation sn)"
  note keys = books_keys [OF assms(1)] and s = snapshot_of_Inr [OF sn]
  have core: "credit_core ?c = credit_core draft" by (simp add: allocated_credit_def credit_core_def)
  then have "confirmable db ?c previous"
    using conf credit_core_simps [OF core] by (auto simp: confirmable_def allocated_credit_def split: option.splits)
  from store_credit_Inr [OF s1 this keys(5)] reserved obtain c' crs js where
      c': "db1 = db\<lparr>b_credits := crs, b_journals := js\<rparr>"
      "credit_confirmed c' (b_credits db) (b_refunds db) (b_journals db) crs js"
      "credit_core c' = credit_core ?c" "cr_status c' = cr_status ?c" "cr_obligationId c' = cr_obligationId ?c"
    by metis
  have "it \<in> set (b_intents db)" using s(4) [OF it(1)] by simp
  moreover have "isElectronic (it_method it)"
    using calculation it(2) assms(1) by (auto simp: books_def intents_ok_def intent_coherent_def)
  ultimately have el: "electronic_intent (b_intents db1) (it_id it)" using c'(1) by (auto simp: electronic_intent_def)
  have ok: "obligation_ok ?ob" by (rule books_obligation [OF assms(1) s(1)])
  from ob(1) have unsettled: "ob_status ?ob \<noteq> SETTLED" by simp
  have amount: "cr_amount ?c = ob_amount ?ob"
    using open_outstanding [OF ok unsettled ob(2)] by (simp add: allocated_credit_def)
  have on1: "distinct (map it_id (b_intents db1))" "distinct (map ob_id (b_obligations db1))"
      "?ob \<in> set (b_obligations db1)"
    using keys(1,2) s(1) c'(1) by simp_all
  from settle_claim_Inr [OF s2 on1 it(1) el] obtain ats ints js' v where
      t: "same_core db2 (db1\<lparr>b_attempts := ats, b_intents := ints, b_journals := js',
            b_obligations := set_row ob_id ?ob (changed_obligation v SETTLED (bq_now rq) ?ob) (b_obligations db1)\<rparr>)"
      "map at_intentId ats = map at_intentId (b_attempts db1)" "quiet_intents (b_intents db1) ints"
      "posted [line PROVIDER_CREDITS_UNALLOCATED DEBIT (cr_amount ?c), line CUSTOMER_RECEIVABLE CREDIT (cr_amount ?c)]
         (b_journals db1) js'"
      "Money_plus (ob_verified ?ob) (cr_amount ?c) = Inr v" .
  have "mo_amountMinor v = amount_of_obligation ?ob"
    using t(5) open_verified [OF ok unsettled] amount by (auto simp: Money_plus_Inr)
  then have becomes: "obligation_becomes SETTLED ?ob (changed_obligation v SETTLED (bq_now rq) ?ob)"
    by (intro changed_becomes) simp
  have "ledger_step db db2"
  proof (rule ledger_step.allocate_credit [OF c'(2) _ _ _ _ s(1) ob(1) becomes])
    show "posted [line PROVIDER_CREDITS_UNALLOCATED DEBIT (cr_amount c'), line CUSTOMER_RECEIVABLE CREDIT (cr_amount c')]
        js js'"
      using t(4) c'(1) credit_core_simps(2) [OF c'(3)] by simp
    show "cr_recordedBy c' \<noteq> Some (pr_subject (ob_owner ?ob))"
      using duties credit_core_simps(5) [OF c'(3)] credit_core_simps(5) [OF core] by simp
    show "claims_follow ints (b_attempts db) (b_attempts db2)"
      using t(1,2) c'(1) by (intro claims_follow_map) (simp add: same_core_def)
  qed (use c' t(1,3) amount credit_core_simps(2) [OF c'(3)] in \<open>simp_all add: allocated_credit_def same_core_def\<close>)
  with assms(12) show ?thesis using step_core [OF assms(1)] by blast
qed

lemma confirm_run:
  assumes "books db" and "confirm rq actor draft previous db = Inr ((c, after), db')"
    and conf: "confirmable db draft previous"
  shows "ledger_step\<^sup>*\<^sup>* db db'"
proof -
  define claim where "claim = claimFor db (cr_provider draft) (cr_reference draft)"
  define obl where "obl = (case claim of None \<Rightarrow> None | Some (_, i) \<Rightarrow> lockObligation db i)"
  note tx = assms(2) [unfolded confirm_def Let_def, folded claim_def, folded obl_def]
  from tx obtain before where b: "(case obl of None \<Rightarrow> Inr None | Some ob \<Rightarrow> snapshot_of db (ob_id ob)) = Inr before"
    by (auto simp only: andThen_Inr)
  define att where "att = (case (claim, before) of (Some (i, _), Some sn) \<Rightarrow> find (\<lambda>a. at_id a = i) (sn_attempts sn) | _ \<Rightarrow> None)"
  note tx1 = tx [unfolded b andThen_simps, folded att_def]
  from tx1 obtain u where duties: "(case (obl, before) of
         (Some ob, Some _) \<Rightarrow> if map_option pr_subject actor = Some (pr_subject (ob_owner ob)) \<or>
              cr_recordedBy draft = Some (pr_subject (ob_owner ob))
            then app_error ''SEPARATION_OF_DUTIES'' else Inr ()
       | _ \<Rightarrow> Inr ()) = Inr u"
    by (auto simp only: andThen_Inr)
  from tx1 obtain reserved where
    r: "(case previous of None \<Rightarrow> Inr None | Some p \<Rightarrow> andThen (reservedForRefund db p) (\<lambda>m. Inr (Some m))) = Inr reserved"
    by (auto simp only: andThen_Inr)
  note tx2 = tx1 [unfolded duties r andThen_simps]
  from tx2 obtain plan where
    plan: "planCreditAllocation (cr_amount draft) reserved att (map_option sn_obligation before)
                  (case before of None \<Rightarrow> None | Some sn \<Rightarrow> sn_activeIntent sn) = Inr plan"
    by (auto simp only: andThen_Inr)
  note rest = tx2 [unfolded plan andThen_simps]
  show ?thesis
  proof (cases plan)
    case (LEAVE reason)
    show ?thesis
    proof (cases "\<exists>p. previous = Some p \<and> cr_status p = UNALLOCATED")
      case True
      with rest LEAVE show ?thesis by auto
    next
      case False
      with rest LEAVE obtain db1 where "store_credit rq previous (left_credit rq draft previous reason) db = Inr db1"
          "same_core db' db1"
        by (cases previous) (auto dest!: appendOutbox_Inr)
      with leave_run [OF assms(1) _ conf] False show ?thesis by blast
    qed
  next
    case (ALLOCATE received)
    from plan [unfolded ALLOCATE] obtain a ob it where al: "att = Some a" "map_option sn_obligation before = Some ob"
        "(case before of None \<Rightarrow> None | Some sn \<Rightarrow> sn_activeIntent sn) = Some it" "ob_status ob = OPEN"
        "it_status it = UNDER_REVIEW" "outstanding ob = Inr (cr_amount draft)"
        "case reserved of None \<Rightarrow> True | Some r \<Rightarrow> mo_amountMinor r = 0"
      by (rule planCreditAllocation_ALLOCATE) blast
    then obtain sn where sn: "before = Some sn" "sn_obligation sn = ob" "sn_activeIntent sn = Some it"
      by (cases before) auto
    from b sn(1) obtain x where x: "obl = Some x" "snapshot_of db (ob_id x) = Inr (Some sn)"
      by (auto split: option.splits)
    from x(1) obtain k i where "claim = Some (k, i)" "lockObligation db i = Some x"
      by (auto simp: obl_def split: option.splits)
    then have "lockObligation db (ob_id x) = Some x" by (auto simp: lockObligation_def dest: find_row_Some)
    with snapshot_of_Inr(3) [OF x(2)] sn(2) have "x = ob" by simp
    with duties x(1) sn(1) have rec: "cr_recordedBy draft \<noteq> Some (pr_subject (ob_owner ob))"
      by (auto split: if_splits)
    have free: "reserved_sum (cr_id p) (b_refunds db) = 0" if "previous = Some p" for p
      using r al(7) that by (auto simp: reservedForRefund_def)
    from rest ALLOCATE al(1) sn(1) obtain db1 aft db2 where
        "store_credit rq previous (allocated_credit rq draft previous a (sn_obligation sn)) db = Inr db1"
        "settle_claim rq actor (allocated_credit rq draft previous a (sn_obligation sn)) a sn db1 = Inr (aft, db2)"
        "same_core db' db2"
      by (cases previous) (auto dest!: appendOutbox_Inr)
    with allocate_run [OF assms(1) conf x(2) free _ _ _ sn(3) al(5)] rec al(4,6) sn(2) show ?thesis by blast
  qed
qed

lemma submitAttempt_tx_run:
  assumes "books db" and "submitAttempt_tx rq owner i n ref db = Inr (out, db')"
  shows "ledger_step\<^sup>*\<^sup>* db db'"
proof -
  note keys = books_keys [OF assms(1)]
  note tx = assms(2) [unfolded submitAttempt_tx_def Let_def]
  from tx obtain sn where l: "locked db i n (is_owner owner) = Inr sn" by auto
  from tx l have plan: "planAttemptSubmission (sn_obligation sn) (sn_activeIntent sn) (countAttempts db i) = Inr ()"
    by auto
  then obtain it where it: "sn_activeIntent sn = Some it" "isElectronic (it_method it)"
    by (auto simp: planAttemptSubmission_Inr)
  let ?ob = "sn_obligation sn"
  let ?a = "\<lparr>at_id = bq_ids rq 0, at_intentId = it_id it, at_status = PENDING_REVIEW,
                 at_claimed = it_amount it, at_obligationId = i, at_method = it_method it,
                 at_providerReference = ref, at_submittedAt = bq_now rq, at_reconciledAt = None,
                 at_reconciledBy = None, at_observed = None, at_creditId = None\<rparr>"
  from tx l plan it obtain db1 db2 db3 where s1: "insertAttempt ?a db = Inr db1"
    and s2: "setIntentStatus (it_id it) (it_status it) UNDER_REVIEW (bq_now rq) db1 = Inr db2"
    and s3: "updateObligation i n (ob_verified ?ob) (ob_status ?ob) (bq_now rq) db2 = Inr db3"
    by (auto split: if_splits)
  define cr where "cr = (case unallocatedCreditFor db3 (it_method it) ref of
      None \<Rightarrow> None | Some waiting \<Rightarrow> lockCredit db3 (cr_id waiting))"
  from tx l plan it s1 s2 s3 obtain u db4 where
    s4: "(case cr of None \<Rightarrow> Inr ((), db3)
          | Some c \<Rightarrow> if cr_status c = UNALLOCATED
              then bindS (confirm rq None c (Some c) db3) (\<lambda>_ db4. Inr ((), db4)) else Inr ((), db3)) = Inr (u, db4)"
    and s5: "same_core db' db4"
    by (auto simp: cr_def split: if_split_asm dest!: finish_command_Inr)
  note sn = snapshot_of_Inr [OF locked_Inr(1) [OF l]]
  note ins = insertAttempt_Inr [OF s1]
  have el: "electronic_intent (b_intents db) (it_id it)"
    using it(2) sn(4) [OF it(1)] by (auto simp: electronic_intent_def)
  have "quiet_intents (b_intents db) (b_intents db1)" using quiet_refl [OF keys(2)] ins by simp
  from quiet_status [OF s2 this] el ins obtain ints where ints: "db2 = db1\<lparr>b_intents := ints\<rparr>"
      "quiet_intents (b_intents db) ints" by auto
  have "db3 = db2\<lparr>b_obligations := set_row ob_id ?ob
      (changed_obligation (ob_verified ?ob) (ob_status ?ob) (bq_now rq) ?ob) (b_obligations db2)\<rparr>"
    using updateObligation_Inr [of ?ob n _ _ _ db2 db3] s3 sn(1,2) keys(1) ins ints(1) by simp
  moreover have "claims_follow ints (b_attempts db) (b_attempts db @ [?a])"
    using electronic_kept [OF quiet_methods [OF ints(2)] el] by (auto simp: claims_follow_def)
  ultimately have st: "ledger_step db db3"
    using ins ints by (intro touched_obligation [OF assms(1) sn(1), where ints = ints and ats = "b_attempts db @ [?a]"])
      (auto simp: same_core_def)
  have bk: "books db3" by (rule books_step [OF st assms(1)])
  have "ledger_step\<^sup>*\<^sup>* db3 db4"
  proof (cases cr)
    case (Some c)
    then have "c \<in> set (b_credits db3)" by (auto simp: cr_def lockCredit_def split: option.splits dest: find_row_Some)
    then have "cr_status c = UNALLOCATED \<Longrightarrow> confirmable db3 c (Some c)" by (simp add: confirmable_def)
    with s4 Some show ?thesis using confirm_run [OF bk] by (auto split: if_split_asm)
  qed (use s4 in simp)
  with st have "ledger_step\<^sup>*\<^sup>* db db4" by (rule converse_rtranclp_into_rtranclp)
  from run_core [OF assms(1) this s5] show ?thesis .
qed

end
