(* ===== verification/Billing_Refinement_Funds.thy ===== *)
theory Billing_Refinement_Funds
  imports Billing_Refinement
begin

text \<open>
  Billing, the transactions refine the ledger machine, second part: statement credits, provider
  notifications and queries, and refunds (\<^verbatim>\<open>provider-payments.service.ts\<close>,
  \<^verbatim>\<open>refund.service.ts\<close>).
\<close>

section \<open>Provider credits\<close>

lemma lockCredit_Some: "lockCredit db i = Some c \<Longrightarrow> c \<in> set (b_credits db) \<and> cr_id c = i"
  by (auto simp: lockCredit_def dest: find_row_Some)

lemma recordStatementCredit_tx_run:
  assumes "books db" and "recordStatementCredit_tx rq who provider f ev db = Inr (out, db')"
    and "valid_money (cf_amount f)"
  shows "ledger_step\<^sup>*\<^sup>* db db'"
proof -
  let ?c = "(draft_credit rq provider f ev MERCHANT_STATEMENT (Some (pr_subject who)))\<lparr>cr_status := PENDING_APPROVAL\<rparr>"
  from assms(2) obtain db1 db2 where s1: "insertCredit ?c db = Inr db1"
    and s2: "same_core db2 db1" and s3: "same_core db' db2"
    by (auto simp: recordStatementCredit_tx_def Let_def split: if_splits
        dest!: credit_audit_Inr appendOutbox_Inr)
  note ins = insertCredit_Inr [OF s1]
  have "ledger_step db db1"
    using ins assms(3) by (intro ledger_step.record_statement [where c = ?c])
      (simp_all add: draft_credit_def same_core_def)
  with same_core_trans [OF s3 s2] show ?thesis using step_core [OF assms(1)] by blast
qed

lemma decideStatementCredit_tx_run:
  assumes "books db" and "decideStatementCredit_tx rq who i n d reason db = Inr (out, db')"
  shows "ledger_step\<^sup>*\<^sup>* db db'"
proof -
  note keys = books_keys [OF assms(1)]
  note tx = assms(2) [unfolded decideStatementCredit_tx_def Let_def]
  from tx obtain c where c: "lockCredit db i = Some c" by (auto split: option.split_asm)
  from tx c have plan: "planStatementDecision c (pr_subject who) = Inr ()" by (auto split: if_splits)
  then obtain r where r: "cr_status c = PENDING_APPROVAL" "cr_recordedBy c = Some r" "r \<noteq> pr_subject who"
    by (auto simp: planStatementDecision_Inr)
  note mem = lockCredit_Some [OF c]
  show ?thesis
  proof (cases d)
    case APPROVE
    let ?c = "c\<lparr>cr_decidedBy := Some (pr_subject who), cr_decidedAt := Some (bq_now rq)\<rparr>"
    from tx c plan APPROVE obtain c' after db1 where s1: "confirm rq (Some who) ?c (Some c) db = Inr ((c', after), db1)"
      and s2: "same_core db' db1"
      by (auto split: if_splits prod.splits dest!: credit_audit_Inr)
    have "confirmable db ?c (Some c)" using mem r by (simp add: confirmable_def credit_core_def)
    from run_core [OF assms(1) confirm_run [OF assms(1) s1 this] s2] show ?thesis .
  next
    case REJECT
    let ?c = "c\<lparr>cr_status := CR_REJECTED, cr_decidedBy := Some (pr_subject who),
                cr_decidedAt := Some (bq_now rq), cr_rejectionReason := reason,
                cr_revision := cr_revision c + 1, cr_updatedAt := bq_now rq\<rparr>"
    from tx c plan REJECT obtain db1 db2 where s1: "updateCredit i (cr_revision c) ?c db = Inr db1"
      and s2: "same_core db2 db1" and s3: "same_core db' db2"
      by (auto split: if_splits dest!: credit_audit_Inr appendOutbox_Inr)
    have "db1 = db\<lparr>b_credits := set_row cr_id c (creditData ?c c) (b_credits db)\<rparr>"
      using updateCredit_Inr [of c _ ?c db db1] s1 mem keys(5) by simp
    then have "ledger_step db db1"
      using mem r(1) by (intro ledger_step.reject_statement [where p = c and c = "creditData ?c c"])
        (simp_all add: same_core_def)
    with same_core_trans [OF s3 s2] show ?thesis using step_core [OF assms(1)] by blast
  qed
qed

lemma draft_confirmable:
  assumes "src \<noteq> MERCHANT_STATEMENT" and "valid_money (cf_amount f)"
  shows "confirmable db (draft_credit rq provider f ev src by_whom) None"
  using assms by (simp add: confirmable_def draft_credit_def)

lemma receiveNotification_tx_run:
  assumes "books db" and "receiveNotification_tx rq provider f ev db = Inr (out, db')"
    and "valid_money (cf_amount f)"
  shows "ledger_step\<^sup>*\<^sup>* db db'"
proof (cases "effectiveCredit db provider (cf_merchantAccount f) (cf_reference f)")
  case None
  let ?c = "draft_credit rq provider f ev PROVIDER_NOTIFICATION None"
  from assms(2) None obtain c after db1 where s1: "confirm rq None ?c None db = Inr ((c, after), db1)"
    and s2: "same_core db' db1"
    by (auto simp: receiveNotification_tx_def split: prod.splits dest!: credit_audit_Inr)
  have "confirmable db ?c None" using assms(3) by (intro draft_confirmable) simp_all
  from run_core [OF assms(1) confirm_run [OF assms(1) s1 this] s2] show ?thesis .
next
  case (Some stored)
  with assms(2) show ?thesis by (auto simp: receiveNotification_tx_def split: if_splits)
qed

lemma markUnknown_run:
  assumes "books db" and "markUnknown rq who i attemptId db = Inr db'"
  shows "ledger_step\<^sup>*\<^sup>* db db'"
proof (cases "db' = db")
  case False
  note tx = assms(2) [unfolded markUnknown_def]
  from tx obtain before where b: "snapshot_of db i = Inr before" by auto
  from tx b False obtain ob sn where ob: "lockObligation db i = Some ob" and sn: "before = Some sn"
    by (auto split: option.split_asm)
  note s = snapshot_of_Inr [OF b [unfolded sn]]
  have "sn_obligation sn = ob" using s(3) ob by simp
  with s(1,2) have mem: "ob \<in> set (b_obligations db)" "ob_id ob = i" by simp_all
  from tx b ob sn False obtain db1 db2 db3 where
      s1: "reconcileAttempt_row attemptId PENDING_REVIEW UNKNOWN (bq_now rq) (Some who) None None db = Inr db1"
    and s2: "updateObligation i (ob_revision ob) (ob_verified ob) (ob_status ob) (bq_now rq) db1 = Inr db2"
    and s3: "same_core db3 db2" and s4: "same_core db' db3"
    by (auto split: option.split_asm if_split_asm dest!: appendAudit_row_Inr obligationChanged_Inr)
  from reconcileAttempt_row_Inr [OF s1] obtain ats where ats: "db1 = db\<lparr>b_attempts := ats\<rparr>"
      "map at_intentId ats = map at_intentId (b_attempts db)" by blast
  have "db2 = db1\<lparr>b_obligations := set_row ob_id ob (changed_obligation (ob_verified ob) (ob_status ob) (bq_now rq) ob)
      (b_obligations db1)\<rparr>"
    using updateObligation_Inr [of ob _ _ _ _ db1 db2] s2 mem books_keys(1) [OF assms(1)] ats(1) by simp
  then have "ledger_step db db2"
    using ats quiet_refl [OF books_keys(2) [OF assms(1)]] claims_follow_map [OF ats(2)]
    by (intro touched_obligation [OF assms(1) mem(1), where ints = "b_intents db" and ats = ats])
      (auto simp: same_core_def)
  with same_core_trans [OF s4 s3] show ?thesis using step_core [OF assms(1)] by blast
qed simp

text \<open>What a provider said of a transfer is an amount the money type admits.\<close>

fun valid_answer :: "query_answer \<Rightarrow> bool" where
  "valid_answer (FoundFinal f ev) = valid_money (cf_amount f)"
| "valid_answer _ = True"

lemma verifyAttempt_tx_run:
  assumes "books db" and "verifyAttempt_tx adapters rq who i attemptId provider answer db = Inr (out, db')"
    and "valid_answer answer"
  shows "ledger_step\<^sup>*\<^sup>* db db'"
proof (cases answer)
  case (FoundFinal f ev)
  note tx = assms(2) [unfolded verifyAttempt_tx_def FoundFinal, simplified]
  show ?thesis
  proof (cases "\<not> ad_acceptsMerchantAccount (adapters provider) (cf_merchantAccount f)")
    case True
    with tx show ?thesis by (auto dest!: verification_Inr)
  next
    case acc: False
    show ?thesis
    proof (cases "effectiveCredit db provider (cf_merchantAccount f) (cf_reference f)")
      case None
      let ?c = "draft_credit rq provider f ev PROVIDER_QUERY (Some (pr_subject who))"
      from tx acc None obtain c after db1 db2 where s1: "confirm rq (Some who) ?c None db = Inr ((c, after), db1)"
        and s2: "same_core db2 db1" and s3: "db' = db2"
        by (auto split: prod.splits dest!: credit_audit_Inr verification_Inr)
      have "confirmable db ?c None" using assms(3) FoundFinal by (intro draft_confirmable) simp_all
      from run_core [OF assms(1) confirm_run [OF assms(1) s1 this] s2] s3 show ?thesis by simp
    next
      case (Some stored)
      from tx acc Some obtain c where c: "lockCredit db (cr_id stored) = Some c"
        by (auto split: if_split_asm option.split_asm)
      show ?thesis
      proof (cases "cr_status c = UNALLOCATED")
        case True
        from tx acc Some c True obtain c' after db1 where "confirm rq (Some who) c (Some c) db = Inr ((c', after), db1)"
            "db' = db1"
          by (auto split: if_split_asm prod.splits dest!: verification_Inr)
        moreover have "confirmable db c (Some c)" using lockCredit_Some [OF c] True by (simp add: confirmable_def)
        ultimately show ?thesis using confirm_run [OF assms(1)] by blast
      next
        case False
        with tx acc Some c show ?thesis by (auto split: if_split_asm dest!: verification_Inr)
      qed
    qed
  qed
next
  case QueryUnknown
  with assms(2) markUnknown_run [OF assms(1)] show ?thesis
    by (auto simp: verifyAttempt_tx_def dest!: verification_Inr)
qed (use assms(2) in \<open>auto simp: verifyAttempt_tx_def dest!: verification_Inr\<close>)

section \<open>Refunds\<close>

lemma insertRefund_Inr:
  assumes "insertRefund f db = Inr db'"
  shows "rf_id f \<notin> rf_id ` set (b_refunds db)" and "0 < amount_of_refund f"
    and "db' = db\<lparr>b_refunds := b_refunds db @ [f]\<rparr>"
  using assms by (auto simp: insertRefund_def)

lemma updateRefund_Inr:
  assumes "updateRefund (rf_id f) n f' db = Inr db'" and "f \<in> set (b_refunds db)"
    and "distinct (map rf_id (b_refunds db))"
  shows "db' = db\<lparr>b_refunds := set_row rf_id f (refundData f' f) (b_refunds db)\<rparr>"
  using assms cas_rows_row [of rf_id f _ _ "b_refunds db"] by (auto simp: updateRefund_def)

lemma refundData_core [simp]:
  "refund_core (refundData f' f) = refund_core f" "rf_status (refundData f' f) = rf_status f'"
  "rf_decidedBy (refundData f' f) = rf_decidedBy f'" "rf_requestedBy (refundData f' f) = rf_requestedBy f"
  by (simp_all add: refundData_def refund_core_def)

lemma lockedRefund_Inr:
  assumes "lockedRefund db i k n = Inr (c, f)"
  shows "c \<in> set (b_credits db)" and "f \<in> set (b_refunds db)" and "rf_id f = i" and "rf_creditId f = cr_id c"
  using assms
  by (auto simp: lockedRefund_def lockRefund_def split: option.splits if_splits dest!: lockCredit_Some find_row_Some)

lemma reserved_amount:
  "reservedForRefund db c = Inr m \<Longrightarrow> mo_amountMinor m = reserved_sum (cr_id c) (b_refunds db)"
  by (auto simp: reservedForRefund_def)

lemma requestRefund_tx_run:
  assumes "books db" and "requestRefund_tx adapters rq who i n amount reason db = Inr (out, db')"
  shows "ledger_step\<^sup>*\<^sup>* db db'"
proof -
  note tx = assms(2) [unfolded requestRefund_tx_def Let_def]
  from tx obtain c where c: "lockCredit db i = Some c" by (auto split: option.split_asm)
  from tx c obtain f reserved db1 where
      r: "reservedForRefund db c = Inr reserved" and plan: "planRefundRequest c reserved amount reason = Inr ()"
    and s1: "insertRefund f db = Inr db1" and s2: "same_core db' db1"
    and f: "rf_status f = REQUESTED" "rf_creditId f = i" "rf_amount f = amount"
    by (auto split: if_split_asm dest!: refund_changed_Inr)
  note mem = lockCredit_Some [OF c] and ins = insertRefund_Inr [OF s1] and req = planRefundRequest_Inr [OF plan]
  have "ledger_step db db1"
  proof (rule ledger_step.request_refund [where c = c and f = f])
    show "amount_of_refund f + reserved_sum (cr_id c) (b_refunds db) \<le> amount_of_credit c"
      using req(4) reserved_amount [OF r] f(3) by simp
    show "confirmed c" using req(1) by (auto simp: confirmed_def)
  qed (use mem ins f req(2) in \<open>simp_all add: same_core_def\<close>)
  with s2 show ?thesis using step_core [OF assms(1)] by blast
qed

lemma move_refund_step:
  assumes "books db" and "f \<in> set (b_refunds db)" and "updateRefund (rf_id f) n f' db = Inr db1"
    and "rf_status f \<in> {REQUESTED, APPROVED, SUBMITTED, RF_UNKNOWN}" and "rf_status f' \<noteq> RF_SUCCEEDED"
    and "refund_duties (refundData f' f)"
  shows "ledger_step db db1"
  using assms updateRefund_Inr [OF assms(3,2) books_keys(6) [OF assms(1)]]
  by (intro ledger_step.move_refund [where f = f and f' = "refundData f' f"])
    (auto simp: same_core_def reserving_def RESERVING_REFUND_STATUSES_def)

lemma pay_refund_step:
  assumes "books db" and "f \<in> set (b_refunds db)" and "updateRefund (rf_id f) n f' db = Inr db1"
    and "rf_status f \<in> {REQUESTED, APPROVED, SUBMITTED, RF_UNKNOWN}" and "rf_status f' = RF_SUCCEEDED"
    and "refund_duties (refundData f' f)" and c: "c \<in> set (b_credits db)" "rf_creditId f = cr_id c"
    and "rf_amount f' = rf_amount f" and pay: "refund_paid rq c f' db1 = Inr db2"
  shows "ledger_step db db2"
proof -
  note upd = updateRefund_Inr [OF assms(3,2) books_keys(6) [OF assms(1)]]
  from post_Inr [OF pay [unfolded refund_paid_def]] obtain p js where
      p: "refundPaidJournal (rf_id f') (cr_provider c) (rf_amount f') (cr_status c = ALLOCATED) = Inr p"
      "posted (jp_lines p) (b_journals db1) js" "db2 = db1\<lparr>b_journals := js\<rparr>" .
  from refundPaidJournal_Inr [OF p(1)] obtain clearing where cl: "clearingAccount (cr_provider c) = Inr clearing"
      "jp_lines p = [line (if cr_status c = ALLOCATED then REFUNDS_CONTROL else PROVIDER_CREDITS_UNALLOCATED) DEBIT
        (rf_amount f'), line clearing CREDIT (rf_amount f')]" .
  show ?thesis
  proof (rule ledger_step.pay_refund [where f = f and f' = "refundData f' f" and js = js, OF assms(2) _ _ _ _ assms(6) c(1) _ cl(1)])
    show "reserving f" using assms(4) by (auto simp: reserving_def RESERVING_REFUND_STATUSES_def)
    show "posted [line (if cr_status c = ALLOCATED then REFUNDS_CONTROL else PROVIDER_CREDITS_UNALLOCATED) DEBIT
        (rf_amount f), line clearing CREDIT (rf_amount f)] (b_journals db) js"
      using p(2) cl(2) upd assms(9) by simp
  qed (use assms(4,5) c(2) upd p(3) in \<open>auto simp: same_core_def\<close>)
qed

lemma decideRefund_tx_run:
  assumes "books db" and "decideRefund_tx rq who i k n d db = Inr (out, db')"
  shows "ledger_step\<^sup>*\<^sup>* db db'"
proof -
  from assms(2) obtain c f db1 where l: "lockedRefund db i k n = Inr (c, f)"
    and plan: "planRefundDecision f (pr_subject who) = Inr ()"
    and s1: "updateRefund i (rf_revision f) (f\<lparr>rf_status := (if d = APPROVE then APPROVED else RF_REJECTED),
                 rf_decidedBy := Some (pr_subject who), rf_decidedAt := Some (bq_now rq),
                 rf_revision := rf_revision f + 1, rf_updatedAt := bq_now rq\<rparr>) db = Inr db1"
    and s2: "same_core db' db1"
    by (auto simp: decideRefund_tx_def Let_def dest!: refund_changed_Inr)
  note lk = lockedRefund_Inr [OF l]
  have "ledger_step db db1"
    using s1 plan lk(2,3)
    by (intro move_refund_step [OF assms(1) lk(2), where n = "rf_revision f"])
      (auto simp: planRefundDecision_Inr refund_duties_def split: if_splits)
  with s2 show ?thesis using step_core [OF assms(1)] by blast
qed

lemma decided_refund:
  assumes "books db" and "f \<in> set (b_refunds db)" and "rf_status f \<noteq> REQUESTED" and "rf_decidedBy f' = rf_decidedBy f"
  shows "refund_duties (refundData f' f)"
  using assms by (auto simp: books_def duties_ok_def refund_duties_def)

lemma executeRefund_tx_run:
  assumes "books db" and "executeRefund_tx rq who i k n outcome ref db = Inr (out, db')"
  shows "ledger_step\<^sup>*\<^sup>* db db'"
proof -
  note tx = assms(2) [unfolded executeRefund_tx_def Let_def]
  from tx obtain c f where l: "lockedRefund db i k n = Inr (c, f)" by auto
  from tx l obtain st where plan: "planRefundProviderOutcome f outcome = Inr st" by auto
  note lk = lockedRefund_Inr [OF l] and pl = planRefundProviderOutcome_Inr [OF plan]
  show ?thesis
  proof (cases "st = rf_status f")
    case True
    with tx l plan show ?thesis by simp
  next
    case False
    with tx l plan obtain f' db1 db2 where s1: "updateRefund i (rf_revision f) f' db = Inr db1"
      and s2: "(if st = RF_SUCCEEDED then refund_paid rq c f' db1 else Inr db1) = Inr db2" and s3: "same_core db' db2"
      and f': "rf_status f' = st" "rf_decidedBy f' = rf_decidedBy f" "rf_amount f' = rf_amount f"
      by (auto simp del: One_nat_def dest!: refund_changed_Inr)
    have st: "rf_status f \<in> {REQUESTED, APPROVED, SUBMITTED, RF_UNKNOWN}" "rf_status f \<noteq> REQUESTED"
      using pl(2) by auto
    note duties = decided_refund [OF assms(1) lk(2) st(2) f'(2)]
    have "ledger_step db db2"
    proof (cases "st = RF_SUCCEEDED")
      case True
      with s2 have "refund_paid rq c f' db1 = Inr db2" by simp
      with pay_refund_step [OF assms(1) lk(2) s1 [folded lk(3)] st(1) _ duties lk(1,4) f'(3)] f'(1) True
      show ?thesis by simp
    next
      case False
      with s2 have "db2 = db1" by simp
      with move_refund_step [OF assms(1) lk(2) s1 [folded lk(3)] st(1) _ duties] f'(1) False show ?thesis by simp
    qed
    with s3 show ?thesis using step_core [OF assms(1)] by blast
  qed
qed

lemma completeManualRefund_tx_run:
  assumes "books db" and "completeManualRefund_tx rq who i k n outcome transfer db = Inr (out, db')"
  shows "ledger_step\<^sup>*\<^sup>* db db'"
proof -
  note tx = assms(2) [unfolded completeManualRefund_tx_def Let_def]
  from tx obtain c f where l: "lockedRefund db i k n = Inr (c, f)" by auto
  from tx l have plan: "planManualRefundCompletion f (pr_subject who) = Inr ()" by auto
  note lk = lockedRefund_Inr [OF l]
  from tx l plan obtain f' db1 db2 where s1: "updateRefund i (rf_revision f) f' db = Inr db1"
    and s2: "(if outcome = MO_SUCCEEDED then refund_paid rq c f' db1 else Inr db1) = Inr db2" and s3: "same_core db' db2"
    and f': "rf_status f' = (if outcome = MO_SUCCEEDED then RF_SUCCEEDED else FAILED)" "rf_decidedBy f' = rf_decidedBy f"
      "rf_amount f' = rf_amount f"
    by (auto simp del: One_nat_def dest!: refund_changed_Inr)
  have st: "rf_status f \<in> {REQUESTED, APPROVED, SUBMITTED, RF_UNKNOWN}" "rf_status f \<noteq> REQUESTED"
    using plan by (auto simp: planManualRefundCompletion_Inr)
  note duties = decided_refund [OF assms(1) lk(2) st(2) f'(2)]
  have "ledger_step db db2"
  proof (cases "outcome = MO_SUCCEEDED")
    case True
    with s2 have "refund_paid rq c f' db1 = Inr db2" by simp
    with pay_refund_step [OF assms(1) lk(2) s1 [folded lk(3)] st(1) _ duties lk(1,4) f'(3)] f'(1) True
    show ?thesis by simp
  next
    case False
    with s2 have "db2 = db1" by simp
    with move_refund_step [OF assms(1) lk(2) s1 [folded lk(3)] st(1) _ duties] f'(1) False show ?thesis by simp
  qed
  with s3 show ?thesis using step_core [OF assms(1)] by blast
qed

end
