(* ===== verification/Billing_Refinement_Custody.thy ===== *)
theory Billing_Refinement_Custody
  imports Billing_Refinement_Funds
begin

text \<open>
  Billing, the transactions refine the ledger machine, third part: cash collection, its
  reversal, and the handover of cash to the treasury (\<^verbatim>\<open>cash-custody.service.ts\<close>).
\<close>

section \<open>Receipts that move\<close>

lemma moved_receipt_core [simp]:
  "receipt_core (moved_receipt st link at r) = receipt_core r"
  "re_custodyStatus (moved_receipt st link at r) = st" "re_id (moved_receipt st link at r) = re_id r"
  by (simp_all add: moved_receipt_def receipt_core_def)

lemma updateReceiptCustody_Inr:
  assumes "updateReceiptCustody (re_id r) n st link at db = Inr db'" and "r \<in> set (b_receipts db)"
    and "distinct (map re_id (b_receipts db))"
  shows "db' = db\<lparr>b_receipts := set_row re_id r (moved_receipt st link at r) (b_receipts db)\<rparr>"
  using assms cas_rows_row [of re_id r _ _ "b_receipts db"] by (auto simp: updateReceiptCustody_def)

lemma moved_one:
  assumes "r \<in> set res" and "distinct (map re_id res)" and "re_custodyStatus r = was"
  shows "receipts_moved {re_id r} was becomes res (set_row re_id r (moved_receipt becomes link at r) res)"
proof -
  have "x = r" if "x \<in> set res" "re_id x = re_id r" for x
    using that assms(1,2) distinct_key_eq [of re_id res x r] by blast
  then show ?thesis
    using assms(3) unfolding receipts_moved_def set_row_def update_rows_def
    by (auto simp: list_all2_map2 intro!: list.rel_refl_strong)
qed

lemma moved_none: "receipts_moved {} was becomes res res"
  by (auto simp: receipts_moved_def intro!: list.rel_refl_strong)

lemma moved_trans:
  assumes "receipts_moved ids was becomes res res1" and "receipts_moved ids' was becomes res1 res2" and "ids \<inter> ids' = {}"
  shows "receipts_moved (ids \<union> ids') was becomes res res2"
proof -
  have "length res = length res1" "length res1 = length res2"
    using assms(1,2) by (auto simp: receipts_moved_def dest: list_all2_lengthD)
  moreover have "receipt_core (res2 ! k) = receipt_core (res ! k) \<and>
       (if re_id (res ! k) \<in> ids \<union> ids' then re_custodyStatus (res ! k) = was \<and> re_custodyStatus (res2 ! k) = becomes
        else re_custodyStatus (res2 ! k) = re_custodyStatus (res ! k))" if "k < length res" for k
  proof -
    have a: "receipt_core (res1 ! k) = receipt_core (res ! k)"
      "if re_id (res ! k) \<in> ids then re_custodyStatus (res ! k) = was \<and> re_custodyStatus (res1 ! k) = becomes
       else re_custodyStatus (res1 ! k) = re_custodyStatus (res ! k)"
      using assms(1) that by (auto simp: receipts_moved_def list_all2_conv_all_nth)
    have b: "receipt_core (res2 ! k) = receipt_core (res1 ! k)"
      "if re_id (res1 ! k) \<in> ids' then re_custodyStatus (res1 ! k) = was \<and> re_custodyStatus (res2 ! k) = becomes
       else re_custodyStatus (res2 ! k) = re_custodyStatus (res1 ! k)"
      using assms(2) that \<open>length res = length res1\<close> by (auto simp: receipts_moved_def list_all2_conv_all_nth)
    from a b assms(3) receipt_core_simps(1) [OF a(1)] show ?thesis by (auto split: if_splits)
  qed
  ultimately show ?thesis by (simp add: receipts_moved_def list_all2_conv_all_nth)
qed

text \<open>One more receipt moved, before the others.\<close>

lemma move_first:
  assumes upd: "updateReceiptCustody (re_id r) n becomes link at db = Inr db1"
    and rows: "r \<in> set (b_receipts db)" "set rs \<subseteq> set (b_receipts db)" "distinct (map re_id (b_receipts db))"
      "distinct (map re_id (r # rs))" "re_custodyStatus r = was"
  shows "set rs \<subseteq> set (b_receipts db1)" and "distinct (map re_id (b_receipts db1))"
    and "receipts_moved (re_id ` set rs) was becomes (b_receipts db1) res \<Longrightarrow>
      receipts_moved (re_id ` set (r # rs)) was becomes (b_receipts db) res"
    and "\<exists>rows. db1 = db\<lparr>b_receipts := rows\<rparr>"
proof -
  note db1 = updateReceiptCustody_Inr [OF upd rows(1,3)]
  show "distinct (map re_id (b_receipts db1))" using db1 set_row_distinct [OF rows(3)] by simp
  have "r \<notin> set rs" using rows(4) by auto
  then show "set rs \<subseteq> set (b_receipts db1)" using db1 rows(1-3) by (auto simp: set_row_set)
  show "receipts_moved (re_id ` set (r # rs)) was becomes (b_receipts db) res"
    if "receipts_moved (re_id ` set rs) was becomes (b_receipts db1) res"
    using moved_trans [OF moved_one [OF rows(1,3,5)] that [unfolded db1, simplified]] rows(4) by simp
  show "\<exists>rows. db1 = db\<lparr>b_receipts := rows\<rparr>" using db1 by blast
qed

lemma hand_over_each_Inr:
  assumes "hand_over_each rq i rs db = Inr db'" and "set rs \<subseteq> set (b_receipts db)"
    and "distinct (map re_id (b_receipts db))" and "distinct (map re_id rs)" and "\<forall>r \<in> set rs. re_custodyStatus r = HELD"
  shows "\<exists>res. db' = db\<lparr>b_receipts := res\<rparr> \<and> receipts_moved (re_id ` set rs) HELD IN_HANDOVER (b_receipts db) res"
  using assms
proof (induction rs arbitrary: db)
  case Nil
  then show ?case using moved_none by (intro exI [of _ "b_receipts db"]) simp
next
  case (Cons r rs)
  from Cons.prems(1) obtain db1 where
      upd: "updateReceiptCustody (re_id r) (re_revision r) IN_HANDOVER (Some i) (bq_now rq) db = Inr db1"
    and rest: "hand_over_each rq i rs db1 = Inr db'" by auto
  have was: "r \<in> set (b_receipts db)" "set rs \<subseteq> set (b_receipts db)" "re_custodyStatus r = HELD"
    using Cons.prems(2,5) by simp_all
  note first = move_first [OF upd was(1,2) Cons.prems(3,4) was(3)]
  from Cons.IH [OF rest first(1,2)] Cons.prems(4,5) obtain res where
      res: "db' = db1\<lparr>b_receipts := res\<rparr>" "receipts_moved (re_id ` set rs) HELD IN_HANDOVER (b_receipts db1) res" by auto
  from first(3) [OF res(2)] first(4) res(1) show ?case by auto
qed

lemma move_each_Inr:
  assumes "move_each rq i was becomes link rs db = Inr db'" and "set rs \<subseteq> set (b_receipts db)"
    and "distinct (map re_id (b_receipts db))" and "distinct (map re_id rs)"
  shows "\<exists>res. db' = db\<lparr>b_receipts := res\<rparr> \<and> receipts_moved (re_id ` set rs) was becomes (b_receipts db) res"
  using assms
proof (induction rs arbitrary: db)
  case Nil
  then show ?case using moved_none by (intro exI [of _ "b_receipts db"]) simp
next
  case (Cons r rs)
  from Cons.prems(1) obtain db1 where st: "re_custodyStatus r = was"
    and upd: "updateReceiptCustody (re_id r) (re_revision r) becomes link (bq_now rq) db = Inr db1"
    and rest: "move_each rq i was becomes link rs db1 = Inr db'" by (auto split: if_splits)
  have mem: "r \<in> set (b_receipts db)" "set rs \<subseteq> set (b_receipts db)" using Cons.prems(2) by simp_all
  note first = move_first [OF upd mem Cons.prems(3,4) st]
  from Cons.IH [OF rest first(1,2)] Cons.prems(4) obtain res where
      res: "db' = db1\<lparr>b_receipts := res\<rparr>" "receipts_moved (re_id ` set rs) was becomes (b_receipts db1) res" by auto
  from first(3) [OF res(2)] first(4) res(1) show ?case by auto
qed

lemma lockReceipts_facts:
  assumes "distinct (map re_id (b_receipts db))"
  shows "set (lockReceipts db ids) = {r \<in> set (b_receipts db). re_id r \<in> set ids}"
    and "distinct (map re_id (lockReceipts db ids))"
proof -
  show "set (lockReceipts db ids) = {r \<in> set (b_receipts db). re_id r \<in> set ids}" by (auto simp: lockReceipts_def)
  have "distinct (b_receipts db)" "inj_on re_id (set (b_receipts db))" using assms by (simp_all add: distinct_map)
  then show "distinct (map re_id (lockReceipts db ids))"
    by (auto simp: lockReceipts_def distinct_map intro: inj_on_subset)
qed

text \<open>\<open>moveReceipts\<close> moves exactly the receipts of the handover.\<close>

lemma moveReceipts_Inr:
  assumes "moveReceipts rq i was becomes link db = Inr db'" and d: "distinct (map re_id (b_receipts db))"
    and sub: "set (item_ids i (b_items db)) \<subseteq> re_id ` set (b_receipts db)"
  shows "\<exists>res. db' = db\<lparr>b_receipts := res\<rparr> \<and>
    receipts_moved (set (item_ids i (b_items db))) was becomes (b_receipts db) res"
proof -
  let ?rs = "lockReceipts db (handoverReceiptIds db i)"
  have ids: "set (handoverReceiptIds db i) = set (item_ids i (b_items db))"
    by (simp add: handoverReceiptIds_def item_ids_def)
  have "move_each rq i was becomes link ?rs db = Inr db'"
    using assms(1) by (simp add: moveReceipts_def Let_def split: if_splits)
  from move_each_Inr [OF this _ d] lockReceipts_facts [OF d, of "handoverReceiptIds db i"] obtain res where
      "db' = db\<lparr>b_receipts := res\<rparr>" "receipts_moved (re_id ` set ?rs) was becomes (b_receipts db) res" by auto
  moreover have "re_id ` set ?rs = set (item_ids i (b_items db))"
    using lockReceipts_facts(1) [OF d, of "handoverReceiptIds db i"] ids sub by auto
  ultimately show ?thesis by auto
qed

section \<open>Collection and its reversal\<close>

lemma recordCollection_tx_run:
  assumes "books db" and "recordCollection_tx rq who i n bookingId work declared db = Inr (out, db')"
  shows "ledger_step\<^sup>*\<^sup>* db db'"
proof -
  note keys = books_keys [OF assms(1)]
  note tx = assms(2) [unfolded recordCollection_tx_def Let_def]
  from tx obtain ob where ob: "lockObligation db i = Some ob" by (auto split: option.split_asm)
  then have mem: "ob \<in> set (b_obligations db)" "ob_id ob = i" by (auto simp: lockObligation_def dest: find_row_Some)
  from tx ob obtain sn received where l: "some_snapshot db i ''LOCKED_OBLIGATION_WITHOUT_SNAPSHOT'' = Inr sn"
    and plan: "planCashCollection ob (ob_quoteId ob) (sn_activeIntent sn) (pr_subject (ob_owner ob)) (pr_subject who)
        work declared = Inr received"
    by (auto split: if_split_asm)
  note pl = planCashCollection_Inr [OF plan] and s = snapshot_of_Inr [OF l [unfolded some_snapshot_Inr]]
  from pl(9) obtain it where it: "sn_activeIntent sn = Some it" "it_method it = CASH_ON_COMPLETION" by blast
  have itm: "it \<in> set (b_intents db)" using s(4) [OF it(1)] by simp
  from tx ob l plan it(1) obtain re db1 db2 db3 v db4 db5 db6 where
      s1: "insertReceipt re db = Inr db1"
    and s2: "setIntentStatus (it_id it) (it_status it) SUCCEEDED (bq_now rq) db1 = Inr db2"
    and s3: "post (cashCollectedJournal (re_id re) (pr_subject who) received) (meta_of rq 1 (Some i) None None) db2 = Inr db3"
    and v: "Money_plus (ob_verified ob) received = Inr v"
    and s4: "updateObligation i n v SETTLED (bq_now rq) db3 = Inr db4"
    and s5: "same_core db5 db4" and s6: "same_core db6 db5" and s7: "same_core db' db6"
    and re: "re_collector re = pr_subject who" "re_amount re = received" "re_custodyStatus re = HELD"
      "re_obligationId re = i" "re_intentId re = it_id it"
    by (auto split: if_split_asm dest!: custody_audit_Inr appendOutbox_Inr obligationChanged_Inr)
  have ins: "re_id re \<notin> re_id ` set (b_receipts db)" "db1 = db\<lparr>b_receipts := b_receipts db @ [re]\<rparr>"
    using s1 by (auto simp: insertReceipt_def)
  from setIntentStatus_Inr [OF s2] keys(2) ins(2) obtain x where x: "x \<in> set (b_intents db)" "it_id x = it_id it"
      "db2 = db1\<lparr>b_intents := set_row it_id x (x\<lparr>it_status := SUCCEEDED, it_updatedAt := bq_now rq\<rparr>) (b_intents db1)\<rparr>"
    by auto
  with distinct_key_eq [OF keys(2) x(1) itm] have "x = it" by simp
  from post_Inr [OF s3] obtain p js where p: "cashCollectedJournal (re_id re) (pr_subject who) received = Inr p"
      "posted (jp_lines p) (b_journals db2) js" "db3 = db2\<lparr>b_journals := js\<rparr>" .
  have ok: "obligation_ok ob" and unsettled: "ob_status ob \<noteq> SETTLED"
    using books_obligation [OF assms(1) mem(1)] pl(2) by simp_all
  have amount: "received = ob_amount ob" using open_outstanding [OF ok unsettled pl(3)] pl(1) by simp
  let ?ob = "changed_obligation v SETTLED (bq_now rq) ob"
  have "db4 = db3\<lparr>b_obligations := set_row ob_id ob ?ob (b_obligations db3)\<rparr>"
    using updateObligation_Inr [of ob n _ _ _ db3 db4] s4 mem keys(1) ins(2) x(3) p(3) by simp
  moreover have "obligation_becomes SETTLED ob ?ob"
    using v amount open_verified [OF ok unsettled] by (intro changed_becomes) (auto simp: Money_plus_Inr)
  ultimately have "ledger_step db db4"
    using ledger_step.collect [where ob = ob and ob' = ?ob and r = re and it = it and js = js and db' = db4
        and it' = "it\<lparr>it_status := SUCCEEDED, it_updatedAt := bq_now rq\<rparr>", OF mem(1) pl(2)]
      ins re mem(2) amount pl(5) itm it(2) \<open>x = it\<close> x(3) p journal_lines_Inr(3) [OF p(1)]
    by (simp add: same_core_def)
  moreover have "same_core db' db4" using s5 s6 s7 by (blast intro: same_core_trans)
  ultimately show ?thesis using step_core [OF assms(1)] by blast
qed

lemma reverseCollection_tx_run:
  assumes "books db" and "reverseCollection_tx rq who i obligationId n reason db = Inr (out, db')"
    and known: "\<And>r. r \<in> set (b_receipts db) \<Longrightarrow> re_id r = i \<Longrightarrow> re_obligationId r = obligationId"
  shows "ledger_step\<^sup>*\<^sup>* db db'"
proof -
  note keys = books_keys [OF assms(1)]
  note tx = assms(2) [unfolded reverseCollection_tx_def Let_def]
  from tx obtain ob re where ob: "lockObligation db obligationId = Some ob" and re: "lockReceipt db i = Some re"
    by (auto split: option.split_asm)
  then have mem: "ob \<in> set (b_obligations db)" "ob_id ob = obligationId" "re \<in> set (b_receipts db)" "re_id re = i"
    by (auto simp: lockObligation_def lockReceipt_def dest: find_row_Some)
  with known have own: "re_obligationId re = ob_id ob" by simp
  from tx ob re obtain u where plan: "planCollectionReversal re (pr_subject who) = Inr u" by (auto split: if_split_asm)
  then have held: "re_custodyStatus re = HELD" by (simp add: planCollectionReversal_Inr)
  from tx ob re plan obtain rv db1 db2 db3 db4 reopened db5 due db6 db7 db8 where
      s1: "insertReversal rv db = Inr db1"
    and s2: "updateReceiptCustody i (re_revision re) REVERSED None (bq_now rq) db1 = Inr db2"
    and s3: "setIntentStatus (re_intentId re) SUCCEEDED CANCELLED (bq_now rq) db2 = Inr db3"
    and s4: "post (cashCollectionReversedJournal i (re_collector re) (re_amount re))
        (meta_of rq 1 (Some (ob_id ob)) None None) db3 = Inr db4"
    and v: "Money_minus (ob_verified ob) (re_amount re) = Inr reopened"
    and s5: "updateObligation (ob_id ob) (ob_revision ob) reopened OPEN (bq_now rq) db4 = Inr db5"
    and s6: "insertIntent \<lparr>it_method = CASH_ON_COMPLETION, it_status = AWAITING_CASH_COLLECTION,
                        it_id = bq_ids rq 2, it_obligationId = ob_id ob, it_amount = due,
                        it_createdAt = bq_now rq, it_updatedAt = bq_now rq\<rparr> db5 = Inr db6"
    and s7: "same_core db7 db6" and s8: "same_core db8 db7" and s9: "same_core db' db8"
    by (auto split: if_split_asm option.split_asm dest!: custody_audit_Inr appendOutbox_Inr obligationChanged_Inr)
  note c1 = insertReversal_Inr [OF s1]
  have st1: "ledger_step db db1" by (rule same_core_step [OF assms(1) c1])
  have t1: "b_receipts db1 = b_receipts db" "b_intents db1 = b_intents db" "b_obligations db1 = b_obligations db"
      "b_journals db1 = b_journals db" using c1 by (simp_all add: same_core_def)
  have bk: "books db1" by (rule books_step [OF st1 assms(1)])
  let ?re = "moved_receipt REVERSED None (bq_now rq) re"
  have d2: "db2 = db1\<lparr>b_receipts := set_row re_id re ?re (b_receipts db)\<rparr>"
    using updateReceiptCustody_Inr [of re _ _ _ _ db1 db2] s2 mem(3,4) keys(3) t1(1) by simp
  from setIntentStatus_Inr [OF s3] keys(2) d2 t1(2) obtain x where x: "x \<in> set (b_intents db)" "it_id x = re_intentId re"
      "db3 = db2\<lparr>b_intents := set_row it_id x (x\<lparr>it_status := CANCELLED, it_updatedAt := bq_now rq\<rparr>) (b_intents db)\<rparr>"
    by auto
  let ?x = "x\<lparr>it_status := CANCELLED, it_updatedAt := bq_now rq\<rparr>"
  from post_Inr [OF s4] obtain p js where p: "cashCollectionReversedJournal i (re_collector re) (re_amount re) = Inr p"
      "posted (jp_lines p) (b_journals db3) js" "db4 = db3\<lparr>b_journals := js\<rparr>" .
  let ?ob = "changed_obligation reopened OPEN (bq_now rq) ob"
  have d5: "db5 = db4\<lparr>b_obligations := set_row ob_id ob ?ob (b_obligations db)\<rparr>"
    using updateObligation_Inr [OF s5] mem(1) keys(1) d2 x(3) p(3) t1(3) by simp
  have settled: "ob_status ob = SETTLED"
    using settled_by_receipt [OF assms(1) mem(3) _ mem(1) own] held by (simp add: active_receipt_def)
  have "re_amount re = ob_amount ob" by (rule receipt_obligation [OF assms(1) mem(3,1) own])
  moreover have "mo_amountMinor (ob_verified ob) = amount_of_obligation ob"
    using books_obligation [OF assms(1) mem(1)] settled by (simp add: obligation_ok_def)
  ultimately have becomes: "obligation_becomes OPEN ob ?ob"
    using v by (intro changed_becomes) (simp add: Money_minus_Inr)
  let ?new = "\<lparr>it_method = CASH_ON_COMPLETION, it_status = AWAITING_CASH_COLLECTION, it_id = bq_ids rq 2,
      it_obligationId = ob_id ob, it_amount = due, it_createdAt = bq_now rq, it_updatedAt = bq_now rq\<rparr>"
  let ?ints = "set_row it_id x ?x (b_intents db) @ [?new]"
  have i5: "b_intents db5 = set_row it_id x ?x (b_intents db)" using d5 p(3) x(3) by simp
  note ins = insertIntent_Inr [OF s6]
  have dist: "distinct (map it_id ?ints)"
    using ins(1) i5 set_row_distinct [OF keys(2), of ?x x] by simp
  have ints: "\<forall>it \<in> set ?ints. (it \<in> set (b_intents db) \<and> it_id it \<noteq> re_intentId re) \<or>
      intent_coherent it \<and> \<not> cash_success it"
  proof
    fix y assume "y \<in> set ?ints"
    then consider "y = ?new" | "y = ?x" | "y \<in> set (b_intents db)" "y \<noteq> x"
      using set_row_mem [OF keys(2) x(1)] by auto
    then show "(y \<in> set (b_intents db) \<and> it_id y \<noteq> re_intentId re) \<or> intent_coherent y \<and> \<not> cash_success y"
    proof cases
      case 3
      then show ?thesis using distinct_key_eq [OF keys(2) 3(1) x(1)] x(2) by auto
    qed (simp_all add: intent_coherent_def cash_success_def)
  qed
  have kept: "methods_kept (b_intents db) ?ints"
    using methods_set_row [OF keys(2) x(1), of ?x] by (auto simp: methods_kept_def)
  have "ledger_step db1 db6"
  proof (rule ledger_step.reverse [where ints = ?ints and js = js])
    show "posted [line CUSTOMER_RECEIVABLE DEBIT (re_amount re),
        holder_line CASH_IN_CUSTODY CREDIT (re_amount re) (re_collector re)] (b_journals db1) js"
      using p(2) journal_lines_Inr(4) [OF p(1)] x(3) d2 by simp
    show "receipts_moved {re_id re} HELD REVERSED (b_receipts db1) (set_row re_id re ?re (b_receipts db))"
      using moved_one [OF mem(3) keys(3) held] t1(1) by simp
    show "same_core db6 (db1\<lparr>b_obligations := set_row ob_id ob ?ob (b_obligations db1),
        b_receipts := set_row re_id re ?re (b_receipts db), b_journals := js, b_intents := ?ints\<rparr>)"
      using ins(2) i5 d5 p(3) x(3) d2 t1 by (simp add: same_core_def)
  qed (use mem(1,3) t1 own held becomes dist ints kept in simp_all)
  with st1 have "ledger_step\<^sup>*\<^sup>* db db6" by (meson rtranclp.rtrancl_into_rtrancl r_into_rtranclp)
  moreover have "same_core db' db6" using s7 s8 s9 by (blast intro: same_core_trans)
  ultimately show ?thesis using run_core [OF assms(1)] by blast
qed

section \<open>Handovers\<close>

lemma lockedHandover_Inr:
  assumes "lockedHandover db i n allowed = Inr ha"
  shows "ha \<in> set (b_handovers db)" and "ha_id ha = i"
  using assms by (auto simp: lockedHandover_def lockHandover_def split: option.splits if_splits dest: find_row_Some)

lemma updateHandover_Inr:
  assumes "updateHandover (ha_id ha) n ha' db = Inr db'" and "ha \<in> set (b_handovers db)"
    and "distinct (map ha_id (b_handovers db))"
  shows "db' = db\<lparr>b_handovers := set_row ha_id ha (handoverData ha' ha) (b_handovers db)\<rparr>"
  using assms cas_rows_row [of ha_id ha _ _ "b_handovers db"] by (auto simp: updateHandover_def)

lemma handoverData_simps [simp]:
  "handover_core (handoverData ha' ha) = handover_core ha" "ha_status (handoverData ha' ha) = ha_status ha'"
  "ha_holder (handoverData ha' ha) = ha_holder ha" "ha_declared (handoverData ha' ha) = ha_declared ha"
  "ha_receivedBy (handoverData ha' ha) = ha_receivedBy ha'" "ha_reconciledBy (handoverData ha' ha) = ha_reconciledBy ha'"
  by (simp_all add: handoverData_def handover_core_def Let_def)

lemma handoverData_money:
  assumes "\<forall>m \<in> set_option (ha_counted ha') \<union> set_option (ha_shortage ha') \<union> set_option (ha_overage ha').
    mo_currency m = mo_currency (ha_declared ha)"
  shows "ha_counted (handoverData ha' ha) = ha_counted ha'" "ha_shortage (handoverData ha' ha) = ha_shortage ha'"
    "ha_overage (handoverData ha' ha) = ha_overage ha'"
proof -
  let ?money = "map_option (\<lambda>m. \<lparr>mo_currency = mo_currency (ha_declared ha), mo_amountMinor = mo_amountMinor m\<rparr>)"
  have same: "?money x = x"
    if "\<And>m. m \<in> set_option x \<Longrightarrow> mo_currency m = mo_currency (ha_declared ha)" for x :: "bmoney option"
    using that by (cases x) (auto intro: bmoney.equality)
  have "?money (ha_counted ha') = ha_counted ha'" "?money (ha_shortage ha') = ha_shortage ha'"
      "?money (ha_overage ha') = ha_overage ha'"
    using assms by (auto intro: same)
  then show "ha_counted (handoverData ha' ha) = ha_counted ha'" "ha_shortage (handoverData ha' ha) = ha_shortage ha'"
    "ha_overage (handoverData ha' ha) = ha_overage ha'"
    by (simp_all add: handoverData_def Let_def)
qed

lemma books_handover:
  assumes "books db" and "ha \<in> set (b_handovers db)"
  shows "set (item_ids (ha_id ha) (b_items db)) \<subseteq> re_id ` set (b_receipts db)" and "counted_ok ha" and "handover_duties ha"
  using assms by (simp_all add: books_def handovers_ok_def handover_ok_def duties_ok_def Let_def)

lemma sum_list_sort_key: "sum_list (map f (sort_key k xs)) = (sum_list (map f xs) :: int)"
proof (induction xs)
  case (Cons x xs)
  have "sum_list (map f (insort_key k x ys)) = f x + sum_list (map f ys)" for ys
    by (induction ys) auto
  with Cons show ?case by simp
qed simp

lemma declareHandover_tx_run:
  assumes "books db" and "declareHandover_tx rq who requested declared db = Inr (out, db')"
  shows "ledger_step\<^sup>*\<^sup>* db db'"
proof -
  note keys = books_keys [OF assms(1)]
  define rs where "rs = (if card (set requested) = length requested then lockReceipts db requested else [])"
  note tx = assms(2) [unfolded declareHandover_tx_def Let_def, folded rs_def]
  from tx obtain amount where plan: "planHandover (pr_subject who) rs requested declared = Inr amount" by auto
  note pl = planHandover_Inr [OF plan]
  define ha where "ha = new_handover rq (pr_subject who) amount (length rs)"
  define ks where "ks = map (\<lambda>r. (re_id r, re_amount r)) rs"
  from tx plan obtain db1 db2 db3 where s1: "insertHandover ha ks db = Inr db1"
    and s2: "hand_over_each rq (ha_id ha) rs db1 = Inr db2"
    and s3: "same_core db3 db2" and s4: "same_core db' db3"
    by (auto simp: ha_def ks_def dest!: custody_audit_Inr appendOutbox_Inr)
  have rs: "rs = lockReceipts db requested" using pl(2) by (simp add: rs_def distinct_card)
  note lk = lockReceipts_facts [OF keys(3), of requested, folded rs]
  let ?items = "map (\<lambda>k. \<lparr>hi_handoverId = ha_id ha, hi_receiptId = fst k, hi_amount = snd k\<rparr>) ks"
  have ins: "ha_id ha \<notin> ha_id ` set (b_handovers db)"
      "db1 = db\<lparr>b_handovers := b_handovers db @ [ha], b_items := b_items db @ ?items\<rparr>"
    using s1 by (auto simp: insertHandover_def case_prod_beta)
  have on1: "set rs \<subseteq> set (b_receipts db1)" "distinct (map re_id (b_receipts db1))" "\<forall>r \<in> set rs. re_custodyStatus r = HELD"
    using lk(1) keys(3) pl(6) ins(2) by auto
  from hand_over_each_Inr [OF s2 on1(1,2) lk(2) on1(3)] ins(2) obtain res where
      res: "db2 = db1\<lparr>b_receipts := res\<rparr>" "receipts_moved (re_id ` set rs) HELD IN_HANDOVER (b_receipts db) res" by auto
  have ids: "set (map fst ks) = re_id ` set rs" "map fst ks = map re_id rs" by (simp_all add: ks_def comp_def image_image)
  have hold: "re_id r \<in> re_id ` set rs \<longleftrightarrow> re_id r \<in> set requested" if "r \<in> set (b_receipts db)" for r
  proof
    assume "re_id r \<in> set requested"
    with that have "r \<in> set rs" unfolding lk(1) by simp
    then show "re_id r \<in> re_id ` set rs" by (rule imageI)
  next
    assume "re_id r \<in> re_id ` set rs"
    then obtain x where "x \<in> set rs" "re_id r = re_id x" by (rule imageE)
    then show "re_id r \<in> set requested" unfolding lk(1) by simp
  qed
  have "sum_rows amount_of_receipt (\<lambda>r. re_id r \<in> set (map fst ks)) (b_receipts db) =
      sum_rows amount_of_receipt (\<lambda>r. re_id r \<in> set requested) (b_receipts db)"
    unfolding ids(1) by (rule sum_rows_cong) (rule hold)
  also have "\<dots> = sum_list (map amount_of_receipt rs)"
    by (simp add: sum_rows_def rs lockReceipts_def sum_list_sort_key)
  also have "\<dots> = mo_amountMinor (ha_declared ha)" using pl(1,7) by (simp add: ha_def new_handover_def)
  finally have sum: "sum_rows amount_of_receipt (\<lambda>r. re_id r \<in> set (map fst ks)) (b_receipts db) =
      mo_amountMinor (ha_declared ha)" .
  have owned: "\<forall>r \<in> set (b_receipts db). re_id r \<in> set (map fst ks) \<longrightarrow>
      re_collector r = ha_holder ha \<and> mo_currency (re_amount r) = mo_currency (ha_declared ha)"
    using pl(1,6) lk(1) hold unfolding ids(1) by (auto simp: ha_def new_handover_def)
  have "ledger_step db db2"
  proof (rule ledger_step.declare_handover [where ks = ks, OF ins(1) _ _ refl _ _ owned sum])
    show "set (map fst ks) \<subseteq> re_id ` set (b_receipts db)" using lk(1) ids(1) by auto
    show "receipts_moved (set (map fst ks)) HELD IN_HANDOVER (b_receipts db) res" using res(2) ids(1) by simp
    show "distinct (map fst ks)" using lk(2) ids(2) by simp
    show "same_core db2 (db\<lparr>b_handovers := b_handovers db @ [ha], b_items := b_items db @ ?items, b_receipts := res\<rparr>)"
      using res(1) ins(2) by (simp add: same_core_def)
  qed (simp_all add: ha_def new_handover_def counted_ok_def)
  with same_core_trans [OF s4 s3] show ?thesis using step_core [OF assms(1)] by blast
qed

lemma cancelHandover_tx_run:
  assumes "books db" and "cancelHandover_tx rq who h t i n db = Inr (out, db')"
  shows "ledger_step\<^sup>*\<^sup>* db db'"
proof -
  note keys = books_keys [OF assms(1)]
  from assms(2) obtain ha ha' db1 db2 db3 where
      l: "lockedHandover db i n (\<lambda>ha. t \<or> h \<and> ha_holder ha = pr_subject who) = Inr ha"
    and plan: "planHandoverCancel ha = Inr ()"
    and s1: "updateHandover i (ha_revision ha) ha' db = Inr db1" and s2: "moveReceipts rq i IN_HANDOVER HELD None db1 = Inr db2"
    and s3: "same_core db3 db2" and s4: "same_core db' db3"
    and ha': "ha_status ha' = HO_CANCELLED" "ha_counted ha' = ha_counted ha" "ha_shortage ha' = ha_shortage ha"
      "ha_overage ha' = ha_overage ha"
    by (auto simp: cancelHandover_tx_def Let_def dest!: custody_audit_Inr appendOutbox_Inr)
  note lk = lockedHandover_Inr [OF l] and bk = books_handover [OF assms(1) lockedHandover_Inr(1) [OF l]]
  have pend: "ha_status ha = HO_PENDING" using plan by (simp add: planHandoverCancel_def split: if_splits)
  then have none: "ha_counted ha = None" "ha_shortage ha = None" "ha_overage ha = None"
    using bk(2) by (simp_all add: counted_ok_def)
  have d1: "db1 = db\<lparr>b_handovers := set_row ha_id ha (handoverData ha' ha) (b_handovers db)\<rparr>"
    using updateHandover_Inr [of ha _ ha' db db1] s1 lk keys(4) by simp
  from moveReceipts_Inr [OF s2] d1 keys(3) bk(1) lk(2) obtain res where
      res: "db2 = db1\<lparr>b_receipts := res\<rparr>"
      "receipts_moved (set (item_ids (ha_id ha) (b_items db))) IN_HANDOVER HELD (b_receipts db) res" by auto
  have "ledger_step db db2"
    using d1 res ha' none handoverData_money [of ha' ha]
    by (intro ledger_step.cancel_handover [where ha' = "handoverData ha' ha", OF lk(1) pend _ _ _ res(2)])
      (simp_all add: same_core_def counted_ok_def)
  with same_core_trans [OF s4 s3] show ?thesis using step_core [OF assms(1)] by blast
qed

lemma receiveHandover_tx_run:
  assumes "books db" and "receiveHandover_tx rq who i n counted ref db = Inr (out, db')"
  shows "ledger_step\<^sup>*\<^sup>* db db'"
proof -
  note keys = books_keys [OF assms(1)]
  from assms(2) obtain ha plan ha' db1 db2 db3 db4 where l: "lockedHandover db i n (\<lambda>_. True) = Inr ha"
    and plan: "planTreasuryReceipt ha (pr_subject who) counted = Inr plan"
    and s1: "updateHandover i (ha_revision ha) ha' db = Inr db1"
    and s2: "post (custodyReceivedJournal i (ha_holder ha) (ha_declared ha) plan) (meta_of rq 0 None (Some i) None) db1 = Inr db2"
    and s3: "moveReceipts rq i IN_HANDOVER DEPOSITED (Some i) db2 = Inr db3"
    and s4: "same_core db4 db3" and s5: "same_core db' db4"
    and ha': "ha_status ha' = RECEIVED" "ha_counted ha' = Some (tp_counted plan)" "ha_shortage ha' = Some (tp_shortage plan)"
      "ha_overage ha' = Some (tp_overage plan)" "ha_receivedBy ha' = Some (pr_subject who)"
    by (auto simp: receiveHandover_tx_def Let_def dest!: custody_audit_Inr appendOutbox_Inr)
  note lk = lockedHandover_Inr [OF l] and bk = books_handover [OF assms(1) lockedHandover_Inr(1) [OF l]]
  note pl = planTreasuryReceipt_Inr [OF plan]
  have d1: "db1 = db\<lparr>b_handovers := set_row ha_id ha (handoverData ha' ha) (b_handovers db)\<rparr>"
    using updateHandover_Inr [of ha _ ha' db db1] s1 lk keys(4) by simp
  from post_Inr [OF s2] obtain p js where p: "custodyReceivedJournal i (ha_holder ha) (ha_declared ha) plan = Inr p"
      "posted (jp_lines p) (b_journals db1) js" "db2 = db1\<lparr>b_journals := js\<rparr>" .
  from moveReceipts_Inr [OF s3] d1 p(3) keys(3) bk(1) lk(2) obtain res where
      res: "db3 = db2\<lparr>b_receipts := res\<rparr>"
      "receipts_moved (set (item_ids (ha_id ha) (b_items db))) IN_HANDOVER DEPOSITED (b_receipts db) res" by auto
  have cts: "ha_counted (handoverData ha' ha) = Some (tp_counted plan)" "ha_shortage (handoverData ha' ha) = Some (tp_shortage plan)"
      "ha_overage (handoverData ha' ha) = Some (tp_overage plan)"
    using handoverData_money [of ha' ha] ha' pl(3-6) by auto
  have lines: "posted ((if mo_amountMinor (tp_counted plan) = 0 then [] else [line TREASURY_CASH_UNRECONCILED DEBIT (tp_counted plan)]) @
      (if mo_amountMinor (tp_shortage plan) = 0 then []
       else [holder_line CUSTODY_SHORTAGE_RECEIVABLE DEBIT (tp_shortage plan) (ha_holder ha)]) @
      [holder_line CASH_IN_CUSTODY CREDIT (ha_declared ha) (ha_holder ha)] @
      (if mo_amountMinor (tp_overage plan) = 0 then [] else [line CUSTODY_OVERAGE_SUSPENSE CREDIT (tp_overage plan)]))
      (b_journals db) js"
    using p(2) balanced_Inr(1) [OF p(1) [unfolded custodyReceivedJournal_def]] d1
    by (simp add: Money_isZero_def [abs_def] cong: if_cong split del: if_split) (simp split: if_splits)
  have "ledger_step db db3"
  proof (rule ledger_step.receive_handover [where ha' = "handoverData ha' ha", OF lk(1) pl(1) _ _ _ _ cts lines res(2)])
    show "counted_ok (handoverData ha' ha)"
      using ha' cts pl(3-8) by (simp add: counted_ok_def)
    show "handover_duties (handoverData ha' ha)" using ha' pl(2) by (simp add: handover_duties_def)
  qed (use ha' d1 p(3) res(1) in \<open>simp_all add: same_core_def\<close>)
  with same_core_trans [OF s5 s4] show ?thesis using step_core [OF assms(1)] by blast
qed

lemma reconcileHandover_tx_run:
  assumes "books db" and "reconcileHandover_tx rq who i n ref db = Inr (out, db')"
  shows "ledger_step\<^sup>*\<^sup>* db db'"
proof -
  note keys = books_keys [OF assms(1)]
  note tx = assms(2) [unfolded reconcileHandover_tx_def Let_def]
  from tx obtain ha where l: "lockedHandover db i n (\<lambda>_. True) = Inr ha" by auto
  from tx l have plan: "planHandoverReconciliation ha (pr_subject who) = Inr ()" by auto
  note lk = lockedHandover_Inr [OF l] and bk = books_handover [OF assms(1) lockedHandover_Inr(1) [OF l]]
  have st: "ha_status ha = RECEIVED" "pr_subject who \<noteq> ha_holder ha" "ha_receivedBy ha \<noteq> Some (pr_subject who)"
    using plan by (simp_all add: planHandoverReconciliation_Inr)
  from tx l plan obtain m where m: "ha_counted ha = Some m" by (auto split: option.split_asm)
  from tx l plan m obtain ha' db1 db2 db3 db4 where
      s1: "updateHandover i (ha_revision ha) ha' db = Inr db1"
    and s2: "(if \<not> Money_isZero m then post (custodyReconciledJournal i m) (meta_of rq 0 None (Some i) None) db1 else Inr db1) = Inr db2"
    and s3: "moveReceipts rq i DEPOSITED CU_SETTLED (Some i) db2 = Inr db3"
    and s4: "same_core db4 db3" and s5: "same_core db' db4"
    and ha': "ha_status ha' = RECONCILED" "ha_counted ha' = ha_counted ha" "ha_shortage ha' = ha_shortage ha"
      "ha_overage ha' = ha_overage ha" "ha_receivedBy ha' = ha_receivedBy ha" "ha_reconciledBy ha' = Some (pr_subject who)"
    by (auto simp del: One_nat_def dest!: custody_audit_Inr appendOutbox_Inr)
  have d1: "db1 = db\<lparr>b_handovers := set_row ha_id ha (handoverData ha' ha) (b_handovers db)\<rparr>"
    using updateHandover_Inr [of ha _ ha' db db1] s1 lk keys(4) by simp
  have "\<exists>js. db2 = db1\<lparr>b_journals := js\<rparr> \<and> (if mo_amountMinor m = 0 then js = b_journals db
      else posted [line TREASURY_CASH DEBIT m, line TREASURY_CASH_UNRECONCILED CREDIT m] (b_journals db) js)"
  proof (cases "mo_amountMinor m = 0")
    case True
    with s2 have "db2 = db1" by (simp add: Money_isZero_def)
    with True d1 show ?thesis by (intro exI [of _ "b_journals db1"]) simp
  next
    case False
    with s2 have "post (custodyReconciledJournal i m) (meta_of rq 0 None (Some i) None) db1 = Inr db2"
      by (simp add: Money_isZero_def)
    from post_Inr [OF this] obtain p js where "custodyReconciledJournal i m = Inr p"
        "posted (jp_lines p) (b_journals db1) js" "db2 = db1\<lparr>b_journals := js\<rparr>" .
    with False d1 show ?thesis using journal_lines_Inr(5) by fastforce
  qed
  then obtain js where js: "db2 = db1\<lparr>b_journals := js\<rparr>" "if mo_amountMinor m = 0 then js = b_journals db
      else posted [line TREASURY_CASH DEBIT m, line TREASURY_CASH_UNRECONCILED CREDIT m] (b_journals db) js" by blast
  from moveReceipts_Inr [OF s3] d1 js(1) keys(3) bk(1) lk(2) obtain res where
      res: "db3 = db2\<lparr>b_receipts := res\<rparr>"
      "receipts_moved (set (item_ids (ha_id ha) (b_items db))) DEPOSITED CU_SETTLED (b_receipts db) res" by auto
  have cts: "ha_counted (handoverData ha' ha) = ha_counted ha" "ha_shortage (handoverData ha' ha) = ha_shortage ha"
      "ha_overage (handoverData ha' ha) = ha_overage ha"
    using handoverData_money [of ha' ha] ha' bk(2) st(1) by (auto simp: counted_ok_def)
  have "ledger_step db db3"
  proof (rule ledger_step.reconcile_handover [where ha' = "handoverData ha' ha", OF lk(1) st(1) _ _ _ _ m _ cts(2,3) js(2) res(2)])
    show "counted_ok (handoverData ha' ha)" using ha'(1) cts bk(2) st(1) by (simp add: counted_ok_def)
    show "handover_duties (handoverData ha' ha)" using ha' bk(3) st by (auto simp: handover_duties_def)
  qed (use ha' cts(1) m d1 js(1) res(1) in \<open>simp_all add: same_core_def\<close>)
  with same_core_trans [OF s5 s4] show ?thesis using step_core [OF assms(1)] by blast
qed

end
