(* ===== verification/Billing_System.thy ===== *)
theory Billing_System
  imports Billing_Refinement_Custody
begin

text \<open>
  Billing, the service as a whole: a history of committed databases (the current one first) to
  which every command adds the database it leaves. A command reads a database of the history
  before its transaction: others may have committed in between. The invariant of the machine
  holds of every database of every history.
\<close>

section \<open>Commands\<close>

text \<open>What the money type of the callers' adapters guarantees of the answers they hand over.\<close>

definition valid_quotes :: "(string \<Rightarrow> quote_answer) \<Rightarrow> bool" where
  "valid_quotes quotes \<longleftrightarrow> (\<forall>q i u m. quotes q = Quote i u m \<longrightarrow> valid_money m)"

definition valid_validation :: "(string \<Rightarrow> principal \<Rightarrow> quote_validation_answer) \<Rightarrow> bool" where
  "valid_validation validate \<longleftrightarrow> (\<forall>q p m. validate q p = Valid m \<longrightarrow> valid_money m)"

definition valid_query :: "(string \<Rightarrow> query_answer option) \<Rightarrow> bool" where
  "valid_query query \<longleftrightarrow> (\<forall>r a. query r = Some a \<longrightarrow> valid_answer a)"

fun valid_notification :: "notification_answer \<Rightarrow> bool" where
  "valid_notification (CreditFinal f ev) = valid_money (cf_amount f)"
| "valid_notification _ = True"

text \<open>The database a command leaves, for every command of the service.\<close>

inductive commands ::
  "(json \<Rightarrow> string) \<Rightarrow> (string \<Rightarrow> instant option) \<Rightarrow> brequest \<Rightarrow> billing_db \<Rightarrow> billing_db \<Rightarrow> bool"
  for sha :: "json \<Rightarrow> string" and parse_date :: "string \<Rightarrow> instant option" and rq :: brequest and db :: billing_db where
  "valid_quotes quotes \<Longrightarrow> commands sha parse_date rq db (snd (createObligation sha rq key body quotes db))"
| "commands sha parse_date rq db (snd (initializePayment sha rq i key body db))"
| "commands sha parse_date rq db (snd (submitAttempt sha rq i key body db))"
| "commands sha parse_date rq db (snd (reconcileAttempt sha rq i key body db))"
| "commands sha parse_date rq db (snd (voidObligation sha rq i key body db))"
| "valid_validation validate \<Longrightarrow>
   commands sha parse_date rq db (snd (createForBooking sha rq bearer who key body validate db))"
| "commands sha parse_date rq db (snd (voidForBooking sha rq bearer who i key body db))"
| "commands sha parse_date rq db (snd (recordStatementCredit sha parse_date adapters rq key body db))"
| "commands sha parse_date rq db (snd (decideStatementCredit sha rq i key body db))"
| "valid_notification answer \<Longrightarrow>
   commands sha parse_date rq db (snd (receiveNotification adapters rq path answer db))"
| "valid_query query \<Longrightarrow>
   commands sha parse_date rq db (snd (verifyAttemptWithProvider sha adapters query rq i key body db))"
| "commands sha parse_date rq db (snd (requestRefund sha adapters rq i key body db))"
| "commands sha parse_date rq db (snd (decideRefund sha rq i key body db))"
| "commands sha parse_date rq db (snd (executeRefund sha adapters ask rq i key body db))"
| "commands sha parse_date rq db (snd (completeManualRefund sha rq i key body db))"
| "commands sha parse_date rq db (snd (recordCollection sha rq i key body evidence db))"
| "commands sha parse_date rq db (snd (reverseCollection sha rq i key body db))"
| "commands sha parse_date rq db (snd (declareHandover sha rq key body db))"
| "commands sha parse_date rq db (snd (cancelHandover sha rq i key body db))"
| "commands sha parse_date rq db (snd (receiveHandover sha rq i key body db))"
| "commands sha parse_date rq db (snd (reconcileHandover sha rq i key body db))"

type_synonym history = "billing_db list"

inductive billing_step :: "(json \<Rightarrow> string) \<Rightarrow> (string \<Rightarrow> instant option) \<Rightarrow> history \<Rightarrow> history \<Rightarrow> bool"
  for sha :: "json \<Rightarrow> string" and parse_date :: "string \<Rightarrow> instant option" where
  "bq_seen rq \<in> set (db # past) \<Longrightarrow> commands sha parse_date rq db db' \<Longrightarrow>
   billing_step sha parse_date (db # past) (db' # db # past)"

definition billing_init :: "history \<Rightarrow> bool" where
  "billing_init h \<longleftrightarrow> h = [empty_billing_db]"

definition billing_history :: "(json \<Rightarrow> string) \<Rightarrow> (string \<Rightarrow> instant option) \<Rightarrow> history \<Rightarrow> bool" where
  "billing_history sha parse_date h \<longleftrightarrow> (billing_step sha parse_date)\<^sup>*\<^sup>* [empty_billing_db] h"

section \<open>What a command does, from what its transaction does\<close>

definition reaches :: "billing_db \<Rightarrow> 'a \<times> billing_db \<Rightarrow> bool" where
  "reaches db r \<longleftrightarrow> ledger_step\<^sup>*\<^sup>* db (snd r)"

named_theorems reach \<open>introduction rules of \<open>reaches\<close>\<close>

lemma reaches_same [reach, simp]: "reaches db (x, db)"
  by (simp add: reaches_def)

lemma reaches_checked [reach]: "(\<And>x. m = Inr x \<Longrightarrow> reaches db (f x)) \<Longrightarrow> reaches db (checked m db f)"
  by (auto simp: checked_def split: sum.split)

lemma reaches_unless [reach]: "reaches db go \<Longrightarrow> reaches db (unless_committed rq cmd db go)"
  by (auto simp: unless_committed_def split: option.split)

lemma snd_translating [simp]: "snd (translating s c r) = snd r"
  by (auto simp: translating_def split: prod.split sum.split billing_error.split)

lemma reaches_translating [reach]: "reaches db r \<Longrightarrow> reaches db (translating s c r)"
  by (simp add: reaches_def)

lemma execute_snd:
  "snd (execute rq cmd work db) = db \<or>
   (\<exists>out db1 r. work db = Inr (out, db1) \<and> saveReceipt r db1 = Inr (snd (execute rq cmd work db)))"
proof (cases "\<exists>r db'. execute_tx cmd work db = Inr (r, db')")
  case True
  then obtain r db' where tx: "execute_tx cmd work db = Inr (r, db')" by blast
  then have "db' = db \<or> (\<exists>out db1 r. work db = Inr (out, db1) \<and> saveReceipt r db1 = Inr db')"
    by (auto simp: execute_tx_def split: option.splits)
  with tx show ?thesis by (auto simp: execute_def split: option.split)
next
  case False
  then obtain e where "execute_tx cmd work db = Inl e" by (cases "execute_tx cmd work db") auto
  then show ?thesis by (auto simp: execute_def split: option.split)
qed

lemma reaches_execute [reach]:
  assumes "books db" and "\<And>out db'. work db = Inr (out, db') \<Longrightarrow> ledger_step\<^sup>*\<^sup>* db db'"
  shows "reaches db (execute rq cmd work db)"
  using execute_snd [of rq cmd work db]
proof (elim disjE exE conjE)
  fix out db1 r
  assume w: "work db = Inr (out, db1)" and sv: "saveReceipt r db1 = Inr (snd (execute rq cmd work db))"
  note run = assms(2) [OF w]
  from run saved_step [OF books_steps [OF run assms(1)] sv] show ?thesis by (simp add: reaches_def)
qed (simp add: reaches_def)

lemma moneyInput_valid: "moneyInput v = Inr m \<Longrightarrow> valid_money m"
  by (auto simp: moneyInput_def split: option.splits sum.splits billing_error.splits if_splits dest: Money_parse_Inr)

section \<open>Every command is a run of the ledger machine\<close>

lemma snd_checked: "snd (checked m db f) = (case m of Inl e \<Rightarrow> db | Inr x \<Rightarrow> snd (f x))"
  by (simp add: checked_def split: sum.split)

lemma snd_answer_existing [simp]: "snd (answer_existing sn db) = db"
  by (simp add: answer_existing_def snd_checked split: sum.split)

lemma createObligation_reaches:
  assumes "books db" and "valid_quotes quotes"
  shows "reaches db (createObligation sha rq key body quotes db)"
proof -
  have ex: "reaches db (execute rq cmd (createObligation_tx rq owner q m) db)" if "valid_money m" for cmd owner q m
    by (rule reaches_execute [OF assms(1) createObligation_tx_run [OF assms(1) _ that]])
  have "reaches db (case execute rq cmd (createObligation_tx rq owner q m) db of
      (Inl (StoreError ObligationAlreadyExists), db') \<Rightarrow> f db' | r \<Rightarrow> r)"
    if "valid_money m" and "\<And>db'. snd (f db') = db'" for cmd owner q m f
    using ex [OF that(1), of cmd owner q] that(2)
    by (auto simp: reaches_def split: prod.split sum.split billing_error.split store_signal.split)
  moreover have "snd (case committed_receipt (bq_later rq) cmd of Some r \<Rightarrow> (replay r cmd, db')
      | None \<Rightarrow> checked (existingObligationFor (bq_later rq) q owner) db' (\<lambda>existing.
          (case existing of None \<Rightarrow> (app_error ''OBLIGATION_ALREADY_EXISTS'', db')
           | Some sn \<Rightarrow> checked (obligationView sn) db' (\<lambda>ov.
              (Inr \<lparr>cm_outcome = \<lparr>ro_status = 200, ro_body = ObligationBody ov\<rparr>,
                cm_replayed = False\<rparr>, db'))))) = db'" for cmd q owner db'
    by (auto simp: snd_checked split: option.split sum.split)
  ultimately show ?thesis
    using assms(2) unfolding createObligation_def Let_def valid_quotes_def
    by (intro reach) (auto split: quote_answer.split)
qed

lemma createForBooking_reaches:
  assumes "books db" and "valid_validation validate"
  shows "reaches db (createForBooking sha rq bearer who key body validate db)"
proof -
  have ex: "reaches db (execute rq cmd (createForBooking_tx rq cl b q bk m) db)" if "valid_money m" for cmd cl b q bk m
    by (rule reaches_execute [OF assms(1) createForBooking_tx_run [OF assms(1) _ that]])
  have "reaches db (case execute rq cmd (createForBooking_tx rq cl b q bk m) db of
      (Inl (StoreError s), db') \<Rightarrow> f s db' | r \<Rightarrow> r)"
    if "valid_money m" and "\<And>s db'. snd (f s db') = db'" for cmd cl b q bk m f
    using ex [OF that(1), of cmd cl b q bk] that(2)
    by (auto simp: reaches_def split: prod.split sum.split billing_error.split)
  moreover have "snd (if s \<noteq> BookingAlreadyLinked \<and> s \<noteq> ObligationAlreadyExists then (Inl (StoreError s), db')
      else checked (existingFor (bq_later rq) bk cl b q) db' (\<lambda>w.
        (case w of None \<Rightarrow> (app_error ''OBLIGATION_ALREADY_EXISTS'', db') | Some sn \<Rightarrow> answer_existing sn db'))) = db'"
    for s db' bk cl b q
    by (auto simp: snd_checked split: option.split sum.split)
  ultimately show ?thesis
    using assms(2) unfolding createForBooking_def Let_def valid_validation_def
    by (intro reach) (auto split: quote_validation_answer.split option.split simp: reaches_def)
qed

lemma obligation_commands_reach:
  assumes "books db"
  shows "reaches db (initializePayment sha rq i key body db)"
    and "reaches db (submitAttempt sha rq i key body db)"
    and "reaches db (reconcileAttempt sha rq i key body db)"
    and "reaches db (voidObligation sha rq i key body db)"
    and "reaches db (voidForBooking sha rq bearer who i key body db)"
proof -
  show "reaches db (initializePayment sha rq i key body db)"
    unfolding initializePayment_def Let_def
    by (intro reach assms) (erule initializePayment_tx_run [OF assms])
  show "reaches db (submitAttempt sha rq i key body db)"
    unfolding submitAttempt_def Let_def
    by (intro reach assms) (auto split: option.split intro!: reach assms submitAttempt_tx_run [OF assms])
  show "reaches db (reconcileAttempt sha rq i key body db)"
    unfolding reconcileAttempt_def Let_def
    by (intro reach assms) (auto split: option.split intro!: reach assms reconcileAttempt_tx_run [OF assms])
  show "reaches db (voidObligation sha rq i key body db)"
    unfolding voidObligation_def Let_def
    by (intro reach assms) (erule voidObligation_tx_run [OF assms])
  show "reaches db (voidForBooking sha rq bearer who i key body db)"
    unfolding voidForBooking_def Let_def
    by (intro reach assms) (auto split: option.split intro!: reach assms voidForBooking_tx_run [OF assms])
qed

lemma recordStatementCredit_reaches:
  assumes "books db"
  shows "reaches db (recordStatementCredit sha parse_date adapters rq key body db)"
  unfolding recordStatementCredit_def Let_def
  by (intro reach assms)
    (auto split: option.split intro!: reach assms recordStatementCredit_tx_run [OF assms] simp: moneyInput_valid)

lemma receiveNotification_reaches:
  assumes "books db" and "valid_notification answer"
  shows "reaches db (receiveNotification adapters rq path answer db)"
proof -
  have "snd (run_tx (receiveNotification_tx rq provider f ev) db) = db \<or>
      ledger_step\<^sup>*\<^sup>* db (snd (run_tx (receiveNotification_tx rq provider f ev) db))"
    if "valid_money (cf_amount f)" for provider f ev
    using receiveNotification_tx_run [OF assms(1) _ that]
    by (cases "receiveNotification_tx rq provider f ev db") (auto simp: run_tx_def)
  then have "reaches db (case run_tx (receiveNotification_tx rq provider f ev) db of
      (Inl (StoreError ProviderCreditTaken), db') \<Rightarrow> (Inr Duplicate, db') | r \<Rightarrow> r)"
    if "valid_money (cf_amount f)" for provider f ev
    using that
    by (auto simp: reaches_def split: prod.split sum.split billing_error.split store_signal.split)
      (metis rtranclp.rtrancl_refl snd_conv)+
  then show ?thesis
    using assms(2) unfolding receiveNotification_def
    by (auto split: option.split notification_answer.split sum.split)
qed

lemma query_result_valid:
  assumes "valid_query query"
  shows "valid_answer (query_result claim (query r))"
  using assms unfolding query_result_def valid_query_def
  by (auto split: option.split query_answer.split) (metis valid_answer.simps(1))

lemma provider_commands_reach:
  assumes "books db"
  shows "reaches db (decideStatementCredit sha rq i key body db)"
    and "valid_query query \<Longrightarrow> reaches db (verifyAttemptWithProvider sha adapters query rq i key body db)"
    and "reaches db (requestRefund sha adapters rq i key body db)"
    and "reaches db (decideRefund sha rq i key body db)"
    and "reaches db (executeRefund sha adapters ask rq i key body db)"
    and "reaches db (completeManualRefund sha rq i key body db)"
proof -
  show "reaches db (decideStatementCredit sha rq i key body db)"
    unfolding decideStatementCredit_def Let_def
    by (intro reach assms) (auto split: option.split intro!: reach assms decideStatementCredit_tx_run [OF assms])
  show "reaches db (verifyAttemptWithProvider sha adapters query rq i key body db)" if "valid_query query"
    unfolding verifyAttemptWithProvider_def Let_def
    by (intro reach assms)
      (auto split: option.split intro!: reach assms verifyAttempt_tx_run [OF assms] query_result_valid [OF that])
  show "reaches db (requestRefund sha adapters rq i key body db)"
    unfolding requestRefund_def Let_def
    by (intro reach assms) (erule requestRefund_tx_run [OF assms])
  show "reaches db (decideRefund sha rq i key body db)"
    unfolding decideRefund_def Let_def
    by (intro reach assms) (auto split: option.split intro!: reach assms decideRefund_tx_run [OF assms])
  show "reaches db (executeRefund sha adapters ask rq i key body db)"
    unfolding executeRefund_def Let_def
    by (intro reach assms)
      (auto split: option.split prod.split intro!: reach assms executeRefund_tx_run [OF assms])
  show "reaches db (completeManualRefund sha rq i key body db)"
    unfolding completeManualRefund_def Let_def
    by (intro reach assms) (auto split: option.split intro!: reach assms completeManualRefund_tx_run [OF assms])
qed

lemma custody_commands_reach:
  assumes "books db"
  shows "reaches db (recordCollection sha rq i key body evidence db)"
    and "reaches db (declareHandover sha rq key body db)"
    and "reaches db (cancelHandover sha rq i key body db)"
    and "reaches db (receiveHandover sha rq i key body db)"
    and "reaches db (reconcileHandover sha rq i key body db)"
proof -
  show "reaches db (recordCollection sha rq i key body evidence db)"
    unfolding recordCollection_def Let_def
    by (intro reach assms) (auto split: work_answer.split intro!: reach assms recordCollection_tx_run [OF assms])
  show "reaches db (declareHandover sha rq key body db)"
    unfolding declareHandover_def Let_def
    by (intro reach assms) (erule declareHandover_tx_run [OF assms])
  show "reaches db (cancelHandover sha rq i key body db)"
    unfolding cancelHandover_def Let_def
    by (intro reach assms) (auto intro!: reach assms cancelHandover_tx_run [OF assms])
  show "reaches db (receiveHandover sha rq i key body db)"
    unfolding receiveHandover_def Let_def
    by (intro reach assms) (erule receiveHandover_tx_run [OF assms])
  show "reaches db (reconcileHandover sha rq i key body db)"
    unfolding reconcileHandover_def Let_def
    by (intro reach assms) (erule reconcileHandover_tx_run [OF assms])
qed

text \<open>A receipt keeps its obligation, so the one read before the transaction is still right.\<close>

lemma receipts_kept:
  assumes "ledger_step db db'" and "r \<in> set (b_receipts db)"
  shows "\<exists>r' \<in> set (b_receipts db'). receipt_core r' = receipt_core r"
  using assms(1)
proof cases
  case (reverse ob ob' re res ints js)
  then show ?thesis using moved_mem_back [OF reverse(6) assms(2)] by (auto simp: same_core_def)
next
  case (declare_handover ha items ks res)
  then show ?thesis using moved_mem_back [OF declare_handover(9) assms(2)] by (auto simp: same_core_def)
next
  case (cancel_handover ha ha' res)
  then show ?thesis using moved_mem_back [OF cancel_handover(6) assms(2)] by (auto simp: same_core_def)
next
  case (receive_handover ha ha' n s v js res)
  then show ?thesis using moved_mem_back [OF receive_handover(11) assms(2)] by (auto simp: same_core_def)
next
  case (reconcile_handover ha ha' n js res)
  then show ?thesis using moved_mem_back [OF reconcile_handover(12) assms(2)] by (auto simp: same_core_def)
qed (use assms(2) in \<open>auto simp: same_core_def\<close>)

lemma receipts_kept_run:
  assumes "ledger_step\<^sup>*\<^sup>* db db'" and "r \<in> set (b_receipts db)"
  shows "\<exists>r' \<in> set (b_receipts db'). receipt_core r' = receipt_core r"
  using assms
proof (induction rule: rtranclp_induct)
  case (step y z)
  then obtain r' where "r' \<in> set (b_receipts y)" "receipt_core r' = receipt_core r" by blast
  with receipts_kept [OF step(2)] show ?case by metis
qed blast

lemma reverseCollection_reaches:
  assumes "books db" and "ledger_step\<^sup>*\<^sup>* (bq_seen rq) db"
  shows "reaches db (reverseCollection sha rq i key body db)"
proof -
  have "re_obligationId r = re_obligationId k"
    if "lockReceipt (bq_seen rq) j = Some k" "r \<in> set (b_receipts db)" "re_id r = j" for j k r
  proof -
    from that(1) have "k \<in> set (b_receipts (bq_seen rq))" "re_id k = j"
      by (auto simp: lockReceipt_def dest: find_row_Some)
    with receipts_kept_run [OF assms(2)] obtain r' where r': "r' \<in> set (b_receipts db)" "receipt_core r' = receipt_core k"
      by blast
    note core = receipt_core_simps [OF r'(2)]
    with distinct_key_eq [OF books_keys(3) [OF assms(1)] that(2) r'(1)] that(3) \<open>re_id k = j\<close> show ?thesis by simp
  qed
  then show ?thesis
    unfolding reverseCollection_def Let_def
    by (intro reach assms) (auto split: option.split intro!: reach assms reverseCollection_tx_run [OF assms(1)])
qed

lemma commands_run:
  assumes "commands sha parse_date rq db db'" and "books db" and "ledger_step\<^sup>*\<^sup>* (bq_seen rq) db"
  shows "ledger_step\<^sup>*\<^sup>* db db'"
  using assms(1)
  by cases
    (simp_all add: assms(2,3) createObligation_reaches createForBooking_reaches obligation_commands_reach
      recordStatementCredit_reaches receiveNotification_reaches provider_commands_reach custody_commands_reach
      reverseCollection_reaches flip: reaches_def)

section \<open>Histories\<close>

definition history_ok :: "history \<Rightarrow> bool" where
  "history_ok h \<longleftrightarrow> h \<noteq> [] \<and> (\<forall>db \<in> set h. books db \<and> ledger_step\<^sup>*\<^sup>* db (hd h))"

lemma history_step:
  assumes "history_ok h" and "billing_step sha parse_date h h'"
  shows "history_ok h'"
  using assms(2)
proof cases
  case (1 rq db past db')
  then have bk: "books db" and seen: "ledger_step\<^sup>*\<^sup>* (bq_seen rq) db" using assms(1) by (auto simp: history_ok_def)
  have run: "ledger_step\<^sup>*\<^sup>* db db'" by (rule commands_run [OF 1(4) bk seen])
  have "books db'" by (rule books_steps [OF run bk])
  with 1(1,2) assms(1) run show ?thesis by (auto simp: history_ok_def intro: rtranclp_trans)
qed

interpretation billing: transition_system billing_init "billing_step sha parse_date" history_ok
proof unfold_locales
  show "history_ok h" if "billing_init h" for h
    using that by (simp add: billing_init_def history_ok_def books_empty)
qed (rule history_step)

lemma history_books:
  assumes "billing_history sha parse_date h" and "db \<in> set h"
  shows "books db"
  using billing.reachable_inv [of "[empty_billing_db]" sha parse_date h] assms
  by (auto simp: billing_history_def billing_init_def history_ok_def)

end
