(* ===== verification/Billing_Examples.thy ===== *)
theory Billing_Examples
  imports Billing_System
begin

text \<open>
  Billing, three short histories for the witnesses: a customer is billed and pays cash, which
  the technician hands over short; a provider credit nobody claims is refunded; a customer
  claims a transfer whose credit is already there. Every database is computed from the command
  that leaves it.
\<close>

section \<open>Requests\<close>

definition eb_uuid :: "char \<Rightarrow> string" where
  "eb_uuid c = replicate 8 c @ ''-'' @ replicate 4 c @ ''-4'' @ replicate 3 c @ ''-8'' @ replicate 3 c @ ''-'' @
     replicate 12 c"

lemma eb_uuid_eq [simp]: "eb_uuid c = eb_uuid d \<longleftrightarrow> c = d"
  by (simp add: eb_uuid_def numeral_eq_Suc)

lemma eb_uuid_ok [simp]: "lower_hex_char c \<Longrightarrow> billing_uuid (eb_uuid c)"
  by (simp add: eb_uuid_def billing_uuid_def numeral_eq_Suc in_range_def lower_hex_char_def is_digit_def)

definition eb_key :: "char \<Rightarrow> string" where
  "eb_key c = replicate 16 c"

lemma eb_key_eq [simp]: "eb_key c = eb_key d \<longleftrightarrow> c = d"
  by (simp add: eb_key_def numeral_eq_Suc)

lemma eb_key_ok [simp]: "is_lower c \<Longrightarrow> idempotency_key (Some (JString (eb_key c))) = Inr (eb_key c)"
  by (simp add: eb_key_def idempotency_key_def key_pattern_def list_all_iff)

definition eb_sha :: "json \<Rightarrow> string" where
  "eb_sha j = ''f''"

definition eb_date :: "string \<Rightarrow> instant option" where
  "eb_date s = None"

text \<open>The ids a command draws: the first one a UUID, for the rows a later command names.\<close>

definition eb_row :: "char \<Rightarrow> nat \<Rightarrow> string" where
  "eb_row c n = c # replicate n CHR ''.''"

lemma eb_row_eq [simp]: "eb_row c n = eb_row d m \<longleftrightarrow> c = d \<and> n = m"
  by (auto simp: eb_row_def replicate_eq_replicate)

lemma eb_uuid_row [simp]: "eb_uuid c \<noteq> eb_row d n" "eb_row d n \<noteq> eb_uuid c"
proof -
  have mem: "x \<in> set (eb_row d n) \<longrightarrow> x = d \<or> x = CHR ''.''" for x by (auto simp: eb_row_def)
  have "CHR ''-'' \<in> set (eb_uuid c)" "CHR ''4'' \<in> set (eb_uuid c)" by (simp_all add: eb_uuid_def)
  with mem [of "CHR ''-''"] mem [of "CHR ''4''"] show "eb_uuid c \<noteq> eb_row d n" by auto
  then show "eb_row d n \<noteq> eb_uuid c" by simp
qed

definition eb_ids :: "char \<Rightarrow> nat \<Rightarrow> string" where
  "eb_ids c n = (if n = 0 then eb_uuid c else eb_row c n)"

definition eb_rq :: "string \<Rightarrow> string \<Rightarrow> char \<Rightarrow> billing_db \<Rightarrow> brequest" where
  "eb_rq who permission c seen =
     \<lparr>bq_access = Verified \<lparr>vp_kind = Account, vp_subject = who, vp_permissions = [permission]\<rparr>,
      bq_correlationId = ''corr'', bq_now = 1000, bq_ids = eb_ids c, bq_seen = seen, bq_later = seen\<rparr>"

lemma eb_rq_simps [simp]:
  "bq_access (eb_rq who p c s) = Verified \<lparr>vp_kind = Account, vp_subject = who, vp_permissions = [p]\<rparr>"
  "bq_correlationId (eb_rq who p c s) = ''corr''" "bq_now (eb_rq who p c s) = 1000"
  "bq_ids (eb_rq who p c s) n = eb_ids c n" "bq_seen (eb_rq who p c s) = s" "bq_later (eb_rq who p c s) = s"
  by (simp_all add: eb_rq_def)

definition eb_who :: "string \<Rightarrow> principal" where
  "eb_who s = \<lparr>pr_kind = Account, pr_subject = s\<rparr>"

lemma eb_who_simps [simp]:
  "\<lparr>pr_kind = Account, pr_subject = s\<rparr> = eb_who s" "pr_subject (eb_who s) = s" "pr_kind (eb_who s) = Account"
  "eb_who s = eb_who t \<longleftrightarrow> s = t"
  by (simp_all add: eb_who_def)

section \<open>Money\<close>

definition eb_money :: "int \<Rightarrow> bmoney" where
  "eb_money n = \<lparr>mo_currency = ''SYP'', mo_amountMinor = n\<rparr>"

lemma eb_money_simps [simp]:
  "mo_currency (eb_money n) = ''SYP''" "mo_amountMinor (eb_money n) = n"
  "\<lparr>mo_currency = ''SYP'', mo_amountMinor = n\<rparr> = eb_money n" "eb_money n = eb_money m \<longleftrightarrow> n = m"
  by (simp_all add: eb_money_def)

lemma eb_money_valid [simp]: "valid_money (eb_money n) \<longleftrightarrow> 0 \<le> n \<and> n < 1000000000000000000"
  by (simp add: valid_money_def SUPPORTED_SCALES_def MONEY_LIMIT_def)

lemma eb_money_ops [simp]:
  "0 \<le> n \<Longrightarrow> n < 1000000000000000000 \<Longrightarrow> Money_of ''SYP'' n = Inr (eb_money n)"
  "Money_zero ''SYP'' = Inr (eb_money 0)"
  "0 \<le> a + b \<Longrightarrow> a + b < 1000000000000000000 \<Longrightarrow> Money_plus (eb_money a) (eb_money b) = Inr (eb_money (a + b))"
  "b \<le> a \<Longrightarrow> a - b < 1000000000000000000 \<Longrightarrow> Money_minus (eb_money a) (eb_money b) = Inr (eb_money (a - b))"
  "Money_isZero (eb_money a) \<longleftrightarrow> a = 0"
  by (simp_all add: scale_defined_def Money_of_def SUPPORTED_SCALES_def MONEY_LIMIT_def Money_zero_def
      Money_plus_def Money_minus_def sameCurrency_def Money_isZero_def)

definition eb_wire :: "int \<Rightarrow> json" where
  "eb_wire n = wire_json (Money_toWire (eb_money n))"

lemma eb_wire_input [simp]:
  "0 \<le> n \<Longrightarrow> n < 1000000000000000000 \<Longrightarrow> moneyInput (Some (eb_wire n)) = Inr (eb_money n)"
  by (simp add: moneyInput_def eb_wire_def Money_parse_toWire)

lemma balanced_pair [simp]:
  "0 < a \<Longrightarrow> a < 1000000000000000000 \<Longrightarrow>
   x \<notin> set HOLDER_ACCOUNTS \<Longrightarrow> y \<notin> set HOLDER_ACCOUNTS \<Longrightarrow>
   balanced \<lparr>jp_kind = kd, jp_businessRef = b, jp_lines = [line x DEBIT (eb_money a), line y CREDIT (eb_money a)]\<rparr> =
   Inr \<lparr>jp_kind = kd, jp_businessRef = b, jp_lines = [line x DEBIT (eb_money a), line y CREDIT (eb_money a)]\<rparr>"
  "0 < a \<Longrightarrow> a < 1000000000000000000 \<Longrightarrow> x \<in> set HOLDER_ACCOUNTS \<Longrightarrow> y \<notin> set HOLDER_ACCOUNTS \<Longrightarrow>
   balanced \<lparr>jp_kind = kd, jp_businessRef = b, jp_lines = [holder_line x DEBIT (eb_money a) h, line y CREDIT (eb_money a)]\<rparr> =
   Inr \<lparr>jp_kind = kd, jp_businessRef = b, jp_lines = [holder_line x DEBIT (eb_money a) h, line y CREDIT (eb_money a)]\<rparr>"
  using pair_accepted [of "eb_money a" _ x None _ y None kd b] pair_accepted [of "eb_money a" _ x "Some h" _ y None kd b]
  by (simp_all add: line_def holder_line_def)

lemma entry_accepted:
  assumes "0 < a" and "a < 1000000000000000000"
  shows "positive_digits 18 (show_int a)" and "\<not> blank (account_name x)" and "currency_text ''SYP''"
proof -
  from assms have "0 < nat a" "nat a < 10 ^ 18" "\<not> a < 0" by (auto simp: nat_less_iff)
  then show "positive_digits 18 (show_int a)"
    using positive_digits_show_nat [of "nat a" 18] by (simp add: show_int_def)
  show "\<not> blank (account_name x)" by (cases x) (simp_all add: blank_def js_space_def)
  show "currency_text ''SYP''" by (simp add: currency_text_def is_upper_def in_range_def)
qed

lemma balanced_short [simp]:
  assumes "0 < a" and "0 < b" and "a + b < 1000000000000000000" and "c = a + b"
    and "x \<notin> set HOLDER_ACCOUNTS" and "y \<in> set HOLDER_ACCOUNTS" and "z \<in> set HOLDER_ACCOUNTS"
  shows "balanced \<lparr>jp_kind = kd, jp_businessRef = r, jp_lines = [line x DEBIT (eb_money a),
       holder_line y DEBIT (eb_money b) h, holder_line z CREDIT (eb_money c) h]\<rparr> =
     Inr \<lparr>jp_kind = kd, jp_businessRef = r, jp_lines = [line x DEBIT (eb_money a),
       holder_line y DEBIT (eb_money b) h, holder_line z CREDIT (eb_money c) h]\<rparr>"
  using assms entry_accepted
  by (simp add: balanced_def assertBalancedJournal_def line_entry_def line_def holder_line_def signed_def)

definition eb_audit :: "char \<Rightarrow> nat \<Rightarrow> audit_actor \<Rightarrow> string \<Rightarrow> string option \<Rightarrow> string option \<Rightarrow> string \<Rightarrow> billing_audit" where
  "eb_audit c n actor action obligationId attemptId outcome =
     \<lparr>au_id = eb_ids c n, au_occurredAt = 1000, au_actor = actor, au_action = action,
      au_obligationId = obligationId, au_attemptId = attemptId, au_receiptId = None,
      au_handoverId = None, au_creditId = None, au_refundId = None, au_outcome = outcome,
      au_correlationId = ''corr''\<rparr>"

lemma eb_audit_simps [simp]:
  "audit_row (eb_rq who p c s) n actor action i j out = eb_audit c n actor action i j out"
  "au_id (eb_audit c n actor action i j out) = eb_ids c n"
  by (simp_all add: audit_row_def eb_audit_def)

section \<open>Evaluation\<close>

lemmas eb_eval = Let_def char_of_def bit_0 Collect_conv_if eb_ids_def eb_sha_def
  checked_def permitted_def principal_of_def accountOnly_def refOf_def objectWithKeys_def field_def uuid_field_def
  target_id_def revision_field_def MAX_REVISION_def oneOf_def make_command_def unless_committed_def
  committed_receipt_def findReceipt_def find_row_def execute_def execute_tx_def run_tx_def saveReceipt_def
  insert_row_def cas_rows_def update_rows_def guard_def translating_def empty_billing_db_def lower_hex_char_def
  is_digit_def is_lower_def is_upper_def in_range_def app_error_def decide_rule_def post_def postJournal_def meta_of_def
  appendAudit_row_def appendOutbox_def event_context_of_def some_snapshot_def snapshot_of_def lockObligation_def
  HOLDER_ACCOUNTS_def journal_defs createObligation_def createObligation_tx_def obligationIdForQuote_def
  bill_obligation_def created_obligation_def insertObligation_def obligationView_def shown_outstanding_def
  outstanding_def initializePayment_def initializePayment_tx_def locked_def is_owner_def planMethodSelection_def
  assertOpen_def initialIntentStatus_def isElectronic_def ELECTRONIC_METHODS_def PAYMENT_METHODS_def insertIntent_def
  setIntentStatus_def active_intent_def active_receipt_def ACTIVE_INTENT_STATUSES_def updateObligation_def
  changed_obligation_def finish_command_def obligationChanged_def snapshotFinancialStatus_def financialStatus_def
  intentView_def attemptView_def recordCollection_def recordCollection_tx_def planCashCollection_def insertReceipt_def
  custody_audit_def financialStatusView_def declareHandover_def declareHandover_tx_def receiptIdSet_def lockReceipts_def
  planHandover_def MAX_RECEIPTS_PER_HANDOVER_def new_handover_def insertHandover_def updateReceiptCustody_def
  moved_receipt_def handoverEvent_def handoverOutcome_def handoverReceiptIds_def receiveHandover_def
  receiveHandover_tx_def lockedHandover_def lockHandover_def planTreasuryReceipt_def updateHandover_def
  handoverData_def moveReceipts_def treasuryReference_def normalizeTreasuryReference_def PROVIDER_REFERENCE_def
  reference_char_def toUpperCase_def to_upper_def receiveNotification_def receiveNotification_tx_def
  assertOccurredBefore_def PROVIDERS_def effectiveCredit_def draft_credit_def confirm_def claimFor_def
  planCreditAllocation_def OPEN_ATTEMPT_STATUSES_def left_credit_def allocated_credit_def store_credit_def
  insertCredit_def attempt_free_def CONFIRMED_CREDIT_STATUSES_def creditEvent_def credit_audit_def
  reservedForRefund_def reserved_sum_def reserving_def RESERVING_REFUND_STATUSES_def requestRefund_def
  requestRefund_tx_def lockCredit_def planRefundRequest_def ALLOCATED_REASONS_def UNALLOCATED_REFUND_REASONS_def
  refundableAmount_def REFUND_REASONS_def insertRefund_def refund_changed_def decideRefund_def decideRefund_tx_def
  lockRefund_def lockedRefund_def planRefundDecision_def updateRefund_def refundData_def DECISIONS_def
  submitAttempt_def submitAttempt_tx_def planAttemptSubmission_def countAttempts_def MAX_ATTEMPTS_PER_OBLIGATION_def
  insertAttempt_def unallocatedCreditFor_def settle_claim_def reconcileAttempt_row_def changed_attempt_def
  updateCredit_def creditData_def refunded_sum_def auditActor_def

definition eb_quotes :: "string \<Rightarrow> quote_answer" where
  "eb_quotes q = Quote q True (eb_money 250000)"

definition eb_evidence :: "string \<Rightarrow> work_answer" where
  "eb_evidence b = Work \<lparr>we_bookingId = b, we_quoteId = eb_uuid CHR ''c'', we_assignmentId = ''as'',
     we_assignmentRevision = 1, we_technicianSubject = Some ''tech'', we_workState = COMPLETED\<rparr>"

definition eb_adapters :: registry where
  "eb_adapters pm = \<lparr>ad_notifications = True, ad_creditQuery = False, ad_refunds = MANUAL_OUT_OF_BAND,
     ad_statementEvidence = True, ad_acceptsMerchantAccount = (\<lambda>_. True)\<rparr>"

definition eb_transfer :: "int \<Rightarrow> notification_answer" where
  "eb_transfer n = CreditFinal \<lparr>cf_merchantAccount = ''m1'', cf_reference = ''ABCD1234'', cf_amount = eb_money n,
     cf_occurredAt = 900\<rparr> ''digest''"

definition eb_revision :: "int \<Rightarrow> string \<times> json" where
  "eb_revision n = (''expectedRevision'', JNumber (JsInt n))"

lemmas eb_inputs = eb_quotes_def eb_evidence_def eb_adapters_def eb_transfer_def eb_revision_def

section \<open>A customer is billed 250000 and pays cash; the technician hands it over, 10000 short\<close>

definition eb_cash1 :: billing_db where
  "eb_cash1 =
     empty_billing_db\<lparr>b_obligations := [\<lparr>ob_amount = eb_money 250000, ob_verified = eb_money 0,
     ob_status = OPEN, ob_id = eb_uuid CHR ''1'', ob_owner = eb_who ''amal'', ob_quoteId = eb_uuid CHR ''c'',
     ob_revision = Suc 0, ob_createdAt = 1000, ob_updatedAt = 1000\<rparr>], b_journals := [\<lparr>lj_plan =
     \<lparr>jp_kind = JK_OBLIGATION_BILLED, jp_businessRef = ''obligation:'' @ eb_uuid CHR ''1'' @ '':billed'',
     jp_lines = [line CUSTOMER_RECEIVABLE DEBIT (eb_money 250000), line BILLED_OBLIGATIONS_CONTROL CREDIT
     (eb_money 250000)]\<rparr>, lj_meta = \<lparr>jm_id = eb_row CHR ''1'' (Suc 0), jm_obligationId = Some
     (eb_uuid CHR ''1''), jm_handoverId = None, jm_creditId = None, jm_postedAt = 1000, jm_correlationId =
     ''corr''\<rparr>\<rparr>], b_idempotency := [\<lparr>ir_actor = eb_who ''amal'', ir_operation =
     ''billing.obligation.create.v1'', ir_key = eb_key CHR ''a'', ir_fingerprint = ''f'', ir_outcome =
     \<lparr>ro_status = 201, ro_body = ObligationBody \<lparr>ov_obligationId = eb_uuid CHR ''1'', ov_revision
     = Suc 0, ov_status = OPEN, ov_financialStatus = UNPAID, ov_quoteId = eb_uuid CHR ''c'', ov_amount =
     Money_toWire (eb_money 250000), ov_verified = Money_toWire (eb_money 0), ov_outstanding = Money_toWire
     (eb_money 250000), ov_activeIntent = None, ov_attempts = [], ov_cashReceipt = None, ov_createdAt = 1000,
     ov_updatedAt = 1000\<rparr>\<rparr>\<rparr>], b_audit := [eb_audit CHR ''1'' 2 (PrincipalAuditActor (eb_who
     ''amal'')) ''billing.obligation.created'' (Some (eb_uuid CHR ''1'')) None ''OPEN''], b_outbox :=
     [ObligationCreatedV1 \<lparr>ev_eventId = eb_row CHR ''1'' 3, ev_occurredAt = 1000, ev_correlationId =
     ''corr'', ev_actor = Some (eb_who ''amal''), ev_aggregateId = eb_uuid CHR ''1'', ev_revision = Suc
     0\<rparr> (eb_uuid CHR ''c'') (Money_toWire (eb_money 250000)) UNPAID]\<rparr>"

lemma eb_cash1_db:
  "snd (createObligation eb_sha (eb_rq ''amal'' CREATE_PERMISSION CHR ''1'' empty_billing_db) (Some (JString (eb_key CHR ''a'')))
     (JObject [(''quoteId'', JString (eb_uuid CHR ''c''))]) eb_quotes empty_billing_db) = eb_cash1"
  by (simp add: eb_eval eb_inputs eb_cash1_def)

definition eb_cash2 :: billing_db where
  "eb_cash2 =
     eb_cash1\<lparr>b_obligations := [\<lparr>ob_amount = eb_money 250000, ob_verified = eb_money 0, ob_status
     = OPEN, ob_id = eb_uuid CHR ''1'', ob_owner = eb_who ''amal'', ob_quoteId = eb_uuid CHR ''c'', ob_revision
     = Suc (Suc 0), ob_createdAt = 1000, ob_updatedAt = 1000\<rparr>], b_intents := [\<lparr>it_method =
     CASH_ON_COMPLETION, it_status = AWAITING_CASH_COLLECTION, it_id = eb_uuid CHR ''2'', it_obligationId =
     eb_uuid CHR ''1'', it_amount = eb_money 250000, it_createdAt = 1000, it_updatedAt = 1000\<rparr>],
     b_idempotency := b_idempotency eb_cash1 @ [\<lparr>ir_actor = eb_who ''amal'', ir_operation =
     ''billing.intent.initialize.v1'', ir_key = eb_key CHR ''b'', ir_fingerprint = ''f'', ir_outcome =
     \<lparr>ro_status = 201, ro_body = ObligationBody \<lparr>ov_obligationId = eb_uuid CHR ''1'', ov_revision
     = Suc (Suc 0), ov_status = OPEN, ov_financialStatus = AWAITING_CASH, ov_quoteId = eb_uuid CHR ''c'',
     ov_amount = Money_toWire (eb_money 250000), ov_verified = Money_toWire (eb_money 0), ov_outstanding =
     Money_toWire (eb_money 250000), ov_activeIntent = Some (eb_uuid CHR ''2'', CASH_ON_COMPLETION,
     AWAITING_CASH_COLLECTION, Money_toWire (eb_money 250000), 1000, 1000), ov_attempts = [], ov_cashReceipt =
     None, ov_createdAt = 1000, ov_updatedAt = 1000\<rparr>\<rparr>\<rparr>], b_audit := b_audit eb_cash1 @
     [eb_audit CHR ''2'' (Suc 0) (PrincipalAuditActor (eb_who ''amal'')) ''billing.intent.initialized'' (Some
     (eb_uuid CHR ''1'')) None ''CASH_ON_COMPLETION''], b_outbox := b_outbox eb_cash1 @
     [ObligationStatusChangedV1 \<lparr>ev_eventId = eb_row CHR ''2'' 2, ev_occurredAt = 1000, ev_correlationId
     = ''corr'', ev_actor = Some (eb_who ''amal''), ev_aggregateId = eb_uuid CHR ''1'', ev_revision = Suc (Suc
     0)\<rparr> UNPAID AWAITING_CASH (Money_toWire (eb_money 0)) (Money_toWire (eb_money 250000))]\<rparr>"

lemma eb_cash2_db:
  "snd (initializePayment eb_sha (eb_rq ''amal'' CREATE_PERMISSION CHR ''2'' eb_cash1) (eb_uuid CHR ''1'') (Some (JString (eb_key CHR ''b'')))
     (JObject [eb_revision 1, (''method'', JString ''CASH_ON_COMPLETION'')]) eb_cash1) = eb_cash2"
  by (simp add: eb_eval eb_inputs eb_cash2_def eb_cash1_def)

definition eb_cash3 :: billing_db where
  "eb_cash3 =
     eb_cash2\<lparr>b_obligations := [\<lparr>ob_amount = eb_money 250000, ob_verified = eb_money 250000,
     ob_status = SETTLED, ob_id = eb_uuid CHR ''1'', ob_owner = eb_who ''amal'', ob_quoteId = eb_uuid CHR ''c'',
     ob_revision = Suc (Suc (Suc 0)), ob_createdAt = 1000, ob_updatedAt = 1000\<rparr>], b_intents :=
     [\<lparr>it_method = CASH_ON_COMPLETION, it_status = SUCCEEDED, it_id = eb_uuid CHR ''2'', it_obligationId
     = eb_uuid CHR ''1'', it_amount = eb_money 250000, it_createdAt = 1000, it_updatedAt = 1000\<rparr>],
     b_journals := b_journals eb_cash2 @ [\<lparr>lj_plan = \<lparr>jp_kind = JK_CASH_COLLECTED, jp_businessRef
     = ''receipt:'' @ eb_uuid CHR ''3'' @ '':collected'', jp_lines = [holder_line CASH_IN_CUSTODY DEBIT
     (eb_money 250000) ''tech'', line CUSTOMER_RECEIVABLE CREDIT (eb_money 250000)]\<rparr>, lj_meta =
     \<lparr>jm_id = eb_row CHR ''3'' (Suc 0), jm_obligationId = Some (eb_uuid CHR ''1''), jm_handoverId = None,
     jm_creditId = None, jm_postedAt = 1000, jm_correlationId = ''corr''\<rparr>\<rparr>], b_receipts :=
     [\<lparr>re_collector = ''tech'', re_amount = eb_money 250000, re_custodyStatus = HELD, re_id = eb_uuid CHR
     ''3'', re_obligationId = eb_uuid CHR ''1'', re_intentId = eb_uuid CHR ''2'', re_bookingId = eb_uuid CHR
     ''b'', re_assignmentId = ''as'', re_assignmentRevision = 1, re_handoverId = None, re_revision = Suc 0,
     re_collectedAt = 1000, re_updatedAt = 1000\<rparr>], b_idempotency := b_idempotency eb_cash2 @
     [\<lparr>ir_actor = eb_who ''tech'', ir_operation = ''billing.cash.collect.v1'', ir_key = eb_key CHR ''c'',
     ir_fingerprint = ''f'', ir_outcome = \<lparr>ro_status = 201, ro_body = CollectionBody \<lparr>re_collector
     = ''tech'', re_amount = eb_money 250000, re_custodyStatus = HELD, re_id = eb_uuid CHR ''3'',
     re_obligationId = eb_uuid CHR ''1'', re_intentId = eb_uuid CHR ''2'', re_bookingId = eb_uuid CHR ''b'',
     re_assignmentId = ''as'', re_assignmentRevision = 1, re_handoverId = None, re_revision = Suc 0,
     re_collectedAt = 1000, re_updatedAt = 1000\<rparr> None \<lparr>sv_obligationId = eb_uuid CHR ''1'',
     sv_revision = Suc (Suc (Suc 0)), sv_financialStatus = CASH_COLLECTED, sv_amount = Money_toWire (eb_money
     250000), sv_verified = Money_toWire (eb_money 250000), sv_outstanding = Money_toWire (eb_money 0),
     sv_method = None\<rparr>\<rparr>\<rparr>], b_audit := b_audit eb_cash2 @ [eb_audit CHR ''3'' 20
     (PrincipalAuditActor (eb_who ''tech'')) ''billing.cash.collected'' (Some (eb_uuid CHR ''1'')) None ''HELD''
     \<lparr>au_receiptId := Some (eb_uuid CHR ''3''), au_handoverId := None\<rparr>], b_outbox := b_outbox
     eb_cash2 @ [CashCollectedV1 \<lparr>ev_eventId = eb_row CHR ''3'' 21, ev_occurredAt = 1000,
     ev_correlationId = ''corr'', ev_actor = Some (eb_who ''tech''), ev_aggregateId = eb_uuid CHR ''3'',
     ev_revision = Suc 0\<rparr> (eb_uuid CHR ''1'') (eb_uuid CHR ''b'') ''as'' (Money_toWire (eb_money 250000))
     HELD, ObligationStatusChangedV1 \<lparr>ev_eventId = eb_row CHR ''3'' 22, ev_occurredAt = 1000,
     ev_correlationId = ''corr'', ev_actor = Some (eb_who ''tech''), ev_aggregateId = eb_uuid CHR ''1'',
     ev_revision = Suc (Suc (Suc 0))\<rparr> AWAITING_CASH CASH_COLLECTED (Money_toWire (eb_money 250000))
     (Money_toWire (eb_money 0))]\<rparr>"

lemma eb_cash3_db:
  "snd (recordCollection eb_sha (eb_rq ''tech'' COLLECT_PERMISSION CHR ''3'' eb_cash2) (eb_uuid CHR ''1'') (Some (JString (eb_key CHR ''c'')))
     (JObject [eb_revision 2, (''bookingId'', JString (eb_uuid CHR ''b'')), (''amount'', eb_wire 250000)]) eb_evidence eb_cash2) = eb_cash3"
  by (simp add: eb_eval eb_inputs eb_cash3_def eb_cash2_def eb_cash1_def)

definition eb_cash4 :: billing_db where
  "eb_cash4 =
     eb_cash3\<lparr>b_receipts := [\<lparr>re_collector = ''tech'', re_amount = eb_money 250000,
     re_custodyStatus = IN_HANDOVER, re_id = eb_uuid CHR ''3'', re_obligationId = eb_uuid CHR ''1'', re_intentId
     = eb_uuid CHR ''2'', re_bookingId = eb_uuid CHR ''b'', re_assignmentId = ''as'', re_assignmentRevision = 1,
     re_handoverId = Some (eb_uuid CHR ''4''), re_revision = Suc (Suc 0), re_collectedAt = 1000, re_updatedAt =
     1000\<rparr>], b_handovers := [\<lparr>ha_holder = ''tech'', ha_status = HO_PENDING, ha_declared = eb_money
     250000, ha_counted = None, ha_receivedBy = None, ha_id = eb_uuid CHR ''4'', ha_receiptCount = Suc 0,
     ha_shortage = None, ha_overage = None, ha_treasuryReference = None, ha_receivedAt = None,
     ha_settlementReference = None, ha_reconciledBy = None, ha_reconciledAt = None, ha_cancelledBy = None,
     ha_cancelledAt = None, ha_revision = Suc 0, ha_createdAt = 1000, ha_updatedAt = 1000\<rparr>], b_items :=
     [\<lparr>hi_handoverId = eb_uuid CHR ''4'', hi_receiptId = eb_uuid CHR ''3'', hi_amount = eb_money
     250000\<rparr>], b_idempotency := b_idempotency eb_cash3 @ [\<lparr>ir_actor = eb_who ''tech'',
     ir_operation = ''billing.custody.handover.declare.v1'', ir_key = eb_key CHR ''d'', ir_fingerprint = ''f'',
     ir_outcome = \<lparr>ro_status = 201, ro_body = HandoverBody \<lparr>ha_holder = ''tech'', ha_status =
     HO_PENDING, ha_declared = eb_money 250000, ha_counted = None, ha_receivedBy = None, ha_id = eb_uuid CHR
     ''4'', ha_receiptCount = Suc 0, ha_shortage = None, ha_overage = None, ha_treasuryReference = None,
     ha_receivedAt = None, ha_settlementReference = None, ha_reconciledBy = None, ha_reconciledAt = None,
     ha_cancelledBy = None, ha_cancelledAt = None, ha_revision = Suc 0, ha_createdAt = 1000, ha_updatedAt =
     1000\<rparr> [eb_uuid CHR ''3'']\<rparr>\<rparr>], b_audit := b_audit eb_cash3 @ [eb_audit CHR ''4'' 20
     (PrincipalAuditActor (eb_who ''tech'')) ''billing.custody.handover-declared'' None None ''PENDING''
     \<lparr>au_receiptId := None, au_handoverId := Some (eb_uuid CHR ''4'')\<rparr>], b_outbox := b_outbox
     eb_cash3 @ [CustodyHandoverChangedV1 \<lparr>ev_eventId = eb_row CHR ''4'' 21, ev_occurredAt = 1000,
     ev_correlationId = ''corr'', ev_actor = Some (eb_who ''tech''), ev_aggregateId = eb_uuid CHR ''4'',
     ev_revision = Suc 0\<rparr> ''tech'' None HO_PENDING (Suc 0) (Money_toWire (eb_money 250000)) None None
     None]\<rparr>"

lemma eb_cash4_db:
  "snd (declareHandover eb_sha (eb_rq ''tech'' COLLECT_PERMISSION CHR ''4'' eb_cash3) (Some (JString (eb_key CHR ''d'')))
     (JObject [(''receiptIds'', JArray [JString (eb_uuid CHR ''3'')]), (''declaredAmount'', eb_wire 250000)]) eb_cash3) = eb_cash4"
  by (simp add: eb_eval eb_inputs eb_cash4_def eb_cash3_def eb_cash2_def eb_cash1_def)

definition eb_cash5 :: billing_db where
  "eb_cash5 =
     eb_cash4\<lparr>b_journals := b_journals eb_cash4 @ [\<lparr>lj_plan = \<lparr>jp_kind =
     JK_CUSTODY_RECEIVED, jp_businessRef = ''handover:'' @ eb_uuid CHR ''4'' @ '':received'', jp_lines = [line
     TREASURY_CASH_UNRECONCILED DEBIT (eb_money 240000), holder_line CUSTODY_SHORTAGE_RECEIVABLE DEBIT (eb_money
     10000) ''tech'', holder_line CASH_IN_CUSTODY CREDIT (eb_money 250000) ''tech'']\<rparr>, lj_meta =
     \<lparr>jm_id = eb_uuid CHR ''5'', jm_obligationId = None, jm_handoverId = Some (eb_uuid CHR ''4''),
     jm_creditId = None, jm_postedAt = 1000, jm_correlationId = ''corr''\<rparr>\<rparr>], b_receipts :=
     [\<lparr>re_collector = ''tech'', re_amount = eb_money 250000, re_custodyStatus = DEPOSITED, re_id =
     eb_uuid CHR ''3'', re_obligationId = eb_uuid CHR ''1'', re_intentId = eb_uuid CHR ''2'', re_bookingId =
     eb_uuid CHR ''b'', re_assignmentId = ''as'', re_assignmentRevision = 1, re_handoverId = Some (eb_uuid CHR
     ''4''), re_revision = Suc (Suc (Suc 0)), re_collectedAt = 1000, re_updatedAt = 1000\<rparr>], b_handovers
     := [\<lparr>ha_holder = ''tech'', ha_status = RECEIVED, ha_declared = eb_money 250000, ha_counted = Some
     (eb_money 240000), ha_receivedBy = Some ''teller'', ha_id = eb_uuid CHR ''4'', ha_receiptCount = Suc 0,
     ha_shortage = Some (eb_money 10000), ha_overage = Some (eb_money 0), ha_treasuryReference = Some
     ''TR0001'', ha_receivedAt = Some 1000, ha_settlementReference = None, ha_reconciledBy = None,
     ha_reconciledAt = None, ha_cancelledBy = None, ha_cancelledAt = None, ha_revision = Suc (Suc 0),
     ha_createdAt = 1000, ha_updatedAt = 1000\<rparr>], b_idempotency := b_idempotency eb_cash4 @
     [\<lparr>ir_actor = eb_who ''teller'', ir_operation = ''billing.custody.handover.receive.v1'', ir_key =
     eb_key CHR ''e'', ir_fingerprint = ''f'', ir_outcome = \<lparr>ro_status = 200, ro_body = HandoverBody
     \<lparr>ha_holder = ''tech'', ha_status = RECEIVED, ha_declared = eb_money 250000, ha_counted = Some
     (eb_money 240000), ha_receivedBy = Some ''teller'', ha_id = eb_uuid CHR ''4'', ha_receiptCount = Suc 0,
     ha_shortage = Some (eb_money 10000), ha_overage = Some (eb_money 0), ha_treasuryReference = Some
     ''TR0001'', ha_receivedAt = Some 1000, ha_settlementReference = None, ha_reconciledBy = None,
     ha_reconciledAt = None, ha_cancelledBy = None, ha_cancelledAt = None, ha_revision = Suc (Suc 0),
     ha_createdAt = 1000, ha_updatedAt = 1000\<rparr> [eb_uuid CHR ''3'']\<rparr>\<rparr>], b_audit := b_audit
     eb_cash4 @ [eb_audit CHR ''5'' 20 (PrincipalAuditActor (eb_who ''teller''))
     ''billing.custody.handover-received'' None None ''RECEIVED_SHORTAGE'' \<lparr>au_receiptId := None,
     au_handoverId := Some (eb_uuid CHR ''4'')\<rparr>], b_outbox := b_outbox eb_cash4 @
     [CustodyHandoverChangedV1 \<lparr>ev_eventId = eb_row CHR ''5'' 21, ev_occurredAt = 1000, ev_correlationId
     = ''corr'', ev_actor = Some (eb_who ''teller''), ev_aggregateId = eb_uuid CHR ''4'', ev_revision = Suc (Suc
     0)\<rparr> ''tech'' (Some HO_PENDING) RECEIVED (Suc 0) (Money_toWire (eb_money 250000)) (Some (Money_toWire
     (eb_money 240000))) (Some (Money_toWire (eb_money 10000))) (Some (Money_toWire (eb_money 0)))]\<rparr>"

lemma eb_cash5_db:
  "snd (receiveHandover eb_sha (eb_rq ''teller'' TREASURY_RECEIVE_PERMISSION CHR ''5'' eb_cash4) (eb_uuid CHR ''4'') (Some (JString (eb_key CHR ''e'')))
     (JObject [eb_revision 1, (''countedAmount'', eb_wire 240000), (''treasuryReference'', JString ''TR0001'')]) eb_cash4) = eb_cash5"
  by (simp add: eb_eval eb_inputs eb_cash5_def eb_cash4_def eb_cash3_def eb_cash2_def eb_cash1_def)

section \<open>A credit nobody claims, and its refund\<close>

definition eb_credit1 :: billing_db where
  "eb_credit1 =
     empty_billing_db\<lparr>b_journals := [\<lparr>lj_plan = \<lparr>jp_kind = JK_CREDIT_RECEIVED,
     jp_businessRef = ''credit:'' @ eb_uuid CHR ''6'' @ '':received'', jp_lines = [line CLEARING_SHAM_CASH DEBIT
     (eb_money 90000), line PROVIDER_CREDITS_UNALLOCATED CREDIT (eb_money 90000)]\<rparr>, lj_meta =
     \<lparr>jm_id = eb_row CHR ''6'' 10, jm_obligationId = None, jm_handoverId = None, jm_creditId = Some
     (eb_uuid CHR ''6''), jm_postedAt = 1000, jm_correlationId = ''corr''\<rparr>\<rparr>], b_credits :=
     [\<lparr>cr_provider = SHAM_CASH, cr_amount = eb_money 90000, cr_status = UNALLOCATED, cr_recordedBy =
     None, cr_id = eb_uuid CHR ''6'', cr_merchantAccount = ''m1'', cr_reference = ''ABCD1234'', cr_occurredAt =
     900, cr_source = PROVIDER_NOTIFICATION, cr_evidenceDigest = ''digest'', cr_unallocatedReason = Some
     NO_CLAIM, cr_attemptId = None, cr_obligationId = None, cr_decidedBy = None, cr_decidedAt = None,
     cr_rejectionReason = None, cr_revision = Suc 0, cr_createdAt = 1000, cr_updatedAt = 1000\<rparr>], b_audit
     := [eb_audit CHR ''6'' (Suc 0) (ProviderAuditActor (PROVIDER_AUDIT_SUBJECTS SHAM_CASH))
     ''billing.credit.recorded'' None None ''UNALLOCATED'' \<lparr>au_creditId := Some (eb_uuid CHR
     ''6'')\<rparr>], b_outbox := [ProviderCreditChangedV1 \<lparr>ev_eventId = eb_row CHR ''6'' 14,
     ev_occurredAt = 1000, ev_correlationId = ''corr'', ev_actor = None, ev_aggregateId = eb_uuid CHR ''6'',
     ev_revision = Suc 0\<rparr> SHAM_CASH PROVIDER_NOTIFICATION None UNALLOCATED (Some NO_CLAIM) (Money_toWire
     (eb_money 90000)) None]\<rparr>"

lemma eb_credit1_db:
  "snd (receiveNotification eb_adapters (eb_rq ''sham'' [] CHR ''6'' empty_billing_db) ''sham_cash'' (eb_transfer 90000) empty_billing_db) = eb_credit1"
  by (simp add: eb_eval eb_inputs eb_credit1_def)

definition eb_credit2 :: billing_db where
  "eb_credit2 =
     eb_credit1\<lparr>b_refunds := [\<lparr>rf_status = REQUESTED, rf_channel = MANUAL_OUT_OF_BAND,
     rf_requestedBy = ''fin1'', rf_id = eb_uuid CHR ''7'', rf_creditId = eb_uuid CHR ''6'', rf_provider =
     SHAM_CASH, rf_amount = eb_money 40000, rf_reason = DUPLICATE_PAYMENT, rf_requestedAt = 1000, rf_decidedBy =
     None, rf_decidedAt = None, rf_providerRefundReference = None, rf_evidenceDigest = None, rf_completedBy =
     None, rf_completedAt = None, rf_revision = Suc 0, rf_updatedAt = 1000\<rparr>], b_idempotency :=
     [\<lparr>ir_actor = eb_who ''fin1'', ir_operation = ''billing.refund.request.v1'', ir_key = eb_key CHR
     ''f'', ir_fingerprint = ''f'', ir_outcome = \<lparr>ro_status = 201, ro_body = RefundBody \<lparr>rf_status
     = REQUESTED, rf_channel = MANUAL_OUT_OF_BAND, rf_requestedBy = ''fin1'', rf_id = eb_uuid CHR ''7'',
     rf_creditId = eb_uuid CHR ''6'', rf_provider = SHAM_CASH, rf_amount = eb_money 40000, rf_reason =
     DUPLICATE_PAYMENT, rf_requestedAt = 1000, rf_decidedBy = None, rf_decidedAt = None,
     rf_providerRefundReference = None, rf_evidenceDigest = None, rf_completedBy = None, rf_completedAt = None,
     rf_revision = Suc 0, rf_updatedAt = 1000\<rparr>\<rparr>\<rparr>], b_audit := b_audit eb_credit1 @
     [eb_audit CHR ''7'' (Suc 0) (PrincipalAuditActor (eb_who ''fin1'')) ''billing.refund.requested'' None None
     ''REQUESTED'' \<lparr>au_creditId := Some (eb_uuid CHR ''6''), au_refundId := Some (eb_uuid CHR
     ''7'')\<rparr>], b_outbox := b_outbox eb_credit1 @ [RefundChangedV1 \<lparr>ev_eventId = eb_row CHR ''7''
     2, ev_occurredAt = 1000, ev_correlationId = ''corr'', ev_actor = Some (eb_who ''fin1''), ev_aggregateId =
     eb_uuid CHR ''7'', ev_revision = Suc 0\<rparr> (eb_uuid CHR ''6'') None SHAM_CASH MANUAL_OUT_OF_BAND
     DUPLICATE_PAYMENT None REQUESTED (Money_toWire (eb_money 40000))]\<rparr>"

lemma eb_credit2_db:
  "snd (requestRefund eb_sha eb_adapters (eb_rq ''fin1'' REFUND_PERMISSION CHR ''7'' eb_credit1) (eb_uuid CHR ''6'') (Some (JString (eb_key CHR ''f'')))
     (JObject [eb_revision 1, (''amount'', eb_wire 40000), (''reason'', JString ''DUPLICATE_PAYMENT'')]) eb_credit1) = eb_credit2"
  by (simp add: eb_eval eb_inputs eb_credit2_def eb_credit1_def)

definition eb_credit3 :: billing_db where
  "eb_credit3 =
     eb_credit2\<lparr>b_refunds := [\<lparr>rf_status = APPROVED, rf_channel = MANUAL_OUT_OF_BAND,
     rf_requestedBy = ''fin1'', rf_id = eb_uuid CHR ''7'', rf_creditId = eb_uuid CHR ''6'', rf_provider =
     SHAM_CASH, rf_amount = eb_money 40000, rf_reason = DUPLICATE_PAYMENT, rf_requestedAt = 1000, rf_decidedBy =
     Some ''fin2'', rf_decidedAt = Some 1000, rf_providerRefundReference = None, rf_evidenceDigest = None,
     rf_completedBy = None, rf_completedAt = None, rf_revision = Suc (Suc 0), rf_updatedAt = 1000\<rparr>],
     b_idempotency := b_idempotency eb_credit2 @ [\<lparr>ir_actor = eb_who ''fin2'', ir_operation =
     ''billing.refund.decide.v1'', ir_key = eb_key CHR ''g'', ir_fingerprint = ''f'', ir_outcome =
     \<lparr>ro_status = 200, ro_body = RefundBody \<lparr>rf_status = APPROVED, rf_channel =
     MANUAL_OUT_OF_BAND, rf_requestedBy = ''fin1'', rf_id = eb_uuid CHR ''7'', rf_creditId = eb_uuid CHR ''6'',
     rf_provider = SHAM_CASH, rf_amount = eb_money 40000, rf_reason = DUPLICATE_PAYMENT, rf_requestedAt = 1000,
     rf_decidedBy = Some ''fin2'', rf_decidedAt = Some 1000, rf_providerRefundReference = None,
     rf_evidenceDigest = None, rf_completedBy = None, rf_completedAt = None, rf_revision = Suc (Suc 0),
     rf_updatedAt = 1000\<rparr>\<rparr>\<rparr>], b_audit := b_audit eb_credit2 @ [eb_audit CHR ''8'' (Suc 0)
     (PrincipalAuditActor (eb_who ''fin2'')) ''billing.refund.approved'' None None ''APPROVED''
     \<lparr>au_creditId := Some (eb_uuid CHR ''6''), au_refundId := Some (eb_uuid CHR ''7'')\<rparr>], b_outbox
     := b_outbox eb_credit2 @ [RefundChangedV1 \<lparr>ev_eventId = eb_row CHR ''8'' 2, ev_occurredAt = 1000,
     ev_correlationId = ''corr'', ev_actor = Some (eb_who ''fin2''), ev_aggregateId = eb_uuid CHR ''7'',
     ev_revision = Suc (Suc 0)\<rparr> (eb_uuid CHR ''6'') None SHAM_CASH MANUAL_OUT_OF_BAND DUPLICATE_PAYMENT
     (Some REQUESTED) APPROVED (Money_toWire (eb_money 40000))]\<rparr>"

lemma eb_credit3_db:
  "snd (decideRefund eb_sha (eb_rq ''fin2'' REFUND_PERMISSION CHR ''8'' eb_credit2) (eb_uuid CHR ''7'') (Some (JString (eb_key CHR ''g'')))
     (JObject [eb_revision 1, (''decision'', JString ''APPROVE'')]) eb_credit2) = eb_credit3"
  by (simp add: eb_eval eb_inputs eb_credit3_def eb_credit2_def eb_credit1_def)

section \<open>The customer of the first history claims a transfer that has already arrived\<close>

definition eb_late2 :: billing_db where
  "eb_late2 =
     eb_cash1\<lparr>b_obligations := [\<lparr>ob_amount = eb_money 250000, ob_verified = eb_money 0, ob_status
     = OPEN, ob_id = eb_uuid CHR ''1'', ob_owner = eb_who ''amal'', ob_quoteId = eb_uuid CHR ''c'', ob_revision
     = Suc (Suc 0), ob_createdAt = 1000, ob_updatedAt = 1000\<rparr>], b_intents := [\<lparr>it_method =
     SHAM_CASH, it_status = AWAITING_CUSTOMER_PAYMENT, it_id = eb_uuid CHR ''2'', it_obligationId = eb_uuid CHR
     ''1'', it_amount = eb_money 250000, it_createdAt = 1000, it_updatedAt = 1000\<rparr>], b_idempotency :=
     b_idempotency eb_cash1 @ [\<lparr>ir_actor = eb_who ''amal'', ir_operation =
     ''billing.intent.initialize.v1'', ir_key = eb_key CHR ''b'', ir_fingerprint = ''f'', ir_outcome =
     \<lparr>ro_status = 201, ro_body = ObligationBody \<lparr>ov_obligationId = eb_uuid CHR ''1'', ov_revision
     = Suc (Suc 0), ov_status = OPEN, ov_financialStatus = AWAITING_PAYMENT, ov_quoteId = eb_uuid CHR ''c'',
     ov_amount = Money_toWire (eb_money 250000), ov_verified = Money_toWire (eb_money 0), ov_outstanding =
     Money_toWire (eb_money 250000), ov_activeIntent = Some (eb_uuid CHR ''2'', SHAM_CASH,
     AWAITING_CUSTOMER_PAYMENT, Money_toWire (eb_money 250000), 1000, 1000), ov_attempts = [], ov_cashReceipt =
     None, ov_createdAt = 1000, ov_updatedAt = 1000\<rparr>\<rparr>\<rparr>], b_audit := b_audit eb_cash1 @
     [eb_audit CHR ''2'' (Suc 0) (PrincipalAuditActor (eb_who ''amal'')) ''billing.intent.initialized'' (Some
     (eb_uuid CHR ''1'')) None ''SHAM_CASH''], b_outbox := b_outbox eb_cash1 @ [ObligationStatusChangedV1
     \<lparr>ev_eventId = eb_row CHR ''2'' 2, ev_occurredAt = 1000, ev_correlationId = ''corr'', ev_actor = Some
     (eb_who ''amal''), ev_aggregateId = eb_uuid CHR ''1'', ev_revision = Suc (Suc 0)\<rparr> UNPAID
     AWAITING_PAYMENT (Money_toWire (eb_money 0)) (Money_toWire (eb_money 250000))]\<rparr>"

lemma eb_late2_db:
  "snd (initializePayment eb_sha (eb_rq ''amal'' CREATE_PERMISSION CHR ''2'' eb_cash1) (eb_uuid CHR ''1'') (Some (JString (eb_key CHR ''b'')))
     (JObject [eb_revision 1, (''method'', JString ''SHAM_CASH'')]) eb_cash1) = eb_late2"
  by (simp add: eb_eval eb_inputs eb_late2_def eb_cash1_def)

definition eb_late3 :: billing_db where
  "eb_late3 =
     eb_late2\<lparr>b_journals := b_journals eb_late2 @ [\<lparr>lj_plan = \<lparr>jp_kind =
     JK_CREDIT_RECEIVED, jp_businessRef = ''credit:'' @ eb_uuid CHR ''3'' @ '':received'', jp_lines = [line
     CLEARING_SHAM_CASH DEBIT (eb_money 250000), line PROVIDER_CREDITS_UNALLOCATED CREDIT (eb_money
     250000)]\<rparr>, lj_meta = \<lparr>jm_id = eb_row CHR ''3'' 10, jm_obligationId = None, jm_handoverId =
     None, jm_creditId = Some (eb_uuid CHR ''3''), jm_postedAt = 1000, jm_correlationId =
     ''corr''\<rparr>\<rparr>], b_credits := [\<lparr>cr_provider = SHAM_CASH, cr_amount = eb_money 250000,
     cr_status = UNALLOCATED, cr_recordedBy = None, cr_id = eb_uuid CHR ''3'', cr_merchantAccount = ''m1'',
     cr_reference = ''ABCD1234'', cr_occurredAt = 900, cr_source = PROVIDER_NOTIFICATION, cr_evidenceDigest =
     ''digest'', cr_unallocatedReason = Some NO_CLAIM, cr_attemptId = None, cr_obligationId = None, cr_decidedBy
     = None, cr_decidedAt = None, cr_rejectionReason = None, cr_revision = Suc 0, cr_createdAt = 1000,
     cr_updatedAt = 1000\<rparr>], b_audit := b_audit eb_late2 @ [eb_audit CHR ''3'' (Suc 0) (ProviderAuditActor
     (PROVIDER_AUDIT_SUBJECTS SHAM_CASH)) ''billing.credit.recorded'' None None ''UNALLOCATED''
     \<lparr>au_creditId := Some (eb_uuid CHR ''3'')\<rparr>], b_outbox := b_outbox eb_late2 @
     [ProviderCreditChangedV1 \<lparr>ev_eventId = eb_row CHR ''3'' 14, ev_occurredAt = 1000, ev_correlationId =
     ''corr'', ev_actor = None, ev_aggregateId = eb_uuid CHR ''3'', ev_revision = Suc 0\<rparr> SHAM_CASH
     PROVIDER_NOTIFICATION None UNALLOCATED (Some NO_CLAIM) (Money_toWire (eb_money 250000)) None]\<rparr>"

lemma eb_late3_db:
  "snd (receiveNotification eb_adapters (eb_rq ''sham'' [] CHR ''3'' eb_late2) ''sham_cash'' (eb_transfer 250000) eb_late2) = eb_late3"
  by (simp add: eb_eval eb_inputs eb_late3_def eb_late2_def eb_cash1_def)

definition eb_late4 :: billing_db where
  "eb_late4 =
     eb_late3\<lparr>b_obligations := [\<lparr>ob_amount = eb_money 250000, ob_verified = eb_money 250000,
     ob_status = SETTLED, ob_id = eb_uuid CHR ''1'', ob_owner = eb_who ''amal'', ob_quoteId = eb_uuid CHR ''c'',
     ob_revision = Suc (Suc (Suc (Suc 0))), ob_createdAt = 1000, ob_updatedAt = 1000\<rparr>], b_intents :=
     [\<lparr>it_method = SHAM_CASH, it_status = SUCCEEDED, it_id = eb_uuid CHR ''2'', it_obligationId = eb_uuid
     CHR ''1'', it_amount = eb_money 250000, it_createdAt = 1000, it_updatedAt = 1000\<rparr>], b_attempts :=
     [\<lparr>at_id = eb_uuid CHR ''4'', at_intentId = eb_uuid CHR ''2'', at_status = MATCHED, at_claimed =
     eb_money 250000, at_obligationId = eb_uuid CHR ''1'', at_method = SHAM_CASH, at_providerReference =
     ''ABCD1234'', at_submittedAt = 1000, at_reconciledAt = Some 1000, at_reconciledBy = None, at_observed =
     Some (eb_money 250000), at_creditId = Some (eb_uuid CHR ''3'')\<rparr>], b_journals := b_journals eb_late3
     @ [\<lparr>lj_plan = \<lparr>jp_kind = JK_CREDIT_ALLOCATED, jp_businessRef = ''credit:'' @ eb_uuid CHR
     ''3'' @ '':allocated'', jp_lines = [line PROVIDER_CREDITS_UNALLOCATED DEBIT (eb_money 250000), line
     CUSTOMER_RECEIVABLE CREDIT (eb_money 250000)]\<rparr>, lj_meta = \<lparr>jm_id = eb_row CHR ''4'' 11,
     jm_obligationId = Some (eb_uuid CHR ''1''), jm_handoverId = None, jm_creditId = Some (eb_uuid CHR ''3''),
     jm_postedAt = 1000, jm_correlationId = ''corr''\<rparr>\<rparr>], b_credits := [\<lparr>cr_provider =
     SHAM_CASH, cr_amount = eb_money 250000, cr_status = ALLOCATED, cr_recordedBy = None, cr_id = eb_uuid CHR
     ''3'', cr_merchantAccount = ''m1'', cr_reference = ''ABCD1234'', cr_occurredAt = 900, cr_source =
     PROVIDER_NOTIFICATION, cr_evidenceDigest = ''digest'', cr_unallocatedReason = None, cr_attemptId = Some
     (eb_uuid CHR ''4''), cr_obligationId = Some (eb_uuid CHR ''1''), cr_decidedBy = None, cr_decidedAt = None,
     cr_rejectionReason = None, cr_revision = Suc (Suc 0), cr_createdAt = 1000, cr_updatedAt = 1000\<rparr>],
     b_idempotency := b_idempotency eb_late3 @ [\<lparr>ir_actor = eb_who ''amal'', ir_operation =
     ''billing.attempt.submit.v1'', ir_key = eb_key CHR ''h'', ir_fingerprint = ''f'', ir_outcome =
     \<lparr>ro_status = 202, ro_body = ObligationBody \<lparr>ov_obligationId = eb_uuid CHR ''1'', ov_revision
     = Suc (Suc (Suc (Suc 0))), ov_status = SETTLED, ov_financialStatus = PAID, ov_quoteId = eb_uuid CHR ''c'',
     ov_amount = Money_toWire (eb_money 250000), ov_verified = Money_toWire (eb_money 250000), ov_outstanding =
     Money_toWire (eb_money 0), ov_activeIntent = None, ov_attempts = [(eb_uuid CHR ''4'', eb_uuid CHR ''2'',
     SHAM_CASH, MATCHED, maskProviderReference ''ABCD1234'', Money_toWire (eb_money 250000), 1000, Some 1000)],
     ov_cashReceipt = None, ov_createdAt = 1000, ov_updatedAt = 1000\<rparr>\<rparr>\<rparr>], b_audit :=
     b_audit eb_late3 @ [eb_audit CHR ''4'' 12 (ProviderAuditActor (PROVIDER_AUDIT_SUBJECTS SHAM_CASH))
     ''billing.credit.allocated'' (Some (eb_uuid CHR ''1'')) (Some (eb_uuid CHR ''4'')) ''MATCHED''
     \<lparr>au_creditId := Some (eb_uuid CHR ''3'')\<rparr>, eb_audit CHR ''4'' (Suc 0) (PrincipalAuditActor
     (eb_who ''amal'')) ''billing.attempt.submitted'' (Some (eb_uuid CHR ''1'')) (Some (eb_uuid CHR ''4''))
     ''PENDING_REVIEW''], b_outbox := b_outbox eb_late3 @ [ObligationStatusChangedV1 \<lparr>ev_eventId = eb_row
     CHR ''4'' 13, ev_occurredAt = 1000, ev_correlationId = ''corr'', ev_actor = None, ev_aggregateId = eb_uuid
     CHR ''1'', ev_revision = Suc (Suc (Suc (Suc 0)))\<rparr> FS_UNDER_REVIEW PAID (Money_toWire (eb_money
     250000)) (Money_toWire (eb_money 0)), ProviderCreditChangedV1 \<lparr>ev_eventId = eb_row CHR ''4'' 14,
     ev_occurredAt = 1000, ev_correlationId = ''corr'', ev_actor = None, ev_aggregateId = eb_uuid CHR ''3'',
     ev_revision = Suc (Suc 0)\<rparr> SHAM_CASH PROVIDER_NOTIFICATION (Some UNALLOCATED) ALLOCATED None
     (Money_toWire (eb_money 250000)) (Some (eb_uuid CHR ''1'')), ObligationStatusChangedV1 \<lparr>ev_eventId =
     eb_row CHR ''4'' 2, ev_occurredAt = 1000, ev_correlationId = ''corr'', ev_actor = Some (eb_who ''amal''),
     ev_aggregateId = eb_uuid CHR ''1'', ev_revision = Suc (Suc (Suc (Suc 0)))\<rparr> AWAITING_PAYMENT PAID
     (Money_toWire (eb_money 250000)) (Money_toWire (eb_money 0))]\<rparr>"

lemma eb_late4_db:
  "snd (submitAttempt eb_sha (eb_rq ''amal'' CREATE_PERMISSION CHR ''4'' eb_late3) (eb_uuid CHR ''1'') (Some (JString (eb_key CHR ''h'')))
     (JObject [eb_revision 2, (''providerReference'', JString ''abcd-1234'')]) eb_late3) = eb_late4"
  by (simp add: eb_eval eb_inputs eb_late4_def eb_late3_def eb_late2_def eb_cash1_def)

section \<open>Histories\<close>

lemma history_start: "billing_history sha parse_date [empty_billing_db]"
  by (simp add: billing_history_def)

lemma history_extend:
  assumes "commands sha parse_date rq db db'" and "billing_history sha parse_date (db # past)"
    and "bq_seen rq \<in> set (db # past)"
  shows "billing_history sha parse_date (db' # db # past)"
  using assms(2) billing_step.intros [OF assms(3,1)] unfolding billing_history_def by (rule rtranclp.rtrancl_into_rtrancl)

lemma eb_valid [simp]: "valid_quotes eb_quotes" "0 \<le> n \<Longrightarrow> n < 1000000000000000000 \<Longrightarrow> valid_notification (eb_transfer n)"
  by (simp_all add: valid_quotes_def eb_quotes_def eb_transfer_def)

lemma eb_cash1_history: "billing_history eb_sha eb_date [eb_cash1, empty_billing_db]"
  by (rule history_extend [OF _ history_start], subst eb_cash1_db [symmetric], rule commands.intros(1)) simp_all

lemma eb_cash2_history: "billing_history eb_sha eb_date [eb_cash2, eb_cash1, empty_billing_db]"
  by (rule history_extend [OF _ eb_cash1_history], subst eb_cash2_db [symmetric], rule commands.intros(2)) simp_all

lemma eb_cash3_history: "billing_history eb_sha eb_date [eb_cash3, eb_cash2, eb_cash1, empty_billing_db]"
  by (rule history_extend [OF _ eb_cash2_history], subst eb_cash3_db [symmetric], rule commands.intros(16)) simp_all

lemma eb_cash4_history: "billing_history eb_sha eb_date [eb_cash4, eb_cash3, eb_cash2, eb_cash1, empty_billing_db]"
  by (rule history_extend [OF _ eb_cash3_history], subst eb_cash4_db [symmetric], rule commands.intros(18)) simp_all

lemma eb_cash5_history: "billing_history eb_sha eb_date [eb_cash5, eb_cash4, eb_cash3, eb_cash2, eb_cash1, empty_billing_db]"
  by (rule history_extend [OF _ eb_cash4_history], subst eb_cash5_db [symmetric], rule commands.intros(20)) simp_all

lemma eb_credit1_history: "billing_history eb_sha eb_date [eb_credit1, empty_billing_db]"
  by (rule history_extend [OF _ history_start], subst eb_credit1_db [symmetric], rule commands.intros(10)) simp_all

lemma eb_credit2_history: "billing_history eb_sha eb_date [eb_credit2, eb_credit1, empty_billing_db]"
  by (rule history_extend [OF _ eb_credit1_history], subst eb_credit2_db [symmetric], rule commands.intros(12)) simp_all

lemma eb_credit3_history: "billing_history eb_sha eb_date [eb_credit3, eb_credit2, eb_credit1, empty_billing_db]"
  by (rule history_extend [OF _ eb_credit2_history], subst eb_credit3_db [symmetric], rule commands.intros(13)) simp_all

lemma eb_late2_history: "billing_history eb_sha eb_date [eb_late2, eb_cash1, empty_billing_db]"
  by (rule history_extend [OF _ eb_cash1_history], subst eb_late2_db [symmetric], rule commands.intros(2)) simp_all

lemma eb_late3_history: "billing_history eb_sha eb_date [eb_late3, eb_late2, eb_cash1, empty_billing_db]"
  by (rule history_extend [OF _ eb_late2_history], subst eb_late3_db [symmetric], rule commands.intros(10)) simp_all

lemma eb_late4_history: "billing_history eb_sha eb_date [eb_late4, eb_late3, eb_late2, eb_cash1, empty_billing_db]"
  by (rule history_extend [OF _ eb_late3_history], subst eb_late4_db [symmetric], rule commands.intros(3)) simp_all

end
