(* ===== verification/Billing_Late_Claims.thy ===== *)
theory Billing_Late_Claims
  imports Billing_System
begin

text \<open>
  Billing, a claim whose credit has already arrived (\<^verbatim>\<open>submitAttempt\<close> of
  \<^verbatim>\<open>application/billing.service.ts\<close> with \<^verbatim>\<open>confirm\<close> of \<^verbatim>\<open>application/credit-settlement.ts\<close>):
  what the transaction publishes. The lemmas follow the outbox through the two places that report
  the obligation's status, the settlement and the end of the command.
\<close>

section \<open>Statements that publish nothing\<close>

lemma silent_statements:
  "insertAttempt a db = Inr db' \<Longrightarrow> b_outbox db' = b_outbox db"
  "setIntentStatus i was becomes at db = Inr db' \<Longrightarrow> b_outbox db' = b_outbox db"
  "updateObligation i n v obst at db = Inr db' \<Longrightarrow> b_outbox db' = b_outbox db"
  "reconcileAttempt_row i st st' at who observed cr db = Inr db' \<Longrightarrow> b_outbox db' = b_outbox db"
  "post plan meta db = Inr db' \<Longrightarrow> b_outbox db' = b_outbox db"
  "updateCredit i n c db = Inr db' \<Longrightarrow> b_outbox db' = b_outbox db"
  "appendAudit_row au db = Inr db' \<Longrightarrow> b_outbox db' = b_outbox db"
  by (auto simp: insertAttempt_def setIntentStatus_def updateObligation_def reconcileAttempt_row_def
      post_def postJournal_def updateCredit_def appendAudit_row_def)

lemma appendOutbox_event: "appendOutbox e db = Inr db' \<Longrightarrow> b_outbox db' = b_outbox db @ [e]"
  by (auto simp: appendOutbox_def)

text \<open>A snapshot reads the financial tables only.\<close>

lemma snapshot_core:
  assumes "same_core db' db"
  shows "snapshot_of db' i = snapshot_of db i"
proof -
  have eqs: "b_obligations db' = b_obligations db" "b_credits db' = b_credits db" "b_refunds db' = b_refunds db"
    "b_intents db' = b_intents db" "b_attempts db' = b_attempts db" "b_receipts db' = b_receipts db"
    using assms by (simp_all add: same_core_def)
  show ?thesis unfolding snapshot_of_def lockObligation_def refunded_sum_def eqs ..
qed

lemma obligationChanged_event:
  assumes "obligationChanged rq n actor before after db = Inr db'"
    and "snapshotFinancialStatus before \<noteq> snapshotFinancialStatus after"
  obtains due where "shown_outstanding (sn_obligation after) = Inr due"
    "b_outbox db' = b_outbox db @ [ObligationStatusChangedV1
       (event_context_of rq n actor (ob_id (sn_obligation after)) (ob_revision (sn_obligation after)))
       (snapshotFinancialStatus before) (snapshotFinancialStatus after)
       (Money_toWire (ob_verified (sn_obligation after))) due]"
  using assms by (auto simp: obligationChanged_def Let_def dest: appendOutbox_event)

section \<open>The settlement\<close>

lemma settle_claim_events:
  assumes tx: "settle_claim rq actor c a sn db = Inr (after, db')"
    and row: "sn_obligation sn \<in> set (b_obligations db)" "distinct (map ob_id (b_obligations db))"
  obtains db5 v where "b_outbox db5 = b_outbox db" "obligationChanged rq 13 actor sn after db5 = Inr db'"
    "snapshot_of db' (ob_id (sn_obligation sn)) = Inr (Some after)"
    "b_credits db' = b_credits db" "b_refunds db' = b_refunds db" "b_receipts db' = b_receipts db"
    "b_obligations db' = set_row ob_id (sn_obligation sn)
       (changed_obligation v SETTLED (bq_now rq) (sn_obligation sn)) (b_obligations db)"
proof -
  from tx obtain it where it: "sn_activeIntent sn = Some it"
    by (cases "sn_activeIntent sn") (auto simp: settle_claim_def)
  let ?ob = "sn_obligation sn"
  from tx it obtain db1 db2 db3 v db4 db5 where
    s: "reconcileAttempt_row (at_id a) (at_status a) MATCHED (bq_now rq) actor (Some (cr_amount c))
          (Some (cr_id c)) db = Inr db1"
      "setIntentStatus (it_id it) (it_status it) SUCCEEDED (bq_now rq) db1 = Inr db2"
      "post (creditAllocatedJournal (cr_id c) (cr_amount c))
          (meta_of rq 11 (Some (ob_id ?ob)) None (Some (cr_id c))) db2 = Inr db3"
      "updateObligation (ob_id ?ob) (ob_revision ?ob) v SETTLED (bq_now rq) db3 = Inr db4"
    and after: "snapshot_of db4 (ob_id ?ob) = Inr (Some after)"
    and au: "appendAudit_row ((audit_row rq 12 (auditActor actor (cr_provider c))
               ''billing.credit.allocated'' (Some (ob_id ?ob)) (Some (at_id a)) ''MATCHED'')
               \<lparr>au_creditId := Some (cr_id c)\<rparr>) db4 = Inr db5"
    and ev: "obligationChanged rq 13 actor sn after db5 = Inr db'"
    by (auto simp: settle_claim_def Let_def some_snapshot_Inr)
  have core: "same_core db' db4"
    using appendAudit_row_Inr [OF au] obligationChanged_Inr [OF ev] by (rule same_core_trans [rotated])
  have "b_outbox db5 = b_outbox db"
    using silent_statements(4) [OF s(1)] silent_statements(2) [OF s(2)] silent_statements(5) [OF s(3)]
      silent_statements(3) [OF s(4)] silent_statements(7) [OF au] by simp
  moreover have "b_credits db4 = b_credits db \<and> b_refunds db4 = b_refunds db \<and> b_receipts db4 = b_receipts db"
    using s by (auto simp: reconcileAttempt_row_def setIntentStatus_def post_def postJournal_def updateObligation_def)
  moreover have "b_obligations db3 = b_obligations db"
    using s(1-3) by (auto simp: reconcileAttempt_row_def setIntentStatus_def post_def postJournal_def)
  with updateObligation_Inr [OF s(4)] row
  have "b_obligations db4 = set_row ob_id ?ob (changed_obligation v SETTLED (bq_now rq) ?ob) (b_obligations db)"
    by simp
  ultimately show thesis
    using that [OF _ ev] after snapshot_core [OF core] core by (simp add: same_core_def)
qed

text \<open>
  \<open>confirm\<close> of a waiting credit: it changes no obligation, or it settles the claim's.
\<close>

lemma confirm_waiting:
  assumes tx: "confirm rq actor c previous db = Inr ((c', after), db')" and prev: "previous = Some c"
    and st: "cr_status c = UNALLOCATED"
  obtains (left) "b_obligations db' = b_obligations db"
  | (settled) i sn aft a db1 db2 where "snapshot_of db i = Inr (Some sn)" "ob_status (sn_obligation sn) = OPEN"
      "\<exists>it. sn_activeIntent sn = Some it \<and> it_status it = UNDER_REVIEW"
      "reserved_sum (cr_id c) (b_refunds db) = 0"
      "updateCredit (cr_id c) (cr_revision c) (allocated_credit rq c (Some c) a (sn_obligation sn)) db = Inr db1"
      "settle_claim rq actor (allocated_credit rq c (Some c) a (sn_obligation sn)) a sn db1 = Inr (aft, db2)"
      "appendOutbox (creditEvent rq 14 actor (Some (cr_status c))
         (allocated_credit rq c (Some c) a (sn_obligation sn))) db2 = Inr db'"
proof -
  define claim where "claim = claimFor db (cr_provider c) (cr_reference c)"
  define obl where "obl = (case claim of None \<Rightarrow> None | Some (_, i) \<Rightarrow> lockObligation db i)"
  note tx0 = tx [unfolded confirm_def Let_def, folded claim_def, folded obl_def]
  from tx0 obtain before where b: "(case obl of None \<Rightarrow> Inr None | Some ob \<Rightarrow> snapshot_of db (ob_id ob)) = Inr before"
    by (auto simp only: andThen_Inr)
  define att where "att = (case (claim, before) of (Some (i, _), Some sn) \<Rightarrow> find (\<lambda>a. at_id a = i) (sn_attempts sn) | _ \<Rightarrow> None)"
  note tx1 = tx0 [unfolded b andThen_simps, folded att_def]
  from tx1 obtain u where duties: "(case (obl, before) of
         (Some ob, Some _) \<Rightarrow> if map_option pr_subject actor = Some (pr_subject (ob_owner ob)) \<or>
              cr_recordedBy c = Some (pr_subject (ob_owner ob))
            then app_error ''SEPARATION_OF_DUTIES'' else Inr ()
       | _ \<Rightarrow> Inr ()) = Inr u"
    by (auto simp only: andThen_Inr)
  from tx1 obtain reserved where
    r: "(case previous of None \<Rightarrow> Inr None | Some p \<Rightarrow> andThen (reservedForRefund db p) (\<lambda>m. Inr (Some m))) = Inr reserved"
    by (auto simp only: andThen_Inr)
  note tx2 = tx1 [unfolded duties r andThen_simps]
  from tx2 obtain plan where
    plan: "planCreditAllocation (cr_amount c) reserved att (map_option sn_obligation before)
                  (case before of None \<Rightarrow> None | Some sn \<Rightarrow> sn_activeIntent sn) = Inr plan"
    by (auto simp only: andThen_Inr)
  note rest = tx2 [unfolded plan andThen_simps]
  show thesis
  proof (cases plan)
    case (LEAVE reason)
    with rest st prev have "db' = db" by auto
    then show thesis by (intro left) simp
  next
    case (ALLOCATE received)
    from plan [unfolded ALLOCATE] obtain a ob it where al: "att = Some a" "map_option sn_obligation before = Some ob"
        "(case before of None \<Rightarrow> None | Some sn \<Rightarrow> sn_activeIntent sn) = Some it" "ob_status ob = OPEN"
        "it_status it = UNDER_REVIEW" "case reserved of None \<Rightarrow> True | Some r \<Rightarrow> mo_amountMinor r = 0"
      by (rule planCreditAllocation_ALLOCATE) blast
    then obtain sn where sn: "before = Some sn" "sn_obligation sn = ob" "sn_activeIntent sn = Some it"
      by (cases before) auto
    from b sn(1) obtain x where "obl = Some x" by (cases obl) auto
    with b sn(1) have x: "snapshot_of db (ob_id x) = Inr (Some sn)" by simp
    have "reserved_sum (cr_id c) (b_refunds db) = 0" using r al(6) prev by (auto simp: reservedForRefund_def)
    moreover from rest ALLOCATE al(1) sn(1) obtain db1 aft db2 where
        "updateCredit (cr_id c) (cr_revision c) (allocated_credit rq c (Some c) a (sn_obligation sn)) db = Inr db1"
        "settle_claim rq actor (allocated_credit rq c (Some c) a (sn_obligation sn)) a sn db1 = Inr (aft, db2)"
        "appendOutbox (creditEvent rq 14 actor (Some (cr_status c))
           (allocated_credit rq c (Some c) a (sn_obligation sn))) db2 = Inr db'"
      using st prev by (auto simp: store_credit_def CONFIRMED_CREDIT_STATUSES_def)
    ultimately show thesis using settled [OF x] al(4,5) sn by blast
  qed
qed

section \<open>The settled obligation's status\<close>

lemma funding_none:
  assumes "fundings i res crs = 0"
  shows "find (\<lambda>r. re_obligationId r = i \<and> active_receipt r) res = None"
    and "c \<in> set crs \<Longrightarrow> \<not> (cr_status c = ALLOCATED \<and> cr_obligationId c = Some i)"
  using assms by (auto simp: fundings_def find_None_iff filter_empty_conv)

text \<open>
  The obligation of a snapshot taken right after the settlement: it is paid, and nothing of it was
  refunded.
\<close>

lemma settled_status:
  assumes bk: "books db" and ob: "ob \<in> set (b_obligations db)" "ob_id ob = i" "ob_status ob = OPEN"
    and c: "c \<in> set (b_credits db)" "reserved_sum (cr_id c) (b_refunds db) = 0"
    and crs: "b_credits db' = set_row cr_id c c' (b_credits db)" "cr_id c' = cr_id c"
    and same: "b_refunds db' = b_refunds db" "b_receipts db' = b_receipts db"
    and sn: "snapshot_of db' i = Inr (Some aft)" "ob_status (sn_obligation aft) = SETTLED"
  shows "snapshotFinancialStatus aft = PAID"
proof -
  have "fundings i (b_receipts db) (b_credits db) = 0"
    using bk ob by (auto simp: books_def funding_ok_def)
  note none = funding_none [OF this]
  have cash: "sn_cashReceipt aft = None"
    using sn(1) none(1) same(2) by (auto simp: snapshot_of_def split: option.splits)
  have "0 \<le> refunded_sum (cr_id c) db'" "refunded_sum (cr_id c) db' \<le> reserved_sum (cr_id c) (b_refunds db)"
    unfolding refunded_sum_def reserved_sum_def same(1) using bk
    by (auto simp: books_def refunds_ok_def reserving_def RESERVING_REFUND_STATUSES_def
        intro!: sum_rows_nonneg sum_rows_mono)
  then have zero: "refunded_sum (cr_id c) db' = 0" using c(2) by simp
  have "refunded_sum (cr_id x) db' = 0"
    if "find (\<lambda>c. cr_obligationId c = Some i \<and> cr_status c = ALLOCATED) (b_credits db') = Some x" for x
  proof -
    from that have x: "x \<in> set (b_credits db')" "cr_obligationId x = Some i" "cr_status x = ALLOCATED"
      by (auto simp: find_Some_iff)
    then have "x = c'" using none(2) crs(1) by (auto simp: set_row_def set_update_rows split: if_splits)
    with zero crs(2) show ?thesis by simp
  qed
  then have "case sn_refunded aft of None \<Rightarrow> True | Some m \<Rightarrow> mo_amountMinor m = 0"
    using sn(1) by (auto simp: snapshot_of_def split: option.splits)
  with cash sn(2) show ?thesis
    by (auto simp: snapshotFinancialStatus_def financialStatus_def Money_isZero_def split: option.splits)
qed

section \<open>The command\<close>

lemma obligation_row:
  "distinct (map ob_id (b_obligations db)) \<Longrightarrow> ob \<in> set (b_obligations db) \<Longrightarrow> ob_id ob = i \<Longrightarrow>
   snapshot_of db i = Inr (Some sn) \<Longrightarrow> sn_obligation sn = ob"
  using snapshot_of_Inr(1,2) [of db i sn] by (metis distinct_key_eq)

text \<open>
  A submission after which the obligation is settled has settled it itself, with the credit that
  waited; its outbox rows are the settlement's, the credit's and the command's.
\<close>

lemma late_claim_events:
  assumes bk: "books db" and tx0: "submitAttempt_tx rq owner i n ref db = Inr (res, db')"
    and fin: "ob' \<in> set (b_obligations db')" "ob_id ob' = i" "ob_status ob' = SETTLED"
  obtains middle due c where
    "b_outbox db' = b_outbox db @
       [ObligationStatusChangedV1 (event_context_of rq 13 None i (ob_revision ob'))
          middle PAID (Money_toWire (ob_verified ob')) due,
        creditEvent rq 14 None (Some UNALLOCATED) c,
        ObligationStatusChangedV1 (event_context_of rq 2 (Some owner) i (ob_revision ob'))
          AWAITING_PAYMENT PAID (Money_toWire (ob_verified ob')) due]"
    "middle \<in> {FS_UNDER_REVIEW, OUTCOME_UNKNOWN}" "shown_outstanding ob' = Inr due"
    "cr_status c = ALLOCATED" "cr_obligationId c = Some i"
proof -
  note keys = books_keys [OF bk]
  note tx = tx0 [unfolded submitAttempt_tx_def Let_def]
  from tx obtain sn where l: "locked db i n (is_owner owner) = Inr sn" by auto
  note sn = snapshot_of_Inr [OF locked_Inr(1) [OF l]]
  let ?ob = "sn_obligation sn"
  from tx l have "planAttemptSubmission ?ob (sn_activeIntent sn) (countAttempts db i) = Inr ()" by auto
  then obtain it where it: "sn_activeIntent sn = Some it" "it_status it = AWAITING_CUSTOMER_PAYMENT"
    and op: "ob_status ?ob = OPEN"
    by (auto simp: planAttemptSubmission_Inr)
  let ?a = "\<lparr>at_id = bq_ids rq 0, at_intentId = it_id it, at_status = PENDING_REVIEW,
                 at_claimed = it_amount it, at_obligationId = i, at_method = it_method it,
                 at_providerReference = ref, at_submittedAt = bq_now rq, at_reconciledAt = None,
                 at_reconciledBy = None, at_observed = None, at_creditId = None\<rparr>"
  from tx l it obtain db1 db2 db3 where s1: "insertAttempt ?a db = Inr db1"
    and s2: "setIntentStatus (it_id it) (it_status it) UNDER_REVIEW (bq_now rq) db1 = Inr db2"
    and s3: "updateObligation i n (ob_verified ?ob) (ob_status ?ob) (bq_now rq) db2 = Inr db3"
    by (auto split: if_splits)
  define cr where "cr = (case unallocatedCreditFor db3 (it_method it) ref of
      None \<Rightarrow> None | Some waiting \<Rightarrow> lockCredit db3 (cr_id waiting))"
  from tx l it s1 s2 s3 obtain u db4 where
    s4: "(case cr of None \<Rightarrow> Inr ((), db3)
          | Some c \<Rightarrow> if cr_status c = UNALLOCATED
              then bindS (confirm rq None c (Some c) db3) (\<lambda>_ db4. Inr ((), db4)) else Inr ((), db3)) = Inr (u, db4)"
    and s5: "finish_command rq owner sn ''billing.attempt.submitted'' ''PENDING_REVIEW'' (Some (bq_ids rq 0)) 202 db4
          = Inr (res, db')"
    by (auto simp: cr_def split: if_split_asm)
  have same3: "b_credits db3 = b_credits db" "b_refunds db3 = b_refunds db" "b_receipts db3 = b_receipts db"
      "b_obligations db2 = b_obligations db"
    using s1 s2 s3 by (auto simp: insertAttempt_def setIntentStatus_def updateObligation_def)
  have out3: "b_outbox db3 = b_outbox db"
    using silent_statements(1) [OF s1] silent_statements(2) [OF s2] silent_statements(3) [OF s3] by simp
  let ?ob3 = "changed_obligation (ob_verified ?ob) (ob_status ?ob) (bq_now rq) ?ob"
  have ob3: "b_obligations db3 = set_row ob_id ?ob ?ob3 (b_obligations db)"
    using updateObligation_Inr [of ?ob n _ _ _ db2 db3, unfolded sn(2), OF s3] sn(1) keys(1) same3(4) by simp
  have d3: "distinct (map ob_id (b_obligations db3))"
    using keys(1) unfolding ob3 by (intro set_row_distinct) (simp_all add: changed_obligation_def)
  have row3: "x = ?ob3" if "x \<in> set (b_obligations db3)" "ob_id x = i" for x
    using that sn(2) by (auto simp: ob3 set_row_def set_update_rows split: if_splits)
  have st3: "ob_status ?ob3 = OPEN" by (simp add: changed_obligation_def op)
  have core4: "same_core db' db4" using finish_command_Inr [OF s5] .
  then have fin4: "ob' \<in> set (b_obligations db4)" using fin(1) by (simp add: same_core_def)
  have "b_obligations db4 \<noteq> b_obligations db3" using row3 [of ob'] st3 fin fin4 by auto
  with s4 obtain c r where c: "cr = Some c" "cr_status c = UNALLOCATED"
      "confirm rq None c (Some c) db3 = Inr (r, db4)"
    by (auto split: option.splits if_splits)
  obtain c' after where r: "r = (c', after)" by (cases r)
  show thesis
    using c(3) [unfolded r] refl c(2)
  proof (cases rule: confirm_waiting)
    case left
    with \<open>b_obligations db4 \<noteq> b_obligations db3\<close> show thesis by simp
  next
    case (settled j sn3 aft a db5 db6)
    let ?c = "allocated_credit rq c (Some c) a (sn_obligation sn3)"
    note s3n = snapshot_of_Inr [OF settled(1)]
    have "c \<in> set (b_credits db)"
      using c(1) same3(1) by (auto simp: cr_def lockCredit_def split: option.splits dest: find_row_Some)
    with updateCredit_Inr [OF settled(5)] keys(5) same3(1)
    have crs5: "db5 = db3\<lparr>b_credits := set_row cr_id c (creditData ?c c) (b_credits db)\<rparr>" by simp
    have on5: "sn_obligation sn3 \<in> set (b_obligations db5)" "distinct (map ob_id (b_obligations db5))"
      using s3n(1) d3 crs5 by simp_all
    obtain db7 v where cl: "b_outbox db7 = b_outbox db5" "obligationChanged rq 13 None sn3 aft db7 = Inr db6"
        "snapshot_of db6 (ob_id (sn_obligation sn3)) = Inr (Some aft)"
        "b_credits db6 = b_credits db5" "b_refunds db6 = b_refunds db5" "b_receipts db6 = b_receipts db5"
        "b_obligations db6 = set_row ob_id (sn_obligation sn3)
           (changed_obligation v SETTLED (bq_now rq) (sn_obligation sn3)) (b_obligations db5)"
      by (rule settle_claim_events [OF settled(6) on5])
    have core6: "same_core db' db6"
      using core4 appendOutbox_Inr [OF settled(7)] by (rule same_core_trans)
    let ?ob6 = "changed_obligation v SETTLED (bq_now rq) (sn_obligation sn3)"
    have row6: "x = ?ob6 \<or> x \<in> set (b_obligations db3) \<and> ob_id x \<noteq> ob_id (sn_obligation sn3)"
      if "x \<in> set (b_obligations db6)" for x
      using that by (auto simp: cl(7) crs5 set_row_def set_update_rows split: if_splits)
    have aft6: "sn_obligation aft = ?ob6" using row6 snapshot_of_Inr(1,2) [OF cl(3)] by blast
    have fin6: "ob' \<in> set (b_obligations db6)" using fin(1) core6 by (simp add: same_core_def)
    moreover have "ob' \<notin> set (b_obligations db3)"
    proof
      assume "ob' \<in> set (b_obligations db3)"
      then have "ob' = ?ob3" using row3 fin(2) by blast
      with st3 fin(3) show False by simp
    qed
    ultimately have ob': "ob' = ?ob6" using row6 by blast
    then have i: "ob_id (sn_obligation sn3) = i" using fin(2) by (simp add: changed_obligation_def)
    have paid: "snapshotFinancialStatus aft = PAID"
    proof (rule settled_status [OF bk sn(1,2) op \<open>c \<in> set (b_credits db)\<close>,
        where c' = "creditData ?c c"])
      show "reserved_sum (cr_id c) (b_refunds db) = 0" using settled(4) same3(2) by simp
      show "snapshot_of db6 i = Inr (Some aft)" using cl(3) i by simp
      show "ob_status (sn_obligation aft) = SETTLED" using aft6 ob' fin(3) by simp
    qed (use cl(4-6) crs5 same3 in simp_all)
    have before: "snapshotFinancialStatus sn = AWAITING_PAYMENT"
      using it op by (simp add: snapshotFinancialStatus_def financialStatus_def)
    have middle: "snapshotFinancialStatus sn3 \<in> {FS_UNDER_REVIEW, OUTCOME_UNKNOWN}"
      using settled(2,3) by (auto simp: snapshotFinancialStatus_def financialStatus_def)
    obtain due where due: "shown_outstanding (sn_obligation aft) = Inr due"
      and e1: "b_outbox db6 = b_outbox db7 @ [ObligationStatusChangedV1
         (event_context_of rq 13 None (ob_id (sn_obligation aft)) (ob_revision (sn_obligation aft)))
         (snapshotFinancialStatus sn3) (snapshotFinancialStatus aft) (Money_toWire (ob_verified (sn_obligation aft))) due]"
      by (rule obligationChanged_event [OF cl(2)]) (use middle paid in auto)
    have ids: "ob_id (sn_obligation aft) = i" using aft6 ob' fin(2) by simp
    from s5 obtain aft' db8 where f: "snapshot_of db4 i = Inr (Some aft')" "b_outbox db8 = b_outbox db4"
        "obligationChanged rq 2 (Some owner) sn aft' db8 = Inr db'"
      using sn(2) by (auto simp: finish_command_def Let_def some_snapshot_Inr dest: silent_statements(7))
    have "aft' = aft"
      using f(1) cl(3) snapshot_core [OF appendOutbox_Inr [OF settled(7)], of i] i by simp
    with before paid have moved: "snapshotFinancialStatus sn \<noteq> snapshotFinancialStatus aft'" by simp
    from obligationChanged_event [OF f(3) this] \<open>aft' = aft\<close> due
    have e2: "b_outbox db' = b_outbox db8 @ [ObligationStatusChangedV1
         (event_context_of rq 2 (Some owner) (ob_id (sn_obligation aft)) (ob_revision (sn_obligation aft)))
         (snapshotFinancialStatus sn) (snapshotFinancialStatus aft) (Money_toWire (ob_verified (sn_obligation aft))) due]"
      by auto
    have out: "b_outbox db4 = b_outbox db6 @ [creditEvent rq 14 None (Some UNALLOCATED) ?c]"
      using appendOutbox_event [OF settled(7)] c(2) by simp
    have after: "sn_obligation aft = ob'" using aft6 ob' by simp
    show thesis
    proof (rule that [where middle = "snapshotFinancialStatus sn3" and due = due and c = ?c])
      show "b_outbox db' = b_outbox db @
         [ObligationStatusChangedV1 (event_context_of rq 13 None i (ob_revision ob'))
            (snapshotFinancialStatus sn3) PAID (Money_toWire (ob_verified ob')) due,
          creditEvent rq 14 None (Some UNALLOCATED) ?c,
          ObligationStatusChangedV1 (event_context_of rq 2 (Some owner) i (ob_revision ob'))
            AWAITING_PAYMENT PAID (Money_toWire (ob_verified ob')) due]"
        using e2 f(2) out e1 cl(1) crs5 out3 before paid fin(2) unfolding after by simp
      show "shown_outstanding ob' = Inr due" using due unfolding after .
    qed (use middle i in \<open>simp_all add: allocated_credit_def\<close>)
  qed
qed

text \<open>The command either changes nothing or commits its transaction and records its answer.\<close>

lemma submitAttempt_ran:
  "snd (submitAttempt sha rq i key body db) = db \<or>
   (\<exists>owner n ref res db1 r. submitAttempt_tx rq owner i n ref db = Inr (res, db1) \<and>
      saveReceipt r db1 = Inr (snd (submitAttempt sha rq i key body db)))" (is "?ran (submitAttempt sha rq i key body db)")
proof -
  have run: "?ran (translating sg code (execute rq cmd (submitAttempt_tx rq owner i n ref) db))"
    for sg code cmd owner n ref
  proof -
    have "snd (translating sg code x) = snd x" for x :: answer_db
      by (cases x; cases "fst x") (auto simp: translating_def split: billing_error.splits)
    with execute_snd [of rq cmd "submitAttempt_tx rq owner i n ref" db] show ?thesis by auto
  qed
  have check: "?ran (checked m db f)" if "\<And>x. m = Inr x \<Longrightarrow> ?ran (f x)" for m :: "billing_error + 'x" and f
    using that by (cases m) (simp_all add: checked_def)
  have opt: "?ran (case m of None \<Rightarrow> (e, db) | Some x \<Rightarrow> f x)" if "\<And>x. ?ran (f x)" for m :: "'x option" and e f
    using that by (cases m) simp_all
  have "j = i" if "target_id i = Inr j" for j using that by (simp add: target_id_def split: if_splits)
  with run have "?ran (translating sg code (execute rq cmd (submitAttempt_tx rq owner j n ref) db))"
    if "target_id i = Inr j" for sg code cmd owner j n ref using that by blast
  then show ?thesis
    unfolding submitAttempt_def Let_def by (intro check opt)
qed

end
