(* ===== verification/Billing_Properties.thy ===== *)
theory Billing_Properties
  imports Billing_Examples Billing_Late_Claims
begin

text \<open>
  Billing, what holds of every database of every history of the service: whatever commands ran,
  whatever they read before their transactions, whichever were refused. The ledger agrees with
  the rows, every settled obligation was funded once, refunds stay within their credits, the
  duties are separated, a repeated command answers what it answered before, every stored amount is
  money that no read can fail on. Then the journal check, the wire form of money, and the events
  of a claim that was settled at once because its credit had already arrived.
\<close>

section \<open>The parts of the invariant\<close>

lemma books_parts:
  assumes "books db"
  shows "obligations_ok (b_obligations db)" and "receivable_ok (b_obligations db) (b_journals db)"
    and "custody_ok (b_receipts db) (b_journals db)" and "refunds_ok (b_credits db) (b_refunds db)"
    and "unallocated_ok (b_credits db) (b_refunds db) (b_journals db)"
    and "funding_ok (b_obligations db) (b_receipts db) (b_credits db)"
    and "intents_ok (b_intents db) (b_receipts db)" and "handovers_ok (b_handovers db) (b_items db) (b_receipts db)"
    and "treasury_ok (b_handovers db) (b_journals db)" and "journals_ok (b_journals db)"
    and "duties_ok (b_handovers db) (b_credits db) (b_refunds db)"
    and "distinct (map receipt_key (b_idempotency db))" and "receipts_ok (b_receipts db)"
    and "credits_ok (b_credits db)"
  using assms by (simp_all add: books_def)

lemmas history_parts = books_parts [OF history_books]

text \<open>An effective receipt belongs to a settled obligation.\<close>

lemma receipt_settled:
  assumes "funding_ok obs res crs" and "r \<in> set res" and "active_receipt r"
    and "ob \<in> set obs" and "ob_id ob = re_obligationId r"
  shows "ob_status ob = SETTLED"
proof (rule ccontr)
  assume "ob_status ob \<noteq> SETTLED"
  with assms(1,4) have "fundings (ob_id ob) res crs = 0" by (simp add: funding_ok_def)
  then have "filter (\<lambda>r. active_receipt r \<and> re_obligationId r = ob_id ob) res = []" by (simp add: fundings_def)
  with assms(2,3,5) show False by (auto simp: filter_empty_conv)
qed

lemma books_report:
  assumes "books db"
  shows "report_consistent (reconciliationReport now db)"
proof -
  have "ledger_balance db CASH_IN_CUSTODY c (Some h) = receipts_in_custody db h c" for c h
    using books_parts(3) [OF assms] by (simp add: custody_ok_def ledger_balance_eq receipts_in_custody_def)
  moreover have "\<not> (active_receipt r \<and>
      list_ex (\<lambda>ob. ob_id ob = re_obligationId r \<and> ob_status ob \<noteq> SETTLED) (b_obligations db))"
    if "r \<in> set (b_receipts db)" for r
    using receipt_settled [OF books_parts(6) [OF assms] that] by (auto simp: list_ex_iff)
  moreover have "\<not> (it_method it = CASH_ON_COMPLETION \<and> it_status it = SUCCEEDED \<and>
      \<not> list_ex (\<lambda>r. re_intentId r = it_id it \<and> active_receipt r) (b_receipts db))"
    if "it \<in> set (b_intents db)" for it
    using books_parts(7) [OF assms] that by (auto simp: intents_ok_def cash_success_def list_ex_iff)
  ultimately show ?thesis
    by (simp add: report_consistent_def reconciliationReport_def Let_def filter_empty_conv case_prod_beta del: list_ex_iff)
qed

text \<open>The accepted texts of an amount are the printed ones.\<close>

lemma amount_text_canonical: "AMOUNT_text s \<Longrightarrow> show_int (parse_int s) = s"
  unfolding AMOUNT_text_def
proof (elim disjE)
  assume "s = ''0''"
  moreover have "show_int 0 = ''0''"
    using digit_char_simps(3) [of 0] by (simp add: show_int_def show_nat.simps)
  ultimately show ?thesis by (metis parse_int_show_int)
next
  assume d: "positive_digits 18 s"
  then obtain c t where s: "s = c # t" by (cases s) (auto simp: positive_digits_def)
  with d have "c \<noteq> CHR ''-''" by (auto simp: positive_digits_def is_digit_def in_range_def)
  with s have "parse_int s = int (parse_nat s)" by simp
  with show_nat_parse_nat [OF d] show ?thesis by (simp add: show_int_def)
qed

section \<open>The ledger and the rows\<close>

text \<open>
  C28. On every database of every history, the balance of the customers' account is the sum of
  the obligations that are still open, in each currency: billing, settling, reversing and voiding
  always move both together.
\<close>

theorem receivable_is_what_is_open:
  assumes "billing_history sha parse_date h" and "db \<in> set h"
  shows "ledger_balance db CUSTOMER_RECEIVABLE c None =
     (\<Sum>ob \<leftarrow> filter (\<lambda>ob. ob_status ob = OPEN \<and> mo_currency (ob_amount ob) = c) (b_obligations db).
        mo_amountMinor (ob_amount ob))"
  using history_parts(2) [OF assms]
  by (simp add: receivable_ok_def ledger_balance_eq sum_rows_def open_in_def [abs_def])

theorem receivable_is_what_is_open_witness:
  "billing_history eb_sha eb_date [eb_cash2, eb_cash1, empty_billing_db] \<and>
   ledger_balance eb_cash2 CUSTOMER_RECEIVABLE ''SYP'' None = 250000"
  using receivable_is_what_is_open [OF eb_cash2_history, of eb_cash2 "''SYP''"] eb_cash2_history
  by (simp add: eb_cash2_def)

text \<open>
  C29. On every database of every history, an obligation has exactly one effective payment when it
  is settled and none otherwise, counting cash receipts that were not reversed and allocated
  provider credits together; every receipt and every allocated credit has exactly the amount of
  its obligation, and what the obligation shows as verified is its whole amount or nothing.
\<close>

theorem settled_exactly_once:
  assumes "billing_history sha parse_date h" and "db \<in> set h" and "ob \<in> set (b_obligations db)"
  shows "length (filter (\<lambda>r. active_receipt r \<and> re_obligationId r = ob_id ob) (b_receipts db)) +
         length (filter (\<lambda>c. cr_status c = ALLOCATED \<and> cr_obligationId c = Some (ob_id ob)) (b_credits db)) =
           (if ob_status ob = SETTLED then 1 else 0) \<and>
         (\<forall>r \<in> set (b_receipts db). re_obligationId r = ob_id ob \<longrightarrow> re_amount r = ob_amount ob) \<and>
         (\<forall>c \<in> set (b_credits db). cr_status c = ALLOCATED \<and> cr_obligationId c = Some (ob_id ob) \<longrightarrow>
            cr_amount c = ob_amount ob) \<and>
         mo_amountMinor (ob_verified ob) = (if ob_status ob = SETTLED then mo_amountMinor (ob_amount ob) else 0)"
proof (intro conjI)
  note fund = history_parts(6) [OF assms(1,2)] and obs = history_parts(1) [OF assms(1,2)]
  have same: "ob' = ob" if "ob' \<in> set (b_obligations db)" "ob_id ob' = ob_id ob" for ob'
    using distinct_key_eq [of ob_id "b_obligations db"] obs that assms(3) by (auto simp: obligations_ok_def)
  show "length (filter (\<lambda>r. active_receipt r \<and> re_obligationId r = ob_id ob) (b_receipts db)) +
        length (filter (\<lambda>c. cr_status c = ALLOCATED \<and> cr_obligationId c = Some (ob_id ob)) (b_credits db)) =
          (if ob_status ob = SETTLED then 1 else 0)"
    using fund assms(3) by (simp add: funding_ok_def fundings_def)
  show "\<forall>r \<in> set (b_receipts db). re_obligationId r = ob_id ob \<longrightarrow> re_amount r = ob_amount ob"
    using fund same unfolding funding_ok_def by metis
  show "\<forall>c \<in> set (b_credits db). cr_status c = ALLOCATED \<and> cr_obligationId c = Some (ob_id ob) \<longrightarrow>
          cr_amount c = ob_amount ob"
    using fund same unfolding funding_ok_def by (metis option.inject)
  show "mo_amountMinor (ob_verified ob) = (if ob_status ob = SETTLED then mo_amountMinor (ob_amount ob) else 0)"
    using obs assms(3) by (simp add: obligations_ok_def obligation_ok_def)
qed

theorem settled_exactly_once_witness:
  "billing_history eb_sha eb_date [eb_cash3, eb_cash2, eb_cash1, empty_billing_db] \<and>
   ob_status (hd (b_obligations eb_cash3)) = SETTLED \<and>
   length (filter (\<lambda>r. active_receipt r \<and> re_obligationId r = eb_uuid CHR ''1'') (b_receipts eb_cash3)) = 1"
  using settled_exactly_once [OF eb_cash3_history, of eb_cash3 "hd (b_obligations eb_cash3)"] eb_cash3_history
  by (simp add: eb_cash3_def eb_cash2_def eb_cash1_def empty_billing_db_def)

text \<open>
  C30. On every database of every history, the refunds of a credit that were not refused or
  failed never exceed it, so neither does what was paid back; and the unallocated credits'
  account owes exactly what the providers sent for nobody yet, less what was paid back of it.
\<close>

theorem refunds_within_their_credit:
  assumes "billing_history sha parse_date h" and "db \<in> set h"
  shows "(\<forall>c \<in> set (b_credits db). refunded_sum (cr_id c) db \<le> reserved_sum (cr_id c) (b_refunds db) \<and>
            reserved_sum (cr_id c) (b_refunds db) \<le> mo_amountMinor (cr_amount c)) \<and>
         ledger_balance db PROVIDER_CREDITS_UNALLOCATED cur None =
           - (\<Sum>c \<leftarrow> filter (\<lambda>c. cr_status c = UNALLOCATED \<and> mo_currency (cr_amount c) = cur) (b_credits db).
                mo_amountMinor (cr_amount c) - refunded_sum (cr_id c) db)"
proof (intro conjI ballI)
  note refunds = history_parts(4) [OF assms]
  fix c assume c: "c \<in> set (b_credits db)"
  have "rf_status f = RF_SUCCEEDED \<Longrightarrow> reserving f" for f
    by (simp add: reserving_def RESERVING_REFUND_STATUSES_def)
  then show "refunded_sum (cr_id c) db \<le> reserved_sum (cr_id c) (b_refunds db)"
    unfolding refunded_sum_def reserved_sum_def
    using refunds by (intro sum_rows_mono) (auto simp: refunds_ok_def intro: less_imp_le)
  show "reserved_sum (cr_id c) (b_refunds db) \<le> mo_amountMinor (cr_amount c)"
    using refunds c by (simp add: refunds_ok_def)
next
  show "ledger_balance db PROVIDER_CREDITS_UNALLOCATED cur None =
     - (\<Sum>c \<leftarrow> filter (\<lambda>c. cr_status c = UNALLOCATED \<and> mo_currency (cr_amount c) = cur) (b_credits db).
          mo_amountMinor (cr_amount c) - refunded_sum (cr_id c) db)"
    using history_parts(5) [OF assms]
    by (simp add: unallocated_ok_def ledger_balance_eq sum_rows_def
        unallocated_in_def [abs_def] paid_back_def refunded_sum_def)
qed

theorem refunds_within_their_credit_witness:
  "billing_history eb_sha eb_date [eb_credit3, eb_credit2, eb_credit1, empty_billing_db] \<and>
   reserved_sum (eb_uuid CHR ''6'') (b_refunds eb_credit3) \<le> 90000 \<and>
   ledger_balance eb_credit3 PROVIDER_CREDITS_UNALLOCATED ''SYP'' None = - 90000"
proof -
  note use = refunds_within_their_credit [OF eb_credit3_history, of eb_credit3 "''SYP''"]
  have row: "hd (b_credits eb_credit3) \<in> set (b_credits eb_credit3)" "cr_id (hd (b_credits eb_credit3)) = eb_uuid CHR ''6''"
    "cr_amount (hd (b_credits eb_credit3)) = eb_money 90000"
    by (simp_all add: eb_credit3_def eb_credit2_def eb_credit1_def)
  have sums: "filter (\<lambda>c. cr_status c = UNALLOCATED \<and> mo_currency (cr_amount c) = ''SYP'') (b_credits eb_credit3) =
      [hd (b_credits eb_credit3)]" "refunded_sum (eb_uuid CHR ''6'') eb_credit3 = 0"
    by (simp_all add: eb_credit3_def eb_credit2_def eb_credit1_def refunded_sum_def)
  from use row sums eb_credit3_history show ?thesis by force
qed

text \<open>
  C31. On every database of every history, the cash accounts agree with the handovers and the
  receipts, in each currency: what a holder is debited is what their receipts in custody are
  worth; the treasury holds, unreconciled and reconciled, what was counted; a holder owes the
  shortages of their own handovers; the suspense account has the overages.
\<close>

theorem cash_accounts_agree:
  assumes "billing_history sha parse_date h" and "db \<in> set h"
  shows "ledger_balance db CASH_IN_CUSTODY c (Some k) = receipts_in_custody db k c \<and>
         ledger_balance db TREASURY_CASH_UNRECONCILED c None =
           sum_rows (\<lambda>ha. opt_amount (ha_counted ha)) (handover_in {RECEIVED} c) (b_handovers db) \<and>
         ledger_balance db TREASURY_CASH c None =
           sum_rows (\<lambda>ha. opt_amount (ha_counted ha)) (handover_in {RECONCILED} c) (b_handovers db) \<and>
         ledger_balance db CUSTODY_OVERAGE_SUSPENSE c None =
           - sum_rows (\<lambda>ha. opt_amount (ha_overage ha)) (handover_in {RECEIVED, RECONCILED} c) (b_handovers db) \<and>
         ledger_balance db CUSTODY_SHORTAGE_RECEIVABLE c (Some k) =
           sum_rows (\<lambda>ha. opt_amount (ha_shortage ha))
             (\<lambda>ha. handover_in {RECEIVED, RECONCILED} c ha \<and> ha_holder ha = k) (b_handovers db)"
  using history_parts(3,9) [OF assms]
  by (simp add: custody_ok_def treasury_ok_def ledger_balance_eq receipts_in_custody_def)

theorem cash_accounts_agree_witness:
  "billing_history eb_sha eb_date [eb_cash5, eb_cash4, eb_cash3, eb_cash2, eb_cash1, empty_billing_db] \<and>
   ledger_balance eb_cash5 CASH_IN_CUSTODY ''SYP'' (Some ''tech'') = 0 \<and>
   ledger_balance eb_cash5 TREASURY_CASH_UNRECONCILED ''SYP'' None = 240000 \<and>
   ledger_balance eb_cash5 CUSTODY_SHORTAGE_RECEIVABLE ''SYP'' (Some ''tech'') = 10000"
  using cash_accounts_agree [OF eb_cash5_history, of eb_cash5 "''SYP''" "''tech''"] eb_cash5_history
  by (simp add: eb_cash5_def receipts_in_custody_def in_custody_def handover_in_def opt_amount_def)

text \<open>
  C35. The custody report Finance reads calls every database of every history consistent: no
  holder's ledger differs from their receipts, no effective receipt is without a settled
  obligation, no cash settlement is without its receipt.
\<close>

theorem custody_report_is_consistent:
  assumes "billing_history sha parse_date h" and "db \<in> set h"
  shows "report_consistent (reconciliationReport now db)"
  using books_report [OF history_books [OF assms]] .

theorem custody_report_is_consistent_witness:
  "billing_history eb_sha eb_date [eb_cash5, eb_cash4, eb_cash3, eb_cash2, eb_cash1, empty_billing_db] \<and>
   report_consistent (reconciliationReport 2000 eb_cash5) \<and>
   cu_handoversWithDiscrepancy (reconciliationReport 2000 eb_cash5) = 1"
  using custody_report_is_consistent [OF eb_cash5_history, of eb_cash5 2000] eb_cash5_history
  by (simp add: reconciliationReport_def Let_def eb_cash5_def positive_amount_def)

section \<open>Who decided\<close>

text \<open>
  C34. On every database of every history: whoever collected a receipt is not the customer of its
  obligation, and whoever recorded an allocated credit is not the customer it pays for; a counted
  handover was counted by someone other than its holder, and a reconciled one was reconciled by
  someone who neither held nor counted it; a confirmed statement credit was approved by someone
  other than who recorded it; a refund past its request was decided by someone other than who
  requested it.
\<close>

theorem duties_are_separated:
  assumes "billing_history sha parse_date h" and "db \<in> set h"
  shows "(\<forall>r \<in> set (b_receipts db). \<exists>ob \<in> set (b_obligations db).
            ob_id ob = re_obligationId r \<and> re_collector r \<noteq> pr_subject (ob_owner ob)) \<and>
         (\<forall>c \<in> set (b_credits db). cr_status c = ALLOCATED \<longrightarrow> (\<exists>ob \<in> set (b_obligations db).
            cr_obligationId c = Some (ob_id ob) \<and> cr_recordedBy c \<noteq> Some (pr_subject (ob_owner ob)))) \<and>
         (\<forall>ha \<in> set (b_handovers db).
            (ha_status ha \<in> {RECEIVED, RECONCILED} \<longrightarrow> (\<exists>n. ha_receivedBy ha = Some n \<and> n \<noteq> ha_holder ha)) \<and>
            (ha_status ha = RECONCILED \<longrightarrow>
               (\<exists>n. ha_reconciledBy ha = Some n \<and> n \<noteq> ha_holder ha \<and> ha_receivedBy ha \<noteq> Some n))) \<and>
         (\<forall>c \<in> set (b_credits db). cr_source c = MERCHANT_STATEMENT \<and> cr_status c \<in> {UNALLOCATED, ALLOCATED} \<longrightarrow>
            (\<exists>n d. cr_recordedBy c = Some n \<and> cr_decidedBy c = Some d \<and> n \<noteq> d)) \<and>
         (\<forall>f \<in> set (b_refunds db). rf_status f \<noteq> REQUESTED \<longrightarrow>
            (\<exists>d. rf_decidedBy f = Some d \<and> d \<noteq> rf_requestedBy f))"
proof (intro conjI)
  note fund = history_parts(6) [OF assms] and duties = history_parts(11) [OF assms]
  show "\<forall>r \<in> set (b_receipts db). \<exists>ob \<in> set (b_obligations db).
          ob_id ob = re_obligationId r \<and> re_collector r \<noteq> pr_subject (ob_owner ob)"
    using fund unfolding funding_ok_def by blast
  show "\<forall>c \<in> set (b_credits db). cr_status c = ALLOCATED \<longrightarrow> (\<exists>ob \<in> set (b_obligations db).
          cr_obligationId c = Some (ob_id ob) \<and> cr_recordedBy c \<noteq> Some (pr_subject (ob_owner ob)))"
    using fund unfolding funding_ok_def by blast
qed (use history_parts(11) [OF assms] in
      \<open>simp_all add: duties_ok_def handover_duties_def credit_duties_def refund_duties_def confirmed_def\<close>)

theorem duties_are_separated_witness:
  "billing_history eb_sha eb_date [eb_cash5, eb_cash4, eb_cash3, eb_cash2, eb_cash1, empty_billing_db] \<and>
   billing_history eb_sha eb_date [eb_credit3, eb_credit2, eb_credit1, empty_billing_db] \<and>
   ha_status (hd (b_handovers eb_cash5)) = RECEIVED \<and>
   ha_receivedBy (hd (b_handovers eb_cash5)) \<noteq> Some (ha_holder (hd (b_handovers eb_cash5))) \<and>
   rf_status (hd (b_refunds eb_credit3)) = APPROVED \<and>
   rf_decidedBy (hd (b_refunds eb_credit3)) \<noteq> Some (rf_requestedBy (hd (b_refunds eb_credit3)))"
  using duties_are_separated [OF eb_cash5_history, of eb_cash5] duties_are_separated [OF eb_credit3_history, of eb_credit3]
    eb_cash5_history eb_credit3_history
  by (simp add: eb_cash5_def eb_credit3_def)

section \<open>Journals\<close>

lemma lines_total_sides:
  "lines_total c ls =
     (\<Sum>l \<leftarrow> filter (\<lambda>l. jl_side l = DEBIT \<and> mo_currency (jl_amount l) = c) ls. mo_amountMinor (jl_amount l)) -
     (\<Sum>l \<leftarrow> filter (\<lambda>l. jl_side l = CREDIT \<and> mo_currency (jl_amount l) = c) ls. mo_amountMinor (jl_amount l))"
proof (induction ls)
  case (Cons l ls)
  then show ?case by (cases "jl_side l") (simp_all add: lines_total_def line_delta_def signed_def)
qed (simp add: lines_total_def)

text \<open>
  C36. On every database of every history, every journal's debits equal its credits in each
  currency, and no two journals are of the same business fact.
\<close>

theorem journals_balance:
  assumes "billing_history sha parse_date h" and "db \<in> set h"
  shows "distinct (map (\<lambda>j. jp_businessRef (lj_plan j)) (b_journals db)) \<and>
         (\<forall>j \<in> set (b_journals db).
            (\<Sum>l \<leftarrow> filter (\<lambda>l. jl_side l = DEBIT \<and> mo_currency (jl_amount l) = c) (jp_lines (lj_plan j)).
               mo_amountMinor (jl_amount l)) =
            (\<Sum>l \<leftarrow> filter (\<lambda>l. jl_side l = CREDIT \<and> mo_currency (jl_amount l) = c) (jp_lines (lj_plan j)).
               mo_amountMinor (jl_amount l)))"
  using history_parts(10) [OF assms] by (simp add: journals_ok_def lines_total_sides)

theorem journals_balance_witness:
  "billing_history eb_sha eb_date [eb_cash5, eb_cash4, eb_cash3, eb_cash2, eb_cash1, empty_billing_db] \<and>
   distinct (map (\<lambda>j. jp_businessRef (lj_plan j)) (b_journals eb_cash5)) \<and>
   last (b_journals eb_cash5) \<in> set (b_journals eb_cash5) \<and>
   (\<Sum>l \<leftarrow> filter (\<lambda>l. jl_side l = DEBIT \<and> mo_currency (jl_amount l) = ''SYP'')
        (jp_lines (lj_plan (last (b_journals eb_cash5)))). mo_amountMinor (jl_amount l)) = 250000"
proof -
  have row: "last (b_journals eb_cash5) \<in> set (b_journals eb_cash5)" by (simp add: eb_cash5_def)
  have "(\<Sum>l \<leftarrow> filter (\<lambda>l. jl_side l = CREDIT \<and> mo_currency (jl_amount l) = ''SYP'')
      (jp_lines (lj_plan (last (b_journals eb_cash5)))). mo_amountMinor (jl_amount l)) = 250000"
    by (simp add: eb_cash5_def line_def holder_line_def)
  with journals_balance [OF eb_cash5_history, of eb_cash5] eb_cash5_history row show ?thesis by simp
qed

text \<open>
  C37. The journal check, which walks the entries once and adds up a table of totals, accepts
  exactly the journals of the specification: 2 to 1000 entries, each with an account, a currency
  and a positive amount of at most 18 digits, whose signed amounts are zero in every currency.
\<close>

theorem journal_check_is_exact: "assertBalancedJournal entries = Inr () \<longleftrightarrow> balanced_entries entries"
  by (rule assertBalancedJournal_iff)

section \<open>Money\<close>

lemma reserved_sum_nonneg: "\<forall>f \<in> set rfs. 0 < amount_of_refund f \<Longrightarrow> 0 \<le> reserved_sum k rfs"
  by (auto simp: reserved_sum_def sum_rows_def less_imp_le intro!: sum_list_nonneg)

text \<open>What the reads compute from a stored obligation or credit is an amount.\<close>

lemma obligation_reads:
  assumes "obligation_ok ob"
  shows "outstanding ob = Inr \<lparr>mo_currency = mo_currency (ob_amount ob),
           mo_amountMinor = (if ob_status ob = SETTLED then 0 else mo_amountMinor (ob_amount ob))\<rparr>"
    and "shown_outstanding ob = Inr (Money_toWire \<lparr>mo_currency = mo_currency (ob_amount ob),
           mo_amountMinor = (if ob_status ob = OPEN then mo_amountMinor (ob_amount ob) else 0)\<rparr>)"
proof -
  have "made_money \<lparr>mo_currency = mo_currency (ob_amount ob), mo_amountMinor = a\<rparr>"
    if "0 \<le> a" "a \<le> mo_amountMinor (ob_amount ob)" for a
    using assms that by (auto simp: obligation_ok_def valid_money_def made_money_def scale_defined_def)
  note made = this [of 0] this [of "mo_amountMinor (ob_amount ob)"]
  from assms have pos: "0 < mo_amountMinor (ob_amount ob)"
    and ver: "ob_verified ob = \<lparr>mo_currency = mo_currency (ob_amount ob),
       mo_amountMinor = (if ob_status ob = SETTLED then mo_amountMinor (ob_amount ob) else 0)\<rparr>"
    by (simp_all add: obligation_ok_def)
  from made pos show out: "outstanding ob = Inr \<lparr>mo_currency = mo_currency (ob_amount ob),
           mo_amountMinor = (if ob_status ob = SETTLED then 0 else mo_amountMinor (ob_amount ob))\<rparr>"
    by (simp add: outstanding_Inr ver)
  have "Money_zero (mo_currency (ob_amount ob)) = Inr \<lparr>mo_currency = mo_currency (ob_amount ob), mo_amountMinor = 0\<rparr>"
    using made pos by simp
  with out show "shown_outstanding ob = Inr (Money_toWire \<lparr>mo_currency = mo_currency (ob_amount ob),
           mo_amountMinor = (if ob_status ob = OPEN then mo_amountMinor (ob_amount ob) else 0)\<rparr>)"
    by (cases "ob_status ob") (simp_all add: shown_outstanding_def)
qed

lemma credit_reads:
  assumes "credits_ok crs" and "refunds_ok crs (b_refunds db)" and "c \<in> set crs"
  shows "reservedForRefund db c = Inr \<lparr>mo_currency = mo_currency (cr_amount c),
           mo_amountMinor = reserved_sum (cr_id c) (b_refunds db)\<rparr>"
    and "refundableAmount (cr_amount c) \<lparr>mo_currency = mo_currency (cr_amount c),
             mo_amountMinor = reserved_sum (cr_id c) (b_refunds db)\<rparr> =
           Inr \<lparr>mo_currency = mo_currency (cr_amount c),
             mo_amountMinor = mo_amountMinor (cr_amount c) - reserved_sum (cr_id c) (b_refunds db)\<rparr>"
proof -
  have "0 \<le> reserved_sum (cr_id c) (b_refunds db)"
    using assms(2) by (intro reserved_sum_nonneg) (simp add: refunds_ok_def)
  moreover have "reserved_sum (cr_id c) (b_refunds db) \<le> mo_amountMinor (cr_amount c)"
    using assms(2,3) by (simp add: refunds_ok_def)
  moreover have "valid_money (cr_amount c)" using assms(1,3) by (simp add: credits_ok_def)
  ultimately show "reservedForRefund db c = Inr \<lparr>mo_currency = mo_currency (cr_amount c),
           mo_amountMinor = reserved_sum (cr_id c) (b_refunds db)\<rparr>"
    and "refundableAmount (cr_amount c) \<lparr>mo_currency = mo_currency (cr_amount c),
             mo_amountMinor = reserved_sum (cr_id c) (b_refunds db)\<rparr> =
           Inr \<lparr>mo_currency = mo_currency (cr_amount c),
             mo_amountMinor = mo_amountMinor (cr_amount c) - reserved_sum (cr_id c) (b_refunds db)\<rparr>"
    by (auto simp: reservedForRefund_def refundableAmount_def Money_minus_Inr made_money_def valid_money_def
        scale_defined_def)
qed

text \<open>
  C38. On every database of every history, every stored amount is money: the amounts of
  obligations, receipts and credits are positive, in a supported currency and below the limit, an
  obligation has verified all of its amount or nothing, a refund is positive and in the currency
  of the confirmed credit it draws on. So no read can fail on them: what is outstanding of an
  obligation is computed, and shown as its amount while it is open and as zero afterwards, and the
  reserved and the refundable part of a credit are computed, the second being what the first
  leaves.
\<close>

theorem stored_money_is_valid:
  assumes "billing_history sha parse_date h" and "db \<in> set h"
  shows "(\<forall>ob \<in> set (b_obligations db). valid_money (ob_amount ob) \<and> 0 < mo_amountMinor (ob_amount ob) \<and>
            ob_verified ob = \<lparr>mo_currency = mo_currency (ob_amount ob),
              mo_amountMinor = (if ob_status ob = SETTLED then mo_amountMinor (ob_amount ob) else 0)\<rparr> \<and>
            outstanding ob = Inr \<lparr>mo_currency = mo_currency (ob_amount ob),
              mo_amountMinor = (if ob_status ob = SETTLED then 0 else mo_amountMinor (ob_amount ob))\<rparr> \<and>
            shown_outstanding ob = Inr (Money_toWire \<lparr>mo_currency = mo_currency (ob_amount ob),
              mo_amountMinor = (if ob_status ob = OPEN then mo_amountMinor (ob_amount ob) else 0)\<rparr>)) \<and>
         (\<forall>r \<in> set (b_receipts db). valid_money (re_amount r) \<and> 0 < mo_amountMinor (re_amount r)) \<and>
         (\<forall>c \<in> set (b_credits db). valid_money (cr_amount c) \<and> 0 < mo_amountMinor (cr_amount c) \<and>
            (\<exists>reserved. reservedForRefund db c = Inr reserved \<and>
               refundableAmount (cr_amount c) reserved = Inr \<lparr>mo_currency = mo_currency (cr_amount c),
                 mo_amountMinor = mo_amountMinor (cr_amount c) - mo_amountMinor reserved\<rparr>)) \<and>
         (\<forall>f \<in> set (b_refunds db). 0 < mo_amountMinor (rf_amount f) \<and>
            (\<exists>c \<in> set (b_credits db). cr_id c = rf_creditId f \<and> cr_status c \<in> {UNALLOCATED, ALLOCATED} \<and>
               mo_currency (rf_amount f) = mo_currency (cr_amount c)))"
proof (intro conjI)
  note ok = history_parts(1) [OF assms] and refunds = history_parts(4) [OF assms]
    and receipts = history_parts(13) [OF assms] and credits = history_parts(14) [OF assms]
  show "\<forall>ob \<in> set (b_obligations db). valid_money (ob_amount ob) \<and> 0 < mo_amountMinor (ob_amount ob) \<and>
            ob_verified ob = \<lparr>mo_currency = mo_currency (ob_amount ob),
              mo_amountMinor = (if ob_status ob = SETTLED then mo_amountMinor (ob_amount ob) else 0)\<rparr> \<and>
            outstanding ob = Inr \<lparr>mo_currency = mo_currency (ob_amount ob),
              mo_amountMinor = (if ob_status ob = SETTLED then 0 else mo_amountMinor (ob_amount ob))\<rparr> \<and>
            shown_outstanding ob = Inr (Money_toWire \<lparr>mo_currency = mo_currency (ob_amount ob),
              mo_amountMinor = (if ob_status ob = OPEN then mo_amountMinor (ob_amount ob) else 0)\<rparr>)"
    using ok obligation_reads by (auto simp only: obligations_ok_def obligation_ok_def)
  show "\<forall>r \<in> set (b_receipts db). valid_money (re_amount r) \<and> 0 < mo_amountMinor (re_amount r)"
    using receipts by (simp add: receipts_ok_def)
  show "\<forall>c \<in> set (b_credits db). valid_money (cr_amount c) \<and> 0 < mo_amountMinor (cr_amount c) \<and>
            (\<exists>reserved. reservedForRefund db c = Inr reserved \<and>
               refundableAmount (cr_amount c) reserved = Inr \<lparr>mo_currency = mo_currency (cr_amount c),
                 mo_amountMinor = mo_amountMinor (cr_amount c) - mo_amountMinor reserved\<rparr>)"
    using credits credit_reads [OF credits refunds] by (auto simp: credits_ok_def)
  show "\<forall>f \<in> set (b_refunds db). 0 < mo_amountMinor (rf_amount f) \<and>
            (\<exists>c \<in> set (b_credits db). cr_id c = rf_creditId f \<and> cr_status c \<in> {UNALLOCATED, ALLOCATED} \<and>
               mo_currency (rf_amount f) = mo_currency (cr_amount c))"
    using refunds by (simp add: refunds_ok_def confirmed_def)
qed

theorem stored_money_is_valid_witness:
  "billing_history eb_sha eb_date [eb_credit3, eb_credit2, eb_credit1, empty_billing_db] \<and>
   billing_history eb_sha eb_date [eb_cash2, eb_cash1, empty_billing_db] \<and>
   outstanding (hd (b_obligations eb_cash2)) = Inr (eb_money 250000) \<and>
   (\<exists>reserved. reservedForRefund eb_credit3 (hd (b_credits eb_credit3)) = Inr reserved)"
proof -
  have ob: "hd (b_obligations eb_cash2) \<in> set (b_obligations eb_cash2)"
    "ob_amount (hd (b_obligations eb_cash2)) = eb_money 250000" "ob_status (hd (b_obligations eb_cash2)) = OPEN"
    by (simp_all add: eb_cash2_def)
  have cr: "hd (b_credits eb_credit3) \<in> set (b_credits eb_credit3)"
    by (simp add: eb_credit3_def eb_credit2_def eb_credit1_def)
  have "eb_cash2 \<in> set [eb_cash2, eb_cash1, empty_billing_db]" by simp
  from stored_money_is_valid [OF eb_cash2_history this, THEN conjunct1, rule_format, OF ob(1)] ob(2,3)
  have "outstanding (hd (b_obligations eb_cash2)) = Inr (eb_money 250000)" by simp
  moreover have "eb_credit3 \<in> set [eb_credit3, eb_credit2, eb_credit1, empty_billing_db]" by simp
  from stored_money_is_valid [OF eb_credit3_history this, THEN conjunct2, THEN conjunct2, THEN conjunct1, rule_format, OF cr]
  have "\<exists>reserved. reservedForRefund eb_credit3 (hd (b_credits eb_credit3)) = Inr reserved" by blast
  ultimately show ?thesis using eb_cash2_history eb_credit3_history by blast
qed

text \<open>
  C39. An amount survives the wire, and the wire has one text for it: a value that parses to it has
  the currency, the digits and the scale it prints with.
\<close>

theorem money_wire_roundtrip:
  assumes "valid_money m"
  shows "Money_parse (wire_json (Money_toWire m)) = Inr m \<and>
         (\<forall>kvs. Money_parse (JObject kvs) = Inr m \<longrightarrow>
            field kvs ''currency'' = Some (JString (wi_currency (Money_toWire m))) \<and>
            field kvs ''amountMinor'' = Some (JString (wi_amountMinor (Money_toWire m))) \<and>
            field kvs ''scale'' = Some (JNumber (JsInt (int (wi_scale (Money_toWire m))))))"
proof (intro conjI allI impI)
  show "Money_parse (wire_json (Money_toWire m)) = Inr m" by (rule Money_parse_toWire [OF assms])
next
  fix kvs assume p: "Money_parse (JObject kvs) = Inr m"
  have canonical: "AMOUNT_text s \<Longrightarrow> show_int (parse_int s) = s" for s
    using amount_text_canonical by blast
  from p show "field kvs ''currency'' = Some (JString (wi_currency (Money_toWire m)))"
    and "field kvs ''amountMinor'' = Some (JString (wi_amountMinor (Money_toWire m)))"
    and "field kvs ''scale'' = Some (JNumber (JsInt (int (wi_scale (Money_toWire m)))))"
    by (auto simp: Money_parse_def Money_toWire_def Money_scale_def canonical
        split: if_splits option.splits json.splits)
qed

theorem money_wire_roundtrip_witness:
  "valid_money (eb_money 250000) \<and> Money_parse (eb_wire 250000) = Inr (eb_money 250000)"
  using money_wire_roundtrip [of "eb_money 250000"] by (simp add: eb_wire_def)

section \<open>Commands\<close>

lemma history_inv: "billing_history sha parse_date h \<Longrightarrow> history_ok h"
  using billing.reachable_inv [of "[empty_billing_db]" sha parse_date h]
  by (auto simp: billing_history_def billing_init_def)

text \<open>
  C32. Every command of the service refines the ledger machine: whatever database of the history
  it read before its transaction, what it leaves is reached from the current one by the machine's
  business facts (an obligation billed, cash collected, a credit allocated, a refund paid, a
  handover counted, ...), each with the journal it posts, or by none.
\<close>

theorem commands_refine_the_ledger:
  assumes "billing_history sha parse_date (db # past)" and "bq_seen rq \<in> set (db # past)"
    and "commands sha parse_date rq db db'"
  shows "ledger_step\<^sup>*\<^sup>* db db'"
  using history_inv [OF assms(1)] assms(2) by (intro commands_run [OF assms(3)]) (auto simp: history_ok_def)

theorem commands_refine_the_ledger_witness:
  "billing_history eb_sha eb_date [eb_cash2, eb_cash1, empty_billing_db] \<and>
   ob_status (hd (b_obligations eb_cash2)) = OPEN \<and> ob_status (hd (b_obligations eb_cash3)) = SETTLED \<and>
   ledger_step\<^sup>*\<^sup>* eb_cash2 eb_cash3"
proof -
  have "commands eb_sha eb_date (eb_rq ''tech'' COLLECT_PERMISSION CHR ''3'' eb_cash2) eb_cash2 eb_cash3"
    by (subst eb_cash3_db [symmetric]) (rule commands.intros(16))
  then have "ledger_step\<^sup>*\<^sup>* eb_cash2 eb_cash3"
    by (rule commands_refine_the_ledger [OF eb_cash2_history, rotated]) simp
  with eb_cash2_history show ?thesis by (simp add: eb_cash2_def eb_cash3_def)
qed

text \<open>A recorded answer stays, and is the one found under its key.\<close>

lemma answers_kept: "ledger_step\<^sup>*\<^sup>* db db' \<Longrightarrow> set (b_idempotency db) \<subseteq> set (b_idempotency db')"
proof (induction rule: rtranclp_induct)
  case (step y z)
  from step(3) answers_step [OF step(2)] show ?case by (auto simp: answer_saved_def)
qed simp

definition command_key :: "command \<Rightarrow> principal \<times> string \<times> string" where
  "command_key cmd = (co_actor cmd, co_operation cmd, co_key cmd)"

lemma committed_receipt_eq: "committed_receipt db cmd = find_row receipt_key (command_key cmd) (b_idempotency db)"
  by (simp add: committed_receipt_def findReceipt_def command_key_def receipt_key_def [abs_def])

lemma committed_receipt_current:
  assumes "books db" and "r \<in> set (b_idempotency db)" and "receipt_key r = command_key cmd"
  shows "committed_receipt db cmd = Some r"
  using find_row_distinct [OF books_parts(12) [OF assms(1)] assms(2)] assms(3) by (simp add: committed_receipt_eq)

lemma committed_receipt_seen:
  assumes "ledger_step\<^sup>*\<^sup>* seen db" and "books db" and "r \<in> set (b_idempotency db)"
    and "receipt_key r = command_key cmd"
  shows "committed_receipt seen cmd = None \<or> committed_receipt seen cmd = Some r"
proof (cases "committed_receipt seen cmd")
  case (Some r')
  then have "r' \<in> set (b_idempotency seen)" "receipt_key r' = command_key cmd"
    by (auto simp: committed_receipt_eq dest: find_row_Some)
  with answers_kept [OF assms(1)] distinct_key_eq [OF books_parts(12) [OF assms(2)] _ assms(3)] assms(4) Some
  show ?thesis by auto
qed simp

lemma execute_records:
  assumes "execute rq cmd work db = (Inr res, db')" and "\<not> cm_replayed res"
  obtains r where "r \<in> set (b_idempotency db')" and "receipt_key r = command_key cmd"
    and "replay r cmd = Inr \<lparr>cm_outcome = cm_outcome res, cm_replayed = True\<rparr>"
proof -
  have no: "replay r cmd \<noteq> Inr res" for r using assms(2) by (auto simp: replay_def app_error_def)
  from assms(1) no have tx: "execute_tx cmd work db = Inr (res, db')"
    by (auto simp: execute_def run_tx_def split: option.splits sum.splits)
  with no obtain db1 where "saveReceipt \<lparr>ir_actor = co_actor cmd, ir_operation = co_operation cmd, ir_key = co_key cmd,
      ir_fingerprint = co_fingerprint cmd, ir_outcome = cm_outcome res\<rparr> db1 = Inr db'"
    by (auto simp: execute_tx_def split: option.splits)
  then show ?thesis
    by (intro that) (auto simp: saveReceipt_def insert_row_def receipt_key_def command_key_def replay_def split: if_splits)
qed

text \<open>
  C33. A command acts once. When a command has answered, any later command under the same actor,
  operation and key, whatever it would have done, whatever committed in between and whichever
  database of the history it reads first, answers the recorded outcome, marked as a replay, and
  changes nothing.
\<close>

theorem command_acts_once:
  assumes "billing_history sha parse_date (db2 # past)"
    and "execute rq cmd work db = (Inr res, db1)" and "\<not> cm_replayed res" and "db1 \<in> set (db2 # past)"
    and "bq_seen again \<in> set (db2 # past)"
  shows "execute again cmd work' db2 = (Inr \<lparr>cm_outcome = cm_outcome res, cm_replayed = True\<rparr>, db2)"
proof -
  from history_inv [OF assms(1)] assms(4,5) have bk: "books db2"
    and run: "ledger_step\<^sup>*\<^sup>* db1 db2" "ledger_step\<^sup>*\<^sup>* (bq_seen again) db2"
    by (auto simp: history_ok_def)
  obtain r where r: "r \<in> set (b_idempotency db1)" "receipt_key r = command_key cmd"
    and rep: "replay r cmd = Inr \<lparr>cm_outcome = cm_outcome res, cm_replayed = True\<rparr>"
    using execute_records [OF assms(2,3)] .
  from r(1) answers_kept [OF run(1)] have now: "r \<in> set (b_idempotency db2)" by blast
  from committed_receipt_seen [OF run(2) bk now r(2)] committed_receipt_current [OF bk now r(2)] rep
  show ?thesis by (auto simp: execute_def execute_tx_def run_tx_def)
qed

definition eb_create :: command where
  "eb_create = make_command eb_sha (eb_who ''amal'') ''billing.obligation.create.v1'' (eb_key CHR ''a'')
     [(''quoteId'', JString (eb_uuid CHR ''c''))]"

theorem command_acts_once_witness:
  "\<exists>res. execute (eb_rq ''amal'' CREATE_PERMISSION CHR ''1'' empty_billing_db) eb_create
       (createObligation_tx (eb_rq ''amal'' CREATE_PERMISSION CHR ''1'' empty_billing_db) (eb_who ''amal'')
          (eb_uuid CHR ''c'') (eb_money 250000)) empty_billing_db = (Inr res, eb_cash1) \<and>
     cm_replayed res = False \<and>
     execute (eb_rq ''amal'' CREATE_PERMISSION CHR ''9'' empty_billing_db) eb_create
       (createObligation_tx (eb_rq ''amal'' CREATE_PERMISSION CHR ''9'' empty_billing_db) (eb_who ''amal'')
          (eb_uuid CHR ''c'') (eb_money 250000)) eb_cash2 =
       (Inr \<lparr>cm_outcome = cm_outcome res, cm_replayed = True\<rparr>, eb_cash2)"
proof -
  let ?rq = "eb_rq ''amal'' CREATE_PERMISSION CHR ''1'' empty_billing_db"
  let ?work = "\<lambda>rq. createObligation_tx rq (eb_who ''amal'') (eb_uuid CHR ''c'') (eb_money 250000)"
  have "\<exists>res. execute ?rq eb_create (?work ?rq) empty_billing_db = (Inr res, eb_cash1) \<and> \<not> cm_replayed res"
    by (simp add: eb_eval eb_inputs eb_create_def eb_cash1_def)
  then obtain res where res: "execute ?rq eb_create (?work ?rq) empty_billing_db = (Inr res, eb_cash1)"
    "\<not> cm_replayed res" by blast
  with command_acts_once [OF eb_cash2_history res] show ?thesis by (intro exI [of _ res]) simp
qed

section \<open>A claim whose credit has already arrived\<close>

text \<open>
  C40. A submission of a claim that leaves its obligation settled, which it was not before, found
  the credit already there. On every database of every history it publishes the new status twice:
  first the settlement's event, from under review or outcome unknown to paid, then the event of
  the credit it allocated, then the command's own event, from awaiting payment to paid, for the same
  obligation at the same revision and with the same amounts.
\<close>

theorem late_claim_publishes_twice:
  assumes "billing_history sha parse_date h" and "db \<in> set h"
    and "snd (submitAttempt sha rq i key body db) = db'"
    and "ob \<in> set (b_obligations db)" and "ob_id ob = i" and "ob_status ob \<noteq> SETTLED"
    and "ob' \<in> set (b_obligations db')" and "ob_id ob' = i" and "ob_status ob' = SETTLED"
  shows "\<exists>ctx ctx' middle due c.
     b_outbox db' = b_outbox db @
       [ObligationStatusChangedV1 ctx middle PAID (Money_toWire (ob_verified ob')) due,
        creditEvent rq 14 None (Some UNALLOCATED) c,
        ObligationStatusChangedV1 ctx' AWAITING_PAYMENT PAID (Money_toWire (ob_verified ob')) due] \<and>
     middle \<in> {FS_UNDER_REVIEW, OUTCOME_UNKNOWN} \<and> shown_outstanding ob' = Inr due \<and>
     ev_aggregateId ctx = i \<and> ev_aggregateId ctx' = i \<and>
     ev_revision ctx = ob_revision ob' \<and> ev_revision ctx' = ob_revision ob' \<and>
     cr_status c = ALLOCATED \<and> cr_obligationId c = Some i"
proof -
  note bk = history_books [OF assms(1,2)]
  have "db' \<noteq> db"
  proof
    assume "db' = db"
    with assms(4-9) books_keys(1) [OF bk] distinct_key_eq [of ob_id "b_obligations db" ob ob'] show False by auto
  qed
  with submitAttempt_ran [of sha rq i key body db] assms(3) obtain owner n ref res db1 r
    where tx: "submitAttempt_tx rq owner i n ref db = Inr (res, db1)" and saved: "saveReceipt r db1 = Inr db'"
    by auto
  have same: "b_obligations db' = b_obligations db1" "b_outbox db' = b_outbox db1"
    using saveReceipt_Inr(1) [OF saved] by simp_all
  show ?thesis
    unfolding same
  proof (rule late_claim_events [OF bk tx assms(7) [unfolded same] assms(8,9)], goal_cases)
    case (1 middle due c)
    then show ?case
      by (intro exI [of _ "event_context_of rq 13 None i (ob_revision ob')"]
          exI [of _ "event_context_of rq 2 (Some owner) i (ob_revision ob')"] exI [of _ middle] exI [of _ due] exI [of _ c])
        (simp add: event_context_of_def)
  qed
qed

theorem late_claim_publishes_twice_witness:
  "snd (submitAttempt eb_sha (eb_rq ''amal'' CREATE_PERMISSION CHR ''4'' eb_late3) (eb_uuid CHR ''1'')
     (Some (JString (eb_key CHR ''h''))) (JObject [eb_revision 2, (''providerReference'', JString ''abcd-1234'')])
     eb_late3) = eb_late4 \<and>
   billing_history eb_sha eb_date [eb_late3, eb_late2, eb_cash1, empty_billing_db] \<and>
   ob_status (hd (b_obligations eb_late3)) = OPEN \<and> ob_status (hd (b_obligations eb_late4)) = SETTLED \<and>
   length (b_outbox eb_late4) = length (b_outbox eb_late3) + 3"
proof -
  have "length (b_outbox eb_late4) = length (b_outbox eb_late3) + 3"
    using late_claim_publishes_twice [OF eb_late3_history _ eb_late4_db, of "hd (b_obligations eb_late3)" "hd (b_obligations eb_late4)"]
    by (auto simp: eb_late4_def eb_late3_def eb_late2_def)
  moreover have "ob_status (hd (b_obligations eb_late3)) = OPEN" "ob_status (hd (b_obligations eb_late4)) = SETTLED"
    by (simp_all add: eb_late4_def eb_late3_def eb_late2_def)
  ultimately show ?thesis using eb_late4_db eb_late3_history by blast
qed

end
