(* ===== verification/Spec2Isabelle.thy ===== *)
theory Spec2Isabelle
  imports Sched_Properties Booking_Change_Properties Billing_Properties
begin

text \<open>
  A verification development of WashGo, a platform on which customers book a car wash: services
  in TypeScript (under \<^verbatim>\<open>services/\<close>) that each own a PostgreSQL database and talk by commands
  and by events from a transactional outbox.

  \<^bold>\<open>The parts.\<close> Scheduling sells capacity: operators define windows of units, a customer holds a
  unit for a while, and Booking commits the hold to a booking, releases it, or replaces it by
  another. Booking owns bookings: a creation saga validates the quote with Pricing, creates an
  obligation at Billing, commits the hold at Scheduling (the pivot, after which time alone no
  longer rejects) and compensates if it has to; a change saga cancels or reschedules a confirmed
  booking with Dispatch, Scheduling and Billing. Both sagas are rows of the database that
  workers lease, and every write of a worker is fenced by its lease. Billing owns money: an
  obligation per quote, settled by cash a technician collects, hands over and the treasury counts,
  or by a provider's credit matched to the customer's claim; refunds of credits; a double-entry
  ledger of all of it. Booking's saga reaches it by \<open>createForBooking\<close> and \<open>voidForBooking\<close>.

  \<^bold>\<open>How the code is modelled.\<close> A function of \<^verbatim>\<open>domain/\<close> is a function, an exception an \<open>Inl\<close>
  of an error type. A store is a record of tables (lists of row records); a method of a Prisma
  store that is one transaction is one function on that record, with the unique indexes and the
  conditional updates it relies on, and a transaction that throws leaves the database as it was.
  A handler of \<^verbatim>\<open>application/\<close> composes them the way the code does. The clock, the random
  source, generated ids and the answers of other services are arguments; where a loop asks for
  them repeatedly it takes a list, one environment per iteration, so a run that has used them all
  is \<open>None\<close>, and a theorem of its own says when it returns. Numbers are mathematical integers
  with the range checks the code makes (\<^verbatim>\<open>Number.isSafeInteger\<close>, \<^verbatim>\<open>numeric\<close> bounds)
  written out; an instant is the integer of its milliseconds.

  \<^bold>\<open>Theories.\<close>
  \<^item> \<open>Prelude\<close>: results, transactions, tables as lists of rows, ASCII text and UUIDs, the locale
    \<open>transition_system\<close> (initial states, steps, an invariant). \<open>Decimal\<close>: decimal numerals as
    they are printed and parsed.
  \<^item> \<open>Sched_Window\<close>, \<open>Sched_Hold\<close> (\<^verbatim>\<open>scheduling/src/domain\<close>), \<open>Sched_Store\<close>
    (\<^verbatim>\<open>prisma-scheduling.store.ts\<close>), \<open>Sched_Service\<close> and \<open>Sched_Commitments\<close>
    (\<^verbatim>\<open>application/holds-v1.service.ts\<close>, \<^verbatim>\<open>commitments.service.ts\<close>,
    \<^verbatim>\<open>capacity.service.ts\<close> and \<^verbatim>\<open>expiry.ts\<close>). A command is one step; the sweep \<open>expireDue\<close> is
    one per window: its environment (\<open>sweep_env\<close>) says what commits before each unit of work and
    which windows other transactions have locked, which \<open>lockWindow\<close> then skips. \<open>Sched_Invariant\<close>, \<open>Sched_Expiry\<close>, \<open>Sched_Safety\<close>, \<open>Sched_Idempotency\<close>
    and \<open>Sched_Liveness\<close> hold the invariant of the tables and what each command keeps of it;
    \<open>Sched_Properties\<close> states what the service promises.
  \<^item> \<open>Booking_Core\<close>, \<open>Booking_Saga\<close>, \<open>Booking_Change\<close>, \<open>Booking_Events\<close>
    (\<^verbatim>\<open>booking/src/domain\<close>), \<open>Booking_Store\<close> (\<^verbatim>\<open>prisma-booking.store.ts\<close>,
    \<^verbatim>\<open>prisma-change.store.ts\<close>), \<open>Booking_Manager\<close> (\<^verbatim>\<open>process-manager.ts\<close>) and
    \<open>Booking_Change_Manager\<close> (\<^verbatim>\<open>change-manager.ts\<close>).
  \<^item> \<open>Fenced_Leases\<close>: the locale of tables whose rows workers lease, interpreted on the saga table
    and on the change table: at most one worker can still write a row, and its copy is the row.
  \<^item> \<open>Booking_System\<close> and \<open>Booking_Safety\<close>: booking creation by any number of workers in any
    interleaving of their transactions and calls, its invariant, and the saga as an abstract
    machine the decisions refine. \<open>Booking_Change_System\<close> and \<open>Booking_Change_Safety\<close>: the same
    for changes. Each treats the transactions of the other as one step that satisfies a rely
    condition; \<open>Booking_Joint\<close> shows that each guarantees what the other relies on and composes them.
  \<^item> \<open>Booking_Properties\<close> and \<open>Booking_Change_Properties\<close>: what Booking promises.
  \<^item> \<open>Billing_Money\<close>, \<open>Billing_Payment\<close>, \<open>Billing_Journal\<close>, \<open>Billing_Rules\<close>
    (\<^verbatim>\<open>billing/src/domain\<close>), \<open>Billing_Store\<close> (the four Prisma stores, the views and the events),
    \<open>Billing_Commands\<close> (\<^verbatim>\<open>command-support.ts\<close>, \<^verbatim>\<open>billing.service.ts\<close>,
    \<^verbatim>\<open>booking-obligation.service.ts\<close>, \<^verbatim>\<open>credit-settlement.ts\<close>), \<open>Billing_Providers\<close>
    (\<^verbatim>\<open>provider-payments.service.ts\<close>, \<^verbatim>\<open>refund.service.ts\<close>) and \<open>Billing_Custody\<close>
    (\<^verbatim>\<open>cash-custody.service.ts\<close>): all 21 commands of the service. The transaction of a command is a
    function of its own (\<open>submitAttempt_tx\<close>), run by \<open>execute\<close>; the reads before it
    (\<open>bq_seen\<close>) and after a failure (\<open>bq_later\<close>) are of databases of their own, since others may
    commit in between.
  \<^item> \<open>Billing_Ledger\<close>: the abstract ledger machine \<open>ledger_step\<close>, one rule per business fact, and
    its invariant \<open>books\<close>; \<open>Billing_Books\<close>, \<open>Billing_Books_Credits\<close>, \<open>Billing_Books_Funding\<close>
    and \<open>Billing_Books_Handovers\<close> show that every rule keeps it. \<open>Billing_Statements\<close>,
    \<open>Billing_Refinement\<close>, \<open>Billing_Refinement_Funds\<close> and \<open>Billing_Refinement_Custody\<close> show that
    every transaction is a run of the machine; \<open>Billing_System\<close> takes the commands together: a
    history of committed databases, an instance of \<open>transition_system\<close>.
  \<^item> \<open>Billing_Late_Claims\<close>: what a claim whose credit had already arrived publishes.
    \<open>Billing_Examples\<close>: short histories, computed, for the witnesses. \<open>Billing_Properties\<close>: what Billing promises.

  \<^bold>\<open>What is shown.\<close> Scheduling: no unit of capacity is sold twice; every hold lies in
  a window of its zone and a booking has at most one commitment; a repeated commit answers as the
  first until the retention job has run past it; a live hold commits, an expired one does not; a
  hold is granted with exactly the writes listed; the sweep always ends normally and leaves only what
  its limit or a lock made it pass over; a reschedule moves the commitment. Booking: the outbox
  tells the life of every booking exactly; a confirmed booking has the slot that was asked for and
  committed; a booking given up on time was never sent for commit; a rejected booking leaves no
  obligation; a worker whose saga was taken over writes nothing; a change takes effect exactly
  once; a completed cancellation has the answers of Dispatch, Scheduling and Billing it needs; an
  open change owns its booking; the loops return; money is exact and survives the wire. Billing,
  on every database of every history: the ledger's accounts are what the rows say (open
  obligations, cash in custody, treasury, shortages, overages, unallocated credits); an obligation
  is settled by exactly one payment of exactly its amount; refunds stay within their credit;
  recorder, approver, holder, counter and customer are different people where the rules say so;
  every stored amount is money no read fails on; the custody report is consistent; a repeated
  command acts once; every command refines the ledger machine. A claim that is settled at once, its
  credit having arrived before, always publishes its new status twice.

  \<^bold>\<open>Not modelled.\<close> HTTP transport and clients, authentication, messaging and configuration
  (input and output); retries of serialization failures (a transaction that is retried is one
  that did not happen); triggers, and CHECK constraints other than Billing's positive amounts;
  Unicode normalisation of contact texts; of Billing, the hash of the canonical request (an argument),
  the JSON views of receipts, handovers, credits and refunds (an answer carries the row), the
  self-check of event payloads and Finance's read-only queries; the web applications; the services the manifest lists as not modelled.
\<close>

end
